(* ===== verification/Job_Status.thy ===== *)
theory Job_Status
  imports Prelude
begin

text \<open>
  \<open>packages/shared/src/job-status.ts\<close>: the job life cycle (statuses, their classes, the transition
  table) and the roles with their ranks. The transition table is used as a step relation; the
  lemmas say which statuses are final, which can be entered at all, and what lies on every path to
  a completed job.
\<close>

section \<open>Statuses\<close>

datatype JobStatus =
    QUEUED
  | DISPATCHING
  | DISPATCH_TIMEOUT
  | DISPATCH_FAILED
  | BLOCKED
  | STAGING
  | VALIDATING
  | VALIDATION_REPORT
  | VALIDATION_FAILED
  | REIMPORT_FAILED
  | COMMITTING
  | COMMIT_FAILED
  | POST_COMMIT_VERIFY
  | ROLLBACK
  | COMPLETED
  | LOCK_STALE
  | DEP_FAILED
  | PAUSED_EDITOR_LOCK
  | CANCELLED
  | DEAD_LETTER

definition JOB_STATUSES :: "JobStatus list" where
  "JOB_STATUSES =
     [QUEUED, DISPATCHING, DISPATCH_TIMEOUT, DISPATCH_FAILED, BLOCKED, STAGING, VALIDATING,
      VALIDATION_REPORT, VALIDATION_FAILED, REIMPORT_FAILED, COMMITTING, COMMIT_FAILED,
      POST_COMMIT_VERIFY, ROLLBACK, COMPLETED, LOCK_STALE, DEP_FAILED, PAUSED_EDITOR_LOCK,
      CANCELLED, DEAD_LETTER]"

fun status_name :: "JobStatus \<Rightarrow> string" where
  "status_name QUEUED = ''QUEUED''"
| "status_name DISPATCHING = ''DISPATCHING''"
| "status_name DISPATCH_TIMEOUT = ''DISPATCH_TIMEOUT''"
| "status_name DISPATCH_FAILED = ''DISPATCH_FAILED''"
| "status_name BLOCKED = ''BLOCKED''"
| "status_name STAGING = ''STAGING''"
| "status_name VALIDATING = ''VALIDATING''"
| "status_name VALIDATION_REPORT = ''VALIDATION_REPORT''"
| "status_name VALIDATION_FAILED = ''VALIDATION_FAILED''"
| "status_name REIMPORT_FAILED = ''REIMPORT_FAILED''"
| "status_name COMMITTING = ''COMMITTING''"
| "status_name COMMIT_FAILED = ''COMMIT_FAILED''"
| "status_name POST_COMMIT_VERIFY = ''POST_COMMIT_VERIFY''"
| "status_name ROLLBACK = ''ROLLBACK''"
| "status_name COMPLETED = ''COMPLETED''"
| "status_name LOCK_STALE = ''LOCK_STALE''"
| "status_name DEP_FAILED = ''DEP_FAILED''"
| "status_name PAUSED_EDITOR_LOCK = ''PAUSED_EDITOR_LOCK''"
| "status_name CANCELLED = ''CANCELLED''"
| "status_name DEAD_LETTER = ''DEAD_LETTER''"

definition ACTIVE_GENERATION_STATUSES :: "JobStatus list" where
  "ACTIVE_GENERATION_STATUSES =
     [QUEUED, DISPATCHING, STAGING, VALIDATING, VALIDATION_REPORT, COMMITTING, POST_COMMIT_VERIFY]"

definition RETRIABLE_FAILURE_STATUSES :: "JobStatus list" where
  "RETRIABLE_FAILURE_STATUSES =
     [REIMPORT_FAILED, VALIDATION_FAILED, COMMIT_FAILED, DISPATCH_TIMEOUT, DISPATCH_FAILED]"

definition TERMINAL_STATUSES :: "JobStatus list" where
  "TERMINAL_STATUSES = [COMPLETED, ROLLBACK, DEP_FAILED, CANCELLED, DEAD_LETTER]"

definition isTerminal :: "JobStatus \<Rightarrow> bool" where
  "isTerminal s = (s \<in> set TERMINAL_STATUSES)"

definition isRetriableFailure :: "JobStatus \<Rightarrow> bool" where
  "isRetriableFailure s = (s \<in> set RETRIABLE_FAILURE_STATUSES)"

definition isActiveGeneration :: "JobStatus \<Rightarrow> bool" where
  "isActiveGeneration s = (s \<in> set ACTIVE_GENERATION_STATUSES)"

fun JOB_STATUS_TRANSITIONS :: "JobStatus \<Rightarrow> JobStatus list" where
  "JOB_STATUS_TRANSITIONS QUEUED =
     [DISPATCHING, DISPATCH_FAILED, BLOCKED, CANCELLED, LOCK_STALE]"
| "JOB_STATUS_TRANSITIONS DISPATCHING =
     [STAGING, DISPATCH_TIMEOUT, DISPATCH_FAILED, BLOCKED, CANCELLED, LOCK_STALE]"
| "JOB_STATUS_TRANSITIONS DISPATCH_TIMEOUT =
     [QUEUED, DEAD_LETTER, CANCELLED, LOCK_STALE, DISPATCH_FAILED]"
| "JOB_STATUS_TRANSITIONS DISPATCH_FAILED = [QUEUED, DEAD_LETTER, CANCELLED, LOCK_STALE]"
| "JOB_STATUS_TRANSITIONS BLOCKED = [QUEUED, CANCELLED]"
| "JOB_STATUS_TRANSITIONS STAGING =
     [VALIDATING, REIMPORT_FAILED, PAUSED_EDITOR_LOCK, LOCK_STALE, CANCELLED]"
| "JOB_STATUS_TRANSITIONS VALIDATING =
     [VALIDATION_REPORT, VALIDATION_FAILED, REIMPORT_FAILED, LOCK_STALE, CANCELLED]"
| "JOB_STATUS_TRANSITIONS VALIDATION_REPORT = [COMMITTING, VALIDATION_FAILED, CANCELLED]"
| "JOB_STATUS_TRANSITIONS REIMPORT_FAILED = [QUEUED, DEAD_LETTER, CANCELLED, LOCK_STALE]"
| "JOB_STATUS_TRANSITIONS VALIDATION_FAILED = [QUEUED, DEAD_LETTER, CANCELLED, LOCK_STALE]"
| "JOB_STATUS_TRANSITIONS COMMITTING =
     [POST_COMMIT_VERIFY, COMMIT_FAILED, PAUSED_EDITOR_LOCK, LOCK_STALE, CANCELLED]"
| "JOB_STATUS_TRANSITIONS COMMIT_FAILED = [QUEUED, DEAD_LETTER, CANCELLED, LOCK_STALE]"
| "JOB_STATUS_TRANSITIONS POST_COMMIT_VERIFY =
     [COMPLETED, ROLLBACK, REIMPORT_FAILED, LOCK_STALE, CANCELLED]"
| "JOB_STATUS_TRANSITIONS ROLLBACK = []"
| "JOB_STATUS_TRANSITIONS COMPLETED = []"
| "JOB_STATUS_TRANSITIONS LOCK_STALE = [QUEUED, DEAD_LETTER, CANCELLED, DISPATCH_FAILED]"
| "JOB_STATUS_TRANSITIONS DEP_FAILED = []"
| "JOB_STATUS_TRANSITIONS PAUSED_EDITOR_LOCK = [STAGING, CANCELLED, LOCK_STALE]"
| "JOB_STATUS_TRANSITIONS CANCELLED = []"
| "JOB_STATUS_TRANSITIONS DEAD_LETTER = []"

definition canTransitionJobStatus :: "JobStatus \<Rightarrow> JobStatus \<Rightarrow> bool" where
  "canTransitionJobStatus from_s to_s =
     (if from_s = to_s then True else to_s \<in> set (JOB_STATUS_TRANSITIONS from_s))"

section \<open>Tiers, commit strategies, lock health, roles\<close>

datatype WorkerTier = TierA | TierB

datatype CommitStrategy = same_machine | cross_machine

datatype LockHealth = healthy | stale | reclaimed | unknown

datatype Role = callback | viewer | operator | admin

fun ROLE_RANK :: "Role \<Rightarrow> nat" where
  "ROLE_RANK callback = 0"
| "ROLE_RANK viewer = 1"
| "ROLE_RANK operator = 2"
| "ROLE_RANK admin = 3"

definition hasMinRole :: "Role \<Rightarrow> Role \<Rightarrow> bool" where
  "hasMinRole userRole required = (ROLE_RANK userRole \<ge> ROLE_RANK required)"

definition hasExactRole :: "Role \<Rightarrow> Role \<Rightarrow> bool" where
  "hasExactRole userRole required = (userRole = required)"

text \<open>Roles are ordered by rank, so the library's order facts apply to them.\<close>

instantiation Role :: linorder
begin

definition less_eq_Role :: "Role \<Rightarrow> Role \<Rightarrow> bool" where
  "less_eq_Role r s = (ROLE_RANK r \<le> ROLE_RANK s)"

definition less_Role :: "Role \<Rightarrow> Role \<Rightarrow> bool" where
  "less_Role r s = (ROLE_RANK r < ROLE_RANK s)"

instance
proof
  fix r s t :: Role
  show "(r < s) = (r \<le> s \<and> \<not> s \<le> r)"
    by (auto simp: less_eq_Role_def less_Role_def)
  show "r \<le> r" by (simp add: less_eq_Role_def)
  show "r \<le> s \<Longrightarrow> s \<le> t \<Longrightarrow> r \<le> t" by (simp add: less_eq_Role_def)
  show "r \<le> s \<Longrightarrow> s \<le> r \<Longrightarrow> r = s"
    by (cases r; cases s) (simp_all add: less_eq_Role_def)
  show "r \<le> s \<or> s \<le> r" by (auto simp: less_eq_Role_def)
qed

end

section \<open>Status classes\<close>

lemmas status_class_defs =
  isTerminal_def isRetriableFailure_def isActiveGeneration_def
  TERMINAL_STATUSES_def RETRIABLE_FAILURE_STATUSES_def ACTIVE_GENERATION_STATUSES_def

lemma JOB_STATUSES_complete: "s \<in> set JOB_STATUSES"
  by (cases s) (simp_all add: JOB_STATUSES_def)

lemma isTerminal_simps [simp]:
  "isTerminal COMPLETED" "isTerminal ROLLBACK" "isTerminal DEP_FAILED" "isTerminal CANCELLED"
  "isTerminal DEAD_LETTER" "\<not> isTerminal QUEUED" "\<not> isTerminal BLOCKED"
  "\<not> isTerminal DISPATCHING" "\<not> isTerminal DISPATCH_FAILED" "\<not> isTerminal LOCK_STALE"
  "\<not> isTerminal DISPATCH_TIMEOUT"
  by (simp_all add: status_class_defs)

lemma isRetriableFailure_simps [simp]:
  "isRetriableFailure DISPATCH_FAILED" "isRetriableFailure DISPATCH_TIMEOUT"
  "isRetriableFailure REIMPORT_FAILED" "isRetriableFailure VALIDATION_FAILED"
  "isRetriableFailure COMMIT_FAILED" "\<not> isRetriableFailure QUEUED"
  "\<not> isRetriableFailure DEP_FAILED" "\<not> isRetriableFailure DEAD_LETTER"
  by (simp_all add: status_class_defs)

lemma terminal_not_retriable: "isTerminal s \<Longrightarrow> \<not> isRetriableFailure s"
  by (cases s) (simp_all add: status_class_defs)

lemma status_name_inj: "status_name s = status_name t \<Longrightarrow> s = t"
  by (cases s; cases t) simp_all

text \<open>Statuses without an exit are exactly the terminal ones.\<close>

lemma terminal_iff_no_exit: "isTerminal s \<longleftrightarrow> JOB_STATUS_TRANSITIONS s = []"
  by (cases s) (simp_all add: status_class_defs)

lemma retriable_exits:
  "isRetriableFailure s \<Longrightarrow>
     canTransitionJobStatus s QUEUED \<and> canTransitionJobStatus s DEAD_LETTER
     \<and> canTransitionJobStatus s CANCELLED"
  by (cases s) (simp_all add: status_class_defs canTransitionJobStatus_def)

lemma no_transition_into_DEP_FAILED:
  "canTransitionJobStatus s DEP_FAILED \<longleftrightarrow> s = DEP_FAILED"
  by (cases s) (simp_all add: canTransitionJobStatus_def)

section \<open>Runs of the life cycle\<close>

text \<open>\<open>fsm_run s trace t\<close>: the statuses entered after \<open>s\<close>, in order, the last one being \<open>t\<close>.\<close>

inductive fsm_run :: "JobStatus \<Rightarrow> JobStatus list \<Rightarrow> JobStatus \<Rightarrow> bool" where
  stop: "fsm_run s [] s"
| step: "canTransitionJobStatus s t \<Longrightarrow> fsm_run t tr u \<Longrightarrow> fsm_run s (t # tr) u"

inductive_simps fsm_run_Nil: "fsm_run s [] t"
inductive_simps fsm_run_Cons: "fsm_run s (t # tr) u"

code_pred fsm_run .

lemma fsm_run_terminal: "fsm_run s tr t \<Longrightarrow> isTerminal s \<Longrightarrow> t = s \<and> set tr \<subseteq> {s}"
proof (induction rule: fsm_run.induct)
  case (stop s)
  then show ?case by simp
next
  case (step s t tr u)
  from \<open>isTerminal s\<close> have "JOB_STATUS_TRANSITIONS s = []"
    by (simp only: terminal_iff_no_exit)
  with step.hyps(1) have "t = s"
    by (simp add: canTransitionJobStatus_def split: if_splits)
  with step show ?case by auto
qed

text \<open>A set of statuses closed under the transitions confines every run that starts in it.\<close>

lemma fsm_run_confined:
  assumes "fsm_run s tr t" and "s \<in> A"
    and "\<And>x y. x \<in> A \<Longrightarrow> canTransitionJobStatus x y \<Longrightarrow> y \<notin> B \<Longrightarrow> y \<in> A"
    and "set tr \<inter> B = {}"
  shows "t \<in> A"
  using assms(1,2,4)
proof (induction rule: fsm_run.induct)
  case (stop s)
  then show ?case by simp
next
  case (step s t tr u)
  then show ?case using assms(3) by auto
qed

text \<open>\<open>only_exit A m\<close>: a transition out of \<open>A\<close> enters \<open>m\<close>.\<close>

definition only_exit :: "JobStatus set \<Rightarrow> JobStatus \<Rightarrow> bool" where
  "only_exit A m = (\<forall>x y. x \<in> A \<and> canTransitionJobStatus x y \<and> y \<noteq> m \<longrightarrow> y \<in> A)"

definition before_validation_report :: "JobStatus set" where
  "before_validation_report =
     - {VALIDATION_REPORT, COMMITTING, COMMIT_FAILED, POST_COMMIT_VERIFY, ROLLBACK, COMPLETED}"

definition before_verify :: "JobStatus set" where
  "before_verify = - {POST_COMMIT_VERIFY, ROLLBACK, COMPLETED}"

definition before_commit :: "JobStatus set" where
  "before_commit = - {COMMITTING, COMMIT_FAILED, POST_COMMIT_VERIFY, ROLLBACK, COMPLETED}"

lemma only_exit_before:
  "only_exit before_validation_report VALIDATION_REPORT"
  "only_exit before_commit COMMITTING"
  "only_exit before_verify POST_COMMIT_VERIFY"
proof -
  have "x \<in> before_validation_report \<Longrightarrow> canTransitionJobStatus x y \<Longrightarrow> y \<noteq> VALIDATION_REPORT
     \<Longrightarrow> y \<in> before_validation_report" for x y
    by (cases x) (auto simp: before_validation_report_def canTransitionJobStatus_def)
  moreover have "x \<in> before_commit \<Longrightarrow> canTransitionJobStatus x y \<Longrightarrow> y \<noteq> COMMITTING
     \<Longrightarrow> y \<in> before_commit" for x y
    by (cases x) (auto simp: before_commit_def canTransitionJobStatus_def)
  moreover have "x \<in> before_verify \<Longrightarrow> canTransitionJobStatus x y \<Longrightarrow> y \<noteq> POST_COMMIT_VERIFY
     \<Longrightarrow> y \<in> before_verify" for x y
    by (cases x) (auto simp: before_verify_def canTransitionJobStatus_def)
  ultimately show "only_exit before_validation_report VALIDATION_REPORT"
    and "only_exit before_commit COMMITTING" and "only_exit before_verify POST_COMMIT_VERIFY"
    unfolding only_exit_def by blast+
qed

lemmas before_sets = before_validation_report_def before_verify_def before_commit_def

text \<open>A status on every way out of a set is entered by every run that leaves the set.\<close>

lemma forced_status:
  assumes "fsm_run s tr t" and "s \<in> A"
    and "only_exit A m"
    and "t \<notin> A"
  shows "m \<in> set tr"
proof (rule ccontr)
  assume "m \<notin> set tr"
  then have "set tr \<inter> {m} = {}" by simp
  with fsm_run_confined [OF assms(1,2), of "{m}"] assms(3) have "t \<in> A"
    unfolding only_exit_def by simp
  with assms(4) show False ..
qed

text \<open>
  A job that starts before validation and is COMPLETED at the end of a run of the
  transition table has been in VALIDATION_REPORT, COMMITTING and POST_COMMIT_VERIFY on the way: no
  sequence of allowed status updates completes a job without the validation report, the commit and
  the post-commit check.
\<close>

theorem completed_only_after_checks:
  assumes "fsm_run s tr COMPLETED"
    and "s \<in> set [QUEUED, BLOCKED, DISPATCHING, DISPATCH_TIMEOUT, DISPATCH_FAILED, LOCK_STALE,
                   STAGING, VALIDATING, REIMPORT_FAILED, VALIDATION_FAILED, PAUSED_EDITOR_LOCK]"
  shows "VALIDATION_REPORT \<in> set tr \<and> COMMITTING \<in> set tr \<and> POST_COMMIT_VERIFY \<in> set tr"
proof -
  from assms(2) have "s \<in> before_validation_report" "s \<in> before_commit" "s \<in> before_verify"
    by (auto simp: before_sets)
  then show ?thesis
    using only_exit_before [THEN forced_status [OF assms(1), rotated]]
    by (simp add: before_sets)
qed

theorem completed_only_after_checks_witness:
  "POST_COMMIT_VERIFY \<in> set [DISPATCHING, STAGING, VALIDATING, VALIDATION_REPORT, COMMITTING,
     POST_COMMIT_VERIFY, COMPLETED]
   \<and> fsm_run QUEUED [DISPATCHING, STAGING, VALIDATING, VALIDATION_REPORT, COMMITTING,
     POST_COMMIT_VERIFY, COMPLETED] COMPLETED"
proof -
  have run: "fsm_run QUEUED [DISPATCHING, STAGING, VALIDATING, VALIDATION_REPORT, COMMITTING,
     POST_COMMIT_VERIFY, COMPLETED] COMPLETED"
    by (simp add: fsm_run_Cons fsm_run_Nil canTransitionJobStatus_def)
  then show ?thesis
    using completed_only_after_checks [OF run] by simp
qed

text \<open>
  DEP_FAILED can never be entered: whatever run of allowed transitions a job takes from
  another status, it does not end in DEP_FAILED, although dispatch and promotion ask for exactly
  this status when a dependency has failed.
\<close>

theorem DEP_FAILED_unreachable: "fsm_run s tr DEP_FAILED \<longleftrightarrow> s = DEP_FAILED \<and> set tr \<subseteq> {DEP_FAILED}"
proof
  assume run: "fsm_run s tr DEP_FAILED"
  have "s = DEP_FAILED"
  proof (rule ccontr)
    assume "s \<noteq> DEP_FAILED"
    then have "DEP_FAILED \<in> - {DEP_FAILED}"
      using fsm_run_confined [OF run, of "- {DEP_FAILED}" "{}"] no_transition_into_DEP_FAILED
      by auto
    then show False by simp
  qed
  with fsm_run_terminal [OF run] show "s = DEP_FAILED \<and> set tr \<subseteq> {DEP_FAILED}" by simp
next
  assume r: "s = DEP_FAILED \<and> set tr \<subseteq> {DEP_FAILED}"
  then have "set tr \<subseteq> {DEP_FAILED}" by simp
  then have "fsm_run DEP_FAILED tr DEP_FAILED"
    by (induction tr) (auto intro: fsm_run.intros simp: canTransitionJobStatus_def)
  with r show "fsm_run s tr DEP_FAILED" by simp
qed

section \<open>Roles\<close>

lemma hasMinRole_iff: "hasMinRole u r \<longleftrightarrow> r \<le> u"
  by (simp add: hasMinRole_def less_eq_Role_def)

lemma callback_min_role [simp]: "hasMinRole callback r \<longleftrightarrow> r = callback"
  by (cases r) (simp_all add: hasMinRole_def)

end
