(* ===== verification/Error_Catalog.thy ===== *)
theory Error_Catalog
  imports Prelude
begin

text \<open>
  \<open>packages/shared/src/errors.ts\<close>: the error catalogue, its lookup, and the error object the HTTP
  layer answers with. The lemmas say that an entry carries its own code and that the code
  determines, and is determined by, the error class.
\<close>

datatype AlertSeverity = low | medium | high | critical

datatype ErrorCode =
    E001
  | E002
  | E003
  | E004
  | E005
  | E006
  | E007
  | E008
  | E009
  | E010
  | E011
  | E012
  | E013
  | E014
  | E015
  | E016
  | E017
  | E018
  | E019
  | E020
  | E021

record ErrorDefinition =
  err_def_code :: string
  err_class :: string
  severity :: AlertSeverity
  operatorAction :: string
  docsPath :: string
  httpStatus :: nat

fun code_name :: "ErrorCode \<Rightarrow> string" where
  "code_name E001 = ''E001''"
| "code_name E002 = ''E002''"
| "code_name E003 = ''E003''"
| "code_name E004 = ''E004''"
| "code_name E005 = ''E005''"
| "code_name E006 = ''E006''"
| "code_name E007 = ''E007''"
| "code_name E008 = ''E008''"
| "code_name E009 = ''E009''"
| "code_name E010 = ''E010''"
| "code_name E011 = ''E011''"
| "code_name E012 = ''E012''"
| "code_name E013 = ''E013''"
| "code_name E014 = ''E014''"
| "code_name E015 = ''E015''"
| "code_name E016 = ''E016''"
| "code_name E017 = ''E017''"
| "code_name E018 = ''E018''"
| "code_name E019 = ''E019''"
| "code_name E020 = ''E020''"
| "code_name E021 = ''E021''"

definition entry :: "ErrorCode \<Rightarrow> string \<Rightarrow> AlertSeverity \<Rightarrow> string \<Rightarrow> string \<Rightarrow> nat \<Rightarrow> ErrorDefinition" where
  "entry c cls sev act docs st =
     \<lparr>err_def_code = code_name c, err_class = cls, severity = sev, operatorAction = act,
      docsPath = docs, httpStatus = st\<rparr>"

fun ERROR_CATALOG :: "ErrorCode \<Rightarrow> ErrorDefinition" where
  "ERROR_CATALOG E001 =
     entry E001 ''DISPATCH_TIMEOUT'' high
       ''Check GitHub runner availability, possibly fallback tier.''
       ''/api/v1/docs/errors/E001'' 504"
| "ERROR_CATALOG E002 =
     entry E002 ''REIMPORT_FAILED'' medium
       ''Inspect reimport_failure.log, check Godot version compatibility.''
       ''/api/v1/docs/errors/E002'' 422"
| "ERROR_CATALOG E003 =
     entry E003 ''VALIDATION_FAILED'' medium
       ''Review validation report, fix scene errors.''
       ''/api/v1/docs/errors/E003'' 422"
| "ERROR_CATALOG E004 =
     entry E004 ''COMMIT_FAILED'' high
       ''Investigate possible stale lock; manually reclaim lock if safe.''
       ''/api/v1/docs/errors/E004'' 409"
| "ERROR_CATALOG E005 =
     entry E005 ''LOCK_STALE_RECOVERED'' low
       ''Automatic recovery; monitor for patterns.''
       ''/api/v1/docs/errors/E005'' 200"
| "ERROR_CATALOG E006 =
     entry E006 ''EXPORT_TEMPLATE_MISMATCH'' high
       ''Update export templates to match Godot editor version.''
       ''/api/v1/docs/errors/E006'' 422"
| "ERROR_CATALOG E007 =
     entry E007 ''UID_DUPLICATE_AUTO_FIXED'' low
       ''Review auto-fix log, verify no side-effects.''
       ''/api/v1/docs/errors/E007'' 200"
| "ERROR_CATALOG E008 =
     entry E008 ''UID_DUPLICATE_MANUAL'' medium
       ''Manually resolve conflicting UIDs via dashboard.''
       ''/api/v1/docs/errors/E008'' 409"
| "ERROR_CATALOG E009 =
     entry E009 ''EXTENSION_EXEC_TIMEOUT'' medium
       ''Check extension resource limits, possibly increase.''
       ''/api/v1/docs/errors/E009'' 504"
| "ERROR_CATALOG E010 =
     entry E010 ''PARITY_FAILURE'' high
       ''Compare tier outputs, disable tier if necessary.''
       ''/api/v1/docs/errors/E010'' 500"
| "ERROR_CATALOG E011 =
     entry E011 ''DEP_FAILED'' medium
       ''Blocked job depended on a failed generation; re-evaluate inputs.''
       ''/api/v1/docs/errors/E011'' 422"
| "ERROR_CATALOG E012 =
     entry E012 ''GODOT_EDITOR_LOCK'' medium
       ''Close Godot editor holding project.godot.lock, then retry.''
       ''/api/v1/docs/errors/E012'' 423"
| "ERROR_CATALOG E013 =
     entry E013 ''FENCING_TOKEN_REJECTED'' high
       ''Token is stale after reclaim/failover; re-acquire lock and redispatch.''
       ''/api/v1/docs/errors/E013'' 403"
| "ERROR_CATALOG E014 =
     entry E014 ''PATH_TRAVERSAL'' high
       ''Reject request; audit caller token and inputs.''
       ''/api/v1/docs/errors/E014'' 400"
| "ERROR_CATALOG E015 =
     entry E015 ''TOKEN_REVOKED'' high
       ''Client must obtain a new API token.''
       ''/api/v1/docs/errors/E015'' 401"
| "ERROR_CATALOG E016 =
     entry E016 ''EXTENSION_NETWORK_DENIED'' medium
       ''Request admin network approval for the extension domains.''
       ''/api/v1/docs/errors/E016'' 403"
| "ERROR_CATALOG E017 =
     entry E017 ''EXTENSION_VERSION_INCOMPATIBLE'' medium
       ''Use an extension compatible with the project Godot version.''
       ''/api/v1/docs/errors/E017'' 422"
| "ERROR_CATALOG E018 =
     entry E018 ''RATE_LIMITED'' low
       ''Back off and retry after the rate-limit window.''
       ''/api/v1/docs/errors/E018'' 429"
| "ERROR_CATALOG E019 =
     entry E019 ''SCRIPT_OVERRIDE_REQUIRES_ADMIN'' medium
       ''Override introduces executable script changes; requires admin scope.''
       ''/api/v1/docs/errors/E019'' 403"
| "ERROR_CATALOG E020 =
     entry E020 ''DEAD_LETTER'' high
       ''Job failed 3 times; inspect dead-letter queue and retry or archive.''
       ''/api/v1/docs/errors/E020'' 500"
| "ERROR_CATALOG E021 =
     entry E021 ''INVALID_STATUS_TRANSITION'' medium
       ''Requested job status is not allowed from the current state; check worker callback order and FSM.''
       ''/api/v1/docs/errors/E021'' 409"

definition getError :: "ErrorCode \<Rightarrow> ErrorDefinition" where
  "getError c = ERROR_CATALOG c"

record ErrorPayload =
  pay_code :: string
  pay_class :: string
  pay_severity :: AlertSeverity
  pay_message :: string
  pay_operatorAction :: string
  pay_docsUrl :: string

definition errorPayload :: "ErrorCode \<Rightarrow> string option \<Rightarrow> ErrorPayload" where
  "errorPayload c detail =
     (let d = ERROR_CATALOG c
      in \<lparr>pay_code = err_def_code d, pay_class = err_class d, pay_severity = severity d,
          pay_message = or_default detail (err_class d), pay_operatorAction = operatorAction d,
          pay_docsUrl = docsPath d\<rparr>)"

lemma code_name_inj: "code_name c = code_name d \<Longrightarrow> c = d"
  by (cases c; cases d) simp_all

lemma catalog_code [simp]: "err_def_code (ERROR_CATALOG c) = code_name c"
  by (cases c) (simp_all add: entry_def)

lemma catalog_docs: "docsPath (ERROR_CATALOG c) = ''/api/v1/docs/errors/'' @ code_name c"
  by (cases c) (simp_all add: entry_def)

lemma catalog_class_inj:
  "err_class (ERROR_CATALOG c) = err_class (ERROR_CATALOG d) \<Longrightarrow> c = d"
  by (cases c; cases d) (simp_all add: entry_def)

end
