(* ===== verification/Fencing.thy ===== *)
theory Fencing
  imports Prelude "HOL-Library.Log_Nat"
begin

text \<open>
  \<open>packages/shared/src/fencing.ts\<close>: composite fencing tokens \<open>instanceId:counter\<close>. The counter of a
  parsed token is a JavaScript number, so \<open>Number\<close> rounds it to a double; the lemmas separate what
  holds for every token from what holds below \<open>2 ^ 53\<close>.
\<close>

section \<open>Numbers read from digits\<close>

datatype js_number = Fin nat | Infinity

text \<open>Rounding to 53 significant bits, ties to even.\<close>

definition round_double :: "nat \<Rightarrow> nat" where
  "round_double n =
     (if n < 2 ^ 53 then n
      else let k = floorlog 2 n - 53; q = n div 2 ^ k; r = n mod 2 ^ k; h = 2 ^ (k - 1)
           in (if r > h \<or> (r = h \<and> odd q) then Suc q else q) * 2 ^ k)"

definition js_Number :: "string \<Rightarrow> js_number" where
  "js_Number ds =
     (let d = round_double (parse_nat ds) in if d < 2 ^ 1024 then Fin d else Infinity)"

section \<open>Tokens\<close>

definition uuid_shape :: "string \<Rightarrow> bool" where
  "uuid_shape s =
     (let ps = split_on CHR ''-'' s
      in map length ps = [8, 4, 4, 4, 12] \<and> list_all (list_all is_hex) ps)"

record ParsedFencingToken =
  instanceId :: string
  counter :: js_number
  raw :: string

definition formatFencingToken :: "string \<Rightarrow> nat \<Rightarrow> string" where
  "formatFencingToken inst n = inst @ '':'' @ show_nat n"

text \<open>The match of \<open>TOKEN_RE\<close>: 36 characters of a UUID, a colon, at least one digit, nothing else.\<close>

definition token_match :: "string \<Rightarrow> (string \<times> string) option" where
  "token_match t =
     (let u = take 36 t; rest = drop 36 t
      in if uuid_shape u \<and> take 1 rest = '':'' \<and> drop 1 rest \<noteq> [] \<and> list_all is_digit (drop 1 rest)
         then Some (u, drop 1 rest) else None)"

definition parseFencingToken :: "string \<Rightarrow> ParsedFencingToken option" where
  "parseFencingToken t =
     (case token_match t of
        None \<Rightarrow> None
      | Some (u, ds) \<Rightarrow> Some \<lparr>instanceId = js_lower u, counter = js_Number ds, raw = t\<rparr>)"

definition tokensMatch :: "string \<Rightarrow> string \<Rightarrow> bool" where
  "tokensMatch presented expected =
     (case (parseFencingToken presented, parseFencingToken expected) of
        (Some a, Some b) \<Rightarrow> instanceId a = instanceId b \<and> counter a = counter b
      | _ \<Rightarrow> presented = expected)"

definition isTokenValidForInstance :: "string \<Rightarrow> string \<Rightarrow> bool" where
  "isTokenValidForInstance presented currentInstanceId =
     (case parseFencingToken presented of
        None \<Rightarrow> False
      | Some p \<Rightarrow> js_lower (instanceId p) = js_lower currentInstanceId)"

section \<open>Lemmas\<close>

lemma length_join_parts:
  "map length ps = [8, 4, 4, 4, 12] \<Longrightarrow> length (join [c] ps) = 36"
  by (auto simp: map_eq_Cons_conv)

lemma uuid_shape_length: "uuid_shape u \<Longrightarrow> length u = 36"
  unfolding uuid_shape_def Let_def
  by (metis join_split_on length_join_parts)

lemma js_Number_exact: "n < 2 ^ 53 \<Longrightarrow> parse_nat ds = n \<Longrightarrow> js_Number ds = Fin n"
proof -
  assume n: "n < 2 ^ 53" and ds: "parse_nat ds = n"
  have "(2::nat) ^ 53 < 2 ^ 1024" by (rule power_strict_increasing) simp_all
  with n ds show ?thesis by (simp add: js_Number_def round_double_def)
qed

lemma parse_nat_bound: "list_all is_digit ds \<Longrightarrow> parse_nat ds < 10 ^ length ds"
proof (induction ds rule: rev_induct)
  case Nil
  then show ?case by (simp add: parse_nat_def)
next
  case (snoc c ds)
  then have "digit_val c \<le> 9" by (auto simp: digit_val_def is_digit_def)
  with snoc show ?case by (simp add: parse_nat_snoc)
qed

text \<open>Short digit strings are evaluated without the rounding.\<close>

lemma js_Number_code [code]:
  "js_Number ds =
     (if list_all is_digit ds \<and> length ds \<le> 15 then Fin (parse_nat ds)
      else let d = round_double (parse_nat ds) in if d < 2 ^ 1024 then Fin d else Infinity)"
proof (cases "list_all is_digit ds \<and> length ds \<le> 15")
  case True
  then have "parse_nat ds < 10 ^ length ds" by (simp add: parse_nat_bound)
  also have "(10::nat) ^ length ds \<le> 10 ^ 15" using True by (intro power_increasing) simp_all
  also have "(10::nat) ^ 15 < 2 ^ 53" by simp
  finally show ?thesis using True js_Number_exact by simp
next
  case False
  then show ?thesis by (subst if_not_P) (simp_all only: js_Number_def not_False_eq_True)
qed

lemma token_match_format:
  "uuid_shape i \<Longrightarrow> token_match (formatFencingToken i n) = Some (i, show_nat n)"
  by (simp add: token_match_def formatFencingToken_def uuid_shape_length show_nat_digits)

lemma js_lower_char_idem: "js_lower_char (js_lower_char c) = js_lower_char c"
  by (auto simp: js_lower_char_def Let_def)

lemma js_lower_idem [simp]: "js_lower (js_lower s) = js_lower s"
  by (simp add: js_lower_def js_lower_char_idem)

text \<open>
  A token formatted from a UUID and a counter below \<open>2 ^ 53\<close> parses back to the
  lower-cased UUID, exactly that counter and the token itself.
\<close>

theorem parse_format_token:
  assumes "uuid_shape i" and "n < 2 ^ 53"
  shows "parseFencingToken (formatFencingToken i n) =
           Some \<lparr>instanceId = js_lower i, counter = Fin n, raw = formatFencingToken i n\<rparr>"
  using assms by (simp add: parseFencingToken_def token_match_format js_Number_exact)

theorem parse_format_token_witness:
  "parseFencingToken (formatFencingToken ''0a1B2c3d-0000-4000-8000-00000000000F'' 42) =
     Some \<lparr>instanceId = ''0a1b2c3d-0000-4000-8000-00000000000f'', counter = Fin 42,
           raw = formatFencingToken ''0a1B2c3d-0000-4000-8000-00000000000F'' 42\<rparr>"
proof -
  have u: "uuid_shape ''0a1B2c3d-0000-4000-8000-00000000000F''" by code_simp
  have l: "js_lower ''0a1B2c3d-0000-4000-8000-00000000000F'' = ''0a1b2c3d-0000-4000-8000-00000000000f''"
    by code_simp
  show ?thesis using parse_format_token [OF u, of 42] by (simp add: l)
qed

lemma format_parse_None_iff:
  "uuid_shape i \<Longrightarrow> parseFencingToken (formatFencingToken i n) \<noteq> None"
  by (simp add: parseFencingToken_def token_match_format)

text \<open>
  \<open>tokensMatch\<close> is an equivalence relation on all strings, and on formatted tokens
  with counters below \<open>2 ^ 53\<close> it holds exactly for equal counters and instance ids equal up to case.
\<close>

theorem tokensMatch_equivalence:
  "equivp tokensMatch
   \<and> (\<forall>i j m n. uuid_shape i \<and> uuid_shape j \<and> m < 2 ^ 53 \<and> n < 2 ^ 53 \<longrightarrow>
        (tokensMatch (formatFencingToken i m) (formatFencingToken j n)
           \<longleftrightarrow> js_lower i = js_lower j \<and> m = n))"
proof (intro conjI allI impI)
  show "equivp tokensMatch"
    by (rule equivpI; unfold reflp_def symp_def transp_def)
       (auto simp: tokensMatch_def split: option.splits)
next
  fix i j :: string and m n :: nat
  assume "uuid_shape i \<and> uuid_shape j \<and> m < 2 ^ 53 \<and> n < 2 ^ 53"
  then have "parseFencingToken (formatFencingToken i m) =
      Some \<lparr>instanceId = js_lower i, counter = Fin m, raw = formatFencingToken i m\<rparr>"
    and "parseFencingToken (formatFencingToken j n) =
      Some \<lparr>instanceId = js_lower j, counter = Fin n, raw = formatFencingToken j n\<rparr>"
    by (simp_all add: parseFencingToken_def token_match_format js_Number_exact)
  then show "tokensMatch (formatFencingToken i m) (formatFencingToken j n)
      \<longleftrightarrow> js_lower i = js_lower j \<and> m = n"
    by (simp add: tokensMatch_def)
qed

theorem tokensMatch_equivalence_witness:
  "\<not> tokensMatch (formatFencingToken ''0a1b2c3d-0000-4000-8000-00000000000f'' 7)
                 (formatFencingToken ''0a1b2c3d-0000-4000-8000-00000000000f'' 8)"
proof -
  have u: "uuid_shape ''0a1b2c3d-0000-4000-8000-00000000000f''" by code_simp
  show ?thesis using tokensMatch_equivalence u by simp
qed

lemma isTokenValidForInstance_format:
  "uuid_shape i \<Longrightarrow>
     isTokenValidForInstance (formatFencingToken i n) cur \<longleftrightarrow> js_lower i = js_lower cur"
  by (simp add: isTokenValidForInstance_def parseFencingToken_def token_match_format)

end
