(* ===== verification/Path_Security.thy ===== *)
theory Path_Security
  imports Prelude
begin

text \<open>
  \<open>packages/shared/src/path-security.ts\<close> with the part of Node's POSIX \<open>path\<close> module it calls. The
  working directory of the process is the parameter \<open>cwd\<close>, an absolute path. The lemmas relate the
  textual checks of the source to the segments of the resolved path.
\<close>

section \<open>\<open>path.resolve\<close> and \<open>path.isAbsolute\<close>\<close>

definition isAbsolute :: "string \<Rightarrow> bool" where
  "isAbsolute p = starts_with p ''/''"

text \<open>The arguments from right to left until an absolute one, glued with slashes.\<close>

fun resolve_loop :: "string \<Rightarrow> string list \<Rightarrow> string" where
  "resolve_loop acc [] = acc"
| "resolve_loop acc (p # ps) =
     (if p = [] then resolve_loop acc ps
      else if isAbsolute p then p @ ''/'' @ acc
      else resolve_loop (p @ ''/'' @ acc) ps)"

text \<open>\<open>normalizeString\<close> of an absolute path: the stack of segments, the last one first.\<close>

fun norm_stack :: "string list \<Rightarrow> string list \<Rightarrow> string list" where
  "norm_stack st [] = st"
| "norm_stack st (s # ss) =
     (if s = [] \<or> s = ''.'' then norm_stack st ss
      else if s = ''..'' then norm_stack (tl st) ss
      else norm_stack (s # st) ss)"

definition norm_segments :: "string \<Rightarrow> string list" where
  "norm_segments p = rev (norm_stack [] (split_on CHR ''/'' p))"

definition path_of :: "string list \<Rightarrow> string" where
  "path_of segs = CHR ''/'' # join ''/'' segs"

definition path_resolve :: "string \<Rightarrow> string list \<Rightarrow> string" where
  "path_resolve cwd ps = path_of (norm_segments (resolve_loop [] (rev ps @ [cwd])))"

section \<open>The checks\<close>

definition PathTraversalError :: "string \<Rightarrow> js_error" where
  "PathTraversalError msg = JsError None (Some ''E014'') msg"

definition assertWithinBase :: "string \<Rightarrow> string \<Rightarrow> string \<Rightarrow> string outcome" where
  "assertWithinBase cwd baseDir candidate =
     (let resolvedBase = path_resolve cwd [baseDir];
          resolved = path_resolve cwd [resolvedBase, candidate];
          baseWithSep = (if ends_with resolvedBase ''/'' then resolvedBase else resolvedBase @ ''/'')
      in if resolved \<noteq> resolvedBase \<and> \<not> starts_with resolved baseWithSep
         then Throw (PathTraversalError (''Path escapes allowed base directory: '' @ candidate))
         else Ret resolved)"

definition NUL :: char where
  "NUL = CHR 0x00"

definition BACKSLASH :: char where
  "BACKSLASH = CHR 0x5C"

definition safe_path_char :: "char \<Rightarrow> bool" where
  "safe_path_char c = (is_word c \<or> c = CHR ''.'' \<or> c = CHR ''/'' \<or> c = CHR ''-'')"

definition isSafeLogicalAssetPath :: "string \<Rightarrow> bool" where
  "isSafeLogicalAssetPath p =
     (if p = [] \<or> NUL \<in> set p then False
      else if str_includes p ''..'' then False
      else if isAbsolute p then False
      else let n = replace_char BACKSLASH CHR ''/'' p
           in if starts_with n ''/'' then False
              else if str_includes n ''//'' then False
              else n \<noteq> [] \<and> list_all safe_path_char n)"

text \<open>\<open>/^\.?\//\<close>: one leading slash, or a leading dot and slash.\<close>

definition drop_leading_dot_slash :: "string \<Rightarrow> string" where
  "drop_leading_dot_slash p =
     (if starts_with p ''./'' then drop 2 p else if starts_with p ''/'' then drop 1 p else p)"

definition normalizeLogicalPath :: "string \<Rightarrow> string" where
  "normalizeLogicalPath p = drop_leading_dot_slash (replace_char BACKSLASH CHR ''/'' p)"

text \<open>The UUIDs of artifact keys: version digit 1-5, variant digit 8, 9, a or b.\<close>

definition uuid_versioned :: "string \<Rightarrow> bool" where
  "uuid_versioned s =
     (let ps = split_on CHR ''-'' s
      in map length ps = [8, 4, 4, 4, 12] \<and> list_all (list_all is_hex) ps
         \<and> hd (ps ! 2) \<in> set ''12345'' \<and> js_lower_char (hd (ps ! 3)) \<in> set ''89ab'')"

definition artifact_key_match :: "string \<Rightarrow> bool" where
  "artifact_key_match s =
     (js_lower (take 9 s) = ''projects/''
      \<and> uuid_versioned (take 36 (drop 9 s))
      \<and> js_lower (take 6 (drop 45 s)) = ''/jobs/''
      \<and> uuid_versioned (take 36 (drop 51 s))
      \<and> take 1 (drop 87 s) = ''/'')"

definition assertArtifactKey :: "string \<Rightarrow> string outcome" where
  "assertArtifactKey key =
     (if key = [] \<or> NUL \<in> set key then Throw (PathTraversalError ''Artifact key is required'')
      else let n = dropWhile (\<lambda>c. c = CHR ''/'') (replace_char BACKSLASH CHR ''/'' key)
           in if str_includes n ''..'' \<or> str_includes n ''//''
              then Throw (PathTraversalError (''Invalid artifact key: '' @ key))
              else if \<not> artifact_key_match n
              then Throw (PathTraversalError
                     (''Artifact key must match projects/{projectId}/jobs/{jobId}/... : '' @ key))
              else Ret n)"

definition artifact_prefix :: "string \<Rightarrow> string \<Rightarrow> string" where
  "artifact_prefix projectId jobId = ''projects/'' @ projectId @ ''/jobs/'' @ jobId @ ''/''"

definition assertArtifactKeyForJob :: "string \<Rightarrow> string \<Rightarrow> string \<Rightarrow> string outcome" where
  "assertArtifactKeyForJob key projectId jobId =
     (case assertArtifactKey key of
        Throw e \<Rightarrow> Throw e
      | Ret n \<Rightarrow>
          if \<not> starts_with n (artifact_prefix projectId jobId)
          then Throw (PathTraversalError
                 (''Artifact key must be under '' @ artifact_prefix projectId jobId))
          else Ret n)"

text \<open>
  The expression \<open>(?:^|\/)staging-[^/]+(?:\/|$)\<close> matches when some piece between slashes starts with
  \<open>staging-\<close> and goes on.
\<close>

definition has_staging_segment :: "string \<Rightarrow> bool" where
  "has_staging_segment p =
     list_ex (\<lambda>s. starts_with s ''staging-'' \<and> length s > 8) (split_on CHR ''/'' p)"

definition assertStagingSource :: "string \<Rightarrow> string \<Rightarrow> string outcome" where
  "assertStagingSource cwd sourceTempDir =
     (let resolved = path_resolve cwd [sourceTempDir];
          n = replace_char BACKSLASH CHR ''/'' resolved
      in if \<not> has_staging_segment n
         then Throw (PathTraversalError
                (''Source must be under a staging-* directory: '' @ sourceTempDir))
         else if str_includes n ''/../'' \<or> ends_with n ''/..''
         then Throw (PathTraversalError (''Path traversal rejected: '' @ sourceTempDir))
         else Ret resolved)"

section \<open>Segments of resolved paths\<close>

definition plain_segment :: "string \<Rightarrow> bool" where
  "plain_segment s = (s \<noteq> [] \<and> s \<noteq> ''.'' \<and> s \<noteq> ''..'' \<and> CHR ''/'' \<notin> set s)"

definition plain_segments :: "string list \<Rightarrow> bool" where
  "plain_segments ss = list_all plain_segment ss"

lemma plain_segments_simps [simp]:
  "plain_segments []" "plain_segments (s # ss) = (plain_segment s \<and> plain_segments ss)"
  "plain_segments (xs @ ys) = (plain_segments xs \<and> plain_segments ys)"
  "plain_segments (rev xs) = plain_segments xs"
  by (auto simp: plain_segments_def list_all_iff)

lemma norm_stack_plain:
  "plain_segments st \<Longrightarrow> \<forall>s \<in> set ss. CHR ''/'' \<notin> set s \<Longrightarrow> plain_segments (norm_stack st ss)"
proof (induction ss arbitrary: st)
  case Nil
  then show ?case by simp
next
  case (Cons s ss)
  have "plain_segments (tl st)" using Cons.prems(1) by (cases st) simp_all
  with Cons show ?case by (simp add: plain_segment_def)
qed

lemma norm_segments_plain: "plain_segments (norm_segments p)"
  by (simp add: norm_segments_def norm_stack_plain split_on_pieces)

lemma norm_stack_plain_only:
  "plain_segments ss \<Longrightarrow> norm_stack st ss = rev ss @ st"
  by (induction ss arbitrary: st) (simp_all add: plain_segment_def)

lemma norm_stack_append: "norm_stack st (xs @ ys) = norm_stack (norm_stack st xs) ys"
  by (induction xs arbitrary: st) simp_all

lemma plain_segments_no_slash: "plain_segments ss \<Longrightarrow> s \<in> set ss \<Longrightarrow> CHR ''/'' \<notin> set s"
  by (auto simp: plain_segments_def list_all_iff plain_segment_def)

lemma split_on_path_of:
  "plain_segments ss \<Longrightarrow> ss \<noteq> [] \<Longrightarrow> split_on CHR ''/'' (path_of ss) = [] # ss"
  by (simp add: path_of_def split_on_join plain_segments_no_slash)

lemma norm_segments_path_of [simp]: "plain_segments ss \<Longrightarrow> norm_segments (path_of ss) = ss"
  by (cases "ss = []")
     (simp_all add: norm_segments_def split_on_path_of norm_stack_plain_only,
      simp add: path_of_def)

lemma path_of_inj: "plain_segments xs \<Longrightarrow> plain_segments ys \<Longrightarrow> path_of xs = path_of ys \<Longrightarrow> xs = ys"
  by (metis norm_segments_path_of)

lemma split_on_join_tail:
  "xs \<noteq> [] \<Longrightarrow> \<forall>x \<in> set xs. c \<notin> set x \<Longrightarrow> split_on c (join [c] xs @ c # r) = xs @ split_on c r"
proof (induction xs)
  case Nil
  then show ?case by simp
next
  case (Cons x xs)
  then show ?case
    by (cases "xs = []") (simp_all add: join_Cons split_on_append)
qed

lemma join_append_pieces:
  "xs \<noteq> [] \<Longrightarrow> ys \<noteq> [] \<Longrightarrow> join sep (xs @ ys) = join sep xs @ sep @ join sep ys"
proof (induction xs)
  case Nil
  then show ?case by simp
next
  case (Cons x xs)
  then show ?case by (cases "xs = []") (simp_all add: join_Cons)
qed

text \<open>The textual test of \<open>assertWithinBase\<close> compares whole segments.\<close>

lemma below_iff_prefix:
  assumes "plain_segments bs" and "plain_segments cs"
  shows "(path_of cs = path_of bs \<or> starts_with (path_of cs)
            (if ends_with (path_of bs) ''/'' then path_of bs else path_of bs @ ''/''))
         \<longleftrightarrow> prefix bs cs"
proof (cases "bs = []")
  case True
  then show ?thesis by (simp add: path_of_def ends_with_def starts_with_def)
next
  case False
  have last_plain: "last bs \<noteq> []" "CHR ''/'' \<notin> set (last bs)"
    using False assms(1) by (auto simp: plain_segments_def list_all_iff plain_segment_def)
  have "\<not> ends_with (path_of bs) ''/''"
  proof
    assume "ends_with (path_of bs) ''/''"
    then obtain t where t: "path_of bs = t @ ''/''" by (auto simp: ends_with_iff)
    have "path_of bs = butlast (path_of bs) @ [last (path_of bs)]" by (simp add: path_of_def)
    moreover have "last (path_of bs) = last (last bs)"
      using False last_plain
    proof (induction bs rule: rev_induct)
      case Nil
      then show ?case by simp
    next
      case (snoc b bs)
      then show ?case
        by (cases "bs = []") (simp_all add: path_of_def join_append_pieces)
    qed
    ultimately have "last (last bs) = CHR ''/''" using t by simp
    with last_plain show False using last_in_set by metis
  qed
  moreover have "starts_with (path_of cs) (path_of bs @ ''/'') \<longleftrightarrow> (prefix bs cs \<and> bs \<noteq> cs)"
  proof
    assume "starts_with (path_of cs) (path_of bs @ ''/'')"
    then obtain r where r: "path_of cs = path_of bs @ CHR ''/'' # r"
      by (auto simp: starts_with_iff)
    have "cs \<noteq> []" using r False assms(1)
      by (cases bs; auto simp: path_of_def)
    then have "[] # cs = split_on CHR ''/'' (path_of cs)"
      using assms(2) by (simp add: split_on_path_of)
    also have "\<dots> = [] # bs @ split_on CHR ''/'' r"
      using False assms(1)
      by (subst r) (simp add: path_of_def split_on_join_tail plain_segments_no_slash)
    finally have "cs = bs @ split_on CHR ''/'' r" by simp
    then show "prefix bs cs \<and> bs \<noteq> cs" by (auto simp: prefix_def)
  next
    assume "prefix bs cs \<and> bs \<noteq> cs"
    then obtain ds where "cs = bs @ ds" "ds \<noteq> []" by (auto simp: prefix_def)
    with False show "starts_with (path_of cs) (path_of bs @ ''/'')"
      by (simp add: path_of_def join_append_pieces starts_with_iff)
  qed
  ultimately show ?thesis using assms path_of_inj by auto
qed

lemma path_of_not_Nil [simp]: "path_of ss \<noteq> []"
  by (simp add: path_of_def)

lemma not_isAbsolute_Nil [simp]: "\<not> isAbsolute []"
  by (simp add: isAbsolute_def starts_with_def)

lemma isAbsolute_path_of [simp]: "isAbsolute (path_of ss)"
  by (simp add: isAbsolute_def path_of_def starts_with_def)

lemma split_on_slash: "split_on c (p @ c # q) = split_on c p @ split_on c q"
proof (induction p)
  case Nil
  then show ?case by simp
next
  case (Cons x p)
  obtain y ys where "split_on c p = y # ys" by (cases "split_on c p") auto
  with Cons show ?case by simp
qed

text \<open>Resolving a candidate against a resolved base: the candidate's segments act on the base's.\<close>

lemma norm_stack_trailing_slash:
  "norm_stack st (split_on CHR ''/'' (p @ ''/'')) = norm_stack st (split_on CHR ''/'' p)"
  using split_on_slash [of "CHR ''/''" p "[]"] by (simp add: norm_stack_append)

lemma resolve_against_base:
  assumes "plain_segments bs"
  shows "path_resolve cwd [path_of bs, cand] =
     path_of (if isAbsolute cand then norm_segments cand
              else rev (norm_stack (rev bs) (split_on CHR ''/'' cand)))"
proof -
  have base: "norm_stack [] (split_on CHR ''/'' (path_of bs @ ''/'' @ q))
                = norm_stack (rev bs) (split_on CHR ''/'' q)" for q
    using assms split_on_slash [of "CHR ''/''" "path_of bs" q]
      arg_cong [OF norm_segments_path_of [OF assms], of rev]
    by (simp add: norm_stack_append norm_segments_def)
  have cand: "norm_stack st (split_on CHR ''/'' (cand @ ''/'')) = norm_stack st (split_on CHR ''/'' cand)"
    for st by (rule norm_stack_trailing_slash)
  consider "cand = []" | "cand \<noteq> []" "isAbsolute cand" | "cand \<noteq> []" "\<not> isAbsolute cand" by blast
  then show ?thesis
  proof cases
    case 1
    then show ?thesis
      using base [of "[]"] by (simp add: path_resolve_def norm_segments_def)
  next
    case 2
    then show ?thesis using cand by (simp add: path_resolve_def norm_segments_def)
  next
    case 3
    then show ?thesis
      using base [of "cand @ ''/''"] cand by (simp add: path_resolve_def norm_segments_def)
  qed
qed

definition base_segments :: "string \<Rightarrow> string \<Rightarrow> string list" where
  "base_segments cwd baseDir = norm_segments (path_resolve cwd [baseDir])"

definition target_segments :: "string \<Rightarrow> string \<Rightarrow> string \<Rightarrow> string list" where
  "target_segments cwd baseDir candidate =
     norm_segments (path_resolve cwd [path_resolve cwd [baseDir], candidate])"

lemma path_resolve_segments: "path_resolve cwd ps = path_of (norm_segments (path_resolve cwd ps))"
  by (simp add: path_resolve_def norm_segments_plain)

lemma base_segments_plain [simp]: "plain_segments (base_segments cwd b)"
  by (simp add: base_segments_def norm_segments_plain)

lemma target_segments_plain [simp]: "plain_segments (target_segments cwd b c)"
  by (simp add: target_segments_def norm_segments_plain)

lemma assertWithinBase_prefix:
  "assertWithinBase cwd b c =
     (if prefix (base_segments cwd b) (target_segments cwd b c)
      then Ret (path_of (target_segments cwd b c))
      else Throw (PathTraversalError (''Path escapes allowed base directory: '' @ c)))"
proof -
  have "path_resolve cwd [b] = path_of (base_segments cwd b)"
    and "path_resolve cwd [path_of (base_segments cwd b), c] = path_of (target_segments cwd b c)"
    unfolding base_segments_def target_segments_def
    using path_resolve_segments by metis+
  then show ?thesis
    using below_iff_prefix [of "base_segments cwd b" "target_segments cwd b c"]
    by (cases "ends_with (path_of (base_segments cwd b)) ''/''";
        cases "prefix (base_segments cwd b) (target_segments cwd b c)")
       (auto simp: assertWithinBase_def Let_def)
qed

text \<open>
  Containment. \<open>assertWithinBase\<close> returns exactly when the segments of the resolved base
  are a prefix of the segments of the resolved candidate, so a sibling directory whose name extends
  the base's name is refused like any other escape; what it returns has no empty, dot or dot-dot
  segment.
\<close>

theorem assertWithinBase_contains:
  "(\<not> throws (assertWithinBase cwd b c)
      \<longleftrightarrow> prefix (base_segments cwd b) (target_segments cwd b c))
   \<and> (\<forall>r. assertWithinBase cwd b c = Ret r \<longrightarrow>
        r = path_of (target_segments cwd b c) \<and> plain_segments (norm_segments r)
        \<and> norm_segments r = target_segments cwd b c)"
  by (simp add: assertWithinBase_prefix)

theorem assertWithinBase_contains_witness:
  "assertWithinBase ''/srv'' ''data'' ''../data-old/x'' =
     Throw (PathTraversalError ''Path escapes allowed base directory: ../data-old/x'')
   \<and> norm_segments ''/srv/data/y'' = target_segments ''/srv'' ''data'' ''x/.././y''"
proof -
  have "assertWithinBase ''/srv'' ''data'' ''x/.././y'' = Ret ''/srv/data/y''" by code_simp
  then have "norm_segments ''/srv/data/y'' = target_segments ''/srv'' ''data'' ''x/.././y''"
    using assertWithinBase_contains [of "''/srv''" "''data''" "''x/.././y''"] by simp
  moreover have "assertWithinBase ''/srv'' ''data'' ''../data-old/x'' =
     Throw (PathTraversalError ''Path escapes allowed base directory: ../data-old/x'')" by code_simp
  ultimately show ?thesis by simp
qed

section \<open>Safe logical asset paths\<close>

lemma no_dotdot_segment:
  "\<not> str_includes p ''..'' \<Longrightarrow> s \<in> set (split_on CHR ''/'' p) \<Longrightarrow> s \<noteq> ''..''"
proof -
  assume no: "\<not> str_includes p ''..''" and s: "s \<in> set (split_on CHR ''/'' p)"
  have piece: "s \<in> set xs \<Longrightarrow> str_includes (join sep xs) s" for xs sep
  proof (induction xs)
    case Nil
    then show ?case by simp
  next
    case (Cons x xs)
    show ?case
    proof (cases "xs = []")
      case True
      with Cons.prems have "join sep (x # xs) = [] @ s @ []" by simp
      then show ?thesis unfolding str_includes_iff by blast
    next
      case False
      then have eq: "join sep (x # xs) = x @ sep @ join sep xs" by (rule join_Cons)
      show ?thesis
      proof (cases "s = x")
        case True
        with eq have "join sep (x # xs) = [] @ s @ (sep @ join sep xs)" by simp
        then show ?thesis unfolding str_includes_iff by blast
      next
        case False
        with Cons obtain a b where "join sep xs = a @ s @ b" by (auto simp: str_includes_iff)
        with eq have "join sep (x # xs) = (x @ sep @ a) @ s @ b" by simp
        then show ?thesis unfolding str_includes_iff by blast
      qed
    qed
  qed
  from piece [OF s, of "''/''"] no show "s \<noteq> ''..''" by (auto simp: join_split_on)
qed

lemma norm_stack_no_dotdot:
  "''..'' \<notin> set ss \<Longrightarrow> \<exists>new. norm_stack st ss = new @ st"
proof (induction ss arbitrary: st)
  case Nil
  then show ?case by simp
next
  case (Cons s ss)
  then obtain new where "norm_stack (s # st) ss = new @ s # st" by auto
  moreover obtain new' where "norm_stack st ss = new' @ st" using Cons by auto
  ultimately show ?case using Cons.prems by auto
qed

text \<open>
  A logical path that \<open>isSafeLogicalAssetPath\<close> accepts never escapes: resolved against
  any base directory it is accepted by \<open>assertWithinBase\<close>, as the base's segments followed by
  segments of its own.
\<close>

theorem safe_logical_path_contained:
  assumes "isSafeLogicalAssetPath p"
  shows "\<exists>rest. assertWithinBase cwd b p = Ret (path_of (base_segments cwd b @ rest))"
proof -
  from assms have rel: "\<not> isAbsolute p" and nodots: "\<not> str_includes p ''..''"
    by (auto simp: isSafeLogicalAssetPath_def split: if_splits)
  have "''..'' \<notin> set (split_on CHR ''/'' p)" using no_dotdot_segment [OF nodots] by blast
  then obtain new where
    new: "norm_stack (rev (base_segments cwd b)) (split_on CHR ''/'' p) = new @ rev (base_segments cwd b)"
    using norm_stack_no_dotdot by blast
  have plain: "plain_segments (base_segments cwd b @ rev new)"
    using norm_stack_plain [of "rev (base_segments cwd b)" "split_on CHR ''/'' p"] split_on_pieces
    by (auto simp: new)
  have "path_resolve cwd [b] = path_of (base_segments cwd b)"
    unfolding base_segments_def by (rule path_resolve_segments)
  then have "path_resolve cwd [path_resolve cwd [b], p] = path_of (base_segments cwd b @ rev new)"
    using rel new by (simp add: resolve_against_base)
  then have "target_segments cwd b p = base_segments cwd b @ rev new"
    using plain by (simp only: target_segments_def norm_segments_path_of)
  then have "assertWithinBase cwd b p = Ret (path_of (base_segments cwd b @ rev new))"
    by (simp add: assertWithinBase_prefix)
  then show ?thesis by blast
qed

theorem safe_logical_path_contained_witness:
  "isSafeLogicalAssetPath ''assets/hero.png''
   \<and> (\<exists>rest. assertWithinBase ''/'' ''/srv/p1'' ''assets/hero.png'' =
        Ret (path_of (base_segments ''/'' ''/srv/p1'' @ rest)))"
proof -
  have s: "isSafeLogicalAssetPath ''assets/hero.png''" by code_simp
  show ?thesis using s safe_logical_path_contained [OF s] by blast
qed

section \<open>Artifact keys\<close>

lemma assertArtifactKey_Ret:
  "assertArtifactKey k = Ret n \<Longrightarrow>
     artifact_key_match n \<and> \<not> str_includes n ''..'' \<and> \<not> str_includes n ''//''"
  by (auto simp: assertArtifactKey_def Let_def split: if_splits)

lemma slash_free_prefix_unique:
  "CHR ''/'' \<notin> set a \<Longrightarrow> CHR ''/'' \<notin> set b \<Longrightarrow> a @ CHR ''/'' # x = b @ CHR ''/'' # y \<Longrightarrow> a = b \<and> x = y"
proof (induction a arbitrary: b)
  case Nil
  then show ?case by (cases b) auto
next
  case (Cons c a)
  then show ?case by (cases b) auto
qed

text \<open>
  C37 (safety). Artifact isolation. A key accepted for a project and a job lies under that project's
  and job's prefix and has no \<open>..\<close>; if the same key is accepted for another pair of ids without
  slashes, in whatever raw spelling, the two pairs are equal: no key of one job passes for another.
\<close>

theorem artifact_key_isolates_jobs:
  assumes "assertArtifactKeyForJob k p j = Ret n"
    and "assertArtifactKeyForJob k' p' j' = Ret n"
    and "CHR ''/'' \<notin> set (p @ j @ p' @ j')"
  shows "p = p' \<and> j = j' \<and> starts_with n (artifact_prefix p j) \<and> \<not> str_includes n ''..''"
proof -
  have pre: "starts_with n (artifact_prefix p j)" "starts_with n (artifact_prefix p' j')"
    and nodots: "\<not> str_includes n ''..''"
    using assms(1,2) assertArtifactKey_Ret
    by (auto simp: assertArtifactKeyForJob_def split: outcome.splits if_splits)
  from pre(1) obtain r where r: "n = artifact_prefix p j @ r" unfolding starts_with_iff ..
  moreover from pre(2) obtain r' where r': "n = artifact_prefix p' j' @ r'"
    unfolding starts_with_iff ..
  ultimately have "artifact_prefix p j @ r = artifact_prefix p' j' @ r'" by simp
  then have "p @ CHR ''/'' # (''jobs/'' @ j @ CHR ''/'' # r)
      = p' @ CHR ''/'' # (''jobs/'' @ j' @ CHR ''/'' # r')" by (simp add: artifact_prefix_def)
  then have "p = p' \<and> ''jobs/'' @ j @ CHR ''/'' # r = ''jobs/'' @ j' @ CHR ''/'' # r'"
    using assms(3) by (intro slash_free_prefix_unique) auto
  moreover have "j @ CHR ''/'' # r = j' @ CHR ''/'' # r'" using calculation by simp
  then have "j = j'" using assms(3) slash_free_prefix_unique [of j j' r r'] by auto
  ultimately show ?thesis using pre nodots by simp
qed

definition key_example :: string where
  "key_example =
     ''projects/6f1c2d3e-0000-4000-8000-000000000001/jobs/6f1c2d3e-0000-4000-8000-0000000000aa/out.zip''"

theorem artifact_key_isolates_jobs_witness:
  "assertArtifactKeyForJob (CHR ''/'' # key_example)
       ''6f1c2d3e-0000-4000-8000-000000000001'' ''6f1c2d3e-0000-4000-8000-0000000000aa'' = Ret key_example
   \<and> \<not> str_includes key_example ''..''"
proof -
  have a: "assertArtifactKeyForJob (CHR ''/'' # key_example)
       ''6f1c2d3e-0000-4000-8000-000000000001'' ''6f1c2d3e-0000-4000-8000-0000000000aa'' = Ret key_example"
    by code_simp
  have s: "CHR ''/'' \<notin> set (''6f1c2d3e-0000-4000-8000-000000000001'' @ ''6f1c2d3e-0000-4000-8000-0000000000aa'' @
       ''6f1c2d3e-0000-4000-8000-000000000001'' @ ''6f1c2d3e-0000-4000-8000-0000000000aa'')"
    by code_simp
  from artifact_key_isolates_jobs [OF a a s] a show ?thesis by simp
qed

end
