(* ===== verification/Semver.thy ===== *)
theory Semver
  imports Fencing "HOL-Library.Product_Lexorder"
begin

text \<open>
  \<open>packages/shared/src/semver-range.ts\<close>: version triples, their order, ranges of versions and the
  version token of a \<open>godot --version\<close> line. The regular expressions are written out as scanners.
  A component is a JavaScript number read from digits (\<open>js_number\<close>, rounded to a double).
\<close>

section \<open>Order of the components\<close>

instantiation js_number :: linorder
begin

fun less_eq_js_number :: "js_number \<Rightarrow> js_number \<Rightarrow> bool" where
  "less_eq_js_number (Fin m) (Fin n) = (m \<le> n)"
| "less_eq_js_number (Fin m) Infinity = True"
| "less_eq_js_number Infinity (Fin n) = False"
| "less_eq_js_number Infinity Infinity = True"

definition less_js_number :: "js_number \<Rightarrow> js_number \<Rightarrow> bool" where
  "less_js_number a b = (a \<le> b \<and> \<not> b \<le> a)"

instance
proof
  fix a b c :: js_number
  show "(a < b) = (a \<le> b \<and> \<not> b \<le> a)" by (simp add: less_js_number_def)
  show "a \<le> a" by (cases a) simp_all
  show "a \<le> b \<Longrightarrow> b \<le> c \<Longrightarrow> a \<le> c" by (cases a; cases b; cases c) simp_all
  show "a \<le> b \<Longrightarrow> b \<le> a \<Longrightarrow> a = b" by (cases a; cases b) simp_all
  show "a \<le> b \<or> b \<le> a" by (cases a; cases b) auto
qed

end

section \<open>Versions\<close>

type_synonym SemVerTriple = "js_number \<times> js_number \<times> js_number"

definition channel_words :: "string list" where
  "channel_words = [''stable'', ''official'', ''dev'', ''rc'', ''beta'', ''alpha'', ''mono'']"

definition is_newline :: "char \<Rightarrow> bool" where
  "is_newline c = (code c = 10 \<or> code c = 13)"

text \<open>\<open>.replace(/[._-](stable|official|dev|rc\d*|beta\d*|alpha\d*|mono).*$/i, '')\<close>\<close>

fun cut_channel :: "string \<Rightarrow> string" where
  "cut_channel [] = []"
| "cut_channel (c # cs) =
     (if c \<in> set ''._-'' \<and> list_ex (\<lambda>w. starts_with (js_lower cs) w) channel_words
         \<and> list_all (\<lambda>d. \<not> is_newline d) cs
      then [] else c # cut_channel cs)"

text \<open>\<open>.replace(/-stable.*$/i, '')\<close>\<close>

fun cut_stable :: "string \<Rightarrow> string" where
  "cut_stable [] = []"
| "cut_stable (c # cs) =
     (if c = CHR ''-'' \<and> starts_with (js_lower cs) ''stable'' \<and> list_all (\<lambda>d. \<not> is_newline d) cs
      then [] else c # cut_stable cs)"

definition drop_v :: "string \<Rightarrow> string" where
  "drop_v s = (if starts_with (js_lower s) ''v'' then tl s else s)"

text \<open>\<open>(?:\.(\d+))?\<close>: the digits of the group, if it matches, and the rest.\<close>

definition dot_group :: "string \<Rightarrow> string option \<times> string" where
  "dot_group s =
     (let ds = takeWhile is_digit (tl s)
      in if starts_with s ''.'' \<and> ds \<noteq> [] then (Some ds, dropWhile is_digit (tl s)) else (None, s))"

definition parseVersion :: "string \<Rightarrow> SemVerTriple" where
  "parseVersion v =
     (let cleaned = cut_stable (cut_channel (drop_v (js_trim v)));
          d1 = takeWhile is_digit cleaned;
          (d2, r2) = dot_group (dropWhile is_digit cleaned);
          (d3, _) = dot_group r2
      in if d1 = [] then (Fin 0, Fin 0, Fin 0)
         else (js_Number d1, js_Number (or_default d2 ''0''), js_Number (or_default d3 ''0'')))"

fun cmp :: "SemVerTriple \<Rightarrow> SemVerTriple \<Rightarrow> int" where
  "cmp (a0, a1, a2) (b0, b1, b2) =
     (if a0 > b0 then 1 else if a0 < b0 then - 1
      else if a1 > b1 then 1 else if a1 < b1 then - 1
      else if a2 > b2 then 1 else if a2 < b2 then - 1 else 0)"

definition versionsEqual :: "string \<Rightarrow> string \<Rightarrow> bool" where
  "versionsEqual a b = (cmp (parseVersion a) (parseVersion b) = 0)"

text \<open>\<open>(\d+\.\d+\.\d+)\b\<close> with \<open>k + 1\<close> numbers: the matched text.\<close>

fun dotted :: "nat \<Rightarrow> string \<Rightarrow> string option" where
  "dotted 0 s =
     (let ds = takeWhile is_digit s; r = dropWhile is_digit s
      in if ds \<noteq> [] \<and> (r = [] \<or> \<not> is_word (hd r)) then Some ds else None)"
| "dotted (Suc k) s =
     (let ds = takeWhile is_digit s; r = dropWhile is_digit s
      in if ds \<noteq> [] \<and> starts_with r ''.''
         then map_option (\<lambda>m. ds @ CHR ''.'' # m) (dotted k (tl r)) else None)"

text \<open>The leftmost match of \<open>\bv?(...)\b\<close>; the flag says whether the character before is a word character.\<close>

fun scan_version :: "nat \<Rightarrow> bool \<Rightarrow> string \<Rightarrow> string option" where
  "scan_version k w [] = None"
| "scan_version k w (c # cs) =
     (case (if w then None else if c = CHR ''v'' then dotted k cs else dotted k (c # cs)) of
        Some m \<Rightarrow> Some m
      | None \<Rightarrow> scan_version k (is_word c) cs)"

definition extractSemverFromGodotOutput :: "string \<Rightarrow> string option" where
  "extractSemverFromGodotOutput line =
     (let t = filter (\<lambda>c. code c \<noteq> 13) (js_trim line)
      in case scan_version 2 False t of
           Some m \<Rightarrow> Some m
         | None \<Rightarrow> (case scan_version 1 False t of
                      Some m \<Rightarrow> Some m
                    | None \<Rightarrow> scan_version 0 False t))"

text \<open>Printing is stated for components below \<open>2 ^ 53\<close>, which JavaScript prints digit by digit.\<close>

fun formatSemVer :: "nat \<times> nat \<times> nat \<Rightarrow> string" where
  "formatSemVer (a, b, c) = show_nat a @ ''.'' @ show_nat b @ ''.'' @ show_nat c"

declare formatSemVer.simps [simp del]

definition clause_ok :: "SemVerTriple \<Rightarrow> string \<Rightarrow> bool" where
  "clause_ok ver clause =
     (if starts_with clause ''>='' then \<not> cmp ver (parseVersion (drop 2 clause)) < 0
      else if starts_with clause ''<='' then \<not> cmp ver (parseVersion (drop 2 clause)) > 0
      else if starts_with clause ''>'' then \<not> cmp ver (parseVersion (drop 1 clause)) \<le> 0
      else if starts_with clause ''<'' then \<not> cmp ver (parseVersion (drop 1 clause)) \<ge> 0
      else if starts_with clause ''='' then \<not> cmp ver (parseVersion (drop 1 clause)) \<noteq> 0
      else \<not> cmp ver (parseVersion clause) \<noteq> 0)"

definition satisfiesGodotRange :: "string \<Rightarrow> string \<Rightarrow> bool" where
  "satisfiesGodotRange version rng =
     (let ver = parseVersion version;
          clauses = filter (\<lambda>c. c \<noteq> []) (map js_trim (split_on CHR '','' rng))
      in list_all (clause_ok ver) clauses)"

section \<open>Order lemmas\<close>

lemma cmp_lex:
  "cmp a b < 0 \<longleftrightarrow> a < b" "cmp a b > 0 \<longleftrightarrow> b < a" "cmp a b = 0 \<longleftrightarrow> a = b"
  "cmp a b \<le> 0 \<longleftrightarrow> a \<le> b" "cmp a b \<ge> 0 \<longleftrightarrow> b \<le> a"
  by (cases a; cases b; auto simp: less_prod_simp less_eq_prod_simp not_less order.order_iff_strict)+

declare cmp.simps [simp del]

section \<open>Printed versions\<close>

definition dotted_char :: "char \<Rightarrow> bool" where
  "dotted_char c = (is_digit c \<or> c = CHR ''.'')"

definition exact :: "nat \<times> nat \<times> nat \<Rightarrow> bool" where
  "exact t = (case t of (a, b, c) \<Rightarrow> a < 2 ^ 53 \<and> b < 2 ^ 53 \<and> c < 2 ^ 53)"

definition triple :: "nat \<times> nat \<times> nat \<Rightarrow> SemVerTriple" where
  "triple t = (case t of (a, b, c) \<Rightarrow> (Fin a, Fin b, Fin c))"

lemma triple_inj: "triple t = triple u \<longleftrightarrow> t = u"
  by (cases t; cases u) (simp add: triple_def)

lemma digit_not_dot: "is_digit c \<Longrightarrow> c \<noteq> CHR ''.''"
  by (auto simp: is_digit_def code_def)

lemma code_eq_iff: "code c = code d \<longleftrightarrow> c = d"
  by (simp add: code_def)

lemma takeWhile_digits [simp]:
  "takeWhile is_digit (show_nat n @ CHR ''.'' # s) = show_nat n"
  "dropWhile is_digit (show_nat n @ CHR ''.'' # s) = CHR ''.'' # s"
  "takeWhile is_digit (show_nat n) = show_nat n"
  "dropWhile is_digit (show_nat n) = []"
  using show_nat_digits [of n]
  by (auto simp: list_all_iff takeWhile_append2 dropWhile_append2 is_digit_def code_def)

lemma dotted_format: "list_all dotted_char (formatSemVer t)"
  using show_nat_digits by (cases t) (auto simp: formatSemVer.simps list_all_iff dotted_char_def)

lemma dotted_char_lower: "dotted_char c \<Longrightarrow> js_lower_char c = c"
  by (auto simp: dotted_char_def js_lower_char_def is_digit_def code_def Let_def)

lemma not_starts_dotted:
  "list_all dotted_char s \<Longrightarrow> \<not> dotted_char c \<Longrightarrow> \<not> starts_with (js_lower s) (c # w)"
  by (cases s) (auto simp: starts_with_def js_lower_def dotted_char_lower)

lemma not_dotted_letters:
  "\<not> dotted_char CHR ''s''" "\<not> dotted_char CHR ''o''" "\<not> dotted_char CHR ''d''"
  "\<not> dotted_char CHR ''r''" "\<not> dotted_char CHR ''b''" "\<not> dotted_char CHR ''a''"
  "\<not> dotted_char CHR ''m''" "\<not> dotted_char CHR ''v''" "\<not> dotted_char CHR ''-''"
  by (simp_all add: dotted_char_def is_digit_def code_def)

lemma cut_dotted: "list_all dotted_char s \<Longrightarrow> cut_channel s = s \<and> cut_stable s = s"
  by (induction s) (auto simp: not_starts_dotted not_dotted_letters channel_words_def)

lemma drop_v_dotted: "list_all dotted_char s \<Longrightarrow> drop_v s = s"
  by (simp add: drop_v_def not_starts_dotted not_dotted_letters)

lemma dropWhile_none: "list_all (\<lambda>c. \<not> P c) xs \<Longrightarrow> dropWhile P xs = xs"
  by (cases xs) simp_all

lemma js_trim_no_space: "list_all (\<lambda>c. \<not> is_space c) s \<Longrightarrow> js_trim s = s"
  unfolding js_trim_def by (subst (2) dropWhile_none, assumption, subst dropWhile_none) simp_all

lemma dotted_not_space: "dotted_char c \<Longrightarrow> \<not> is_space c"
  by (auto simp: dotted_char_def is_space_def is_digit_def code_def)

lemma parse_dot_tail:
  "dot_group (CHR ''.'' # show_nat b @ CHR ''.'' # s) = (Some (show_nat b), CHR ''.'' # s)"
  "dot_group (CHR ''.'' # show_nat c) = (Some (show_nat c), [])"
  by (simp_all add: dot_group_def starts_with_def)

lemma format_no_space: "list_all (\<lambda>c. \<not> is_space c) (formatSemVer t)"
  using dotted_format [of t] dotted_not_space by (auto simp: list_all_iff)

lemma parseVersion_cleaned:
  assumes "exact t" and "cut_stable (cut_channel (drop_v (js_trim v))) = formatSemVer t"
  shows "parseVersion v = triple t"
proof -
  obtain a b c where t: "t = (a, b, c)" by (cases t)
  show ?thesis
    using assms by (simp add: t parseVersion_def parse_dot_tail or_default_def js_Number_exact exact_def
        triple_def formatSemVer.simps)
qed

lemma parseVersion_format: "exact t \<Longrightarrow> parseVersion (formatSemVer t) = triple t"
  using dotted_format [of t] format_no_space [of t]
  by (intro parseVersion_cleaned) (simp_all add: drop_v_dotted cut_dotted js_trim_no_space)

text \<open>A clause as an operator and a version, its text, and the comparison it stands for.\<close>

datatype range_op = AtLeast | AtMost | Above | Below | Exactly | Bare

fun op_text :: "range_op \<Rightarrow> string" where
  "op_text AtLeast = ''>=''"
| "op_text AtMost = ''<=''"
| "op_text Above = ''>''"
| "op_text Below = ''<''"
| "op_text Exactly = ''=''"
| "op_text Bare = []"

fun op_holds :: "range_op \<Rightarrow> SemVerTriple \<Rightarrow> SemVerTriple \<Rightarrow> bool" where
  "op_holds AtLeast v w = (v \<ge> w)"
| "op_holds AtMost v w = (v \<le> w)"
| "op_holds Above v w = (v > w)"
| "op_holds Below v w = (v < w)"
| "op_holds Exactly v w = (v = w)"
| "op_holds Bare v w = (v = w)"

definition clause_text :: "range_op \<times> nat \<times> nat \<times> nat \<Rightarrow> string" where
  "clause_text c = op_text (fst c) @ formatSemVer (snd c)"

lemma format_head: "\<exists>d s. formatSemVer t = d # s \<and> is_digit d"
proof -
  obtain a b c where "t = (a, b, c)" by (cases t)
  moreover obtain d s where "show_nat a = d # s" by (cases "show_nat a") auto
  ultimately show ?thesis using show_nat_digits [of a] by (auto simp: formatSemVer.simps)
qed

lemma clause_ok_text:
  assumes "exact t"
  shows "clause_ok v (clause_text (oper, t)) \<longleftrightarrow> op_holds oper v (triple t)"
proof -
  obtain d s where d: "formatSemVer t = d # s" "is_digit d" using format_head by blast
  then have "d \<noteq> CHR ''=''" "d \<noteq> CHR ''>''" "d \<noteq> CHR ''<''" by (auto simp: is_digit_def code_def)
  with d(1) show ?thesis
    using parseVersion_format [OF assms]
    by (cases oper) (auto simp: clause_ok_def clause_text_def starts_with_def cmp_lex not_less not_le)
qed

lemma op_text_chars: "c \<in> set (op_text oper) \<Longrightarrow> \<not> is_space c \<and> c \<noteq> CHR '',''"
  by (cases oper) (auto simp: is_space_def code_def)

lemma clause_text_chars:
  "c \<in> set (clause_text x) \<Longrightarrow> \<not> is_space c \<and> c \<noteq> CHR '',''"
proof -
  assume "c \<in> set (clause_text x)"
  then consider "c \<in> set (op_text (fst x))" | "dotted_char c"
    using dotted_format [of "snd x"] unfolding clause_text_def list_all_iff by auto
  moreover have "\<not> dotted_char CHR '',''" by (simp add: dotted_char_def is_digit_def code_def)
  ultimately show ?thesis using op_text_chars dotted_not_space by cases auto
qed

lemma js_trim_clause: "js_trim (clause_text x) = clause_text x"
  using clause_text_chars by (intro js_trim_no_space) (auto simp: list_all_iff)

lemma js_trim_space_clause: "js_trim (CHR '' '' # clause_text x) = clause_text x"
proof -
  have "is_space CHR '' ''" by (simp add: is_space_def code_def)
  then show ?thesis using js_trim_clause [of x] by (simp add: js_trim_def)
qed

lemma clause_text_not_Nil: "clause_text x \<noteq> []"
  using format_head [of "snd x"] by (auto simp: clause_text_def)

fun range_text :: "(range_op \<times> nat \<times> nat \<times> nat) list \<Rightarrow> string" where
  "range_text [] = []"
| "range_text [c] = clause_text c"
| "range_text (c # d # cs) = clause_text c @ '', '' @ range_text (d # cs)"

lemma split_range_text:
  "map js_trim (split_on CHR '','' (CHR '' '' # range_text (c # cs))) = map clause_text (c # cs)
   \<and> map js_trim (split_on CHR '','' (range_text (c # cs))) = map clause_text (c # cs)"
proof (induction cs arbitrary: c)
  case Nil
  have "CHR '','' \<notin> set (clause_text c)" using clause_text_chars [of "CHR '',''" c] by blast
  then show ?case by (simp add: split_on_no_sep js_trim_clause js_trim_space_clause)
next
  case (Cons d cs)
  have no: "CHR '','' \<notin> set (clause_text c)" "CHR '','' \<notin> set (CHR '' '' # clause_text c)"
    using clause_text_chars [of "CHR '',''" c] by auto
  show ?case
    using Cons.IH [of d] split_on_append [OF no(1)] split_on_append [OF no(2)]
    by (simp add: js_trim_clause js_trim_space_clause)
qed

text \<open>
  A range written as comma-separated clauses (operators and versions with components
  below \<open>2 ^ 53\<close>) is satisfied by a version exactly when every clause holds in the lexicographic
  order of the triples; the empty range accepts every version.
\<close>

theorem satisfies_range_conjunction:
  assumes "\<forall>c \<in> set cs. exact (snd c)"
  shows "satisfiesGodotRange version (range_text cs)
           \<longleftrightarrow> (\<forall>(oper, t) \<in> set cs. op_holds oper (parseVersion version) (triple t))"
proof (cases cs)
  case Nil
  then show ?thesis by (simp add: satisfiesGodotRange_def js_trim_def)
next
  case (Cons c ds)
  have "filter (\<lambda>c. c \<noteq> []) (map clause_text cs) = map clause_text cs"
    by (simp add: filter_id_conv clause_text_not_Nil)
  then have "satisfiesGodotRange version (range_text cs)
      \<longleftrightarrow> list_all (clause_ok (parseVersion version)) (map clause_text cs)"
    unfolding satisfiesGodotRange_def Let_def Cons
    by (subst conjunct2 [OF split_range_text]) simp
  also have "\<dots> \<longleftrightarrow> (\<forall>(oper, t) \<in> set cs. op_holds oper (parseVersion version) (triple t))"
    using assms clause_ok_text [of "snd c" v "fst c" for c v]
    by (simp add: list_all_iff case_prod_beta)
  finally show ?thesis .
qed

theorem satisfies_range_conjunction_witness:
  "satisfiesGodotRange ''v4.3.1.stable.official'' ''>=4.2.0, <5.0.0''
   \<and> \<not> satisfiesGodotRange ''5.0.0-beta2'' ''>=4.2.0, <5.0.0''"
proof -
  have e: "\<forall>c \<in> set [(AtLeast, 4, 2, 0), (Below, 5, 0, 0)]. exact (snd c)" by (simp add: exact_def)
  have t: "range_text [(AtLeast, 4, 2, 0), (Below, 5, 0, 0)] = ''>=4.2.0, <5.0.0''" by code_simp
  have c: "cut_stable (cut_channel (drop_v (js_trim ''v4.3.1.stable.official''))) = formatSemVer (4, 3, 1)"
    "cut_stable (cut_channel (drop_v (js_trim ''5.0.0-beta2''))) = formatSemVer (5, 0, 0)"
    by code_simp+
  have v: "parseVersion ''v4.3.1.stable.official'' = triple (4, 3, 1)"
    "parseVersion ''5.0.0-beta2'' = triple (5, 0, 0)"
    using c by (intro parseVersion_cleaned; simp add: exact_def)+
  show ?thesis
    using satisfies_range_conjunction [OF e, of "''v4.3.1.stable.official''"]
      satisfies_range_conjunction [OF e, of "''5.0.0-beta2''"]
    by (simp add: t [simplified] v triple_def less_js_number_def)
qed

section \<open>Version lines\<close>

lemma takeWhile_digits_tail:
  "suf = [] \<or> \<not> is_word (hd suf) \<Longrightarrow>
     takeWhile is_digit (show_nat n @ suf) = show_nat n \<and> dropWhile is_digit (show_nat n @ suf) = suf"
  using show_nat_digits [of n]
  by (cases suf) (auto simp: list_all_iff takeWhile_append2 dropWhile_append2 is_word_def)

lemma dotted_format_tail:
  "suf = [] \<or> \<not> is_word (hd suf) \<Longrightarrow> dotted 2 (formatSemVer t @ suf) = Some (formatSemVer t)"
  by (cases t) (simp add: formatSemVer.simps numeral_2_eq_2 starts_with_def takeWhile_digits_tail)

lemma scan_format:
  assumes "suf = [] \<or> \<not> is_word (hd suf)"
  shows "scan_version 2 False (formatSemVer t @ suf) = Some (formatSemVer t)"
proof -
  obtain d s where d: "formatSemVer t = d # s" "is_digit d" using format_head by blast
  then have "d \<noteq> CHR ''v''" by (auto simp: is_digit_def code_def)
  then show ?thesis using dotted_format_tail [OF assms, of t] by (simp add: d)
qed

lemma clean_line:
  "list_all (\<lambda>c. \<not> is_space c) s \<Longrightarrow> filter (\<lambda>c. code c \<noteq> 13) (js_trim s) = s"
  by (simp add: js_trim_no_space filter_id_conv list_all_iff) (auto simp: is_space_def)

text \<open>
  The exact-version check of the export templates: a line that starts with a printed
  version, bare or after \<open>v\<close>, and goes on with a non-word character and no white space (as in
  \<open>4.3.1.stable.official\<close>), yields exactly that version; so two such lines agree under
  \<open>versionsEqual\<close> of what was extracted only if all three components are equal.
\<close>

theorem extract_version_line:
  assumes "suf = [] \<or> \<not> is_word (hd suf)" and "list_all (\<lambda>c. \<not> is_space c) suf"
  shows "extractSemverFromGodotOutput (formatSemVer t @ suf) = Some (formatSemVer t)
       \<and> extractSemverFromGodotOutput (CHR ''v'' # formatSemVer t @ suf) = Some (formatSemVer t)
       \<and> (exact t \<and> exact u \<longrightarrow> (versionsEqual (formatSemVer t) (formatSemVer u) \<longleftrightarrow> t = u))"
proof -
  have "list_all (\<lambda>c. \<not> is_space c) (CHR ''v'' # formatSemVer t @ suf)"
    using assms(2) format_no_space [of t] by (simp add: is_space_def code_def)
  moreover from this have "list_all (\<lambda>c. \<not> is_space c) (formatSemVer t @ suf)" by simp
  ultimately have
    "extractSemverFromGodotOutput (formatSemVer t @ suf) = Some (formatSemVer t)"
    "extractSemverFromGodotOutput (CHR ''v'' # formatSemVer t @ suf) = Some (formatSemVer t)"
    using scan_format [OF assms(1), of t] dotted_format_tail [OF assms(1), of t]
    by (simp_all add: extractSemverFromGodotOutput_def clean_line Let_def)
  moreover have "versionsEqual (formatSemVer t) (formatSemVer u) \<longleftrightarrow> t = u"
    if "exact t \<and> exact u"
    using that by (simp add: versionsEqual_def parseVersion_format cmp_lex triple_inj)
  ultimately show ?thesis by blast
qed

theorem extract_version_line_witness:
  "extractSemverFromGodotOutput ''v4.3.10.stable.official'' = Some ''4.3.10''
   \<and> \<not> versionsEqual ''4.3.10'' ''4.3.1''"
proof -
  have f: "formatSemVer (4, 3, 10) = ''4.3.10''" "formatSemVer (4, 3, 1) = ''4.3.1''" by code_simp+
  have e: "exact (4, 3, 10)" "exact (4, 3, 1)" by (simp_all add: exact_def)
  have s: "\<not> is_word (hd ''.stable.official'')" "list_all (\<lambda>c. \<not> is_space c) ''.stable.official''"
    by code_simp+
  show ?thesis
    using extract_version_line [of "''.stable.official''" "(4, 3, 10)" "(4, 3, 1)"] s e
    by (simp add: f [simplified])
qed

end
