(* ===== verification/Lock_Service.thy ===== *)
theory Lock_Service
  imports Fencing Job_Status
begin

text \<open>
  \<open>packages/orchestrator/src/services/lock-service.ts\<close> and the Lua scripts it runs in Redis: the
  distributed generation lock and the ledger of fencing tokens.

  The state \<open>lock_world\<close> has the part of Redis the scripts touch (owner and token keys with their
  expiry in milliseconds, the counters, the instance id), the Postgres tables \<open>lock_fencing_seq\<close>
  (\<open>ledger\<close>, the row inserted last first, since \<open>acquired_at\<close> is the time of the insert),
  \<open>pg_locks\<close>, \<open>redis_instance_state\<close> and \<open>audit_logs\<close>, and the instance id the service caches. A
  write transaction commits iff \<open>tx_ok\<close>. \<open>randomUUID\<close> is the argument \<open>fresh\<close>.
\<close>

section \<open>State\<close>

datatype LockReason = ACQUIRED | REENTRANT | STALE_RECOVERED | ADMIN_RECLAIM | FAILOVER

record LockFencingEntry =
  le_lockKey :: string
  le_owner :: string
  le_token :: string
  le_instanceId :: string
  le_reason :: LockReason
  le_acquiredAt :: nat
  le_releasedAt :: "nat option"
  le_adminIdentity :: "string option"

record pg_lock =
  pl_lockKey :: string
  pl_ownerId :: string
  pl_fencingToken :: string
  pl_jobId :: "string option"
  pl_lastHeartbeatAt :: nat
  pl_acquiredAt :: nat
  pl_ttlSeconds :: nat

record AuditLogEntry =
  au_actorId :: "string option"
  au_actorRole :: "string option"
  au_action :: string
  au_resourceType :: string
  au_resourceId :: "string option"
  au_detail :: metadata

record lock_world =
  now :: nat
  tx_ok :: bool
  r_instance :: "string option"
  r_bootstrap :: "string option"
  r_owner :: "string \<Rightarrow> (string \<times> nat option) option"
  r_token :: "string \<Rightarrow> (string \<times> nat option) option"
  r_seq :: "string \<Rightarrow> nat"
  svc_instance :: "string option"
  pg_instance :: "string option"
  ledger :: "LockFencingEntry list"
  pg_locks :: "pg_lock list"
  audit_log :: "AuditLogEntry list"

section \<open>Redis\<close>

text \<open>\<open>GET\<close> of a key with an optional expiry: an expired key is absent.\<close>

definition redis_get :: "nat \<Rightarrow> (string \<times> nat option) option \<Rightarrow> string option" where
  "redis_get t x =
     (case x of
        None \<Rightarrow> None
      | Some (v, None) \<Rightarrow> Some v
      | Some (v, Some e) \<Rightarrow> if t < e then Some v else None)"

definition owner_of :: "'a lock_world_scheme \<Rightarrow> string \<Rightarrow> string option" where
  "owner_of w k = redis_get (now w) (r_owner w k)"

definition token_of :: "'a lock_world_scheme \<Rightarrow> string \<Rightarrow> string option" where
  "token_of w k = redis_get (now w) (r_token w k)"

text \<open>What a script returns: a status and a text, or a Redis error (\<open>SET ... EX 0\<close> is one).\<close>

datatype lua_reply = Reply int string | ScriptError string

definition invalid_expire :: lua_reply where
  "invalid_expire = ScriptError ''ERR invalid expire time in set''"

definition expiry :: "'a lock_world_scheme \<Rightarrow> nat \<Rightarrow> nat option" where
  "expiry w ttl = Some (now w + 1000 * ttl)"

text \<open>\<open>lua/acquire_lock.lua\<close>\<close>

definition acquire_lock :: "string \<Rightarrow> string \<Rightarrow> nat \<Rightarrow> 'a lock_world_scheme
    \<Rightarrow> lua_reply \<times> 'a lock_world_scheme" where
  "acquire_lock lockKey ownerId ttl w =
     (case (case r_instance w of Some i \<Rightarrow> Some i | None \<Rightarrow> r_bootstrap w) of
        None \<Rightarrow> (Reply (- 1) ''NO_INSTANCE_ID'', w)
      | Some inst \<Rightarrow>
          let counter = Suc (r_seq w lockKey);
              fresh_token = formatFencingToken inst counter;
              w_incr = w\<lparr>r_seq := (r_seq w)(lockKey := counter)\<rparr>
          in case owner_of w lockKey of
               None \<Rightarrow>
                 if ttl = 0 then (invalid_expire, w_incr)
                 else (Reply 1 fresh_token,
                       w_incr\<lparr>r_owner := (r_owner w)(lockKey \<mapsto> (ownerId, expiry w ttl)),
                              r_token := (r_token w)(lockKey \<mapsto> (fresh_token, expiry w ttl))\<rparr>)
             | Some currentOwner \<Rightarrow>
                 if currentOwner = ownerId
                 then (case token_of w lockKey of
                         None \<Rightarrow>
                           if ttl = 0 then (invalid_expire, w_incr)
                           else (Reply 2 fresh_token,
                                 w_incr\<lparr>r_owner := (r_owner w)(lockKey \<mapsto> (ownerId, expiry w ttl)),
                                        r_token := (r_token w)(lockKey \<mapsto> (fresh_token, expiry w ttl))\<rparr>)
                       | Some token \<Rightarrow>
                           (Reply 2 token,
                            w\<lparr>r_owner := (r_owner w)(lockKey \<mapsto> (ownerId, expiry w ttl)),
                              r_token := (r_token w)(lockKey \<mapsto> (token, expiry w ttl))\<rparr>))
                 else (Reply 0 ''0'', w))"

text \<open>\<open>lua/release_lock.lua\<close>\<close>

definition release_lock :: "string \<Rightarrow> string \<Rightarrow> 'a lock_world_scheme
    \<Rightarrow> bool \<times> 'a lock_world_scheme" where
  "release_lock lockKey ownerId w =
     (if owner_of w lockKey = Some ownerId
      then (True, w\<lparr>r_owner := (r_owner w)(lockKey := None),
                    r_token := (r_token w)(lockKey := None)\<rparr>)
      else (False, w))"

text \<open>\<open>lua/bump_fencing.lua\<close>\<close>

definition bump_fencing :: "string \<Rightarrow> 'a lock_world_scheme \<Rightarrow> lua_reply \<times> 'a lock_world_scheme" where
  "bump_fencing lockKey w =
     (case r_instance w of
        None \<Rightarrow> (Reply (- 1) ''NO_INSTANCE_ID'', w)
      | Some inst \<Rightarrow>
          let counter = Suc (r_seq w lockKey);
              token = formatFencingToken inst counter
          in (Reply 1 token,
              w\<lparr>r_seq := (r_seq w)(lockKey := counter),
                r_token := (r_token w)(lockKey \<mapsto> (token, None)),
                r_owner := (r_owner w)(lockKey := None)\<rparr>))"

section \<open>\<open>LockService\<close>\<close>

definition FAILOVER_SENTINEL_LOCK_KEY :: string where
  "FAILOVER_SENTINEL_LOCK_KEY = ''pgos:system:redis-failover''"

record FailoverLedgerRow =
  fo_lockKey :: string
  fo_owner :: string
  fo_token :: string
  fo_instanceId :: string

text \<open>A JavaScript \<open>Set\<close> keeps each key once; \<open>sort\<close> orders by code units.\<close>

definition buildFailoverLedgerRows :: "string \<Rightarrow> string list \<Rightarrow> FailoverLedgerRow list" where
  "buildFailoverLedgerRows newInstanceId activeLockKeys =
     (let token = formatFencingToken newInstanceId 0;
          keys = remdups (filter (\<lambda>k. k \<noteq> []) activeLockKeys @ [FAILOVER_SENTINEL_LOCK_KEY])
      in map (\<lambda>k. \<lparr>fo_lockKey = k, fo_owner = ''system'', fo_token = token,
                    fo_instanceId = newInstanceId\<rparr>) (sort keys))"

definition truthy_id :: "string option \<Rightarrow> string option" where
  "truthy_id x = (if truthy x then x else None)"

definition ensureInstanceId :: "string \<Rightarrow> 'a lock_world_scheme \<Rightarrow> string \<times> 'a lock_world_scheme" where
  "ensureInstanceId fresh w =
     (case truthy_id (svc_instance w) of
        Some i \<Rightarrow> (i, w)
      | None \<Rightarrow>
          (case truthy_id (r_instance w) of
             Some i \<Rightarrow> (i, w\<lparr>svc_instance := Some i\<rparr>)
           | None \<Rightarrow>
               let i = or_default (pg_instance w) fresh
               in case r_instance w of
                    Some present \<Rightarrow> (present, w\<lparr>svc_instance := Some present\<rparr>)
                  | None \<Rightarrow> (i, w\<lparr>r_instance := Some i, pg_instance := Some i,
                                 svc_instance := Some i\<rparr>)))"

definition ledger_row :: "'a lock_world_scheme \<Rightarrow> string \<Rightarrow> string \<Rightarrow> string \<Rightarrow> string \<Rightarrow> LockReason
    \<Rightarrow> string option \<Rightarrow> LockFencingEntry" where
  "ledger_row w k own tok inst rsn adm =
     \<lparr>le_lockKey = k, le_owner = own, le_token = tok, le_instanceId = inst, le_reason = rsn,
      le_acquiredAt = now w, le_releasedAt = None, le_adminIdentity = adm\<rparr>"

definition system_error :: "string \<Rightarrow> js_error" where
  "system_error msg = JsError None None msg"

definition tx_failed :: js_error where
  "tx_failed = system_error ''transaction failed''"

definition rotateInstanceIdOnFailover :: "string \<Rightarrow> 'a lock_world_scheme
    \<Rightarrow> string outcome \<times> 'a lock_world_scheme" where
  "rotateInstanceIdOnFailover newId w =
     (let previous = (case svc_instance w of Some i \<Rightarrow> Some i | None \<Rightarrow> r_instance w);
          activeKeys = map pl_lockKey (pg_locks w);
          rows = buildFailoverLedgerRows newId activeKeys;
          entries = map (\<lambda>r. ledger_row w (fo_lockKey r) (fo_owner r) (fo_token r)
                                (fo_instanceId r) FAILOVER None) rows;
          audit = \<lparr>au_actorId = None, au_actorRole = None,
                   au_action = ''redis.failover_instance_rotated'', au_resourceType = ''redis'',
                   au_resourceId = Some newId,
                   au_detail = [(''reason'', JStr ''FAILOVER''),
                     (''previousInstanceId'', (case previous of None \<Rightarrow> JNull | Some p \<Rightarrow> JStr p)),
                     (''newInstanceId'', JStr newId),
                     (''failoverLockKeys'', JArr (map (JStr \<circ> fo_lockKey) rows)),
                     (''activeLocksInvalidated'', JNum (show_nat (length activeKeys)))]\<rparr>
      in if \<not> tx_ok w then (Throw tx_failed, w)
         else (Ret newId,
               w\<lparr>pg_instance := Some newId,
                 ledger := rev entries @ ledger w,
                 pg_locks := [],
                 audit_log := audit # audit_log w,
                 r_instance := Some newId,
                 svc_instance := Some newId\<rparr>))"

datatype AcquireResult =
    Granted (was_reentrant: bool) (granted_token: string)
  | Denied
  | AcquireError string

text \<open>\<open>INSERT ... ON CONFLICT (lock_key) DO UPDATE\<close> of \<open>acquire\<close>: \<open>acquired_at\<close> and, when the new
  row has no job, \<open>job_id\<close> keep their values.\<close>

fun upsert_lock :: "pg_lock \<Rightarrow> pg_lock list \<Rightarrow> pg_lock list" where
  "upsert_lock n [] = [n]"
| "upsert_lock n (r # rs) =
     (if pl_lockKey r = pl_lockKey n
      then r\<lparr>pl_ownerId := pl_ownerId n, pl_fencingToken := pl_fencingToken n,
             pl_jobId := (case pl_jobId n of None \<Rightarrow> pl_jobId r | Some j \<Rightarrow> Some j),
             pl_lastHeartbeatAt := pl_lastHeartbeatAt n, pl_ttlSeconds := pl_ttlSeconds n\<rparr> # rs
      else r # upsert_lock n rs)"

definition opt_str :: "string option \<Rightarrow> json" where
  "opt_str x = (case x of None \<Rightarrow> JNull | Some s \<Rightarrow> JStr s)"

definition acquire_detail :: "string \<Rightarrow> string \<Rightarrow> string option \<Rightarrow> metadata" where
  "acquire_detail ownerId token jobId =
     [(''ownerId'', JStr ownerId), (''token'', JStr token)]
     @ (case jobId of None \<Rightarrow> [] | Some j \<Rightarrow> [(''jobId'', JStr j)])"

definition record_grant :: "string \<Rightarrow> string \<Rightarrow> nat \<Rightarrow> string option \<Rightarrow> bool \<Rightarrow> LockReason \<Rightarrow> string
    \<Rightarrow> string \<Rightarrow> 'a lock_world_scheme \<Rightarrow> 'a lock_world_scheme" where
  "record_grant lockKey ownerId ttl jobId reentrant rsn token inst w =
     w\<lparr>ledger := ledger_row w lockKey ownerId token inst rsn None # ledger w,
       pg_locks := upsert_lock
         \<lparr>pl_lockKey = lockKey, pl_ownerId = ownerId, pl_fencingToken = token, pl_jobId = jobId,
          pl_lastHeartbeatAt = now w, pl_acquiredAt = now w, pl_ttlSeconds = ttl\<rparr> (pg_locks w),
       audit_log := \<lparr>au_actorId = None, au_actorRole = None,
                     au_action = (if reentrant then ''lock.reentrant'' else ''lock.acquired''),
                     au_resourceType = ''lock'', au_resourceId = Some lockKey,
                     au_detail = acquire_detail ownerId token jobId\<rparr> # audit_log w\<rparr>"

text \<open>\<open>parsed?.inst ?? (await this.ensureInstanceId())\<close>\<close>

definition token_instance :: "string \<Rightarrow> string \<Rightarrow> 'a lock_world_scheme \<Rightarrow> string \<times> 'a lock_world_scheme" where
  "token_instance fresh token w =
     (case parseFencingToken token of
        Some p \<Rightarrow> (instanceId p, w)
      | None \<Rightarrow> ensureInstanceId fresh w)"

definition acquire :: "string \<Rightarrow> string \<Rightarrow> string \<Rightarrow> nat \<Rightarrow> string option \<Rightarrow> LockReason option
    \<Rightarrow> 'a lock_world_scheme \<Rightarrow> AcquireResult outcome \<times> 'a lock_world_scheme" where
  "acquire fresh lockKey ownerId ttl jobId reason_opt w0 =
     (let (_, w1) = ensureInstanceId fresh w0
      in case acquire_lock lockKey ownerId ttl w1 of
           (ScriptError msg, w2) \<Rightarrow> (Throw (system_error msg), w2)
         | (Reply st token, w2) \<Rightarrow>
             if st = - 1 then (Ret (AcquireError token), w2)
             else if st = 0 then (Ret Denied, w2)
             else
               let reentrant = (st \<noteq> 1);
                   rsn = or_default reason_opt (if reentrant then REENTRANT else ACQUIRED);
                   (inst, w3) = token_instance fresh token w2
               in if tx_ok w3
                  then (Ret (Granted reentrant token),
                        record_grant lockKey ownerId ttl jobId reentrant rsn token inst w3)
                  else (Throw tx_failed, snd (release_lock lockKey ownerId w3)))"

definition release :: "string \<Rightarrow> string \<Rightarrow> 'a lock_world_scheme \<Rightarrow> bool \<times> 'a lock_world_scheme" where
  "release lockKey ownerId w =
     (let (n, w1) = release_lock lockKey ownerId w
      in if n
         then (True,
               w1\<lparr>ledger := map (\<lambda>e. if le_lockKey e = lockKey \<and> le_owner e = ownerId
                                      \<and> le_releasedAt e = None
                                   then e\<lparr>le_releasedAt := Some (now w)\<rparr> else e) (ledger w),
                  pg_locks := filter (\<lambda>r. \<not> (pl_lockKey r = lockKey \<and> pl_ownerId r = ownerId))
                                (pg_locks w)\<rparr>)
         else (False, w1))"

definition reclaim_detail :: "string \<Rightarrow> LockReason \<Rightarrow> string option \<Rightarrow> metadata" where
  "reclaim_detail token rsn adm =
     [(''token'', JStr token),
      (''reason'', JStr (if rsn = ADMIN_RECLAIM then ''ADMIN_RECLAIM'' else ''STALE_RECOVERED''))]
     @ (case adm of None \<Rightarrow> [] | Some a \<Rightarrow> [(''adminIdentity'', JStr a)])"

definition reclaim :: "string \<Rightarrow> string \<Rightarrow> LockReason \<Rightarrow> string option \<Rightarrow> 'a lock_world_scheme
    \<Rightarrow> string outcome \<times> 'a lock_world_scheme" where
  "reclaim fresh lockKey rsn adm w0 =
     (let (_, w1) = ensureInstanceId fresh w0
      in case bump_fencing lockKey w1 of
           (ScriptError msg, w2) \<Rightarrow> (Throw (system_error msg), w2)
         | (Reply st token, w2) \<Rightarrow>
             if st \<noteq> 1
             then (Throw (system_error (''Failed to bump fencing token: '' @ token)), w2)
             else
               let (inst, w3) = token_instance fresh token w2
               in if \<not> tx_ok w3 then (Throw tx_failed, w3)
                  else (Ret token,
                        w3\<lparr>ledger := ledger_row w3 lockKey ''system'' token inst rsn adm # ledger w3,
                           pg_locks := filter (\<lambda>r. pl_lockKey r \<noteq> lockKey) (pg_locks w3),
                           audit_log :=
                             \<lparr>au_actorId = None,
                              au_actorRole = (if truthy adm then Some ''admin'' else None),
                              au_action = (if rsn = ADMIN_RECLAIM then ''lock.admin_reclaim''
                                           else ''lock.stale_recovered''),
                              au_resourceType = ''lock'', au_resourceId = Some lockKey,
                              au_detail = reclaim_detail token rsn adm\<rparr> # audit_log w3\<rparr>))"

definition latest_entry :: "'a lock_world_scheme \<Rightarrow> string \<Rightarrow> LockFencingEntry option" where
  "latest_entry w k = find (\<lambda>e. le_lockKey e = k) (ledger w)"

definition revoking :: "LockReason \<Rightarrow> bool" where
  "revoking r = (r = STALE_RECOVERED \<or> r = ADMIN_RECLAIM \<or> r = FAILOVER)"

definition validateFencingToken :: "string \<Rightarrow> string \<Rightarrow> string \<Rightarrow> string \<Rightarrow> 'a lock_world_scheme
    \<Rightarrow> bool \<times> 'a lock_world_scheme" where
  "validateFencingToken fresh lockKey own presented w =
     (case latest_entry w lockKey of
        None \<Rightarrow> (False, w)
      | Some latest \<Rightarrow>
          let (current, w1) = ensureInstanceId fresh w
          in (if js_lower (le_instanceId latest) \<noteq> js_lower current then False
              else if revoking (le_reason latest) then False
              else if le_owner latest \<noteq> own then False
              else le_token latest = presented, w1))"

section \<open>Listing\<close>

record ActiveLock =
  al_lockKey :: string
  al_ownerId :: string
  al_fencingToken :: string
  al_health :: LockHealth
  al_ttlSeconds :: nat
  al_history :: "LockFencingEntry list"

definition getHistory :: "string \<Rightarrow> nat \<Rightarrow> 'a lock_world_scheme \<Rightarrow> LockFencingEntry list" where
  "getHistory lockKey limit w = take limit (filter (\<lambda>e. le_lockKey e = lockKey) (ledger w))"

text \<open>\<open>TTL\<close>: seconds left, rounded; negative for an absent key or one without expiry.\<close>

definition redis_ttl :: "nat \<Rightarrow> (string \<times> nat option) option \<Rightarrow> int" where
  "redis_ttl t x =
     (case x of
        None \<Rightarrow> - 2
      | Some (_, None) \<Rightarrow> - 1
      | Some (_, Some e) \<Rightarrow> if t < e then int ((e - t + 500) div 1000) else - 2)"

definition listActiveLocks :: "'a lock_world_scheme \<Rightarrow> ActiveLock list" where
  "listActiveLocks w =
     map (\<lambda>row.
        let redisOwner = owner_of w (pl_lockKey row);
            ttl = redis_ttl (now w) (r_owner w (pl_lockKey row));
            health = (if \<not> truthy redisOwner then stale
                      else if redisOwner = Some (pl_ownerId row) then healthy else stale)
        in \<lparr>al_lockKey = pl_lockKey row, al_ownerId = pl_ownerId row,
            al_fencingToken = pl_fencingToken row, al_health = health,
            al_ttlSeconds = (if ttl > 0 then nat ttl else pl_ttlSeconds row),
            al_history = getHistory (pl_lockKey row) 50 w\<rparr>)
       (rev (sort_key pl_acquiredAt (pg_locks w)))"

definition generationLockKey :: "string \<Rightarrow> string" where
  "generationLockKey projectId = ''project:'' @ projectId @ '':generation''"

definition targetPathLockKey :: "string \<Rightarrow> string" where
  "targetPathLockKey projectId = ''project:'' @ projectId @ '':target-path''"

end
