(* ===== verification/Lock_Contract.thy ===== *)
theory Lock_Contract
  imports Prelude
begin

text \<open>
  The interface a user of the lock service relies on: leases with an expiry time, requests that
  either grant the lease or leave the lease of another holder alone, and releases that touch the
  caller's lease only. Exclusion over whole histories is proved once, from these laws.
\<close>

datatype ('x, 'k, 'o) lease_op =
    Request 'x 'k 'o
  | Release 'k 'o
  | Wait nat

fun op_by :: "'k \<Rightarrow> 'o \<Rightarrow> ('x, 'k, 'o) lease_op \<Rightarrow> bool" where
  "op_by k p (Request x k' o') = (k' = k \<and> o' = p)"
| "op_by k p (Release k' o') = (k' = k \<and> o' = p)"
| "op_by k p (Wait d) = False"

fun waited :: "('x, 'k, 'o) lease_op list \<Rightarrow> nat" where
  "waited [] = 0"
| "waited (Wait d # ops) = d + waited ops"
| "waited (Request x k p # ops) = waited ops"
| "waited (Release k p # ops) = waited ops"

locale leased_lock =
  fixes clock :: "'s \<Rightarrow> nat"
    and lease :: "'s \<Rightarrow> 'k \<Rightarrow> ('o \<times> nat) option"
    and request :: "'x \<Rightarrow> 'k \<Rightarrow> 'o \<Rightarrow> 's \<Rightarrow> bool \<times> 's"
    and give_back :: "'k \<Rightarrow> 'o \<Rightarrow> 's \<Rightarrow> 's"
    and wait :: "nat \<Rightarrow> 's \<Rightarrow> 's"
  assumes request_clock: "clock (snd (request x k p s)) = clock s"
    and request_frame: "k' \<noteq> k \<Longrightarrow> lease (snd (request x k p s)) k' = lease s k'"
    and request_granted: "fst (request x k p s) \<Longrightarrow>
        \<exists>e. lease (snd (request x k p s)) k = Some (p, e) \<and> clock s < e"
    and request_refused: "lease s k = Some (q, e) \<Longrightarrow> clock s < e \<Longrightarrow> q \<noteq> p \<Longrightarrow>
        \<not> fst (request x k p s) \<and> lease (snd (request x k p s)) k = Some (q, e)"
    and give_back_clock: "clock (give_back k p s) = clock s"
    and give_back_other: "k' \<noteq> k \<or> lease s k = Some (q, e) \<and> clock s < e \<and> q \<noteq> p \<Longrightarrow>
        lease (give_back k p s) k' = lease s k'"
    and wait_clock: "clock (wait d s) = clock s + d"
    and wait_lease: "lease (wait d s) k = lease s k"
begin

fun perform :: "('x, 'k, 'o) lease_op \<Rightarrow> 's \<Rightarrow> 's" where
  "perform (Request x k p) s = snd (request x k p s)"
| "perform (Release k p) s = give_back k p s"
| "perform (Wait d) s = wait d s"

text \<open>The requests granted along a history, in order.\<close>

fun grants :: "('x, 'k, 'o) lease_op list \<Rightarrow> 's \<Rightarrow> ('k \<times> 'o) list" where
  "grants [] s = []"
| "grants (Request x k p # ops) s =
     (if fst (request x k p s) then [(k, p)] else []) @ grants ops (snd (request x k p s))"
| "grants (Release k p # ops) s = grants ops (give_back k p s)"
| "grants (Wait d # ops) s = grants ops (wait d s)"

lemma perform_keeps:
  assumes "lease s k = Some (q, e)" and "clock s < e" and "\<not> op_by k q a"
  shows "lease (perform a s) k = Some (q, e)"
proof (cases a)
  case (Request x k' p)
  show ?thesis
  proof (cases "k' = k")
    case True
    with Request assms request_refused show ?thesis by auto
  next
    case False
    with Request assms request_frame show ?thesis by fastforce
  qed
next
  case (Release k' p)
  show ?thesis
  proof (cases "k' = k")
    case True
    with Release assms give_back_other [of k k s q e p] show ?thesis by auto
  next
    case False
    with Release assms give_back_other [of k k'] show ?thesis by auto
  qed
next
  case (Wait d)
  with assms show ?thesis by (simp add: wait_lease)
qed

lemma history_keeps:
  "lease s k = Some (q, e) \<Longrightarrow> clock s + waited ops < e \<Longrightarrow> \<forall>a \<in> set ops. \<not> op_by k q a \<Longrightarrow>
     lease (foldl (\<lambda>s a. perform a s) s ops) k = Some (q, e)"
proof (induction ops arbitrary: s)
  case Nil
  then show ?case by simp
next
  case (Cons a ops)
  then have "lease (perform a s) k = Some (q, e)" by (intro perform_keeps) auto
  moreover have "clock (perform a s) + waited ops < e"
    using Cons.prems by (cases a) (simp_all add: request_clock give_back_clock wait_clock)
  ultimately show ?case using Cons by simp
qed

lemma history_excludes:
  "lease s k = Some (q, e) \<Longrightarrow> clock s + waited ops < e \<Longrightarrow> \<forall>a \<in> set ops. \<not> op_by k q a \<Longrightarrow>
     \<forall>g \<in> set (grants ops s). fst g \<noteq> k"
proof (induction ops arbitrary: s)
  case Nil
  then show ?case by simp
next
  case (Cons a ops)
  then have kept: "lease (perform a s) k = Some (q, e)" by (intro perform_keeps) auto
  have clk: "clock (perform a s) + waited ops < e"
    using Cons.prems by (cases a) (simp_all add: request_clock give_back_clock wait_clock)
  have rest: "\<forall>g \<in> set (grants ops (perform a s)). fst g \<noteq> k"
    using Cons.IH [OF kept clk] Cons.prems by simp
  show ?case
  proof (cases a)
    case (Request x k' p)
    have "k' = k \<Longrightarrow> \<not> fst (request x k' p s)"
      using Cons.prems Request request_refused [of s k q e p x] by auto
    with Request rest show ?thesis by auto
  qed (use rest in auto)
qed

end

end
