(* ===== verification/Lock_Safety.thy ===== *)
theory Lock_Safety
  imports Lock_Service Lock_Contract
begin

text \<open>
  Properties of the lock service: the lease contract of \<open>Lock_Contract\<close>, the invariant that ties the
  tokens of the ledger to the Redis counters, and what follows for stale tokens, over every sequence
  of operations of the service (acquire, release, reclaim, failover, validation, time passing,
  failing transactions, restarts of the orchestrator).
\<close>

section \<open>Effects of the operations, field by field\<close>

lemma ensure_frame [simp]:
  "now (snd (ensureInstanceId f w)) = now w"
  "tx_ok (snd (ensureInstanceId f w)) = tx_ok w"
  "r_bootstrap (snd (ensureInstanceId f w)) = r_bootstrap w"
  "r_owner (snd (ensureInstanceId f w)) = r_owner w"
  "r_token (snd (ensureInstanceId f w)) = r_token w"
  "r_seq (snd (ensureInstanceId f w)) = r_seq w"
  "ledger (snd (ensureInstanceId f w)) = ledger w"
  "pg_locks (snd (ensureInstanceId f w)) = pg_locks w"
  "audit_log (snd (ensureInstanceId f w)) = audit_log w"
  by (simp_all add: ensureInstanceId_def Let_def split: option.splits)

lemma owner_of_ensure [simp]:
  "owner_of (snd (ensureInstanceId f w)) k = owner_of w k"
  "token_of (snd (ensureInstanceId f w)) k = token_of w k"
  by (simp_all add: owner_of_def token_of_def)

lemma token_instance_frame [simp]:
  "now (snd (token_instance f t w)) = now w"
  "tx_ok (snd (token_instance f t w)) = tx_ok w"
  "r_owner (snd (token_instance f t w)) = r_owner w"
  "r_token (snd (token_instance f t w)) = r_token w"
  "r_seq (snd (token_instance f t w)) = r_seq w"
  "ledger (snd (token_instance f t w)) = ledger w"
  "pg_locks (snd (token_instance f t w)) = pg_locks w"
  by (simp_all add: token_instance_def split: option.splits)

lemma record_grant_frame [simp]:
  "now (record_grant k p ttl j re rs t i w) = now w"
  "tx_ok (record_grant k p ttl j re rs t i w) = tx_ok w"
  "r_owner (record_grant k p ttl j re rs t i w) = r_owner w"
  "r_token (record_grant k p ttl j re rs t i w) = r_token w"
  "r_seq (record_grant k p ttl j re rs t i w) = r_seq w"
  "r_instance (record_grant k p ttl j re rs t i w) = r_instance w"
  "svc_instance (record_grant k p ttl j re rs t i w) = svc_instance w"
  "pg_instance (record_grant k p ttl j re rs t i w) = pg_instance w"
  "ledger (record_grant k p ttl j re rs t i w) = ledger_row w k p t i rs None # ledger w"
  by (simp_all add: record_grant_def)

section \<open>The lease contract\<close>

definition lease_of :: "'a lock_world_scheme \<Rightarrow> string \<Rightarrow> (string \<times> nat) option" where
  "lease_of w k = (case r_owner w k of Some (p, Some e) \<Rightarrow> Some (p, e) | _ \<Rightarrow> None)"

text \<open>A request carries the fresh id, the ttl less one, and the job; \<open>granted\<close> reads the result.\<close>

definition granted :: "AcquireResult outcome \<Rightarrow> bool" where
  "granted r = (case r of Ret (Granted _ _) \<Rightarrow> True | _ \<Rightarrow> False)"

definition request_lock :: "string \<times> nat \<times> string option \<Rightarrow> string \<Rightarrow> string \<Rightarrow> 'a lock_world_scheme
    \<Rightarrow> bool \<times> 'a lock_world_scheme" where
  "request_lock x k p w =
     (case x of (fresh, t, j) \<Rightarrow>
        let (r, w') = acquire fresh k p (Suc t) j None w in (granted r, w'))"

definition release_of :: "string \<Rightarrow> string \<Rightarrow> 'a lock_world_scheme \<Rightarrow> 'a lock_world_scheme" where
  "release_of k p w = snd (release k p w)"

definition tick :: "nat \<Rightarrow> 'a lock_world_scheme \<Rightarrow> 'a lock_world_scheme" where
  "tick d w = w\<lparr>now := now w + d\<rparr>"

lemma release_lock_cases:
  "release_lock k p w =
     (owner_of w k = Some p,
      if owner_of w k = Some p
      then w\<lparr>r_owner := (r_owner w)(k := None), r_token := (r_token w)(k := None)\<rparr> else w)"
  by (simp add: release_lock_def)

lemma lease_owner:
  "lease_of w k = Some (q, e) \<Longrightarrow> now w < e \<Longrightarrow> owner_of w k = Some q"
  by (auto simp: lease_of_def owner_of_def redis_get_def split: option.splits)

text \<open>What \<open>acquire\<close> does to the owner keys.\<close>

lemma acquire_lock_owner:
  assumes "acquire_lock k p ttl w = (r, w')"
  shows "now w' = now w \<and> (\<forall>k'. k' \<noteq> k \<longrightarrow> r_owner w' k' = r_owner w k')
    \<and> (\<forall>q. owner_of w k = Some q \<and> q \<noteq> p \<longrightarrow>
         w' = w \<and> (\<exists>st t. r = Reply st t \<and> (st = 0 \<or> st = - 1)))
    \<and> (\<forall>st t. r = Reply st t \<and> st \<noteq> 0 \<and> st \<noteq> - 1 \<longrightarrow> r_owner w' k = Some (p, expiry w ttl))"
  using assms
  by (auto simp: acquire_lock_def invalid_expire_def Let_def split: option.splits if_splits)

text \<open>\<open>acquire\<close> by the reply of the script.\<close>

lemma acquire_reply:
  assumes "acquire_lock k p ttl (snd (ensureInstanceId f w)) = (Reply st token, w2)"
  shows "acquire f k p ttl j rs w =
     (if st = - 1 then (Ret (AcquireError token), w2)
      else if st = 0 then (Ret Denied, w2)
      else let inst = fst (token_instance f token w2);
               w3 = snd (token_instance f token w2)
           in if tx_ok w2
              then (Ret (Granted (st \<noteq> 1) token),
                    record_grant k p ttl j (st \<noteq> 1)
                      (or_default rs (if st \<noteq> 1 then REENTRANT else ACQUIRED)) token inst w3)
              else (Throw tx_failed, snd (release_lock k p w3)))"
proof -
  obtain i w1 where ens: "ensureInstanceId f w = (i, w1)" by fastforce
  obtain i3 w3 where ti: "token_instance f token w2 = (i3, w3)" by fastforce
  have "tx_ok w3 = tx_ok w2" using token_instance_frame(2) [of f token w2] by (simp add: ti)
  with assms show ?thesis by (simp add: acquire_def ens ti)
qed

lemma acquire_script_error:
  assumes "acquire_lock k p ttl (snd (ensureInstanceId f w)) = (ScriptError msg, w2)"
  shows "acquire f k p ttl j rs w = (Throw (system_error msg), w2)"
proof -
  obtain i w1 where ens: "ensureInstanceId f w = (i, w1)" by fastforce
  with assms show ?thesis by (simp add: acquire_def)
qed

lemma acquire_owner:
  assumes "acquire f k p ttl j rs w = (r, w')"
  shows "now w' = now w \<and> (\<forall>k'. k' \<noteq> k \<longrightarrow> r_owner w' k' = r_owner w k')
    \<and> (\<forall>q. owner_of w k = Some q \<and> q \<noteq> p \<longrightarrow> \<not> granted r \<and> r_owner w' = r_owner w)
    \<and> (granted r \<longrightarrow> r_owner w' k = Some (p, expiry w ttl))"
proof -
  define w1 where "w1 = snd (ensureInstanceId f w)"
  obtain rep w2 where lua: "acquire_lock k p ttl w1 = (rep, w2)" by fastforce
  note facts = acquire_lock_owner [OF lua]
  have same: "now w1 = now w" "r_owner w1 = r_owner w" "owner_of w1 k = owner_of w k"
    "expiry w1 ttl = expiry w ttl"
    by (simp_all add: w1_def expiry_def)
  show ?thesis
  proof (cases rep)
    case (ScriptError msg)
    with lua have "acquire f k p ttl j rs w = (Throw (system_error msg), w2)"
      unfolding w1_def by (intro acquire_script_error) simp
    with assms facts same ScriptError show ?thesis by (auto simp: granted_def)
  next
    case (Reply st token)
    note step = acquire_reply [of k p ttl f w st token w2 j rs, folded w1_def, OF lua [unfolded Reply]]
    show ?thesis
      using assms facts same unfolding step Reply
      by (auto simp: granted_def Let_def release_lock_cases split: if_splits)
  qed
qed

interpretation lk: leased_lock now lease_of request_lock release_of tick
proof
  fix x :: "string \<times> nat \<times> string option" and k k' p q :: string and e d :: nat
    and w :: "'a lock_world_scheme"
  obtain f t j where x: "x = (f, t, j)" by (cases x)
  obtain r w' where acq: "acquire f k p (Suc t) j None w = (r, w')" by fastforce
  note facts = acquire_owner [OF acq]
  have req: "request_lock x k p w = (granted r, w')" by (simp add: request_lock_def x acq)
  show "now (snd (request_lock x k p w)) = now w" using req facts by simp
  show "k' \<noteq> k \<Longrightarrow> lease_of (snd (request_lock x k p w)) k' = lease_of w k'"
    using req facts by (simp add: lease_of_def)
  show "fst (request_lock x k p w) \<Longrightarrow>
      \<exists>e. lease_of (snd (request_lock x k p w)) k = Some (p, e) \<and> now w < e"
    using req facts by (simp add: lease_of_def expiry_def)
  show "lease_of w k = Some (q, e) \<Longrightarrow> now w < e \<Longrightarrow> q \<noteq> p \<Longrightarrow>
      \<not> fst (request_lock x k p w) \<and> lease_of (snd (request_lock x k p w)) k = Some (q, e)"
    using req facts lease_owner [of w k q e] by (simp add: lease_of_def)
  show "now (release_of k p w) = now w"
    by (simp add: release_of_def release_def release_lock_cases)
  show "k' \<noteq> k \<or> lease_of w k = Some (q, e) \<and> now w < e \<and> q \<noteq> p \<Longrightarrow>
      lease_of (release_of k p w) k' = lease_of w k'"
    using lease_owner [of w k q e]
    by (auto simp: release_of_def release_def release_lock_cases lease_of_def)
  show "now (tick d w) = now w + d" by (simp add: tick_def)
  show "lease_of (tick d w) k = lease_of w k" by (simp add: tick_def lease_of_def)
qed

text \<open>Histories of requests, releases and waiting on the model's own operations.\<close>

type_synonym lock_request = "(string \<times> nat \<times> string option, string, string) lease_op"

fun lease_step :: "lock_request \<Rightarrow> 'a lock_world_scheme \<Rightarrow> 'a lock_world_scheme" where
  "lease_step (Request x k p) w = snd (request_lock x k p w)"
| "lease_step (Release k p) w = release_of k p w"
| "lease_step (Wait d) w = tick d w"

fun lease_run :: "lock_request list \<Rightarrow> 'a lock_world_scheme \<Rightarrow> 'a lock_world_scheme" where
  "lease_run [] w = w"
| "lease_run (a # ops) w = lease_run ops (lease_step a w)"

fun lease_grants :: "lock_request list \<Rightarrow> 'a lock_world_scheme \<Rightarrow> (string \<times> string) list" where
  "lease_grants [] w = []"
| "lease_grants (a # ops) w =
     (case a of Request x k p \<Rightarrow> if fst (request_lock x k p w) then [(k, p)] else [] | _ \<Rightarrow> [])
     @ lease_grants ops (lease_step a w)"

lemma lease_step_perform: "lease_step a w = lk.perform a w"
  by (cases a) simp_all

lemma lease_run_perform: "lease_run ops w = foldl (\<lambda>s a. lk.perform a s) w ops"
  by (induction ops arbitrary: w) (simp_all add: lease_step_perform)

lemma lease_grants_grants: "lease_grants ops w = lk.grants ops w"
proof (induction ops arbitrary: w)
  case Nil
  then show ?case by simp
next
  case (Cons a ops)
  then show ?case by (cases a) simp_all
qed

text \<open>
  C1 (safety). Mutual exclusion. From the moment a job is granted a lock with a time to live of
  \<open>t + 1\<close> seconds, and through every history of requests and releases by others (any keys, any
  owners) and waiting for less than that time, nobody is granted that lock, and the holder still
  holds it in Redis at the end.
\<close>

theorem lock_mutual_exclusion:
  assumes "request_lock (f, t, j) k p w = (True, w')"
    and "waited ops < 1000 * Suc t"
    and "\<forall>a \<in> set ops. \<not> op_by k p a"
  shows "(\<forall>g \<in> set (lease_grants ops w'). fst g \<noteq> k) \<and> owner_of (lease_run ops w') k = Some p"
proof -
  obtain r where acq: "acquire f k p (Suc t) j None w = (r, w')" and g: "granted r"
    using assms(1) by (auto simp: request_lock_def split_beta prod_eq_iff)
  then have lease: "lease_of w' k = Some (p, now w' + 1000 * Suc t)"
    using acquire_owner [OF acq] by (simp add: lease_of_def expiry_def)
  have "now w' + waited ops < now w' + 1000 * Suc t" using assms(2) by simp
  then have kept: "lease_of (lease_run ops w') k = Some (p, now w' + 1000 * Suc t)"
    and none: "\<forall>g \<in> set (lease_grants ops w'). fst g \<noteq> k"
    using lk.history_keeps [OF lease _ assms(3)] lk.history_excludes [OF lease _ assms(3)]
    by (simp_all add: lease_run_perform lease_grants_grants)
  have "now (lease_run ops w') = now w' + waited ops" for w' :: "'a lock_world_scheme"
  proof (induction ops arbitrary: w')
    case Nil
    then show ?case by simp
  next
    case (Cons a ops)
    then show ?case
      by (cases a) (simp_all add: lk.request_clock lk.give_back_clock lk.wait_clock)
  qed
  with assms(2) have "now (lease_run ops w') < now w' + 1000 * Suc t" by simp
  with kept none lease_owner show ?thesis by blast
qed

definition empty_world :: lock_world where
  "empty_world =
     \<lparr>now = 0, tx_ok = True, r_instance = None, r_bootstrap = None, r_owner = Map.empty,
      r_token = Map.empty, r_seq = (\<lambda>_. 0), svc_instance = None, pg_instance = None, ledger = [],
      pg_locks = [], audit_log = []\<rparr>"

definition id_1 :: string where "id_1 = ''00000000-0000-4000-8000-000000000001''"
definition id_2 :: string where "id_2 = ''00000000-0000-4000-8000-000000000002''"

theorem lock_mutual_exclusion_witness:
  "lease_grants [Wait 60000, Request (id_2, 119, None) ''k'' ''job:b'', Release ''k'' ''job:b'',
                 Request (id_2, 119, None) ''other'' ''job:b'']
     (snd (request_lock (id_1, 119, None) ''k'' ''job:a'' empty_world)) = [(''other'', ''job:b'')]
   \<and> owner_of (lease_run [Wait 60000, Request (id_2, 119, None) ''k'' ''job:b'']
       (snd (request_lock (id_1, 119, None) ''k'' ''job:a'' empty_world))) ''k'' = Some ''job:a''"
proof -
  have req: "request_lock (id_1, 119, None) ''k'' ''job:a'' empty_world =
      (True, snd (request_lock (id_1, 119, None) ''k'' ''job:a'' empty_world))"
  proof -
    have "fst (request_lock (id_1, 119, None) ''k'' ''job:a'' empty_world)" by code_simp
    then show ?thesis by (simp add: prod_eq_iff)
  qed
  have "\<forall>a \<in> set [Wait 60000, Request (id_2, 119, None) ''k'' ''job:b'']. \<not> op_by ''k'' ''job:a'' a"
    by code_simp
  from lock_mutual_exclusion [OF req _ this] 
  have "owner_of (lease_run [Wait 60000, Request (id_2, 119, None) ''k'' ''job:b'']
       (snd (request_lock (id_1, 119, None) ''k'' ''job:a'' empty_world))) ''k'' = Some ''job:a''"
    by simp
  moreover have "lease_grants [Wait 60000, Request (id_2, 119, None) ''k'' ''job:b'',
        Release ''k'' ''job:b'', Request (id_2, 119, None) ''other'' ''job:b'']
     (snd (request_lock (id_1, 119, None) ''k'' ''job:a'' empty_world)) = [(''other'', ''job:b'')]"
    by code_simp
  ultimately show ?thesis by blast
qed

section \<open>Tokens and counters\<close>

definition good_id :: "string \<Rightarrow> bool" where
  "good_id i = (uuid_shape i \<and> js_lower i = i)"

lemma good_id_not_Nil: "good_id i \<Longrightarrow> i \<noteq> []"
  by (auto simp: good_id_def uuid_shape_def)

lemma format_inj:
  "good_id i \<Longrightarrow> good_id j \<Longrightarrow> formatFencingToken i m = formatFencingToken j n \<longleftrightarrow> i = j \<and> m = n"
  by (auto simp: good_id_def formatFencingToken_def uuid_shape_length append_eq_append_conv
      dest: show_nat_inj)

text \<open>A token known for a key: issued by some instance, and by the current one only up to its counter.\<close>

definition token_bound :: "'a lock_world_scheme \<Rightarrow> string \<Rightarrow> string \<Rightarrow> string \<Rightarrow> bool" where
  "token_bound w k i t =
     (good_id i \<and> (\<exists>n. t = formatFencingToken i n \<and> (r_instance w = Some i \<longrightarrow> n \<le> r_seq w k)))"

definition ledger_bound :: "'a lock_world_scheme \<Rightarrow> bool" where
  "ledger_bound w = (\<forall>e \<in> set (ledger w). token_bound w (le_lockKey e) (le_instanceId e) (le_token e))"

definition tokens_bound :: "'a lock_world_scheme \<Rightarrow> bool" where
  "tokens_bound w = (\<forall>k t x. r_token w k = Some (t, x) \<longrightarrow> (\<exists>i. token_bound w k i t))"

text \<open>Either no id was ever chosen, or Redis has one and the service caches that one or none.\<close>

definition lock_inv :: "'a lock_world_scheme \<Rightarrow> bool" where
  "lock_inv w =
     ((\<forall>j \<in> set_option (pg_instance w). good_id j)
      \<and> (case r_instance w of
           None \<Rightarrow> svc_instance w = None \<and> ledger w = [] \<and> r_token w = Map.empty
         | Some i \<Rightarrow> good_id i \<and> svc_instance w \<in> {None, Some i} \<and> ledger_bound w \<and> tokens_bound w))"

text \<open>After \<open>ensureInstanceId\<close> Redis and the service agree on an id.\<close>

definition ready :: "string \<Rightarrow> 'a lock_world_scheme \<Rightarrow> bool" where
  "ready i w = (lock_inv w \<and> r_instance w = Some i \<and> svc_instance w = Some i)"

lemma ready_iff:
  "ready i w \<longleftrightarrow> r_instance w = Some i \<and> svc_instance w = Some i \<and> good_id i
     \<and> (\<forall>j \<in> set_option (pg_instance w). good_id j) \<and> ledger_bound w \<and> tokens_bound w"
  by (auto simp: ready_def lock_inv_def)

lemma ready_good: "ready i w \<Longrightarrow> good_id i"
  by (simp add: ready_iff)

lemma ensure_ready_id: "ready i w \<Longrightarrow> ensureInstanceId f w = (i, w)"
  using ready_good [of i w] good_id_not_Nil [of i]
  by (auto simp: ready_def ensureInstanceId_def truthy_id_def truthy_def)

lemma token_bound_svc [simp]: "token_bound (w\<lparr>svc_instance := x\<rparr>) k i t = token_bound w k i t"
  by (simp add: token_bound_def)

lemma bounds_svc [simp]:
  "ledger_bound (w\<lparr>svc_instance := x\<rparr>) = ledger_bound w"
  "tokens_bound (w\<lparr>svc_instance := x\<rparr>) = tokens_bound w"
  by (simp_all add: ledger_bound_def tokens_bound_def)

lemma lock_inv_svc: "lock_inv w \<Longrightarrow> r_instance w = Some i \<Longrightarrow> lock_inv (w\<lparr>svc_instance := Some i\<rparr>)"
  by (simp add: lock_inv_def)

lemma ensure_ready:
  assumes "lock_inv w" and "good_id f"
  obtains i where "fst (ensureInstanceId f w) = i" "ready i (snd (ensureInstanceId f w))"
    "r_instance w = None \<or> r_instance w = Some i"
proof (cases "r_instance w")
  case None
  with assms(1) have none: "svc_instance w = None" "ledger w = []" "r_token w = Map.empty"
    by (simp_all add: lock_inv_def)
  let ?i = "or_default (pg_instance w) f"
  have good: "good_id ?i"
    using assms by (cases "pg_instance w") (simp_all add: lock_inv_def or_default_def)
  have ens: "ensureInstanceId f w =
      (?i, w\<lparr>r_instance := Some ?i, pg_instance := Some ?i, svc_instance := Some ?i\<rparr>)"
    using None none by (simp add: ensureInstanceId_def truthy_id_def truthy_def Let_def)
  show ?thesis
    using ens good none None
    by (intro that [of ?i]) (simp_all add: ready_iff ledger_bound_def tokens_bound_def)
next
  case (Some i)
  with assms(1) have inv: "good_id i" "svc_instance w = None \<or> svc_instance w = Some i"
    by (simp_all add: lock_inv_def)
  have truthy: "truthy_id (Some i) = Some i"
    using good_id_not_Nil [OF inv(1)] by (simp add: truthy_id_def truthy_def)
  from inv(2) show ?thesis
  proof
    assume none: "svc_instance w = None"
    have "ensureInstanceId f w = (i, w\<lparr>svc_instance := Some i\<rparr>)"
      using truthy none Some by (simp add: ensureInstanceId_def truthy_id_def truthy_def)
    with Some lock_inv_svc [OF assms(1) Some] show ?thesis
      by (intro that [of i]) (simp_all add: ready_def)
  next
    assume svc: "svc_instance w = Some i"
    have "ensureInstanceId f w = (i, w)" using truthy svc by (simp add: ensureInstanceId_def)
    with Some svc assms(1) show ?thesis by (intro that [of i]) (simp_all add: ready_def)
  qed
qed

section \<open>Operations of the service as steps\<close>

datatype lock_op =
    OpAcquire string string string nat "string option" "LockReason option"
  | OpRelease string string
  | OpReclaim string string LockReason "string option"
  | OpRotate string
  | OpFailover string
  | OpValidate string string string string
  | OpTick nat
  | OpTx bool
  | OpRestart

text \<open>
  \<open>OpFailover\<close>: Redis comes back empty and the instance id is rotated at once. \<open>OpRestart\<close>: a new
  orchestrator process, with nothing cached.
\<close>

definition wipe_redis :: "'a lock_world_scheme \<Rightarrow> 'a lock_world_scheme" where
  "wipe_redis w =
     w\<lparr>r_instance := None, r_owner := Map.empty, r_token := Map.empty, r_seq := (\<lambda>_. 0)\<rparr>"

fun lock_step :: "lock_op \<Rightarrow> 'a lock_world_scheme \<Rightarrow> 'a lock_world_scheme" where
  "lock_step (OpAcquire f k p ttl j rs) w = snd (acquire f k p ttl j rs w)"
| "lock_step (OpRelease k p) w = snd (release k p w)"
| "lock_step (OpReclaim f k rs adm) w = snd (reclaim f k rs adm w)"
| "lock_step (OpRotate i) w = snd (rotateInstanceIdOnFailover i w)"
| "lock_step (OpFailover i) w = snd (rotateInstanceIdOnFailover i (wipe_redis w))"
| "lock_step (OpValidate f k p t) w = snd (validateFencingToken f k p t w)"
| "lock_step (OpTick d) w = tick d w"
| "lock_step (OpTx b) w = w\<lparr>tx_ok := b\<rparr>"
| "lock_step OpRestart w = w\<lparr>svc_instance := None\<rparr>"

text \<open>An id is unused when no token carries it, as for a new random UUID.\<close>

definition unused_id :: "'a lock_world_scheme \<Rightarrow> string \<Rightarrow> bool" where
  "unused_id w i =
     (good_id i \<and> r_instance w \<noteq> Some i
      \<and> (\<forall>e \<in> set (ledger w). le_instanceId e \<noteq> i)
      \<and> (\<forall>k t x n. r_token w k = Some (t, x) \<longrightarrow> t \<noteq> formatFencingToken i n))"

fun op_ok :: "lock_op \<Rightarrow> 'a lock_world_scheme \<Rightarrow> bool" where
  "op_ok (OpAcquire f k p ttl j rs) w = (good_id f \<and> rs \<in> {None, Some ACQUIRED, Some REENTRANT})"
| "op_ok (OpReclaim f k rs adm) w = (good_id f \<and> rs \<in> {STALE_RECOVERED, ADMIN_RECLAIM})"
| "op_ok (OpRotate i) w = unused_id w i"
| "op_ok (OpFailover i) w = (unused_id w i \<and> tx_ok w)"
| "op_ok (OpValidate f k p t) w = good_id f"
| "op_ok _ w = True"

inductive lock_steps :: "'a lock_world_scheme \<Rightarrow> 'a lock_world_scheme \<Rightarrow> bool" where
  here: "lock_steps w w"
| more: "lock_steps w w1 \<Longrightarrow> op_ok op w1 \<Longrightarrow> lock_steps w (lock_step op w1)"

section \<open>What the operations do once an id is known\<close>

lemma readyD:
  "ready i w \<Longrightarrow> r_instance w = Some i" "ready i w \<Longrightarrow> svc_instance w = Some i"
  "ready i w \<Longrightarrow> lock_inv w"
  by (simp_all add: ready_def)

lemma parse_token_instance: "good_id i \<Longrightarrow> token_instance f (formatFencingToken i n) w = (i, w)"
  by (simp add: token_instance_def parseFencingToken_def good_id_def token_match_format)

lemma bound_instance: "token_bound w k i t \<Longrightarrow> token_instance f t w' = (i, w')"
  by (auto simp: token_bound_def parse_token_instance)

lemma token_bound_mono:
  "token_bound w k i t \<Longrightarrow> r_instance w' = r_instance w \<Longrightarrow> r_seq w k \<le> r_seq w' k \<Longrightarrow>
     token_bound w' k i t"
  by (auto simp: token_bound_def)

lemma token_bound_next:
  "r_instance w = Some i \<Longrightarrow> good_id i \<Longrightarrow> n \<le> r_seq w k \<Longrightarrow>
     token_bound w k i (formatFencingToken i n)"
  by (auto simp: token_bound_def)

text \<open>The single updates that keep the invariant.\<close>

lemma token_bound_updates [simp]:
  "token_bound (w\<lparr>r_owner := m\<rparr>) k i t = token_bound w k i t"
  "token_bound (w\<lparr>r_token := m\<rparr>) k i t = token_bound w k i t"
  "token_bound (w\<lparr>ledger := l\<rparr>) k i t = token_bound w k i t"
  "token_bound (w\<lparr>pg_locks := q\<rparr>) k i t = token_bound w k i t"
  "token_bound (w\<lparr>audit_log := u\<rparr>) k i t = token_bound w k i t"
  "token_bound (w\<lparr>now := d\<rparr>) k i t = token_bound w k i t"
  "token_bound (w\<lparr>tx_ok := b\<rparr>) k i t = token_bound w k i t"
  by (simp_all add: token_bound_def)

lemmas bounds_defs = ledger_bound_def tokens_bound_def

lemma ready_updates [simp]:
  "ready i w \<Longrightarrow> ready i (w\<lparr>r_owner := m\<rparr>)"
  "ready i w \<Longrightarrow> ready i (w\<lparr>pg_locks := q\<rparr>)"
  "ready i w \<Longrightarrow> ready i (w\<lparr>audit_log := u\<rparr>)"
  by (simp_all add: ready_iff bounds_defs)

lemma ready_incr: "ready i w \<Longrightarrow> ready i (w\<lparr>r_seq := (r_seq w)(k := Suc (r_seq w k))\<rparr>)"
proof -
  assume r: "ready i w"
  let ?v = "w\<lparr>r_seq := (r_seq w)(k := Suc (r_seq w k))\<rparr>"
  have mono: "token_bound w k' j t \<Longrightarrow> token_bound ?v k' j t" for k' j t
    by (rule token_bound_mono) auto
  have "ledger_bound ?v" using r mono by (simp add: ready_iff ledger_bound_def)
  moreover have "tokens_bound ?v"
    unfolding tokens_bound_def
  proof (intro allI impI)
    fix k' t x
    assume "r_token ?v k' = Some (t, x)"
    with r have "\<exists>j. token_bound w k' j t" by (simp add: ready_iff tokens_bound_def)
    with mono show "\<exists>j. token_bound ?v k' j t" by blast
  qed
  ultimately show ?thesis using r by (simp add: ready_iff)
qed

lemma ready_token:
  "ready i w \<Longrightarrow> \<exists>j. token_bound w k j t \<Longrightarrow> ready i (w\<lparr>r_token := (r_token w)(k \<mapsto> (t, x))\<rparr>)"
  by (simp add: ready_iff bounds_defs)

lemma ready_no_token: "ready i w \<Longrightarrow> ready i (w\<lparr>r_token := (r_token w)(k := None)\<rparr>)"
  by (simp add: ready_iff bounds_defs)

lemma ready_ledger:
  "ready i w \<Longrightarrow> token_bound w (le_lockKey e) (le_instanceId e) (le_token e) \<Longrightarrow>
     ready i (w\<lparr>ledger := e # ledger w\<rparr>)"
  by (simp add: ready_iff bounds_defs)

lemma token_of_bound: "ready i w \<Longrightarrow> token_of w k = Some t \<Longrightarrow> \<exists>j. token_bound w k j t"
  by (auto simp: token_of_def redis_get_def ready_iff tokens_bound_def split: option.splits if_splits)

definition incr :: "string \<Rightarrow> 'a lock_world_scheme \<Rightarrow> 'a lock_world_scheme" where
  "incr k w = w\<lparr>r_seq := (r_seq w)(k := Suc (r_seq w k))\<rparr>"

definition hold :: "string \<Rightarrow> string \<Rightarrow> string \<Rightarrow> nat \<Rightarrow> 'a lock_world_scheme \<Rightarrow> 'a lock_world_scheme" where
  "hold k p t ttl w =
     w\<lparr>r_owner := (r_owner w)(k \<mapsto> (p, expiry w ttl)), r_token := (r_token w)(k \<mapsto> (t, expiry w ttl))\<rparr>"

lemma ready_hold: "ready i w \<Longrightarrow> \<exists>j. token_bound w k j t \<Longrightarrow> ready i (hold k p t ttl w)"
  using ready_token [of i "w\<lparr>r_owner := (r_owner w)(k \<mapsto> (p, expiry w ttl))\<rparr>" k t "expiry w ttl"]
  by (simp add: hold_def)

lemma token_bound_hold [simp]: "token_bound (hold k p t ttl w) k' j u = token_bound w k' j u"
  by (simp add: hold_def)

lemma fresh_token_bound:
  "ready i w \<Longrightarrow> token_bound (incr k w) k i (formatFencingToken i (Suc (r_seq w k)))"
  using ready_good [of i w] by (auto simp: incr_def token_bound_def)

text \<open>The four things the acquire script can do.\<close>

lemma acquire_lock_cases:
  assumes "ready i w" and "acquire_lock k p ttl w = (rep, w')"
  obtains (refused) q where "owner_of w k = Some q" "q \<noteq> p" "rep = Reply 0 ''0''" "w' = w"
    | (error) "rep = invalid_expire" "w' = incr k w" "ttl = 0"
        "owner_of w k = None \<or> owner_of w k = Some p"
    | (fresh) st where "st = 1 \<or> st = 2" "st = 1 \<longleftrightarrow> owner_of w k = None"
        "owner_of w k = None \<or> owner_of w k = Some p \<and> token_of w k = None"
        "rep = Reply st (formatFencingToken i (Suc (r_seq w k)))"
        "w' = hold k p (formatFencingToken i (Suc (r_seq w k))) ttl (incr k w)"
    | (again) t where "owner_of w k = Some p" "token_of w k = Some t" "rep = Reply 2 t"
        "w' = hold k p t ttl w"
proof -
  note lua = assms(2) readyD(1) [OF assms(1)]
  show ?thesis
  proof (cases "owner_of w k")
    case None
    show ?thesis
    proof (cases "ttl = 0")
      case True
      show ?thesis using lua None True by (intro error) (simp_all add: acquire_lock_def Let_def incr_def)
    next
      case False
      show ?thesis using lua None False
        by (intro fresh [of 1]) (simp_all add: acquire_lock_def Let_def incr_def hold_def expiry_def)
    qed
  next
    case (Some q)
    show ?thesis
    proof (cases "q = p")
      case False
      show ?thesis using lua Some False
        by (intro refused [of q]) (simp_all add: acquire_lock_def Let_def)
    next
      case same: True
      show ?thesis
      proof (cases "token_of w k")
        case token: None
        show ?thesis
        proof (cases "ttl = 0")
          case True
          show ?thesis using lua Some same token True
            by (intro error) (simp_all add: acquire_lock_def Let_def incr_def)
        next
          case False
          show ?thesis using lua Some same token False
            by (intro fresh [of 2])
               (simp_all add: acquire_lock_def Let_def incr_def hold_def expiry_def)
        qed
      next
        case token: (Some t)
        show ?thesis using lua Some same token
          by (intro again [of t]) (simp_all add: acquire_lock_def Let_def hold_def)
      qed
    qed
  qed
qed

lemma acquire_lock_ready:
  assumes "ready i w" and "acquire_lock k p ttl w = (r, w')"
  shows "ready i w' \<and> ledger w' = ledger w \<and> tx_ok w' = tx_ok w
    \<and> (\<forall>st t. r = Reply st t \<and> st \<noteq> 0 \<and> st \<noteq> - 1 \<longrightarrow> (\<exists>j. token_bound w' k j t))"
  using assms
proof (cases rule: acquire_lock_cases)
  case refused
  with assms(1) show ?thesis by simp
next
  case error
  with ready_incr [OF assms(1), of k] show ?thesis by (simp add: incr_def invalid_expire_def)
next
  case (fresh st)
  have inc: "ready i (incr k w)" using assms(1) by (simp add: incr_def ready_incr)
  have bound: "\<exists>j. token_bound (incr k w) k j (formatFencingToken i (Suc (r_seq w k)))"
    using fresh_token_bound [OF assms(1)] by blast
  show ?thesis using fresh bound ready_hold [OF inc bound] by (auto simp: hold_def incr_def)
next
  case (again t)
  have bound: "\<exists>j. token_bound w k j t" using again assms(1) token_of_bound by blast
  show ?thesis using again bound ready_hold [OF assms(1) bound] by (auto simp: hold_def)
qed

lemma release_lock_ready: "ready i w \<Longrightarrow> ready i (snd (release_lock k p w))"
  using ready_no_token [of i "w\<lparr>r_owner := (r_owner w)(k := None)\<rparr>" k]
  by (simp add: release_lock_cases)

lemma record_grant_ready:
  "ready i w \<Longrightarrow> token_bound w k j t \<Longrightarrow> ready i (record_grant k p ttl jb re rs t j w)"
  using ready_ledger [of i w "ledger_row w k p t j rs None"]
  by (simp add: record_grant_def ledger_row_def)

text \<open>\<open>acquire\<close> on a world that satisfies the invariant.\<close>

lemma acquire_outcome:
  assumes "lock_inv w" and "good_id f" and "acquire f k p ttl j rs w = (r, w')"
  obtains (script) i w1 w2 where "w1 = snd (ensureInstanceId f w)" "ready i w1"
      "r_instance w = None \<or> r_instance w = Some i" "ready i w2"
      "w' = w2" "\<not> granted r" "\<exists>rep. acquire_lock k p ttl w1 = (rep, w2)"
    | (failed) i w1 w2 where "w1 = snd (ensureInstanceId f w)" "ready i w1"
      "r_instance w = None \<or> r_instance w = Some i" "ready i w2"
      "w' = snd (release_lock k p w2)" "\<not> tx_ok w" "throws r"
      "\<exists>rep. acquire_lock k p ttl w1 = (rep, w2)"
    | (ok) i w1 w2 st t l where "w1 = snd (ensureInstanceId f w)" "ready i w1"
      "r_instance w = None \<or> r_instance w = Some i" "ready i w2"
      "acquire_lock k p ttl w1 = (Reply st t, w2)" "st \<noteq> 0" "st \<noteq> - 1" "tx_ok w"
      "token_bound w2 k l t" "r = Ret (Granted (st \<noteq> 1) t)"
      "w' = record_grant k p ttl j (st \<noteq> 1)
              (or_default rs (if st \<noteq> 1 then REENTRANT else ACQUIRED)) t l w2"
proof -
  obtain i where i: "ready i (snd (ensureInstanceId f w))" "r_instance w = None \<or> r_instance w = Some i"
    using ensure_ready [OF assms(1,2)] by metis
  obtain rep w2 where lua: "acquire_lock k p ttl (snd (ensureInstanceId f w)) = (rep, w2)" by fastforce
  note rdy = acquire_lock_ready [OF i(1) lua]
  have tx: "tx_ok w2 = tx_ok w" using rdy by simp
  show ?thesis
  proof (cases rep)
    case (ScriptError msg)
    with acquire_script_error [of k p ttl f w msg w2 j rs] lua assms(3) rdy i show ?thesis
      by (intro script) (auto simp: granted_def)
  next
    case (Reply st t)
    note step = acquire_reply [OF lua [unfolded Reply], of j rs]
    show ?thesis
    proof (cases "st = 0 \<or> st = - 1")
      case True
      with step assms(3) lua rdy i show ?thesis by (intro script) (auto simp: granted_def)
    next
      case False
      with rdy Reply obtain l where l: "token_bound w2 k l t" by blast
      show ?thesis
      proof (cases "tx_ok w")
        case True
        with step assms(3) lua rdy i False l tx Reply show ?thesis
          by (intro ok [OF refl i(1)]) (auto simp: bound_instance [OF l])
      next
        case tx_False: False
        with step assms(3) lua rdy i False l tx Reply show ?thesis
          by (intro failed [OF refl i(1)]) (auto simp: bound_instance [OF l])
      qed
    qed
  qed
qed

section \<open>The invariant along all operations\<close>

lemma ensure_inv: "lock_inv w \<Longrightarrow> good_id f \<Longrightarrow> lock_inv (snd (ensureInstanceId f w))"
  using ensure_ready readyD(3) by metis

lemma inv_none: "lock_inv w \<Longrightarrow> r_instance w = None \<Longrightarrow>
    svc_instance w = None \<and> ledger w = [] \<and> r_token w = Map.empty"
  by (simp add: lock_inv_def)

lemma inv_some:
  "lock_inv w \<Longrightarrow> r_instance w = Some i \<Longrightarrow>
     good_id i \<and> svc_instance w \<in> {None, Some i} \<and> ledger_bound w \<and> tokens_bound w
     \<and> (\<forall>j \<in> set_option (pg_instance w). good_id j)"
  by (simp add: lock_inv_def)

lemma inv_ledger: "lock_inv w \<Longrightarrow> e \<in> set (ledger w) \<Longrightarrow>
    token_bound w (le_lockKey e) (le_instanceId e) (le_token e)"
  by (cases "r_instance w") (simp_all add: lock_inv_def ledger_bound_def)

lemma inv_token: "lock_inv w \<Longrightarrow> r_token w k = Some (t, x) \<Longrightarrow> \<exists>j. token_bound w k j t"
  by (cases "r_instance w") (simp_all add: lock_inv_def tokens_bound_def)

lemma acquire_inv:
  assumes "lock_inv w" and "good_id f"
  shows "lock_inv (snd (acquire f k p ttl j rs w))"
proof -
  obtain r w' where acq: "acquire f k p ttl j rs w = (r, w')" by fastforce
  from assms acq show ?thesis
  proof (cases rule: acquire_outcome)
    case script
    then show ?thesis using acq readyD(3) by fastforce
  next
    case failed
    then show ?thesis using acq readyD(3) [OF release_lock_ready] by fastforce
  next
    case ok
    then show ?thesis using acq readyD(3) [OF record_grant_ready] by fastforce
  qed
qed

lemma release_inv: "lock_inv w \<Longrightarrow> lock_inv (snd (release k p w))"
proof -
  assume inv: "lock_inv w"
  show ?thesis
  proof (cases "owner_of w k = Some p")
    case False
    with inv show ?thesis by (simp add: release_def release_lock_cases)
  next
    case True
    show ?thesis
    proof (cases "r_instance w")
      case None
      with inv inv_none [OF inv None] True show ?thesis
        by (simp add: release_def release_lock_cases lock_inv_def fun_eq_iff)
    next
      case (Some i)
      with inv_some [OF inv Some] True show ?thesis
        by (auto simp: release_def release_lock_cases lock_inv_def ledger_bound_def tokens_bound_def
            token_bound_def)
    qed
  qed
qed

lemma bump_fencing_ready:
  "ready i w \<Longrightarrow> bump_fencing k w =
     (Reply 1 (formatFencingToken i (Suc (r_seq w k))),
      (incr k w)\<lparr>r_token := (r_token w)(k \<mapsto> (formatFencingToken i (Suc (r_seq w k)), None)),
                r_owner := (r_owner w)(k := None)\<rparr>)"
  using readyD(1) [of i w] by (simp add: bump_fencing_def Let_def incr_def)

text \<open>\<open>reclaim\<close> on a world that satisfies the invariant: the bumped counter, and on commit the row.\<close>

definition bumped :: "string \<Rightarrow> string \<Rightarrow> 'a lock_world_scheme \<Rightarrow> 'a lock_world_scheme" where
  "bumped i k w =
     (incr k w)\<lparr>r_token := (r_token w)(k \<mapsto> (formatFencingToken i (Suc (r_seq w k)), None)),
               r_owner := (r_owner w)(k := None)\<rparr>"

lemma bumped_ready: "ready i w \<Longrightarrow> ready i (bumped i k w)"
proof -
  assume r: "ready i w"
  have "ready i (incr k w)" using ready_incr [OF r] by (simp add: incr_def)
  moreover have "token_bound (incr k w) k i (formatFencingToken i (Suc (r_seq w k)))"
    using fresh_token_bound [OF r] .
  ultimately have "ready i ((incr k w)\<lparr>r_token :=
      (r_token (incr k w))(k \<mapsto> (formatFencingToken i (Suc (r_seq w k)), None))\<rparr>)"
    using ready_token by blast
  then have "ready i ((incr k w)\<lparr>r_token :=
      (r_token (incr k w))(k \<mapsto> (formatFencingToken i (Suc (r_seq w k)), None))\<rparr>
        \<lparr>r_owner := (r_owner w)(k := None)\<rparr>)" by simp
  then show ?thesis by (simp add: bumped_def incr_def)
qed

lemma reclaim_outcome:
  assumes "lock_inv w" and "good_id f"
  obtains i w1 where "w1 = snd (ensureInstanceId f w)" "ready i w1"
    "r_instance w = None \<or> r_instance w = Some i"
    "\<not> tx_ok w \<Longrightarrow> reclaim f k rs adm w = (Throw tx_failed, bumped i k w1)"
    "tx_ok w \<Longrightarrow> \<exists>q u. reclaim f k rs adm w =
       (Ret (formatFencingToken i (Suc (r_seq w k))),
        (bumped i k w1)\<lparr>ledger := ledger_row w1 k ''system''
              (formatFencingToken i (Suc (r_seq w k))) i rs adm # ledger w,
           pg_locks := q, audit_log := u\<rparr>)"
proof -
  obtain i where i: "ready i (snd (ensureInstanceId f w))" "r_instance w = None \<or> r_instance w = Some i"
    using ensure_ready [OF assms] by metis
  obtain i0 w1 where ens: "ensureInstanceId f w = (i0, w1)" by fastforce
  then have r: "ready i w1" using i by simp
  have same: "tx_ok w1 = tx_ok w" "r_seq w1 = r_seq w" "ledger w1 = ledger w"
    using ensure_frame [of f w] by (simp_all add: ens)
  let ?t = "formatFencingToken i (Suc (r_seq w k))"
  have bump: "bump_fencing k w1 = (Reply 1 ?t, bumped i k w1)"
    using bump_fencing_ready [OF r] same by (simp add: bumped_def)
  have inst: "token_instance f ?t (bumped i k w1) = (i, bumped i k w1)"
    using ready_good [OF r] by (rule parse_token_instance)
  have fields: "tx_ok (bumped i k w1) = tx_ok w" "ledger (bumped i k w1) = ledger w"
    "ledger_row (bumped i k w1) = ledger_row w1"
    using same by (simp_all add: bumped_def incr_def ledger_row_def fun_eq_iff)
  show ?thesis
  proof (rule that [OF refl])
    show "ready i (snd (ensureInstanceId f w))" by (rule i)
    show "r_instance w = None \<or> r_instance w = Some i" by (rule i)
    show "\<not> tx_ok w \<Longrightarrow> reclaim f k rs adm w = (Throw tx_failed, bumped i k (snd (ensureInstanceId f w)))"
      by (simp add: reclaim_def ens bump inst fields)
    show "tx_ok w \<Longrightarrow> \<exists>q u. reclaim f k rs adm w =
       (Ret ?t, (bumped i k (snd (ensureInstanceId f w)))\<lparr>ledger :=
            ledger_row (snd (ensureInstanceId f w)) k ''system'' ?t i rs adm # ledger w,
           pg_locks := q, audit_log := u\<rparr>)"
      by (auto simp: reclaim_def ens bump inst fields)
  qed
qed

lemma reclaim_inv:
  assumes "lock_inv w" and "good_id f"
  shows "lock_inv (snd (reclaim f k rs adm w))"
proof (rule reclaim_outcome [OF assms, of k rs adm])
  fix i w1
  assume r: "w1 = snd (ensureInstanceId f w)" "ready i w1"
    and fail: "\<not> tx_ok w \<Longrightarrow> reclaim f k rs adm w = (Throw tx_failed, bumped i k w1)"
    and ok: "tx_ok w \<Longrightarrow> \<exists>q u. reclaim f k rs adm w =
       (Ret (formatFencingToken i (Suc (r_seq w k))),
        (bumped i k w1)\<lparr>ledger := ledger_row w1 k ''system''
              (formatFencingToken i (Suc (r_seq w k))) i rs adm # ledger w,
           pg_locks := q, audit_log := u\<rparr>)"
  have b: "ready i (bumped i k w1)" using r bumped_ready by blast
  have "token_bound (bumped i k w1) k i (formatFencingToken i (Suc (r_seq w k)))"
    using ready_good [OF r(2)] r(1) by (auto simp: token_bound_def bumped_def incr_def)
  then have "ready i ((bumped i k w1)\<lparr>ledger := ledger_row w1 k ''system''
              (formatFencingToken i (Suc (r_seq w k))) i rs adm # ledger (bumped i k w1)\<rparr>)"
    by (intro ready_ledger [OF b]) (simp add: ledger_row_def)
  moreover have "ledger (bumped i k w1) = ledger w" using r(1) by (simp add: bumped_def incr_def)
  ultimately have grown: "ready i ((bumped i k w1)\<lparr>ledger := ledger_row w1 k ''system''
      (formatFencingToken i (Suc (r_seq w k))) i rs adm # ledger w\<rparr>)" by simp
  show ?thesis
  proof (cases "tx_ok w")
    case True
    from ok [OF True] obtain q u where "reclaim f k rs adm w =
       (Ret (formatFencingToken i (Suc (r_seq w k))),
        (bumped i k w1)\<lparr>ledger := ledger_row w1 k ''system''
              (formatFencingToken i (Suc (r_seq w k))) i rs adm # ledger w,
           pg_locks := q, audit_log := u\<rparr>)" by blast
    then show ?thesis using readyD(3) [OF ready_updates(3) [OF ready_updates(2) [OF grown]]] by simp
  next
    case False
    then show ?thesis using fail readyD(3) [OF b] by simp
  qed
qed

text \<open>A rotation restores the invariant from well-formed tokens alone, as after a loss of Redis data.\<close>

definition tokens_formed :: "'a lock_world_scheme \<Rightarrow> bool" where
  "tokens_formed w =
     ((\<forall>e \<in> set (ledger w). good_id (le_instanceId e)
         \<and> (\<exists>n. le_token e = formatFencingToken (le_instanceId e) n))
      \<and> (\<forall>k t x. r_token w k = Some (t, x) \<longrightarrow> (\<exists>j n. good_id j \<and> t = formatFencingToken j n)))"

lemma inv_formed: "lock_inv w \<Longrightarrow> tokens_formed w"
  using inv_ledger inv_token unfolding tokens_formed_def token_bound_def by blast

lemma rotate_fields:
  assumes "tx_ok w"
  shows "r_instance (snd (rotateInstanceIdOnFailover i w)) = Some i"
    "svc_instance (snd (rotateInstanceIdOnFailover i w)) = Some i"
    "pg_instance (snd (rotateInstanceIdOnFailover i w)) = Some i"
    "r_token (snd (rotateInstanceIdOnFailover i w)) = r_token w"
    "r_owner (snd (rotateInstanceIdOnFailover i w)) = r_owner w"
    "r_seq (snd (rotateInstanceIdOnFailover i w)) = r_seq w"
    "pg_locks (snd (rotateInstanceIdOnFailover i w)) = []"
    "fst (rotateInstanceIdOnFailover i w) = Ret i"
  using assms by (simp_all add: rotateInstanceIdOnFailover_def Let_def)

lemma rotate_ledger:
  assumes "tx_ok w"
  obtains rows where "ledger (snd (rotateInstanceIdOnFailover i w)) = rows @ ledger w"
    "\<forall>e \<in> set rows. le_token e = formatFencingToken i 0 \<and> le_instanceId e = i
       \<and> le_owner e = ''system'' \<and> le_reason e = FAILOVER"
    "le_lockKey ` set rows =
       set (filter (\<lambda>k. k \<noteq> []) (map pl_lockKey (pg_locks w))) \<union> {FAILOVER_SENTINEL_LOCK_KEY}"
  using assms
  by (intro that [of "rev (map (\<lambda>r. ledger_row w (fo_lockKey r) (fo_owner r) (fo_token r)
        (fo_instanceId r) FAILOVER None) (buildFailoverLedgerRows i (map pl_lockKey (pg_locks w))))"])
     (auto simp: rotateInstanceIdOnFailover_def Let_def ledger_row_def buildFailoverLedgerRows_def
        image_iff)

lemma rotate_inv:
  assumes "tokens_formed w" and "unused_id w i" and tx: "tx_ok w"
  shows "lock_inv (snd (rotateInstanceIdOnFailover i w))"
proof -
  have gi: "good_id i" using assms(2) by (simp add: unused_id_def)
  let ?w' = "snd (rotateInstanceIdOnFailover i w)"
  note fields = rotate_fields [OF tx, of i]
  have "ledger_bound ?w'"
    unfolding ledger_bound_def
  proof
    fix e
    assume e: "e \<in> set (ledger ?w')"
    obtain rows where "ledger ?w' = rows @ ledger w"
      "\<forall>e \<in> set rows. le_token e = formatFencingToken i 0 \<and> le_instanceId e = i
        \<and> le_owner e = ''system'' \<and> le_reason e = FAILOVER"
      by (rule rotate_ledger [OF tx])
    with e consider "e \<in> set (ledger w)"
      | "le_token e = formatFencingToken i 0" "le_instanceId e = i" by auto
    then show "token_bound ?w' (le_lockKey e) (le_instanceId e) (le_token e)"
    proof cases
      case 1
      then obtain n where "good_id (le_instanceId e)" "le_token e = formatFencingToken (le_instanceId e) n"
        using assms(1) unfolding tokens_formed_def by blast
      moreover have "le_instanceId e \<noteq> i" using 1 assms(2) by (simp add: unused_id_def)
      ultimately show ?thesis using fields by (auto simp: token_bound_def)
    next
      case 2
      with gi show ?thesis by (auto simp: token_bound_def)
    qed
  qed
  moreover have "tokens_bound ?w'"
    unfolding tokens_bound_def
  proof (intro allI impI)
    fix k t x
    assume "r_token ?w' k = Some (t, x)"
    then have tok: "r_token w k = Some (t, x)" using fields by simp
    then obtain j n where j: "good_id j" "t = formatFencingToken j n"
      using assms(1) unfolding tokens_formed_def by blast
    have "j \<noteq> i" using j tok assms(2) by (auto simp: unused_id_def)
    with j fields have "token_bound ?w' k j t" by (auto simp: token_bound_def)
    then show "\<exists>j. token_bound ?w' k j t" ..
  qed
  ultimately show ?thesis using gi fields by (simp add: lock_inv_def)
qed

lemma rotate_inv': "lock_inv w \<Longrightarrow> unused_id w i \<Longrightarrow> lock_inv (snd (rotateInstanceIdOnFailover i w))"
  by (cases "tx_ok w")
     (simp_all add: rotate_inv inv_formed, simp add: rotateInstanceIdOnFailover_def Let_def)

lemma wipe_formed: "lock_inv w \<Longrightarrow> tokens_formed (wipe_redis w)"
  using inv_formed [of w] by (simp add: tokens_formed_def wipe_redis_def)

lemma wipe_unused: "unused_id w i \<Longrightarrow> unused_id (wipe_redis w) i"
  by (simp add: unused_id_def wipe_redis_def)

lemma validate_world:
  "snd (validateFencingToken f k p t w) = w \<or>
   snd (validateFencingToken f k p t w) = snd (ensureInstanceId f w)"
  by (simp add: validateFencingToken_def split_beta Let_def split: option.splits)

lemma lock_inv_clock: "lock_inv w \<Longrightarrow> lock_inv (w\<lparr>now := d\<rparr>)"
  by (simp add: lock_inv_def bounds_defs split: option.splits)

lemma lock_inv_tx: "lock_inv w \<Longrightarrow> lock_inv (w\<lparr>tx_ok := b\<rparr>)"
  by (simp add: lock_inv_def bounds_defs split: option.splits)

lemma lock_inv_restart: "lock_inv w \<Longrightarrow> lock_inv (w\<lparr>svc_instance := None\<rparr>)"
  by (simp add: lock_inv_def split: option.splits)

lemmas op_invs =
  acquire_inv release_inv reclaim_inv rotate_inv' lock_inv_clock lock_inv_tx lock_inv_restart

lemma lock_step_inv: "lock_inv w \<Longrightarrow> op_ok op w \<Longrightarrow> lock_inv (lock_step op w)"
proof (cases op)
  case (OpValidate f k p t)
  assume "lock_inv w" "op_ok op w"
  with OpValidate show ?thesis using validate_world [of f k p t w] ensure_inv [of w f] by auto
next
  case (OpFailover i)
  assume a: "lock_inv w" "op_ok op w"
  then have "lock_inv (snd (rotateInstanceIdOnFailover i (wipe_redis w)))"
    using OpFailover by (intro rotate_inv wipe_formed wipe_unused) (simp_all add: wipe_redis_def)
  with OpFailover show ?thesis by simp
qed (simp_all add: op_invs tick_def)

text \<open>
  C5 (invariant). Every world reached from a fresh installation by operations of the lock service, in
  any order and number, with transactions failing at any point, restarts, and failovers that lose all
  Redis data, satisfies the invariant: each ledger row and each token in Redis is an instance id and
  a counter, and under the current instance id no counter exceeds the Redis sequence of its key.
\<close>

theorem lock_world_invariant:
  assumes "lock_steps empty_world w"
  shows "lock_inv w"
proof -
  have "lock_inv w" if "lock_steps v w" "lock_inv v" for v :: lock_world
    using that by (induction rule: lock_steps.induct) (simp_all add: lock_step_inv)
  moreover have "lock_inv empty_world" by (simp add: lock_inv_def empty_world_def)
  ultimately show ?thesis using assms by blast
qed

theorem lock_world_invariant_witness:
  "lock_inv (lock_step (OpReclaim id_1 ''k'' ADMIN_RECLAIM (Some ''root''))
     (lock_step (OpFailover id_2) (lock_step (OpAcquire id_1 ''k'' ''job:a'' 120 None None) empty_world)))"
proof -
  let ?w = "lock_step (OpAcquire id_1 ''k'' ''job:a'' 120 None None) empty_world"
  have good: "good_id id_1" "good_id id_2" unfolding id_1_def id_2_def by code_simp+
  have ne: "id_2 \<noteq> id_1" by code_simp
  have "tx_ok ?w" "r_instance ?w = Some id_1" by code_simp+
  moreover have "list_all (\<lambda>e. le_instanceId e = id_1) (ledger ?w)" by code_simp
  moreover have "r_token ?w = [''k'' \<mapsto> (formatFencingToken id_1 1, Some 120000)]"
    using good by (simp add: acquire_def empty_world_def ensureInstanceId_def truthy_id_def
        truthy_def acquire_lock_def owner_of_def redis_get_def Let_def or_default_def expiry_def
        parse_token_instance record_grant_def)
  ultimately have "op_ok (OpFailover id_2) ?w"
    using good ne by (auto simp: unused_id_def list_all_iff format_inj split: if_splits)
  moreover have "lock_steps empty_world ?w"
    by (rule lock_steps.more [OF lock_steps.here]) (simp add: good)
  ultimately have "lock_steps empty_world (lock_step (OpFailover id_2) ?w)"
    using lock_steps.more by blast
  then have "lock_steps empty_world (lock_step (OpReclaim id_1 ''k'' ADMIN_RECLAIM (Some ''root''))
      (lock_step (OpFailover id_2) ?w))"
    by (rule lock_steps.more) (simp add: good)
  then show ?thesis by (rule lock_world_invariant)
qed

section \<open>Tokens that can never validate again\<close>

definition latest_revoked :: "'a lock_world_scheme \<Rightarrow> string \<Rightarrow> string \<Rightarrow> bool" where
  "latest_revoked w k t =
     (case latest_entry w k of None \<Rightarrow> True | Some e \<Rightarrow> le_token e = t \<longrightarrow> revoking (le_reason e))"

text \<open>
  \<open>dead w k i n\<close>: the token \<open>i:n\<close> is used up for the key. Its id is an old one, or its counter was
  reached, nobody holds it in Redis, and if it is in the latest row then as a revocation.
\<close>

definition dead :: "'a lock_world_scheme \<Rightarrow> string \<Rightarrow> string \<Rightarrow> nat \<Rightarrow> bool" where
  "dead w k i n =
     (good_id i \<and> i \<in> le_instanceId ` set (ledger w)
      \<and> (r_instance w = Some i \<longrightarrow>
           n \<le> r_seq w k \<and> (owner_of w k = None \<or> token_of w k \<noteq> Some (formatFencingToken i n))
           \<and> latest_revoked w k (formatFencingToken i n)))"

lemma latest_entry_Cons:
  "ledger w' = e # ledger w \<Longrightarrow>
     latest_entry w' k = (if le_lockKey e = k then Some e else latest_entry w k)"
  by (simp add: latest_entry_def)

lemma latest_in_ledger: "latest_entry w k = Some e \<Longrightarrow> e \<in> set (ledger w) \<and> le_lockKey e = k"
  by (auto simp: latest_entry_def find_Some_iff)

lemma dead_not_valid:
  assumes inv: "lock_inv w" and "good_id f" and dead: "dead w k i n"
  shows "\<not> fst (validateFencingToken f k p (formatFencingToken i n) w)"
proof (cases "latest_entry w k")
  case None
  then show ?thesis by (simp add: validateFencingToken_def)
next
  case (Some e)
  obtain c w1 where ens: "ensureInstanceId f w = (c, w1)" by fastforce
  have "ledger w \<noteq> []" using latest_in_ledger [OF Some] by auto
  then have ne: "r_instance w \<noteq> None" using inv_none [OF inv] by blast
  then obtain c' where c: "r_instance w = Some c'" "good_id c'"
    using inv_some [OF inv] by blast
  have "c = c'"
    using ensure_ready [OF inv assms(2)] ens c(1) ensure_ready_id readyD(1)
    by (metis fst_conv option.distinct(1) option.inject)
  have be: "token_bound w k (le_instanceId e) (le_token e)"
    using inv_ledger [OF inv] latest_in_ledger [OF Some] by auto
  show ?thesis
  proof
    assume "fst (validateFencingToken f k p (formatFencingToken i n) w)"
    then have v: "js_lower (le_instanceId e) = js_lower c" "\<not> revoking (le_reason e)"
      "le_token e = formatFencingToken i n"
      by (auto simp: validateFencingToken_def Some ens split: if_splits)
    have "le_instanceId e = i"
      using be v(3) dead format_inj by (auto simp: token_bound_def dead_def)
    then have "i = c" using v(1) c(2) \<open>c = c'\<close> dead by (simp add: dead_def good_id_def)
    with dead c(1) \<open>c = c'\<close> have "latest_revoked w k (formatFencingToken i n)" by (simp add: dead_def)
    with Some v show False by (simp add: latest_revoked_def)
  qed
qed

text \<open>Preservation, first for changes that leave the key alone.\<close>

lemma dead_same:
  assumes "dead w k i n" and "r_instance w' = r_instance w \<or> r_instance w' \<noteq> Some i"
    and "le_instanceId ` set (ledger w) \<subseteq> le_instanceId ` set (ledger w')"
    and "r_instance w' = Some i \<Longrightarrow> r_seq w k \<le> r_seq w' k"
    and "r_instance w' = Some i \<Longrightarrow> owner_of w' k = None \<or> owner_of w k \<noteq> None \<and>
           (token_of w' k = token_of w k \<or> token_of w' k = None)"
    and "r_instance w' = Some i \<Longrightarrow> latest_revoked w k (formatFencingToken i n) \<Longrightarrow>
           latest_revoked w' k (formatFencingToken i n)"
  shows "dead w' k i n"
proof -
  have "i \<in> le_instanceId ` set (ledger w')" using assms(1,3) by (auto simp: dead_def)
  then show ?thesis using assms unfolding dead_def by fastforce
qed

lemma ensure_dead:
  assumes "lock_inv w" and "good_id f" and "dead w k i n"
  shows "dead (snd (ensureInstanceId f w)) k i n"
proof -
  from assms(3) have "ledger w \<noteq> []" by (auto simp: dead_def)
  then have "r_instance w \<noteq> None" using inv_none [OF assms(1)] by blast
  then have "r_instance (snd (ensureInstanceId f w)) = r_instance w"
    using ensure_ready [OF assms(1,2)] readyD(1) by metis
  then show ?thesis
    by (intro dead_same [OF assms(3)]) (auto simp: latest_revoked_def latest_entry_def)
qed

lemma owner_of_hold [simp]:
  "owner_of (hold k p t ttl w) k' = (if k' = k then (if ttl = 0 then None else Some p) else owner_of w k')"
  "token_of (hold k p t ttl w) k' = (if k' = k then (if ttl = 0 then None else Some t) else token_of w k')"
  by (simp_all add: owner_of_def token_of_def hold_def redis_get_def expiry_def)

lemma incr_fields [simp]:
  "owner_of (incr k w) k' = owner_of w k'" "token_of (incr k w) k' = token_of w k'"
  "ledger (incr k w) = ledger w" "r_instance (incr k w) = r_instance w"
  "r_seq (incr k w) = (r_seq w)(k := Suc (r_seq w k))" "now (incr k w) = now w"
  "latest_entry (incr k w) k' = latest_entry w k'" "pg_locks (incr k w) = pg_locks w"
  by (simp_all add: incr_def owner_of_def token_of_def latest_entry_def)

lemma hold_fields [simp]:
  "ledger (hold k p t ttl w) = ledger w" "r_instance (hold k p t ttl w) = r_instance w"
  "r_seq (hold k p t ttl w) = r_seq w" "now (hold k p t ttl w) = now w"
  "latest_entry (hold k p t ttl w) k' = latest_entry w k'" "pg_locks (hold k p t ttl w) = pg_locks w"
  by (simp_all add: hold_def latest_entry_def)

text \<open>The script never hands out a dead token of the current instance.\<close>

lemma acquire_lock_dead:
  assumes "ready c w" and "acquire_lock k' p ttl w = (rep, w')" and "dead w k i n"
  shows "dead w' k i n
    \<and> (\<forall>st t. rep = Reply st t \<and> st \<noteq> 0 \<and> st \<noteq> - 1 \<and> k' = k \<and> c = i \<longrightarrow> t \<noteq> formatFencingToken i n)"
  using assms(1,2)
proof (cases rule: acquire_lock_cases)
  case refused
  then show ?thesis using assms(3) by simp
next
  case error
  have "dead w' k i n" using error
    by (intro dead_same [OF assms(3)]) (auto simp: latest_revoked_def)
  with error show ?thesis by (simp add: invalid_expire_def)
next
  case (fresh st)
  have gc: "good_id c" "r_instance w = Some c" using assms(1) ready_good readyD by auto
  have gi: "good_id i" using assms(3) by (simp add: dead_def)
  have bound: "c = i \<Longrightarrow> n \<le> r_seq w k" using assms(3) gc by (simp add: dead_def)
  have ne: "k' = k \<Longrightarrow> c = i \<Longrightarrow> formatFencingToken c (Suc (r_seq w k)) \<noteq> formatFencingToken i n"
    using bound format_inj [OF gc(1) gi] by simp
  have "dead w' k i n"
  proof (cases "k' = k")
    case True
    let ?t = "formatFencingToken c (Suc (r_seq w k))"
    have w': "ledger w' = ledger w" "r_instance w' = Some c" "r_seq w' k = Suc (r_seq w k)"
      "token_of w' k = None \<or> token_of w' k = Some ?t" "latest_revoked w' k x = latest_revoked w k x" for x
      using fresh(5) gc True by (simp_all add: latest_revoked_def)
    have "c = i \<Longrightarrow> token_of w' k \<noteq> Some (formatFencingToken i n)" using w'(4) ne [OF True] by auto
    then show ?thesis
      using assms(3) bound w' gc unfolding dead_def by auto
  next
    case False
    with fresh show ?thesis
      by (intro dead_same [OF assms(3)]) (auto simp: latest_revoked_def)
  qed
  with fresh ne show ?thesis by auto
next
  case (again t)
  have gc: "r_instance w = Some c" using assms(1) readyD by auto
  have ne: "k' = k \<Longrightarrow> c = i \<Longrightarrow> t \<noteq> formatFencingToken i n"
    using assms(3) gc again by (auto simp: dead_def)
  have "dead w' k i n"
  proof (cases "k' = k")
    case True
    have w': "ledger w' = ledger w" "r_instance w' = Some c" "r_seq w' k = r_seq w k"
      "token_of w' k = None \<or> token_of w' k = Some t" "latest_revoked w' k x = latest_revoked w k x" for x
      using again(4) gc True by (simp_all add: latest_revoked_def)
    have "c = i \<Longrightarrow> token_of w' k \<noteq> Some (formatFencingToken i n)" using w'(4) ne [OF True] by auto
    then show ?thesis
      using assms(3) w' gc unfolding dead_def by auto
  next
    case False
    with again show ?thesis
      by (intro dead_same [OF assms(3)]) (auto simp: latest_revoked_def)
  qed
  with again ne show ?thesis by auto
qed

lemma get_updates:
  "owner_of (w\<lparr>r_owner := m, r_token := m'\<rparr>) k = redis_get (now w) (m k)"
  "token_of (w\<lparr>r_owner := m, r_token := m'\<rparr>) k = redis_get (now w) (m' k)"
  "redis_get t None = None"
  by (simp_all add: owner_of_def token_of_def redis_get_def)

lemma release_lock_gets:
  "owner_of (snd (release_lock k' p w)) k = owner_of w k \<and> token_of (snd (release_lock k' p w)) k = token_of w k
   \<or> owner_of (snd (release_lock k' p w)) k = None"
  by (cases "k = k'")
     (simp_all add: release_lock_cases get_updates, simp_all add: owner_of_def token_of_def)

lemma release_lock_same [simp]:
  "ledger (snd (release_lock k' p w)) = ledger w" "r_seq (snd (release_lock k' p w)) = r_seq w"
  "r_instance (snd (release_lock k' p w)) = r_instance w"
  "latest_entry (snd (release_lock k' p w)) k = latest_entry w k"
  "pg_locks (snd (release_lock k' p w)) = pg_locks w"
  by (simp_all add: release_lock_cases latest_entry_def)

lemma release_lock_owned:
  "owner_of w k = Some p \<Longrightarrow> owner_of (snd (release_lock k p w)) k = None"
  by (simp add: release_lock_cases get_updates)

lemma release_lock_dead: "dead w k i n \<Longrightarrow> dead (snd (release_lock k' p w)) k i n"
  using release_lock_gets [of k' p w k]
  by (elim dead_same; cases "owner_of w k") (auto simp: latest_revoked_def)

lemma latest_revoked_row:
  "ledger w' = e # ledger w \<Longrightarrow> le_lockKey e = k \<longrightarrow> le_token e = t \<longrightarrow> revoking (le_reason e) \<Longrightarrow>
     latest_revoked w k t \<Longrightarrow> latest_revoked w' k t"
  by (simp add: latest_revoked_def latest_entry_def)

lemma record_grant_dead:
  assumes "dead w k i n" and "r_instance w = Some c" and "k' = k \<Longrightarrow> c = i \<Longrightarrow> t \<noteq> formatFencingToken i n"
  shows "dead (record_grant k' p ttl j re rs t l w) k i n"
proof -
  let ?w' = "record_grant k' p ttl j re rs t l w"
  have "latest_revoked ?w' k (formatFencingToken i n)"
    if "r_instance ?w' = Some i" "latest_revoked w k (formatFencingToken i n)"
    using that assms(2,3)
    by (intro latest_revoked_row [of ?w' "ledger_row w k' p t l rs None" w]) (auto simp: ledger_row_def)
  moreover have "owner_of ?w' k = owner_of w k" "token_of ?w' k = token_of w k"
    by (simp_all add: owner_of_def token_of_def)
  ultimately show ?thesis by (intro dead_same [OF assms(1)]) auto
qed

lemma acquire_dead:
  assumes "lock_inv w" and "good_id f" and "dead w k i n"
  shows "dead (snd (acquire f k' p ttl j rs w)) k i n"
proof -
  obtain r w' where acq: "acquire f k' p ttl j rs w = (r, w')" by fastforce
  have d1: "dead (snd (ensureInstanceId f w)) k i n" using ensure_dead [OF assms] .
  from assms(1,2) acq show ?thesis
  proof (cases rule: acquire_outcome)
    case (script c w1 w2)
    then show ?thesis using acq acquire_lock_dead d1 by fastforce
  next
    case (failed c w1 w2)
    then have "dead w2 k i n" using acquire_lock_dead d1 by fastforce
    then show ?thesis using failed acq release_lock_dead by fastforce
  next
    case (ok c w1 w2 st t l)
    have "dead w2 k i n" and "k' = k \<Longrightarrow> c = i \<Longrightarrow> t \<noteq> formatFencingToken i n"
      using acquire_lock_dead [OF ok(2) ok(5)] d1 ok(1,6,7) by auto
    then show ?thesis using ok acq record_grant_dead readyD(1) by fastforce
  qed
qed

lemma latest_entry_map:
  assumes "\<And>e. le_lockKey (g e) = le_lockKey e"
  shows "find (\<lambda>e. le_lockKey e = k) (map g l) = map_option g (find (\<lambda>e. le_lockKey e = k) l)"
  using assms by (induction l) auto

lemma release_dead:
  assumes "dead w k i n"
  shows "dead (snd (release k' p w)) k i n"
proof (cases "owner_of w k' = Some p")
  case False
  with assms show ?thesis by (simp add: release_def release_lock_cases)
next
  case True
  let ?g = "\<lambda>e. if le_lockKey e = k' \<and> le_owner e = p \<and> le_releasedAt e = None
                 then e\<lparr>le_releasedAt := Some (now w)\<rparr> else e"
  let ?v = "snd (release_lock k' p w)"
  let ?w' = "snd (release k' p w)"
  have led: "ledger ?w' = map ?g (ledger w)"
    using True by (simp add: release_def release_lock_cases)
  have g: "le_lockKey (?g e) = le_lockKey e" "le_token (?g e) = le_token e"
    "le_reason (?g e) = le_reason e" "le_instanceId (?g e) = le_instanceId e" for e
    by simp_all
  have "latest_revoked ?w' k t = latest_revoked w k t" for t
    using g unfolding latest_revoked_def latest_entry_def led
    by (subst latest_entry_map) (auto split: option.splits)
  moreover have "le_instanceId ` set (ledger ?w') = le_instanceId ` set (ledger w)"
    unfolding led set_map image_image by (rule image_cong [OF refl g(4)])
  moreover have "owner_of ?w' k = owner_of ?v k" "token_of ?w' k = token_of ?v k"
    "r_seq ?w' = r_seq ?v" "r_instance ?w' = r_instance ?v"
    using True by (simp_all add: release_def release_lock_cases owner_of_def token_of_def)
  moreover have "dead ?v k i n" using release_lock_dead [OF assms] .
  ultimately show ?thesis by (auto simp: dead_def latest_revoked_def)
qed

lemma bumped_fields [simp]:
  "r_instance (bumped c k w) = r_instance w" "ledger (bumped c k w) = ledger w"
  "r_seq (bumped c k w) = (r_seq w)(k := Suc (r_seq w k))" "latest_entry (bumped c k w) k' = latest_entry w k'"
  "owner_of (bumped c k w) k' = (if k' = k then None else owner_of w k')"
  "k' \<noteq> k \<Longrightarrow> token_of (bumped c k w) k' = token_of w k'"
  by (simp_all add: bumped_def incr_def owner_of_def token_of_def latest_entry_def redis_get_def)

lemma bumped_dead: "dead w k i n \<Longrightarrow> dead (bumped c k' w) k i n"
  by (elim dead_same; cases "k = k'"; cases "owner_of w k") (auto simp: latest_revoked_def)

lemma reclaim_dead:
  assumes "lock_inv w" and "good_id f" and "dead w k i n" and "revoking rs"
  shows "dead (snd (reclaim f k' rs adm w)) k i n"
proof (rule reclaim_outcome [OF assms(1,2), of k' rs adm])
  fix c w1
  assume r: "w1 = snd (ensureInstanceId f w)" "ready c w1"
    and fail: "\<not> tx_ok w \<Longrightarrow> reclaim f k' rs adm w = (Throw tx_failed, bumped c k' w1)"
    and ok: "tx_ok w \<Longrightarrow> \<exists>q u. reclaim f k' rs adm w =
       (Ret (formatFencingToken c (Suc (r_seq w k'))),
        (bumped c k' w1)\<lparr>ledger := ledger_row w1 k' ''system''
              (formatFencingToken c (Suc (r_seq w k'))) c rs adm # ledger w,
           pg_locks := q, audit_log := u\<rparr>)"
  let ?e = "ledger_row w1 k' ''system'' (formatFencingToken c (Suc (r_seq w k'))) c rs adm"
  have b: "dead (bumped c k' w1) k i n" using ensure_dead [OF assms(1-3)] r bumped_dead by blast
  show ?thesis
  proof (cases "tx_ok w")
    case False
    with fail b show ?thesis by simp
  next
    case True
    then obtain q u where eq: "snd (reclaim f k' rs adm w) =
        (bumped c k' w1)\<lparr>ledger := ?e # ledger w, pg_locks := q, audit_log := u\<rparr>"
      using ok by auto
    let ?w' = "(bumped c k' w1)\<lparr>ledger := ?e # ledger w, pg_locks := q, audit_log := u\<rparr>"
    have led: "ledger ?w' = ?e # ledger (bumped c k' w1)" using r(1) by simp
    have "latest_revoked (bumped c k' w1) k t \<Longrightarrow> latest_revoked ?w' k t" for t
      by (rule latest_revoked_row [OF led]) (use assms(4) in \<open>simp_all add: ledger_row_def\<close>)
    moreover have "owner_of ?w' k = owner_of (bumped c k' w1) k" "token_of ?w' k = token_of (bumped c k' w1) k"
      by (simp_all add: owner_of_def token_of_def)
    ultimately have "dead ?w' k i n"
      using led by (intro dead_same [OF b]; cases "owner_of (bumped c k' w1) k") auto
    with eq show ?thesis by simp
  qed
qed

lemma rotate_dead:
  assumes "good_id i" and "i \<in> le_instanceId ` set (ledger w)" and "tx_ok w" and "c \<noteq> i"
  shows "dead (snd (rotateInstanceIdOnFailover c w)) k i n"
proof -
  obtain rows where "ledger (snd (rotateInstanceIdOnFailover c w)) = rows @ ledger w"
    by (rule rotate_ledger [OF assms(3)])
  with assms show ?thesis by (auto simp: dead_def rotate_fields)
qed

lemma redis_get_later: "redis_get (t + d) x = redis_get t x \<or> redis_get (t + d) x = None"
  by (auto simp: redis_get_def split: option.splits)

lemma tick_dead: "dead w k i n \<Longrightarrow> dead (tick d w) k i n"
proof (erule dead_same)
  show "owner_of (tick d w) k = None \<or> owner_of w k \<noteq> None \<and>
      (token_of (tick d w) k = token_of w k \<or> token_of (tick d w) k = None)"
    using redis_get_later [of "now w" d "r_owner w k"] redis_get_later [of "now w" d "r_token w k"]
    by (cases "redis_get (now w) (r_owner w k)") (auto simp: tick_def owner_of_def token_of_def)
qed (auto simp: tick_def latest_revoked_def latest_entry_def)

lemma lock_step_dead:
  assumes "lock_inv w" and "op_ok op w" and "dead w k i n"
  shows "dead (lock_step op w) k i n"
proof (cases op)
  case (OpAcquire f k' p ttl j rs)
  with assms show ?thesis by (simp add: acquire_dead)
next
  case (OpRelease k' p)
  with assms show ?thesis by (simp add: release_dead)
next
  case (OpReclaim f k' rs adm)
  with assms show ?thesis by (auto simp: revoking_def intro!: reclaim_dead)
next
  case (OpRotate c)
  have "c \<noteq> i" using assms(2,3) OpRotate by (auto simp: unused_id_def dead_def)
  show ?thesis
  proof (cases "tx_ok w")
    case True
    with OpRotate assms(3) \<open>c \<noteq> i\<close> show ?thesis by (simp add: rotate_dead dead_def [of w])
  next
    case False
    with OpRotate assms(3) show ?thesis by (simp add: rotateInstanceIdOnFailover_def Let_def)
  qed
next
  case (OpFailover c)
  then have "c \<noteq> i" "tx_ok (wipe_redis w)" "ledger (wipe_redis w) = ledger w"
    using assms(2,3) by (auto simp: unused_id_def dead_def wipe_redis_def)
  with OpFailover assms(3) show ?thesis by (simp add: rotate_dead dead_def [of w])
next
  case (OpValidate f k' p t)
  with assms show ?thesis using validate_world [of f k' p t w] ensure_dead [of w f k i n] by auto
next
  case (OpTick d)
  with assms show ?thesis by (simp add: tick_dead)
next
  case (OpTx b)
  with assms show ?thesis by (simp add: dead_def owner_of_def token_of_def latest_revoked_def latest_entry_def)
next
  case OpRestart
  with assms show ?thesis by (simp add: dead_def owner_of_def token_of_def latest_revoked_def latest_entry_def)
qed

lemma lock_steps_dead:
  "lock_steps w w' \<Longrightarrow> lock_inv w \<Longrightarrow> dead w k i n \<Longrightarrow> lock_inv w' \<and> dead w' k i n"
  by (induction rule: lock_steps.induct) (simp_all add: lock_step_inv lock_step_dead)

lemma reclaim_kills:
  assumes inv: "lock_inv w" and f: "good_id f" and "rs = STALE_RECOVERED \<or> rs = ADMIN_RECLAIM"
    and rec: "reclaim f k rs adm w = (Ret tok, w1)"
    and e: "e \<in> set (ledger w1)" "le_lockKey e = k"
  shows "lock_inv w1 \<and> (\<exists>n. le_token e = formatFencingToken (le_instanceId e) n
                         \<and> dead w1 k (le_instanceId e) n)"
proof (rule reclaim_outcome [OF inv f, of k rs adm])
  fix c v
  assume r: "v = snd (ensureInstanceId f w)" "ready c v"
    and fail: "\<not> tx_ok w \<Longrightarrow> reclaim f k rs adm w = (Throw tx_failed, bumped c k v)"
    and ok: "tx_ok w \<Longrightarrow> \<exists>q u. reclaim f k rs adm w =
       (Ret (formatFencingToken c (Suc (r_seq w k))),
        (bumped c k v)\<lparr>ledger := ledger_row v k ''system''
              (formatFencingToken c (Suc (r_seq w k))) c rs adm # ledger w,
           pg_locks := q, audit_log := u\<rparr>)"
  have "tx_ok w" using rec fail by (cases "tx_ok w") auto
  with ok rec obtain q u where w1: "w1 =
        (bumped c k v)\<lparr>ledger := ledger_row v k ''system''
              (formatFencingToken c (Suc (r_seq w k))) c rs adm # ledger w,
           pg_locks := q, audit_log := u\<rparr>" by auto
  have inv1: "lock_inv w1" using reclaim_inv [OF inv f, of k rs adm] rec by simp
  obtain n where n: "le_token e = formatFencingToken (le_instanceId e) n" "good_id (le_instanceId e)"
    "r_instance w1 = Some (le_instanceId e) \<longrightarrow> n \<le> r_seq w1 k"
    using inv_ledger [OF inv1 e(1)] e(2) by (auto simp: token_bound_def)
  have "owner_of w1 k = None"
    by (simp add: w1 owner_of_def) (simp add: bumped_def redis_get_def)
  moreover have "latest_revoked w1 k t" for t
    using assms(3) by (auto simp: w1 latest_revoked_def latest_entry_def ledger_row_def revoking_def)
  ultimately have "dead w1 k (le_instanceId e) n" using n e(1) by (simp add: dead_def)
  with inv1 n(1) show ?thesis by blast
qed

text \<open>
  C2 (safety). A reclaimed lock is fenced for good. After a stale recovery or an admin reclaim of a
  key has committed, no token that was ever recorded for the key up to then (the bump included) is
  accepted again for any owner, whatever operations follow: acquisitions by the old holder,
  releases, more reclaims, failovers, restarts.
\<close>

theorem reclaimed_tokens_rejected_forever:
  assumes inv: "lock_inv w" and f: "good_id f" and "rs = STALE_RECOVERED \<or> rs = ADMIN_RECLAIM"
    and rec: "reclaim f k rs adm w = (Ret tok, w1)"
    and later: "lock_steps w1 w2" and "good_id f'"
    and e: "e \<in> set (ledger w1)" "le_lockKey e = k"
  shows "\<not> fst (validateFencingToken f' k p (le_token e) w2)"
proof -
  obtain n where "lock_inv w1" "le_token e = formatFencingToken (le_instanceId e) n"
    "dead w1 k (le_instanceId e) n"
    using reclaim_kills [OF inv f assms(3) rec e] by blast
  then show ?thesis using lock_steps_dead [OF later] dead_not_valid assms(6) by metis
qed

text \<open>A concrete history: a job acquires, its lock is reclaimed, it acquires again.\<close>

definition demo_acquired :: lock_world where
  "demo_acquired = snd (acquire id_1 ''k'' ''job:a'' 120 None None empty_world)"

definition demo_reclaimed :: lock_world where
  "demo_reclaimed = snd (reclaim id_1 ''k'' STALE_RECOVERED None demo_acquired)"

lemma demo_good [simp]: "good_id id_1" "good_id id_2"
  unfolding id_1_def id_2_def by code_simp+

lemma demo_inv: "lock_inv demo_acquired"
  unfolding demo_acquired_def
  by (rule acquire_inv) (simp_all add: lock_inv_def empty_world_def)

lemma demo_ready: "ready id_1 demo_acquired"
proof -
  have "r_instance demo_acquired = Some id_1" "svc_instance demo_acquired = Some id_1"
    by code_simp+
  with demo_inv show ?thesis by (simp add: ready_def)
qed

lemma demo_unused: "unused_id demo_acquired id_2"
proof -
  have "r_instance demo_acquired = Some id_1" by code_simp
  moreover have "list_all (\<lambda>e. le_instanceId e = id_1) (ledger demo_acquired)" by code_simp
  moreover have ne: "id_1 \<noteq> id_2" by code_simp
  moreover have "r_token demo_acquired = [''k'' \<mapsto> (formatFencingToken id_1 1, Some 120000)]"
    by (simp add: demo_acquired_def acquire_def empty_world_def ensureInstanceId_def truthy_id_def
        truthy_def acquire_lock_def owner_of_def redis_get_def Let_def or_default_def expiry_def
        parse_token_instance record_grant_def)
  ultimately show ?thesis
    by (auto simp: unused_id_def list_all_iff format_inj split: if_splits)
qed

theorem reclaimed_tokens_rejected_forever_witness:
  "\<not> fst (validateFencingToken id_1 ''k'' ''job:a'' (formatFencingToken id_1 1)
       (lock_step (OpAcquire id_1 ''k'' ''job:a'' 120 None None) demo_reclaimed))
   \<and> fst (validateFencingToken id_1 ''k'' ''job:a'' (formatFencingToken id_1 1) demo_acquired)"
proof -
  have rec: "reclaim id_1 ''k'' STALE_RECOVERED None demo_acquired =
      (Ret (formatFencingToken id_1 2), demo_reclaimed)"
  proof -
    have "fst (reclaim id_1 ''k'' STALE_RECOVERED None demo_acquired) = Ret (formatFencingToken id_1 2)"
      by code_simp
    then show ?thesis by (simp add: demo_reclaimed_def prod_eq_iff)
  qed
  have steps: "lock_steps demo_reclaimed (lock_step (OpAcquire id_1 ''k'' ''job:a'' 120 None None) demo_reclaimed)"
    by (rule lock_steps.more [OF lock_steps.here]) simp
  obtain e where e: "e \<in> set (ledger demo_reclaimed)" "le_lockKey e = ''k''"
    "le_token e = formatFencingToken id_1 1"
  proof -
    have "list_ex (\<lambda>e. le_lockKey e = ''k'' \<and> le_token e = formatFencingToken id_1 1) (ledger demo_reclaimed)"
      by code_simp
    then show ?thesis using that by (auto simp: list_ex_iff)
  qed
  have "fst (validateFencingToken id_1 ''k'' ''job:a'' (formatFencingToken id_1 1) demo_acquired)"
    by code_simp
  then show ?thesis
    using reclaimed_tokens_rejected_forever [OF demo_inv demo_good(1) _ rec steps demo_good(1) e(1,2)]
    by (simp add: e(3))
qed

text \<open>
  A failover fences everything. Once the instance id has been rotated to an unused one,
  no token recorded before, for any key, is accepted again, even though Redis may still hold the
  owner and token keys of the old instance.
\<close>

theorem rotated_tokens_rejected_forever:
  assumes "lock_inv w" and "unused_id w c" and rot: "rotateInstanceIdOnFailover c w = (Ret c, w1)"
    and "lock_steps w1 w2" and "good_id f" and e: "e \<in> set (ledger w)"
  shows "\<not> fst (validateFencingToken f k p (le_token e) w2)"
proof -
  have tx: "tx_ok w" using rot by (cases "tx_ok w") (simp_all add: rotateInstanceIdOnFailover_def Let_def)
  have w1: "w1 = snd (rotateInstanceIdOnFailover c w)" using rot by simp
  have inv1: "lock_inv w1" using rotate_inv' [OF assms(1,2)] w1 by simp
  obtain n where n: "le_token e = formatFencingToken (le_instanceId e) n" "good_id (le_instanceId e)"
    using inv_ledger [OF assms(1) e] by (auto simp: token_bound_def)
  have "le_instanceId e \<in> le_instanceId ` set (ledger w)" "c \<noteq> le_instanceId e"
    using e assms(2) by (auto simp: unused_id_def)
  then have "dead w1 k (le_instanceId e) n" unfolding w1 using n tx by (intro rotate_dead) auto
  then have "lock_inv w2 \<and> dead w2 k (le_instanceId e) n"
    using lock_steps_dead [OF assms(4) inv1] by blast
  then show ?thesis using dead_not_valid assms(5) n(1) by metis
qed

theorem rotated_tokens_rejected_forever_witness:
  "\<not> fst (validateFencingToken id_1 ''k'' ''job:a'' (formatFencingToken id_1 1)
      (lock_step (OpAcquire id_1 ''k'' ''job:a'' 120 None None)
         (snd (rotateInstanceIdOnFailover id_2 demo_acquired))))"
proof -
  have rot: "rotateInstanceIdOnFailover id_2 demo_acquired =
      (Ret id_2, snd (rotateInstanceIdOnFailover id_2 demo_acquired))"
  proof -
    have "tx_ok demo_acquired" by code_simp
    then show ?thesis by (simp add: prod_eq_iff rotate_fields)
  qed
  have steps: "lock_steps (snd (rotateInstanceIdOnFailover id_2 demo_acquired))
      (lock_step (OpAcquire id_1 ''k'' ''job:a'' 120 None None)
         (snd (rotateInstanceIdOnFailover id_2 demo_acquired)))"
    by (rule lock_steps.more [OF lock_steps.here]) simp
  have "list_ex (\<lambda>e. le_token e = formatFencingToken id_1 1) (ledger demo_acquired)" by code_simp
  then obtain e where "e \<in> set (ledger demo_acquired)" "le_token e = formatFencingToken id_1 1"
    by (auto simp: list_ex_iff)
  then show ?thesis
    using rotated_tokens_rejected_forever [OF demo_inv demo_unused rot steps demo_good(1), of e] by simp
qed

section \<open>Granted tokens\<close>

lemma granted_cases:
  assumes "lock_inv w" and "good_id f" and "acquire f k p ttl j rs w = (Ret (Granted re t), w')"
  obtains (new) i where "r_instance w' = Some i" "svc_instance w' = Some i" "good_id i"
      "r_instance w = None \<or> r_instance w = Some i" "t = formatFencingToken i (Suc (r_seq w k))"
      "ledger w' = ledger_row w k p t i (or_default rs (if re then REENTRANT else ACQUIRED)) None # ledger w"
    | (again) i l where "re" "token_of w k = Some t" "owner_of w k = Some p"
      "r_instance w' = Some i" "svc_instance w' = Some i" "good_id i"
      "r_instance w = None \<or> r_instance w = Some i" "token_bound w' k l t"
      "ledger w' = ledger_row w k p t l (or_default rs REENTRANT) None # ledger w"
  using assms
proof (cases rule: acquire_outcome)
  case script
  then show ?thesis by (simp add: granted_def)
next
  case failed
  then show ?thesis by simp
next
  case (ok i w1 w2 st t' l)
  have w': "t' = t" "re = (st \<noteq> 1)" "w' = record_grant k p ttl j re
      (or_default rs (if re then REENTRANT else ACQUIRED)) t l w2"
    using ok(10,11) by simp_all
  have row: "ledger_row w2 = ledger_row w"
    using ok(5) unfolding ok(1)
    by (auto simp: ledger_row_def fun_eq_iff acquire_lock_owner [THEN conjunct1])
  have led: "ledger w2 = ledger w" using acquire_lock_ready [OF ok(2,5)] ok(1) by simp
  have ids: "r_instance w' = Some i" "svc_instance w' = Some i" "good_id i"
    using readyD [OF ok(4)] ready_good [OF ok(4)] w' by simp_all
  from ok(2,5) show ?thesis
  proof (cases rule: acquire_lock_cases)
    case refused
    with ok(6) show ?thesis by simp
  next
    case error
    then show ?thesis by (simp add: invalid_expire_def)
  next
    case (fresh st')
    then have t: "t = formatFencingToken i (Suc (r_seq w k))" using w'(1) ok(1) by simp
    then have "l = i"
      using ok(9) w'(1) ids(3) format_inj by (auto simp: token_bound_def)
    then show ?thesis
      using ids ok(3) t row led by (intro new [of i]) (simp_all add: w'(3))
  next
    case (again t'')
    then have "re" "token_of w k = Some t" "owner_of w k = Some p" using w'(1,2) ok(1) by auto
    moreover have "token_bound w' k l t"
      using ok(9) w'(1) unfolding w'(3) by (simp add: token_bound_def)
    ultimately show ?thesis
      using ids ok(3) row led by (intro that(2) [of i l]) (simp_all add: w'(3))
  qed
qed

text \<open>
  Tokens only go up. A token granted to a new holder carries a counter above every
  counter recorded for the key under the current instance id, so it equals no token the ledger has
  for the key.
\<close>

theorem granted_token_fresh:
  assumes "lock_inv w" and "good_id f" and "acquire f k p ttl j rs w = (Ret (Granted False t), w')"
  shows "\<exists>i n. t = formatFencingToken i n \<and> r_instance w' = Some i
     \<and> (\<forall>e \<in> set (ledger w). le_lockKey e = k \<longrightarrow> le_token e \<noteq> t
          \<and> (le_instanceId e = i \<longrightarrow> (\<exists>m < n. le_token e = formatFencingToken i m)))"
  using assms
proof (cases rule: granted_cases)
  case (new i)
  have "le_token e \<noteq> t \<and> (le_instanceId e = i \<longrightarrow> (\<exists>m < Suc (r_seq w k). le_token e = formatFencingToken i m))"
    if e: "e \<in> set (ledger w)" "le_lockKey e = k" for e
  proof -
    have "r_instance w = Some i" using new(4) e(1) inv_none [OF assms(1)] by auto
    then obtain m where m: "le_token e = formatFencingToken (le_instanceId e) m" "good_id (le_instanceId e)"
      "le_instanceId e = i \<longrightarrow> m \<le> r_seq w k"
      using inv_ledger [OF assms(1) e(1)] e(2) by (auto simp: token_bound_def)
    then show ?thesis using new(3,5) format_inj by auto
  qed
  with new show ?thesis by blast
qed simp

theorem granted_token_fresh_witness:
  "\<exists>i n. formatFencingToken id_1 3 = formatFencingToken i n
     \<and> r_instance (snd (acquire id_1 ''k'' ''job:b'' 120 None None demo_reclaimed)) = Some i
     \<and> (\<forall>e \<in> set (ledger demo_reclaimed). le_lockKey e = ''k'' \<longrightarrow>
          le_token e \<noteq> formatFencingToken id_1 3
          \<and> (le_instanceId e = i \<longrightarrow> (\<exists>m < n. le_token e = formatFencingToken i m)))"
proof -
  have inv: "lock_inv demo_reclaimed"
    unfolding demo_reclaimed_def by (rule reclaim_inv [OF demo_inv]) simp
  have "fst (acquire id_1 ''k'' ''job:b'' 120 None None demo_reclaimed)
      = Ret (Granted False (formatFencingToken id_1 3))" by code_simp
  then have "acquire id_1 ''k'' ''job:b'' 120 None None demo_reclaimed =
      (Ret (Granted False (formatFencingToken id_1 3)),
       snd (acquire id_1 ''k'' ''job:b'' 120 None None demo_reclaimed))"
    by (simp add: prod_eq_iff)
  from granted_token_fresh [OF inv demo_good(1) this] show ?thesis .
qed

section \<open>What validation accepts\<close>

lemma validate_ready:
  assumes "r_instance w = Some i" "svc_instance w = Some i" "good_id i" and "latest_entry w k = Some e"
  shows "validateFencingToken f k p t w =
     (js_lower (le_instanceId e) = i \<and> \<not> revoking (le_reason e) \<and> le_owner e = p \<and> le_token e = t, w)"
proof -
  have "ensureInstanceId f w = (i, w)"
    using assms good_id_not_Nil by (simp add: ensureInstanceId_def truthy_id_def truthy_def)
  with assms show ?thesis by (auto simp: validateFencingToken_def good_id_def)
qed

text \<open>
  Right after a grant the token validates for its owner exactly when it carries the
  current instance id: always for a new grant, and for a re-entrant one unless the instance id was
  rotated since the token was issued. Nothing else validates for the key.
\<close>

theorem grant_validates:
  assumes "lock_inv w" and "good_id f" and "acquire f k p ttl j rs w = (Ret (Granted re t), w')"
    and "rs \<in> {None, Some ACQUIRED, Some REENTRANT}"
  shows "fst (validateFencingToken f' k q u w')
     \<longleftrightarrow> q = p \<and> u = t \<and> (\<exists>i n. r_instance w' = Some i \<and> t = formatFencingToken i n)"
  using assms(1-3)
proof (cases rule: granted_cases)
  case (new i)
  have "latest_entry w' k = Some (ledger_row w k p t i (or_default rs (if re then REENTRANT else ACQUIRED)) None)"
    using new(6) by (simp add: latest_entry_def ledger_row_def)
  from validate_ready [OF new(1-3) this] show ?thesis
    using assms(4) new(1,3,5) by (auto simp: ledger_row_def good_id_def revoking_def or_default_def)
next
  case (again i l)
  have e: "latest_entry w' k = Some (ledger_row w k p t l (or_default rs REENTRANT) None)"
    using again(9) by (simp add: latest_entry_def ledger_row_def)
  have l: "good_id l" "\<exists>n. t = formatFencingToken l n" using again(8) by (auto simp: token_bound_def)
  then have "(\<exists>n. t = formatFencingToken i n) \<longleftrightarrow> l = i" using again(6) format_inj by auto
  with validate_ready [OF again(4-6) e] l(1) show ?thesis
    using assms(4) again(4) by (auto simp: ledger_row_def good_id_def revoking_def or_default_def)
qed

theorem grant_validates_witness:
  "fst (validateFencingToken id_1 ''k'' ''job:a'' (formatFencingToken id_1 1) demo_acquired)"
proof -
  have e: "lock_inv empty_world" by (simp add: lock_inv_def empty_world_def)
  have "fst (acquire id_1 ''k'' ''job:a'' 120 None None empty_world) =
      Ret (Granted False (formatFencingToken id_1 1))" by code_simp
  then have acq: "acquire id_1 ''k'' ''job:a'' 120 None None empty_world =
      (Ret (Granted False (formatFencingToken id_1 1)), demo_acquired)"
    by (simp add: demo_acquired_def prod_eq_iff)
  have "r_instance demo_acquired = Some id_1" by code_simp
  then show ?thesis using grant_validates [OF e demo_good(1) acq, of id_1 "''job:a''"] by auto
qed

text \<open>
  A holder that survives a failover is locked out until its lease ends. If the rotation
  happens while Redis still has the lease, the holder's next acquire succeeds as re-entrant and hands
  out the old token again, but validation rejects that token, and every other owner is denied.
\<close>

theorem reentrant_after_rotation_rejected:
  assumes "ready i w" and "unused_id w c" and "tx_ok w"
    and "owner_of w k = Some p" and "token_of w k = Some t" and "0 < ttl"
  shows "\<exists>w'. acquire f k p ttl j None (snd (rotateInstanceIdOnFailover c w)) = (Ret (Granted True t), w')
       \<and> \<not> fst (validateFencingToken f k p t w')
       \<and> (\<forall>q. q \<noteq> p \<longrightarrow> fst (acquire f k q ttl j None (snd (rotateInstanceIdOnFailover c w))) = Ret Denied)"
proof -
  let ?v = "snd (rotateInstanceIdOnFailover c w)"
  note fields = rotate_fields [OF assms(3), of c]
  have inv: "lock_inv ?v" using rotate_inv' [OF readyD(3) [OF assms(1)] assms(2)] .
  have gc: "good_id c" using assms(2) by (simp add: unused_id_def)
  have r: "ready c ?v" using inv fields by (simp add: ready_def)
  have ens: "snd (ensureInstanceId f ?v) = ?v" using ensure_ready_id [OF r] by simp
  have gets: "owner_of ?v k = Some p" "token_of ?v k = Some t" "tx_ok ?v"
    using assms(3-5) fields by (simp_all add: owner_of_def token_of_def)
      (simp_all add: rotateInstanceIdOnFailover_def Let_def)
  have lua: "acquire_lock k p ttl (snd (ensureInstanceId f ?v)) = (Reply 2 t, hold k p t ttl ?v)"
    using gets fields(1) by (simp add: ens acquire_lock_def Let_def hold_def)
  obtain x where "r_token w k = Some (t, x)"
    using assms(5) by (auto simp: token_of_def redis_get_def split: option.splits if_splits)
  note tok = this
  then obtain l where l: "token_bound w k l t" using inv_token [OF readyD(3) [OF assms(1)]] by blast
  have lc: "l \<noteq> c"
  proof
    assume "l = c"
    with l obtain n where "t = formatFencingToken c n" by (auto simp: token_bound_def)
    with tok assms(2) show False unfolding unused_id_def by blast
  qed
  let ?w' = "record_grant k p ttl j True REENTRANT t l (hold k p t ttl ?v)"
  have "tx_ok (hold k p t ttl ?v)" using gets(3) by (simp add: hold_def)
  then have acq: "acquire f k p ttl j None ?v = (Ret (Granted True t), ?w')"
    unfolding acquire_reply [OF lua] by (simp add: bound_instance [OF l] or_default_def)
  have "r_instance ?w' = Some c" "svc_instance ?w' = Some c" using fields by (simp_all add: hold_def)
  moreover have "latest_entry ?w' k = Some (ledger_row (hold k p t ttl ?v) k p t l REENTRANT None)"
    by (simp add: latest_entry_def ledger_row_def)
  moreover have "js_lower l \<noteq> c" using l lc by (simp add: token_bound_def good_id_def)
  ultimately have "\<not> fst (validateFencingToken f k p t ?w')"
    using validate_ready [of ?w' c k] gc by (simp add: ledger_row_def)
  moreover have "fst (acquire f k q ttl j None ?v) = Ret Denied" if "q \<noteq> p" for q
  proof -
    have "acquire_lock k q ttl (snd (ensureInstanceId f ?v)) = (Reply 0 ''0'', ?v)"
      using gets that fields(1) by (simp add: ens acquire_lock_def Let_def)
    then show ?thesis by (simp add: acquire_reply)
  qed
  ultimately show ?thesis using acq by blast
qed

text \<open>
  When the Postgres transaction of a grant fails, the error is thrown, nothing is recorded,
  the caller is left without the Redis lock (also when it already held it), and another holder's lock
  is untouched.
\<close>

theorem acquire_tx_failure:
  assumes "lock_inv w" and "good_id f" and "\<not> tx_ok w" and "acquire f k p ttl j rs w = (r, w')"
  shows "ledger w' = ledger w \<and> pg_locks w' = pg_locks w
       \<and> (owner_of w k = None \<or> owner_of w k = Some p \<longrightarrow> 0 < ttl \<longrightarrow>
            throws r \<and> owner_of w' k = None)
       \<and> (\<forall>q. owner_of w k = Some q \<and> q \<noteq> p \<longrightarrow> r = Ret Denied \<and> owner_of w' k = Some q)"
proof -
  obtain i where i: "ready i (snd (ensureInstanceId f w))" using ensure_ready [OF assms(1,2)] by metis
  let ?w1 = "snd (ensureInstanceId f w)"
  obtain rep w2 where lua: "acquire_lock k p ttl ?w1 = (rep, w2)" by fastforce
  have tx: "\<not> tx_ok w2" using acquire_lock_ready [OF i lua] assms(3) by simp
  from i lua show ?thesis
  proof (cases rule: acquire_lock_cases)
    case (refused q)
    with lua assms(4) show ?thesis by (auto simp: acquire_reply)
  next
    case error
    with lua assms(4) have "r = Throw (system_error ''ERR invalid expire time in set'')" "w' = w2"
      by (simp_all add: acquire_script_error invalid_expire_def)
    with error show ?thesis by (auto simp: incr_def)
  next
    case (fresh st)
    have inst: "token_instance f (formatFencingToken i (Suc (r_seq ?w1 k))) w2 =
        (i, w2)" using ready_good [OF i] by (rule parse_token_instance)
    have "(r, w') = (Throw tx_failed, snd (release_lock k p w2))"
      using assms(4) tx fresh(1) lua unfolding fresh(4) by (auto simp: acquire_reply inst [simplified])
    with fresh release_lock_owned [of w2 k p] show ?thesis by auto
  next
    case (again t)
    obtain l where "token_bound ?w1 k l t" using token_of_bound [OF i again(2)] by blast
    then have inst: "token_instance f t w2 = (l, w2)" by (rule bound_instance)
    have "(r, w') = (Throw tx_failed, snd (release_lock k p w2))"
      using assms(4) tx lua unfolding again(3) by (auto simp: acquire_reply inst)
    with again release_lock_owned [of w2 k p] show ?thesis by auto
  qed
qed

theorem reentrant_after_rotation_rejected_witness:
  "\<exists>w'. acquire id_1 ''k'' ''job:a'' 120 None None (snd (rotateInstanceIdOnFailover id_2 demo_acquired))
      = (Ret (Granted True (formatFencingToken id_1 1)), w')
    \<and> \<not> fst (validateFencingToken id_1 ''k'' ''job:a'' (formatFencingToken id_1 1) w')"
proof -
  have a: "tx_ok demo_acquired" "owner_of demo_acquired ''k'' = Some ''job:a''"
    "token_of demo_acquired ''k'' = Some (formatFencingToken id_1 1)"
    by code_simp+
  show ?thesis
    using reentrant_after_rotation_rejected [OF demo_ready demo_unused a, of 120 id_1 None] by auto
qed

theorem acquire_tx_failure_witness:
  "throws (fst (acquire id_1 ''k'' ''job:a'' 120 None None (empty_world\<lparr>tx_ok := False\<rparr>)))
   \<and> owner_of (snd (acquire id_1 ''k'' ''job:a'' 120 None None (empty_world\<lparr>tx_ok := False\<rparr>))) ''k'' = None"
proof -
  let ?w = "empty_world\<lparr>tx_ok := False\<rparr>"
  have inv: "lock_inv ?w" by (simp add: lock_inv_def empty_world_def)
  have "owner_of ?w ''k'' = None" by code_simp
  then show ?thesis
    using acquire_tx_failure [OF inv demo_good(1) _ surjective_pairing, of "''k''" "''job:a''" 120 None None]
    by simp
qed

end
