(* ===== verification/World.thy ===== *)
theory World
  imports Lock_Service Error_Catalog
begin

text \<open>
  The data model of \<open>packages/shared/src/types.ts\<close> as far as the orchestrator's services use it, the
  configuration they read (\<open>env\<close>), the outside world as parameters (\<open>ext\<close>), and the state of the
  orchestrator (\<open>world\<close>): the lock state of \<open>Lock_Service\<close> extended by the job tables, the Redis
  priority queue, and logs of what was sent out (WebSocket events, queue jobs, workflow dispatches,
  webhooks, mails), newest first. Times are milliseconds. Table rows are in the order of their
  insertion, and a primary key names one row.
\<close>

section \<open>Rows\<close>

record Project =
  pr_id :: string
  pr_name :: string
  pr_slug :: string
  pr_godotVersion :: "string option"
  pr_projectRoot :: "string option"
  pr_highVolume :: bool
  pr_adminContacts :: "string list"

record Job =
  j_id :: string
  j_projectId :: string
  j_status :: JobStatus
  j_tier :: "WorkerTier option"
  j_commitStrategy :: CommitStrategy
  j_godotVersion :: string
  j_fencingToken :: "string option"
  j_lockKey :: "string option"
  j_githubRunId :: "nat option"
  j_callbackTokenHash :: "string option"
  j_callbackTokenExpiresAt :: "nat option"
  j_attempt :: nat
  j_maxAttempts :: nat
  j_blockedByJobId :: "string option"
  j_dependsOnJobId :: "string option"
  j_estimatedWaitSeconds :: "nat option"
  j_s3StagingPrefix :: "string option"
  j_s3ValidationReportKey :: "string option"
  j_s3SnapshotKey :: "string option"
  j_s3ArtifactsPrefix :: "string option"
  j_metadata :: metadata
  j_lastHeartbeatAt :: "nat option"
  j_errorCode :: "ErrorCode option"
  j_errorDetail :: "string option"
  j_createdBy :: "string option"
  j_createdAt :: nat
  j_updatedAt :: nat
  j_completedAt :: "nat option"

record JobError =
  je_jobId :: string
  je_code :: string
  je_class :: string
  je_severity :: AlertSeverity
  je_detail :: string
  je_artifactsS3Key :: "string option"
  je_createdAt :: nat

record DeadLetterRow =
  dl_jobId :: string
  dl_reason :: string
  dl_attempts :: nat
  dl_escalated24 :: bool
  dl_escalated72 :: bool
  dl_archivedAt :: "nat option"
  dl_createdAt :: nat

record TierHealth =
  th_tier :: WorkerTier
  th_enabled :: bool
  th_degraded :: bool
  th_avgColdStartMs :: "nat option"
  th_lastProbeAt :: "nat option"
  th_metadata :: metadata

record CreateJobRequest =
  cr_projectId :: string
  cr_commitStrategy :: "CommitStrategy option"
  cr_godotVersion :: "string option"
  cr_preferredTier :: "WorkerTier option"
  cr_dependsOnJobId :: "string option"
  cr_metadata :: "metadata option"

record JobStatusUpdate =
  u_status :: JobStatus
  u_metadata :: "metadata option"
  u_errorCode :: "ErrorCode option"
  u_errorDetail :: "string option"
  u_s3StagingPrefix :: "string option"
  u_s3ValidationReportKey :: "string option"
  u_s3SnapshotKey :: "string option"
  u_s3ArtifactsPrefix :: "string option"
  u_githubRunId :: "nat option"
  u_fencingToken :: "string option"

record SecretPresignedUrls =
  su_stagingPut :: "string option"
  su_stagingGet :: "string option"
  su_stagingArchivePut :: "string option"
  su_validationPut :: "string option"
  su_snapshotPut :: "string option"
  su_snapshotGet :: "string option"
  su_diagnosticsPut :: "string option"

record SecretEnvelope =
  se_callbackToken :: "string option"
  se_fencingToken :: "string option"
  se_lockKey :: "string option"
  se_lockOwner :: "string option"
  se_targetProjectRoot :: "string option"
  se_targetHost :: "string option"
  se_s3AccessKeyId :: "string option"
  se_s3SecretAccessKey :: "string option"
  se_s3SessionToken :: "string option"
  se_sshPrivateKey :: "string option"
  se_sshKeyId :: "string option"
  se_reimportTimeoutSec :: "nat option"
  se_reimportMaxRetries :: "nat option"
  se_outboxId :: "string option"
  se_relPath :: "string option"
  se_pgosBaseUrl :: "string option"
  se_patchGetUrl :: "string option"
  se_presignedUrls :: "SecretPresignedUrls option"
  se_expiresAt :: "nat option"

record DispatchInputs =
  di_jobId :: string
  di_projectId :: string
  di_godotVersion :: string
  di_commitStrategy :: CommitStrategy
  di_tier :: WorkerTier
  di_secretJwe :: string

record SecretReference =
  sr_jobId :: string
  sr_tokenHash :: string
  sr_payload :: string
  sr_expiresAt :: nat
  sr_consumedAt :: "nat option"

text \<open>WebSocket events (\<open>WsJobEvent\<close>) with the time they are sent.\<close>

datatype ws_event =
    JobUpdated "Job option" nat
  | JobErrorEvent ErrorPayload nat
  | LockUpdated metadata nat
  | ParityResult metadata nat
  | AlertEvent metadata nat

datatype queue_add =
    ResolveRun string WorkerTier nat
  | DeadLetterEntry string nat
  | OtherQueueJob string metadata

record mail =
  ml_from :: string
  ml_to :: "string list"
  ml_cc :: "string list"
  ml_subject :: string
  ml_text :: string

text \<open>Plain texts that are sealed as JWE.\<close>

datatype sealed =
    SealedEnvelope SecretEnvelope
  | SealedOuter string string string
  | SealedDirect string string SecretEnvelope

section \<open>Configuration and outside world\<close>

record env =
  env_GODOT_DEFAULT_VERSION :: string
  env_TIER_A_ENABLED :: bool
  env_TIER_B_ENABLED :: bool
  env_TIER_A_QUEUE_THRESHOLD :: nat
  env_REIMPORT_TIMEOUT_MS :: nat
  env_REIMPORT_MAX_RETRIES :: nat
  env_CALLBACK_TOKEN_TTL_MS :: nat
  env_HEARTBEAT_STALE_AFTER_MS :: nat
  env_DISPATCH_TIMEOUT_MS :: nat
  env_DISPATCH_POLL_INTERVAL_MS :: nat
  env_DISPATCH_MAX_CONSECUTIVE_FAILURES :: nat
  env_ADMIN_EMAIL :: string
  env_SMTP_URL :: string
  env_SLACK_WEBHOOK_URL :: string
  env_ALERT_WEBHOOK_URL :: string

record ProvisionRequest =
  pv_url :: string
  pv_publicKey :: string
  pv_forcedCommand :: string
  pv_jobId :: string
  pv_environment :: "(string \<times> string) list"
  pv_maxSessions :: nat
  pv_ttlSeconds :: nat

text \<open>
  The outside world. The first argument of a function is the number of random draws or outside calls
  made before, so results may differ from call to call.
\<close>

record ext =
  x_uuid :: "nat \<Rightarrow> string"
  x_random :: "nat \<Rightarrow> string"
  x_hash :: "string \<Rightarrow> string"
  x_encrypt :: "nat \<Rightarrow> sealed \<Rightarrow> string"
  x_decrypt :: "string \<Rightarrow> sealed option"
  x_presignPut :: "string \<Rightarrow> string"
  x_presignGet :: "string \<Rightarrow> string"
  x_sshKey :: "nat \<Rightarrow> string \<times> string \<times> string"
  x_provision :: "nat \<Rightarrow> ProvisionRequest \<Rightarrow> bool \<times> string option"
  x_dispatch :: "nat \<Rightarrow> DispatchInputs \<Rightarrow> string option"

section \<open>State\<close>

record world = lock_world +
  projects :: "Project list"
  jobs :: "Job list"
  job_errors :: "JobError list"
  dead_letters :: "DeadLetterRow list"
  secret_refs :: "SecretReference list"
  tier_health :: "TierHealth list"
  prio_queue :: "(string \<times> nat) list"
  ws_events :: "ws_event list"
  queue_adds :: "queue_add list"
  workflow_calls :: "DispatchInputs list"
  webhooks :: "metadata list"
  mails :: "mail list"
  nonce :: nat

section \<open>Tables\<close>

text \<open>The row with a primary key, and the update of that row.\<close>

definition row_by :: "('r \<Rightarrow> string) \<Rightarrow> string \<Rightarrow> 'r list \<Rightarrow> 'r option" where
  "row_by key k rs = find (\<lambda>r. key r = k) rs"

fun set_row :: "('r \<Rightarrow> string) \<Rightarrow> string \<Rightarrow> ('r \<Rightarrow> 'r) \<Rightarrow> 'r list \<Rightarrow> 'r list" where
  "set_row key k f [] = []"
| "set_row key k f (r # rs) = (if key r = k then f r # rs else r # set_row key k f rs)"

lemma row_by_Nil [simp]: "row_by key k [] = None"
  by (simp add: row_by_def)

lemma row_by_Cons [simp]: "row_by key k (r # rs) = (if key r = k then Some r else row_by key k rs)"
  by (simp add: row_by_def)

lemma row_by_Some: "row_by key k rs = Some r \<Longrightarrow> r \<in> set rs \<and> key r = k"
  by (induction rs) (auto split: if_splits)

lemma row_by_None: "row_by key k rs = None \<longleftrightarrow> (\<forall>r \<in> set rs. key r \<noteq> k)"
  by (induction rs) auto

lemma row_by_append: "row_by key k (rs @ ss) = (case row_by key k rs of None \<Rightarrow> row_by key k ss | Some r \<Rightarrow> Some r)"
  by (induction rs) auto

lemma set_row_same:
  "(\<And>r. key (f r) = key r) \<Longrightarrow> row_by key k (set_row key k f rs) = map_option f (row_by key k rs)"
  by (induction rs) auto

lemma set_row_other:
  "(\<And>r. key (f r) = key r) \<Longrightarrow> k' \<noteq> k \<Longrightarrow> row_by key k' (set_row key k f rs) = row_by key k' rs"
  by (induction rs) auto

lemma length_set_row [simp]: "length (set_row key k f rs) = length rs"
  by (induction rs) auto

lemma map_set_row: "(\<And>r. key (f r) = key r) \<Longrightarrow> map key (set_row key k f rs) = map key rs"
  by (induction rs) auto

lemma set_row_missing: "row_by key k rs = None \<Longrightarrow> set_row key k f rs = rs"
  by (induction rs) (auto split: if_splits)

definition get_job :: "world \<Rightarrow> string \<Rightarrow> Job option" where
  "get_job w i = row_by j_id i (jobs w)"

definition set_job :: "string \<Rightarrow> (Job \<Rightarrow> Job) \<Rightarrow> world \<Rightarrow> world" where
  "set_job i f w = w\<lparr>jobs := set_row j_id i f (jobs w)\<rparr>"

definition get_project :: "world \<Rightarrow> string \<Rightarrow> Project option" where
  "get_project w i = row_by pr_id i (projects w)"

definition broadcast :: "(nat \<Rightarrow> ws_event) \<Rightarrow> world \<Rightarrow> world" where
  "broadcast e w = w\<lparr>ws_events := e (now w) # ws_events w\<rparr>"

definition draw :: "(nat \<Rightarrow> 'b) \<Rightarrow> world \<Rightarrow> 'b \<times> world" where
  "draw f w = (f (nonce w), w\<lparr>nonce := Suc (nonce w)\<rparr>)"

text \<open>\<open>audit-service.ts\<close>: \<open>audit\<close>\<close>

definition audit :: "AuditLogEntry \<Rightarrow> 'a lock_world_scheme \<Rightarrow> 'a lock_world_scheme" where
  "audit a w = w\<lparr>audit_log := a # audit_log w\<rparr>"

definition audit_entry :: "string option \<Rightarrow> string \<Rightarrow> string \<Rightarrow> string option \<Rightarrow> metadata \<Rightarrow> AuditLogEntry" where
  "audit_entry actor act rtype rid detail =
     \<lparr>au_actorId = actor, au_actorRole = None, au_action = act, au_resourceType = rtype,
      au_resourceId = rid, au_detail = detail\<rparr>"

definition listAuditLogs :: "nat option \<Rightarrow> string option \<Rightarrow> string option \<Rightarrow> 'a lock_world_scheme
    \<Rightarrow> AuditLogEntry list" where
  "listAuditLogs limit rtype rid w =
     take (or_default limit 100)
       (if truthy rtype \<and> truthy rid
        then filter (\<lambda>a. Some (au_resourceType a) = rtype \<and> au_resourceId a = rid) (audit_log w)
        else audit_log w)"

section \<open>Concrete instances for evaluation\<close>

definition empty_lock_fields :: world where
  "empty_lock_fields =
     \<lparr>now = 1000, tx_ok = True, r_instance = None, r_bootstrap = None, r_owner = Map.empty,
      r_token = Map.empty, r_seq = (\<lambda>_. 0), svc_instance = None, pg_instance = None, ledger = [],
      pg_locks = [], audit_log = [], projects = [], jobs = [], job_errors = [], dead_letters = [],
      secret_refs = [], tier_health = [], prio_queue = [],
      ws_events = [], queue_adds = [], workflow_calls = [], webhooks = [], mails = [], nonce = 0\<rparr>"

definition env_example :: env where
  "env_example =
     \<lparr>env_GODOT_DEFAULT_VERSION = ''4.3.1'', env_TIER_A_ENABLED = True, env_TIER_B_ENABLED = True,
      env_TIER_A_QUEUE_THRESHOLD = 3, env_REIMPORT_TIMEOUT_MS = 300000, env_REIMPORT_MAX_RETRIES = 2,
      env_CALLBACK_TOKEN_TTL_MS = 3600000, env_HEARTBEAT_STALE_AFTER_MS = 30000,
      env_DISPATCH_TIMEOUT_MS = 60000, env_DISPATCH_POLL_INTERVAL_MS = 5000,
      env_DISPATCH_MAX_CONSECUTIVE_FAILURES = 3, env_ADMIN_EMAIL = ''ops@example.org'',
      env_SMTP_URL = [], env_SLACK_WEBHOOK_URL = [], env_ALERT_WEBHOOK_URL = []\<rparr>"

definition seal_kind :: "sealed \<Rightarrow> string" where
  "seal_kind s = (case s of SealedEnvelope _ \<Rightarrow> ''envelope'' | SealedOuter _ _ _ \<Rightarrow> ''outer''
                  | SealedDirect _ _ _ \<Rightarrow> ''direct'')"

definition ext_example :: ext where
  "ext_example =
     \<lparr>x_uuid = (\<lambda>n. ''00000000-0000-4000-8000-000000000001''),
      x_random = (\<lambda>n. CHR ''r'' # show_nat n), x_hash = (\<lambda>s. CHR ''h'' # s),
      x_encrypt = (\<lambda>n s. seal_kind s), x_decrypt = (\<lambda>s. None),
      x_presignPut = (\<lambda>k. ''put:'' @ k), x_presignGet = (\<lambda>k. ''get:'' @ k),
      x_sshKey = (\<lambda>n. (''pub'', ''pem'', ''key'')), x_provision = (\<lambda>n r. (True, None)),
      x_dispatch = (\<lambda>n d. None)\<rparr>"

definition job_example :: "string \<Rightarrow> string \<Rightarrow> JobStatus \<Rightarrow> Job" where
  "job_example i p st =
     \<lparr>j_id = i, j_projectId = p, j_status = st, j_tier = None, j_commitStrategy = same_machine,
      j_godotVersion = ''4.3.1'', j_fencingToken = None, j_lockKey = None, j_githubRunId = None,
      j_callbackTokenHash = None, j_callbackTokenExpiresAt = None, j_attempt = 1, j_maxAttempts = 3,
      j_blockedByJobId = None, j_dependsOnJobId = None, j_estimatedWaitSeconds = None,
      j_s3StagingPrefix = None, j_s3ValidationReportKey = None, j_s3SnapshotKey = None,
      j_s3ArtifactsPrefix = None, j_metadata = [], j_lastHeartbeatAt = None, j_errorCode = None,
      j_errorDetail = None, j_createdBy = None, j_createdAt = 0, j_updatedAt = 0,
      j_completedAt = None\<rparr>"

definition project_example :: "string \<Rightarrow> Project" where
  "project_example i =
     \<lparr>pr_id = i, pr_name = i, pr_slug = i, pr_godotVersion = None, pr_projectRoot = None,
      pr_highVolume = False, pr_adminContacts = []\<rparr>"

definition envelope_example :: SecretEnvelope where
  "envelope_example =
     \<lparr>se_callbackToken = Some ''j.t'', se_fencingToken = None, se_lockKey = None, se_lockOwner = None,
      se_targetProjectRoot = None, se_targetHost = None, se_s3AccessKeyId = None, se_s3SecretAccessKey = None,
      se_s3SessionToken = None, se_sshPrivateKey = None, se_sshKeyId = None,
      se_reimportTimeoutSec = None, se_reimportMaxRetries = None, se_outboxId = None,
      se_relPath = None, se_pgosBaseUrl = None, se_patchGetUrl = None, se_presignedUrls = None,
      se_expiresAt = None\<rparr>"

end
