(* ===== verification/Dependency_Gate.thy ===== *)
theory Dependency_Gate
  imports World
begin

text \<open>
  \<open>packages/orchestrator/src/services/dependency-gate.ts\<close>: whether a job may start with respect to the
  job it depends on, and whether a blocked job may be promoted when another one finishes.
\<close>

datatype DependencyGate =
    Allow
  | BlockDependency string
  | DepFailed string

definition evaluateDependencyGate :: "(string \<times> string \<times> JobStatus) option \<Rightarrow> string \<Rightarrow> DependencyGate" where
  "evaluateDependencyGate dep expectedProjectId =
     (case dep of
        None \<Rightarrow> DepFailed ''Dependency job not found''
      | Some (i, p, st) \<Rightarrow>
          if p \<noteq> expectedProjectId
          then DepFailed (''Dependency job '' @ i @ '' belongs to another project'')
          else if st = COMPLETED then Allow
          else if isTerminal st
          then DepFailed (''Dependency job '' @ i @ '' ended with '' @ status_name st)
          else BlockDependency (''Waiting on dependency job '' @ i @ '' ('' @ status_name st @ '')''))"

record PromotionDecision =
  pd_promote :: bool
  pd_depFailed :: bool
  pd_reason :: "string option"

definition keep_blocked :: "string \<Rightarrow> PromotionDecision" where
  "keep_blocked r = \<lparr>pd_promote = False, pd_depFailed = False, pd_reason = Some r\<rparr>"

definition dep_failed_decision :: "string \<Rightarrow> PromotionDecision" where
  "dep_failed_decision r = \<lparr>pd_promote = False, pd_depFailed = True, pd_reason = Some r\<rparr>"

definition promote_decision :: PromotionDecision where
  "promote_decision = \<lparr>pd_promote = True, pd_depFailed = False, pd_reason = None\<rparr>"

definition canPromoteBlockedJob :: "string option \<Rightarrow> string option \<Rightarrow> string \<Rightarrow> JobStatus
    \<Rightarrow> JobStatus option \<Rightarrow> bool \<Rightarrow> JobStatus option \<Rightarrow> PromotionDecision" where
  "canPromoteBlockedJob dependsOnJobId blockedByJobId finishedJobId finishedStatus
       dependencyStatus concurrentActiveHeld blockedByStatus =
     (let after_dependency =
            (if truthy blockedByJobId \<and> blockedByJobId \<noteq> Some finishedJobId
                \<and> (case blockedByStatus of
                     None \<Rightarrow> False
                   | Some bs \<Rightarrow> isActiveGeneration bs \<or> isRetriableFailure bs)
             then keep_blocked ''Still blocked by another active job''
             else if concurrentActiveHeld then keep_blocked ''Project concurrency slot held''
             else promote_decision)
      in if truthy dependsOnJobId
         then (case dependencyStatus of
                 None \<Rightarrow> dep_failed_decision ''Dependency missing''
               | Some ds \<Rightarrow>
                   if isTerminal ds \<and> ds \<noteq> COMPLETED
                   then dep_failed_decision (''Dependency ended with '' @ status_name ds)
                   else if ds \<noteq> COMPLETED then keep_blocked ''Dependency not completed''
                   else after_dependency)
         else after_dependency)"

definition PROJECT_SLOT_ACTIVE_STATUSES :: "JobStatus list" where
  "PROJECT_SLOT_ACTIVE_STATUSES =
     [QUEUED, DISPATCHING, STAGING, VALIDATING, VALIDATION_REPORT, COMMITTING, POST_COMMIT_VERIFY,
      REIMPORT_FAILED, VALIDATION_FAILED, COMMIT_FAILED, DISPATCH_TIMEOUT, DISPATCH_FAILED]"

lemmas decision_defs = keep_blocked_def dep_failed_decision_def promote_decision_def

lemma gate_allow_iff:
  "evaluateDependencyGate (Some (i, p, st)) q = Allow \<longleftrightarrow> p = q \<and> st = COMPLETED"
  by (simp add: evaluateDependencyGate_def)

lemma gate_block_iff:
  "(\<exists>r. evaluateDependencyGate (Some (i, p, st)) q = BlockDependency r) \<longleftrightarrow> p = q \<and> \<not> isTerminal st"
  by (auto simp: evaluateDependencyGate_def)

lemma slot_statuses:
  "set PROJECT_SLOT_ACTIVE_STATUSES = {s. isActiveGeneration s \<or> isRetriableFailure s}"
proof -
  have "s \<in> set PROJECT_SLOT_ACTIVE_STATUSES \<longleftrightarrow> isActiveGeneration s \<or> isRetriableFailure s" for s
    by (cases s) (simp_all add: PROJECT_SLOT_ACTIVE_STATUSES_def status_class_defs)
  then show ?thesis by blast
qed

text \<open>The gate at dispatch and the decision at promotion agree on the dependency.\<close>

lemma promote_iff:
  "pd_promote (canPromoteBlockedJob dep blk fin fs ds held bs) \<longleftrightarrow>
     (truthy dep \<longrightarrow> ds = Some COMPLETED) \<and> \<not> held
     \<and> (truthy blk \<and> blk \<noteq> Some fin \<longrightarrow> (\<forall>s. bs = Some s \<longrightarrow> s \<notin> set PROJECT_SLOT_ACTIVE_STATUSES))"
  unfolding slot_statuses
  by (auto simp: canPromoteBlockedJob_def decision_defs Let_def split: option.splits if_splits)

lemma dep_failed_iff:
  "pd_depFailed (canPromoteBlockedJob dep blk fin fs ds held bs) \<longleftrightarrow>
     truthy dep \<and> (ds = None \<or> (\<exists>s. ds = Some s \<and> isTerminal s \<and> s \<noteq> COMPLETED))"
  by (auto simp: canPromoteBlockedJob_def decision_defs Let_def split: option.splits if_splits)

end
