(* ===== verification/Scheduler.thy ===== *)
theory Scheduler
  imports World
begin

text \<open>
  \<open>packages/orchestrator/src/services/scheduler-service.ts\<close>: the choice of a worker tier, the priority
  queue in Redis, and the health rows of the tiers.
\<close>

text \<open>\<open>ZADD\<close>: the score of a member is replaced, a new member is added.\<close>

definition enqueuePriority :: "string \<Rightarrow> nat \<Rightarrow> world \<Rightarrow> world" where
  "enqueuePriority jobId priority w =
     w\<lparr>prio_queue := (jobId, priority) # filter (\<lambda>e. fst e \<noteq> jobId) (prio_queue w)\<rparr>"

definition queueDepth :: "world \<Rightarrow> nat" where
  "queueDepth w = length (prio_queue w)"

definition tier_row :: "world \<Rightarrow> WorkerTier \<Rightarrow> TierHealth option" where
  "tier_row w t = find (\<lambda>r. th_tier r = t) (tier_health w)"

definition tier_ok :: "bool \<Rightarrow> TierHealth option \<Rightarrow> bool" where
  "tier_ok env_enabled h =
     (env_enabled \<and> (case h of None \<Rightarrow> False | Some r \<Rightarrow> th_enabled r \<and> \<not> th_degraded r))"

text \<open>\<open>cold > deadlineMs * 0.5\<close> on integers is \<open>2 * cold > deadlineMs\<close>.\<close>

definition selectTier :: "env \<Rightarrow> WorkerTier option \<Rightarrow> bool \<Rightarrow> nat option \<Rightarrow> world \<Rightarrow> WorkerTier" where
  "selectTier e preferredTier projectHighVolume deadlineMs w =
     (let aOk = tier_ok (env_TIER_A_ENABLED e) (tier_row w TierA);
          bOk = tier_ok (env_TIER_B_ENABLED e) (tier_row w TierB);
          cold = (case tier_row w TierB of
                    None \<Rightarrow> 90000
                  | Some r \<Rightarrow> or_default (th_avgColdStartMs r) 90000)
      in if preferredTier = Some TierA \<and> aOk then TierA
         else if preferredTier = Some TierB \<and> bOk then TierB
         else if aOk \<and> projectHighVolume \<and> queueDepth w \<ge> env_TIER_A_QUEUE_THRESHOLD e then TierA
         else if (case deadlineMs of None \<Rightarrow> False | Some d \<Rightarrow> d \<noteq> 0 \<and> bOk \<and> 2 * cold > d \<and> aOk)
         then TierA
         else if bOk then TierB
         else if aOk then TierA
         else TierB)"

definition set_tier :: "WorkerTier \<Rightarrow> (TierHealth \<Rightarrow> TierHealth) \<Rightarrow> world \<Rightarrow> world" where
  "set_tier t f w = w\<lparr>tier_health := map (\<lambda>r. if th_tier r = t then f r else r) (tier_health w)\<rparr>"

definition setTierEnabled :: "WorkerTier \<Rightarrow> bool \<Rightarrow> world \<Rightarrow> world" where
  "setTierEnabled t enabled w = set_tier t (\<lambda>r. r\<lparr>th_enabled := enabled\<rparr>) w"

text \<open>
  \<open>(avg * 0.7 + $2 * 0.3)::int\<close> in Postgres numeric arithmetic, which rounds half away from zero; on
  natural numbers that is \<open>(7 avg + 3 new + 5) div 10\<close>.
\<close>

definition blend :: "nat option \<Rightarrow> nat \<Rightarrow> nat" where
  "blend avg new = (case avg of None \<Rightarrow> new | Some a \<Rightarrow> (7 * a + 3 * new + 5) div 10)"

definition recordProbe :: "WorkerTier \<Rightarrow> nat \<Rightarrow> bool \<Rightarrow> metadata option \<Rightarrow> world \<Rightarrow> world" where
  "recordProbe t coldStartMs degraded meta w =
     set_tier t (\<lambda>r. r\<lparr>th_avgColdStartMs := Some (blend (th_avgColdStartMs r) coldStartMs),
                       th_lastProbeAt := Some (now w),
                       th_degraded := degraded,
                       th_metadata := (case meta of None \<Rightarrow> th_metadata r
                                       | Some m \<Rightarrow> jsonb_concat (th_metadata r) m)\<rparr>) w"

text \<open>\<open>GET /tiers\<close>: the row with nine members of its metadata lifted to the top.\<close>

definition lifted_keys :: "string list" where
  "lifted_keys = [''godot_cache_warm'', ''probe_source'', ''probe_detail'', ''probe_checked_at'',
     ''last_health_run_id'', ''last_health_run_conclusion'', ''last_health_run_age_ms'',
     ''actions_api_ok'']"

definition getTierHealth :: "world \<Rightarrow> (TierHealth \<times> metadata) list" where
  "getTierHealth w =
     map (\<lambda>r. (r, (''tier_b_runner_online'',
                    if th_tier r = TierB then or_default (obj_get (th_metadata r) ''tier_b_runner_online'') JNull
                    else JNull)
                 # map (\<lambda>k. (k, or_default (obj_get (th_metadata r) k) JNull)) lifted_keys))
       (filter (\<lambda>r. th_tier r = TierA) (tier_health w) @ filter (\<lambda>r. th_tier r = TierB) (tier_health w))"

section \<open>Lemmas\<close>

lemma queueDepth_enqueue:
  "distinct (map fst (prio_queue w)) \<Longrightarrow>
     queueDepth (enqueuePriority j p w) =
       (if j \<in> fst ` set (prio_queue w) then queueDepth w else Suc (queueDepth w))"
proof -
  assume d: "distinct (map fst (prio_queue w))"
  have "length (filter (\<lambda>e. fst e \<noteq> j) q) = (if j \<in> fst ` set q then length q - 1 else length q)
      \<and> (j \<in> fst ` set q \<longrightarrow> q \<noteq> [])" if "distinct (map fst q)" for q :: "(string \<times> nat) list"
    using that
  proof (induction q)
    case Nil
    then show ?case by simp
  next
    case (Cons e q)
    then show ?case by (auto simp: Suc_leI length_greater_0_conv)
  qed
  from this [OF d] show ?thesis
    by (auto simp: queueDepth_def enqueuePriority_def Suc_leI length_greater_0_conv)
qed

lemma enqueue_distinct:
  "distinct (map fst (prio_queue w)) \<Longrightarrow> distinct (map fst (prio_queue (enqueuePriority j p w)))"
  by (auto simp: enqueuePriority_def distinct_map inj_on_def)

definition usable :: "env \<Rightarrow> world \<Rightarrow> WorkerTier \<Rightarrow> bool" where
  "usable e w t = tier_ok (case t of TierA \<Rightarrow> env_TIER_A_ENABLED e | TierB \<Rightarrow> env_TIER_B_ENABLED e) (tier_row w t)"

text \<open>
  The tier choice: a usable preferred tier is always taken; an unusable tier is chosen
  only when no tier is usable, and then it is B; a project that is not high-volume gets tier A without
  preferring it only when B is unusable or too slow for the deadline.
\<close>

theorem selectTier_spec:
  "(\<forall>t. pref = Some t \<and> usable e w t \<longrightarrow> selectTier e pref hv dl w = t)
   \<and> ((\<exists>t. usable e w t) \<longrightarrow> usable e w (selectTier e pref hv dl w))
   \<and> ((\<forall>t. \<not> usable e w t) \<longrightarrow> selectTier e pref hv dl w = TierB)
   \<and> (selectTier e pref hv dl w = TierA \<and> pref \<noteq> Some TierA \<and> usable e w TierB \<longrightarrow>
        (hv \<and> queueDepth w \<ge> env_TIER_A_QUEUE_THRESHOLD e) \<or> dl \<noteq> None)"
proof -
  have all: "(\<forall>t. P t) \<longleftrightarrow> P TierA \<and> P TierB" "(\<exists>t. P t) \<longleftrightarrow> P TierA \<or> P TierB" for P
    by (metis WorkerTier.exhaust)+
  show ?thesis
    unfolding all
    by (auto simp: selectTier_def usable_def Let_def split: option.splits)
qed

definition tier_example :: "nat \<Rightarrow> world" where
  "tier_example depth = empty_lock_fields\<lparr>
      tier_health :=
        [\<lparr>th_tier = TierA, th_enabled = True, th_degraded = False, th_avgColdStartMs = None,
          th_lastProbeAt = None, th_metadata = []\<rparr>,
         \<lparr>th_tier = TierB, th_enabled = True, th_degraded = False, th_avgColdStartMs = Some 20000,
          th_lastProbeAt = None, th_metadata = []\<rparr>],
      prio_queue := map (\<lambda>i. (show_nat i, i)) [0..<depth]\<rparr>"

theorem selectTier_spec_witness:
  "selectTier env_example (Some TierA) False None (tier_example 0) = TierA
   \<and> selectTier env_example None True None (tier_example 3) = TierA
   \<and> selectTier env_example None True None (tier_example 2) = TierB"
proof -
  have "usable env_example (tier_example 0) TierA" by code_simp
  then have "selectTier env_example (Some TierA) False None (tier_example 0) = TierA"
    using selectTier_spec [of "Some TierA" env_example "tier_example 0" False None] by blast
  moreover have "selectTier env_example None True None (tier_example 3) = TierA" by code_simp
  moreover have "selectTier env_example None True None (tier_example 2) = TierB" by code_simp
  ultimately show ?thesis by blast
qed

end
