(* ===== verification/Alerts.thy ===== *)
theory Alerts
  imports World
begin

text \<open>
  \<open>packages/orchestrator/src/services/alert-service.ts\<close>: recipients of an alert, its audit row, webhook
  and mail, and the texts of the dead-letter notices. A failing webhook or mail server is caught and
  logged, so the logs \<open>webhooks\<close> and \<open>mails\<close> hold what was attempted.
\<close>

record SendAlertOpts =
  ao_title :: string
  ao_severity :: AlertSeverity
  ao_body :: string
  ao_code :: "string option"
  ao_projectId :: "string option"
  ao_jobId :: "string option"
  ao_to :: "string list option"
  ao_notifyEmail :: "bool option"

fun severity_name :: "AlertSeverity \<Rightarrow> string" where
  "severity_name low = ''low''"
| "severity_name medium = ''medium''"
| "severity_name high = ''high''"
| "severity_name critical = ''critical''"

fun severity_upper :: "AlertSeverity \<Rightarrow> string" where
  "severity_upper low = ''LOW''"
| "severity_upper medium = ''MEDIUM''"
| "severity_upper high = ''HIGH''"
| "severity_upper critical = ''CRITICAL''"

text \<open>The loop of \<open>normalizeEmailList\<close>: \<open>seen\<close> holds the lower-cased addresses.\<close>

fun email_loop :: "string list \<Rightarrow> string list \<Rightarrow> string list" where
  "email_loop seen [] = []"
| "email_loop seen (addr # rest) =
     (let email = js_trim addr; key = js_lower email
      in if email = [] then email_loop seen rest
         else if key \<in> set seen then email_loop seen rest
         else email # email_loop (key # seen) rest)"

definition normalizeEmailList :: "string list option \<Rightarrow> string list" where
  "normalizeEmailList to = (case to of None \<Rightarrow> [] | Some arr \<Rightarrow> email_loop [] arr)"

definition resolveAlertRecipients :: "string list option \<Rightarrow> string option \<Rightarrow> string list \<times> string list" where
  "resolveAlertRecipients to adminEmail =
     (let contacts = normalizeEmailList to;
          admin_addr = js_trim (or_default adminEmail [])
      in if contacts = [] then (if admin_addr \<noteq> [] then [admin_addr] else [], [])
         else let alreadyPrimary =
                    (if admin_addr \<noteq> [] then list_ex (\<lambda>c. js_lower c = js_lower admin_addr) contacts
                     else True)
              in (contacts, if admin_addr \<noteq> [] \<and> \<not> alreadyPrimary then [admin_addr] else []))"

definition alert_payload :: "SendAlertOpts \<Rightarrow> nat \<Rightarrow> metadata" where
  "alert_payload al t =
     [(''title'', JStr (ao_title al)), (''severity'', JStr (severity_name (ao_severity al))),
      (''body'', JStr (ao_body al))]
     @ (case ao_code al of None \<Rightarrow> [] | Some c \<Rightarrow> [(''code'', JStr c)])
     @ (case ao_jobId al of None \<Rightarrow> [] | Some j \<Rightarrow> [(''jobId'', JStr j)])
     @ (case ao_projectId al of None \<Rightarrow> [] | Some p \<Rightarrow> [(''projectId'', JStr p)])
     @ (case ao_notifyEmail al of None \<Rightarrow> [] | Some b \<Rightarrow> [(''notifyEmail'', JBool b)])
     @ [(''to'', JArr (map JStr (normalizeEmailList (ao_to al)))), (''at'', JNum (show_nat t))]"

definition should_email :: "SendAlertOpts \<Rightarrow> bool" where
  "should_email al = (ao_notifyEmail al \<noteq> Some False
     \<and> (ao_severity al = high \<or> ao_severity al = critical))"

definition alert_mail :: "env \<Rightarrow> SendAlertOpts \<Rightarrow> mail option" where
  "alert_mail e al =
     (let (primary, cc) = resolveAlertRecipients (ao_to al) (Some (env_ADMIN_EMAIL e));
          allRecipients = primary @ cc
      in if allRecipients = [] \<or> env_SMTP_URL e = [] then None
         else Some \<lparr>ml_from = (if env_ADMIN_EMAIL e \<noteq> [] then env_ADMIN_EMAIL e else hd allRecipients),
                    ml_to = (if primary \<noteq> [] then primary else allRecipients),
                    ml_cc = cc,
                    ml_subject = ''[PGOS '' @ severity_name (ao_severity al) @ ''] '' @ ao_title al,
                    ml_text = ao_body al\<rparr>)"

definition sendAlert :: "env \<Rightarrow> SendAlertOpts \<Rightarrow> world \<Rightarrow> world" where
  "sendAlert e al w =
     (let payload = alert_payload al (now w);
          w1 = audit (audit_entry None ''alert.emitted'' ''alert''
                        (Some (or_default (ao_code al) (ao_title al))) payload) w;
          webhook = (if env_SLACK_WEBHOOK_URL e \<noteq> [] then env_SLACK_WEBHOOK_URL e
                     else env_ALERT_WEBHOOK_URL e);
          text = ''['' @ severity_upper (ao_severity al) @ ''] '' @ ao_title al @ '': '' @ ao_body al;
          w2 = (if webhook \<noteq> []
                then w1\<lparr>webhooks := ((''url'', JStr webhook) # (''text'', JStr text) # payload) # webhooks w1\<rparr>
                else w1)
      in if \<not> should_email al then w2
         else (case alert_mail e al of
                 None \<Rightarrow> w2
               | Some m \<Rightarrow> w2\<lparr>mails := m # mails w2\<rparr>))"

definition escalateDeadLetter :: "env \<Rightarrow> string \<Rightarrow> nat \<Rightarrow> string list \<Rightarrow> string option \<Rightarrow> string option
    \<Rightarrow> world \<Rightarrow> world" where
  "escalateDeadLetter e jobId hours contacts projectId bodyDetail w =
     (let contactList = normalizeEmailList (Some contacts);
          detail = or_default bodyDetail
            (''Job '' @ jobId @ '' remains in dead-letter queue after '' @ show_nat hours @ ''h.'');
          contactLine =
            (if contactList \<noteq> [] then ''Project contacts notified: '' @ join '', '' contactList
             else ''No project admin_contacts configured; using ADMIN_EMAIL fallback.'')
      in sendAlert e
           \<lparr>ao_title = ''Dead-letter job unresolved ('' @ show_nat hours @ ''h)'',
            ao_severity = (if hours = 72 then critical else high),
            ao_body = detail @ [char_of (10::nat)] @ contactLine,
            ao_code = Some ''E020'', ao_projectId = projectId, ao_jobId = Some jobId,
            ao_to = Some contactList, ao_notifyEmail = None\<rparr> w)"

section \<open>Lemmas\<close>

lemma email_loop_keys:
  "distinct (map js_lower (email_loop seen xs))
   \<and> (\<forall>m \<in> set (email_loop seen xs). js_lower m \<notin> set seen \<and> m \<noteq> [] \<and> (\<exists>x \<in> set xs. m = js_trim x))"
proof (induction xs arbitrary: seen)
  case Nil
  then show ?case by simp
next
  case (Cons x xs)
  have rest: "distinct (map js_lower (email_loop (js_lower (js_trim x) # seen) xs))"
    "\<forall>m \<in> set (email_loop (js_lower (js_trim x) # seen) xs). js_lower m \<notin> set (js_lower (js_trim x) # seen)
        \<and> m \<noteq> [] \<and> (\<exists>y \<in> set xs. m = js_trim y)"
    using Cons.IH by blast+
  show ?case
    using Cons.IH [of seen] rest by (auto simp: Let_def)
qed

lemma email_loop_covers:
  "x \<in> set xs \<Longrightarrow> js_trim x \<noteq> [] \<Longrightarrow> js_lower (js_trim x) \<notin> set seen \<Longrightarrow>
     \<exists>m \<in> set (email_loop seen xs). js_lower m = js_lower (js_trim x)"
proof (induction xs arbitrary: seen)
  case Nil
  then show ?case by simp
next
  case (Cons y ys)
  show ?case
  proof (cases "js_lower (js_trim y) = js_lower (js_trim x)")
    case True
    with Cons.prems show ?thesis by (auto simp: Let_def js_lower_def)
  next
    case False
    with Cons.prems have x: "x \<in> set ys" by auto
    with False Cons.prems have "js_lower (js_trim x) \<notin> set (js_lower (js_trim y) # seen)" by auto
    with Cons.IH [OF x Cons.prems(2)] Cons.prems(3) show ?thesis by (auto simp: Let_def)
  qed
qed

text \<open>
  Recipients of an alert. The recipients are trimmed, not empty and distinct up to
  case; every contact with an address is among the primary recipients; the admin address, when there
  is one, always receives the alert, as the only primary recipient if there are no contacts and
  otherwise in copy unless it is a contact already.
\<close>

theorem alert_recipients:
  assumes "resolveAlertRecipients (Some contacts) adm = (primary, cc)"
  shows "distinct (map js_lower (primary @ cc)) \<and> [] \<notin> set (primary @ cc)
     \<and> (\<forall>c \<in> set contacts. js_trim c \<noteq> [] \<longrightarrow> js_lower (js_trim c) \<in> js_lower ` set primary)
     \<and> (\<forall>a. adm = Some a \<and> js_trim a \<noteq> [] \<longrightarrow> js_lower (js_trim a) \<in> js_lower ` set (primary @ cc))
     \<and> (cc \<noteq> [] \<longrightarrow> (\<exists>c \<in> set contacts. js_trim c \<noteq> []))"
proof -
  let ?n = "email_loop [] contacts"
  note keys = email_loop_keys [of "[]" contacts]
  have n: "distinct (map js_lower ?n)" "[] \<notin> set ?n" using keys by auto
  have some: "\<exists>c \<in> set contacts. js_trim c \<noteq> []" if "?n \<noteq> []"
  proof -
    have "hd ?n \<in> set ?n" using that by simp
    with keys show ?thesis by metis
  qed
  have cover: "js_lower (js_trim c) \<in> js_lower ` set ?n" if "c \<in> set contacts" "js_trim c \<noteq> []" for c
    using email_loop_covers [OF that, of "[]"] by (simp add: image_iff) metis
  show ?thesis
  proof (cases "?n = []")
    case True
    with assms cover show ?thesis
      by (auto simp: resolveAlertRecipients_def normalizeEmailList_def Let_def or_default_def
          split: if_splits option.splits)
  next
    case False
    with assms n some cover show ?thesis
      by (auto simp: resolveAlertRecipients_def normalizeEmailList_def Let_def or_default_def list_ex_iff
          split: if_splits option.splits) (metis imageI)+
  qed
qed

theorem alert_recipients_witness:
  "resolveAlertRecipients (Some ['' a@x '', ''A@X'', [], ''b@x'']) (Some ''Root@x '') =
     ([''a@x'', ''b@x''], [''Root@x''])
   \<and> distinct (map js_lower [''a@x'', ''b@x'', ''Root@x''])"
proof -
  have r: "resolveAlertRecipients (Some ['' a@x '', ''A@X'', [], ''b@x'']) (Some ''Root@x '') =
     ([''a@x'', ''b@x''], [''Root@x''])" by code_simp
  show ?thesis using alert_recipients [OF r] r by simp
qed

text \<open>An alert touches the audit log, the webhooks and the mails only.\<close>

lemma sendAlert_frame [simp]:
  "now (sendAlert e al w) = now w" "tx_ok (sendAlert e al w) = tx_ok w"
  "r_owner (sendAlert e al w) = r_owner w" "r_token (sendAlert e al w) = r_token w"
  "r_seq (sendAlert e al w) = r_seq w" "ledger (sendAlert e al w) = ledger w"
  "pg_locks (sendAlert e al w) = pg_locks w" "r_instance (sendAlert e al w) = r_instance w"
  "svc_instance (sendAlert e al w) = svc_instance w"
  "projects (sendAlert e al w) = projects w" "jobs (sendAlert e al w) = jobs w"
  "job_errors (sendAlert e al w) = job_errors w" "dead_letters (sendAlert e al w) = dead_letters w"
  "tier_health (sendAlert e al w) = tier_health w" "prio_queue (sendAlert e al w) = prio_queue w"
  "workflow_calls (sendAlert e al w) = workflow_calls w" "queue_adds (sendAlert e al w) = queue_adds w"
  "nonce (sendAlert e al w) = nonce w" "ws_events (sendAlert e al w) = ws_events w"
  by (simp_all add: sendAlert_def Let_def audit_def split: option.splits)

lemma no_mail_below_high:
  "ao_severity al \<in> {low, medium} \<or> ao_notifyEmail al = Some False \<Longrightarrow> mails (sendAlert e al w) = mails w"
  by (auto simp: sendAlert_def should_email_def Let_def audit_def)

end
