(* ===== verification/Secrets.thy ===== *)
theory Secrets
  imports World
begin

text \<open>
  Credentials of a dispatched job: callback tokens (\<open>auth-service.ts\<close>), sealed envelopes and their
  single-use references (\<open>secret-service.ts\<close>), and the keys of a job's objects (\<open>s3-service.ts\<close>).
  Encryption, hashing and random bytes are the parameters \<open>x_encrypt\<close>, \<open>x_decrypt\<close>, \<open>x_hash\<close> and
  \<open>x_random\<close> of the outside world.
\<close>

section \<open>Object keys\<close>

definition jobPrefix :: "string \<Rightarrow> string \<Rightarrow> string" where
  "jobPrefix projectId jobId = ''projects/'' @ projectId @ ''/jobs/'' @ jobId"

definition stagingKey :: "string \<Rightarrow> string \<Rightarrow> string" where
  "stagingKey projectId jobId = jobPrefix projectId jobId @ ''/staging/'' @ ''staging.tar.gz''"

definition snapshotKey :: "string \<Rightarrow> string \<Rightarrow> string" where
  "snapshotKey projectId jobId = jobPrefix projectId jobId @ ''/snapshots/pre-commit.tar.gz''"

definition validationReportKey :: "string \<Rightarrow> string \<Rightarrow> string" where
  "validationReportKey projectId jobId = jobPrefix projectId jobId @ ''/validation/report.json''"

definition diagnosticsKey :: "string \<Rightarrow> string \<Rightarrow> string \<Rightarrow> string" where
  "diagnosticsKey projectId jobId name = jobPrefix projectId jobId @ ''/diagnostics/'' @ name"

section \<open>Callback tokens\<close>

record CallbackMint =
  cb_token :: string
  cb_hash :: string
  cb_expiresAt :: nat

definition mintCallbackToken :: "env \<Rightarrow> ext \<Rightarrow> string \<Rightarrow> world \<Rightarrow> CallbackMint \<times> world" where
  "mintCallbackToken e x jobId w =
     (let (token, w1) = draw (x_random x) w;
          scoped = jobId @ ''.'' @ token
      in (\<lparr>cb_token = scoped, cb_hash = x_hash x scoped,
           cb_expiresAt = now w + env_CALLBACK_TOKEN_TTL_MS e\<rparr>, w1))"

definition parseCallbackToken :: "string \<Rightarrow> (string \<times> string) option" where
  "parseCallbackToken tok =
     (let j = takeWhile (\<lambda>c. c \<noteq> CHR ''.'') tok
      in if j = tok \<or> j = [] then None else Some (j, drop (length j + 1) tok))"

definition verifyCallbackToken :: "ext \<Rightarrow> string \<Rightarrow> string \<Rightarrow> world \<Rightarrow> bool" where
  "verifyCallbackToken x jobId token w =
     (case get_job w jobId of
        None \<Rightarrow> False
      | Some job \<Rightarrow>
          (case (j_callbackTokenHash job, j_callbackTokenExpiresAt job) of
             (Some h, Some ex) \<Rightarrow>
               if h = [] then False else if ex < now w then False else x_hash x token = h
           | _ \<Rightarrow> False))"

section \<open>Envelopes\<close>

definition createEnvelope :: "ext \<Rightarrow> string \<Rightarrow> SecretEnvelope \<Rightarrow> nat \<Rightarrow> world
    \<Rightarrow> (string \<times> string) \<times> world" where
  "createEnvelope x jobId secrets ttlMs w =
     (let (referenceToken, w1) = draw (x_random x) w;
          expiresAt = now w + ttlMs;
          envelope = secrets\<lparr>se_expiresAt := Some expiresAt\<rparr>;
          (payload, w2) = draw (\<lambda>n. x_encrypt x n (SealedEnvelope envelope)) w1;
          w3 = w2\<lparr>secret_refs := secret_refs w2 @
                 [\<lparr>sr_jobId = jobId, sr_tokenHash = x_hash x referenceToken, sr_payload = payload,
                   sr_expiresAt = expiresAt, sr_consumedAt = None\<rparr>]\<rparr>;
          (jwe, w4) = draw (\<lambda>n. x_encrypt x n
                 (SealedOuter referenceToken jobId (or_default (se_callbackToken secrets) []))) w3
      in ((jwe, referenceToken), w4))"

definition createDirectDispatchJwe :: "ext \<Rightarrow> SecretEnvelope \<Rightarrow> string option \<Rightarrow> nat option \<Rightarrow> world
    \<Rightarrow> (string \<times> SecretEnvelope) \<times> world" where
  "createDirectDispatchJwe x secrets purpose ttlMs w =
     (let envelope = secrets\<lparr>se_expiresAt := Some (now w + or_default ttlMs 3600000)\<rparr>;
          (jwe, w1) = draw (\<lambda>n. x_encrypt x n
             (SealedDirect (or_default purpose ''merge-apply'')
                (or_default (se_callbackToken secrets) []) envelope)) w
      in ((jwe, envelope), w1))"

definition resolveByReference :: "ext \<Rightarrow> string \<Rightarrow> string \<Rightarrow> world \<Rightarrow> SecretEnvelope option \<times> world" where
  "resolveByReference x referenceToken jobId w =
     (let h = x_hash x referenceToken
      in case row_by sr_tokenHash h (secret_refs w) of
           None \<Rightarrow> (None, w)
         | Some row \<Rightarrow>
             if sr_jobId row \<noteq> jobId then (None, w)
             else if sr_consumedAt row \<noteq> None then (None, w)
             else if sr_expiresAt row < now w then (None, w)
             else let w1 = w\<lparr>secret_refs := set_row sr_tokenHash h
                              (\<lambda>r. r\<lparr>sr_consumedAt := Some (now w)\<rparr>) (secret_refs w)\<rparr>
                  in (case x_decrypt x (sr_payload row) of
                        Some (SealedEnvelope en) \<Rightarrow> Some en
                      | _ \<Rightarrow> None, w1))"

definition resolveDispatchJwe :: "ext \<Rightarrow> string \<Rightarrow> world \<Rightarrow> SecretEnvelope option \<times> world" where
  "resolveDispatchJwe x jwe w =
     (case x_decrypt x jwe of
        None \<Rightarrow> (None, w)
      | Some (SealedEnvelope _) \<Rightarrow> (None, w)
      | Some (SealedDirect _ _ envelope) \<Rightarrow>
          (case se_expiresAt envelope of
             None \<Rightarrow> (None, w)
           | Some ex \<Rightarrow> if ex < now w then (None, w) else (Some envelope, w))
      | Some (SealedOuter referenceToken jobId callbackToken) \<Rightarrow>
          if referenceToken = [] \<or> jobId = [] \<or> callbackToken = [] then (None, w)
          else if \<not> verifyCallbackToken x jobId callbackToken w then (None, w)
          else resolveByReference x referenceToken jobId w)"

section \<open>Lemmas\<close>

lemma draw_eq: "draw f w = (f (nonce w), w\<lparr>nonce := Suc (nonce w)\<rparr>)"
  by (simp add: draw_def)

text \<open>A minted token names its job as long as job ids have no dot.\<close>

lemma parse_minted:
  assumes "CHR ''.'' \<notin> set jobId" and "jobId \<noteq> []"
  shows "parseCallbackToken (cb_token (fst (mintCallbackToken e x jobId w))) = Some (jobId, x_random x (nonce w))"
proof -
  have "takeWhile (\<lambda>c. c \<noteq> CHR ''.'') (jobId @ CHR ''.'' # r) = jobId" for r
    using assms(1) by (induction jobId) auto
  with assms(2) show ?thesis by (simp add: mintCallbackToken_def draw_eq parseCallbackToken_def Let_def)
qed

lemma createEnvelope_eq:
  "createEnvelope x jobId s ttl w =
     (let r = x_random x (nonce w); en = s\<lparr>se_expiresAt := Some (now w + ttl)\<rparr>
      in ((x_encrypt x (Suc (Suc (nonce w))) (SealedOuter r jobId (or_default (se_callbackToken s) [])), r),
          w\<lparr>nonce := nonce w + 3, secret_refs := secret_refs w @
              [\<lparr>sr_jobId = jobId, sr_tokenHash = x_hash x r,
                sr_payload = x_encrypt x (Suc (nonce w)) (SealedEnvelope en),
                sr_expiresAt = now w + ttl, sr_consumedAt = None\<rparr>]\<rparr>))"
  by (simp add: createEnvelope_def draw_eq Let_def)

text \<open>
  C40 (roundtrip). A worker gets its secrets back. The dispatch JWE made for a job resolves, before it
  expires and while the job still carries the hash of the callback token inside, to the very envelope
  that was sealed, with its expiry. The hypotheses on \<open>x_decrypt\<close> are the decryption of the two texts
  that were encrypted.
\<close>

theorem envelope_roundtrip:
  assumes mk: "createEnvelope x jobId s ttl w = ((jwe, r), w1)"
    and "x_decrypt x jwe = Some (SealedOuter r jobId t)" and "se_callbackToken s = Some t"
    and "x_decrypt x (x_encrypt x (Suc (nonce w)) (SealedEnvelope (s\<lparr>se_expiresAt := Some (now w + ttl)\<rparr>)))
           = Some (SealedEnvelope (s\<lparr>se_expiresAt := Some (now w + ttl)\<rparr>))"
    and "r \<noteq> []" "jobId \<noteq> []" "t \<noteq> []"
    and fresh: "row_by sr_tokenHash (x_hash x r) (secret_refs w) = None"
    and "t2 \<le> now w + ttl" and cb: "verifyCallbackToken x jobId t (w1\<lparr>now := t2, jobs := js\<rparr>)"
  shows "fst (resolveDispatchJwe x jwe (w1\<lparr>now := t2, jobs := js\<rparr>))
     = Some (s\<lparr>se_expiresAt := Some (now w + ttl)\<rparr>)"
proof -
  have r: "r = x_random x (nonce w)"
    and refs: "secret_refs w1 = secret_refs w @
              [\<lparr>sr_jobId = jobId, sr_tokenHash = x_hash x r,
                sr_payload = x_encrypt x (Suc (nonce w)) (SealedEnvelope (s\<lparr>se_expiresAt := Some (now w + ttl)\<rparr>)),
                sr_expiresAt = now w + ttl, sr_consumedAt = None\<rparr>]"
    using mk by (auto simp: createEnvelope_eq Let_def)
  have "row_by sr_tokenHash (x_hash x r) (secret_refs w1) =
      Some \<lparr>sr_jobId = jobId, sr_tokenHash = x_hash x r,
            sr_payload = x_encrypt x (Suc (nonce w)) (SealedEnvelope (s\<lparr>se_expiresAt := Some (now w + ttl)\<rparr>)),
            sr_expiresAt = now w + ttl, sr_consumedAt = None\<rparr>"
    using fresh by (simp add: refs row_by_append)
  with assms show ?thesis
    by (simp add: resolveDispatchJwe_def resolveByReference_def Let_def)
qed

text \<open>
  A reference is single-use. Once a job-linked dispatch JWE has been resolved, resolving
  it again yields nothing, at any time and whatever has happened to the jobs table.
\<close>

theorem reference_single_use:
  assumes "x_decrypt x jwe = Some (SealedOuter r jobId t)"
    and res: "resolveDispatchJwe x jwe w = (Some en, w1)"
  shows "fst (resolveDispatchJwe x jwe (w1\<lparr>now := t2, jobs := js\<rparr>)) = None"
proof -
  have "resolveByReference x r jobId w = (Some en, w1)"
    using assms by (auto simp: resolveDispatchJwe_def split: if_splits)
  then obtain row where row: "row_by sr_tokenHash (x_hash x r) (secret_refs w) = Some row"
    and w1: "w1 = w\<lparr>secret_refs := set_row sr_tokenHash (x_hash x r)
                              (\<lambda>r. r\<lparr>sr_consumedAt := Some (now w)\<rparr>) (secret_refs w)\<rparr>"
    by (auto simp: resolveByReference_def Let_def split: option.splits if_splits)
  have "row_by sr_tokenHash (x_hash x r) (secret_refs w1) = Some (row\<lparr>sr_consumedAt := Some (now w)\<rparr>)"
    using row by (simp add: w1 set_row_same)
  with assms(1) show ?thesis
    by (simp add: resolveDispatchJwe_def resolveByReference_def Let_def)
qed

text \<open>A job with a callback token, its envelope created and resolved.\<close>

definition secret_ext :: ext where
  "secret_ext = ext_example\<lparr>x_decrypt := (\<lambda>s.
     if s = ''outer'' then Some (SealedOuter ''r0'' ''j'' ''j.t'')
     else if s = ''envelope'' then Some (SealedEnvelope (envelope_example\<lparr>se_expiresAt := Some 301000\<rparr>))
     else None)\<rparr>"

definition secret_world :: world where
  "secret_world = empty_lock_fields\<lparr>jobs := [(job_example ''j'' ''p'' DISPATCHING)
      \<lparr>j_callbackTokenHash := Some ''hj.t'', j_callbackTokenExpiresAt := Some 500000\<rparr>]\<rparr>"

lemma secret_world_created:
  "createEnvelope secret_ext ''j'' envelope_example 300000 secret_world =
     ((''outer'', ''r0''), snd (createEnvelope secret_ext ''j'' envelope_example 300000 secret_world))"
proof -
  have "fst (createEnvelope secret_ext ''j'' envelope_example 300000 secret_world) = (''outer'', ''r0'')"
    by code_simp
  then show ?thesis by (simp add: prod_eq_iff)
qed

theorem envelope_roundtrip_witness:
  "fst (resolveDispatchJwe secret_ext ''outer''
      ((snd (createEnvelope secret_ext ''j'' envelope_example 300000 secret_world))
         \<lparr>now := 2000, jobs := jobs secret_world\<rparr>))
     = Some (envelope_example\<lparr>se_expiresAt := Some 301000\<rparr>)"
proof -
  have n: "now secret_world = 1000" "nonce secret_world = 0" by code_simp+
  have x: "x_decrypt secret_ext ''outer'' = Some (SealedOuter ''r0'' ''j'' ''j.t'')"
    "x_decrypt secret_ext (x_encrypt secret_ext 1 (SealedEnvelope (envelope_example\<lparr>se_expiresAt := Some 301000\<rparr>)))
       = Some (SealedEnvelope (envelope_example\<lparr>se_expiresAt := Some 301000\<rparr>))"
    "se_callbackToken envelope_example = Some ''j.t''"
    by (simp_all add: secret_ext_def ext_example_def seal_kind_def envelope_example_def)
  have fresh: "row_by sr_tokenHash (x_hash secret_ext ''r0'') (secret_refs secret_world) = None" by code_simp
  have cb: "verifyCallbackToken secret_ext ''j'' ''j.t''
      ((snd (createEnvelope secret_ext ''j'' envelope_example 300000 secret_world))
         \<lparr>now := 2000, jobs := jobs secret_world\<rparr>)" by code_simp
  show ?thesis
    using envelope_roundtrip [OF secret_world_created x(1,3) _ _ _ _ fresh _ cb] x(2) n by simp
qed

theorem reference_single_use_witness:
  "fst (resolveDispatchJwe secret_ext ''outer''
     ((snd (resolveDispatchJwe secret_ext ''outer''
        (snd (createEnvelope secret_ext ''j'' envelope_example 300000 secret_world))))
      \<lparr>now := 2000, jobs := jobs secret_world\<rparr>)) = None"
proof -
  let ?w = "snd (createEnvelope secret_ext ''j'' envelope_example 300000 secret_world)"
  have x: "x_decrypt secret_ext ''outer'' = Some (SealedOuter ''r0'' ''j'' ''j.t'')"
    by (simp add: secret_ext_def)
  have "fst (resolveDispatchJwe secret_ext ''outer'' ?w) \<noteq> None" by code_simp
  then obtain en where "resolveDispatchJwe secret_ext ''outer'' ?w =
      (Some en, snd (resolveDispatchJwe secret_ext ''outer'' ?w))"
    by (cases "fst (resolveDispatchJwe secret_ext ''outer'' ?w)") (auto simp: prod_eq_iff)
  from reference_single_use [OF x this] show ?thesis .
qed

end
