(* ===== verification/Job_Service.thy ===== *)
theory Job_Service
  imports Dependency_Gate Scheduler Alerts Secrets Path_Security
begin

text \<open>
  \<open>packages/orchestrator/src/services/job-service.ts\<close>: the life of a generation job. The service's
  asynchronous methods call each other (\<open>dispatchJob\<close>, \<open>updateStatus\<close>, \<open>handleFailure\<close>,
  \<open>promoteBlockedJobs\<close>); each is split into what it does up to such a call, as a function of the
  world, and the calls are run by \<open>run\<close> with a bound on their number. \<open>Job_Termination\<close> shows a bound
  that is always enough.

  GitHub is used through its API (\<open>x_dispatch\<close>: the error message of a workflow dispatch, if any);
  the development mock of \<open>github-service.ts\<close> is not modelled.
\<close>

section \<open>Helpers\<close>

text \<open>The expression of \<open>asUserUuid\<close> is that of the artifact keys.\<close>

definition asUserUuid :: "string option \<Rightarrow> string option" where
  "asUserUuid i =
     (case i of None \<Rightarrow> None | Some s \<Rightarrow> if s \<noteq> [] \<and> uuid_versioned s then Some s else None)"

definition getById :: "string \<Rightarrow> world \<Rightarrow> Job option" where
  "getById i w = get_job w i"

definition gate_view :: "Job option \<Rightarrow> (string \<times> string \<times> JobStatus) option" where
  "gate_view dep = map_option (\<lambda>d. (j_id d, j_projectId d, j_status d)) dep"

text \<open>\<open>ORDER BY created_at DESC\<close>: the rows are kept in the order of creation.\<close>

definition list_jobs :: "string option \<Rightarrow> string option \<Rightarrow> nat option \<Rightarrow> world \<Rightarrow> Job list" where
  "list_jobs projectId status limit w =
     take (or_default limit 50)
       (rev (if truthy projectId \<and> truthy status
             then filter (\<lambda>j. Some (j_projectId j) = projectId \<and> Some (status_name (j_status j)) = status) (jobs w)
             else if truthy projectId then filter (\<lambda>j. Some (j_projectId j) = projectId) (jobs w)
             else jobs w))"

definition empty_update :: "JobStatus \<Rightarrow> JobStatusUpdate" where
  "empty_update s =
     \<lparr>u_status = s, u_metadata = None, u_errorCode = None, u_errorDetail = None,
      u_s3StagingPrefix = None, u_s3ValidationReportKey = None, u_s3SnapshotKey = None,
      u_s3ArtifactsPrefix = None, u_githubRunId = None, u_fencingToken = None\<rparr>"

definition error_update :: "JobStatus \<Rightarrow> ErrorCode \<Rightarrow> string \<Rightarrow> JobStatusUpdate" where
  "error_update s c d = (empty_update s)\<lparr>u_errorCode := Some c, u_errorDetail := Some d\<rparr>"

definition owner_id :: "string \<Rightarrow> string" where
  "owner_id jobId = ''job:'' @ jobId"

definition recordError :: "string \<Rightarrow> ErrorCode \<Rightarrow> string \<Rightarrow> string option \<Rightarrow> world \<Rightarrow> world" where
  "recordError jobId c detail artifacts w =
     (let def = ERROR_CATALOG c;
          w1 = w\<lparr>job_errors :=
                 \<lparr>je_jobId = jobId, je_code = err_def_code def, je_class = err_class def,
                  je_severity = severity def, je_detail = detail, je_artifactsS3Key = artifacts,
                  je_createdAt = now w\<rparr> # job_errors w\<rparr>
      in broadcast (JobErrorEvent (errorPayload c (Some detail))) w1)"

text \<open>The direct writes of \<open>BLOCKED\<close> and the other partial updates of a job row.\<close>

definition block_job :: "string \<Rightarrow> metadata \<Rightarrow> world \<Rightarrow> world" where
  "block_job jobId meta w =
     set_job jobId (\<lambda>j. j\<lparr>j_status := BLOCKED, j_metadata := jsonb_concat (j_metadata j) meta,
                         j_updatedAt := now w\<rparr>) w"

definition broadcast_job :: "string \<Rightarrow> world \<Rightarrow> world" where
  "broadcast_job jobId w = broadcast (JobUpdated (getById jobId w)) w"

section \<open>Dispatch\<close>

text \<open>What a dispatch ends with: a return, an exception, or a last call of \<open>updateStatus\<close>.\<close>

datatype dispatch_next = Returned | Failed js_error | UpdateThen JobStatusUpdate

datatype cross_machine_plan =
    NotCrossMachine
  | Provision string string
  | CrossFail string

text \<open>\<open>ssh-provision.ts\<close>: \<open>resolveCrossMachineProvision\<close>\<close>

definition resolveCrossMachineProvision :: "CommitStrategy \<Rightarrow> metadata \<Rightarrow> cross_machine_plan" where
  "resolveCrossMachineProvision strategy meta =
     (if strategy \<noteq> cross_machine then NotCrossMachine
      else let host = js_trim (or_default (meta_str meta ''targetHost'') []);
               url = js_trim (or_default (meta_str meta ''targetProvisionUrl'') [])
           in if host = [] \<and> url = []
              then CrossFail ''cross-machine requires metadata.targetHost and metadata.targetProvisionUrl''
              else if host = [] then CrossFail ''cross-machine requires metadata.targetHost''
              else if url = [] then CrossFail ''cross-machine requires metadata.targetProvisionUrl''
              else Provision host url)"

definition envelope_base :: "env \<Rightarrow> ext \<Rightarrow> Project \<Rightarrow> Job \<Rightarrow> string \<Rightarrow> string \<Rightarrow> string \<Rightarrow> SecretEnvelope" where
  "envelope_base e x project job cbToken fencing lockKey =
     (let p = j_projectId job; i = j_id job
      in \<lparr>se_callbackToken = Some cbToken, se_fencingToken = Some fencing, se_lockKey = Some lockKey,
          se_lockOwner = Some (owner_id i),
          se_targetProjectRoot = Some (or_default (pr_projectRoot project) (''/var/godot/projects/'' @ p)),
          se_targetHost = None, se_s3AccessKeyId = None, se_s3SecretAccessKey = None,
          se_s3SessionToken = None, se_sshPrivateKey = None, se_sshKeyId = None,
          se_reimportTimeoutSec = Some (max 1 ((env_REIMPORT_TIMEOUT_MS e + 999) div 1000)),
          se_reimportMaxRetries = Some (env_REIMPORT_MAX_RETRIES e),
          se_outboxId = None, se_relPath = None, se_pgosBaseUrl = None, se_patchGetUrl = None,
          se_presignedUrls = Some
            \<lparr>su_stagingPut = Some (x_presignPut x (stagingKey p i)),
             su_stagingGet = Some (x_presignGet x (stagingKey p i)),
             su_stagingArchivePut = Some (x_presignPut x (stagingKey p i @ ''.tar.gz'')),
             su_validationPut = Some (x_presignPut x (validationReportKey p i)),
             su_snapshotPut = Some (x_presignPut x (snapshotKey p i)),
             su_snapshotGet = Some (x_presignGet x (snapshotKey p i)),
             su_diagnosticsPut = Some (x_presignPut x (diagnosticsKey p i ''bundle.log''))\<rparr>,
          se_expiresAt = None\<rparr>)"

definition lock_release :: "string \<Rightarrow> string \<Rightarrow> world \<Rightarrow> world" where
  "lock_release k own w = snd (release k own w)"

definition release_target :: "string option \<Rightarrow> string \<Rightarrow> world \<Rightarrow> world" where
  "release_target target own w = (if truthy target then lock_release (the target) own w else w)"

text \<open>\<open>failDispatchPreStart\<close>\<close>

definition failDispatchPreStart :: "string \<Rightarrow> string \<Rightarrow> string option \<Rightarrow> string \<Rightarrow> world
    \<Rightarrow> dispatch_next \<times> world" where
  "failDispatchPreStart jobId lockKey target detail w =
     (UpdateThen (error_update DISPATCH_FAILED E004 detail),
      release_target target (owner_id jobId) (lock_release lockKey (owner_id jobId) w))"

text \<open>From the envelope on: the job is DISPATCHING, then the workflow is dispatched.\<close>

definition dispatch_start :: "ext \<Rightarrow> Job \<Rightarrow> WorkerTier \<Rightarrow> string \<Rightarrow> string \<Rightarrow> string option
    \<Rightarrow> CallbackMint \<Rightarrow> SecretEnvelope \<Rightarrow> world \<Rightarrow> dispatch_next \<times> world" where
  "dispatch_start x job tier token lockKey target cb envelope w =
     (let jobId = j_id job;
          ((jwe, _), w1) = createEnvelope x jobId envelope 300000 w;
          meta = (if truthy target then [(''targetPathLockKey'', JStr (the target))] else []);
          w2 = set_job jobId (\<lambda>j. j\<lparr>j_status := DISPATCHING, j_tier := Some tier,
                 j_fencingToken := Some token, j_lockKey := Some lockKey,
                 j_callbackTokenHash := Some (cb_hash cb),
                 j_callbackTokenExpiresAt := Some (cb_expiresAt cb),
                 j_metadata := jsonb_concat (j_metadata j) meta, j_updatedAt := now w1\<rparr>) w1;
          inputs = \<lparr>di_jobId = jobId, di_projectId = j_projectId job,
                    di_godotVersion = j_godotVersion job, di_commitStrategy = j_commitStrategy job,
                    di_tier = tier, di_secretJwe = jwe\<rparr>;
          (err, w3) = draw (\<lambda>n. x_dispatch x n inputs) (w2\<lparr>workflow_calls := inputs # workflow_calls w2\<rparr>)
      in case err of
           Some msg \<Rightarrow>
             let detail = ''Dispatch failed: '' @ msg
             in (UpdateThen (error_update DISPATCH_FAILED E001 detail), recordError jobId E001 detail None w3)
         | None \<Rightarrow>
             let w4 = w3\<lparr>queue_adds := ResolveRun jobId tier (j_attempt job) # queue_adds w3\<rparr>
             in (Returned, broadcast_job jobId (enqueuePriority jobId (now w4) w4)))"

text \<open>With the locks held: credentials and, across machines, the SSH key.\<close>

definition dispatch_locked :: "env \<Rightarrow> ext \<Rightarrow> Job \<Rightarrow> Project \<Rightarrow> WorkerTier \<Rightarrow> string \<Rightarrow> string
    \<Rightarrow> string option \<Rightarrow> world \<Rightarrow> dispatch_next \<times> world" where
  "dispatch_locked e x job project tier token lockKey target w =
     (let jobId = j_id job;
          (cb, w1) = mintCallbackToken e x jobId w;
          base = envelope_base e x project job (cb_token cb) token lockKey
      in case resolveCrossMachineProvision (j_commitStrategy job) (j_metadata job) of
           CrossFail detail \<Rightarrow> failDispatchPreStart jobId lockKey target detail w1
         | NotCrossMachine \<Rightarrow> dispatch_start x job tier token lockKey target cb base w1
         | Provision host url \<Rightarrow>
             let ((pub, pem, keyId), w2) = draw (x_sshKey x) w1;
                 req = \<lparr>pv_url = url, pv_publicKey = pub, pv_forcedCommand = ''commit-agent-once'',
                        pv_jobId = jobId,
                        pv_environment = [(''PGOS_LOCK_KEY'', lockKey),
                          (''PGOS_LOCK_OWNER'', owner_id jobId), (''PGOS_JOB_ID'', jobId),
                          (''PGOS_REQUIRE_FENCING'', ''true'')],
                        pv_maxSessions = 8, pv_ttlSeconds = 300\<rparr>;
                 ((ok, detail), w3) = draw (\<lambda>n. x_provision x n req) w2
             in if \<not> ok
                then failDispatchPreStart jobId lockKey target
                       (''ssh provision failed: '' @ or_default detail ''unknown'') w3
                else dispatch_start x job tier token lockKey target cb
                       (base\<lparr>se_targetHost := Some host, se_sshPrivateKey := Some pem,
                             se_sshKeyId := Some keyId\<rparr>) w3)"

text \<open>Locks: the generation lock, and across machines the target path lock.\<close>

definition dispatch_acquire :: "env \<Rightarrow> ext \<Rightarrow> Job \<Rightarrow> WorkerTier option \<Rightarrow> world \<Rightarrow> dispatch_next \<times> world" where
  "dispatch_acquire e x job pref w =
     (let jobId = j_id job; own = owner_id jobId
      in case get_project w (j_projectId job) of
           None \<Rightarrow> (Failed (system_error ''Project missing for job''), w)
         | Some project \<Rightarrow>
             let tier = selectTier e pref (pr_highVolume project) None w;
                 lockKey = generationLockKey (j_projectId job)
             in case acquire (x_uuid x (nonce w)) lockKey own 120 (Some jobId) None w of
                  (Throw err, w1) \<Rightarrow> (Failed err, w1)
                | (Ret Denied, w1) \<Rightarrow>
                    (Returned, block_job jobId [(''reason'', JStr ''generation_lock_held'')] w1)
                | (Ret (AcquireError msg), w1) \<Rightarrow> (Failed (system_error msg), w1)
                | (Ret (Granted _ token), w1) \<Rightarrow>
                    if j_commitStrategy job = cross_machine
                    then let target = targetPathLockKey (j_projectId job)
                         in case acquire (x_uuid x (nonce w1)) target own 120 (Some jobId) None w1 of
                              (Throw err, w2) \<Rightarrow> (Failed err, w2)
                            | (Ret (Granted _ _), w2) \<Rightarrow>
                                dispatch_locked e x job project tier token lockKey (Some target) w2
                            | (Ret _, w2) \<Rightarrow>
                                (Returned,
                                 block_job jobId [(''reason'', JStr ''target_path_lock_held''),
                                   (''targetPathLockKey'', JStr target)] (lock_release lockKey own w2))
                    else dispatch_locked e x job project tier token lockKey None w1)"

definition dispatchable :: "JobStatus \<Rightarrow> bool" where
  "dispatchable s = (s = QUEUED \<or> s = LOCK_STALE \<or> s = DISPATCH_TIMEOUT \<or> s = DISPATCH_FAILED)"

definition dependency_gate :: "Job \<Rightarrow> world \<Rightarrow> DependencyGate" where
  "dependency_gate job w =
     (if truthy (j_dependsOnJobId job)
      then evaluateDependencyGate (gate_view (getById (the (j_dependsOnJobId job)) w)) (j_projectId job)
      else Allow)"

definition dispatch_attempt :: "env \<Rightarrow> ext \<Rightarrow> string \<Rightarrow> WorkerTier option \<Rightarrow> world
    \<Rightarrow> dispatch_next \<times> world" where
  "dispatch_attempt e x jobId pref w =
     (case getById jobId w of
        None \<Rightarrow> (Failed (system_error ''Job not found''), w)
      | Some job \<Rightarrow>
          if \<not> dispatchable (j_status job) then (Returned, w)
          else case dependency_gate job w of
                 DepFailed r \<Rightarrow> (UpdateThen (error_update DEP_FAILED E011 r), w)
               | BlockDependency r \<Rightarrow>
                   (Returned, block_job jobId [(''reason'', JStr ''dependency_incomplete''), (''detail'', JStr r)] w)
               | Allow \<Rightarrow> dispatch_acquire e x job pref w)"

section \<open>Status updates\<close>

definition invalid_transition :: "JobStatus \<Rightarrow> JobStatus \<Rightarrow> js_error" where
  "invalid_transition a b =
     JsError (Some (httpStatus (ERROR_CATALOG E021))) (Some ''E021'')
       (''Invalid status transition '' @ status_name a @ '' -> '' @ status_name b)"

definition commits_blocked :: js_error where
  "commits_blocked = JsError (Some (httpStatus (ERROR_CATALOG E021))) (Some ''E021'')
     ''Commits blocked after REIMPORT_FAILED''"

definition fencing_rejected :: js_error where
  "fencing_rejected = JsError (Some 403) (Some ''E013'') ''Fencing token rejected''"

definition heartbeat_status :: "JobStatus \<Rightarrow> bool" where
  "heartbeat_status s = (s = STAGING \<or> s = VALIDATING \<or> s = COMMITTING \<or> s = DISPATCHING)"

text \<open>The SQL \<open>UPDATE\<close> with the columns the update names.\<close>

definition keep_or :: "string option \<Rightarrow> string option \<Rightarrow> string option" where
  "keep_or new old = (if truthy new then new else old)"

definition apply_update :: "JobStatusUpdate \<Rightarrow> nat \<Rightarrow> Job \<Rightarrow> Job" where
  "apply_update u t j =
     j\<lparr>j_status := u_status u,
       j_updatedAt := t,
       j_metadata := (case u_metadata u of None \<Rightarrow> j_metadata j | Some m \<Rightarrow> jsonb_concat (j_metadata j) m),
       j_errorCode := (case u_errorCode u of None \<Rightarrow> j_errorCode j | Some c \<Rightarrow> Some c),
       j_errorDetail := keep_or (u_errorDetail u) (j_errorDetail j),
       j_s3StagingPrefix := keep_or (u_s3StagingPrefix u) (j_s3StagingPrefix j),
       j_s3ValidationReportKey := keep_or (u_s3ValidationReportKey u) (j_s3ValidationReportKey j),
       j_s3SnapshotKey := keep_or (u_s3SnapshotKey u) (j_s3SnapshotKey j),
       j_s3ArtifactsPrefix := keep_or (u_s3ArtifactsPrefix u) (j_s3ArtifactsPrefix j),
       j_githubRunId := (case u_githubRunId u of None \<Rightarrow> j_githubRunId j | Some g \<Rightarrow> Some g),
       j_completedAt := (if isTerminal (u_status u) then Some t else j_completedAt j),
       j_lastHeartbeatAt := (if heartbeat_status (u_status u) then Some t else j_lastHeartbeatAt j)\<rparr>"

text \<open>\<open>updateStatus\<close> up to the error record: the job row as it was before, or the exception.\<close>

definition status_write :: "ext \<Rightarrow> string \<Rightarrow> JobStatusUpdate \<Rightarrow> world \<Rightarrow> Job outcome \<times> world" where
  "status_write x jobId u w =
     (case getById jobId w of
        None \<Rightarrow> (Throw (system_error ''Job not found''), w)
      | Some current \<Rightarrow>
          if u_status u \<noteq> j_status current \<and> \<not> canTransitionJobStatus (j_status current) (u_status u)
          then (Throw (invalid_transition (j_status current) (u_status u)), w)
          else if j_status current = REIMPORT_FAILED \<and> (u_status u = COMMITTING \<or> u_status u = COMPLETED)
          then (Throw commits_blocked, w)
          else
            let (ok, w1) =
                  (if truthy (u_fencingToken u) \<and> truthy (j_lockKey current)
                   then validateFencingToken (x_uuid x (nonce w)) (the (j_lockKey current))
                          (owner_id jobId) (the (u_fencingToken u)) w
                   else (True, w))
            in if \<not> ok
               then (Throw fencing_rejected, recordError jobId E013 ''Fencing token rejected'' None w1)
               else
                 let w2 = set_job jobId (apply_update u (now w1)) w1;
                     w3 = (case u_errorCode u of
                             None \<Rightarrow> w2
                           | Some c \<Rightarrow> recordError jobId c (or_default (u_errorDetail u) (code_name c)) None w2)
                 in (Ret current, w3))"

text \<open>The locks a final status releases: the row's lock and the target path lock in its metadata.\<close>

definition release_job_locks :: "Job \<Rightarrow> world \<Rightarrow> world" where
  "release_job_locks current w =
     release_target (meta_str (j_metadata current) ''targetPathLockKey'') (owner_id (j_id current))
       (lock_release (the (j_lockKey current)) (owner_id (j_id current)) w)"

definition update_finish :: "env \<Rightarrow> Job \<Rightarrow> JobStatusUpdate \<Rightarrow> world \<Rightarrow> Job option \<times> world" where
  "update_finish e current u w =
     (let jobId = j_id current;
          w1 = (if u_status u = ROLLBACK
                then sendAlert e
                  \<lparr>ao_title = ''Job rolled back after post-commit reimport failure'', ao_severity = high,
                   ao_body = ''Job '' @ jobId @ '' rolled back from S3 snapshot'', ao_code = Some ''E002'',
                   ao_projectId = Some (j_projectId current), ao_jobId = Some jobId, ao_to = None,
                   ao_notifyEmail = None\<rparr> w
                else w)
      in (getById jobId w1, broadcast_job jobId w1))"

section \<open>Failures\<close>

datatype failure_next = NoSuchJob | Redispatch "WorkerTier option" | DeadLettered Job | TxFailed

fun other_tier :: "WorkerTier \<Rightarrow> WorkerTier" where
  "other_tier TierA = TierB"
| "other_tier TierB = TierA"

fun upsert_dead_letter :: "DeadLetterRow \<Rightarrow> DeadLetterRow list \<Rightarrow> DeadLetterRow list" where
  "upsert_dead_letter n [] = [n]"
| "upsert_dead_letter n (r # rs) =
     (if dl_jobId r = dl_jobId n
      then r\<lparr>dl_attempts := dl_attempts n, dl_archivedAt := None\<rparr> # rs
      else r # upsert_dead_letter n rs)"

text \<open>\<open>handleFailure\<close> up to the redispatch, or up to the promotion of blocked jobs.\<close>

definition failure_step :: "string \<Rightarrow> world \<Rightarrow> failure_next \<times> world" where
  "failure_step jobId w =
     (case getById jobId w of
        None \<Rightarrow> (NoSuchJob, w)
      | Some job \<Rightarrow>
          if j_attempt job < j_maxAttempts job
          then (Redispatch (if j_status job = DISPATCH_TIMEOUT \<and> j_tier job \<noteq> None
                            then map_option other_tier (j_tier job) else j_tier job),
                set_job jobId (\<lambda>j. j\<lparr>j_attempt := j_attempt job + 1, j_status := QUEUED,
                                    j_updatedAt := now w, j_completedAt := None\<rparr>) w)
          else if \<not> tx_ok w then (TxFailed, w)
          else
            let w1 = set_job jobId (\<lambda>j. j\<lparr>j_status := DEAD_LETTER, j_errorCode := Some E020,
                                         j_updatedAt := now w, j_completedAt := Some (now w)\<rparr>) w;
                w2 = w1\<lparr>dead_letters := upsert_dead_letter
                       \<lparr>dl_jobId = jobId,
                        dl_reason = or_default (j_errorDetail job) (status_name (j_status job)),
                        dl_attempts = j_attempt job, dl_escalated24 = False, dl_escalated72 = False,
                        dl_archivedAt = None, dl_createdAt = now w\<rparr> (dead_letters w1)\<rparr>;
                w3 = (if truthy (j_lockKey job) then lock_release (the (j_lockKey job)) (owner_id jobId) w2
                      else w2)
            in (DeadLettered job, w3))"

definition dead_letter_finish :: "env \<Rightarrow> Job \<Rightarrow> world \<Rightarrow> world" where
  "dead_letter_finish e job w =
     (let jobId = j_id job;
          w1 = w\<lparr>queue_adds := DeadLetterEntry jobId (now w) # queue_adds w\<rparr>;
          w2 = sendAlert e
                 \<lparr>ao_title = ''Job moved to dead-letter queue'', ao_severity = high,
                  ao_body = ''Job '' @ jobId @ '' failed '' @ show_nat (j_attempt job)
                            @ '' times - consumer will email project admin_contacts'',
                  ao_code = Some ''E020'', ao_projectId = Some (j_projectId job), ao_jobId = Some jobId,
                  ao_to = None, ao_notifyEmail = Some False\<rparr> w1
      in broadcast_job jobId w2)"

section \<open>Promotion\<close>

definition slot_active :: "Job \<Rightarrow> bool" where
  "slot_active j = (j_status j \<in> set PROJECT_SLOT_ACTIVE_STATUSES)"

definition blocked_rows :: "string \<Rightarrow> world \<Rightarrow> Job list" where
  "blocked_rows projectId w = filter (\<lambda>j. j_projectId j = projectId \<and> j_status j = BLOCKED) (jobs w)"

definition status_of :: "string option \<Rightarrow> world \<Rightarrow> JobStatus option" where
  "status_of i w = (if truthy i then map_option j_status (getById (the i) w) else None)"

definition promotion_decision :: "string \<Rightarrow> string \<Rightarrow> JobStatus \<Rightarrow> Job \<Rightarrow> world \<Rightarrow> PromotionDecision" where
  "promotion_decision projectId finishedJobId finishedStatus job w =
     canPromoteBlockedJob (j_dependsOnJobId job) (j_blockedByJobId job) finishedJobId finishedStatus
       (status_of (j_dependsOnJobId job) w)
       (list_ex (\<lambda>j. j_projectId j = projectId \<and> j_id j \<noteq> finishedJobId \<and> slot_active j) (jobs w))
       (status_of (j_blockedByJobId job) w)"

definition promote_row :: "string \<Rightarrow> world \<Rightarrow> world" where
  "promote_row jobId w =
     set_job jobId (\<lambda>j. j\<lparr>j_status := QUEUED, j_blockedByJobId := None,
                         j_estimatedWaitSeconds := Some 0, j_updatedAt := now w\<rparr>) w"

section \<open>The calls\<close>

datatype call =
    DispatchJob string "WorkerTier option"
  | UpdateStatus string JobStatusUpdate bool
  | HandleFailure string
  | PromoteBlocked string string JobStatus "Job list"

text \<open>\<open>None\<close> stands for a call tree deeper than the bound.\<close>

type_synonym result = "(Job option outcome \<times> world) option"

fun run :: "env \<Rightarrow> ext \<Rightarrow> nat \<Rightarrow> call \<Rightarrow> world \<Rightarrow> result" where
  "run e x 0 c w = None"
| "run e x (Suc n) (DispatchJob jobId pref) w =
     (case dispatch_attempt e x jobId pref w of
        (Returned, w1) \<Rightarrow> Some (Ret None, w1)
      | (Failed err, w1) \<Rightarrow> Some (Throw err, w1)
      | (UpdateThen u, w1) \<Rightarrow> run e x n (UpdateStatus jobId u False) w1)"
| "run e x (Suc n) (UpdateStatus jobId u skip) w =
     (case status_write x jobId u w of
        (Throw err, w1) \<Rightarrow> Some (Throw err, w1)
      | (Ret current, w1) \<Rightarrow>
          let rest = (if isRetriableFailure (u_status u) \<and> \<not> skip then run e x n (HandleFailure jobId) w1
                      else if isTerminal (u_status u) \<and> truthy (j_lockKey current)
                      then let w2 = release_job_locks current w1
                           in run e x n (PromoteBlocked (j_projectId current) jobId (u_status u)
                                (blocked_rows (j_projectId current) w2)) w2
                      else Some (Ret None, w1))
          in case rest of
               None \<Rightarrow> None
             | Some (Throw err, w3) \<Rightarrow> Some (Throw err, w3)
             | Some (Ret _, w3) \<Rightarrow> (let (job, w4) = update_finish e current u w3 in Some (Ret job, w4)))"
| "run e x (Suc n) (HandleFailure jobId) w =
     (case failure_step jobId w of
        (NoSuchJob, w1) \<Rightarrow> Some (Ret None, w1)
      | (TxFailed, w1) \<Rightarrow> Some (Throw tx_failed, w1)
      | (Redispatch tier, w1) \<Rightarrow> run e x n (DispatchJob jobId tier) w1
      | (DeadLettered job, w1) \<Rightarrow>
          let rest = (if truthy (j_lockKey job)
                      then run e x n (PromoteBlocked (j_projectId job) jobId DEAD_LETTER
                             (blocked_rows (j_projectId job) w1)) w1
                      else Some (Ret None, w1))
          in case rest of
               None \<Rightarrow> None
             | Some (Throw err, w2) \<Rightarrow> Some (Throw err, w2)
             | Some (Ret _, w2) \<Rightarrow> Some (Ret None, dead_letter_finish e job w2))"
| "run e x (Suc n) (PromoteBlocked projectId finishedId finishedStatus []) w = Some (Ret None, w)"
| "run e x (Suc n) (PromoteBlocked projectId finishedId finishedStatus (row # rows)) w =
     (let d = promotion_decision projectId finishedId finishedStatus row w
      in if pd_depFailed d
         then (case run e x n (UpdateStatus (j_id row)
                      (error_update DEP_FAILED E011 (or_default (pd_reason d)
                        (''Dependency job '' @ or_default (j_dependsOnJobId row) []
                         @ '' ended with non-COMPLETED status''))) False) w of
                 None \<Rightarrow> None
               | Some (Throw err, w1) \<Rightarrow> Some (Throw err, w1)
               | Some (Ret _, w1) \<Rightarrow> run e x n (PromoteBlocked projectId finishedId finishedStatus rows) w1)
         else if \<not> pd_promote d
         then run e x n (PromoteBlocked projectId finishedId finishedStatus rows) w
         else run e x n (DispatchJob (j_id row) None) (promote_row (j_id row) w))"

text \<open>For evaluation, where numbers are binary: the same equations with the bound tested first.\<close>

lemma run_code [code]:
  "run e x n c w =
     (if n = 0 then None
      else let m = n - 1 in case c of
        DispatchJob jobId pref \<Rightarrow>
     (case dispatch_attempt e x jobId pref w of
        (Returned, w1) \<Rightarrow> Some (Ret None, w1)
      | (Failed err, w1) \<Rightarrow> Some (Throw err, w1)
      | (UpdateThen u, w1) \<Rightarrow> run e x m (UpdateStatus jobId u False) w1)
      | UpdateStatus jobId u skip \<Rightarrow>
     (case status_write x jobId u w of
        (Throw err, w1) \<Rightarrow> Some (Throw err, w1)
      | (Ret current, w1) \<Rightarrow>
          let rest = (if isRetriableFailure (u_status u) \<and> \<not> skip then run e x m (HandleFailure jobId) w1
                      else if isTerminal (u_status u) \<and> truthy (j_lockKey current)
                      then let w2 = release_job_locks current w1
                           in run e x m (PromoteBlocked (j_projectId current) jobId (u_status u)
                                (blocked_rows (j_projectId current) w2)) w2
                      else Some (Ret None, w1))
          in case rest of
               None \<Rightarrow> None
             | Some (Throw err, w3) \<Rightarrow> Some (Throw err, w3)
             | Some (Ret _, w3) \<Rightarrow> (let (job, w4) = update_finish e current u w3 in Some (Ret job, w4)))
      | HandleFailure jobId \<Rightarrow>
     (case failure_step jobId w of
        (NoSuchJob, w1) \<Rightarrow> Some (Ret None, w1)
      | (TxFailed, w1) \<Rightarrow> Some (Throw tx_failed, w1)
      | (Redispatch tier, w1) \<Rightarrow> run e x m (DispatchJob jobId tier) w1
      | (DeadLettered job, w1) \<Rightarrow>
          let rest = (if truthy (j_lockKey job)
                      then run e x m (PromoteBlocked (j_projectId job) jobId DEAD_LETTER
                             (blocked_rows (j_projectId job) w1)) w1
                      else Some (Ret None, w1))
          in case rest of
               None \<Rightarrow> None
             | Some (Throw err, w2) \<Rightarrow> Some (Throw err, w2)
             | Some (Ret _, w2) \<Rightarrow> Some (Ret None, dead_letter_finish e job w2))
      | PromoteBlocked projectId finishedId finishedStatus [] \<Rightarrow> Some (Ret None, w)
      | PromoteBlocked projectId finishedId finishedStatus (row # rows) \<Rightarrow>
     (let d = promotion_decision projectId finishedId finishedStatus row w
      in if pd_depFailed d
         then (case run e x m (UpdateStatus (j_id row)
                      (error_update DEP_FAILED E011 (or_default (pd_reason d)
                        (''Dependency job '' @ or_default (j_dependsOnJobId row) []
                         @ '' ended with non-COMPLETED status''))) False) w of
                 None \<Rightarrow> None
               | Some (Throw err, w1) \<Rightarrow> Some (Throw err, w1)
               | Some (Ret _, w1) \<Rightarrow> run e x m (PromoteBlocked projectId finishedId finishedStatus rows) w1)
         else if \<not> pd_promote d
         then run e x m (PromoteBlocked projectId finishedId finishedStatus rows) w
         else run e x m (DispatchJob (j_id row) None) (promote_row (j_id row) w)))"
proof (cases n)
  case 0
  then show ?thesis by simp
next
  case (Suc m)
  then show ?thesis by (cases c) (simp_all add: run.simps split: list.split)
qed

section \<open>The public methods\<close>

definition dispatchJob :: "env \<Rightarrow> ext \<Rightarrow> nat \<Rightarrow> string \<Rightarrow> WorkerTier option \<Rightarrow> world \<Rightarrow> result" where
  "dispatchJob e x n jobId pref w = run e x n (DispatchJob jobId pref) w"

definition updateStatus :: "env \<Rightarrow> ext \<Rightarrow> nat \<Rightarrow> string \<Rightarrow> JobStatusUpdate \<Rightarrow> bool \<Rightarrow> world \<Rightarrow> result" where
  "updateStatus e x n jobId u skipFailureHandler w = run e x n (UpdateStatus jobId u skipFailureHandler) w"

definition create_job_row :: "env \<Rightarrow> CreateJobRequest \<Rightarrow> string option \<Rightarrow> Project \<Rightarrow> string \<Rightarrow> bool
    \<Rightarrow> string option \<Rightarrow> nat \<Rightarrow> Job" where
  "create_job_row e req createdBy project jobId blocked blockedBy t =
     \<lparr>j_id = jobId, j_projectId = cr_projectId req,
      j_status = (if blocked then BLOCKED else QUEUED), j_tier = None,
      j_commitStrategy = or_default (cr_commitStrategy req) same_machine,
      j_godotVersion = or_default (cr_godotVersion req)
        (or_default (pr_godotVersion project) (env_GODOT_DEFAULT_VERSION e)),
      j_fencingToken = None, j_lockKey = None, j_githubRunId = None, j_callbackTokenHash = None,
      j_callbackTokenExpiresAt = None, j_attempt = 1, j_maxAttempts = 3,
      j_blockedByJobId = blockedBy, j_dependsOnJobId = cr_dependsOnJobId req,
      j_estimatedWaitSeconds = Some (if blocked then 120 else 0),
      j_s3StagingPrefix = None, j_s3ValidationReportKey = None, j_s3SnapshotKey = None,
      j_s3ArtifactsPrefix = None, j_metadata = or_default (cr_metadata req) [],
      j_lastHeartbeatAt = None, j_errorCode = None, j_errorDetail = None,
      j_createdBy = asUserUuid createdBy, j_createdAt = t, j_updatedAt = t, j_completedAt = None\<rparr>"

fun tier_name :: "WorkerTier \<Rightarrow> string" where
  "tier_name TierA = ''A''"
| "tier_name TierB = ''B''"

definition active_job :: "string \<Rightarrow> world \<Rightarrow> Job option" where
  "active_job projectId w = find (\<lambda>j. j_projectId j = projectId \<and> slot_active j) (jobs w)"

text \<open>\<open>create\<close> up to the dispatch: an exception, or the id of the new row and whether it is blocked.\<close>

definition create_step :: "env \<Rightarrow> ext \<Rightarrow> CreateJobRequest \<Rightarrow> string option \<Rightarrow> world
    \<Rightarrow> (string \<times> bool) outcome \<times> world" where
  "create_step e x req createdBy w =
     (case get_project w (cr_projectId req) of
        None \<Rightarrow> (Throw (JsError (Some 404) None ''Project not found''), w)
      | Some project \<Rightarrow>
          let dep = (if truthy (cr_dependsOnJobId req)
                     then getById (the (cr_dependsOnJobId req)) w else None);
              gate = (if truthy (cr_dependsOnJobId req)
                      then evaluateDependencyGate (gate_view dep) (cr_projectId req) else Allow)
          in case gate of
               DepFailed r \<Rightarrow> (Throw (JsError (Some (if dep \<noteq> None then 400 else 404)) (Some ''E011'') r), w)
             | _ \<Rightarrow>
                 let active = active_job (cr_projectId req) w;
                     blockedBy = map_option j_id active;
                     blocked = (gate \<noteq> Allow \<or> active \<noteq> None);
                     (jobId, w1) = draw (x_uuid x) w;
                     row = create_job_row e req createdBy project jobId blocked blockedBy (now w);
                     w2 = w1\<lparr>jobs := jobs w1 @ [row]\<rparr>;
                     w3 = audit (audit_entry (asUserUuid createdBy) ''job.created'' ''job'' (Some jobId)
                            ([(''status'', JStr (status_name (j_status row))), (''blockedBy'', opt_str blockedBy),
                              (''dependsOnJobId'', opt_str (cr_dependsOnJobId req))]
                             @ (case cr_preferredTier req of None \<Rightarrow> []
                                | Some t \<Rightarrow> [(''preferredTier'', JStr (tier_name t))]))) w2
                 in (Ret (jobId, blocked), w3))"

definition create :: "env \<Rightarrow> ext \<Rightarrow> nat \<Rightarrow> CreateJobRequest \<Rightarrow> string option \<Rightarrow> world \<Rightarrow> result" where
  "create e x n req createdBy w =
     (case create_step e x req createdBy w of
        (Throw err, w1) \<Rightarrow> Some (Throw err, w1)
      | (Ret (jobId, blocked), w1) \<Rightarrow>
          if blocked
          then let w2 = broadcast_job jobId w1 in Some (Ret (getById jobId w2), w2)
          else (case run e x n (DispatchJob jobId (cr_preferredTier req)) w1 of
                  None \<Rightarrow> None
                | Some (Throw err, w2) \<Rightarrow> Some (Throw err, w2)
                | Some (Ret _, w2) \<Rightarrow> Some (Ret (getById jobId w2), w2)))"

text \<open>Redis \<open>EXPIRE\<close>: no effect on an absent key.\<close>

definition redis_expire :: "nat \<Rightarrow> nat \<Rightarrow> (string \<times> nat option) option \<Rightarrow> (string \<times> nat option) option" where
  "redis_expire t seconds v =
     (case redis_get t v of None \<Rightarrow> v | Some s \<Rightarrow> Some (s, Some (t + 1000 * seconds)))"

definition heartbeat_write :: "string \<Rightarrow> Job \<Rightarrow> world \<Rightarrow> world" where
  "heartbeat_write jobId job w =
     (let w1 = set_job jobId (\<lambda>j. j\<lparr>j_lastHeartbeatAt := Some (now w), j_updatedAt := now w\<rparr>) w
      in if truthy (j_lockKey job)
         then let k = the (j_lockKey job)
              in w1\<lparr>pg_locks := map (\<lambda>r. if pl_lockKey r = k then r\<lparr>pl_lastHeartbeatAt := now w\<rparr> else r)
                                  (pg_locks w1),
                    r_owner := (r_owner w1)(k := redis_expire (now w) 60 (r_owner w1 k)),
                    r_token := (r_token w1)(k := redis_expire (now w) 60 (r_token w1 k))\<rparr>
         else w1)"

definition heartbeat :: "ext \<Rightarrow> string \<Rightarrow> string option \<Rightarrow> world \<Rightarrow> bool \<times> world" where
  "heartbeat x jobId fencing w =
     (case getById jobId w of
        None \<Rightarrow> (False, w)
      | Some job \<Rightarrow>
          let (ok, w1) =
                (if truthy fencing \<and> truthy (j_lockKey job)
                 then validateFencingToken (x_uuid x (nonce w)) (the (j_lockKey job)) (owner_id jobId)
                        (the fencing) w
                 else (True, w))
          in if \<not> ok then (False, w1) else (True, heartbeat_write jobId job w1))"

text \<open>\<open>handleAdminReclaim\<close>: the rows that hold the key, one after the other.\<close>

definition stale_row :: "string \<Rightarrow> string \<Rightarrow> world \<Rightarrow> world" where
  "stale_row jobId detail w =
     recordError jobId E005 detail None
       (set_job jobId (\<lambda>j. j\<lparr>j_status := LOCK_STALE, j_lockKey := None, j_fencingToken := None,
                           j_errorCode := Some E005, j_errorDetail := Some detail, j_updatedAt := now w\<rparr>) w)"

definition requeue_row :: "string \<Rightarrow> world \<Rightarrow> world" where
  "requeue_row jobId w =
     set_job jobId (\<lambda>j. j\<lparr>j_status := QUEUED, j_attempt := j_attempt j + 1, j_updatedAt := now w\<rparr>) w"

fun reclaim_rows :: "env \<Rightarrow> ext \<Rightarrow> nat \<Rightarrow> string \<Rightarrow> Job list \<Rightarrow> world \<Rightarrow> result" where
  "reclaim_rows e x n detail [] w = Some (Ret None, w)"
| "reclaim_rows e x n detail (row # rows) w =
     (let w1 = stale_row (j_id row) detail w
      in case (if j_attempt row < j_maxAttempts row
               then run e x n (DispatchJob (j_id row) None) (requeue_row (j_id row) w1)
               else run e x n (UpdateStatus (j_id row)
                      (error_update DEAD_LETTER E020 ''Exhausted attempts after admin reclaim'') False) w1) of
           None \<Rightarrow> None
         | Some (Throw err, w2) \<Rightarrow> Some (Throw err, w2)
         | Some (Ret _, w2) \<Rightarrow> reclaim_rows e x n detail rows w2)"

definition handleAdminReclaim :: "env \<Rightarrow> ext \<Rightarrow> nat \<Rightarrow> string \<Rightarrow> string \<Rightarrow> world \<Rightarrow> result" where
  "handleAdminReclaim e x n lockKey rsn w =
     reclaim_rows e x n (''Admin reclaim: '' @ rsn)
       (filter (\<lambda>j. j_lockKey j = Some lockKey \<and> j_completedAt j = None) (jobs w)) w"

text \<open>\<open>listDeadLetter\<close>: open dead letters with their jobs, newest first.\<close>

definition listDeadLetter :: "world \<Rightarrow> (DeadLetterRow \<times> Job) list" where
  "listDeadLetter w =
     [(d, the (getById (dl_jobId d) w)).
        d \<leftarrow> rev (dead_letters w), dl_archivedAt d = None \<and> getById (dl_jobId d) w \<noteq> None]"

definition retryDeadLetter :: "env \<Rightarrow> ext \<Rightarrow> nat \<Rightarrow> string \<Rightarrow> world \<Rightarrow> result" where
  "retryDeadLetter e x n jobId w =
     (let w1 = w\<lparr>dead_letters := map (\<lambda>d. if dl_jobId d = jobId then d\<lparr>dl_archivedAt := Some (now w)\<rparr>
                                            else d) (dead_letters w)\<rparr>;
          w2 = set_job jobId (\<lambda>j. j\<lparr>j_status := QUEUED, j_attempt := 1, j_errorCode := None,
                 j_errorDetail := None, j_completedAt := None, j_updatedAt := now w\<rparr>) w1
      in case run e x n (DispatchJob jobId None) w2 of
           None \<Rightarrow> None
         | Some (Throw err, w3) \<Rightarrow> Some (Throw err, w3)
         | Some (Ret _, w3) \<Rightarrow> Some (Ret (getById jobId w3), w3))"

end
