(* ===== verification/Job_Frames.thy ===== *)
theory Job_Frames
  imports Job_Service Lock_Safety
begin

text \<open>
  What the parts of the job service leave alone: lock operations change only the lock state, and each
  step of the service changes at most one job row. The lemmas are shared by the termination and the
  safety proofs.
\<close>

named_theorems frames \<open>fields that an operation leaves alone\<close>

section \<open>Lock operations leave the extension alone\<close>

lemma ensure_more [simp]: "lock_world.more (snd (ensureInstanceId f w)) = lock_world.more w"
  by (simp add: ensureInstanceId_def Let_def split: option.splits)

lemma token_instance_more [simp]: "lock_world.more (snd (token_instance f t w)) = lock_world.more w"
  by (simp add: token_instance_def split: option.splits)

lemma release_lock_more [simp]: "lock_world.more (snd (release_lock k p w)) = lock_world.more w"
  by (simp add: release_lock_def)

lemma acquire_lock_more: "acquire_lock k p ttl w = (r, w') \<Longrightarrow> lock_world.more w' = lock_world.more w"
  by (auto simp: acquire_lock_def Let_def split: option.splits if_splits)

lemma record_grant_more [simp]:
  "lock_world.more (record_grant k p ttl j re rs t i w) = lock_world.more w"
  by (simp add: record_grant_def)

lemma acquire_more: "lock_world.more (snd (acquire f k p ttl j rs w)) = lock_world.more w"
proof -
  obtain rep w2 where lua: "acquire_lock k p ttl (snd (ensureInstanceId f w)) = (rep, w2)" by fastforce
  have m: "lock_world.more w2 = lock_world.more w" using acquire_lock_more [OF lua] by simp
  show ?thesis
  proof (cases rep)
    case (ScriptError msg)
    with acquire_script_error [of k p ttl f w msg w2] lua m show ?thesis by simp
  next
    case (Reply st t)
    show ?thesis using m unfolding acquire_reply [OF lua [unfolded Reply]] by (simp add: Let_def)
  qed
qed

lemma release_more: "lock_world.more (snd (release k p w)) = lock_world.more w"
  by (simp add: release_def release_lock_cases)

lemma validate_more: "lock_world.more (snd (validateFencingToken f k p t w)) = lock_world.more w"
  using validate_world [of f k p t w] by auto

lemma bump_fencing_more: "bump_fencing k w = (r, w') \<Longrightarrow> lock_world.more w' = lock_world.more w"
  by (auto simp: bump_fencing_def Let_def split: option.splits)

lemma reclaim_more: "lock_world.more (snd (reclaim f k rs adm w)) = lock_world.more w"
proof -
  obtain i w1 where ens: "ensureInstanceId f w = (i, w1)" by fastforce
  obtain rep w2 where bump: "bump_fencing k w1 = (rep, w2)" by fastforce
  have m: "lock_world.more w2 = lock_world.more w"
    using bump_fencing_more [OF bump] ensure_more [of f w] by (simp add: ens)
  show ?thesis
  proof (cases rep)
    case (ScriptError msg)
    with bump m show ?thesis by (simp add: reclaim_def ens)
  next
    case (Reply st t)
    obtain i3 w3 where ti: "token_instance f t w2 = (i3, w3)" by fastforce
    have "lock_world.more w3 = lock_world.more w" using token_instance_more [of f t w2] m by (simp add: ti)
    with bump m Reply show ?thesis by (simp add: reclaim_def ens ti)
  qed
qed

lemma rotate_more: "lock_world.more (snd (rotateInstanceIdOnFailover i w)) = lock_world.more w"
  by (simp add: rotateInstanceIdOnFailover_def Let_def)

lemma more_fields:
  fixes w w' :: world
  assumes "lock_world.more w' = lock_world.more w"
  shows "projects w' = projects w" "jobs w' = jobs w" "job_errors w' = job_errors w"
    "dead_letters w' = dead_letters w" "secret_refs w' = secret_refs w" "tier_health w' = tier_health w"
    "prio_queue w' = prio_queue w" "ws_events w' = ws_events w" "queue_adds w' = queue_adds w"
    "workflow_calls w' = workflow_calls w" "webhooks w' = webhooks w" "mails w' = mails w"
    "nonce w' = nonce w"
  using assms by (cases w; cases w'; simp)+

lemmas acquire_frame [frames] = more_fields [OF acquire_more]
lemmas release_frame [frames] = more_fields [OF release_more]
lemmas validate_frame [frames] = more_fields [OF validate_more]
lemmas reclaim_frame [frames] = more_fields [OF reclaim_more]
lemmas rotate_frame [frames] = more_fields [OF rotate_more]

section \<open>Small steps of the service\<close>

lemma draw_frame [frames]:
  "jobs (snd (draw f w)) = jobs w" "projects (snd (draw f w)) = projects w"
  "workflow_calls (snd (draw f w)) = workflow_calls w" "fst (draw f w) = f (nonce w)"
  by (simp_all add: draw_def)

lemma broadcast_frame [frames]:
  "jobs (broadcast e w) = jobs w" "projects (broadcast e w) = projects w"
  "workflow_calls (broadcast e w) = workflow_calls w" "queue_adds (broadcast e w) = queue_adds w"
  "dead_letters (broadcast e w) = dead_letters w" "now (broadcast e w) = now w"
  "r_owner (broadcast e w) = r_owner w" "tx_ok (broadcast e w) = tx_ok w"
  by (simp_all add: broadcast_def)

lemma broadcast_job_frame [frames]:
  "jobs (broadcast_job i w) = jobs w" "workflow_calls (broadcast_job i w) = workflow_calls w"
  "queue_adds (broadcast_job i w) = queue_adds w" "dead_letters (broadcast_job i w) = dead_letters w"
  by (simp_all add: broadcast_job_def frames)

lemma recordError_frame [frames]:
  "jobs (recordError i c d a w) = jobs w" "workflow_calls (recordError i c d a w) = workflow_calls w"
  "queue_adds (recordError i c d a w) = queue_adds w" "now (recordError i c d a w) = now w"
  "r_owner (recordError i c d a w) = r_owner w" "dead_letters (recordError i c d a w) = dead_letters w"
  "tx_ok (recordError i c d a w) = tx_ok w"
  by (simp_all add: recordError_def Let_def frames)

lemma enqueue_frame [frames]:
  "jobs (enqueuePriority i p w) = jobs w" "workflow_calls (enqueuePriority i p w) = workflow_calls w"
  by (simp_all add: enqueuePriority_def)

lemma set_job_frame [frames]:
  "jobs (set_job i f w) = set_row j_id i f (jobs w)"
  "workflow_calls (set_job i f w) = workflow_calls w" "now (set_job i f w) = now w"
  "r_owner (set_job i f w) = r_owner w" "projects (set_job i f w) = projects w"
  "queue_adds (set_job i f w) = queue_adds w" "dead_letters (set_job i f w) = dead_letters w"
  by (simp_all add: set_job_def)

lemma createEnvelope_frame [frames]:
  "jobs (snd (createEnvelope x i s ttl w)) = jobs w"
  "workflow_calls (snd (createEnvelope x i s ttl w)) = workflow_calls w"
  "now (snd (createEnvelope x i s ttl w)) = now w"
  by (simp_all add: createEnvelope_eq Let_def)

lemma mint_frame [frames]:
  "jobs (snd (mintCallbackToken e x i w)) = jobs w"
  "workflow_calls (snd (mintCallbackToken e x i w)) = workflow_calls w"
  by (simp_all add: mintCallbackToken_def draw_eq Let_def)

lemma lock_release_frame [frames]:
  "jobs (lock_release k p w) = jobs w" "workflow_calls (lock_release k p w) = workflow_calls w"
  "dead_letters (lock_release k p w) = dead_letters w" "queue_adds (lock_release k p w) = queue_adds w"
  by (simp_all add: lock_release_def frames)

lemma release_target_frame [frames]:
  "jobs (release_target t p w) = jobs w" "workflow_calls (release_target t p w) = workflow_calls w"
  by (simp_all add: release_target_def frames)

lemma release_job_locks_frame [frames]:
  "jobs (release_job_locks j w) = jobs w" "workflow_calls (release_job_locks j w) = workflow_calls w"
  by (simp_all add: release_job_locks_def frames)

lemma getById_jobs: "getById i w = row_by j_id i (jobs w)"
  by (simp add: getById_def get_job_def)

section \<open>The shape of a dispatch\<close>

text \<open>
  A dispatch writes one row at most: it leaves the jobs alone, blocks the job, or marks it DISPATCHING.
  It calls at most one workflow, and only for a job whose gate allows it.
\<close>

definition start_row :: "Job \<Rightarrow> bool" where
  "start_row j = (j_status j = DISPATCHING)"

definition same_but_status :: "Job \<Rightarrow> Job \<Rightarrow> bool" where
  "same_but_status j j' =
     (j_id j' = j_id j \<and> j_projectId j' = j_projectId j \<and> j_attempt j' = j_attempt j
      \<and> j_maxAttempts j' = j_maxAttempts j \<and> j_dependsOnJobId j' = j_dependsOnJobId j)"

definition row_change :: "string \<Rightarrow> JobStatus set \<Rightarrow> world \<Rightarrow> world \<Rightarrow> bool" where
  "row_change i S w w' =
     (jobs w' = jobs w
      \<or> (\<exists>f. jobs w' = set_row j_id i f (jobs w)
             \<and> (\<forall>j. same_but_status j (f j) \<and> j_status (f j) \<in> S)))"

lemma row_change_same: "jobs w' = jobs w \<Longrightarrow> row_change i S w w'"
  by (simp add: row_change_def)

lemma row_change_set: "jobs w' = set_row j_id i f (jobs w) \<Longrightarrow>
    (\<And>j. same_but_status j (f j) \<and> j_status (f j) \<in> S) \<Longrightarrow> row_change i S w w'"
  by (auto simp: row_change_def)

lemma block_job_change:
  "jobs w1 = jobs w \<Longrightarrow> row_change i {BLOCKED, DISPATCHING} w (block_job i m w1)"
  by (rule row_change_set [where f = "\<lambda>j. j\<lparr>j_status := BLOCKED, j_metadata := jsonb_concat (j_metadata j) m,
                         j_updatedAt := now w1\<rparr>"])
     (simp_all add: block_job_def frames same_but_status_def)

lemma block_job_frame [frames]: "workflow_calls (block_job i m w) = workflow_calls w"
  by (simp add: block_job_def frames)

lemma dispatch_start_shape:
  assumes "dispatch_start x job tier token lk target cb en w = (r, w')"
  shows "row_change (j_id job) {BLOCKED, DISPATCHING} w w'
    \<and> length (workflow_calls w') = Suc (length (workflow_calls w))
    \<and> (\<exists>c. workflow_calls w' = c # workflow_calls w \<and> di_jobId c = j_id job)
    \<and> (r = Returned \<or> (\<exists>d. r = UpdateThen (error_update DISPATCH_FAILED E001 d)))"
proof -
  obtain jwe ref w1 where env: "createEnvelope x (j_id job) en 300000 w = ((jwe, ref), w1)"
    by (metis prod.exhaust)
  have w1: "jobs w1 = jobs w" "workflow_calls w1 = workflow_calls w"
    using createEnvelope_frame [of x "j_id job" en 300000 w] by (simp_all add: env)
  have "row_change (j_id job) {BLOCKED, DISPATCHING} w w'"
    using assms w1
    by (intro row_change_set [where f = "\<lambda>j. j\<lparr>j_status := DISPATCHING, j_tier := Some tier,
                 j_fencingToken := Some token, j_lockKey := Some lk,
                 j_callbackTokenHash := Some (cb_hash cb),
                 j_callbackTokenExpiresAt := Some (cb_expiresAt cb),
                 j_metadata := jsonb_concat (j_metadata j)
                   (if truthy target then [(''targetPathLockKey'', JStr (the target))] else []),
                 j_updatedAt := now w1\<rparr>"])
       (auto simp: dispatch_start_def env Let_def draw_eq frames same_but_status_def split: option.splits)
  moreover have "\<exists>c. workflow_calls w' = c # workflow_calls w \<and> di_jobId c = j_id job"
    using assms w1
    by (auto simp: dispatch_start_def env Let_def draw_eq frames split: option.splits)
  moreover have "r = Returned \<or> (\<exists>d. r = UpdateThen (error_update DISPATCH_FAILED E001 d))"
    using assms by (auto simp: dispatch_start_def env Let_def draw_eq split: option.splits)
  ultimately show ?thesis by auto
qed

text \<open>What a dispatch may end with and change.\<close>

definition dispatch_shape :: "string \<Rightarrow> world \<Rightarrow> dispatch_next \<Rightarrow> world \<Rightarrow> bool" where
  "dispatch_shape i w r w' =
     (row_change i {BLOCKED, DISPATCHING} w w'
      \<and> (workflow_calls w' = workflow_calls w \<or> (\<exists>c. workflow_calls w' = c # workflow_calls w \<and> di_jobId c = i))
      \<and> (r = Returned \<or> (\<exists>err. r = Failed err)
         \<or> (\<exists>c d. c \<in> {E001, E004} \<and> r = UpdateThen (error_update DISPATCH_FAILED c d))))"

lemma dispatch_shapeI:
  "row_change i {BLOCKED, DISPATCHING} w w' \<Longrightarrow> workflow_calls w' = workflow_calls w
   \<Longrightarrow> r = Returned \<or> (\<exists>err. r = Failed err) \<or> (\<exists>d. r = UpdateThen (error_update DISPATCH_FAILED E004 d))
   \<Longrightarrow> dispatch_shape i w r w'"
  by (auto simp: dispatch_shape_def)

lemma row_change_from:
  "jobs w1 = jobs w \<Longrightarrow> row_change i S w1 w' = row_change i S w w'"
  by (simp add: row_change_def)

lemma dispatch_shape_from:
  "jobs w1 = jobs w \<Longrightarrow> workflow_calls w1 = workflow_calls w
   \<Longrightarrow> dispatch_shape i w1 r w' = dispatch_shape i w r w'"
  unfolding dispatch_shape_def row_change_def by (simp only:)

lemma dispatch_start_dispatch_shape:
  "dispatch_start x job tier token lk target cb en w = (r, w') \<Longrightarrow> dispatch_shape (j_id job) w r w'"
  using dispatch_start_shape by (fastforce simp: dispatch_shape_def)

lemma failDispatchPreStart_shape:
  "failDispatchPreStart i lk target d w = (r, w') \<Longrightarrow> dispatch_shape i w r w'"
  by (intro dispatch_shapeI row_change_same) (auto simp: failDispatchPreStart_def frames)

lemma dispatch_locked_shape:
  assumes "dispatch_locked e x job project tier token lk target w = (r, w')"
  shows "dispatch_shape (j_id job) w r w'"
proof -
  obtain cb w1 where mint: "mintCallbackToken e x (j_id job) w = (cb, w1)" by fastforce
  have w1: "jobs w1 = jobs w" "workflow_calls w1 = workflow_calls w"
    using mint_frame [of e x "j_id job" w] by (simp_all add: mint)
  show ?thesis
  proof (cases "resolveCrossMachineProvision (j_commitStrategy job) (j_metadata job)")
    case NotCrossMachine
    with assms mint have "dispatch_start x job tier token lk target cb
        (envelope_base e x project job (cb_token cb) token lk) w1 = (r, w')"
      by (simp add: dispatch_locked_def)
    from dispatch_start_dispatch_shape [OF this] show ?thesis by (simp only: dispatch_shape_from [OF w1])
  next
    case (Provision host url)
    obtain pub pem keyId w2 where key: "draw (x_sshKey x) w1 = ((pub, pem, keyId), w2)"
      by (metis prod.exhaust)
    have w2: "jobs w2 = jobs w" "workflow_calls w2 = workflow_calls w"
      using draw_frame [of "x_sshKey x" w1] w1 by (simp_all add: key)
    define req where "req = \<lparr>pv_url = url, pv_publicKey = pub, pv_forcedCommand = ''commit-agent-once'',
                        pv_jobId = j_id job,
                        pv_environment = [(''PGOS_LOCK_KEY'', lk),
                          (''PGOS_LOCK_OWNER'', owner_id (j_id job)), (''PGOS_JOB_ID'', j_id job),
                          (''PGOS_REQUIRE_FENCING'', ''true'')],
                        pv_maxSessions = 8, pv_ttlSeconds = 300\<rparr>"
    obtain ok detail w3 where prov: "draw (\<lambda>n. x_provision x n req) w2 = ((ok, detail), w3)"
      by (metis prod.exhaust)
    have w3: "jobs w3 = jobs w" "workflow_calls w3 = workflow_calls w"
      using draw_frame [of "\<lambda>n. x_provision x n req" w2] w2 by (simp_all add: prov)
    have "dispatch_shape (j_id job) w3 r w'"
    proof (cases ok)
      case True
      then have "dispatch_start x job tier token lk target cb
          ((envelope_base e x project job (cb_token cb) token lk)
             \<lparr>se_targetHost := Some host, se_sshPrivateKey := Some pem, se_sshKeyId := Some keyId\<rparr>)
          w3 = (r, w')"
        using assms Provision prov by (simp add: dispatch_locked_def mint key req_def Let_def)
      then show ?thesis by (rule dispatch_start_dispatch_shape)
    next
      case False
      then have "failDispatchPreStart (j_id job) lk target
          (''ssh provision failed: '' @ or_default detail ''unknown'') w3 = (r, w')"
        using assms Provision prov by (simp add: dispatch_locked_def mint key req_def Let_def)
      then show ?thesis by (rule failDispatchPreStart_shape)
    qed
    then show ?thesis by (simp only: dispatch_shape_from [OF w3])
  next
    case (CrossFail detail)
    with assms mint have "failDispatchPreStart (j_id job) lk target detail w1 = (r, w')"
      by (simp add: dispatch_locked_def)
    from failDispatchPreStart_shape [OF this] show ?thesis by (simp only: dispatch_shape_from [OF w1])
  qed
qed

end
