(* ===== verification/Job_Steps.thy ===== *)
theory Job_Steps
  imports Job_Frames
begin

text \<open>
  What each step of \<open>Job_Service.run\<close> changes, and the interface \<open>service_relation\<close>: a relation
  between worlds that every step respects is respected by a whole call, whatever it triggers.
\<close>

section \<open>Dispatch\<close>

lemma dispatch_shape_same:
  "jobs w' = jobs w \<Longrightarrow> workflow_calls w' = workflow_calls w \<Longrightarrow> r = Returned \<or> (\<exists>err. r = Failed err)
   \<Longrightarrow> dispatch_shape i w r w'"
  by (intro dispatch_shapeI row_change_same) auto

lemma dispatch_shape_block:
  "jobs w1 = jobs w \<Longrightarrow> workflow_calls w1 = workflow_calls w
   \<Longrightarrow> dispatch_shape i w Returned (block_job i m w1)"
  by (intro dispatch_shapeI block_job_change) (simp_all add: frames)

lemma dispatch_acquire_shape:
  assumes "dispatch_acquire e x job pref w = (r, w')"
  shows "dispatch_shape (j_id job) w r w'"
proof (cases "get_project w (j_projectId job)")
  case None
  with assms show ?thesis by (auto simp: dispatch_acquire_def intro: dispatch_shape_same)
next
  case (Some project)
  define lk where "lk = generationLockKey (j_projectId job)"
  define own where "own = owner_id (j_id job)"
  define tier where "tier = selectTier e pref (pr_highVolume project) None w"
  obtain a w1 where acq: "acquire (x_uuid x (nonce w)) lk own 120 (Some (j_id job)) None w = (a, w1)"
    by fastforce
  have w1: "jobs w1 = jobs w" "workflow_calls w1 = workflow_calls w"
    using acquire_frame [of "x_uuid x (nonce w)" lk own 120 "Some (j_id job)" None w]
    by (simp_all add: acq)
  note unf = dispatch_acquire_def Let_def lk_def own_def tier_def
  note acq' = acq [unfolded lk_def own_def]
  consider (t) err where "a = Throw err" | (d) "a = Ret Denied" | (m) msg where "a = Ret (AcquireError msg)"
    | (g) re token where "a = Ret (Granted re token)"
    by (cases a) (auto, metis AcquireResult.exhaust)
  then show ?thesis
  proof cases
    case t
    with assms Some acq' w1 show ?thesis by (auto simp: unf intro: dispatch_shape_same)
  next
    case d
    with assms Some acq' w1 show ?thesis by (auto simp: unf intro!: dispatch_shape_block)
  next
    case m
    with assms Some acq' w1 show ?thesis by (auto simp: unf intro: dispatch_shape_same)
  next
    case g
    show ?thesis
    proof (cases "j_commitStrategy job = cross_machine")
      case False
      with assms Some acq' g have "dispatch_locked e x job project tier token lk None w1 = (r, w')"
        by (simp add: unf)
      from dispatch_locked_shape [OF this] show ?thesis by (simp only: dispatch_shape_from [OF w1])
    next
      case True
      define tk where "tk = targetPathLockKey (j_projectId job)"
      obtain a2 w2 where acq2: "acquire (x_uuid x (nonce w1)) tk own 120 (Some (j_id job)) None w1 = (a2, w2)"
        by fastforce
      have w2: "jobs w2 = jobs w" "workflow_calls w2 = workflow_calls w"
        using acquire_frame [of "x_uuid x (nonce w1)" tk own 120 "Some (j_id job)" None w1] w1
        by (simp_all add: acq2)
      note acq2' = acq2 [unfolded tk_def own_def]
      have w3: "jobs (lock_release lk own w2) = jobs w" "workflow_calls (lock_release lk own w2) = workflow_calls w"
        using w2 by (simp_all add: frames)
      consider (t2) err where "a2 = Throw err" | (b2) "a2 = Ret Denied \<or> (\<exists>msg. a2 = Ret (AcquireError msg))"
        | (g2) re2 t2 where "a2 = Ret (Granted re2 t2)"
        by (cases a2) (auto, metis AcquireResult.exhaust)
      then show ?thesis
      proof cases
        case t2
        with assms Some acq' acq2' g True w2 show ?thesis by (auto simp: unf intro: dispatch_shape_same)
      next
        case b2
        with assms Some acq' acq2' g True w3 show ?thesis
          by (auto simp: unf intro!: dispatch_shape_block)
      next
        case g2
        with assms Some acq' acq2' g True
        have "dispatch_locked e x job project tier token lk (Some tk) w2 = (r, w')"
          by (simp add: unf tk_def)
        from dispatch_locked_shape [OF this] show ?thesis by (simp only: dispatch_shape_from [OF w2])
      qed
    qed
  qed
qed

text \<open>
  A dispatch either leaves the jobs alone or the job was dispatchable; a failed dependency is the only
  case that asks for DEP_FAILED, and outside calls happen only behind a dependency that is complete.
\<close>

lemma dispatch_attempt_cases:
  assumes "dispatch_attempt e x i pref w = (r, w')"
  obtains (quiet) "w' = w" "r = Returned \<or> (\<exists>err. r = Failed err)"
  | (dep_failed) job why where "getById i w = Some job" "dispatchable (j_status job)" "w' = w"
      "dependency_gate job w = DepFailed why" "r = UpdateThen (error_update DEP_FAILED E011 why)"
  | (blocked) job m where "getById i w = Some job" "dispatchable (j_status job)" "r = Returned"
      "w' = block_job i m w"
  | (started) job where "getById i w = Some job" "dispatchable (j_status job)"
      "dependency_gate job w = Allow" "dispatch_shape i w r w'"
proof (cases "getById i w")
  case None
  with assms show ?thesis by (auto simp: dispatch_attempt_def intro: quiet)
next
  case (Some job)
  then have i: "j_id job = i" by (auto simp: getById_jobs dest: row_by_Some)
  show ?thesis
  proof (cases "dispatchable (j_status job)")
    case False
    with assms Some show ?thesis by (auto simp: dispatch_attempt_def intro: quiet)
  next
    case True
    show ?thesis
    proof (cases "dependency_gate job w")
      case Allow
      with assms Some True have "dispatch_acquire e x job pref w = (r, w')" by (simp add: dispatch_attempt_def)
      from dispatch_acquire_shape [OF this] Some True Allow i show ?thesis by (auto intro: started)
    next
      case (BlockDependency why)
      with assms Some True show ?thesis by (auto simp: dispatch_attempt_def intro: blocked)
    next
      case (DepFailed why)
      with assms Some True show ?thesis by (auto simp: dispatch_attempt_def intro: dep_failed)
    qed
  qed
qed

section \<open>Status updates and failures\<close>

lemma status_write_cases:
  assumes "status_write x i u w = (r, w')"
  obtains (threw) err where "r = Throw err" "jobs w' = jobs w" "workflow_calls w' = workflow_calls w"
  | (written) job t where "getById i w = Some job" "r = Ret job"
      "u_status u = j_status job \<or> canTransitionJobStatus (j_status job) (u_status u)"
      "jobs w' = set_row j_id i (apply_update u t) (jobs w)" "workflow_calls w' = workflow_calls w"
proof (cases "getById i w")
  case None
  with assms show ?thesis by (auto simp: status_write_def intro: threw)
next
  case (Some job)
  define bad where "bad \<longleftrightarrow> u_status u \<noteq> j_status job \<and> \<not> canTransitionJobStatus (j_status job) (u_status u)"
  define reimp where "reimp \<longleftrightarrow> j_status job = REIMPORT_FAILED \<and> (u_status u = COMMITTING \<or> u_status u = COMPLETED)"
  define val where "val = (if truthy (u_fencingToken u) \<and> truthy (j_lockKey job)
                   then validateFencingToken (x_uuid x (nonce w)) (the (j_lockKey job))
                          (owner_id i) (the (u_fencingToken u)) w
                   else (True, w))"
  obtain ok w1 where v: "val = (ok, w1)" by fastforce
  have w1: "jobs w1 = jobs w" "workflow_calls w1 = workflow_calls w"
    using v validate_frame [of "x_uuid x (nonce w)" "the (j_lockKey job)" "owner_id i" "the (u_fencingToken u)" w]
    by (auto simp: val_def split: if_splits)
  have eq: "status_write x i u w =
      (if bad then (Throw (invalid_transition (j_status job) (u_status u)), w)
       else if reimp then (Throw commits_blocked, w)
       else if \<not> ok then (Throw fencing_rejected, recordError i E013 ''Fencing token rejected'' None w1)
       else (Ret job, case u_errorCode u of
                             None \<Rightarrow> set_job i (apply_update u (now w1)) w1
                           | Some c \<Rightarrow> recordError i c (or_default (u_errorDetail u) (code_name c)) None
                                         (set_job i (apply_update u (now w1)) w1)))"
    by (simp add: status_write_def Some Let_def v [unfolded val_def] flip: bad_def reimp_def)
  show ?thesis
  proof (cases "bad \<or> reimp \<or> \<not> ok")
    case True
    with assms w1 have "(\<exists>err. r = Throw err) \<and> jobs w' = jobs w \<and> workflow_calls w' = workflow_calls w"
      unfolding eq by (auto simp: frames split: if_splits)
    then show ?thesis using threw by blast
  next
    case False
    with assms w1 show ?thesis unfolding eq
      by (intro written [of job "now w1"]) (auto simp: frames Some bad_def split: option.splits)
  qed
qed

definition dead_letter_row :: "nat \<Rightarrow> Job \<Rightarrow> Job" where
  "dead_letter_row t j =
     j\<lparr>j_status := DEAD_LETTER, j_errorCode := Some E020, j_updatedAt := t, j_completedAt := Some t\<rparr>"

definition retry_row :: "nat \<Rightarrow> nat \<Rightarrow> Job \<Rightarrow> Job" where
  "retry_row attempt t j =
     j\<lparr>j_attempt := attempt + 1, j_status := QUEUED, j_updatedAt := t, j_completedAt := None\<rparr>"

lemma failure_step_cases:
  assumes "failure_step i w = (r, w')"
  obtains (gone) "w' = w" "r = NoSuchJob \<and> getById i w = None \<or> r = TxFailed"
  | (again) job tier where "getById i w = Some job" "j_attempt job < j_maxAttempts job" "r = Redispatch tier"
      "w' = set_job i (retry_row (j_attempt job) (now w)) w"
  | (dead) job where "getById i w = Some job" "\<not> j_attempt job < j_maxAttempts job" "r = DeadLettered job"
      "jobs w' = set_row j_id i (dead_letter_row (now w)) (jobs w)" "workflow_calls w' = workflow_calls w"
proof (cases "getById i w")
  case None
  with assms show ?thesis by (auto simp: failure_step_def intro: gone)
next
  case (Some job)
  show ?thesis
  proof (cases "j_attempt job < j_maxAttempts job")
    case True
    with assms Some show ?thesis by (auto simp: failure_step_def retry_row_def [abs_def] intro: again)
  next
    case False
    note not_less = this
    show ?thesis
    proof (cases "tx_ok w")
      case True
      with assms Some not_less show ?thesis
        by (intro dead [of job])
           (auto simp: failure_step_def Let_def frames dead_letter_row_def [abs_def] split: if_splits)
    next
      case False
      with assms Some not_less show ?thesis by (auto simp: failure_step_def intro: gone)
    qed
  qed
qed

lemma alert_frame [frames]:
  "jobs (sendAlert e a w) = jobs w" "workflow_calls (sendAlert e a w) = workflow_calls w"
  using sendAlert_frame [of e a w] by simp_all

lemma finish_frames [frames]:
  "jobs (snd (update_finish e cur u w)) = jobs w"
  "workflow_calls (snd (update_finish e cur u w)) = workflow_calls w"
  "jobs (dead_letter_finish e job w) = jobs w"
  "workflow_calls (dead_letter_finish e job w) = workflow_calls w"
  by (simp_all add: update_finish_def dead_letter_finish_def Let_def frames)

section \<open>Primary keys\<close>

definition ids_distinct :: "world \<Rightarrow> bool" where
  "ids_distinct w = distinct (map j_id (jobs w))"

lemma ids_set_row: "jobs w' = set_row j_id i f (jobs w) \<Longrightarrow> (\<And>j. j_id (f j) = j_id j)
    \<Longrightarrow> ids_distinct w' = ids_distinct w"
  by (simp add: ids_distinct_def map_set_row)

lemma ids_same: "jobs w' = jobs w \<Longrightarrow> ids_distinct w' = ids_distinct w"
  by (simp add: ids_distinct_def)

lemma ids_row_change: "row_change i S w w' \<Longrightarrow> ids_distinct w' = ids_distinct w"
  unfolding row_change_def same_but_status_def by (metis ids_same ids_set_row)

lemma ids_shape: "dispatch_shape i w r w' \<Longrightarrow> ids_distinct w' = ids_distinct w"
  unfolding dispatch_shape_def by (blast dest: ids_row_change)

lemma block_job_jobs: "jobs (block_job i m w) =
    set_row j_id i (\<lambda>j. j\<lparr>j_status := BLOCKED, j_metadata := jsonb_concat (j_metadata j) m,
                          j_updatedAt := now w\<rparr>) (jobs w)"
  by (simp add: block_job_def frames)

lemma promote_row_jobs: "jobs (promote_row i w) =
    set_row j_id i (\<lambda>j. j\<lparr>j_status := QUEUED, j_blockedByJobId := None,
                         j_estimatedWaitSeconds := Some 0, j_updatedAt := now w\<rparr>) (jobs w)"
  by (simp add: promote_row_def frames)

lemma ids_block [simp]: "ids_distinct (block_job i m w) = ids_distinct w"
  by (rule ids_set_row [OF block_job_jobs]) simp

lemma ids_promote [simp]: "ids_distinct (promote_row i w) = ids_distinct w"
  by (rule ids_set_row [OF promote_row_jobs]) simp

lemma apply_update_keeps [simp]:
  "j_id (apply_update u t j) = j_id j" "j_projectId (apply_update u t j) = j_projectId j"
  "j_status (apply_update u t j) = u_status u" "j_attempt (apply_update u t j) = j_attempt j"
  "j_maxAttempts (apply_update u t j) = j_maxAttempts j"
  "j_dependsOnJobId (apply_update u t j) = j_dependsOnJobId j"
  "j_lockKey (apply_update u t j) = j_lockKey j"
  by (simp_all add: apply_update_def)

lemma ids_write:
  assumes "status_write x i u w = (r, w')" shows "ids_distinct w' = ids_distinct w"
  using assms by (cases rule: status_write_cases) (auto dest: ids_same ids_set_row)

lemma ids_fail:
  assumes "failure_step i w = (r, w')" shows "ids_distinct w' = ids_distinct w"
  using assms
proof (cases rule: failure_step_cases)
  case gone
  then show ?thesis by simp
next
  case (again job tier)
  then show ?thesis by (simp add: ids_set_row [OF set_job_frame(1)] retry_row_def)
next
  case (dead job)
  then show ?thesis by (simp add: ids_set_row [OF dead(4)] dead_letter_row_def)
qed

lemma ids_attempt:
  assumes "dispatch_attempt e x i pref w = (r, w')" shows "ids_distinct w' = ids_distinct w"
  using assms by (cases rule: dispatch_attempt_cases) (auto dest: ids_shape)

lemma distinct_row_by: "distinct (map key rs) \<Longrightarrow> r \<in> set rs \<Longrightarrow> row_by key (key r) rs = Some r"
  by (induction rs) force+

lemma getById_distinct: "ids_distinct w \<Longrightarrow> j \<in> set (jobs w) \<Longrightarrow> getById (j_id j) w = Some j"
  by (simp add: ids_distinct_def getById_jobs distinct_row_by)

lemma getById_Some: "getById i w = Some j \<Longrightarrow> j_id j = i \<and> j \<in> set (jobs w)"
  by (auto simp: getById_jobs dest: row_by_Some)

lemma getById_set: "jobs w' = set_row j_id i f (jobs w) \<Longrightarrow> (\<And>j. j_id (f j) = j_id j)
    \<Longrightarrow> getById k w' = (if k = i then map_option f (getById i w) else getById k w)"
  by (simp add: getById_jobs set_row_same set_row_other)

section \<open>Relations that every step respects\<close>

text \<open>
  What \<open>run\<close> may assume of its argument: \<open>handleFailure\<close> is called for a failed job; a promotion
  follows a job with a final status, and its rows are blocked rows of the table.
\<close>

fun call_ok :: "call \<Rightarrow> world \<Rightarrow> bool" where
  "call_ok (HandleFailure i) w = (\<forall>j. getById i w = Some j \<longrightarrow> isRetriableFailure (j_status j))"
| "call_ok (PromoteBlocked p fid fs rows) w =
     ((\<forall>j. getById fid w = Some j \<longrightarrow> isTerminal (j_status j))
      \<and> (\<forall>row \<in> set rows. getById (j_id row) w = Some row \<and> j_status row = BLOCKED \<and> j_projectId row = p))"
| "call_ok _ w = True"

lemma blocked_rows_ok: "ids_distinct w \<Longrightarrow> (\<And>j. getById fid w = Some j \<Longrightarrow> isTerminal (j_status j))
    \<Longrightarrow> call_ok (PromoteBlocked p fid fs (blocked_rows p w)) w"
  by (auto simp: blocked_rows_def getById_distinct)

lemma failure_dead:
  assumes "failure_step i w = (DeadLettered job, w')" and "getById i w' = Some j"
  shows "isTerminal (j_status j)"
  using assms(1)
proof (cases rule: failure_step_cases)
  case (dead job')
  have "getById i w' = map_option (dead_letter_row (now w)) (getById i w)"
    by (simp add: getById_set [OF dead(4)] dead_letter_row_def)
  with assms(2) show ?thesis by (auto simp: dead_letter_row_def)
qed auto

lemma blocked_cannot_fail:
  assumes "getById i w = Some row" "j_status row = BLOCKED"
  shows "status_write x i (error_update DEP_FAILED c d) w = (Throw (invalid_transition BLOCKED DEP_FAILED), w)"
  using assms by (simp add: status_write_def error_update_def empty_update_def no_transition_into_DEP_FAILED)

text \<open>
  \<open>allowed\<close> restricts the status updates that the claim is about; it must admit the two updates the
  service makes itself.
\<close>

definition own_update :: "JobStatusUpdate \<Rightarrow> bool" where
  "own_update u = (u_status u = DISPATCH_FAILED \<or> u_status u = DEP_FAILED)"

lemma own_error_update [simp]: "own_update (error_update DISPATCH_FAILED c d)" "own_update (error_update DEP_FAILED c d)"
  by (simp_all add: own_update_def error_update_def empty_update_def)

lemma attempt_own:
  assumes "dispatch_attempt e x i pref w = (UpdateThen u, w')"
  shows "own_update u"
  using assms by (cases rule: dispatch_attempt_cases) (auto simp: dispatch_shape_def)

fun permitted :: "(JobStatusUpdate \<Rightarrow> bool) \<Rightarrow> call \<Rightarrow> bool" where
  "permitted ok (UpdateStatus i u skip) = ok u"
| "permitted ok _ = True"

lemma permitted_other: "permitted ok (DispatchJob i pref)" "permitted ok (HandleFailure i)"
    "permitted ok (PromoteBlocked p fid fs rows)"
  by simp_all

locale service_relation =
  fixes R :: "world \<Rightarrow> world \<Rightarrow> bool" and allowed :: "JobStatusUpdate \<Rightarrow> bool"
  assumes own: "own_update up \<Longrightarrow> allowed up"
    and trans: "R u v \<Longrightarrow> R v w \<Longrightarrow> R u w"
    and quiet: "jobs w' = jobs w \<Longrightarrow> workflow_calls w' = workflow_calls w \<Longrightarrow> R w w'"
    and blocked: "ids_distinct w \<Longrightarrow> getById i w = Some job \<Longrightarrow> dispatchable (j_status job)
      \<Longrightarrow> R w (block_job i m w)"
    and dispatched: "ids_distinct w \<Longrightarrow> getById i w = Some job \<Longrightarrow> dispatchable (j_status job)
      \<Longrightarrow> dependency_gate job w = Allow \<Longrightarrow> dispatch_shape i w r w' \<Longrightarrow> R w w'"
    and written: "allowed up \<Longrightarrow> ids_distinct w \<Longrightarrow> getById i w = Some job
      \<Longrightarrow> u_status up = j_status job \<or> canTransitionJobStatus (j_status job) (u_status up)
      \<Longrightarrow> jobs w' = set_row j_id i (apply_update up t) (jobs w)
      \<Longrightarrow> workflow_calls w' = workflow_calls w \<Longrightarrow> R w w'"
    and retried: "ids_distinct w \<Longrightarrow> getById i w = Some job \<Longrightarrow> isRetriableFailure (j_status job)
      \<Longrightarrow> j_attempt job < j_maxAttempts job
      \<Longrightarrow> R w (set_job i (retry_row (j_attempt job) (now w)) w)"
    and dead: "ids_distinct w \<Longrightarrow> getById i w = Some job \<Longrightarrow> isRetriableFailure (j_status job)
      \<Longrightarrow> jobs w' = set_row j_id i (dead_letter_row t) (jobs w)
      \<Longrightarrow> workflow_calls w' = workflow_calls w \<Longrightarrow> R w w'"
    and promoted: "ids_distinct w \<Longrightarrow> getById (j_id row) w = Some row \<Longrightarrow> j_status row = BLOCKED
      \<Longrightarrow> (\<And>j. getById fid w = Some j \<Longrightarrow> isTerminal (j_status j))
      \<Longrightarrow> pd_promote (promotion_decision (j_projectId row) fid fs row w)
      \<Longrightarrow> R w (promote_row (j_id row) w)"
begin

lemma refl: "R w w" by (rule quiet) simp_all

lemma attempt_step:
  assumes "dispatch_attempt e x i pref w = (r, w')" and "ids_distinct w"
  shows "R w w'"
  using assms(1)
proof (cases rule: dispatch_attempt_cases)
  case quiet
  then show ?thesis by (simp add: refl)
next
  case (dep_failed job why)
  then show ?thesis by (simp add: refl)
next
  case (blocked job m)
  then show ?thesis using service_relation.blocked [OF service_relation_axioms] assms by simp
next
  case (started job)
  then show ?thesis using dispatched assms by blast
qed

lemma write_step:
  assumes "status_write x i u w = (r, w')" and "ids_distinct w" and "allowed u"
  shows "R w w'"
  using assms(1)
proof (cases rule: status_write_cases)
  case (threw err)
  then show ?thesis by (intro quiet)
next
  case (written job t)
  then show ?thesis using service_relation.written [OF service_relation_axioms assms(3,2) written(1,3,4,5)]
    by simp
qed

lemma failure:
  assumes "failure_step i w = (r, w')" and "ids_distinct w" and "call_ok (HandleFailure i) w"
  shows "R w w'"
  using assms(1)
proof (cases rule: failure_step_cases)
  case gone
  then show ?thesis by (simp add: refl)
next
  case (again job tier)
  then show ?thesis using retried [OF assms(2) again(1)] assms(3) by simp
next
  case (dead job)
  then show ?thesis
    using service_relation.dead [OF service_relation_axioms assms(2) dead(1) _ dead(4,5)] assms(3) by simp
qed

lemma run_dispatch:
  assumes IH: "\<And>c w res w'. run e x n c w = Some (res, w') \<Longrightarrow> ids_distinct w \<Longrightarrow> call_ok c w \<Longrightarrow> permitted allowed c \<Longrightarrow> R w w'"
    and run: "run e x (Suc n) (DispatchJob i pref) w = Some (res, w')"
    and ids: "ids_distinct w" and ok: "call_ok (DispatchJob i pref) w"
  shows "R w w'"
proof -
  obtain nx w1 where at: "dispatch_attempt e x i pref w = (nx, w1)" by fastforce
  have step: "R w w1" "ids_distinct w1" using attempt_step [OF at] ids_attempt [OF at] run ids ok by auto
  show ?thesis
  proof (cases nx)
    case (UpdateThen u)
    with run ids ok at have "run e x n (UpdateStatus i u False) w1 = Some (res, w')" by simp
    with IH [OF this step(2)] step(1) own [OF attempt_own] at UpdateThen show ?thesis
      by (auto intro: trans)
  qed (use run ids ok at step in auto)
qed

lemma run_update:
  assumes IH: "\<And>c w res w'. run e x n c w = Some (res, w') \<Longrightarrow> ids_distinct w \<Longrightarrow> call_ok c w \<Longrightarrow> permitted allowed c \<Longrightarrow> R w w'"
    and run: "run e x (Suc n) (UpdateStatus i u skip) w = Some (res, w')"
    and ids: "ids_distinct w" and ok: "permitted allowed (UpdateStatus i u skip)"
  shows "R w w'"
proof -
  obtain r1 w1 where wr: "status_write x i u w = (r1, w1)" by fastforce
  have step: "R w w1" "ids_distinct w1" using write_step [OF wr] ids_write [OF wr] run ids ok by auto
  from wr show ?thesis
  proof (cases rule: status_write_cases)
    case (threw err)
    with run ids ok wr step show ?thesis by simp
  next
    case (written job t)
    have now: "getById i w1 = Some (apply_update u t job)"
      using written by (simp add: getById_set [OF written(4)])
    have fin: "R w3 (snd (update_finish e job u w3))" for w3
      by (rule quiet) (simp_all add: frames)
    consider (fail) "isRetriableFailure (u_status u)" "\<not> skip"
      | (final) "\<not> (isRetriableFailure (u_status u) \<and> \<not> skip)" "isTerminal (u_status u)" "truthy (j_lockKey job)"
      | (plain) "\<not> (isRetriableFailure (u_status u) \<and> \<not> skip)" "\<not> (isTerminal (u_status u) \<and> truthy (j_lockKey job))"
      by blast
    then show ?thesis
    proof cases
      case fail
      with run ids ok wr written obtain r3 w3 where
        rest: "run e x n (HandleFailure i) w1 = Some (r3, w3)"
        and w': "w' = w3 \<or> w' = snd (update_finish e job u w3)"
        by (auto simp: Let_def split: option.splits outcome.splits prod.splits)
      have "call_ok (HandleFailure i) w1" using now fail by simp
      from IH [OF rest step(2) this permitted_other(2)] step(1) w' fin show ?thesis by (metis trans)
    next
      case final
      define w2 where "w2 = release_job_locks job w1"
      have w2: "R w1 w2" "ids_distinct w2"
        using step(2) by (auto simp: w2_def frames intro: quiet ids_same [THEN iffD2])
      from final run ids ok wr written obtain r3 w3 where
        rest: "run e x n (PromoteBlocked (j_projectId job) i (u_status u)
                 (blocked_rows (j_projectId job) w2)) w2 = Some (r3, w3)"
        and w': "w' = w3 \<or> w' = snd (update_finish e job u w3)"
        by (auto simp: Let_def w2_def split: option.splits outcome.splits prod.splits if_splits)
      have "getById i w2 = Some (apply_update u t job)"
        using now w2_def by (simp add: getById_jobs frames)
      then have "call_ok (PromoteBlocked (j_projectId job) i (u_status u)
                   (blocked_rows (j_projectId job) w2)) w2"
        using final(2) by (intro blocked_rows_ok [OF w2(2)]) simp
      from IH [OF rest w2(2) this permitted_other(3)] step(1) w2(1) w' fin
      show ?thesis by (metis trans)
    next
      case plain
      with run ids ok wr written have "w' = snd (update_finish e job u w1)"
        by (auto simp: Let_def split: prod.splits if_splits)
      with step(1) fin show ?thesis by (metis trans)
    qed
  qed
qed

lemma run_failure:
  assumes IH: "\<And>c w res w'. run e x n c w = Some (res, w') \<Longrightarrow> ids_distinct w \<Longrightarrow> call_ok c w \<Longrightarrow> permitted allowed c \<Longrightarrow> R w w'"
    and run: "run e x (Suc n) (HandleFailure i) w = Some (res, w')"
    and ids: "ids_distinct w" and ok: "call_ok (HandleFailure i) w"
  shows "R w w'"
proof -
  obtain nx w1 where fs: "failure_step i w = (nx, w1)" by fastforce
  have step: "R w w1" "ids_distinct w1"
    using failure [OF fs] ids_fail [OF fs] run ids ok by auto
  have fin: "R w2 (dead_letter_finish e job w2)" for job w2
    by (rule quiet) (simp_all add: frames)
  show ?thesis
  proof (cases nx)
    case (Redispatch tier)
    with run ids ok fs have "run e x n (DispatchJob i tier) w1 = Some (res, w')" by simp
    from IH [OF this step(2)] step(1) show ?thesis by (auto intro: trans)
  next
    case (DeadLettered job)
    show ?thesis
    proof (cases "truthy (j_lockKey job)")
      case True
      with run ids ok fs DeadLettered obtain r2 w2 where
        rest: "run e x n (PromoteBlocked (j_projectId job) i DEAD_LETTER
                 (blocked_rows (j_projectId job) w1)) w1 = Some (r2, w2)"
        and w': "w' = w2 \<or> w' = dead_letter_finish e job w2"
        by (auto simp: Let_def split: option.splits outcome.splits)
      have "isTerminal (j_status j)" if "getById i w1 = Some j" for j
        using failure_dead [OF fs [unfolded DeadLettered] that] .
      from IH [OF rest step(2) blocked_rows_ok [OF step(2) this] permitted_other(3)] step(1) w' fin
      show ?thesis by (metis trans)
    next
      case False
      with run ids ok fs DeadLettered have "w' = dead_letter_finish e job w1" by simp
      with step(1) fin show ?thesis by (metis trans)
    qed
  qed (use run ids ok fs step in auto)
qed

lemma run_promote:
  assumes IH: "\<And>c w res w'. run e x n c w = Some (res, w') \<Longrightarrow> ids_distinct w \<Longrightarrow> call_ok c w \<Longrightarrow> permitted allowed c \<Longrightarrow> R w w'"
    and run: "run e x (Suc n) (PromoteBlocked p fid fs rows) w = Some (res, w')"
    and ids: "ids_distinct w" and ok: "call_ok (PromoteBlocked p fid fs rows) w"
  shows "R w w'"
proof -
  show ?thesis
  proof (cases rows)
    case Nil
    with run ids ok show ?thesis by (simp add: refl)
  next
    case (Cons row rest)
    define d where "d = promotion_decision p fid fs row w"
    from ok Cons
    have row: "getById (j_id row) w = Some row" "j_status row = BLOCKED" "j_projectId row = p"
      and ok_rest: "call_ok (PromoteBlocked p fid fs rest) w" by simp_all
    consider (failed) "pd_depFailed d" | (skip) "\<not> pd_depFailed d" "\<not> pd_promote d"
      | (go) "\<not> pd_depFailed d" "pd_promote d" by blast
    then show ?thesis
    proof cases
      case failed
      obtain m where m: "n = Suc m \<or> n = 0" by (metis not0_implies_Suc)
      from failed run Cons m have "w' = w"
        by (auto simp: d_def [symmetric] blocked_cannot_fail [OF row(1,2)] Let_def)
      then show ?thesis by (simp add: refl)
    next
      case skip
      with run Cons have "run e x n (PromoteBlocked p fid fs rest) w = Some (res, w')"
        by (simp add: d_def [symmetric])
      from IH [OF this ids ok_rest permitted_other(3)] show ?thesis .
    next
      case go
      with run Cons
      have "run e x n (DispatchJob (j_id row) None) (promote_row (j_id row) w) = Some (res, w')"
        by (simp add: d_def [symmetric])
      from IH [OF this] ids have "R (promote_row (j_id row) w) w'" by simp
      moreover have "R w (promote_row (j_id row) w)"
        using promoted [OF ids row(1,2), of fid fs] go row(3) ok by (simp add: d_def)
      ultimately show ?thesis by (metis trans)
    qed
  qed
qed

lemma run_respects:
  "run e x n c w = Some (res, w') \<Longrightarrow> ids_distinct w \<Longrightarrow> call_ok c w \<Longrightarrow> permitted allowed c
    \<Longrightarrow> R w w'"
proof (induction n arbitrary: c w res w')
  case 0
  then show ?case by simp
next
  case (Suc n)
  note runs = run_dispatch run_update run_failure run_promote
  show ?case
    by (cases c) (use Suc in \<open>blast intro: runs [of e x n]\<close>)+
qed

end

end
