(* ===== verification/Job_Termination.thy ===== *)
theory Job_Termination
  imports Job_Steps
begin

text \<open>
  The mutual recursion of \<open>dispatchJob\<close>, \<open>updateStatus\<close>, \<open>handleFailure\<close> and \<open>promoteBlockedJobs\<close> ends:
  every redispatch uses up an attempt of a job, and every promotion is behind a job that reached a
  final status. The potential of a world counts the attempts that are left; it bounds the depth of
  the call tree and the number of workflow dispatches.
\<close>

section \<open>Attempts that are left\<close>

definition attempts_left :: "Job \<Rightarrow> nat" where
  "attempts_left j = (if isTerminal (j_status j) then 0 else Suc (j_maxAttempts j - j_attempt j))"

definition potential :: "world \<Rightarrow> nat" where
  "potential w = sum_list (map attempts_left (jobs w))"

lemma sum_set_row:
  "row_by key k rs = Some r \<Longrightarrow>
     sum_list (map m (set_row key k f rs)) + m r = sum_list (map m rs) + (m (f r) :: nat)"
  by (induction rs) (auto split: if_splits)

lemma potential_set:
  "jobs w' = set_row j_id i f (jobs w) \<Longrightarrow> getById i w = Some j \<Longrightarrow>
     potential w' + attempts_left j = potential w + attempts_left (f j)"
  by (simp add: potential_def getById_jobs sum_set_row)

lemma potential_same: "jobs w' = jobs w \<Longrightarrow> potential w' = potential w"
  by (simp add: potential_def)

lemma potential_ge: "getById i w = Some j \<Longrightarrow> attempts_left j \<le> potential w"
  by (auto simp: potential_def getById_jobs dest!: row_by_Some intro: member_le_sum_list)

lemma attempts_left_cong:
  "j_attempt j' = j_attempt j \<Longrightarrow> j_maxAttempts j' = j_maxAttempts j \<Longrightarrow>
   isTerminal (j_status j') = isTerminal (j_status j) \<Longrightarrow> attempts_left j' = attempts_left j"
  by (simp add: attempts_left_def)

lemma dispatchable_open: "dispatchable s \<Longrightarrow> \<not> isTerminal s"
  by (auto simp: dispatchable_def)

lemma retriable_open: "isRetriableFailure s \<Longrightarrow> \<not> isTerminal s"
  by (auto dest: terminal_not_retriable)

lemma potential_shape:
  assumes "dispatch_shape i w r w'" "getById i w = Some job" "dispatchable (j_status job)"
  shows "potential w' = potential w" "length (jobs w') = length (jobs w)"
proof -
  have rc: "row_change i {BLOCKED, DISPATCHING} w w'" using assms(1) by (simp add: dispatch_shape_def)
  then show "length (jobs w') = length (jobs w)" by (auto simp: row_change_def)
  from rc consider "jobs w' = jobs w" | f where "jobs w' = set_row j_id i f (jobs w)"
      "same_but_status job (f job)" "j_status (f job) \<in> {BLOCKED, DISPATCHING}"
    unfolding row_change_def by blast
  then show "potential w' = potential w"
  proof cases
    case 1
    then show ?thesis by (rule potential_same)
  next
    case 2
    have "attempts_left (f job) = attempts_left job"
      using 2(2,3) dispatchable_open [OF assms(3)]
      by (intro attempts_left_cong) (auto simp: same_but_status_def)
    with potential_set [OF 2(1) assms(2)] show ?thesis by simp
  qed
qed

lemma potential_attempt:
  assumes "dispatch_attempt e x i pref w = (r, w')"
  shows "potential w' = potential w \<and> length (jobs w') = length (jobs w)"
  using assms
proof (cases rule: dispatch_attempt_cases)
  case (blocked job m)
  have "attempts_left (job\<lparr>j_status := BLOCKED, j_metadata := jsonb_concat (j_metadata job) m,
                          j_updatedAt := now w\<rparr>) = attempts_left job"
    by (rule attempts_left_cong) (simp_all add: dispatchable_open [OF blocked(2)])
  with potential_set [OF block_job_jobs blocked(1), of m] blocked show ?thesis
    by (simp add: block_job_jobs)
next
  case (started job)
  then show ?thesis by (simp add: potential_shape [OF started(4,1,2)])
qed simp_all

lemma terminal_closed:
  "isTerminal s \<Longrightarrow> s' = s \<or> canTransitionJobStatus s s' \<Longrightarrow> s' = s"
  by (auto simp: terminal_iff_no_exit canTransitionJobStatus_def split: if_splits)

lemma potential_write:
  assumes "status_write x i u w = (r, w')"
  shows "potential w' \<le> potential w \<and> length (jobs w') = length (jobs w)
    \<and> (\<not> isTerminal (u_status u) \<longrightarrow> potential w' = potential w)"
  using assms
proof (cases rule: status_write_cases)
  case (threw err)
  then show ?thesis using potential_same [OF threw(2)] by simp
next
  case (written job t)
  have "attempts_left (apply_update u t job) \<le> attempts_left job
      \<and> (\<not> isTerminal (u_status u) \<longrightarrow> attempts_left (apply_update u t job) = attempts_left job)"
    using terminal_closed [OF _ written(3)] by (auto simp: attempts_left_def)
  with potential_set [OF written(4,1)] written(4) show ?thesis by auto
qed

lemma potential_fail:
  assumes "failure_step i w = (r, w')" and "call_ok (HandleFailure i) w"
    and "r \<noteq> NoSuchJob" "r \<noteq> TxFailed"
  shows "Suc (potential w') \<le> potential w \<and> length (jobs w') = length (jobs w)"
  using assms(1)
proof (cases rule: failure_step_cases)
  case gone
  with assms show ?thesis by auto
next
  case (again job tier)
  have "\<not> isTerminal (j_status job)" using assms(2) again(1) by (auto dest: retriable_open)
  then have "Suc (attempts_left (retry_row (j_attempt job) (now w) job)) = attempts_left job"
    using again(2) by (simp add: attempts_left_def retry_row_def)
  moreover have "jobs w' = set_row j_id i (retry_row (j_attempt job) (now w)) (jobs w)"
    using again(4) by (simp add: frames)
  ultimately show ?thesis using potential_set [of w' i _ w job, OF _ again(1)] by fastforce
next
  case (dead job)
  have "\<not> isTerminal (j_status job)" using assms(2) dead(1) by (auto dest: retriable_open)
  then have "attempts_left job \<ge> 1" "attempts_left (dead_letter_row (now w) job) = 0"
    by (simp_all add: attempts_left_def dead_letter_row_def)
  with potential_set [OF dead(4,1)] dead(4) show ?thesis by auto
qed

lemma potential_promote:
  assumes "getById i w = Some row" "j_status row = BLOCKED"
  shows "potential (promote_row i w) = potential w" "length (jobs (promote_row i w)) = length (jobs w)"
proof -
  have "attempts_left (row\<lparr>j_status := QUEUED, j_blockedByJobId := None,
           j_estimatedWaitSeconds := Some 0, j_updatedAt := now w\<rparr>) = attempts_left row"
    by (rule attempts_left_cong) (simp_all add: assms)
  with potential_set [OF promote_row_jobs assms(1)] show "potential (promote_row i w) = potential w" by simp
  show "length (jobs (promote_row i w)) = length (jobs w)" by (simp add: promote_row_jobs)
qed

section \<open>Depth of the call tree\<close>

text \<open>\<open>depth m l\<close>: the bound for a dispatch with \<open>m\<close> attempts left among \<open>l\<close> jobs.\<close>

definition depth :: "nat \<Rightarrow> nat \<Rightarrow> nat" where
  "depth m l = (l + 4) * m + 1"

lemma depth_Suc: "Suc m' \<le> m \<Longrightarrow> depth m' l + l + 4 \<le> depth m l"
proof -
  assume "Suc m' \<le> m"
  then have "(l + 4) * Suc m' \<le> (l + 4) * m" by (rule mult_le_mono2)
  then show ?thesis by (simp add: depth_def)
qed

text \<open>Sharper bounds: an update that fails ends at once, a retriable one goes on to \<open>handleFailure\<close>.\<close>

definition update_bound :: "ext \<Rightarrow> string \<Rightarrow> JobStatusUpdate \<Rightarrow> bool \<Rightarrow> world \<Rightarrow> nat" where
  "update_bound x i u skip w =
     (if throws (fst (status_write x i u w)) then 1
      else if isRetriableFailure (u_status u) \<and> \<not> skip then max 1 (depth (potential w) (length (jobs w)) - 1)
      else depth (potential w) (length (jobs w)) + length (jobs w) + 2)"

fun need :: "ext \<Rightarrow> call \<Rightarrow> world \<Rightarrow> nat" where
  "need x (DispatchJob i pref) w = depth (potential w) (length (jobs w))"
| "need x (UpdateStatus i u skip) w = update_bound x i u skip w"
| "need x (HandleFailure i) w = max 1 (depth (potential w) (length (jobs w)) - 2)"
| "need x (PromoteBlocked p fid fs rows) w = length rows + depth (potential w) (length (jobs w)) + 1"

lemma need_positive: "0 < need x c w"
  by (cases c) (auto simp: update_bound_def depth_def)

lemma length_blocked: "length (blocked_rows p w) \<le> length (jobs w)"
  by (simp add: blocked_rows_def)

definition enough :: "env \<Rightarrow> ext \<Rightarrow> nat \<Rightarrow> bool" where
  "enough e x n = (\<forall>c w. need x c w \<le> n \<longrightarrow> ids_distinct w \<longrightarrow> call_ok c w \<longrightarrow> run e x n c w \<noteq> None)"

lemma enoughD: "enough e x n \<Longrightarrow> need x c w \<le> n \<Longrightarrow> ids_distinct w \<Longrightarrow> call_ok c w
    \<Longrightarrow> \<exists>res w'. run e x n c w = Some (res, w')"
  unfolding enough_def by (metis not_Some_eq surj_pair)

lemma enough_dispatch:
  assumes IH: "enough e x n" and need: "need x (DispatchJob i pref) w \<le> Suc n" and ids: "ids_distinct w"
  shows "run e x (Suc n) (DispatchJob i pref) w \<noteq> None"
proof -
  obtain nx w1 where at: "dispatch_attempt e x i pref w = (nx, w1)" by fastforce
  have same: "potential w1 = potential w" "length (jobs w1) = length (jobs w)" "ids_distinct w1"
    using potential_attempt [OF at] ids_attempt [OF at] ids by simp_all
  show ?thesis
  proof (cases nx)
    case (UpdateThen u)
    from at have "need x (UpdateStatus i u False) w1 \<le> n"
    proof (cases rule: dispatch_attempt_cases)
      case (dep_failed job why)
      have up: "u = error_update DEP_FAILED E011 why" using dep_failed UpdateThen by simp
      have pos: "0 < potential w"
        using potential_ge [OF dep_failed(1)] dispatchable_open [OF dep_failed(2)]
        by (simp add: attempts_left_def)
      have "j_status job \<noteq> DEP_FAILED" using dep_failed(2) by (auto simp: dispatchable_def)
      then have "throws (fst (status_write x i u w))"
        using dep_failed(1) by (simp add: up status_write_def error_update_def empty_update_def
            no_transition_into_DEP_FAILED)
      then show ?thesis using need pos dep_failed(3) by (cases "potential w") (auto simp: update_bound_def depth_def)
    next
      case (started job)
      then obtain c d where up: "u = error_update DISPATCH_FAILED c d"
        using UpdateThen by (auto simp: dispatch_shape_def)
      have pos: "0 < potential w"
        using potential_ge [OF started(1)] dispatchable_open [OF started(2)]
        by (simp add: attempts_left_def)
      then have "2 \<le> depth (potential w) (length (jobs w))" by (cases "potential w") (auto simp: depth_def)
      with need same show ?thesis
        by (auto simp: update_bound_def up error_update_def empty_update_def)
    qed (use UpdateThen in auto)
    with enoughD [OF IH this same(3)] at UpdateThen show ?thesis by fastforce
  qed (simp_all add: at)
qed

lemma depth_mono: "m \<le> m' \<Longrightarrow> depth m l \<le> depth m' l"
  by (simp add: depth_def)

lemma depth_pos: "0 < m \<Longrightarrow> l + 5 \<le> depth m l"
  by (cases m) (auto simp: depth_def)

lemma enough_update:
  assumes IH: "enough e x n" and need: "need x (UpdateStatus i u skip) w \<le> Suc n" and ids: "ids_distinct w"
  shows "run e x (Suc n) (UpdateStatus i u skip) w \<noteq> None"
proof -
  obtain r1 w1 where wr: "status_write x i u w = (r1, w1)" by fastforce
  have pw: "potential w1 \<le> potential w" "length (jobs w1) = length (jobs w)"
      "\<not> isTerminal (u_status u) \<Longrightarrow> potential w1 = potential w" "ids_distinct w1"
    using potential_write [OF wr] ids_write [OF wr] ids by auto
  from wr show ?thesis
  proof (cases rule: status_write_cases)
    case (threw err)
    with wr show ?thesis by simp
  next
    case (written job t)
    have now: "getById i w1 = Some (apply_update u t job)"
      using written by (simp add: getById_set [OF written(4)])
    consider (fail) "isRetriableFailure (u_status u)" "\<not> skip"
      | (final) "\<not> (isRetriableFailure (u_status u) \<and> \<not> skip)" "isTerminal (u_status u)" "truthy (j_lockKey job)"
      | (plain) "\<not> (isRetriableFailure (u_status u) \<and> \<not> skip)" "\<not> (isTerminal (u_status u) \<and> truthy (j_lockKey job))"
      by blast
    then show ?thesis
    proof cases
      case fail
      then have "\<not> isTerminal (u_status u)" by (simp add: retriable_open)
      then have pos: "0 < potential w1"
        using potential_ge [OF now] by (simp add: attempts_left_def)
      have ok: "call_ok (HandleFailure i) w1" using now fail by simp
      have "need x (HandleFailure i) w1 \<le> n"
        using need fail pw depth_pos [OF pos, of "length (jobs w)"] pos \<open>\<not> isTerminal (u_status u)\<close>
        by (simp add: update_bound_def wr written(2))
      from enoughD [OF IH this pw(4) ok] fail wr written show ?thesis
        by (auto simp: Let_def split: outcome.splits prod.splits)
    next
      case final
      define w2 where "w2 = release_job_locks job w1"
      have w2: "jobs w2 = jobs w1" "ids_distinct w2"
        using pw(4) by (auto simp: w2_def frames intro: ids_same [THEN iffD2])
      let ?c = "PromoteBlocked (j_projectId job) i (u_status u) (blocked_rows (j_projectId job) w2)"
      have "need x ?c w2 \<le> n"
        using need final pw(1,2) depth_mono [OF pw(1), of "length (jobs w)"] w2(1)
          length_blocked [of "j_projectId job" w2] potential_same [OF w2(1)]
        by (auto simp: update_bound_def wr written(2) split: if_splits)
      moreover have "getById i w2 = Some (apply_update u t job)"
        using now w2(1) by (simp add: getById_jobs)
      then have "call_ok ?c w2" using final(2) by (intro blocked_rows_ok [OF w2(2)]) simp
      ultimately obtain res w' where "run e x n ?c w2 = Some (res, w')"
        using enoughD [OF IH _ w2(2)] by blast
      with final wr written show ?thesis
        by (auto simp: Let_def w2_def split: outcome.splits prod.splits)
    next
      case plain
      with wr written show ?thesis by (auto simp: Let_def split: prod.splits)
    qed
  qed
qed

lemma enough_failure:
  assumes IH: "enough e x n" and need: "need x (HandleFailure i) w \<le> Suc n" and ids: "ids_distinct w"
    and ok: "call_ok (HandleFailure i) w"
  shows "run e x (Suc n) (HandleFailure i) w \<noteq> None"
proof -
  obtain nx w1 where fs: "failure_step i w = (nx, w1)" by fastforce
  have ids1: "ids_distinct w1" using ids_fail [OF fs] ids by simp
  have drop: "depth (potential w1) (length (jobs w1)) + length (jobs w1) + 4
      \<le> depth (potential w) (length (jobs w))" if "nx \<noteq> NoSuchJob" "nx \<noteq> TxFailed"
    using potential_fail [OF fs ok that] depth_Suc by metis
  show ?thesis
  proof (cases nx)
    case (Redispatch tier)
    have "need x (DispatchJob i tier) w1 \<le> n" using drop need Redispatch by simp
    from enoughD [OF IH this ids1] fs Redispatch show ?thesis by auto
  next
    case (DeadLettered job)
    let ?c = "PromoteBlocked (j_projectId job) i DEAD_LETTER (blocked_rows (j_projectId job) w1)"
    have "need x ?c w1 \<le> n"
      using drop need DeadLettered length_blocked [of "j_projectId job" w1] by simp
    from enoughD [OF IH this ids1 blocked_rows_ok [OF ids1 failure_dead [OF fs [unfolded DeadLettered]]]]
      fs DeadLettered show ?thesis
      by (auto simp: Let_def split: outcome.splits)
  qed (simp_all add: fs)
qed

lemma enough_promote:
  assumes IH: "enough e x n" and need: "need x (PromoteBlocked p fid fs rows) w \<le> Suc n"
    and ids: "ids_distinct w" and ok: "call_ok (PromoteBlocked p fid fs rows) w"
  shows "run e x (Suc n) (PromoteBlocked p fid fs rows) w \<noteq> None"
proof (cases rows)
  case Nil
  then show ?thesis by simp
next
  case (Cons row rest)
  from ok Cons have row: "getById (j_id row) w = Some row" "j_status row = BLOCKED"
    and ok_rest: "call_ok (PromoteBlocked p fid fs rest) w" by simp_all
  define d where "d = promotion_decision p fid fs row w"
  have skip: "run e x n (PromoteBlocked p fid fs rest) w \<noteq> None"
    using enoughD [OF IH _ ids ok_rest] need Cons by simp
  have "need x (DispatchJob (j_id row) None) (promote_row (j_id row) w) \<le> n"
    using need Cons potential_promote [OF row] by simp
  then have go: "run e x n (DispatchJob (j_id row) None) (promote_row (j_id row) w) \<noteq> None"
    using enoughD [OF IH] ids by fastforce
  obtain m where "n = Suc m" using need Cons depth_def by (cases n) auto
  then have "run e x n (UpdateStatus (j_id row) (error_update DEP_FAILED c why) False) w
      = Some (Throw (invalid_transition BLOCKED DEP_FAILED), w)" for c why
    by (simp add: blocked_cannot_fail [OF row])
  with skip go Cons show ?thesis by (auto simp: d_def [symmetric] Let_def)
qed

lemma enough_all: "enough e x n"
proof (induction n)
  case 0
  have "\<not> need x c w \<le> 0" for c w using need_positive [of x c w] by simp
  then show ?case unfolding enough_def by blast
next
  case (Suc n)
  show ?case unfolding enough_def
  proof (intro allI impI)
    fix c w assume a: "need x c w \<le> Suc n" "ids_distinct w" "call_ok c w"
    show "run e x (Suc n) c w \<noteq> None"
    proof (cases c)
      case (DispatchJob i pref)
      with enough_dispatch [OF Suc] a show ?thesis by blast
    next
      case (UpdateStatus i u skip)
      with enough_update [OF Suc] a show ?thesis by blast
    next
      case (HandleFailure i)
      with enough_failure [OF Suc] a show ?thesis by blast
    next
      case (PromoteBlocked p fid fs rows)
      with enough_promote [OF Suc] a show ?thesis by blast
    qed
  qed
qed

text \<open>More fuel does not change a result.\<close>

lemma run_Suc: "run e x n c w = Some r \<Longrightarrow> run e x (Suc n) c w = Some r"
proof (induction n arbitrary: c w r)
  case 0
  then show ?case by simp
next
  case (Suc n)
  note IH = Suc.IH and run = Suc.prems
  note [simp del] = run.simps(2,3,4,6)
  show ?case
  proof (cases c)
    case (DispatchJob i pref)
    show ?thesis
      using run unfolding DispatchJob run.simps(2) [of e x n] run.simps(2) [of e x "Suc n"]
      by (auto dest: IH split: prod.splits dispatch_next.splits)
  next
    case (UpdateStatus i u skip)
    obtain r1 w1 where wr: "status_write x i u w = (r1, w1)" by fastforce
    show ?thesis
      using run unfolding UpdateStatus run.simps(3) [of e x n] run.simps(3) [of e x "Suc n"] wr
      by (cases r1) (auto simp: Let_def split: option.splits outcome.splits if_splits dest: IH)
  next
    case (HandleFailure i)
    obtain nx w1 where fs: "failure_step i w = (nx, w1)" by fastforce
    show ?thesis
      using run unfolding HandleFailure run.simps(4) [of e x n] run.simps(4) [of e x "Suc n"] fs
      by (cases nx) (auto simp: Let_def split: option.splits outcome.splits if_splits dest: IH)
  next
    case (PromoteBlocked p fid fs rows)
    show ?thesis
    proof (cases rows)
      case Nil
      with run PromoteBlocked show ?thesis by simp
    next
      case (Cons row rest)
      define d where "d = promotion_decision p fid fs row w"
      define up where "up = error_update DEP_FAILED E011 (or_default (pd_reason d)
          (''Dependency job '' @ or_default (j_dependsOnJobId row) [] @ '' ended with non-COMPLETED status''))"
      note unf = PromoteBlocked Cons run.simps(6) [of e x n] run.simps(6) [of e x "Suc n"]
        d_def [symmetric] up_def [symmetric] Let_def
      show ?thesis
      proof (cases "pd_depFailed d")
        case True
        with run obtain r1 w1 where up: "run e x n (UpdateStatus (j_id row) up False) w = Some (r1, w1)"
          unfolding unf by (auto split: option.splits)
        show ?thesis using run True IH [OF up] up unfolding unf
          by (cases r1) (auto dest: IH)
      next
        case False
        with run show ?thesis unfolding unf by (auto dest: IH)
      qed
    qed
  qed
qed

lemma run_mono: "run e x n c w = Some r \<Longrightarrow> n \<le> m \<Longrightarrow> run e x m c w = Some r"
  by (induction m) (auto simp: le_Suc_eq simp del: run.simps intro: run_Suc)

end
