(* ===== verification/Job_Safety.thy ===== *)
theory Job_Safety
  imports Job_Termination
begin

text \<open>
  What the job service guarantees: every call ends, the number of workflow dispatches is bounded by
  the attempts that are left, finished jobs stay finished, dependencies gate every dispatch, and a
  project has one active job. Each global property is an interpretation of \<open>service_relation\<close>.
\<close>

section \<open>What happens to a job row\<close>

definition job_kept :: "Job \<Rightarrow> Job \<Rightarrow> bool" where
  "job_kept j j' =
     (j_projectId j' = j_projectId j \<and> j_dependsOnJobId j' = j_dependsOnJobId j
      \<and> j_maxAttempts j' = j_maxAttempts j
      \<and> j_attempt j \<le> j_attempt j' \<and> (j_attempt j' = j_attempt j \<or> j_attempt j' \<le> j_maxAttempts j)
      \<and> (isTerminal (j_status j) \<longrightarrow> j_status j' = j_status j))"

definition kept_jobs :: "world \<Rightarrow> world \<Rightarrow> bool" where
  "kept_jobs w w' =
     (map j_id (jobs w') = map j_id (jobs w)
      \<and> (\<forall>i j. getById i w = Some j \<longrightarrow> (\<exists>j'. getById i w' = Some j' \<and> job_kept j j')))"

lemma job_kept_refl [simp]: "job_kept j j"
  by (simp add: job_kept_def)

lemma job_kept_trans: "job_kept j k \<Longrightarrow> job_kept k l \<Longrightarrow> job_kept j l"
  by (auto simp: job_kept_def)

lemma kept_trans: "kept_jobs u v \<Longrightarrow> kept_jobs v w \<Longrightarrow> kept_jobs u w"
  unfolding kept_jobs_def by (metis job_kept_trans)

lemma kept_same: "jobs w' = jobs w \<Longrightarrow> kept_jobs w w'"
  by (simp add: kept_jobs_def getById_jobs)

lemma keptD: "kept_jobs w w' \<Longrightarrow> getById i w = Some j \<Longrightarrow> \<exists>j'. getById i w' = Some j' \<and> job_kept j j'"
  by (simp add: kept_jobs_def)

lemma kept_set:
  assumes "jobs w' = set_row j_id i f (jobs w)" "\<And>j. j_id (f j) = j_id j"
    and "getById i w = Some job" "job_kept job (f job)"
  shows "kept_jobs w w'"
proof -
  have "getById k w' = (if k = i then map_option f (getById i w) else getById k w)" for k
    by (rule getById_set [OF assms(1,2)])
  then show ?thesis using assms by (auto simp: kept_jobs_def map_set_row)
qed

lemma row_change_cases:
  assumes "row_change i S w w'" and "getById i w = Some job"
  obtains (same) "jobs w' = jobs w"
  | (set) f where "jobs w' = set_row j_id i f (jobs w)" "\<And>j. j_id (f j) = j_id j"
      "same_but_status job (f job)" "j_status (f job) \<in> S"
  using assms unfolding row_change_def same_but_status_def by blast

lemma shape_row: "dispatch_shape i w r w' \<Longrightarrow> row_change i {BLOCKED, DISPATCHING} w w'"
  by (simp add: dispatch_shape_def)

lemma kept_shape:
  assumes "dispatch_shape i w r w'" "getById i w = Some job" "dispatchable (j_status job)"
  shows "kept_jobs w w'"
  using shape_row [OF assms(1)] assms(2)
proof (cases rule: row_change_cases)
  case same
  then show ?thesis by (rule kept_same)
next
  case (set f)
  then show ?thesis
    using dispatchable_open [OF assms(3)]
    by (intro kept_set [OF set(1,2) assms(2)]) (auto simp: same_but_status_def job_kept_def)
qed

lemma kept_block: "getById i w = Some job \<Longrightarrow> dispatchable (j_status job) \<Longrightarrow> kept_jobs w (block_job i m w)"
  by (rule kept_set [OF block_job_jobs]) (auto simp: job_kept_def dest: dispatchable_open)

lemma kept_write:
  assumes "getById i w = Some job"
    and "u_status u = j_status job \<or> canTransitionJobStatus (j_status job) (u_status u)"
    and "jobs w' = set_row j_id i (apply_update u t) (jobs w)"
  shows "kept_jobs w w'"
  using terminal_closed [OF _ assms(2)]
  by (intro kept_set [OF assms(3) _ assms(1)]) (auto simp: job_kept_def)

lemma kept_retry:
  assumes "getById i w = Some job" "isRetriableFailure (j_status job)" "j_attempt job < j_maxAttempts job"
  shows "kept_jobs w (set_job i (retry_row (j_attempt job) (now w)) w)"
  using assms retriable_open [OF assms(2)]
  by (intro kept_set [OF set_job_frame(1) _ assms(1)]) (auto simp: job_kept_def retry_row_def)

lemma kept_dead:
  assumes "getById i w = Some job" "isRetriableFailure (j_status job)"
    and "jobs w' = set_row j_id i (dead_letter_row t) (jobs w)"
  shows "kept_jobs w w'"
  using retriable_open [OF assms(2)]
  by (intro kept_set [OF assms(3) _ assms(1)]) (auto simp: job_kept_def dead_letter_row_def)

lemma kept_promote:
  "getById i w = Some row \<Longrightarrow> j_status row = BLOCKED \<Longrightarrow> kept_jobs w (promote_row i w)"
  by (rule kept_set [OF promote_row_jobs]) (auto simp: job_kept_def)

lemma promote_calls [frames]: "workflow_calls (promote_row i w) = workflow_calls w"
  by (simp add: promote_row_def frames)

lemmas kept_steps = kept_shape kept_block kept_write kept_retry kept_dead kept_promote

interpretation kept: service_relation kept_jobs "\<lambda>u. True"
  by unfold_locales (auto intro: kept_trans kept_same kept_steps)

section \<open>Dependencies\<close>

definition dep_completed :: "Job \<Rightarrow> world \<Rightarrow> bool" where
  "dep_completed j w =
     (truthy (j_dependsOnJobId j) \<longrightarrow>
        (\<exists>d. getById (the (j_dependsOnJobId j)) w = Some d \<and> j_projectId d = j_projectId j
             \<and> j_status d = COMPLETED))"

definition calls_ready :: "world \<Rightarrow> world \<Rightarrow> bool" where
  "calls_ready w w' =
     (kept_jobs w w' \<and>
      (\<exists>cs. workflow_calls w' = cs @ workflow_calls w
         \<and> (\<forall>c \<in> set cs. \<exists>j. getById (di_jobId c) w' = Some j \<and> dep_completed j w')))"

lemma gate_dep_completed: "dependency_gate j w = Allow \<Longrightarrow> dep_completed j w"
  by (auto simp: dependency_gate_def dep_completed_def gate_view_def evaluateDependencyGate_def
      split: if_splits option.splits)

lemma dep_completed_kept:
  assumes "kept_jobs w w'" "dep_completed j w" "job_kept j j'"
  shows "dep_completed j' w'"
  using assms keptD [OF assms(1)] unfolding dep_completed_def job_kept_def by fastforce

lemma ready_trans:
  assumes "calls_ready u v" "calls_ready v w" shows "calls_ready u w"
proof -
  from assms obtain cs ds where cs: "workflow_calls v = cs @ workflow_calls u"
      "\<forall>c \<in> set cs. \<exists>j. getById (di_jobId c) v = Some j \<and> dep_completed j v"
    and ds: "workflow_calls w = ds @ workflow_calls v"
      "\<forall>c \<in> set ds. \<exists>j. getById (di_jobId c) w = Some j \<and> dep_completed j w"
    and kept: "kept_jobs u v" "kept_jobs v w"
    unfolding calls_ready_def by blast
  have "\<exists>j. getById (di_jobId c) w = Some j \<and> dep_completed j w" if "c \<in> set cs" for c
    using cs(2) that keptD [OF kept(2)] dep_completed_kept [OF kept(2)] by metis
  then have "\<forall>c \<in> set (ds @ cs). \<exists>j. getById (di_jobId c) w = Some j \<and> dep_completed j w"
    using ds(2) by auto
  moreover have "workflow_calls w = (ds @ cs) @ workflow_calls u" using cs(1) ds(1) by simp
  ultimately show ?thesis using kept_trans [OF kept] unfolding calls_ready_def by blast
qed

lemma ready_no_call: "kept_jobs w w' \<Longrightarrow> workflow_calls w' = workflow_calls w \<Longrightarrow> calls_ready w w'"
  by (simp add: calls_ready_def)

lemma ready_shape:
  assumes "getById i w = Some job" "dispatchable (j_status job)" "dependency_gate job w = Allow"
    and "dispatch_shape i w r w'"
  shows "calls_ready w w'"
proof -
  have kept: "kept_jobs w w'" by (rule kept_shape [OF assms(4,1,2)])
  obtain j' where j': "getById i w' = Some j'" "job_kept job j'" using keptD [OF kept assms(1)] by blast
  have "dep_completed j' w'"
    by (rule dep_completed_kept [OF kept gate_dep_completed [OF assms(3)] j'(2)])
  with j'(1) kept assms(4) show ?thesis
    unfolding calls_ready_def dispatch_shape_def by (metis append_Cons append_Nil list.set_intros(1) set_ConsD empty_iff list.set(1))
qed

interpretation ready: service_relation calls_ready "\<lambda>u. True"
  by unfold_locales
     (auto intro: ready_trans ready_shape ready_no_call kept_same kept_steps
       simp: frames)

section \<open>How many workflows a call may dispatch\<close>

fun call_budget :: "call \<Rightarrow> world \<Rightarrow> nat" where
  "call_budget (DispatchJob i pref) w = potential w"
| "call_budget (UpdateStatus i u skip) w =
     (if isRetriableFailure (u_status u) \<and> \<not> skip then potential w - 1 else potential w)"
| "call_budget (HandleFailure i) w = potential w - 1"
| "call_budget (PromoteBlocked p fid fs rows) w = potential w"

definition calls_made :: "world \<Rightarrow> nat" where
  "calls_made w = length (workflow_calls w)"

definition within_budget :: "env \<Rightarrow> ext \<Rightarrow> nat \<Rightarrow> bool" where
  "within_budget e x n =
     (\<forall>c w res w'. run e x n c w = Some (res, w') \<longrightarrow> ids_distinct w \<longrightarrow> call_ok c w
        \<longrightarrow> calls_made w' \<le> calls_made w + call_budget c w)"

lemma budgetD: "within_budget e x n \<Longrightarrow> run e x n c w = Some (res, w') \<Longrightarrow> ids_distinct w \<Longrightarrow> call_ok c w
    \<Longrightarrow> calls_made w' \<le> calls_made w + call_budget c w"
  unfolding within_budget_def by blast

lemma calls_made_frames [frames]:
  "calls_made (snd (update_finish e cur u w)) = calls_made w"
  "calls_made (dead_letter_finish e job w) = calls_made w"
  "calls_made (release_job_locks job w) = calls_made w" "calls_made (promote_row i w) = calls_made w"
  by (simp_all add: calls_made_def frames)

lemma budget_dispatch:
  assumes IH: "within_budget e x n" and run: "run e x (Suc n) (DispatchJob i pref) w = Some (res, w')"
    and ids: "ids_distinct w"
  shows "calls_made w' \<le> calls_made w + potential w"
proof -
  obtain nx w1 where at: "dispatch_attempt e x i pref w = (nx, w1)" by fastforce
  note same = potential_attempt [OF at] and ids1 = ids_attempt [OF at]
  have rest: "calls_made w' \<le> calls_made w1 + call_budget (UpdateStatus i u False) w1"
    if "nx = UpdateThen u" for u
    using budgetD [OF IH, of "UpdateStatus i u False" w1] that run at ids ids1 by simp
  have stop: "w' = w1" if "\<And>u. nx \<noteq> UpdateThen u" using run at that by (cases nx) auto
  from at show ?thesis
  proof (cases rule: dispatch_attempt_cases)
    case quiet
    then show ?thesis using stop by auto
  next
    case (dep_failed job why)
    then show ?thesis using rest [OF dep_failed(5)] by (simp split: if_splits)
  next
    case (blocked job m)
    then show ?thesis using stop by (simp add: calls_made_def frames)
  next
    case (started job)
    have pos: "0 < potential w"
      using potential_ge [OF started(1)] dispatchable_open [OF started(2)] by (simp add: attempts_left_def)
    have one: "calls_made w1 \<le> calls_made w + 1"
      using started(4) by (auto simp: dispatch_shape_def calls_made_def)
    show ?thesis
    proof (cases "\<exists>u. nx = UpdateThen u")
      case True
      then obtain c d where u: "nx = UpdateThen (error_update DISPATCH_FAILED c d)"
        using started(4) by (auto simp: dispatch_shape_def)
      show ?thesis using rest [OF u] one pos same by (simp add: error_update_def empty_update_def)
    next
      case False
      then show ?thesis using stop one pos by auto
    qed
  qed
qed

lemma budget_update:
  assumes IH: "within_budget e x n" and run: "run e x (Suc n) (UpdateStatus i u skip) w = Some (res, w')"
    and ids: "ids_distinct w"
  shows "calls_made w' \<le> calls_made w + call_budget (UpdateStatus i u skip) w"
proof -
  obtain r1 w1 where wr: "status_write x i u w = (r1, w1)" by fastforce
  have pw: "potential w1 \<le> potential w" "ids_distinct w1"
    using potential_write [OF wr] ids_write [OF wr] ids by auto
  from wr show ?thesis
  proof (cases rule: status_write_cases)
    case (threw err)
    with run wr show ?thesis by (simp add: calls_made_def)
  next
    case (written job t)
    have now: "getById i w1 = Some (apply_update u t job)"
      using written by (simp add: getById_set [OF written(4)])
    have made: "calls_made w1 = calls_made w" using written(5) by (simp add: calls_made_def)
    consider (fail) "isRetriableFailure (u_status u)" "\<not> skip"
      | (final) "\<not> (isRetriableFailure (u_status u) \<and> \<not> skip)" "isTerminal (u_status u)" "truthy (j_lockKey job)"
      | (plain) "\<not> (isRetriableFailure (u_status u) \<and> \<not> skip)" "\<not> (isTerminal (u_status u) \<and> truthy (j_lockKey job))"
      by blast
    then show ?thesis
    proof cases
      case fail
      with run wr written obtain r3 w3 where rest: "run e x n (HandleFailure i) w1 = Some (r3, w3)"
        and w': "w' = w3 \<or> w' = snd (update_finish e job u w3)"
        by (auto simp: Let_def split: option.splits outcome.splits prod.splits)
      have "call_ok (HandleFailure i) w1" using now fail by simp
      from budgetD [OF IH rest pw(2) this] w' made pw(1) fail show ?thesis by (auto simp: frames)
    next
      case final
      define w2 where "w2 = release_job_locks job w1"
      have w2: "jobs w2 = jobs w1" "calls_made w2 = calls_made w1" by (simp_all add: w2_def frames)
      have ids2: "ids_distinct w2" using pw(2) ids_same [OF w2(1)] by simp
      from final run wr written obtain r3 w3 where
        rest: "run e x n (PromoteBlocked (j_projectId job) i (u_status u)
                 (blocked_rows (j_projectId job) w2)) w2 = Some (r3, w3)"
        and w': "w' = w3 \<or> w' = snd (update_finish e job u w3)"
        by (auto simp: Let_def w2_def split: option.splits outcome.splits prod.splits if_splits)
      have "getById i w2 = Some (apply_update u t job)" using now w2(1) by (simp add: getById_jobs)
      then have "call_ok (PromoteBlocked (j_projectId job) i (u_status u) (blocked_rows (j_projectId job) w2)) w2"
        using final(2) by (intro blocked_rows_ok [OF ids2]) simp
      from budgetD [OF IH rest ids2 this] w' w2 made pw(1) potential_same [OF w2(1)] final(1)
      show ?thesis by (auto simp: frames)
    next
      case plain
      with run wr written have "w' = snd (update_finish e job u w1)"
        by (auto simp: Let_def split: prod.splits if_splits)
      then show ?thesis by (simp add: frames made)
    qed
  qed
qed

lemma budget_failure:
  assumes IH: "within_budget e x n" and run: "run e x (Suc n) (HandleFailure i) w = Some (res, w')"
    and ids: "ids_distinct w" and ok: "call_ok (HandleFailure i) w"
  shows "calls_made w' \<le> calls_made w + (potential w - 1)"
proof -
  obtain nx w1 where fs: "failure_step i w = (nx, w1)" by fastforce
  have ids1: "ids_distinct w1" using ids_fail [OF fs] ids by simp
  have drop: "potential w1 \<le> potential w - 1" if "nx \<noteq> NoSuchJob" "nx \<noteq> TxFailed"
    using potential_fail [OF fs ok that, THEN conjunct1] by arith
  have made: "calls_made w1 = calls_made w"
    using fs by (cases rule: failure_step_cases) (simp_all add: calls_made_def frames)
  show ?thesis
  proof (cases nx)
    case (Redispatch tier)
    with run fs have "run e x n (DispatchJob i tier) w1 = Some (res, w')" by simp
    from budgetD [OF IH this ids1] drop made Redispatch show ?thesis by simp
  next
    case (DeadLettered job)
    let ?c = "PromoteBlocked (j_projectId job) i DEAD_LETTER (blocked_rows (j_projectId job) w1)"
    have ok1: "call_ok ?c w1"
      by (rule blocked_rows_ok [OF ids1 failure_dead [OF fs [unfolded DeadLettered]]])
    show ?thesis
    proof (cases "truthy (j_lockKey job)")
      case True
      with run fs DeadLettered obtain r2 w2 where rest: "run e x n ?c w1 = Some (r2, w2)"
        and w': "calls_made w' = calls_made w2"
        by (auto simp: Let_def frames split: option.splits outcome.splits)
      from budgetD [OF IH rest ids1 ok1] w' made drop DeadLettered show ?thesis by simp
    next
      case False
      with run fs DeadLettered have "w' = dead_letter_finish e job w1" by simp
      then show ?thesis by (simp add: frames made)
    qed
  qed (use run fs made in auto)
qed

lemma budget_promote:
  assumes IH: "within_budget e x n" and run: "run e x (Suc n) (PromoteBlocked p fid fs rows) w = Some (res, w')"
    and ids: "ids_distinct w" and ok: "call_ok (PromoteBlocked p fid fs rows) w"
  shows "calls_made w' \<le> calls_made w + potential w"
proof (cases rows)
  case Nil
  with run show ?thesis by simp
next
  case (Cons row rest)
  from ok Cons have row: "getById (j_id row) w = Some row" "j_status row = BLOCKED"
    and ok_rest: "call_ok (PromoteBlocked p fid fs rest) w" by simp_all
  define d where "d = promotion_decision p fid fs row w"
  consider (failed) "pd_depFailed d" | (skip) "\<not> pd_depFailed d" "\<not> pd_promote d"
    | (go) "\<not> pd_depFailed d" "pd_promote d" by blast
  then show ?thesis
  proof cases
    case failed
    obtain m where m: "n = Suc m \<or> n = 0" by (metis not0_implies_Suc)
    from failed run Cons m have "w' = w"
      by (auto simp: d_def [symmetric] blocked_cannot_fail [OF row(1,2)] Let_def)
    then show ?thesis by simp
  next
    case skip
    with run Cons have "run e x n (PromoteBlocked p fid fs rest) w = Some (res, w')"
      by (simp add: d_def [symmetric])
    from budgetD [OF IH this ids ok_rest] show ?thesis by simp
  next
    case go
    with run Cons have "run e x n (DispatchJob (j_id row) None) (promote_row (j_id row) w) = Some (res, w')"
      by (simp add: d_def [symmetric])
    from budgetD [OF IH this] ids potential_promote [OF row] show ?thesis by (simp add: frames)
  qed
qed

lemma within_budget_all: "within_budget e x n"
proof (induction n)
  case 0
  then show ?case by (simp add: within_budget_def)
next
  case (Suc n)
  show ?case unfolding within_budget_def
  proof (intro allI impI)
    fix c w res w'
    assume a: "run e x (Suc n) c w = Some (res, w')" "ids_distinct w" "call_ok c w"
    show "calls_made w' \<le> calls_made w + call_budget c w"
    proof (cases c)
      case (DispatchJob i pref)
      with a show ?thesis using budget_dispatch [OF Suc] by simp
    next
      case (UpdateStatus i u skip)
      with a show ?thesis using budget_update [OF Suc] by blast
    next
      case (HandleFailure i)
      with a show ?thesis using budget_failure [OF Suc] by simp
    next
      case (PromoteBlocked p fid fs rows)
      with a show ?thesis using budget_promote [OF Suc] by simp
    qed
  qed
qed

end
