(* ===== verification/Job_Slots.thy ===== *)
theory Job_Slots
  imports Job_Safety
begin

text \<open>
  The concurrency slot of a project (\<open>PROJECT_SLOT_ACTIVE_STATUSES\<close>): creation, dispatch and status
  updates never give a project two active jobs, as long as no job enters LOCK_STALE or
  PAUSED_EDITOR_LOCK (these leave the slot free although the job may go on), and no update sets
  QUEUED by hand.
\<close>

definition slot_free_statuses :: "JobStatus set" where
  "slot_free_statuses = {LOCK_STALE, PAUSED_EDITOR_LOCK}"

definition slot_exclusive :: "world \<Rightarrow> bool" where
  "slot_exclusive w =
     ((\<forall>i k j l. getById i w = Some j \<and> getById k w = Some l \<and> slot_active j \<and> slot_active l
                 \<and> j_projectId j = j_projectId l \<longrightarrow> i = k)
      \<and> (\<forall>i j. getById i w = Some j \<longrightarrow> j_status j \<notin> slot_free_statuses))"

definition slot_update :: "JobStatusUpdate \<Rightarrow> bool" where
  "slot_update u = (u_status u \<noteq> QUEUED \<and> u_status u \<notin> slot_free_statuses)"

lemma slot_active_iff: "slot_active j \<longleftrightarrow> isActiveGeneration (j_status j) \<or> isRetriableFailure (j_status j)"
  by (simp add: slot_active_def slot_statuses)

lemma slot_active_open: "slot_active j \<Longrightarrow> \<not> isTerminal (j_status j)"
  by (auto simp: slot_active_iff status_class_defs)

lemma slot_exclusive_same: "jobs w' = jobs w \<Longrightarrow> slot_exclusive w' = slot_exclusive w"
  by (simp add: slot_exclusive_def getById_jobs)

lemma slot_set:
  assumes inv: "slot_exclusive w"
    and set: "jobs w' = set_row j_id i f (jobs w)" "\<And>j. j_id (f j) = j_id j"
    and job: "getById i w = Some job" "j_projectId (f job) = j_projectId job"
    and st: "j_status (f job) \<notin> slot_free_statuses"
    and act: "slot_active (f job) \<Longrightarrow> slot_active job \<or>
      (\<forall>k l. getById k w = Some l \<and> slot_active l \<and> j_projectId l = j_projectId job \<longrightarrow> k = i)"
  shows "slot_exclusive w'"
proof -
  have get: "getById k w' = (if k = i then Some (f job) else getById k w)" for k
    using getById_set [OF set, of k] job(1) by simp
  have other: "k = i" if "getById k w = Some l" "slot_active l" "j_projectId l = j_projectId job"
      "slot_active (f job)" for k l
    using act [OF that(4)] that(1-3) inv job(1) unfolding slot_exclusive_def by metis
  have "a = k" if "getById a w' = Some j" "getById k w' = Some l" "slot_active j" "slot_active l"
      "j_projectId j = j_projectId l" for a k j l
    using that other [of a j] other [of k l] inv job(2) unfolding get slot_exclusive_def
    by (auto split: if_splits)
  moreover have "j_status j \<notin> slot_free_statuses" if "getById a w' = Some j" for a j
    using that st inv unfolding get slot_exclusive_def by (auto split: if_splits)
  ultimately show ?thesis unfolding slot_exclusive_def by blast
qed

lemma slot_statusD: "slot_exclusive w \<Longrightarrow> getById i w = Some j \<Longrightarrow> j_status j \<notin> slot_free_statuses"
  by (simp add: slot_exclusive_def)

lemma dispatchable_active: "dispatchable s \<Longrightarrow> s \<notin> slot_free_statuses \<Longrightarrow> j_status j = s \<Longrightarrow> slot_active j"
  by (cases s) (auto simp: dispatchable_def slot_free_statuses_def slot_active_def PROJECT_SLOT_ACTIVE_STATUSES_def)

lemma slot_shape:
  assumes inv: "slot_exclusive w" and job: "getById i w = Some job" "dispatchable (j_status job)"
    and shape: "dispatch_shape i w r w'"
  shows "slot_exclusive w'"
  using shape_row [OF shape] job(1)
proof (cases rule: row_change_cases)
  case same
  with inv show ?thesis using slot_exclusive_same [OF same] by simp
next
  case (set f)
  have "slot_active job" using dispatchable_active job slot_statusD [OF inv job(1)] by blast
  with set job(1) show ?thesis
    by (intro slot_set [OF inv set(1,2) job(1)]) (auto simp: same_but_status_def slot_free_statuses_def)
qed

lemma slot_block:
  assumes "slot_exclusive w" "getById i w = Some job"
  shows "slot_exclusive (block_job i m w)"
  by (rule slot_set [OF assms(1) block_job_jobs _ assms(2)])
     (simp_all add: slot_free_statuses_def slot_active_def PROJECT_SLOT_ACTIVE_STATUSES_def)

lemma into_slot:
  assumes "canTransitionJobStatus s s'" "s \<notin> slot_free_statuses" "s' \<noteq> QUEUED" "s' \<in> set PROJECT_SLOT_ACTIVE_STATUSES"
  shows "s \<in> set PROJECT_SLOT_ACTIVE_STATUSES"
  using assms by (cases s) (auto simp: canTransitionJobStatus_def PROJECT_SLOT_ACTIVE_STATUSES_def slot_free_statuses_def)

lemma slot_write:
  assumes inv: "slot_exclusive w" and job: "getById i w = Some job" and up: "slot_update u"
    and fsm: "u_status u = j_status job \<or> canTransitionJobStatus (j_status job) (u_status u)"
    and jobs: "jobs w' = set_row j_id i (apply_update u t) (jobs w)"
  shows "slot_exclusive w'"
proof (rule slot_set [OF inv jobs _ job])
  show "j_status (apply_update u t job) \<notin> slot_free_statuses" using up by (simp add: slot_update_def)
  assume "slot_active (apply_update u t job)"
  then have "slot_active job"
    using fsm up slot_statusD [OF inv job] into_slot unfolding slot_active_def slot_update_def by fastforce
  then show "slot_active job \<or> (\<forall>k l. getById k w = Some l \<and> slot_active l
      \<and> j_projectId l = j_projectId job \<longrightarrow> k = i)" ..
qed simp_all

lemma slot_retry:
  assumes "slot_exclusive w" "getById i w = Some job" "isRetriableFailure (j_status job)"
  shows "slot_exclusive (set_job i (retry_row a t) w)"
  using assms(3)
  by (intro slot_set [OF assms(1) set_job_frame(1) _ assms(2)])
     (auto simp: retry_row_def slot_free_statuses_def slot_active_iff)

lemma slot_dead:
  assumes "slot_exclusive w" "getById i w = Some job" "jobs w' = set_row j_id i (dead_letter_row t) (jobs w)"
  shows "slot_exclusive w'"
  by (rule slot_set [OF assms(1,3) _ assms(2)])
     (simp_all add: dead_letter_row_def slot_free_statuses_def slot_active_def PROJECT_SLOT_ACTIVE_STATUSES_def)

lemma slot_promote:
  assumes inv: "slot_exclusive w" and row: "getById (j_id row) w = Some row"
    and fin: "\<And>j. getById fid w = Some j \<Longrightarrow> isTerminal (j_status j)"
    and pd: "pd_promote (promotion_decision (j_projectId row) fid fs row w)"
  shows "slot_exclusive (promote_row (j_id row) w)"
proof (rule slot_set [OF inv promote_row_jobs _ row])
  have none: "\<not> slot_active j" if "j \<in> set (jobs w)" "j_projectId j = j_projectId row" "j_id j \<noteq> fid" for j
    using pd that unfolding promotion_decision_def promote_iff by (auto simp: list_ex_iff)
  have "False" if "getById k w = Some l" "slot_active l" "j_projectId l = j_projectId row" for k l
    using none [of l] fin [of l] getById_Some [OF that(1)] that slot_active_open [OF that(2)] by auto
  then show "slot_active row \<or> (\<forall>k l. getById k w = Some l \<and> slot_active l
      \<and> j_projectId l = j_projectId row \<longrightarrow> k = j_id row)" by blast
qed (simp_all add: slot_free_statuses_def)

definition slot_preserved :: "world \<Rightarrow> world \<Rightarrow> bool" where
  "slot_preserved w w' = (slot_exclusive w \<longrightarrow> slot_exclusive w')"

lemmas slot_steps = slot_shape slot_block slot_write slot_retry slot_dead slot_promote

interpretation slot: service_relation slot_preserved slot_update
proof (unfold_locales, goal_cases)
  case 1
  then show ?case by (auto simp: own_update_def slot_update_def slot_free_statuses_def)
next
  case 3
  then show ?case by (simp add: slot_preserved_def slot_exclusive_same [OF 3(1)])
qed (auto simp: slot_preserved_def intro: slot_steps)

section \<open>Creation\<close>

definition create_gate :: "CreateJobRequest \<Rightarrow> world \<Rightarrow> DependencyGate" where
  "create_gate req w =
     (if truthy (cr_dependsOnJobId req)
      then evaluateDependencyGate (gate_view (getById (the (cr_dependsOnJobId req)) w)) (cr_projectId req)
      else Allow)"

lemma create_step_cases:
  assumes "create_step e x req by_user w = (r, w')"
  obtains (no_project) "get_project w (cr_projectId req) = None" "w' = w"
      "r = Throw (JsError (Some 404) None ''Project not found'')"
  | (bad_dependency) project why where "get_project w (cr_projectId req) = Some project" "w' = w"
      "create_gate req w = DepFailed why"
      "r = Throw (JsError (Some (if getById (the (cr_dependsOnJobId req)) w \<noteq> None then 400 else 404))
                    (Some ''E011'') why)"
  | (created) project blocked row where "get_project w (cr_projectId req) = Some project"
      "\<And>why. create_gate req w \<noteq> DepFailed why" "r = Ret (x_uuid x (nonce w), blocked)"
      "blocked \<longleftrightarrow> create_gate req w \<noteq> Allow \<or> active_job (cr_projectId req) w \<noteq> None"
      "row = create_job_row e req by_user project (x_uuid x (nonce w)) blocked
               (map_option j_id (active_job (cr_projectId req) w)) (now w)"
      "jobs w' = jobs w @ [row]" "workflow_calls w' = workflow_calls w"
proof (cases "get_project w (cr_projectId req)")
  case None
  with assms show ?thesis by (intro no_project) (simp_all add: create_step_def)
next
  case (Some project)
  show ?thesis
  proof (cases "\<exists>why. create_gate req w = DepFailed why")
    case True
    then obtain why where why: "create_gate req w = DepFailed why" ..
    then have "truthy (cr_dependsOnJobId req)" by (auto simp: create_gate_def split: if_splits)
    with assms Some why show ?thesis
      by (intro bad_dependency) (auto simp: create_step_def create_gate_def Let_def)
  next
    case False
    define g where "g = create_gate req w"
    have g: "(if truthy (cr_dependsOnJobId req)
       then evaluateDependencyGate (gate_view (if truthy (cr_dependsOnJobId req)
         then getById (the (cr_dependsOnJobId req)) w else None)) (cr_projectId req) else Allow) = g"
      by (simp add: g_def create_gate_def)
    from False have "\<And>why. g \<noteq> DepFailed why" by (auto simp: g_def)
    with assms Some show ?thesis
      by (intro created) (auto simp: create_step_def g Let_def draw_eq audit_def g_def [symmetric]
          split: DependencyGate.splits)
  qed
qed

lemma getById_append:
  "jobs w' = jobs w @ [row] \<Longrightarrow> getById k w' =
     (case getById k w of None \<Rightarrow> if j_id row = k then Some row else None | Some j \<Rightarrow> Some j)"
  by (simp add: getById_jobs row_by_append split: option.split)

lemma ids_append:
  "jobs w' = jobs w @ [row] \<Longrightarrow> ids_distinct w \<Longrightarrow> getById (j_id row) w = None \<Longrightarrow> ids_distinct w'"
  by (auto simp: ids_distinct_def getById_jobs row_by_None)

lemma active_job_None: "active_job p w = None \<Longrightarrow> getById k w = Some j \<Longrightarrow> j_projectId j = p \<Longrightarrow> \<not> slot_active j"
  by (auto simp: active_job_def find_None_iff dest: getById_Some)

lemma create_job_row_fields [simp]:
  "j_id (create_job_row e req u p i b by_j t) = i"
  "j_projectId (create_job_row e req u p i b by_j t) = cr_projectId req"
  "j_status (create_job_row e req u p i b by_j t) = (if b then BLOCKED else QUEUED)"
  "j_blockedByJobId (create_job_row e req u p i b by_j t) = by_j"
  "j_attempt (create_job_row e req u p i b by_j t) = 1"
  "j_maxAttempts (create_job_row e req u p i b by_j t) = 3"
  "j_dependsOnJobId (create_job_row e req u p i b by_j t) = cr_dependsOnJobId req"
  by (simp_all add: create_job_row_def)

lemma slot_create_step:
  assumes step: "create_step e x req u w = (r, w')" and fresh: "getById (x_uuid x (nonce w)) w = None"
    and inv: "ids_distinct w" "slot_exclusive w"
  shows "ids_distinct w' \<and> slot_exclusive w'"
  using step
proof (cases rule: create_step_cases)
  case (created project blocked row)
  have row: "j_id row = x_uuid x (nonce w)" "j_projectId row = cr_projectId req"
      "j_status row = (if blocked then BLOCKED else QUEUED)" using created(5) by simp_all
  have get: "getById k w' = (if k = j_id row then Some row else getById k w)" for k
    using getById_append [OF created(6), of k] fresh row(1) by (auto split: option.splits)
  have "\<not> slot_active j" if "slot_active row" "getById k w = Some j" "j_projectId j = j_projectId row" for k j
    using that active_job_None created(4) row
    by (cases blocked) (auto simp: slot_active_def PROJECT_SLOT_ACTIVE_STATUSES_def)
  then have "a = k" if "getById a w' = Some j" "getById k w' = Some l" "slot_active j" "slot_active l"
      "j_projectId j = j_projectId l" for a k j l
    using that inv(2) unfolding get slot_exclusive_def by (metis option.inject)
  moreover have "j_status j \<notin> slot_free_statuses" if "getById a w' = Some j" for a j
    using that slot_statusD [OF inv(2)] row(3) unfolding get by (auto simp: slot_free_statuses_def split: if_splits)
  ultimately have "slot_exclusive w'" unfolding slot_exclusive_def by blast
  with ids_append [OF created(6) inv(1)] fresh row(1) show ?thesis by simp
qed (use inv in auto)

end
