(* ===== verification/Job_Claims.thy ===== *)
theory Job_Claims
  imports Job_Slots
begin

text \<open>
  The properties of the job service over its public methods, each with a witness on a small world.
\<close>

section \<open>Concrete worlds\<close>

definition request_example :: "string \<Rightarrow> CreateJobRequest" where
  "request_example p =
     \<lparr>cr_projectId = p, cr_commitStrategy = None, cr_godotVersion = None, cr_preferredTier = None,
      cr_dependsOnJobId = None, cr_metadata = None\<rparr>"

definition fresh_world :: world where
  "fresh_world = empty_lock_fields\<lparr>projects := [project_example ''p'']\<rparr>"

definition queued_world :: world where
  "queued_world = fresh_world\<lparr>jobs := [job_example ''a'' ''p'' QUEUED, (job_example ''b'' ''p'' BLOCKED)
     \<lparr>j_dependsOnJobId := Some ''a''\<rparr>]\<rparr>"

lemma queued_ids [simp]: "ids_distinct queued_world"
  by (simp add: ids_distinct_def queued_world_def job_example_def)

section \<open>A dispatch that goes through\<close>

lemma free_lock_granted:
  assumes "lock_inv w" "good_id f" "owner_of w k = None" "tx_ok w" "0 < ttl"
  shows "\<exists>t w'. acquire f k p ttl j rs w = (Ret (Granted False t), w') \<and> owner_of w' k = Some p"
proof -
  define w1 where "w1 = snd (ensureInstanceId f w)"
  obtain i where i: "ready i w1" using ensure_ready [OF assms(1,2)] unfolding w1_def by metis
  have o1: "owner_of w1 k = None" using assms(3) by (simp add: w1_def)
  obtain rep w2 where lua: "acquire_lock k p ttl w1 = (rep, w2)" by fastforce
  from i lua obtain t where rep: "rep = Reply 1 t"
    by (cases rule: acquire_lock_cases) (use o1 assms(5) in auto)
  note eq = acquire_reply [OF lua [unfolded w1_def rep], of j rs]
  have tx: "tx_ok w2" using acquire_lock_ready [OF i lua] assms(4) by (simp add: w1_def)
  have "owner_of w2 k = Some p"
    using i lua
    by (cases rule: acquire_lock_cases) (use o1 assms(5) rep in \<open>auto simp: owner_of_hold\<close>)
  then show ?thesis using tx by (simp add: eq Let_def owner_of_def)
qed

lemma dispatch_start_success:
  assumes ok: "\<And>n d. x_dispatch x n d = None"
    and start: "dispatch_start x job tier token lk target cb en w = (r, w')"
  shows "r = Returned \<and> r_owner w' = r_owner w \<and> now w' = now w
    \<and> (\<exists>c. workflow_calls w' = c # workflow_calls w \<and> di_jobId c = j_id job)
    \<and> (\<forall>j. getById (j_id job) w = Some j \<longrightarrow> (\<exists>j'. getById (j_id job) w' = Some j'
            \<and> j_status j' = DISPATCHING \<and> j_lockKey j' = Some lk \<and> j_fencingToken j' = Some token))"
  using start ok
  by (auto simp: dispatch_start_def createEnvelope_eq Let_def draw_eq frames getById_jobs set_row_same
      enqueuePriority_def broadcast_job_def)

lemma dispatch_free_lock:
  assumes inv: "lock_inv w" "good_id (x_uuid x (nonce w))" "tx_ok w"
    and job: "getById i w = Some job" "j_status job = QUEUED" "j_commitStrategy job = same_machine"
    and gate: "dependency_gate job w = Allow"
    and project: "get_project w (j_projectId job) = Some project"
    and free: "owner_of w (generationLockKey (j_projectId job)) = None"
    and api: "\<And>n d. x_dispatch x n d = None"
  shows "\<exists>w' j t c. dispatchJob e x (Suc n) i pref w = Some (Ret None, w')
    \<and> getById i w' = Some j \<and> j_status j = DISPATCHING
    \<and> j_lockKey j = Some (generationLockKey (j_projectId job)) \<and> j_fencingToken j = Some t
    \<and> owner_of w' (generationLockKey (j_projectId job)) = Some (owner_id i)
    \<and> workflow_calls w' = c # workflow_calls w \<and> di_jobId c = i"
proof -
  define k where "k = generationLockKey (j_projectId job)"
  have i: "j_id job = i" using getById_Some [OF job(1)] by simp
  obtain t w1 where acq: "acquire (x_uuid x (nonce w)) k (owner_id i) 120 (Some i) None w
      = (Ret (Granted False t), w1)" and held: "owner_of w1 k = Some (owner_id i)"
    using free_lock_granted [OF inv(1,2) free inv(3), of 120 "owner_id i" "Some i" None]
    unfolding k_def by auto
  have w1: "jobs w1 = jobs w" "workflow_calls w1 = workflow_calls w"
    using acquire_frame [of "x_uuid x (nonce w)" k "owner_id i" 120 "Some i" None w] by (simp_all add: acq)
  obtain cb w2 where mint: "mintCallbackToken e x i w1 = (cb, w2)" by fastforce
  have w2: "jobs w2 = jobs w1" "workflow_calls w2 = workflow_calls w1" "r_owner w2 = r_owner w1" "now w2 = now w1"
    using mint by (auto simp: mintCallbackToken_def draw_eq Let_def)
  define tier where "tier = selectTier e pref (pr_highVolume project) None w"
  define en where "en = envelope_base e x project job (cb_token cb) t k"
  obtain r w' where start: "dispatch_start x job tier t k None cb en w2 = (r, w')" by fastforce
  note fin = dispatch_start_success [OF api start]
  have "dispatch_acquire e x job pref w = (r, w')"
    using acq mint start project job(3)
    by (simp add: dispatch_acquire_def dispatch_locked_def Let_def k_def i tier_def en_def
        resolveCrossMachineProvision_def)
  then have "dispatch_attempt e x i pref w = (r, w')"
    using job gate by (simp add: dispatch_attempt_def dispatchable_def)
  then have run: "dispatchJob e x (Suc n) i pref w = Some (Ret None, w')"
    using fin by (simp add: dispatchJob_def)
  have "getById i w2 = Some job" using job(1) w1 w2 by (simp add: getById_jobs)
  with fin run w1 w2 held i show ?thesis by (auto simp: owner_of_def k_def)
qed


definition seed_world :: world where
  "seed_world = fresh_world\<lparr>jobs := [job_example ''a'' ''p'' COMPLETED, (job_example ''b'' ''p'' QUEUED)
     \<lparr>j_dependsOnJobId := Some ''a''\<rparr>]\<rparr>"

lemma seed_facts:
  "lock_inv seed_world" "good_id (x_uuid ext_example n)" "tx_ok seed_world" "ids_distinct seed_world"
  "getById ''b'' seed_world = Some ((job_example ''b'' ''p'' QUEUED)\<lparr>j_dependsOnJobId := Some ''a''\<rparr>)"
  "getById ''a'' seed_world = Some (job_example ''a'' ''p'' COMPLETED)"
  "get_project seed_world ''p'' = Some (project_example ''p'')" "owner_of seed_world k = None"
  "workflow_calls seed_world = []"
proof -
  show "good_id (x_uuid ext_example n)" using demo_good(1) by (simp add: ext_example_def id_1_def)
qed (simp_all add: seed_world_def fresh_world_def empty_lock_fields_def lock_inv_def ids_distinct_def
    job_example_def getById_jobs get_project_def project_example_def owner_of_def redis_get_def)

lemma seed_gate: "dependency_gate ((job_example ''b'' ''p'' QUEUED)\<lparr>j_dependsOnJobId := Some ''a''\<rparr>) seed_world = Allow"
  by (simp add: dependency_gate_def seed_facts truthy_def gate_view_def evaluateDependencyGate_def job_example_def)

lemma seed_dispatched:
  "\<exists>w' j c. dispatchJob env_example ext_example 1 ''b'' None seed_world = Some (Ret None, w')
    \<and> getById ''b'' w' = Some j \<and> j_status j = DISPATCHING \<and> workflow_calls w' = [c]"
  using dispatch_free_lock [OF seed_facts(1,2,3,5) _ _ seed_gate, of "project_example ''p''"
        env_example 0 None]
  by (fastforce simp: seed_facts job_example_def ext_example_def)


section \<open>Termination and effort\<close>

definition call_bound :: "world \<Rightarrow> nat" where
  "call_bound w = depth (potential w) (length (jobs w)) + length (jobs w) + 2"

lemma run_returns:
  assumes "ids_distinct w" "call_ok c w" "need x c w \<le> m"
  shows "\<exists>r. \<forall>n \<ge> m. run e x n c w = Some r"
proof -
  obtain res w' where "run e x m c w = Some (res, w')"
    using enoughD [OF enough_all assms(3,1,2)] by blast
  then show ?thesis using run_mono by blast
qed

text \<open>
  C16 (termination). The mutual recursion of dispatchJob, updateStatus, handleFailure and
  promoteBlockedJobs ends. With primary keys distinct, a call depth computed from the number of jobs and
  the attempts they have left is enough for every dispatch and every status update, whatever the
  locks, the dependencies and the outside calls answer, and a larger bound gives the same result.
\<close>

theorem job_calls_terminate:
  assumes "ids_distinct w"
  shows "(\<exists>r. \<forall>n \<ge> call_bound w. dispatchJob e x n i pref w = Some r)
    \<and> (\<exists>r. \<forall>n \<ge> call_bound w. updateStatus e x n i u skip w = Some r)"
proof -
  have "need x (DispatchJob i pref) w \<le> call_bound w" "need x (UpdateStatus i u skip) w \<le> call_bound w"
    by (auto simp: call_bound_def update_bound_def)
  then show ?thesis
    unfolding dispatchJob_def updateStatus_def using run_returns [OF assms] by simp
qed

theorem job_calls_terminate_witness:
  "(\<exists>r. \<forall>n \<ge> call_bound queued_world. dispatchJob env_example ext_example n ''a'' None queued_world = Some r)
   \<and> (\<exists>r. \<forall>n \<ge> call_bound queued_world.
        updateStatus env_example ext_example n ''a'' (empty_update CANCELLED) False queued_world = Some r)"
  using job_calls_terminate [OF queued_ids] by blast

text \<open>
  C17 (bounds). One dispatch or status update dispatches no more workflows than the unfinished jobs have
  attempts left: the retries and promotions it sets off are paid from that budget.
\<close>

theorem dispatches_bounded:
  assumes "ids_distinct w"
    and "dispatchJob e x n i pref w = Some (res, w') \<or> updateStatus e x n i u skip w = Some (res, w')"
  shows "length (workflow_calls w') \<le> length (workflow_calls w) + potential w"
proof -
  have "calls_made w' \<le> calls_made w + potential w"
    using assms(2) budgetD [OF within_budget_all _ assms(1), of e x n _ res w']
    unfolding dispatchJob_def updateStatus_def by (fastforce split: if_splits)
  then show ?thesis by (simp add: calls_made_def)
qed

theorem dispatches_bounded_witness:
  "\<exists>res w'. dispatchJob env_example ext_example (call_bound queued_world) ''a'' None queued_world = Some (res, w')
     \<and> length (workflow_calls w') \<le> 6"
proof -
  have "potential queued_world = 6" "length (workflow_calls queued_world) = 0" by code_simp+
  moreover obtain res w' where
    "dispatchJob env_example ext_example (call_bound queued_world) ''a'' None queued_world = Some (res, w')"
    using run_returns [OF queued_ids, of "DispatchJob ''a'' None" ext_example "call_bound queued_world"]
    by (fastforce simp: dispatchJob_def call_bound_def)
  ultimately show ?thesis using dispatches_bounded [OF queued_ids] by fastforce
qed

section \<open>Job rows\<close>

text \<open>
  A dispatch or a status update, with all the retries and promotions it sets off, keeps
  every job row: no row appears or disappears, project, dependency and the maximum of attempts do
  not change, attempts only grow and never pass the maximum, and a job with a final status keeps it.
\<close>

theorem job_rows_kept:
  assumes "ids_distinct w"
    and "dispatchJob e x n i pref w = Some (res, w') \<or> updateStatus e x n i u skip w = Some (res, w')"
    and "getById k w = Some j"
  shows "\<exists>j'. getById k w' = Some j' \<and> j_projectId j' = j_projectId j
    \<and> j_dependsOnJobId j' = j_dependsOnJobId j \<and> j_maxAttempts j' = j_maxAttempts j
    \<and> j_attempt j \<le> j_attempt j' \<and> j_attempt j' \<le> max (j_attempt j) (j_maxAttempts j)
    \<and> (isTerminal (j_status j) \<longrightarrow> j_status j' = j_status j)"
proof -
  have "kept_jobs w w'"
    using assms(1,2) kept.run_respects [of e x n _ w res w'] unfolding dispatchJob_def updateStatus_def
    by fastforce
  from keptD [OF this assms(3)] show ?thesis by (auto simp: job_kept_def)
qed

definition finished_world :: world where
  "finished_world = fresh_world\<lparr>jobs := [job_example ''a'' ''p'' COMPLETED, job_example ''b'' ''p'' QUEUED]\<rparr>"

theorem job_rows_kept_witness:
  "\<exists>res w' j'. dispatchJob env_example ext_example (call_bound finished_world) ''b'' None finished_world = Some (res, w')
     \<and> getById ''a'' w' = Some j' \<and> j_status j' = COMPLETED"
proof -
  have ids: "ids_distinct finished_world" by (simp add: ids_distinct_def finished_world_def job_example_def)
  have a: "getById ''a'' finished_world = Some (job_example ''a'' ''p'' COMPLETED)"
    by (simp add: finished_world_def getById_jobs job_example_def)
  obtain res w' where run:
    "dispatchJob env_example ext_example (call_bound finished_world) ''b'' None finished_world = Some (res, w')"
    using run_returns [OF ids, of "DispatchJob ''b'' None" ext_example "call_bound finished_world"]
    by (fastforce simp: dispatchJob_def call_bound_def)
  from job_rows_kept [OF ids disjI1 [OF run] a] run show ?thesis by (fastforce simp: job_example_def)
qed

section \<open>Dependencies\<close>

text \<open>
  C12 (safety). No workflow is dispatched behind an unfinished dependency. Every workflow that a dispatch
  or a status update starts, directly or through retries and promotions, belongs to a job of the
  table whose dependency, if it has one, is a COMPLETED job of the same project.
\<close>

theorem dispatch_waits_for_dependency:
  assumes "ids_distinct w"
    and "dispatchJob e x n i pref w = Some (res, w') \<or> updateStatus e x n i u skip w = Some (res, w')"
  shows "\<exists>cs. workflow_calls w' = cs @ workflow_calls w \<and>
    (\<forall>c \<in> set cs. \<exists>j. getById (di_jobId c) w' = Some j \<and>
       (truthy (j_dependsOnJobId j) \<longrightarrow>
          (\<exists>d. getById (the (j_dependsOnJobId j)) w' = Some d \<and> j_projectId d = j_projectId j
               \<and> j_status d = COMPLETED)))"
proof -
  have "calls_ready w w'"
    using assms ready.run_respects [of e x n _ w res w'] unfolding dispatchJob_def updateStatus_def
    by fastforce
  then show ?thesis unfolding calls_ready_def dep_completed_def by blast
qed

theorem dispatch_waits_for_dependency_witness:
  "\<exists>w' c j. dispatchJob env_example ext_example 1 ''b'' None seed_world = Some (Ret None, w')
     \<and> workflow_calls w' = [c] \<and> getById (di_jobId c) w' = Some j
     \<and> (truthy (j_dependsOnJobId j) \<longrightarrow> (\<exists>d. getById (the (j_dependsOnJobId j)) w' = Some d
          \<and> j_status d = COMPLETED))"
proof -
  obtain w' j c where run: "dispatchJob env_example ext_example 1 ''b'' None seed_world = Some (Ret None, w')"
    and c: "workflow_calls w' = [c]"
    using seed_dispatched by blast
  show ?thesis
    using dispatch_waits_for_dependency [OF seed_facts(4) disjI1 [OF run]] run c
    by (fastforce simp: seed_facts)
qed

section \<open>The slot of a project\<close>

text \<open>
  Requests to the service: creation with an unused id, dispatch, status updates other than to QUEUED,
  LOCK_STALE and PAUSED_EDITOR_LOCK, heartbeats, and everything that leaves the job table alone (locks,
  clock, credentials, alerts).
\<close>

inductive service_step :: "env \<Rightarrow> ext \<Rightarrow> world \<Rightarrow> world \<Rightarrow> bool" for e x where
  created: "create e x n req by_user w = Some (r, w') \<Longrightarrow> getById (x_uuid x (nonce w)) w = None
    \<Longrightarrow> service_step e x w w'"
| dispatched: "dispatchJob e x n i pref w = Some (r, w') \<Longrightarrow> service_step e x w w'"
| updated: "updateStatus e x n i u skip w = Some (r, w')
    \<Longrightarrow> u_status u \<notin> {QUEUED, LOCK_STALE, PAUSED_EDITOR_LOCK} \<Longrightarrow> service_step e x w w'"
| heartbeat: "heartbeat x i fencing w = (ok, w') \<Longrightarrow> service_step e x w w'"
| elsewhere: "jobs w' = jobs w \<Longrightarrow> service_step e x w w'"

lemma heartbeat_jobs:
  assumes "heartbeat x i fencing w = (ok, w')"
  shows "jobs w' = jobs w \<or> (\<exists>job t. getById i w = Some job
    \<and> jobs w' = set_row j_id i (\<lambda>j. j\<lparr>j_lastHeartbeatAt := Some t, j_updatedAt := t\<rparr>) (jobs w))"
proof (cases "getById i w")
  case (Some job)
  obtain ok' w1 where v: "(if truthy fencing \<and> truthy (j_lockKey job)
      then validateFencingToken (x_uuid x (nonce w)) (the (j_lockKey job)) (owner_id i) (the fencing) w
      else (True, w)) = (ok', w1)" by fastforce
  have "jobs w1 = jobs w"
    using v validate_frame [of "x_uuid x (nonce w)" "the (j_lockKey job)" "owner_id i" "the fencing" w]
    by (auto split: if_splits)
  with assms Some v show ?thesis
    by (auto simp: heartbeat_def heartbeat_write_def Let_def frames split: if_splits)
qed (use assms in \<open>simp add: heartbeat_def\<close>)

lemma slot_heartbeat:
  assumes "heartbeat x i fencing w = (ok, w')" "ids_distinct w" "slot_exclusive w"
  shows "ids_distinct w' \<and> slot_exclusive w'"
  using heartbeat_jobs [OF assms(1)]
proof (elim disjE exE conjE)
  assume same: "jobs w' = jobs w"
  from ids_same [OF same] slot_exclusive_same [OF same] assms(2,3) show ?thesis by simp
next
  fix job t
  let ?f = "\<lambda>j. j\<lparr>j_lastHeartbeatAt := Some t, j_updatedAt := t\<rparr>"
  assume job: "getById i w = Some job" and set: "jobs w' = set_row j_id i ?f (jobs w)"
  have "slot_exclusive w'"
    by (rule slot_set [OF assms(3) set _ job]) (use slot_statusD [OF assms(3) job] in \<open>simp_all add: slot_active_def\<close>)
  then show ?thesis using assms(2) by (simp add: ids_distinct_def set map_set_row)
qed

lemma run_slot:
  assumes "run e x n c w = Some (r, w')" "ids_distinct w" "slot_exclusive w" "call_ok c w" "permitted slot_update c"
  shows "ids_distinct w' \<and> slot_exclusive w'"
proof -
  have "kept_jobs w w'" using kept.run_respects [OF assms(1,2,4)] by (cases c) simp_all
  moreover have "slot_preserved w w'" using slot.run_respects [OF assms(1,2,4,5)] .
  ultimately show ?thesis using assms(2,3) by (simp add: kept_jobs_def ids_distinct_def slot_preserved_def)
qed

lemma service_step_slot:
  assumes "service_step e x w w'" "ids_distinct w" "slot_exclusive w"
  shows "ids_distinct w' \<and> slot_exclusive w'"
  using assms
proof (cases rule: service_step.cases)
  case (created n req u r)
  obtain r1 w1 where step: "create_step e x req u w = (r1, w1)" by fastforce
  have inv1: "ids_distinct w1" "slot_exclusive w1"
    using slot_create_step [OF step created(2) assms(2,3)] by auto
  show ?thesis
  proof (cases r1)
    case (Throw err)
    with created(1) step inv1 show ?thesis by (simp add: create_def)
  next
    case (Ret p)
    obtain i b where p: "p = (i, b)" by fastforce
    show ?thesis
    proof (cases b)
      case True
      with created(1) step Ret p have "jobs w' = jobs w1" by (auto simp: create_def Let_def frames)
      from ids_same [OF this] slot_exclusive_same [OF this] inv1 show ?thesis by simp
    next
      case False
      with created(1) step Ret p obtain r2 where
        "run e x n (DispatchJob i (cr_preferredTier req)) w1 = Some (r2, w')"
        by (auto simp: create_def split: option.splits outcome.splits)
      from run_slot [OF this inv1] show ?thesis by simp
    qed
  qed
next
  case (dispatched n i pref r)
  from run_slot [OF dispatched(1) [unfolded dispatchJob_def] assms(2,3)] show ?thesis by simp
next
  case (updated n i u skip r)
  from run_slot [OF updated(1) [unfolded updateStatus_def] assms(2,3)] updated(2)
  show ?thesis by (simp add: slot_update_def slot_free_statuses_def)
next
  case (heartbeat i fencing ok)
  from slot_heartbeat [OF this assms(2,3)] show ?thesis .
next
  case elsewhere
  then show ?thesis using assms by (simp add: ids_same [OF elsewhere] slot_exclusive_same [OF elsewhere])
qed


definition created_world :: world where
  "created_world = snd (create_step env_example ext_example (request_example ''p'') None fresh_world)"

lemma created_facts:
  "create_step env_example ext_example (request_example ''p'') None fresh_world
     = (Ret (id_1, False), created_world)"
  "lock_inv created_world" "tx_ok created_world" "owner_of created_world k = None"
  "get_project created_world ''p'' = Some (project_example ''p'')"
  "getById id_1 created_world = Some (create_job_row env_example (request_example ''p'') None
     (project_example ''p'') id_1 False None 1000)"
  by (simp_all add: created_world_def create_step_def request_example_def fresh_world_def
      empty_lock_fields_def get_project_def project_example_def truthy_def active_job_def draw_def
      ext_example_def id_1_def audit_def lock_inv_def owner_of_def redis_get_def getById_jobs Let_def)


end
