(* ===== verification/Job_Outcomes.thy ===== *)
theory Job_Outcomes
  imports Job_Claims
begin

text \<open>
  What single requests to the job service end with: refusals of creation and of status updates,
  fenced workers, released locks, the dead-letter queue, and heartbeats.
\<close>

section \<open>Creation\<close>

text \<open>
  Creation is refused without a trace: if the project is unknown (404) or the dependency is
  missing, of another project or finished without success (404 or 400 with E011), the call throws
  and the world is unchanged.
\<close>

theorem create_refused:
  assumes "get_project w (cr_projectId req) = None \<or> (\<exists>why. create_gate req w = DepFailed why)"
  shows "\<exists>err. create e x n req by_user w = Some (Throw err, w) \<and> err_status err \<in> {Some 404, Some 400}
    \<and> (get_project w (cr_projectId req) \<noteq> None \<longrightarrow> err_code err = Some ''E011'')"
proof -
  obtain r w' where step: "create_step e x req by_user w = (r, w')" by fastforce
  then show ?thesis
    by (cases rule: create_step_cases) (use assms step in \<open>auto simp: create_def\<close>)
qed

theorem create_refused_witness:
  "\<exists>err. create env_example ext_example 0 ((request_example ''p'')\<lparr>cr_dependsOnJobId := Some ''x''\<rparr>) None fresh_world
       = Some (Throw err, fresh_world) \<and> err_code err = Some ''E011''"
proof -
  let ?req = "(request_example ''p'')\<lparr>cr_dependsOnJobId := Some ''x''\<rparr>"
  have "create_gate ?req fresh_world = DepFailed ''Dependency job not found''"
    by (simp add: create_gate_def request_example_def truthy_def fresh_world_def empty_lock_fields_def
        getById_jobs gate_view_def evaluateDependencyGate_def)
  moreover have "get_project fresh_world (cr_projectId ?req) \<noteq> None"
    by (simp add: fresh_world_def get_project_def project_example_def request_example_def)
  ultimately show ?thesis using create_refused [of fresh_world ?req env_example ext_example 0 None] by blast
qed

text \<open>
  A job that has to wait waits. If its dependency is not finished or the project has
  an active job, creation adds exactly one row, BLOCKED behind the project's oldest active job,
  takes no lock, starts no workflow and returns the row.
\<close>

theorem create_blocks:
  assumes "get_project w (cr_projectId req) = Some project"
    and "\<And>why. create_gate req w \<noteq> DepFailed why"
    and "create_gate req w \<noteq> Allow \<or> active_job (cr_projectId req) w \<noteq> None"
    and "getById (x_uuid x (nonce w)) w = None"
  shows "\<exists>row w'. create e x n req by_user w = Some (Ret (Some row), w')
    \<and> j_id row = x_uuid x (nonce w) \<and> j_status row = BLOCKED
    \<and> j_blockedByJobId row = map_option j_id (active_job (cr_projectId req) w)
    \<and> jobs w' = jobs w @ [row] \<and> workflow_calls w' = workflow_calls w"
proof -
  obtain r w1 where step: "create_step e x req by_user w = (r, w1)" by fastforce
  then show ?thesis
  proof (cases rule: create_step_cases)
    case (created project blocked row)
    then have blocked using assms(3) by simp
    with created step have "create e x n req by_user w =
        Some (Ret (getById (x_uuid x (nonce w)) (broadcast_job (x_uuid x (nonce w)) w1)),
              broadcast_job (x_uuid x (nonce w)) w1)"
      by (simp add: create_def Let_def)
    moreover have "getById (x_uuid x (nonce w)) (broadcast_job (x_uuid x (nonce w)) w1) = Some row"
      using getById_append [OF created(6)] assms(4) created(5) by (simp add: getById_jobs frames)
    ultimately show ?thesis using created \<open>blocked\<close> by (simp add: frames)
  qed (use assms in auto)
qed

theorem create_blocks_witness:
  "\<exists>row w'. create env_example ext_example 0 (request_example ''p'') None queued_world = Some (Ret (Some row), w')
    \<and> j_status row = BLOCKED \<and> j_blockedByJobId row = Some ''a''"
proof -
  have "get_project queued_world (cr_projectId (request_example ''p'')) = Some (project_example ''p'')"
    "create_gate (request_example ''p'') queued_world = Allow"
    "map_option j_id (active_job ''p'' queued_world) = Some ''a''"
    "getById (x_uuid ext_example (nonce queued_world)) queued_world = None"
    by (simp_all add: queued_world_def fresh_world_def get_project_def project_example_def
        request_example_def create_gate_def truthy_def active_job_def slot_active_def
        PROJECT_SLOT_ACTIVE_STATUSES_def job_example_def getById_jobs ext_example_def)
  then show ?thesis
    using create_blocks [of queued_world "request_example ''p''" "project_example ''p''" ext_example env_example 0 None]
    by (fastforce simp: request_example_def)
qed

section \<open>Status updates\<close>

text \<open>
  Only transitions of the table are written. An update to a status that the table does not
  allow, or from REIMPORT_FAILED into COMMITTING or COMPLETED, throws E021 with status 409 and
  leaves the world as it was.
\<close>

theorem illegal_transition_rejected:
  assumes "getById i w = Some job"
    and "u_status u \<noteq> j_status job \<and> \<not> canTransitionJobStatus (j_status job) (u_status u)
      \<or> j_status job = REIMPORT_FAILED \<and> u_status u \<in> {COMMITTING, COMPLETED}"
  shows "\<exists>err. updateStatus e x (Suc n) i u skip w = Some (Throw err, w)
    \<and> err_code err = Some ''E021'' \<and> err_status err = Some (httpStatus (ERROR_CATALOG E021))"
  using assms
  by (auto simp: updateStatus_def status_write_def invalid_transition_def commits_blocked_def)

theorem illegal_transition_rejected_witness:
  "\<exists>err. updateStatus env_example ext_example 1 ''b'' (empty_update COMPLETED) False queued_world
     = Some (Throw err, queued_world) \<and> err_code err = Some ''E021''"
proof -
  have "getById ''b'' queued_world =
      Some ((job_example ''b'' ''p'' BLOCKED)\<lparr>j_dependsOnJobId := Some ''a''\<rparr>)"
    by (simp add: queued_world_def getById_jobs job_example_def)
  then show ?thesis
    using illegal_transition_rejected [of "''b''" queued_world _ "empty_update COMPLETED" env_example ext_example 0]
    by (fastforce simp: job_example_def empty_update_def canTransitionJobStatus_def)
qed

section \<open>Fenced workers\<close>

lemma fenced_update:
  assumes "getById i w = Some job" "j_lockKey job = Some k" "k \<noteq> []"
    and "u_fencingToken u = Some t" "t \<noteq> []"
    and "\<not> fst (validateFencingToken (x_uuid x (nonce w)) k (owner_id i) t w)"
  shows "\<exists>err w'. status_write x i u w = (Throw err, w') \<and> jobs w' = jobs w \<and> workflow_calls w' = workflow_calls w"
proof -
  obtain ok w1 where v: "validateFencingToken (x_uuid x (nonce w)) k (owner_id i) t w = (ok, w1)" by fastforce
  have "jobs w1 = jobs w" "workflow_calls w1 = workflow_calls w" "\<not> ok"
    using validate_frame [of "x_uuid x (nonce w)" k "owner_id i" t w] assms(6) by (simp_all add: v)
  with assms(1-5) v show ?thesis
    by (auto simp: status_write_def truthy_def Let_def frames)
qed


definition worker_world :: world where
  "worker_world = snd (acquire id_1 ''k'' (owner_id ''a'') 120 None None
     (fresh_world\<lparr>jobs := [(job_example ''a'' ''p'' STAGING)\<lparr>j_lockKey := Some ''k''\<rparr>]\<rparr>))"

definition fenced_world :: world where
  "fenced_world = snd (reclaim id_1 ''k'' STALE_RECOVERED None worker_world)"


section \<open>Final statuses\<close>

lemma lock_release_fields:
  "r_owner (lock_release k p w) = (if owner_of w k = Some p then (r_owner w)(k := None) else r_owner w)"
  "now (lock_release k p w) = now w"
  by (simp_all add: lock_release_def release_def release_lock_cases)

lemma lock_release_owner:
  "owner_of (lock_release k' p w) k = (if k = k' \<and> owner_of w k = Some p then None else owner_of w k)"
  unfolding owner_of_def [of "lock_release k' p w"] lock_release_fields
  by (auto simp: owner_of_def redis_get_def)

lemma release_job_locks_free: "truthy (j_lockKey job) \<Longrightarrow>
    owner_of (release_job_locks job w) (the (j_lockKey job)) \<noteq> Some (owner_id (j_id job))"
  by (simp add: release_job_locks_def release_target_def lock_release_owner)

lemma sendAlert_locks: "r_owner (sendAlert e a w) = r_owner w" "now (sendAlert e a w) = now w"
  by simp_all

lemma update_finish_owner: "owner_of (snd (update_finish e job u w)) k = owner_of w k"
  by (simp add: update_finish_def Let_def broadcast_job_def frames owner_of_def)

lemma set_set_row: "set (set_row key k f rs) \<subseteq> set rs \<union> f ` set rs"
  by (induction rs) auto

lemma no_blocked_rows:
  assumes "blocked_rows p w = []" and "jobs w' = set_row j_id i f (jobs w)" and "\<And>j. j_status (f j) \<noteq> BLOCKED"
  shows "blocked_rows p w' = []"
  using assms(1,3) set_set_row [of j_id i f "jobs w"]
  by (auto simp: blocked_rows_def assms(2) filter_empty_conv)

text \<open>What \<open>updateStatus\<close> does first when the update is allowed and carries no token.\<close>

lemma allowed_write:
  assumes "getById i w = Some job" and "canTransitionJobStatus (j_status job) (u_status u)"
    and "j_status job \<noteq> REIMPORT_FAILED \<or> u_status u \<notin> {COMMITTING, COMPLETED}" and "u_fencingToken u = None"
  shows "\<exists>w1. status_write x i u w = (Ret job, w1) \<and> jobs w1 = set_row j_id i (apply_update u (now w)) (jobs w)
    \<and> workflow_calls w1 = workflow_calls w \<and> tx_ok w1 = tx_ok w \<and> dead_letters w1 = dead_letters w"
proof -
  define w2 where "w2 = set_job i (apply_update u (now w)) w"
  have "status_write x i u w = (Ret job, case u_errorCode u of None \<Rightarrow> w2
      | Some c \<Rightarrow> recordError i c (or_default (u_errorDetail u) (code_name c)) None w2)"
    unfolding w2_def using assms by (auto simp: status_write_def truthy_def Let_def)
  then show ?thesis by (auto simp: w2_def set_job_def frames split: option.splits)
qed


definition running_job :: Job where
  "running_job = (job_example ''a'' ''p'' POST_COMMIT_VERIFY)\<lparr>j_lockKey := Some ''k''\<rparr>"

definition running_world :: world where
  "running_world = fresh_world\<lparr>jobs := [running_job],
     r_owner := [''k'' \<mapsto> (owner_id ''a'', Some 5000)]\<rparr>"


section \<open>Failures\<close>

lemma upsert_row:
  "\<exists>d \<in> set (upsert_dead_letter n rs). dl_jobId d = dl_jobId n \<and> dl_attempts d = dl_attempts n
     \<and> dl_archivedAt d = dl_archivedAt n"
  if "dl_archivedAt n = None"
  using that by (induction n rs rule: upsert_dead_letter.induct) auto

lemma dead_letter_step:
  assumes "getById i w = Some job" "\<not> j_attempt job < j_maxAttempts job" "tx_ok w"
  shows "\<exists>w1 d. failure_step i w = (DeadLettered job, w1) \<and> jobs w1 = set_row j_id i (dead_letter_row (now w)) (jobs w)
    \<and> d \<in> set (dead_letters w1) \<and> dl_jobId d = i \<and> dl_attempts d = j_attempt job \<and> dl_archivedAt d = None"
proof -
  define n where "n = \<lparr>dl_jobId = i, dl_reason = or_default (j_errorDetail job) (status_name (j_status job)),
                        dl_attempts = j_attempt job, dl_escalated24 = False, dl_escalated72 = False,
                        dl_archivedAt = None, dl_createdAt = now w\<rparr>"
  obtain d where d: "d \<in> set (upsert_dead_letter n (dead_letters w))" "dl_jobId d = i"
      "dl_attempts d = j_attempt job" "dl_archivedAt d = None"
    using upsert_row [of n "dead_letters w"] by (auto simp: n_def)
  obtain w1 where step: "failure_step i w = (DeadLettered job, w1)"
    using assms by (auto simp: failure_step_def Let_def)
  have "dead_letters w1 = upsert_dead_letter n (dead_letters w)"
    using step assms by (auto simp: failure_step_def Let_def n_def frames split: if_splits)
  moreover have "jobs w1 = set_row j_id i (dead_letter_row (now w)) (jobs w)"
    using step assms by (cases rule: failure_step_cases) auto
  ultimately show ?thesis using step d by auto
qed

lemma dead_letter_finish_fields:
  "dead_letters (dead_letter_finish e job w) = dead_letters w"
  "queue_adds (dead_letter_finish e job w) = DeadLetterEntry (j_id job) (now w) # queue_adds w"
  by (simp_all add: dead_letter_finish_def Let_def broadcast_job_def frames)

lemma update_finish_letters:
  "dead_letters (snd (update_finish e job u w)) = dead_letters w"
  "queue_adds (snd (update_finish e job u w)) = queue_adds w"
  "fst (update_finish e job u w) = getById (j_id job) w"
  by (simp_all add: update_finish_def Let_def broadcast_job_def frames getById_jobs)


definition failing_job :: Job where
  "failing_job = (job_example ''a'' ''p'' VALIDATING)\<lparr>j_attempt := 3\<rparr>"


section \<open>Promotion\<close>

lemma filter_set_row:
  "row_by key k rs = Some r \<Longrightarrow> \<not> P r \<Longrightarrow> \<not> P (f r) \<Longrightarrow> filter P (set_row key k f rs) = filter P rs"
  by (induction rs) (auto split: if_splits)

text \<open>
  A failed dependency stops the promotions. When a job with a lock finishes and the first
  blocked job of its project depends on a job that ended without success, the service asks for
  DEP_FAILED, which the transition table does not know. The finishing update is written, but its
  caller gets E021, and neither this blocked job nor any other job changes: later blocked jobs of
  the project are not promoted.
\<close>

theorem failed_dependency_aborts_promotion:
  assumes job: "getById i w = Some job" "truthy (j_lockKey job)" "ids_distinct w"
    and u: "isTerminal (u_status u)" "u_fencingToken u = None"
    and fsm: "canTransitionJobStatus (j_status job) (u_status u)" "j_status job \<noteq> BLOCKED"
    and rows: "blocked_rows (j_projectId job) w = row # rows"
    and dep: "truthy (j_dependsOnJobId row)" "getById (the (j_dependsOnJobId row)) w = Some d"
      "isTerminal (j_status d)" "j_status d \<noteq> COMPLETED" "j_id d \<noteq> i"
  shows "\<exists>w'. updateStatus e x (Suc (Suc (Suc n))) i u skip w
        = Some (Throw (invalid_transition BLOCKED DEP_FAILED), w')
    \<and> (\<exists>t. getById i w' = Some (apply_update u t job)) \<and> (\<forall>k. k \<noteq> i \<longrightarrow> getById k w' = getById k w)"
proof -
  define up where "up = apply_update u (now w)"
  have "j_status job \<noteq> REIMPORT_FAILED \<or> u_status u \<notin> {COMMITTING, COMPLETED}"
    using fsm(1) by (auto simp: canTransitionJobStatus_def)
  then obtain w1 where wr: "status_write x i u w = (Ret job, w1)"
    and w1: "jobs w1 = set_row j_id i up (jobs w)"
    unfolding up_def using allowed_write [OF job(1) fsm(1) _ u(2)] by blast
  define w2 where "w2 = release_job_locks job w1"
  have jobs2: "jobs w2 = set_row j_id i up (jobs w)" by (simp add: w2_def frames w1)
  have up: "j_id (up j) = j_id j" "j_status (up j) \<noteq> BLOCKED" for j
    using u(1) by (auto simp: up_def)
  have get2: "getById k w2 = (if k = i then Some (up job) else getById k w)" for k
    using getById_set [OF jobs2 up(1), of k] job(1) by simp
  have same: "blocked_rows (j_projectId job) w2 = row # rows"
    using filter_set_row [of j_id i "jobs w" job _ up] job(1) fsm(2) up(2) rows
    by (simp add: blocked_rows_def jobs2 getById_jobs)
  have "row \<in> set (blocked_rows (j_projectId job) w)" using rows by simp
  then have row: "getById (j_id row) w = Some row" "j_status row = BLOCKED"
    using getById_distinct [OF job(3)] by (auto simp: blocked_rows_def)
  have "j_id row \<noteq> i" using row job(1) fsm(2) by auto
  then have row2: "getById (j_id row) w2 = Some row" using row(1) get2 by simp
  have "getById (the (j_dependsOnJobId row)) w2 = Some d"
    using dep(2,5) getById_Some [OF dep(2)] get2 by auto
  then have failed: "pd_depFailed (promotion_decision (j_projectId job) i (u_status u) row w2)"
    using dep by (simp add: promotion_decision_def dep_failed_iff status_of_def)
  have nr: "\<not> isRetriableFailure (u_status u)" using terminal_not_retriable u(1) by blast
  have "updateStatus e x (Suc (Suc (Suc n))) i u skip w
      = Some (Throw (invalid_transition BLOCKED DEP_FAILED), w2)"
    using wr nr u(1) job(2) same failed
    by (simp add: updateStatus_def Let_def w2_def [symmetric] blocked_cannot_fail [OF row2 row(2)])
  with get2 show ?thesis by (auto simp: up_def)
qed

definition stuck_world :: world where
  "stuck_world = fresh_world\<lparr>jobs := [running_job, job_example ''d'' ''p'' CANCELLED,
     (job_example ''b'' ''p'' BLOCKED)\<lparr>j_dependsOnJobId := Some ''d''\<rparr>, job_example ''c'' ''p'' BLOCKED]\<rparr>"

theorem failed_dependency_aborts_promotion_witness:
  "\<exists>w'. updateStatus env_example ext_example 3 ''a'' (empty_update COMPLETED) False stuck_world
       = Some (Throw (invalid_transition BLOCKED DEP_FAILED), w')
     \<and> getById ''c'' w' = Some (job_example ''c'' ''p'' BLOCKED)"
proof -
  have "getById ''a'' stuck_world = Some running_job" "truthy (j_lockKey running_job)" "ids_distinct stuck_world"
    "isTerminal (u_status (empty_update COMPLETED))" "u_fencingToken (empty_update COMPLETED) = None"
    "canTransitionJobStatus (j_status running_job) (u_status (empty_update COMPLETED))"
    "j_status running_job \<noteq> BLOCKED"
    "blocked_rows (j_projectId running_job) stuck_world = [(job_example ''b'' ''p'' BLOCKED)
        \<lparr>j_dependsOnJobId := Some ''d''\<rparr>, job_example ''c'' ''p'' BLOCKED]"
    "getById ''d'' stuck_world = Some (job_example ''d'' ''p'' CANCELLED)"
    "getById ''c'' stuck_world = Some (job_example ''c'' ''p'' BLOCKED)"
    by (simp_all add: stuck_world_def running_job_def job_example_def getById_jobs truthy_def
        empty_update_def canTransitionJobStatus_def blocked_rows_def ids_distinct_def)
  note facts = this
  have dep: "truthy (j_dependsOnJobId ((job_example ''b'' ''p'' BLOCKED)\<lparr>j_dependsOnJobId := Some ''d''\<rparr>))"
    "getById (the (j_dependsOnJobId ((job_example ''b'' ''p'' BLOCKED)\<lparr>j_dependsOnJobId := Some ''d''\<rparr>)))
       stuck_world = Some (job_example ''d'' ''p'' CANCELLED)"
    using facts(9) by (simp_all add: truthy_def)
  show ?thesis
    using failed_dependency_aborts_promotion [OF facts(1-8) dep, of env_example ext_example 0 False] facts(10)
    by (fastforce simp: job_example_def numeral_3_eq_3)
qed

section \<open>Heartbeats\<close>

text \<open>
  A heartbeat without a token extends whoever holds the lock. For a job with a lock key
  that is held at the moment, by this job or by any other owner, the call succeeds, the holder stays
  the same and its lease now ends sixty seconds from now; a key that nobody holds stays free.
\<close>

theorem heartbeat_lease:
  assumes "getById i w = Some job" "j_lockKey job = Some k" "k \<noteq> []"
  shows "\<exists>w'. heartbeat x i None w = (True, w')
    \<and> (\<forall>p. owner_of w k = Some p \<longrightarrow> r_owner w' k = Some (p, Some (now w + 60000)))
    \<and> (owner_of w k = None \<longrightarrow> owner_of w' k = None)
    \<and> (\<forall>k'. k' \<noteq> k \<longrightarrow> r_owner w' k' = r_owner w k')"
  using assms
  by (auto simp: heartbeat_def truthy_def heartbeat_write_def Let_def redis_expire_def owner_of_def
      set_job_def redis_get_def split: option.splits)

theorem heartbeat_lease_witness:
  "\<exists>w'. heartbeat ext_example ''a'' None (running_world\<lparr>r_owner := [''k'' \<mapsto> (owner_id ''other'', Some 5000)]\<rparr>) = (True, w')
     \<and> r_owner w' ''k'' = Some (owner_id ''other'', Some 61000)"
proof -
  let ?w = "running_world\<lparr>r_owner := [''k'' \<mapsto> (owner_id ''other'', Some 5000)]\<rparr>"
  have "getById ''a'' ?w = Some running_job" "j_lockKey running_job = Some ''k''"
    "owner_of ?w ''k'' = Some (owner_id ''other'')" "now ?w = 1000"
    by (simp_all add: running_world_def fresh_world_def running_job_def job_example_def getById_jobs
        owner_of_def redis_get_def empty_lock_fields_def)
  then show ?thesis using heartbeat_lease [of "''a''" ?w running_job "''k''" ext_example] by fastforce
qed

end
