(* ===== verification/Json_Text.thy ===== *)
theory Json_Text
  imports Prelude
begin

text \<open>
  Text helpers shared by the content components: \<open>JSON.stringify\<close>, the own-property rules of
  JavaScript objects used as string maps (\<open>Object.entries\<close> lists integer-like keys first, an
  assignment to \<open>__proto__\<close> creates no property), and line splitting.
\<close>

section \<open>JSON.stringify\<close>

definition hex_digit :: "nat \<Rightarrow> char" where
  "hex_digit n = (if n < 10 then digit_char n else char_of (87 + n))"

definition json_escape_char :: "char \<Rightarrow> string" where
  "json_escape_char c =
     (let n = code c in
      if n = 34 then [CHR 0x5C, CHR 0x22]
      else if n = 92 then [CHR 0x5C, CHR 0x5C]
      else if n = 8 then [CHR 0x5C, CHR ''b'']
      else if n = 9 then [CHR 0x5C, CHR ''t'']
      else if n = 10 then [CHR 0x5C, CHR ''n'']
      else if n = 12 then [CHR 0x5C, CHR ''f'']
      else if n = 13 then [CHR 0x5C, CHR ''r'']
      else if n < 32 then [CHR 0x5C] @ ''u00'' @ [hex_digit (n div 16), hex_digit (n mod 16)]
      else [c])"

definition json_quote :: "string \<Rightarrow> string" where
  "json_quote s = [CHR 0x22] @ concat (map json_escape_char s) @ [CHR 0x22]"

fun stringify :: "json \<Rightarrow> string" where
  "stringify JNull = ''null''"
| "stringify (JBool b) = (if b then ''true'' else ''false'')"
| "stringify (JNum n) = n"
| "stringify (JStr s) = json_quote s"
| "stringify (JArr vs) = ''['' @ join '','' (map stringify vs) @ '']''"
| "stringify (JObj ms) = ''{'' @ join '','' (map (\<lambda>(k, v). json_quote k @ '':'' @ stringify v) ms) @ ''}''"

section \<open>Objects as string maps\<close>

type_synonym attrs = "(string \<times> string) list"

fun attr_put :: "string \<Rightarrow> string \<Rightarrow> attrs \<Rightarrow> attrs" where
  "attr_put k v [] = [(k, v)]"
| "attr_put k v ((a, b) # m) = (if a = k then (k, v) # m else (a, b) # attr_put k v m)"

definition attr_set :: "string \<Rightarrow> string \<Rightarrow> attrs \<Rightarrow> attrs" where
  "attr_set k v m = (if k = ''__proto__'' then m else attr_put k v m)"

definition integer_key :: "string \<Rightarrow> bool" where
  "integer_key k = (k \<noteq> [] \<and> list_all is_digit k \<and> (k = ''0'' \<or> hd k \<noteq> CHR ''0'') \<and> parse_nat k < 2 ^ 32 - 1)"

definition object_entries :: "attrs \<Rightarrow> attrs" where
  "object_entries m =
     sort_key (parse_nat \<circ> fst) (filter (integer_key \<circ> fst) m) @ filter (\<lambda>e. \<not> integer_key (fst e)) m"

lemma map_of_attr_put: "map_of (attr_put k v m) = (map_of m)(k \<mapsto> v)"
  by (induction m) (auto simp: fun_eq_iff)

lemma map_fst_attr_put:
  "map fst (attr_put k v m) = (if k \<in> set (map fst m) then map fst m else map fst m @ [k])"
  by (induction m) force+

lemma keys_attr_put: "set (map fst (attr_put k v m)) = insert k (set (map fst m))"
  by (simp add: map_fst_attr_put insert_absorb del: set_map)

lemma distinct_attr_put: "distinct (map fst m) \<Longrightarrow> distinct (map fst (attr_put k v m))"
  by (simp add: map_fst_attr_put)

lemma attr_put_set: "e \<in> set (attr_put k v m) \<Longrightarrow> e = (k, v) \<or> e \<in> set m"
  by (induction m) (auto split: if_splits)

text \<open>Two maps with the same keys in the same order are equal when they agree on every key.\<close>

lemma attrs_eqI:
  assumes "map fst m = map fst n" "distinct (map fst m)" "\<And>k. map_of m k = map_of n k"
  shows "m = n"
proof (rule nth_equalityI)
  show len: "length m = length n" using assms(1) map_eq_imp_length_eq by blast
  fix i assume i: "i < length m"
  have "map_of m (fst (m ! i)) = Some (snd (m ! i))"
    using assms(2) i by (metis map_of_eq_Some_iff nth_mem prod.collapse)
  moreover have "fst (n ! i) = fst (m ! i)" using assms(1) i len by (metis nth_map)
  moreover have "map_of n (fst (n ! i)) = Some (snd (n ! i))"
    using assms(1,2) i len by (metis map_of_eq_Some_iff nth_mem prod.collapse)
  ultimately show "m ! i = n ! i" using assms(3) by (metis option.inject prod.collapse)
qed

subsection \<open>Sequences of assignments\<close>

definition put_all :: "attrs \<Rightarrow> attrs \<Rightarrow> attrs" where
  "put_all m es = foldl (\<lambda>m (k, v). attr_put k v m) m es"

lemma put_all_Nil [simp]: "put_all m [] = m"
  by (simp add: put_all_def)

lemma put_all_Cons [simp]: "put_all m ((k, v) # es) = put_all (attr_put k v m) es"
  by (simp add: put_all_def)

lemma put_all_append: "put_all m (es @ fs) = put_all (put_all m es) fs"
  by (simp add: put_all_def)

lemma map_of_put_all: "map_of (put_all m es) = map_of m ++ map_of (rev es)"
  by (induction es arbitrary: m) (auto simp: map_of_attr_put fun_eq_iff map_add_def split: option.splits)

lemma distinct_put_all: "distinct (map fst m) \<Longrightarrow> distinct (map fst (put_all m es))"
  by (induction es arbitrary: m) (auto simp: distinct_attr_put)

lemma keys_put_all: "set (map fst (put_all m es)) = set (map fst m) \<union> set (map fst es)"
  by (induction es arbitrary: m) (auto simp: keys_attr_put simp del: set_map)

lemma map_fst_put_all_same: "set (map fst es) \<subseteq> set (map fst m) \<Longrightarrow> map fst (put_all m es) = map fst m"
  by (induction es arbitrary: m) (auto simp: map_fst_attr_put simp del: set_map)

lemma put_all_set: "e \<in> set (put_all m es) \<Longrightarrow> e \<in> set m \<or> e \<in> set es"
  by (induction es arbitrary: m) (fastforce dest: attr_put_set)+

lemma put_all_idem:
  assumes "distinct (map fst m)"
  shows "put_all (put_all m es) es = put_all m es"
proof (rule attrs_eqI)
  show "map fst (put_all (put_all m es) es) = map fst (put_all m es)"
    by (rule map_fst_put_all_same) (simp add: keys_put_all del: set_map)
  show "distinct (map fst (put_all (put_all m es) es))"
    using assms by (simp add: distinct_put_all)
qed (simp add: map_of_put_all map_add_def split: option.splits)

lemma put_all_fresh: "distinct (map fst (m @ es)) \<Longrightarrow> put_all m es = m @ es"
proof (induction es arbitrary: m)
  case (Cons e es)
  obtain k v where e: "e = (k, v)" by force
  have "attr_put k v m = m @ [e]" if "k \<notin> set (map fst m)" for m
    using that by (induction m) (auto simp: e)
  then show ?case using Cons by (simp add: e)
qed simp

lemma put_all_self: "distinct (map fst es) \<Longrightarrow> put_all [] es = es"
  using put_all_fresh [of "[]"] by simp

section \<open>Lines\<close>

definition NL :: char where
  "NL = CHR 0x0A"

definition CR :: char where
  "CR = CHR 0x0D"

text \<open>\<open>replace(/\r\n/g, '\n')\<close>\<close>

fun crlf_to_lf :: "string \<Rightarrow> string" where
  "crlf_to_lf (a # b # s) = (if a = CR \<and> b = NL then NL # crlf_to_lf s else a # crlf_to_lf (b # s))"
| "crlf_to_lf s = s"

definition lines_of :: "string \<Rightarrow> string list" where
  "lines_of s = split_on NL s"

definition unlines :: "string list \<Rightarrow> string" where
  "unlines ls = join [NL] ls"

definition end_line :: "string \<Rightarrow> string" where
  "end_line s = (if ends_with s [NL] then s else s @ [NL])"

lemma unlines_lines_of [simp]: "unlines (lines_of s) = s"
  by (simp add: unlines_def lines_of_def join_split_on)

lemma lines_of_unlines: "ls \<noteq> [] \<Longrightarrow> \<forall>l \<in> set ls. NL \<notin> set l \<Longrightarrow> lines_of (unlines ls) = ls"
  by (simp add: unlines_def lines_of_def split_on_join)

lemma lines_of_no_newline: "l \<in> set (lines_of s) \<Longrightarrow> NL \<notin> set l"
  by (simp add: lines_of_def split_on_pieces)

lemma crlf_no_CR: "CR \<notin> set s \<Longrightarrow> crlf_to_lf s = s"
  by (induction s rule: crlf_to_lf.induct) auto

lemma end_line_ends: "ends_with (end_line s) [NL]"
  by (simp add: end_line_def ends_with_iff)

lemma end_line_idem [simp]: "end_line (end_line s) = end_line s"
  using end_line_ends [of s] by (simp add: end_line_def [of "end_line s"])

end
