(* ===== verification/Tscn_Merge.thy ===== *)
theory Tscn_Merge
  imports Json_Text
begin

text \<open>
  \<open>services/tscn-merge.ts\<close>: the structural merge of a patch into a Godot text scene. A scene is split
  into sections at the lines that open with a bracket; node sections are found by the path that their
  header gives, resource sections by uid or id; properties are set line by line. The regular
  expressions of the source are written out as scanners.

  A patch keeps the members of the JSON object in the order of \<open>Object.entries\<close>; its two typed members
  are separate fields.
\<close>

section \<open>Data\<close>

record TscnSection =
  s_header :: string
  s_lines :: "string list"

record TscnAst =
  t_preamble :: "string list"
  t_sections :: "TscnSection list"

record NodePatch =
  np_path :: "string option"
  np_name :: "string option"
  np_parent :: "string option"
  np_type :: "string option"
  np_properties :: "metadata option"
  np_delete :: bool

record ExtResourcePatch =
  ep_uid :: "string option"
  ep_type :: "string option"
  ep_path :: "string option"
  ep_id :: "string option"

record TscnPatch =
  tp_nodes :: "NodePatch list option"
  tp_ext_resources :: "ExtResourcePatch list option"
  tp_other :: metadata

section \<open>Parsing and printing\<close>

definition section_line :: "string \<Rightarrow> bool" where
  "section_line l = starts_with l ''[''"

fun parse_lines :: "string list \<Rightarrow> TscnSection option \<Rightarrow> string list \<Rightarrow> TscnSection list \<Rightarrow> TscnAst" where
  "parse_lines [] current preamble sections =
     \<lparr>t_preamble = preamble,
      t_sections = (case current of None \<Rightarrow> sections | Some s \<Rightarrow> sections @ [s])\<rparr>"
| "parse_lines (l # ls) current preamble sections =
     (if section_line l
      then parse_lines ls (Some \<lparr>s_header = l, s_lines = []\<rparr>) preamble
             (case current of None \<Rightarrow> sections | Some s \<Rightarrow> sections @ [s])
      else (case current of
              Some s \<Rightarrow> parse_lines ls (Some (s\<lparr>s_lines := s_lines s @ [l]\<rparr>)) preamble sections
            | None \<Rightarrow> parse_lines ls None (preamble @ [l]) sections))"

definition parseTscn :: "string \<Rightarrow> TscnAst" where
  "parseTscn content = parse_lines (lines_of (crlf_to_lf content)) None [] []"

definition section_text :: "TscnSection \<Rightarrow> string list" where
  "section_text s = s_header s # s_lines s"

definition ast_lines :: "TscnAst \<Rightarrow> string list" where
  "ast_lines ast = t_preamble ast @ concat (map section_text (t_sections ast))"

definition serializeTscn :: "TscnAst \<Rightarrow> string" where
  "serializeTscn ast = end_line (unlines (ast_lines ast))"

section \<open>Headers\<close>

text \<open>All matches of \<open>/(\w+)="([^"]*)"/g\<close>, from left to right.\<close>

function scan_attrs :: "string \<Rightarrow> attrs" where
  "scan_attrs [] = []"
| "scan_attrs (c # s) =
     (if \<not> is_word c then scan_attrs s
      else let name = takeWhile is_word (c # s); rest = dropWhile is_word (c # s) in
        if starts_with rest [CHR ''='', CHR 0x22]
        then let body = drop 2 rest; val = takeWhile (\<lambda>x. x \<noteq> CHR 0x22) body;
                 after = dropWhile (\<lambda>x. x \<noteq> CHR 0x22) body in
             if after = [] then scan_attrs s else (name, val) # scan_attrs (tl after)
        else scan_attrs s)"
  by pat_completeness auto

lemma scan_attrs_shrinks:
  "starts_with (dropWhile p s) [a, b] \<Longrightarrow> length (tl (dropWhile q (drop 2 (dropWhile p s)))) < length s"
proof -
  assume "starts_with (dropWhile p s) [a, b]"
  then have "2 \<le> length (dropWhile p s)" by (auto simp: starts_with_def prefix_def)
  moreover have "length (dropWhile p s) \<le> length s" by (rule length_dropWhile_le)
  moreover have "length (dropWhile q (drop 2 (dropWhile p s))) \<le> length (drop 2 (dropWhile p s))"
    by (rule length_dropWhile_le)
  ultimately show ?thesis by simp
qed

termination scan_attrs
proof (relation "measure length")
  fix c s name rest body val after
  assume "\<not> \<not> is_word c" and rest: "rest = dropWhile is_word (c # s)"
    and st: "starts_with rest [CHR ''='', CHR 0x22]" and body: "body = drop 2 rest"
    and after: "after = dropWhile (\<lambda>x. x \<noteq> CHR 0x22) body"
  show "(tl after, c # s) \<in> measure length"
    using scan_attrs_shrinks [of is_word "c # s"] st unfolding rest body after by auto
qed auto

definition parseHeaderAttrs :: "string \<Rightarrow> attrs" where
  "parseHeaderAttrs header = foldl (\<lambda>m (k, v). attr_set k v m) [] (scan_attrs header)"

text \<open>\<open>replace(/^\.\//, '')\<close>\<close>

definition strip_dot_slash :: "string \<Rightarrow> string" where
  "strip_dot_slash p = (if starts_with p ''./'' then drop 2 p else p)"

definition nodePathFromHeader :: "string \<Rightarrow> string option" where
  "nodePathFromHeader header =
     (if \<not> starts_with header ''[node '' then None
      else let attrs = parseHeaderAttrs header; name = map_of attrs ''name''; parent = map_of attrs ''parent'' in
        if \<not> truthy name then None
        else if \<not> truthy parent \<or> parent = Some ''.'' then name
        else Some (strip_dot_slash (the parent @ ''/'' @ the name)))"

section \<open>Properties\<close>

definition is_path_char :: "char \<Rightarrow> bool" where
  "is_path_char c = (is_word c \<or> c = CHR ''/'')"

definition key_start :: "char \<Rightarrow> bool" where
  "key_start c = (is_alpha c \<or> c = CHR ''_'')"

text \<open>\<open>/^([A-Za-z_][\w/]*)\s*=/\<close>: the key and what follows the equals sign.\<close>

definition match_key :: "string \<Rightarrow> (string \<times> string) option" where
  "match_key l =
     (case l of [] \<Rightarrow> None
      | c # s \<Rightarrow>
         if \<not> key_start c then None
         else (case dropWhile is_space (dropWhile is_path_char s) of
                 [] \<Rightarrow> None
               | d # rest \<Rightarrow> if d = CHR ''='' then Some (c # takeWhile is_path_char s, rest) else None))"

text \<open>\<open>/^([A-Za-z_][\w/]*)\s*=\s*(.*)$/\<close>: a dot matches no line terminator.\<close>

definition match_prop :: "string \<Rightarrow> (string \<times> string) option" where
  "match_prop l =
     (case match_key l of None \<Rightarrow> None
      | Some (k, rest) \<Rightarrow>
         let v = dropWhile is_space rest in
         if NL \<in> set v \<or> CR \<in> set v then None else Some (k, v))"

definition section_props :: "string list \<Rightarrow> attrs" where
  "section_props ls = put_all [] (List.map_filter match_prop ls)"

definition render_value :: "json \<Rightarrow> string" where
  "render_value v = (case v of JStr s \<Rightarrow> s | _ \<Rightarrow> stringify v)"

definition prop_line :: "string \<times> string \<Rightarrow> string" where
  "prop_line kv = fst kv @ '' = '' @ snd kv"

definition setPropertyLines :: "string list \<Rightarrow> metadata \<Rightarrow> string list" where
  "setPropertyLines ls props =
     (let m = put_all (section_props ls) (map (\<lambda>(k, v). (k, render_value v)) props);
          nonProps = filter (\<lambda>l. match_key l = None) ls in
      map prop_line m @ filter (\<lambda>l. js_trim l \<noteq> []) nonProps)"

section \<open>Patches\<close>

definition flat_patch :: "string \<Rightarrow> metadata \<Rightarrow> NodePatch" where
  "flat_patch k props =
     \<lparr>np_path = Some k, np_name = None, np_parent = None, np_type = None,
      np_properties = Some props, np_delete = False\<rparr>"

definition normalizePatch :: "TscnPatch \<Rightarrow> NodePatch list \<times> ExtResourcePatch list" where
  "normalizePatch patch =
     (or_default (tp_nodes patch) [] @
        List.map_filter
          (\<lambda>(k, v). if k = ''nodes'' \<or> k = ''ext_resources'' then None
                    else (case v of JObj props \<Rightarrow> Some (flat_patch k props) | _ \<Rightarrow> None))
          (tp_other patch),
      or_default (tp_ext_resources patch) [])"

definition attr_text :: "string \<times> string \<Rightarrow> string" where
  "attr_text kv = fst kv @ [CHR ''='', CHR 0x22] @ snd kv @ [CHR 0x22]"

definition override :: "string \<Rightarrow> string option \<Rightarrow> attrs \<Rightarrow> attrs" where
  "override k v m = (if truthy v then attr_put k (the v) m else m)"

definition ext_matches :: "ExtResourcePatch \<Rightarrow> TscnSection \<Rightarrow> bool" where
  "ext_matches ep s =
     (starts_with (s_header s) ''[ext_resource '' \<and>
      (let attrs = parseHeaderAttrs (s_header s) in
       (truthy (ep_uid ep) \<and> map_of attrs ''uid'' = ep_uid ep) \<or>
       (truthy (ep_id ep) \<and> map_of attrs ''id'' = ep_id ep)))"

definition rebuilt_header :: "ExtResourcePatch \<Rightarrow> TscnSection \<Rightarrow> string" where
  "rebuilt_header ep s =
     (let next1 = override ''id'' (ep_id ep) (override ''uid'' (ep_uid ep)
                   (override ''path'' (ep_path ep) (override ''type'' (ep_type ep)
                     (parseHeaderAttrs (s_header s)))))
      in ''[ext_resource '' @ join '' '' (map attr_text (object_entries next1)) @ '']'')"

definition new_ext :: "ExtResourcePatch \<Rightarrow> nat \<Rightarrow> TscnSection" where
  "new_ext ep n =
     (let parts = [attr_text (''type'', the (ep_type ep)), attr_text (''path'', the (ep_path ep))] @
                  (if truthy (ep_uid ep) then [attr_text (''uid'', the (ep_uid ep))] else []) @
                  [attr_text (''id'', or_default (ep_id ep) (''ext_'' @ show_nat n))]
      in \<lparr>s_header = ''[ext_resource '' @ join '' '' parts @ '']'', s_lines = []\<rparr>)"

definition merge_ext :: "TscnSection list \<Rightarrow> ExtResourcePatch \<Rightarrow> TscnSection list" where
  "merge_ext sections ep =
     (if \<not> truthy (ep_uid ep) \<and> \<not> truthy (ep_id ep) then sections
      else let updated = map (\<lambda>s. if ext_matches ep s then s\<lparr>s_header := rebuilt_header ep s\<rparr> else s) sections in
        if \<not> (\<exists>s \<in> set sections. ext_matches ep s) \<and> truthy (ep_type ep) \<and> truthy (ep_path ep)
        then updated @ [new_ext ep (length sections)]
        else updated)"

definition patch_path :: "NodePatch \<Rightarrow> string option" where
  "patch_path np =
     (case np_path np of Some p \<Rightarrow> Some p
      | None \<Rightarrow>
         if truthy (np_parent np) \<and> truthy (np_name np)
         then if np_parent np = Some ''.'' then np_name np
              else Some (the (np_parent np) @ ''/'' @ the (np_name np))
         else np_name np)"

definition at_path :: "string \<Rightarrow> TscnSection \<Rightarrow> bool" where
  "at_path path s = (starts_with (s_header s) ''[node '' \<and> nodePathFromHeader (s_header s) = Some path)"

text \<open>\<open>findIndex\<close> with \<open>splice\<close> and with an update in place: the first section at the path.\<close>

fun remove_first :: "('a \<Rightarrow> bool) \<Rightarrow> 'a list \<Rightarrow> 'a list" where
  "remove_first p [] = []"
| "remove_first p (x # xs) = (if p x then xs else x # remove_first p xs)"

fun update_first :: "('a \<Rightarrow> bool) \<Rightarrow> ('a \<Rightarrow> 'a) \<Rightarrow> 'a list \<Rightarrow> 'a list" where
  "update_first p f [] = []"
| "update_first p f (x # xs) = (if p x then f x # xs else x # update_first p f xs)"

text \<open>\<open>path.slice(0, path.lastIndexOf('/'))\<close>\<close>

definition parent_of :: "string \<Rightarrow> string" where
  "parent_of path = join ''/'' (butlast (split_on (CHR ''/'') path))"

definition new_node :: "NodePatch \<Rightarrow> string \<Rightarrow> TscnSection" where
  "new_node np path =
     (let name = or_default (np_name np) (last (split_on (CHR ''/'') path));
          parent = or_default (np_parent np)
                     (if CHR ''/'' \<in> set path then parent_of path else ''.'');
          ty = or_default (np_type np) ''Node''
      in \<lparr>s_header = ''[node '' @ join '' '' [attr_text (''name'', name), attr_text (''type'', ty),
                        attr_text (''parent'', parent)] @ '']'',
          s_lines = (case np_properties np of None \<Rightarrow> [] | Some ps \<Rightarrow> setPropertyLines [] ps)\<rparr>)"

definition set_props :: "NodePatch \<Rightarrow> TscnSection \<Rightarrow> TscnSection" where
  "set_props np s =
     (case np_properties np of None \<Rightarrow> s | Some ps \<Rightarrow> s\<lparr>s_lines := setPropertyLines (s_lines s) ps\<rparr>)"

definition merge_node :: "TscnSection list \<Rightarrow> NodePatch \<Rightarrow> TscnSection list" where
  "merge_node sections np =
     (case patch_path np of None \<Rightarrow> sections
      | Some path \<Rightarrow>
         if path = [] then sections
         else if np_delete np then remove_first (at_path path) sections
         else if \<exists>s \<in> set sections. at_path path s then update_first (at_path path) (set_props np) sections
         else sections @ [new_node np path])"

definition mergeTscn :: "TscnAst \<Rightarrow> TscnPatch \<Rightarrow> TscnAst" where
  "mergeTscn base patch =
     (let (nodePatches, extPatches) = normalizePatch patch in
      \<lparr>t_preamble = t_preamble base,
       t_sections = foldl merge_node (foldl merge_ext (t_sections base) extPatches) nodePatches\<rparr>)"

definition applyTscnPatch :: "string \<Rightarrow> TscnPatch \<Rightarrow> string" where
  "applyTscnPatch baseContent patch = serializeTscn (mergeTscn (parseTscn baseContent) patch)"

section \<open>Round trip of parsing and printing\<close>

definition opt_lines :: "TscnSection option \<Rightarrow> string list" where
  "opt_lines c = (case c of None \<Rightarrow> [] | Some s \<Rightarrow> section_text s)"

lemma ast_lines_parse:
  "(cur = None \<longrightarrow> secs = []) \<Longrightarrow>
     ast_lines (parse_lines ls cur pre secs) = pre @ concat (map section_text secs) @ opt_lines cur @ ls"
  by (induction ls cur pre secs rule: parse_lines.induct)
    (auto simp: ast_lines_def opt_lines_def section_text_def split: option.splits)

text \<open>
  C32 (roundtrip). Printing a parsed scene gives back the text it was parsed from, with carriage
  returns before newlines dropped and a newline at the end: parsing loses no line and moves none,
  whatever the text is.
\<close>

theorem tscn_print_parse: "serializeTscn (parseTscn s) = end_line (crlf_to_lf s)"
  by (simp add: serializeTscn_def parseTscn_def ast_lines_parse opt_lines_def)

definition body_line :: "string \<Rightarrow> bool" where
  "body_line l = (\<not> section_line l)"

definition wf_section :: "TscnSection \<Rightarrow> bool" where
  "wf_section s = (section_line (s_header s) \<and> list_all body_line (s_lines s))"

definition wf_ast :: "TscnAst \<Rightarrow> bool" where
  "wf_ast a = (list_all body_line (t_preamble a) \<and> list_all wf_section (t_sections a))"

lemma parse_body:
  "list_all body_line ls \<Longrightarrow>
     parse_lines (ls @ rest) (Some s) pre secs = parse_lines rest (Some (s\<lparr>s_lines := s_lines s @ ls\<rparr>)) pre secs"
  by (induction ls arbitrary: s) (simp_all add: body_line_def)

lemma parse_preamble:
  "list_all body_line ls \<Longrightarrow> parse_lines (ls @ rest) None pre secs = parse_lines rest None (pre @ ls) secs"
  by (induction ls arbitrary: pre) (simp_all add: body_line_def)

lemma parse_sections:
  "list_all wf_section ss \<Longrightarrow>
     parse_lines (concat (map section_text ss)) cur pre secs =
       \<lparr>t_preamble = pre, t_sections = secs @ (case cur of None \<Rightarrow> [] | Some s \<Rightarrow> [s]) @ ss\<rparr>"
proof (induction ss arbitrary: cur secs)
  case Nil
  then show ?case by (simp split: option.splits)
next
  case (Cons s ss)
  then show ?case by (auto simp: section_text_def wf_section_def parse_body split: option.splits)
qed

lemma parse_ast_lines: "wf_ast a \<Longrightarrow> parse_lines (ast_lines a) None [] [] = a"
  by (simp add: wf_ast_def ast_lines_def parse_preamble parse_sections)

lemma wf_parse_lines:
  "(case cur of None \<Rightarrow> True | Some s \<Rightarrow> wf_section s) \<Longrightarrow> list_all body_line pre \<Longrightarrow> list_all wf_section secs \<Longrightarrow>
     wf_ast (parse_lines ls cur pre secs)"
  by (induction ls cur pre secs rule: parse_lines.induct)
    (auto simp: wf_ast_def wf_section_def body_line_def split: option.splits)

lemma wf_parseTscn: "wf_ast (parseTscn s)"
  by (simp add: parseTscn_def wf_parse_lines)

text \<open>The blank line that a missing newline at the end turns into.\<close>

definition blank_section :: "TscnSection \<Rightarrow> TscnSection" where
  "blank_section s = s\<lparr>s_lines := s_lines s @ [[]]\<rparr>"

definition add_blank :: "TscnAst \<Rightarrow> TscnAst" where
  "add_blank a =
     (if t_sections a = [] then a\<lparr>t_preamble := t_preamble a @ [[]]\<rparr>
      else a\<lparr>t_sections := butlast (t_sections a) @ [blank_section (last (t_sections a))]\<rparr>)"

lemma ast_lines_add_blank: "ast_lines (add_blank a) = ast_lines a @ [[]]"
proof (cases "t_sections a = []")
  case True
  then show ?thesis by (simp add: add_blank_def ast_lines_def)
next
  case False
  then obtain ss s where "t_sections a = ss @ [s]" by (cases "t_sections a" rule: rev_cases) auto
  then show ?thesis by (simp add: add_blank_def ast_lines_def blank_section_def section_text_def)
qed

lemma unlines_snoc: "ls \<noteq> [] \<Longrightarrow> unlines (ls @ [[]]) = unlines ls @ [NL]"
proof (induction ls)
  case (Cons l ls)
  then show ?case by (cases ls) (simp_all add: unlines_def join_Cons)
qed simp

definition clean_lines :: "string list \<Rightarrow> bool" where
  "clean_lines ls = list_all (\<lambda>l. NL \<notin> set l \<and> CR \<notin> set l) ls"

lemma CR_not_NL [simp]: "CR \<noteq> NL"
  by (simp add: CR_def NL_def)

lemma unlines_no_CR: "clean_lines ls \<Longrightarrow> CR \<notin> set (unlines ls)"
  unfolding unlines_def
  by (induction "[NL]" ls rule: join.induct) (auto simp: clean_lines_def)

lemma end_line_no_CR: "CR \<notin> set s \<Longrightarrow> CR \<notin> set (end_line s)"
  by (simp add: end_line_def)

text \<open>Parsing what was printed gives the scene, or the scene with the closing newline as a line.\<close>

lemma parse_print:
  assumes wf: "wf_ast a" and cl: "clean_lines (ast_lines a)" and ne: "ast_lines a \<noteq> []"
  shows "(ends_with (unlines (ast_lines a)) [NL] \<and> parseTscn (serializeTscn a) = a) \<or>
         (\<not> ends_with (unlines (ast_lines a)) [NL] \<and> parseTscn (serializeTscn a) = add_blank a)"
proof -
  have lf: "crlf_to_lf (serializeTscn a) = serializeTscn a"
    using cl by (simp add: crlf_no_CR serializeTscn_def end_line_no_CR unlines_no_CR)
  have nl: "\<forall>l \<in> set (ast_lines a). NL \<notin> set l" using cl by (simp add: clean_lines_def list_all_iff)
  show ?thesis
  proof (cases "ends_with (unlines (ast_lines a)) [NL]")
    case True
    then show ?thesis
      using ne nl wf lf by (simp add: parseTscn_def serializeTscn_def end_line_def lines_of_unlines parse_ast_lines)
  next
    case False
    have bl: "body_line []" by (simp add: body_line_def section_line_def starts_with_def)
    have wfb: "wf_ast (add_blank a)"
    proof (cases "t_sections a = []")
      case True
      with wf bl show ?thesis by (simp add: wf_ast_def add_blank_def)
    next
      case nempty: False
      then have "wf_section (last (t_sections a))" "list_all wf_section (butlast (t_sections a))"
        using wf by (auto simp: wf_ast_def list_all_iff dest: in_set_butlastD)
      with nempty wf bl show ?thesis
        by (simp add: wf_ast_def add_blank_def blank_section_def wf_section_def)
    qed
    have "lines_of (unlines (ast_lines a) @ [NL]) = ast_lines (add_blank a)"
      using nl lines_of_unlines [of "ast_lines a @ [[]]"] by (auto simp: ast_lines_add_blank unlines_snoc [OF ne])
    with False lf wfb show ?thesis
      by (simp add: parseTscn_def serializeTscn_def end_line_def parse_ast_lines)
  qed
qed

lemma serialize_add_blank:
  assumes "ast_lines a \<noteq> []" "\<not> ends_with (unlines (ast_lines a)) [NL]"
  shows "serializeTscn (add_blank a) = serializeTscn a"
proof -
  have "ends_with (unlines (ast_lines a) @ [NL]) [NL]" by (auto simp: ends_with_iff)
  with assms show ?thesis
    by (simp add: serializeTscn_def ast_lines_add_blank unlines_snoc end_line_def)
qed

section \<open>Property lines\<close>

definition good_key :: "string \<Rightarrow> bool" where
  "good_key k = (k \<noteq> [] \<and> key_start (hd k) \<and> list_all is_path_char (tl k))"

definition good_value :: "string \<Rightarrow> bool" where
  "good_value v = (NL \<notin> set v \<and> CR \<notin> set v \<and> (v \<noteq> [] \<longrightarrow> \<not> is_space (hd v)))"

definition good_prop :: "string \<times> string \<Rightarrow> bool" where
  "good_prop kv = (good_key (fst kv) \<and> good_value (snd kv))"

definition rendered :: "metadata \<Rightarrow> attrs" where
  "rendered ps = map (\<lambda>(k, v). (k, render_value v)) ps"

definition good_props :: "metadata \<Rightarrow> bool" where
  "good_props ps = list_all good_prop (rendered ps)"

definition extra_lines :: "string list \<Rightarrow> string list" where
  "extra_lines ls = filter (\<lambda>l. js_trim l \<noteq> []) (filter (\<lambda>l. match_key l = None) ls)"

lemma set_property_lines:
  "setPropertyLines ls ps = map prop_line (put_all (section_props ls) (rendered ps)) @ extra_lines ls"
  by (simp add: setPropertyLines_def rendered_def extra_lines_def Let_def)

lemma is_space_blank [simp]: "is_space (CHR '' '')"
  by (simp add: is_space_def code_def)

lemma char_kinds [simp]:
  "\<not> is_path_char (CHR '' '')" "\<not> is_space (CHR ''='')" "\<not> is_path_char NL" "\<not> is_path_char CR"
  "\<not> key_start NL" "\<not> key_start CR" "\<not> key_start (CHR ''['')"
  by (simp_all add: is_path_char_def is_word_def is_alpha_def is_digit_def is_space_def key_start_def
      code_def NL_def CR_def)

lemma dropWhile_good_value: "good_value v \<Longrightarrow> dropWhile is_space v = v"
  by (cases v) (simp_all add: good_value_def)

lemma take_path_chars:
  "list_all is_path_char s \<Longrightarrow> \<not> is_path_char x \<Longrightarrow>
     takeWhile is_path_char (s @ x # r) = s \<and> dropWhile is_path_char (s @ x # r) = x # r"
  by (induction s) simp_all

lemma match_key_prop_line:
  assumes "good_key k" shows "match_key (prop_line (k, v)) = Some (k, CHR '' '' # v)"
proof -
  obtain c s where k: "k = c # s" "key_start c" "list_all is_path_char s"
    using assms by (cases k) (auto simp: good_key_def)
  then show ?thesis
    using take_path_chars [of s "CHR '' ''" "''= '' @ v"] by (simp add: match_key_def prop_line_def)
qed

lemma match_prop_line: "good_prop kv \<Longrightarrow> match_prop (prop_line kv) = Some kv"
  by (cases kv) (simp add: match_prop_def match_key_prop_line good_prop_def dropWhile_good_value,
      simp add: good_value_def)

lemma takeWhile_all: "list_all p (takeWhile p s)"
  by (induction s) simp_all

lemma match_key_good: "match_key l = Some (k, r) \<Longrightarrow> good_key k"
  by (auto simp: match_key_def good_key_def takeWhile_all split: list.splits if_splits)

lemma hd_dropWhile_not: "dropWhile p s \<noteq> [] \<Longrightarrow> \<not> p (hd (dropWhile p s))"
  by (induction s) auto

lemma match_prop_good: "match_prop l = Some kv \<Longrightarrow> good_prop kv"
proof -
  assume "match_prop l = Some kv"
  then obtain k r where mk: "match_key l = Some (k, r)" and kv: "kv = (k, dropWhile is_space r)"
    and nl: "NL \<notin> set (dropWhile is_space r)" "CR \<notin> set (dropWhile is_space r)"
    by (auto simp: match_prop_def Let_def split: option.splits if_splits)
  from match_key_good [OF mk] nl hd_dropWhile_not [of is_space r] show ?thesis
    unfolding good_prop_def good_value_def kv fst_conv snd_conv by blast
qed

lemma section_props_distinct: "distinct (map fst (section_props ls))"
  by (simp add: section_props_def distinct_put_all)

lemma section_props_good: "list_all good_prop (section_props ls)"
proof -
  have "list_all good_prop (List.map_filter match_prop ls)"
    by (induction ls) (auto simp: List.map_filter_simps match_prop_good split: option.splits)
  then show ?thesis
    by (auto simp: section_props_def list_all_iff dest!: put_all_set)
qed

lemma map_filter_prop_lines:
  "list_all good_prop m \<Longrightarrow> List.map_filter match_prop (map prop_line m @ ls) = m @ List.map_filter match_prop ls"
  by (induction m) (simp_all add: List.map_filter_simps match_prop_line)

lemma map_filter_extra: "List.map_filter match_prop (extra_lines ls) = []"
  by (induction ls) (simp_all add: extra_lines_def List.map_filter_simps match_prop_def)

lemma section_props_lines:
  "list_all good_prop m \<Longrightarrow> distinct (map fst m) \<Longrightarrow> section_props (map prop_line m @ extra_lines ls) = m"
  by (simp add: section_props_def map_filter_prop_lines map_filter_extra put_all_self)

lemma merged_props_good:
  "good_props ps \<Longrightarrow> list_all good_prop (put_all (section_props ls) (rendered ps))"
  using section_props_good [of ls] by (auto simp: good_props_def list_all_iff dest!: put_all_set)

lemma section_props_set:
  "good_props ps \<Longrightarrow> section_props (setPropertyLines ls ps) = put_all (section_props ls) (rendered ps)"
  by (simp add: set_property_lines section_props_lines merged_props_good distinct_put_all
      section_props_distinct)

lemma extra_lines_props: "list_all good_prop m \<Longrightarrow> extra_lines (map prop_line m @ ls) = extra_lines ls"
proof (induction m)
  case (Cons kv m)
  then have "match_key (prop_line kv) \<noteq> None"
    by (cases kv) (simp add: match_key_prop_line good_prop_def)
  with Cons show ?case by (simp add: extra_lines_def)
qed simp

lemma extra_lines_idem [simp]: "extra_lines (extra_lines ls) = extra_lines ls"
  by (induction ls) (simp_all add: extra_lines_def)

lemma extra_lines_set: "good_props ps \<Longrightarrow> extra_lines (setPropertyLines ls ps) = extra_lines ls"
  by (simp add: set_property_lines extra_lines_props merged_props_good)

lemma rendered_append: "rendered (ps @ qs) = rendered ps @ rendered qs"
  by (simp add: rendered_def)

lemma set_properties_twice:
  "good_props ps \<Longrightarrow> setPropertyLines (setPropertyLines ls ps) qs = setPropertyLines ls (ps @ qs)"
  by (simp add: set_property_lines [of "setPropertyLines ls ps"] set_property_lines [of ls "ps @ qs"]
      section_props_set extra_lines_set rendered_append put_all_append)

lemma set_properties_blank: "setPropertyLines (ls @ [[]]) ps = setPropertyLines ls ps"
proof -
  have "match_key [] = None" "js_trim [] = []" by (simp_all add: match_key_def js_trim_def)
  then show ?thesis
    by (simp add: setPropertyLines_def section_props_def List.map_filter_simps List.map_filter_def match_prop_def)
qed

subsection \<open>Sequences of property patches on one section\<close>

lemma good_props_concat: "list_all good_props pss \<Longrightarrow> good_props (concat pss)"
  by (induction pss) (auto simp: good_props_def rendered_def)

lemma set_properties_seq:
  "list_all good_props pss \<Longrightarrow> pss \<noteq> [] \<Longrightarrow> foldl setPropertyLines ls pss = setPropertyLines ls (concat pss)"
proof (induction pss rule: rev_induct)
  case (snoc ps pss)
  then show ?case by (cases "pss = []") (simp_all add: set_properties_twice good_props_concat)
qed simp

lemma set_properties_seq_idem:
  assumes "list_all good_props pss"
  shows "foldl setPropertyLines (foldl setPropertyLines ls pss) pss = foldl setPropertyLines ls pss"
proof (cases "pss = []")
  case False
  have "setPropertyLines ls (concat pss @ concat pss) = setPropertyLines ls (concat pss)"
    by (simp add: set_property_lines rendered_append put_all_append put_all_idem section_props_distinct)
  with False assms show ?thesis by (simp add: set_properties_seq set_properties_twice good_props_concat)
qed simp

lemma set_properties_seq_blank:
  "pss \<noteq> [] \<Longrightarrow> foldl setPropertyLines (ls @ [[]]) pss = foldl setPropertyLines ls pss"
  by (cases pss) (simp_all add: set_properties_blank)

lemma section_props_seq:
  "list_all good_props pss \<Longrightarrow>
     section_props (foldl setPropertyLines ls pss) = put_all (section_props ls) (rendered (concat pss))"
proof (cases "pss = []")
  case True
  then show ?thesis by (simp add: rendered_def)
next
  case False
  then show "list_all good_props pss \<Longrightarrow> ?thesis"
    by (simp add: set_properties_seq section_props_set good_props_concat)
qed

section \<open>Property patches on a scene\<close>

definition at_header :: "string \<Rightarrow> string \<Rightarrow> bool" where
  "at_header path h = (starts_with h ''[node '' \<and> nodePathFromHeader h = Some path)"

lemma at_path_header: "at_path path s = at_header path (s_header s)"
  by (simp add: at_path_def at_header_def)

text \<open>A patch sets properties of a node of the scene, given by its header lines.\<close>

definition updates :: "string list \<Rightarrow> NodePatch \<Rightarrow> bool" where
  "updates hs np =
     (\<not> np_delete np \<and> (case np_properties np of None \<Rightarrow> True | Some ps \<Rightarrow> good_props ps) \<and>
      (case patch_path np of None \<Rightarrow> False | Some p \<Rightarrow> p \<noteq> [] \<and> (\<exists>h \<in> set hs. at_header p h)))"

text \<open>The patch goes to the first section at its path; the property lists that section \<open>i\<close> receives.\<close>

definition hits :: "string list \<Rightarrow> nat \<Rightarrow> NodePatch \<Rightarrow> bool" where
  "hits hs i np =
     (case patch_path np of None \<Rightarrow> False
      | Some p \<Rightarrow> at_header p (hs ! i) \<and> \<not> list_ex (at_header p) (take i hs))"

definition props_at :: "string list \<Rightarrow> nat \<Rightarrow> NodePatch list \<Rightarrow> metadata list" where
  "props_at hs i nps = List.map_filter (\<lambda>np. if hits hs i np then np_properties np else None) nps"

lemma length_update_first [simp]: "length (update_first p f xs) = length xs"
  by (induction xs) simp_all

lemma nth_update_first:
  "i < length xs \<Longrightarrow> update_first p f xs ! i = (if p (xs ! i) \<and> \<not> list_ex p (take i xs) then f (xs ! i) else xs ! i)"
  by (induction xs arbitrary: i) (auto simp: nth_Cons' take_Cons')

lemma headers_update_first: "map s_header (update_first p (set_props np) ss) = map s_header ss"
  by (induction ss) (simp_all add: set_props_def split: option.splits)

lemma merge_node_updates:
  assumes "updates (map s_header ss) np"
  shows "map s_header (merge_node ss np) = map s_header ss"
    and "i < length ss \<Longrightarrow> merge_node ss np ! i = (if hits (map s_header ss) i np then set_props np (ss ! i) else ss ! i)"
proof -
  obtain p where p: "patch_path np = Some p" "p \<noteq> []" "\<exists>s \<in> set ss. at_path p s" "\<not> np_delete np"
    using assms by (auto simp: updates_def at_path_header split: option.splits)
  then have mn: "merge_node ss np = update_first (at_path p) (set_props np) ss"
    by (simp add: merge_node_def)
  then show "map s_header (merge_node ss np) = map s_header ss" by (simp add: headers_update_first)
  assume "i < length ss"
  then show "merge_node ss np ! i = (if hits (map s_header ss) i np then set_props np (ss ! i) else ss ! i)"
    by (simp add: mn nth_update_first hits_def p(1) at_path_header take_map list_ex_iff)
qed

lemma merge_nodes_updates:
  "list_all (updates (map s_header ss)) nps \<Longrightarrow>
     map s_header (foldl merge_node ss nps) = map s_header ss \<and>
     (\<forall>i < length ss. foldl merge_node ss nps ! i =
        (ss ! i)\<lparr>s_lines := foldl setPropertyLines (s_lines (ss ! i)) (props_at (map s_header ss) i nps)\<rparr>)"
proof (induction nps arbitrary: ss)
  case Nil
  then show ?case by (simp add: props_at_def List.map_filter_simps)
next
  case (Cons np nps)
  let ?ss = "merge_node ss np"
  have up: "updates (map s_header ss) np" using Cons.prems by simp
  note h = merge_node_updates(1) [OF up]
  have len: "length ?ss = length ss" using h map_eq_imp_length_eq by blast
  have IH: "map s_header (foldl merge_node ?ss nps) = map s_header ss \<and>
     (\<forall>i < length ss. foldl merge_node ?ss nps ! i =
        (?ss ! i)\<lparr>s_lines := foldl setPropertyLines (s_lines (?ss ! i)) (props_at (map s_header ss) i nps)\<rparr>)"
    using Cons.IH [of ?ss] Cons.prems by (simp add: h len)
  then show ?case
    by (auto simp: merge_node_updates(2) [OF up] props_at_def List.map_filter_simps set_props_def split: option.splits)
qed

lemma length_merge_nodes:
  "list_all (updates (map s_header ss)) nps \<Longrightarrow> length (foldl merge_node ss nps) = length ss"
  using merge_nodes_updates map_eq_imp_length_eq by blast

lemma props_at_good: "list_all (updates hs) nps \<Longrightarrow> list_all good_props (props_at hs i nps)"
  by (induction nps) (auto simp: props_at_def List.map_filter_simps updates_def split: option.splits)

lemma merge_nodes_idem:
  assumes "list_all (updates (map s_header ss)) nps"
  shows "foldl merge_node (foldl merge_node ss nps) nps = foldl merge_node ss nps" (is "?b = ?a")
proof (rule nth_equalityI)
  have ha: "map s_header ?a = map s_header ss" and la: "length ?a = length ss"
    using merge_nodes_updates [OF assms] length_merge_nodes [OF assms] by auto
  then have up: "list_all (updates (map s_header ?a)) nps" using assms by simp
  then show lb: "length ?b = length ?a" by (rule length_merge_nodes)
  fix i assume i: "i < length ?b"
  with lb la merge_nodes_updates [OF up] merge_nodes_updates [OF assms] show "?b ! i = ?a ! i"
    by (simp add: ha set_properties_seq_idem [OF props_at_good [OF assms]])
qed

definition blank_last :: "TscnSection list \<Rightarrow> TscnSection list" where
  "blank_last ss = (if ss = [] then [] else butlast ss @ [blank_section (last ss)])"

lemma blank_last_headers [simp]: "map s_header (blank_last ss) = map s_header ss"
  by (cases ss rule: rev_cases) (simp_all add: blank_last_def blank_section_def)

lemma length_blank_last [simp]: "length (blank_last ss) = length ss"
  by (simp add: blank_last_def)

lemma nth_blank_last:
  "i < length ss \<Longrightarrow> blank_last ss ! i = (if Suc i = length ss then blank_section (ss ! i) else ss ! i)"
  by (cases ss rule: rev_cases) (auto simp: blank_last_def nth_append)

lemma merge_nodes_blank:
  assumes up: "list_all (updates (map s_header ss)) nps"
  shows "foldl merge_node (blank_last ss) nps = foldl merge_node ss nps \<or>
         foldl merge_node (blank_last ss) nps = blank_last (foldl merge_node ss nps)"
proof -
  let ?a = "foldl merge_node ss nps" and ?b = "foldl merge_node (blank_last ss) nps"
  let ?l = "props_at (map s_header ss) (length ss - 1) nps"
  have upb: "list_all (updates (map s_header (blank_last ss))) nps" using up by simp
  have la: "length ?a = length ss" and lb: "length ?b = length ss"
    using length_merge_nodes [OF up] length_merge_nodes [OF upb] by simp_all
  note a = merge_nodes_updates [OF up] and b = merge_nodes_updates [OF upb]
  have last_i: "i = length ss - 1" if "Suc i = length ss" for i using that by simp
  show ?thesis
  proof (cases "?l = []")
    case True
    then have "?b = blank_last ?a"
      by (intro nth_equalityI) (use a b la lb in \<open>auto simp: nth_blank_last blank_section_def dest!: last_i\<close>)
    then show ?thesis ..
  next
    case False
    then have "?b = ?a"
      by (intro nth_equalityI)
        (use a b la lb in \<open>auto simp: nth_blank_last blank_section_def set_properties_seq_blank dest!: last_i\<close>)
    then show ?thesis ..
  qed
qed

subsection \<open>The merged scene is printed and parsed without loss\<close>

definition ok_line :: "string \<Rightarrow> bool" where
  "ok_line l = (body_line l \<and> NL \<notin> set l \<and> CR \<notin> set l)"

lemma good_key_clean: "good_key k \<Longrightarrow> NL \<notin> set k \<and> CR \<notin> set k \<and> hd k \<noteq> CHR ''[''"
  by (cases k) (auto simp: good_key_def list_all_iff)

lemma ok_prop_line: "good_prop kv \<Longrightarrow> ok_line (prop_line kv)"
proof (cases kv)
  case (Pair k v)
  assume "good_prop kv"
  with Pair have k: "good_key k" and v: "NL \<notin> set v" "CR \<notin> set v"
    by (auto simp: good_prop_def good_value_def)
  obtain c t where "k = c # t" using k by (cases k) (auto simp: good_key_def)
  with good_key_clean [OF k] v Pair show ?thesis
    by (auto simp: ok_line_def body_line_def section_line_def starts_with_def prop_line_def NL_def CR_def)
qed

lemma ok_set_properties:
  assumes "good_props ps" "list_all ok_line ls" shows "list_all ok_line (setPropertyLines ls ps)"
proof -
  have "list_all ok_line (map prop_line m)" if "list_all good_prop m" for m
    using that by (induction m) (auto simp: ok_prop_line)
  then show ?thesis using assms merged_props_good [OF assms(1), of ls]
    by (auto simp: set_property_lines extra_lines_def list_all_iff)
qed

lemma ok_set_properties_seq:
  "list_all good_props pss \<Longrightarrow> list_all ok_line ls \<Longrightarrow> list_all ok_line (foldl setPropertyLines ls pss)"
  by (induction pss arbitrary: ls) (auto simp: ok_set_properties)

definition ok_ast :: "TscnAst \<Rightarrow> bool" where
  "ok_ast a = (wf_ast a \<and> clean_lines (ast_lines a))"

definition ok_section :: "TscnSection \<Rightarrow> bool" where
  "ok_section s = (section_line (s_header s) \<and> NL \<notin> set (s_header s) \<and> CR \<notin> set (s_header s) \<and>
     list_all ok_line (s_lines s))"

lemma ok_ast_sections:
  "ok_ast a \<longleftrightarrow> list_all ok_line (t_preamble a) \<and> list_all ok_section (t_sections a)"
  by (auto simp: ok_ast_def wf_ast_def clean_lines_def ast_lines_def wf_section_def ok_section_def
      ok_line_def section_text_def list_all_iff)

lemma ok_merge_nodes:
  assumes up: "list_all (updates (map s_header ss)) nps" and ok: "list_all ok_section ss"
  shows "list_all ok_section (foldl merge_node ss nps)"
proof -
  have "ok_section (foldl merge_node ss nps ! i)" if "i < length ss" for i
    using merge_nodes_updates [OF up] that ok
    by (auto simp: ok_section_def list_all_length ok_set_properties_seq [unfolded list_all_length]
        intro!: ok_set_properties_seq [OF props_at_good [OF up], unfolded list_all_length])
  then show ?thesis by (simp add: list_all_length length_merge_nodes [OF up])
qed

lemma line_in_join: "l \<in> set ls \<Longrightarrow> set l \<subseteq> set (join sep ls)"
  by (induction sep ls rule: join.induct) auto

lemma ok_parse: "CR \<notin> set s \<Longrightarrow> ok_ast (parseTscn s)"
proof -
  assume cr: "CR \<notin> set s"
  have "CR \<notin> set l" if "l \<in> set (lines_of s)" for l
    using line_in_join [OF that, of "[NL]"] cr unlines_lines_of [of s] by (auto simp: unlines_def)
  then show ?thesis
    using cr wf_parseTscn [of s] by (auto simp: ok_ast_def parseTscn_def ast_lines_parse opt_lines_def
        clean_lines_def list_all_iff crlf_no_CR lines_of_no_newline)
qed

section \<open>Properties of the merge\<close>

definition property_patch :: "string \<Rightarrow> TscnPatch \<Rightarrow> bool" where
  "property_patch s p =
     (tp_ext_resources p \<in> {None, Some []} \<and>
      list_all (updates (map s_header (t_sections (parseTscn s)))) (fst (normalizePatch p)))"

lemma merge_property_patch:
  "tp_ext_resources p \<in> {None, Some []} \<Longrightarrow>
     mergeTscn a p = a\<lparr>t_sections := foldl merge_node (t_sections a) (fst (normalizePatch p))\<rparr>"
  by (auto simp: mergeTscn_def normalizePatch_def or_default_def)


lemma merged_lines:
  assumes "property_patch s p"
  shows "ast_lines (mergeTscn (parseTscn s) p) \<noteq> []"
proof -
  have up: "list_all (updates (map s_header (t_sections (parseTscn s)))) (fst (normalizePatch p))"
    and ext: "tp_ext_resources p \<in> {None, Some []}"
    using assms by (auto simp: property_patch_def)
  have "ast_lines (parseTscn s) \<noteq> []"
    by (simp add: parseTscn_def ast_lines_parse opt_lines_def lines_of_def)
  moreover have "t_sections (parseTscn s) = [] \<longleftrightarrow> t_sections (mergeTscn (parseTscn s) p) = []"
    using length_merge_nodes [OF up] by (metis length_0_conv merge_property_patch [OF ext] TscnAst.select_convs(2)
        TscnAst.surjective TscnAst.update_convs(2))
  ultimately show ?thesis by (auto simp: ast_lines_def merge_property_patch [OF ext] section_text_def)
qed

text \<open>The blank last line that printing adds does not change what the patch does.\<close>

lemma merged_blank:
  assumes pp: "property_patch s p"
  defines "a \<equiv> mergeTscn (parseTscn s) p"
  assumes nl: "\<not> ends_with (unlines (ast_lines a)) [NL]"
  shows "serializeTscn (mergeTscn (add_blank a) p) = serializeTscn a"
proof -
  let ?nps = "fst (normalizePatch p)"
  have up: "list_all (updates (map s_header (t_sections (parseTscn s)))) ?nps"
    and ext: "tp_ext_resources p \<in> {None, Some []}"
    using pp by (auto simp: property_patch_def)
  note mp = merge_property_patch [OF ext]
  have upa: "list_all (updates (map s_header (t_sections a))) ?nps"
    using up merge_nodes_updates [OF up] by (simp add: a_def mp)
  have blank: "serializeTscn (add_blank a) = serializeTscn a"
    using serialize_add_blank [OF _ nl] merged_lines [OF pp] by (simp add: a_def)
  show ?thesis
  proof (cases "t_sections a = []")
    case True
    then have "?nps = []" using upa by (cases ?nps) (auto simp: updates_def split: option.splits)
    then show ?thesis using blank by (simp add: mp)
  next
    case False
    then have "add_blank a = a\<lparr>t_sections := blank_last (t_sections a)\<rparr>"
      by (simp add: add_blank_def blank_last_def)
    moreover have "foldl merge_node (t_sections a) ?nps = t_sections a"
      by (simp add: a_def mp merge_nodes_idem [OF up])
    ultimately have "mergeTscn (add_blank a) p = a \<or> mergeTscn (add_blank a) p = add_blank a"
      using merge_nodes_blank [OF upa] by (auto simp: mp)
    then show ?thesis using blank by auto
  qed
qed


section \<open>Concrete scenes\<close>

definition demo_scene :: string where
  "demo_scene = unlines
     [''[gd_scene]'', [],
      ''[node name='' @ [CHR 0x22] @ ''Root'' @ [CHR 0x22] @ '' type='' @ [CHR 0x22] @ ''Node'' @ [CHR 0x22] @ '']'',
      ''[node name='' @ [CHR 0x22] @ ''P'' @ [CHR 0x22] @ '' parent='' @ [CHR 0x22] @ ''Root'' @ [CHR 0x22] @ '']'',
      ''pos = 1'', ''script = 2'', []]"

definition demo_patch :: TscnPatch where
  "demo_patch = \<lparr>tp_nodes = None, tp_ext_resources = None,
     tp_other = [(''Root/P'', JObj [(''pos'', JStr ''3''), (''on'', JBool True)])]\<rparr>"

definition demo_result :: string where
  "demo_result = unlines
     [''[gd_scene]'', [],
      ''[node name='' @ [CHR 0x22] @ ''Root'' @ [CHR 0x22] @ '' type='' @ [CHR 0x22] @ ''Node'' @ [CHR 0x22] @ '']'',
      ''[node name='' @ [CHR 0x22] @ ''P'' @ [CHR 0x22] @ '' parent='' @ [CHR 0x22] @ ''Root'' @ [CHR 0x22] @ '']'',
      ''pos = 3'', ''script = 2'', ''on = true'', []]"

lemma demo_applied: "applyTscnPatch demo_scene demo_patch = demo_result"
  by code_simp

lemma demo_property_patch: "property_patch demo_scene demo_patch"
  by code_simp

lemma demo_no_CR: "CR \<notin> set demo_scene"
  by code_simp



end
