(* ===== verification/Merge.thy ===== *)
theory Merge
  imports Tscn_Merge Path_Security Alerts Secrets
begin

text \<open>
  Overrides of scene files: \<open>services/merge-apply.ts\<close>, \<open>services/merge-service.ts\<close>,
  \<open>services/merge-outbox-dispatch.ts\<close>, \<open>workers/merge-outbox-worker.ts\<close> and \<open>routes/merge.ts\<close>. A patch is
  applied to a file of the project at once, or queued in the outbox, from which the worker applies it
  to a local tree or hands it to a workflow on the project's host, which reports back.

  The state keeps the orchestrator's \<open>world\<close> beside the tables of this component, the files of the
  projects, the objects put into the object store and the log of the workflow inputs. What the
  environment does is a parameter: readable directories, I/O, storage and workflow errors, and
  \<open>process.env\<close>. Identifiers are drawn like random bytes; an insert with a key that exists fails. Long
  dashes in messages are written as hyphens.
\<close>

section \<open>State and environment\<close>

datatype MergeApplyMode = local_fs | outbox | registry_only

datatype OutboxStatus = Pending | Applied | Failed

record OverrideRow =
  ov_id :: string
  ov_projectId :: string
  ov_path :: string
  ov_patch :: metadata
  ov_introducesScript :: bool
  ov_createdBy :: string
  ov_mergedHash :: "string option"
  ov_applyMode :: "MergeApplyMode option"

record OutboxRow =
  ob_id :: string
  ob_overrideId :: string
  ob_projectId :: string
  ob_path :: string
  ob_status :: OutboxStatus
  ob_detail :: "string option"
  ob_createdAt :: nat
  ob_appliedAt :: "nat option"

record merge_state =
  mg_world :: world
  mg_metadata :: "(string \<times> metadata) list"
  overrides :: "OverrideRow list"
  merge_outbox :: "OutboxRow list"
  files :: "string \<Rightarrow> string option"
  s3_objects :: "(string \<times> string) list"
  merge_calls :: "attrs list"
  mg_beats :: "(string \<times> nat) list"

record merge_env =
  mx_env :: env
  mx_ext :: ext
  mx_cwd :: string
  mx_readable :: "string \<Rightarrow> bool"
  mx_ioError :: "string \<Rightarrow> string option"
  mx_putError :: "string \<Rightarrow> string option"
  mx_dispatchError :: "attrs \<Rightarrow> string option"
  PGOS_STRUCTURAL_MERGE :: "string option"
  PGOS_MERGE_MODE :: "string option"
  PGOS_MERGE_OUTBOX_REDISPATCH :: "string option"
  PGOS_SERVICE_TOKEN :: "string option"
  SANDBOX_INTERNAL_TOKEN :: "string option"
  PUBLIC_BASE_URL :: string

definition upd_world :: "(world \<Rightarrow> world) \<Rightarrow> merge_state \<Rightarrow> merge_state" where
  "upd_world f s = s\<lparr>mg_world := f (mg_world s)\<rparr>"

definition draw_id :: "merge_env \<Rightarrow> merge_state \<Rightarrow> string \<times> merge_state" where
  "draw_id x s = (let (i, w) = draw (x_uuid (mx_ext x)) (mg_world s) in (i, s\<lparr>mg_world := w\<rparr>))"

definition plain_error :: "string \<Rightarrow> js_error" where
  "plain_error msg = JsError None None msg"

section \<open>Reading a patch\<close>

text \<open>
  The value of type \<open>Record<string, unknown>\<close> as a \<open>TscnPatch\<close>. The source casts it; a patch whose members
  do not have the declared types is no patch here, and applying it fails as a type error.
\<close>

definition str_member :: "metadata \<Rightarrow> string \<Rightarrow> string option option" where
  "str_member m k =
     (case map_of m k of None \<Rightarrow> Some None | Some JNull \<Rightarrow> Some None
      | Some (JStr v) \<Rightarrow> Some (Some v) | _ \<Rightarrow> None)"

definition obj_member :: "metadata \<Rightarrow> string \<Rightarrow> metadata option option" where
  "obj_member m k =
     (case map_of m k of None \<Rightarrow> Some None | Some JNull \<Rightarrow> Some None
      | Some (JObj v) \<Rightarrow> Some (Some v) | _ \<Rightarrow> None)"

definition bool_member :: "metadata \<Rightarrow> string \<Rightarrow> bool option" where
  "bool_member m k =
     (case map_of m k of None \<Rightarrow> Some False | Some JNull \<Rightarrow> Some False
      | Some (JBool b) \<Rightarrow> Some b | _ \<Rightarrow> None)"

definition node_patch :: "json \<Rightarrow> NodePatch option" where
  "node_patch v =
     (case v of
        JObj m \<Rightarrow>
          (case (str_member m ''path'', str_member m ''name'', str_member m ''parent'', str_member m ''type'',
                 obj_member m ''properties'', bool_member m ''delete'') of
             (Some p, Some n, Some pa, Some t, Some ps, Some d) \<Rightarrow>
               Some \<lparr>np_path = p, np_name = n, np_parent = pa, np_type = t, np_properties = ps, np_delete = d\<rparr>
           | _ \<Rightarrow> None)
      | _ \<Rightarrow> None)"

definition ext_patch :: "json \<Rightarrow> ExtResourcePatch option" where
  "ext_patch v =
     (case v of
        JObj m \<Rightarrow>
          (case (str_member m ''uid'', str_member m ''type'', str_member m ''path'', str_member m ''id'') of
             (Some u, Some t, Some p, Some i) \<Rightarrow> Some \<lparr>ep_uid = u, ep_type = t, ep_path = p, ep_id = i\<rparr>
           | _ \<Rightarrow> None)
      | _ \<Rightarrow> None)"

fun all_some :: "'a option list \<Rightarrow> 'a list option" where
  "all_some [] = Some []"
| "all_some (None # xs) = None"
| "all_some (Some x # xs) = map_option (Cons x) (all_some xs)"

definition list_member :: "(json \<Rightarrow> 'a option) \<Rightarrow> json option \<Rightarrow> 'a list option option" where
  "list_member f v =
     (case v of None \<Rightarrow> Some None | Some JNull \<Rightarrow> Some None
      | Some (JArr vs) \<Rightarrow> map_option Some (all_some (map f vs)) | _ \<Rightarrow> None)"

definition tscn_patch :: "metadata \<Rightarrow> TscnPatch option" where
  "tscn_patch m =
     (case (list_member node_patch (map_of m ''nodes''), list_member ext_patch (map_of m ''ext_resources'')) of
        (Some ns, Some es) \<Rightarrow> Some \<lparr>tp_nodes = ns, tp_ext_resources = es, tp_other = m\<rparr>
      | _ \<Rightarrow> None)"

section \<open>Applying to the file system\<close>

record ApplyTscnResult =
  at_fullPath :: string
  at_mergedHash :: string
  at_bytes :: nat

definition byte_length :: "string \<Rightarrow> nat" where
  "byte_length s = sum_list (map (\<lambda>c. if code c < 128 then 1 else 2) s)"

definition applyTscnToFilesystem :: "merge_env \<Rightarrow> string \<Rightarrow> string \<Rightarrow> metadata \<Rightarrow> merge_state
    \<Rightarrow> ApplyTscnResult outcome \<times> merge_state" where
  "applyTscnToFilesystem x projectRoot relPath patch s =
     (if \<not> isSafeLogicalAssetPath relPath then (Throw (JsError (Some 400) (Some ''E014'') ''Invalid path''), s)
      else case assertWithinBase (mx_cwd x) projectRoot relPath of
        Throw e \<Rightarrow> (Throw e, s)
      | Ret _ \<Rightarrow>
          if \<not> ends_with relPath ''.tscn'' then
            (Throw (JsError (Some 400) (Some ''E014'')
               (''Structural merge only supports .tscn paths (got '' @ relPath @ '')'')), s)
          else let fullPath = path_resolve (mx_cwd x) [projectRoot, relPath] in
            case mx_ioError x fullPath of
              Some msg \<Rightarrow> (Throw (plain_error msg), s)
            | None \<Rightarrow>
                (case files s fullPath of
                   None \<Rightarrow> (Throw (JsError (Some 404) (Some ''E014'')
                      (''Base .tscn not found at '' @ relPath @ '' - create the scene on the project host first'')), s)
                 | Some base \<Rightarrow>
                     (case tscn_patch patch of
                        None \<Rightarrow> (Throw (plain_error ''TypeError''), s)
                      | Some p \<Rightarrow>
                          let merged = applyTscnPatch base p in
                          (Ret \<lparr>at_fullPath = fullPath, at_mergedHash = x_hash (mx_ext x) merged,
                                at_bytes = byte_length merged\<rparr>,
                           s\<lparr>files := (files s)(fullPath \<mapsto> merged)\<rparr>))))"

section \<open>The gate on scripts\<close>

fun any_suffix :: "(string \<Rightarrow> bool) \<Rightarrow> string \<Rightarrow> bool" where
  "any_suffix p [] = p []"
| "any_suffix p (c # s) = (p (c # s) \<or> any_suffix p s)"

text \<open>A lower-case word at the front of a text, in any case.\<close>

fun match_word :: "string \<Rightarrow> string \<Rightarrow> bool" where
  "match_word [] s = True"
| "match_word (c # w) [] = False"
| "match_word (c # w) (d # s) = (if js_lower_char d = c then match_word w s else False)"

text \<open>A word, white space and a character: \<open>/word\s*c/i\<close> at the front of a text.\<close>

definition word_then :: "string \<Rightarrow> char \<Rightarrow> string \<Rightarrow> bool" where
  "word_then word c s =
     (if match_word word s
      then (case dropWhile is_space (drop (length word) s) of [] \<Rightarrow> False | d # _ \<Rightarrow> d = c) else False)"

definition has_word :: "string \<Rightarrow> string \<Rightarrow> bool" where
  "has_word word s = any_suffix (match_word word) s"

definition quoted_script :: string where
  "quoted_script = [CHR 0x22] @ ''script'' @ [CHR 0x22]"

definition has_member :: "metadata \<Rightarrow> string \<Rightarrow> bool" where
  "has_member m k = (map_of m k \<noteq> None)"

definition node_introduces :: "json \<Rightarrow> bool" where
  "node_introduces n =
     (case n of
        JObj m \<Rightarrow> has_member m ''script'' \<or> map_of m ''type'' = Some (JStr ''Script'') \<or>
          (case map_of m ''properties'' of Some (JObj ps) \<Rightarrow> has_member ps ''script'' | _ \<Rightarrow> False)
      | _ \<Rightarrow> False)"

definition patchIntroducesScript :: "metadata \<Rightarrow> bool" where
  "patchIntroducesScript patch =
     (let t = stringify (JObj patch) in
      if any_suffix (word_then quoted_script (CHR '':'')) t then True
      else if any_suffix (word_then ''extresource'' (CHR ''('')) t then True
      else if (has_word (''.gd'' @ [CHR 0x22]) t \<or> has_word (''.gd'' @ [CHR 0x27]) t) \<and> has_word ''script'' t then True
      else (case map_of patch ''nodes'' of Some (JArr ns) \<Rightarrow> list_ex node_introduces ns | _ \<Rightarrow> False))"

section \<open>Applying an override\<close>

definition structural_on :: "merge_env \<Rightarrow> bool" where
  "structural_on x = (PGOS_STRUCTURAL_MERGE x \<noteq> Some ''0'' \<and> PGOS_STRUCTURAL_MERGE x \<noteq> Some ''false'')"

definition resolveMergeMode :: "merge_env \<Rightarrow> MergeApplyMode" where
  "resolveMergeMode x =
     (if \<not> structural_on x then registry_only
      else let forced = js_lower (or_default (PGOS_MERGE_MODE x) ''auto'') in
        if forced = ''outbox'' then outbox
        else if forced = ''local_fs'' then local_fs
        else if forced = ''registry_only'' then registry_only
        else local_fs)"

record MergeOverrideRequest =
  mr_projectId :: string
  mr_path :: string
  mr_patch :: metadata

record MergeResult =
  mo_id :: string
  mo_introducesScript :: bool
  mo_applyMode :: MergeApplyMode
  mo_mergedHash :: "string option"
  mo_outboxId :: "string option"

fun mode_name :: "MergeApplyMode \<Rightarrow> string" where
  "mode_name local_fs = ''local_fs''"
| "mode_name outbox = ''outbox''"
| "mode_name registry_only = ''registry_only''"

fun role_name :: "Role \<Rightarrow> string" where
  "role_name callback = ''callback''"
| "role_name viewer = ''viewer''"
| "role_name operator = ''operator''"
| "role_name admin = ''admin''"

definition audit_as :: "string option \<Rightarrow> Role option \<Rightarrow> string \<Rightarrow> string \<Rightarrow> string option \<Rightarrow> metadata
    \<Rightarrow> merge_state \<Rightarrow> merge_state" where
  "audit_as actor role act rtype rid detail =
     upd_world (audit ((audit_entry actor act rtype rid detail)\<lparr>au_actorRole := map_option role_name role\<rparr>))"

definition opt_member :: "string \<Rightarrow> string option \<Rightarrow> metadata" where
  "opt_member k v = (case v of None \<Rightarrow> [] | Some t \<Rightarrow> [(k, JStr t)])"

text \<open>The write to the project tree, and the mode it leaves.\<close>

definition merge_local :: "merge_env \<Rightarrow> MergeOverrideRequest \<Rightarrow> string \<Rightarrow> merge_state
    \<Rightarrow> (MergeApplyMode \<times> string option) outcome \<times> merge_state" where
  "merge_local x req projectRoot s =
     (let mode = resolveMergeMode x in
      if \<not> (structural_on x \<and> mode = local_fs) then (Ret (mode, None), s)
      else if \<not> mx_readable x projectRoot then (Ret (outbox, None), s)
      else if \<not> ends_with (mr_path req) ''.tscn'' then (Ret (mode, None), s)
      else case applyTscnToFilesystem x projectRoot (mr_path req) (mr_patch req) s of
        (Ret r, s1) \<Rightarrow> (Ret (local_fs, Some (at_mergedHash r)), s1)
      | (Throw e, s1) \<Rightarrow> if err_status e = Some 404 then (Throw e, s1) else (Ret (outbox, None), s1))"

definition unique_violation :: js_error where
  "unique_violation = JsError None (Some ''23505'') ''duplicate key value violates unique constraint''"

definition insert_override :: "merge_env \<Rightarrow> OverrideRow \<Rightarrow> merge_state \<Rightarrow> string outcome \<times> merge_state" where
  "insert_override x row s =
     (let (i, s1) = draw_id x s in
      if row_by ov_id i (overrides s1) \<noteq> None then (Throw unique_violation, s1)
      else (Ret i, s1\<lparr>overrides := overrides s1 @ [row\<lparr>ov_id := i\<rparr>]\<rparr>))"

definition insert_outbox :: "merge_env \<Rightarrow> string \<Rightarrow> MergeOverrideRequest \<Rightarrow> merge_state \<Rightarrow> string outcome \<times> merge_state" where
  "insert_outbox x overrideId req s =
     (let (i, s1) = draw_id x s in
      if row_by ob_id i (merge_outbox s1) \<noteq> None then (Throw unique_violation, s1)
      else (Ret i, s1\<lparr>merge_outbox := merge_outbox s1 @
             [\<lparr>ob_id = i, ob_overrideId = overrideId, ob_projectId = mr_projectId req, ob_path = mr_path req,
               ob_status = Pending, ob_detail = None, ob_createdAt = now (mg_world s1), ob_appliedAt = None\<rparr>]\<rparr>))"

definition merge_record :: "merge_env \<Rightarrow> MergeOverrideRequest \<Rightarrow> string \<Rightarrow> Role \<Rightarrow> bool \<Rightarrow> MergeApplyMode
    \<Rightarrow> string option \<Rightarrow> merge_state \<Rightarrow> MergeResult outcome \<times> merge_state" where
  "merge_record x req userId role introducesScript mode mergedHash s =
     (case insert_override x
             \<lparr>ov_id = [], ov_projectId = mr_projectId req, ov_path = mr_path req, ov_patch = mr_patch req,
              ov_introducesScript = introducesScript, ov_createdBy = userId, ov_mergedHash = mergedHash,
              ov_applyMode = (if mode = registry_only then None else Some mode)\<rparr> s of
        (Throw e, s1) \<Rightarrow> (Throw e, s1)
      | (Ret i, s1) \<Rightarrow>
          (case (if mode = outbox
                 then (case insert_outbox x i req s1 of
                         (Throw e, s2) \<Rightarrow> (Throw e, s2) | (Ret j, s2) \<Rightarrow> (Ret (Some j), s2))
                 else (Ret None, s1)) of
             (Throw e, s2) \<Rightarrow> (Throw e, s2)
           | (Ret outboxId, s2) \<Rightarrow>
               (Ret \<lparr>mo_id = i, mo_introducesScript = introducesScript, mo_applyMode = mode,
                     mo_mergedHash = mergedHash, mo_outboxId = outboxId\<rparr>,
                audit_as (Some userId) (Some role)
                  (if introducesScript then ''merge.script_override'' else ''merge.override'')
                  ''override'' (Some i)
                  ([(''path'', JStr (mr_path req)), (''introducesScript'', JBool introducesScript),
                    (''applyMode'', JStr (mode_name mode))]
                   @ opt_member ''mergedHash'' mergedHash @ opt_member ''outboxId'' outboxId) s2)))"

definition applyMerge :: "merge_env \<Rightarrow> MergeOverrideRequest \<Rightarrow> string \<Rightarrow> Role \<Rightarrow> string \<Rightarrow> merge_state
    \<Rightarrow> MergeResult outcome \<times> merge_state" where
  "applyMerge x req userId role projectRoot s =
     (if \<not> isSafeLogicalAssetPath (mr_path req)
      then (Throw (JsError (Some 400) (Some ''E014'') ''Invalid path''), s)
      else case assertWithinBase (mx_cwd x) projectRoot (mr_path req) of
        Throw e \<Rightarrow> (Throw e, s)
      | Ret _ \<Rightarrow>
          let introducesScript = patchIntroducesScript (mr_patch req) in
          if introducesScript \<and> role \<noteq> admin
          then (Throw (JsError (Some 403) (Some ''E019'')
                  ''Override introduces executable script; admin scope required''), s)
          else case merge_local x req projectRoot s of
            (Throw e, s1) \<Rightarrow> (Throw e, s1)
          | (Ret (mode, mergedHash), s1) \<Rightarrow>
              merge_record x req userId role introducesScript mode mergedHash s1)"

section \<open>Requests\<close>

record http_error =
  he_status :: nat
  he_code :: "string option"
  he_message :: string

text \<open>\<open>POST /merge\<close> behind \<open>requireRole('operator')\<close>; the body has passed its schema.\<close>

definition post_merge :: "merge_env \<Rightarrow> string \<Rightarrow> Role \<Rightarrow> MergeOverrideRequest \<Rightarrow> merge_state
    \<Rightarrow> (http_error + MergeResult) \<times> merge_state" where
  "post_merge x userId role body s =
     (case get_project (mg_world s) (mr_projectId body) of
        None \<Rightarrow> (Inl \<lparr>he_status = 404, he_code = None, he_message = ''Project not found''\<rparr>, s)
      | Some p \<Rightarrow>
          (case pr_projectRoot p of
             None \<Rightarrow> if isSafeLogicalAssetPath (mr_path body)
                     then (Inl \<lparr>he_status = 500, he_code = None, he_message = ''TypeError''\<rparr>, s)
                     else (Inl \<lparr>he_status = 400, he_code = Some ''E014'', he_message = ''Invalid path''\<rparr>, s)
           | Some rootDir \<Rightarrow>
               (case applyMerge x body userId role rootDir s of
                  (Ret r, s1) \<Rightarrow> (Inr r, s1)
                | (Throw e, s1) \<Rightarrow>
                    (Inl (if e = PathTraversalError (err_msg e)
                          then \<lparr>he_status = 400, he_code = Some ''E014'', he_message = err_msg e\<rparr>
                          else \<lparr>he_status = or_default (err_status e) 500, he_code = err_code e,
                                he_message = err_msg e\<rparr>), s1))))"

text \<open>The service principal of \<open>POST /merge-outbox/:id/complete\<close>, from the authorization header.\<close>

definition merge_service_token :: "merge_env \<Rightarrow> string option \<Rightarrow> bool" where
  "merge_service_token x auth =
     (case auth of None \<Rightarrow> False
      | Some h \<Rightarrow> starts_with h ''Bearer '' \<and>
          (\<exists>t \<in> set [PGOS_SERVICE_TOKEN x, SANDBOX_INTERNAL_TOKEN x].
             (case t of None \<Rightarrow> False | Some v \<Rightarrow> length v > 8 \<and> drop 7 h = v)))"

definition complete_outbox :: "merge_env \<Rightarrow> string option \<Rightarrow> Role option \<Rightarrow> string \<Rightarrow> string \<Rightarrow> string option
    \<Rightarrow> merge_state \<Rightarrow> (http_error + string) \<times> merge_state" where
  "complete_outbox x userId role i mergedHash detail s =
     (case row_by ob_id i (merge_outbox s) of
        None \<Rightarrow> (Inl \<lparr>he_status = 404, he_code = None, he_message = ''Outbox row not found''\<rparr>, s)
      | Some row \<Rightarrow>
          (Inr i,
           audit_as userId role ''merge.outbox_applied'' ''merge_outbox'' (Some i)
             [(''mergedHash'', JStr mergedHash), (''via'', JStr ''host_complete'')]
             (s\<lparr>merge_outbox := set_row ob_id i
                  (\<lambda>r. r\<lparr>ob_status := Applied, ob_appliedAt := Some (now (mg_world s)),
                         ob_detail := Some (or_default detail ''host merge-apply complete'')\<rparr>) (merge_outbox s),
                overrides := set_row ov_id (ob_overrideId row)
                  (\<lambda>r. r\<lparr>ov_mergedHash := Some mergedHash, ov_applyMode := Some outbox\<rparr>) (overrides s)\<rparr>)))"

end
