(* ===== verification/Merge_Outbox.thy ===== *)
theory Merge_Outbox
  imports Merge
begin

text \<open>
  The outbox consumer: \<open>services/merge-outbox-dispatch.ts\<close> and \<open>workers/merge-outbox-worker.ts\<close>, with the
  production dependencies and their dispatch guard. Every workflow request is logged in \<open>merge_calls\<close>,
  also one that the service refuses.
\<close>

section \<open>The dispatch envelope\<close>

record MergeOutboxPendingRow =
  mp_id :: string
  mp_overrideId :: string
  mp_projectId :: string
  mp_path :: string
  mp_projectRoot :: "string option"
  mp_patch :: metadata
  mp_metadata :: metadata
  mp_introducesScript :: bool

record MergeSealed =
  ms_targetHost :: "string option"
  ms_projectRoot :: string
  ms_outboxId :: string
  ms_relPath :: string
  ms_patchGetUrl :: string
  ms_hasSshPrivateKey :: bool
  ms_hasCallbackToken :: bool
  ms_pgosBaseUrl :: string

record MergeApplyDispatchEnvelope =
  me_workflowInputs :: attrs
  me_sealed :: MergeSealed

fun metaString :: "metadata \<Rightarrow> string list \<Rightarrow> string option" where
  "metaString meta [] = None"
| "metaString meta (k # ks) =
     (case map_of meta k of
        Some (JStr v) \<Rightarrow> if js_trim v \<noteq> [] then Some (js_trim v) else metaString meta ks
      | _ \<Rightarrow> metaString meta ks)"

definition resolveMergeServiceToken :: "merge_env \<Rightarrow> string" where
  "resolveMergeServiceToken x =
     (let dedicated = js_trim (or_default (PGOS_SERVICE_TOKEN x) []) in
      if dedicated \<noteq> [] then dedicated else js_trim (or_default (SANDBOX_INTERNAL_TOKEN x) []))"

definition strip_slash :: "string \<Rightarrow> string" where
  "strip_slash u = (if ends_with u ''/'' then butlast u else u)"

text \<open>\<open>/BEGIN (RSA |OPENSSH |EC )?PRIVATE KEY/i\<close>\<close>

definition private_key_text :: "string \<Rightarrow> bool" where
  "private_key_text v =
     list_ex (\<lambda>k. has_word (''begin '' @ k @ ''private key'') v) [[], ''rsa '', ''openssh '', ''ec '']"

definition leaking_input :: "attrs \<Rightarrow> (string \<times> string) option" where
  "leaking_input inputs = find (\<lambda>(k, v). k \<noteq> ''secretJwe'' \<and> private_key_text v) inputs"

definition merge_secrets :: "merge_env \<Rightarrow> MergeOutboxPendingRow \<Rightarrow> string \<Rightarrow> string \<Rightarrow> string option
    \<Rightarrow> (string \<times> string) option \<Rightarrow> SecretEnvelope" where
  "merge_secrets x row projectRoot patchGetUrl targetHost ssh =
     \<lparr>se_callbackToken = Some (resolveMergeServiceToken x), se_fencingToken = None, se_lockKey = None,
      se_lockOwner = None, se_targetProjectRoot = Some projectRoot, se_targetHost = targetHost,
      se_s3AccessKeyId = None, se_s3SecretAccessKey = None, se_s3SessionToken = None,
      se_sshPrivateKey = map_option fst ssh, se_sshKeyId = map_option snd ssh,
      se_reimportTimeoutSec = None, se_reimportMaxRetries = None, se_outboxId = Some (mp_id row),
      se_relPath = Some (mp_path row), se_pgosBaseUrl = Some (strip_slash (PUBLIC_BASE_URL x)),
      se_patchGetUrl = Some patchGetUrl, se_presignedUrls = None, se_expiresAt = None\<rparr>"

definition merge_provision :: "MergeOutboxPendingRow \<Rightarrow> string \<Rightarrow> string \<Rightarrow> ProvisionRequest" where
  "merge_provision row url pub =
     \<lparr>pv_url = url, pv_publicKey = pub, pv_forcedCommand = ''commit-agent-once'',
      pv_jobId = ''merge-outbox:'' @ mp_id row,
      pv_environment = [(''PGOS_OUTBOX_ID'', mp_id row), (''PGOS_PROJECT_ID'', mp_projectId row),
        (''PGOS_REQUIRE_FENCING'', ''false'')],
      pv_maxSessions = 4, pv_ttlSeconds = 300\<rparr>"

text \<open>The key that is provisioned on the target, when a provisioning URL and a host are configured.\<close>

definition merge_ssh :: "merge_env \<Rightarrow> MergeOutboxPendingRow \<Rightarrow> string option \<Rightarrow> string option \<Rightarrow> world
    \<Rightarrow> (string \<times> string) option outcome \<times> world" where
  "merge_ssh x row provisionUrl targetHost w =
     (case (provisionUrl, targetHost) of
        (Some url, Some _) \<Rightarrow>
          (let ((pub, pem, keyId), w1) = draw (x_sshKey (mx_ext x)) w;
               ((ok, detail), w2) = draw (\<lambda>n. x_provision (mx_ext x) n (merge_provision row url pub)) w1
           in if \<not> ok
              then (Throw (plain_error (''merge-apply SSH provision failed: '' @ or_default detail ''unknown'')), w2)
              else (Ret (Some (pem, keyId)), w2))
      | _ \<Rightarrow> (Ret None, w))"

definition merge_inputs :: "string \<Rightarrow> MergeOutboxPendingRow \<Rightarrow> string \<Rightarrow> string \<Rightarrow> string \<Rightarrow> attrs" where
  "merge_inputs jwe row projectRoot patchGetUrl s3Key =
     [(''secretJwe'', jwe), (''outboxId'', mp_id row), (''projectId'', mp_projectId row),
      (''path'', mp_path row), (''projectRoot'', projectRoot), (''patchGetUrl'', patchGetUrl),
      (''s3Key'', s3Key)]"

definition buildMergeApplyDispatchEnvelope :: "merge_env \<Rightarrow> MergeOutboxPendingRow \<Rightarrow> string \<Rightarrow> string \<Rightarrow> string
    \<Rightarrow> world \<Rightarrow> MergeApplyDispatchEnvelope outcome \<times> world" where
  "buildMergeApplyDispatchEnvelope x row projectRoot patchGetUrl s3Key w =
     (let targetHost = metaString (mp_metadata row) [''targetHost'', ''target_host''];
          provisionUrl = metaString (mp_metadata row) [''targetProvisionUrl'', ''target_provision_url'']
      in if resolveMergeServiceToken x = [] then
           (Throw (plain_error ''PGOS_SERVICE_TOKEN (or SANDBOX_INTERNAL_TOKEN) required for remote merge-apply JWE''), w)
         else case merge_ssh x row provisionUrl targetHost w of
           (Throw e, w1) \<Rightarrow> (Throw e, w1)
         | (Ret ssh, w1) \<Rightarrow>
             let ((jwe, envelope), w2) = createDirectDispatchJwe (mx_ext x)
                   (merge_secrets x row projectRoot patchGetUrl targetHost ssh)
                   (Some ''merge-apply'') (Some 3600000) w1;
                 inputs = merge_inputs jwe row projectRoot patchGetUrl s3Key
             in case leaking_input inputs of
                  Some (k, v) \<Rightarrow>
                    (Throw (plain_error (''refusing to put private key material in workflow input '' @ k)), w2)
                | None \<Rightarrow>
                    (Ret \<lparr>me_workflowInputs = inputs,
                          me_sealed = \<lparr>ms_targetHost = targetHost, ms_projectRoot = projectRoot,
                            ms_outboxId = mp_id row, ms_relPath = mp_path row, ms_patchGetUrl = patchGetUrl,
                            ms_hasSshPrivateKey = (truthy (map_option fst ssh)),
                            ms_hasCallbackToken = True,
                            ms_pgosBaseUrl = strip_slash (PUBLIC_BASE_URL x)\<rparr>\<rparr>, w2))"

section \<open>Row updates\<close>

definition upd_outbox :: "string \<Rightarrow> (OutboxRow \<Rightarrow> OutboxRow) \<Rightarrow> merge_state \<Rightarrow> merge_state" where
  "upd_outbox i f s = s\<lparr>merge_outbox := set_row ob_id i f (merge_outbox s)\<rparr>"

definition markApplied :: "string \<Rightarrow> string \<Rightarrow> string \<Rightarrow> merge_state \<Rightarrow> merge_state" where
  "markApplied outboxId overrideId mergedHash s =
     (upd_outbox outboxId (\<lambda>r. r\<lparr>ob_status := Applied, ob_appliedAt := Some (now (mg_world s)), ob_detail := None\<rparr>) s)
       \<lparr>overrides := set_row ov_id overrideId
          (\<lambda>r. r\<lparr>ov_mergedHash := Some mergedHash, ov_applyMode := Some outbox\<rparr>) (overrides s)\<rparr>"

definition markFailed :: "string \<Rightarrow> string \<Rightarrow> merge_state \<Rightarrow> merge_state" where
  "markFailed outboxId detail =
     upd_outbox outboxId (\<lambda>r. r\<lparr>ob_status := Failed, ob_detail := Some (take 2000 detail)\<rparr>)"

definition redispatch_on :: "merge_env \<Rightarrow> bool" where
  "redispatch_on x = (PGOS_MERGE_OUTBOX_REDISPATCH x = Some ''1'')"

definition markDispatched :: "merge_env \<Rightarrow> string \<Rightarrow> string \<Rightarrow> merge_state \<Rightarrow> merge_state" where
  "markDispatched x outboxId detail =
     (if \<not> redispatch_on x
      then upd_outbox outboxId (\<lambda>r. if ob_status r = Pending then r\<lparr>ob_detail := Some (take 2000 detail)\<rparr> else r)
      else upd_outbox outboxId (\<lambda>r. r\<lparr>ob_detail := Some (take 2000 detail)\<rparr>))"

section \<open>Processing a row\<close>

datatype outbox_outcome = OApplied | OFailed | ODispatched

fun json_truthy :: "json option \<Rightarrow> bool" where
  "json_truthy None = False"
| "json_truthy (Some JNull) = False"
| "json_truthy (Some (JBool b)) = b"
| "json_truthy (Some (JNum n)) = (n \<noteq> ''0'')"
| "json_truthy (Some (JStr s)) = (s \<noteq> [])"
| "json_truthy (Some _) = True"

text \<open>\<open>a ?? b\<close> on members, and \<open>String(v)\<close>.\<close>

definition nullish :: "json option \<Rightarrow> json option \<Rightarrow> json option" where
  "nullish a b = (if a = None \<or> a = Some JNull then b else a)"

fun js_String :: "json \<Rightarrow> string" where
  "js_String JNull = ''null''"
| "js_String (JBool b) = (if b then ''true'' else ''false'')"
| "js_String (JNum n) = n"
| "js_String (JStr s) = s"
| "js_String (JArr vs) = join '','' (map (\<lambda>v. if v = JNull then [] else js_String v) vs)"
| "js_String (JObj m) = ''[object Object]''"

definition isRemoteMergeTarget :: "string \<Rightarrow> metadata \<Rightarrow> bool \<Rightarrow> bool" where
  "isRemoteMergeTarget projectRoot meta rootReadable =
     (if rootReadable then False
      else json_truthy (nullish (map_of meta ''targetHost'') (map_of meta ''target_host'')) \<or> projectRoot \<noteq> [])"

definition outbox_alert :: "merge_env \<Rightarrow> string \<Rightarrow> AlertSeverity \<Rightarrow> string \<Rightarrow> string \<Rightarrow> string \<Rightarrow> merge_state \<Rightarrow> merge_state" where
  "outbox_alert x title sev body errcode projectId =
     upd_world (sendAlert (mx_env x)
       \<lparr>ao_title = title, ao_severity = sev, ao_body = body, ao_code = Some errcode,
        ao_projectId = Some projectId, ao_jobId = None, ao_to = None, ao_notifyEmail = None\<rparr>)"

definition outbox_audit :: "string \<Rightarrow> string \<Rightarrow> metadata \<Rightarrow> merge_state \<Rightarrow> merge_state" where
  "outbox_audit act i detail = audit_as None None act ''merge_outbox'' (Some i) detail"

text \<open>The project tree is readable here.\<close>

definition process_local :: "merge_env \<Rightarrow> MergeOutboxPendingRow \<Rightarrow> string \<Rightarrow> merge_state
    \<Rightarrow> outbox_outcome \<times> merge_state" where
  "process_local x row rootDir s =
     (case applyTscnToFilesystem x rootDir (mp_path row) (mp_patch row) s of
        (Ret applied, s1) \<Rightarrow>
          (OApplied,
           outbox_audit ''merge.outbox_applied'' (mp_id row)
             [(''overrideId'', JStr (mp_overrideId row)), (''projectId'', JStr (mp_projectId row)),
              (''path'', JStr (mp_path row)), (''applyMode'', JStr ''local_fs''),
              (''mergedHash'', JStr (at_mergedHash applied))]
             (markApplied (mp_id row) (mp_overrideId row) (at_mergedHash applied) s1))
      | (Throw e, s1) \<Rightarrow>
          (let errcode = (if err_code e = Some ''E019'' then ''E019'' else ''E014'') in
           (OFailed,
            outbox_audit ''merge.outbox_failed'' (mp_id row)
              [(''path'', JStr (mp_path row)), (''detail'', JStr (err_msg e)), (''code'', JStr errcode)]
              (outbox_alert x ''Merge outbox apply failed'' (if errcode = ''E019'' then high else medium)
                 (''outbox='' @ mp_id row @ '' path='' @ mp_path row @ '': '' @ err_msg e) errcode (mp_projectId row)
                 (markFailed (mp_id row) (err_msg e) s1)))))"

definition MERGE_APPLY_WORKFLOW :: string where
  "MERGE_APPLY_WORKFLOW = ''merge_apply.yml''"

definition outbox_s3_key :: "MergeOutboxPendingRow \<Rightarrow> string" where
  "outbox_s3_key row = ''projects/'' @ mp_projectId row @ ''/merge-outbox/'' @ mp_id row @ ''/patch.json''"

definition remote_root :: "MergeOutboxPendingRow \<Rightarrow> string \<Rightarrow> string" where
  "remote_root row rootDir =
     (if rootDir \<noteq> [] then rootDir
      else js_String (or_default
        (nullish (map_of (mp_metadata row) ''projectRoot'')
           (nullish (map_of (mp_metadata row) ''project_root'') None))
        (JStr (''/var/godot/projects/'' @ mp_projectId row))))"

text \<open>What the try block of the remote branch does up to the workflow request.\<close>

definition remote_attempt :: "merge_env \<Rightarrow> MergeOutboxPendingRow \<Rightarrow> string \<Rightarrow> merge_state
    \<Rightarrow> MergeSealed outcome \<times> merge_state" where
  "remote_attempt x row projectRoot s =
     (let s3Key = outbox_s3_key row in
      case mx_putError x s3Key of
        Some msg \<Rightarrow> (Throw (plain_error msg), s)
      | None \<Rightarrow>
          let s1 = s\<lparr>s3_objects := (s3Key, stringify (JObj (mp_patch row))) # s3_objects s\<rparr>;
              patchGetUrl = x_presignGet (mx_ext x) s3Key
          in case buildMergeApplyDispatchEnvelope x row projectRoot patchGetUrl s3Key (mg_world s1) of
               (Throw e, w) \<Rightarrow> (Throw e, s1\<lparr>mg_world := w\<rparr>)
             | (Ret envelope, w) \<Rightarrow>
                 let s2 = s1\<lparr>mg_world := w\<rparr>; inputs = me_workflowInputs envelope in
                 if \<not> truthy (map_of inputs ''secretJwe'')
                 then (Throw (plain_error ''merge-apply dispatch envelope missing secretJwe''), s2)
                 else case leaking_input inputs of
                   Some (k, v) \<Rightarrow>
                     (Throw (plain_error (''refusing dispatch: private key leaked in input '' @ k)), s2)
                 | None \<Rightarrow>
                     let s3 = s2\<lparr>merge_calls := inputs # merge_calls s2\<rparr> in
                     (case mx_dispatchError x inputs of
                        Some msg \<Rightarrow> (Throw (plain_error msg), s3)
                      | None \<Rightarrow> (Ret (me_sealed envelope), s3)))"

definition process_remote :: "merge_env \<Rightarrow> MergeOutboxPendingRow \<Rightarrow> string \<Rightarrow> merge_state
    \<Rightarrow> outbox_outcome \<times> merge_state" where
  "process_remote x row rootDir s =
     (let projectRoot = remote_root row rootDir; s3Key = outbox_s3_key row in
      case remote_attempt x row projectRoot s of
        (Throw e, s1) \<Rightarrow>
          (OFailed,
           outbox_alert x ''Merge outbox remote dispatch failed'' high
             (''outbox='' @ mp_id row @ '': '' @ err_msg e) ''E014'' (mp_projectId row)
             (markFailed (mp_id row) (''dispatch failed: '' @ err_msg e) s1))
      | (Ret sealed, s1) \<Rightarrow>
          (ODispatched,
           outbox_audit ''merge.outbox_dispatched'' (mp_id row)
             [(''workflow'', JStr MERGE_APPLY_WORKFLOW), (''s3Key'', JStr s3Key), (''path'', JStr (mp_path row)),
              (''projectRoot'', JStr projectRoot), (''secretJwe'', JBool True),
              (''targetHost'', (case ms_targetHost sealed of None \<Rightarrow> JNull | Some h \<Rightarrow> JStr h)),
              (''hasSshPrivateKey'', JBool (ms_hasSshPrivateKey sealed))]
             (markDispatched x (mp_id row)
               (''dispatched '' @ MERGE_APPLY_WORKFLOW @ '' s3Key='' @ s3Key @ '' secretJwe=1'') s1)))"

definition processMergeOutboxRow :: "merge_env \<Rightarrow> MergeOutboxPendingRow \<Rightarrow> merge_state
    \<Rightarrow> outbox_outcome \<times> merge_state" where
  "processMergeOutboxRow x row s =
     (let rootDir = or_default (mp_projectRoot row) []; meta = mp_metadata row in
      if \<not> ends_with (mp_path row) ''.tscn'' then
        (OFailed,
         outbox_alert x ''Merge outbox failed'' medium
           (''outbox='' @ mp_id row @ '' path='' @ mp_path row @ '' (not .tscn)'') ''E014'' (mp_projectId row)
           (markFailed (mp_id row) (''unsupported path for structural merge: '' @ mp_path row) s))
      else let readable = (if rootDir \<noteq> [] then mx_readable x rootDir else False) in
        if readable then process_local x row rootDir s
        else if \<not> isRemoteMergeTarget rootDir meta readable \<and> rootDir = [] then
          (OFailed,
           outbox_alert x ''Merge outbox failed'' medium
             (''outbox='' @ mp_id row @ '': missing project_root'') ''E014'' (mp_projectId row)
             (markFailed (mp_id row) ''no project_root and no local tree - cannot apply merge'' s))
        else process_remote x row rootDir s)"

section \<open>Draining the outbox\<close>

definition not_yet_dispatched :: "merge_env \<Rightarrow> OutboxRow \<Rightarrow> bool" where
  "not_yet_dispatched x o' =
     (redispatch_on x \<or> ob_detail o' = None \<or> \<not> starts_with (the (ob_detail o')) ''dispatched '')"

text \<open>The joins of the query and the columns it reads.\<close>

definition pending_row :: "merge_state \<Rightarrow> OutboxRow \<Rightarrow> MergeOutboxPendingRow option" where
  "pending_row s r =
     (case (get_project (mg_world s) (ob_projectId r), row_by ov_id (ob_overrideId r) (overrides s)) of
        (Some p, Some v) \<Rightarrow>
          Some \<lparr>mp_id = ob_id r, mp_overrideId = ob_overrideId r, mp_projectId = ob_projectId r,
                mp_path = ob_path r, mp_projectRoot = pr_projectRoot p, mp_patch = ov_patch v,
                mp_metadata = or_default (map_of (mg_metadata s) (pr_id p)) [],
                mp_introducesScript = ov_introducesScript v\<rparr>
      | _ \<Rightarrow> None)"

definition listPending :: "merge_env \<Rightarrow> nat \<Rightarrow> merge_state \<Rightarrow> MergeOutboxPendingRow list" where
  "listPending x limit s =
     take limit (List.map_filter (pending_row s)
       (sort_key ob_createdAt
         (filter (\<lambda>r. ob_status r = Pending \<and> not_yet_dispatched x r) (merge_outbox s))))"

fun process_rows :: "merge_env \<Rightarrow> MergeOutboxPendingRow list \<Rightarrow> merge_state \<Rightarrow> outbox_outcome list \<times> merge_state" where
  "process_rows x [] s = ([], s)"
| "process_rows x (r # rs) s =
     (let (out, s1) = processMergeOutboxRow x r s; (outs, s2) = process_rows x rs s1 in (out # outs, s2))"

record ProcessMergeOutboxResult =
  po_applied :: nat
  po_failed :: nat
  po_dispatched :: nat
  po_skipped :: nat

definition processPendingMergeOutbox :: "merge_env \<Rightarrow> nat \<Rightarrow> merge_state \<Rightarrow> ProcessMergeOutboxResult \<times> merge_state" where
  "processPendingMergeOutbox x limit s =
     (let (outs, s1) = process_rows x (listPending x limit s) s in
      (\<lparr>po_applied = count_list outs OApplied, po_failed = count_list outs OFailed,
        po_dispatched = count_list outs ODispatched, po_skipped = 0\<rparr>, s1))"

definition drain_pending :: "merge_env \<Rightarrow> merge_state \<Rightarrow> ProcessMergeOutboxResult \<times> merge_state" where
  "drain_pending x s =
     (let (r, s1) = processPendingMergeOutbox x 10 s in
      (r, s1\<lparr>mg_beats := (''merge-outbox-drain'', now (mg_world s1)) # mg_beats s1\<rparr>))"

end
