(* ===== verification/Merge_Claims.thy ===== *)
theory Merge_Claims
  imports Merge_Outbox
begin

text \<open>
  What holds of overrides and their outbox over any sequence of requests, drains and host reports: a
  row is handed to the workflow at most once and without key material, every processed row is settled,
  and a patch that names a script property needs an admin.
\<close>

section \<open>Settled rows\<close>

definition spent :: "OutboxRow \<Rightarrow> bool" where
  "spent r = (ob_status r \<noteq> Pending \<or> (case ob_detail r of None \<Rightarrow> False | Some d \<Rightarrow> starts_with d ''dispatched ''))"

definition call_id :: "attrs \<Rightarrow> string" where
  "call_id c = or_default (map_of c ''outboxId'') []"

definition input_keys :: "string list" where
  "input_keys = [''secretJwe'', ''outboxId'', ''projectId'', ''path'', ''projectRoot'', ''patchGetUrl'', ''s3Key'']"

definition safe_inputs :: "attrs \<Rightarrow> bool" where
  "safe_inputs c = (map fst c = input_keys \<and> (\<forall>(k, v) \<in> set c. k \<noteq> ''secretJwe'' \<longrightarrow> \<not> private_key_text v))"

lemma spent_dispatched: "spent (r\<lparr>ob_detail := Some (take 2000 (''dispatched '' @ d))\<rparr>)"
  by (simp add: spent_def starts_with_def)

lemma spent_mark:
  "spent (r\<lparr>ob_status := Applied, ob_appliedAt := a, ob_detail := d\<rparr>)" "spent (r\<lparr>ob_status := Failed, ob_detail := d\<rparr>)"
  by (simp_all add: spent_def)

lemma leaking_None: "leaking_input c = None \<Longrightarrow> \<forall>(k, v) \<in> set c. k \<noteq> ''secretJwe'' \<longrightarrow> \<not> private_key_text v"
  by (auto simp: leaking_input_def find_None_iff)

text \<open>What a processed row leaves: the row is settled, and at most one request names it.\<close>

definition settles :: "string \<Rightarrow> merge_state \<Rightarrow> merge_state \<Rightarrow> bool" where
  "settles i s s' =
     ((\<exists>f. merge_outbox s' = set_row ob_id i f (merge_outbox s) \<and> (\<forall>r. ob_id (f r) = ob_id r \<and> spent (f r))) \<and>
      (merge_calls s' = merge_calls s \<or>
       (\<exists>c. merge_calls s' = c # merge_calls s \<and> call_id c = i \<and> safe_inputs c)))"

lemma upd_world_frame [simp]:
  "merge_outbox (upd_world f s) = merge_outbox s" "merge_calls (upd_world f s) = merge_calls s"
  by (simp_all add: upd_world_def)

lemma outbox_audit_frame [simp]:
  "merge_outbox (outbox_audit a i d s) = merge_outbox s" "merge_calls (outbox_audit a i d s) = merge_calls s"
  "merge_outbox (outbox_alert x t v b c p s) = merge_outbox s" "merge_calls (outbox_alert x t v b c p s) = merge_calls s"
  by (simp_all add: outbox_audit_def audit_as_def outbox_alert_def)

lemma markFailed_settles:
  "merge_outbox s = merge_outbox s0 \<Longrightarrow>
   merge_calls s = merge_calls s0 \<or> (\<exists>c. merge_calls s = c # merge_calls s0 \<and> call_id c = i \<and> safe_inputs c) \<Longrightarrow>
     settles i s0 (markFailed i d s)"
  unfolding settles_def markFailed_def upd_outbox_def by (auto simp: spent_def intro!: exI)

lemma apply_frame:
  "applyTscnToFilesystem x rootDir p patch s = (r, s1) \<Longrightarrow> merge_outbox s1 = merge_outbox s \<and> merge_calls s1 = merge_calls s"
  by (auto simp: applyTscnToFilesystem_def Let_def split: if_splits outcome.splits option.splits)

lemma settles_frame [simp]:
  "settles i s (outbox_audit a j d t) = settles i s t" "settles i s (outbox_alert x ti v b c p t) = settles i s t"
  by (simp_all add: settles_def)

lemma process_local_settles:
  assumes "process_local x row rootDir s = (res, s')" shows "settles (mp_id row) s s'"
proof (cases "applyTscnToFilesystem x rootDir (mp_path row) (mp_patch row) s")
  case (Pair r s1)
  note fr = apply_frame [OF Pair]
  show ?thesis
  proof (cases r)
    case (Ret a)
    have "settles (mp_id row) s (markApplied (mp_id row) (mp_overrideId row) (at_mergedHash a) s1)"
      using fr unfolding settles_def markApplied_def upd_outbox_def by (auto simp: spent_def intro!: exI)
    with assms Pair Ret show ?thesis by (auto simp: process_local_def)
  next
    case (Throw e)
    with assms Pair markFailed_settles [of s1 s "mp_id row" "err_msg e"] fr show ?thesis
      by (auto simp: process_local_def Let_def)
  qed
qed

lemma envelope_inputs:
  assumes "buildMergeApplyDispatchEnvelope x row p u k w = (Ret en, w')"
  shows "call_id (me_workflowInputs en) = mp_id row" "map fst (me_workflowInputs en) = input_keys"
  using assms
  by (auto simp: buildMergeApplyDispatchEnvelope_def Let_def merge_inputs_def call_id_def input_keys_def
      or_default_def split: if_splits prod.splits outcome.splits option.splits)

lemma remote_attempt_frame:
  assumes "remote_attempt x row p s = (r, s1)"
  shows "merge_outbox s1 = merge_outbox s \<and>
    (merge_calls s1 = merge_calls s \<or>
     (\<exists>c. merge_calls s1 = c # merge_calls s \<and> call_id c = mp_id row \<and> safe_inputs c))"
proof (cases "mx_putError x (outbox_s3_key row)")
  case (Some msg)
  with assms show ?thesis by (simp add: remote_attempt_def Let_def)
next
  case None
  let ?k = "outbox_s3_key row"
  obtain b w where b: "buildMergeApplyDispatchEnvelope x row p (x_presignGet (mx_ext x) ?k) ?k (mg_world s) = (b, w)"
    by force
  show ?thesis
  proof (cases b)
    case (Throw e)
    with assms None b show ?thesis by (auto simp: remote_attempt_def Let_def)
  next
    case (Ret en)
    note inp = envelope_inputs [OF b [unfolded Ret]]
    have "leaking_input (me_workflowInputs en) = None \<Longrightarrow> safe_inputs (me_workflowInputs en)"
      using inp leaking_None by (simp add: safe_inputs_def)
    with assms None b Ret inp show ?thesis
      by (auto simp: remote_attempt_def Let_def split: if_splits option.splits)
  qed
qed

lemma process_remote_settles:
  assumes "process_remote x row rootDir s = (res, s')" shows "settles (mp_id row) s s'"
proof (cases "remote_attempt x row (remote_root row rootDir) s")
  case (Pair r s1)
  note fr = remote_attempt_frame [OF Pair]
  show ?thesis
  proof (cases r)
    case (Throw e)
    with assms Pair markFailed_settles [of s1 s "mp_id row" "''dispatch failed: '' @ err_msg e"] fr show ?thesis
      by (auto simp: process_remote_def Let_def)
  next
    case (Ret sealed)
    have "settles (mp_id row) s (markDispatched x (mp_id row) (''dispatched '' @ d) s1)" for d
      using fr unfolding settles_def markDispatched_def upd_outbox_def
      by (auto simp: spent_dispatched intro!: exI) (auto simp: spent_def starts_with_def)
    with assms Pair Ret show ?thesis by (auto simp: process_remote_def Let_def)
  qed
qed

lemma process_settles:
  "processMergeOutboxRow x row s = (res, s') \<Longrightarrow> settles (mp_id row) s s'"
  using markFailed_settles [of s s "mp_id row"]
  by (auto simp: processMergeOutboxRow_def Let_def process_local_settles process_remote_settles split: if_splits)

section \<open>Runs\<close>

text \<open>
  Requests, drains (with redispatching off), host reports, and whatever else happens to the rest of the
  orchestrator and to the project trees.
\<close>

inductive merge_step :: "merge_state \<Rightarrow> merge_state \<Rightarrow> bool" where
  post: "merge_step s (snd (post_merge x userId role body s))"
| drain: "\<not> redispatch_on x \<Longrightarrow> merge_step s (snd (drain_pending x s))"
| complete: "merge_step s (snd (complete_outbox x userId' role' i h d s))"
| outside: "merge_step s (s\<lparr>mg_world := w, mg_metadata := m, files := f\<rparr>)"

definition dispatch_inv :: "merge_state \<Rightarrow> bool" where
  "dispatch_inv s =
     (distinct (map ob_id (merge_outbox s)) \<and> distinct (map call_id (merge_calls s)) \<and>
      (\<forall>c \<in> set (merge_calls s). safe_inputs c \<and> (\<exists>r \<in> set (merge_outbox s). ob_id r = call_id c \<and> spent r)))"

lemma set_row_in: "r \<in> set rs \<Longrightarrow> (\<And>r. key (f r) = key r) \<Longrightarrow> \<exists>r' \<in> set (set_row key k f rs). key r' = key r \<and> (r' = r \<or> r' = f r)"
  by (induction rs) auto

lemma set_row_hit: "k \<in> set (map key rs) \<Longrightarrow> (\<And>r. key (f r) = key r) \<Longrightarrow> \<exists>r. f r \<in> set (set_row key k f rs) \<and> key r = k"
  by (induction rs) auto

lemma settle_row_inv:
  assumes inv: "dispatch_inv s" and st: "settles i s s'"
    and i: "i \<in> set (map ob_id (merge_outbox s))" "i \<notin> call_id ` set (merge_calls s)"
  shows "dispatch_inv s' \<and> map ob_id (merge_outbox s') = map ob_id (merge_outbox s) \<and>
    call_id ` set (merge_calls s') \<subseteq> insert i (call_id ` set (merge_calls s))"
proof -
  obtain f where ob: "merge_outbox s' = set_row ob_id i f (merge_outbox s)"
    and f: "\<And>r. ob_id (f r) = ob_id r" "\<And>r. spent (f r)"
    using st by (auto simp: settles_def)
  have ids: "map ob_id (merge_outbox s') = map ob_id (merge_outbox s)" by (simp add: ob map_set_row f(1))
  have old: "\<exists>r' \<in> set (merge_outbox s'). ob_id r' = call_id c \<and> spent r'" if c: "c \<in> set (merge_calls s)" for c
  proof -
    obtain r where "r \<in> set (merge_outbox s)" "ob_id r = call_id c" "spent r"
      using inv c by (auto simp: dispatch_inv_def)
    with set_row_in [of r "merge_outbox s" ob_id f i] f ob show ?thesis by fastforce
  qed
  have new: "\<exists>r' \<in> set (merge_outbox s'). ob_id r' = i \<and> spent r'"
    using set_row_hit [OF i(1), of f] f ob by fastforce
  show ?thesis
    using st old new ids inv i(2) unfolding settles_def dispatch_inv_def by (elim conjE disjE exE) auto
qed

lemma disjoint_insert: "C \<subseteq> insert x B \<Longrightarrow> x \<notin> A \<Longrightarrow> A \<inter> B = {} \<Longrightarrow> A \<inter> C = {}"
  by blast

lemma process_rows_inv:
  "process_rows x rs s = (outs, s') \<Longrightarrow> dispatch_inv s \<Longrightarrow> distinct (map mp_id rs) \<Longrightarrow>
   set (map mp_id rs) \<subseteq> set (map ob_id (merge_outbox s)) \<Longrightarrow>
   set (map mp_id rs) \<inter> call_id ` set (merge_calls s) = {} \<Longrightarrow> dispatch_inv s'"
proof (induction rs arbitrary: s outs)
  case (Cons r rs)
  obtain res s1 where p: "processMergeOutboxRow x r s = (res, s1)" by force
  obtain outs' where q: "process_rows x rs s1 = (outs', s')"
    using Cons.prems(1) p by (auto split: prod.splits)
  have one: "dispatch_inv s1 \<and> map ob_id (merge_outbox s1) = map ob_id (merge_outbox s) \<and>
    call_id ` set (merge_calls s1) \<subseteq> insert (mp_id r) (call_id ` set (merge_calls s))"
    using Cons.prems process_settles [OF p] by (intro settle_row_inv) auto
  have calls: "call_id ` set (merge_calls s1) \<subseteq> insert (mp_id r) (call_id ` set (merge_calls s))"
    using one by (elim conjE)
  have new: "mp_id r \<notin> set (map mp_id rs)" using Cons.prems(3) by simp
  have old: "set (map mp_id rs) \<inter> call_id ` set (merge_calls s) = {}" using Cons.prems(5) by auto
  have "set (map mp_id rs) \<inter> call_id ` set (merge_calls s1) = {}"
    using calls new old by (rule disjoint_insert)
  moreover have "set (map mp_id rs) \<subseteq> set (map ob_id (merge_outbox s1))"
    using Cons.prems(4) unfolding one [THEN conjunct2, THEN conjunct1] by simp
  moreover have "distinct (map mp_id rs)" using Cons.prems(3) by simp
  ultimately show ?case by (intro Cons.IH [OF q one [THEN conjunct1]])
qed simp

lemma pending_row_id: "pending_row s r = Some p \<Longrightarrow> mp_id p = ob_id r"
  by (auto simp: pending_row_def split: option.splits)

lemma map_filter_ids:
  "map mp_id (List.map_filter (pending_row s) rs) = map ob_id (filter (\<lambda>r. pending_row s r \<noteq> None) rs)"
  by (induction rs) (auto simp: List.map_filter_simps pending_row_id split: option.splits)

lemma listPending_ids:
  assumes "distinct (map ob_id (merge_outbox s))"
  shows "distinct (map mp_id (listPending x n s))"
    and "i \<in> set (map mp_id (listPending x n s)) \<Longrightarrow>
      \<exists>r \<in> set (merge_outbox s). ob_id r = i \<and> ob_status r = Pending \<and> not_yet_dispatched x r"
proof -
  let ?rs = "sort_key ob_createdAt (filter (\<lambda>r. ob_status r = Pending \<and> not_yet_dispatched x r) (merge_outbox s))"
  have set: "set ?rs = {r \<in> set (merge_outbox s). ob_status r = Pending \<and> not_yet_dispatched x r}" by auto
  have "distinct (map ob_id ?rs)"
  proof (rule distinct_map [THEN iffD2], intro conjI)
    show "distinct ?rs" using assms by (simp add: distinct_map)
    show "inj_on ob_id (set ?rs)" using assms by (auto simp: distinct_map intro: inj_on_subset)
  qed
  then have "distinct (map ob_id (filter (\<lambda>r. pending_row s r \<noteq> None) ?rs))" by (rule distinct_map_filter)
  then show "distinct (map mp_id (listPending x n s))"
    by (simp add: listPending_def map_filter_ids flip: take_map)
  assume "i \<in> set (map mp_id (listPending x n s))"
  then have "i \<in> set (map ob_id (filter (\<lambda>r. pending_row s r \<noteq> None) ?rs))"
    unfolding listPending_def take_map [symmetric] map_filter_ids by (rule in_set_takeD)
  then show "\<exists>r \<in> set (merge_outbox s). ob_id r = i \<and> ob_status r = Pending \<and> not_yet_dispatched x r"
    using set by auto
qed

lemma listed_not_called:
  assumes inv: "dispatch_inv s" and off: "\<not> redispatch_on x" and i: "i \<in> set (map mp_id (listPending x n s))"
  shows "i \<notin> call_id ` set (merge_calls s)"
proof
  have dist: "distinct (map ob_id (merge_outbox s))" using inv by (simp add: dispatch_inv_def)
  obtain r where r: "r \<in> set (merge_outbox s)" "ob_id r = i" "ob_status r = Pending" "not_yet_dispatched x r"
    using listPending_ids(2) [OF dist i] by blast
  assume "i \<in> call_id ` set (merge_calls s)"
  then obtain r' where r': "r' \<in> set (merge_outbox s)" "ob_id r' = i" "spent r'"
    using inv by (auto simp: dispatch_inv_def)
  have "r' = r" using dist r r' by (metis distinct_map inj_onD)
  with r r' off show False by (auto simp: spent_def not_yet_dispatched_def split: option.splits)
qed

lemma drain_inv:
  assumes inv: "dispatch_inv s" and off: "\<not> redispatch_on x"
  shows "dispatch_inv (snd (drain_pending x s))"
proof -
  obtain outs s1 where p: "process_rows x (listPending x 10 s) s = (outs, s1)" by force
  have dist: "distinct (map ob_id (merge_outbox s))" using inv by (simp add: dispatch_inv_def)
  have "set (map mp_id (listPending x 10 s)) \<subseteq> set (map ob_id (merge_outbox s))"
  proof
    fix i assume "i \<in> set (map mp_id (listPending x 10 s))"
    then obtain r where "r \<in> set (merge_outbox s)" "ob_id r = i" using listPending_ids(2) [OF dist] by blast
    then show "i \<in> set (map ob_id (merge_outbox s))" by auto
  qed
  moreover have "set (map mp_id (listPending x 10 s)) \<inter> call_id ` set (merge_calls s) = {}"
    using listed_not_called [OF inv off] by blast
  ultimately have "dispatch_inv s1"
    using process_rows_inv [OF p inv listPending_ids(1) [OF dist]] by blast
  with p show ?thesis
    by (simp add: drain_pending_def processPendingMergeOutbox_def dispatch_inv_def)
qed

lemma draw_id_frame: "draw_id x s = (i, s1) \<Longrightarrow> merge_outbox s1 = merge_outbox s \<and> merge_calls s1 = merge_calls s"
  by (auto simp: draw_id_def split: prod.splits)

text \<open>A request appends at most one outbox row, with a new id.\<close>

definition appends :: "merge_state \<Rightarrow> merge_state \<Rightarrow> bool" where
  "appends s s' = (merge_calls s' = merge_calls s \<and>
     (merge_outbox s' = merge_outbox s \<or>
      (\<exists>r. merge_outbox s' = merge_outbox s @ [r] \<and> ob_id r \<notin> set (map ob_id (merge_outbox s)))))"

lemma appends_inv: "dispatch_inv s \<Longrightarrow> appends s s' \<Longrightarrow> dispatch_inv s'"
  by (auto simp: appends_def dispatch_inv_def)

lemma insert_override_frame:
  "insert_override x row s = (r, s1) \<Longrightarrow> merge_outbox s1 = merge_outbox s \<and> merge_calls s1 = merge_calls s"
  by (auto simp: insert_override_def dest: draw_id_frame split: prod.splits if_splits)

lemma insert_outbox_appends: "insert_outbox x i req s = (r, s1) \<Longrightarrow> appends s s1"
  by (auto simp: insert_outbox_def appends_def row_by_None dest!: draw_id_frame split: prod.splits if_splits)

lemma merge_record_appends: "merge_record x req u role b m h s = (r, s1) \<Longrightarrow> appends s s1"
  by (auto simp: merge_record_def audit_as_def appends_def
      dest!: insert_override_frame insert_outbox_appends [unfolded appends_def]
      split: prod.splits outcome.splits if_splits)

lemma merge_local_frame:
  "merge_local x req p s = (r, s1) \<Longrightarrow> merge_outbox s1 = merge_outbox s \<and> merge_calls s1 = merge_calls s"
  by (auto simp: merge_local_def Let_def dest!: apply_frame split: prod.splits outcome.splits if_splits)

lemma appends_cong: "merge_outbox s1 = merge_outbox s \<and> merge_calls s1 = merge_calls s \<Longrightarrow> appends s1 s2 = appends s s2"
  by (simp add: appends_def)

lemma applyMerge_appends: "applyMerge x req u role p s = (r, s1) \<Longrightarrow> appends s s1"
proof -
  assume a: "applyMerge x req u role p s = (r, s1)"
  have refl: "appends s s" by (simp add: appends_def)
  obtain l s2 where l: "merge_local x req p s = (l, s2)" by force
  note fr = merge_local_frame [OF l]
  have "appends s s2" using fr by (simp add: appends_def)
  then show ?thesis
    using a l refl merge_record_appends [of x req u role _ _ _ s2] appends_cong [OF fr]
    by (auto simp: applyMerge_def Let_def split: if_splits outcome.splits)
qed

lemma post_merge_appends: "appends s (snd (post_merge x u role body s))"
proof -
  have refl: "appends s s" by (simp add: appends_def)
  then show ?thesis
    by (auto simp: post_merge_def dest!: applyMerge_appends split: option.splits prod.splits outcome.splits)
qed

lemma complete_inv: "dispatch_inv s \<Longrightarrow> dispatch_inv (snd (complete_outbox x u role i h d s))"
proof (cases "row_by ob_id i (merge_outbox s)")
  case (Some row)
  assume inv: "dispatch_inv s"
  define f :: "OutboxRow \<Rightarrow> OutboxRow" where "f = (\<lambda>r. r\<lparr>ob_status := Applied, ob_appliedAt := Some (now (mg_world s)),
    ob_detail := Some (or_default d ''host merge-apply complete'')\<rparr>)"
  let ?s = "snd (complete_outbox x u role i h d s)"
  have s': "merge_outbox ?s = set_row ob_id i f (merge_outbox s)" "merge_calls ?s = merge_calls s"
    using Some by (simp_all add: complete_outbox_def audit_as_def f_def)
  have f: "ob_id (f r) = ob_id r" "spent (f r)" for r by (simp_all add: f_def spent_def)
  have "\<exists>r' \<in> set (merge_outbox ?s). ob_id r' = call_id c \<and> spent r'" if c: "c \<in> set (merge_calls s)" for c
  proof -
    obtain r where "r \<in> set (merge_outbox s)" "ob_id r = call_id c" "spent r"
      using inv c by (auto simp: dispatch_inv_def)
    with set_row_in [of r "merge_outbox s" ob_id f i] f s' show ?thesis by fastforce
  qed
  with inv s' show ?thesis by (simp add: dispatch_inv_def map_set_row f)
qed (simp add: complete_outbox_def)

lemma merge_step_inv: "merge_step s s' \<Longrightarrow> dispatch_inv s \<Longrightarrow> dispatch_inv s'"
proof (induction rule: merge_step.induct)
  case (post s x userId role body)
  then show ?case using appends_inv post_merge_appends by blast
next
  case (drain x s)
  then show ?case by (simp add: drain_inv)
next
  case (complete s x userId' role' i h d)
  then show ?case by (rule complete_inv)
next
  case (outside s w m f)
  then show ?case by (simp add: dispatch_inv_def)
qed


section \<open>The gate on scripts\<close>

text \<open>An object at any depth has a member named script, in any case.\<close>

fun names_script :: "json \<Rightarrow> bool" where
  "names_script (JArr vs) = list_ex names_script vs"
| "names_script (JObj ms) = list_ex (\<lambda>(k, v). js_lower k = ''script'' \<or> names_script v) ms"
| "names_script _ = False"

lemma any_suffix_iff: "any_suffix p s \<longleftrightarrow> (\<exists>a b. s = a @ b \<and> p b)"
proof (induction s)
  case (Cons c s)
  show ?case
  proof
    assume "any_suffix p (c # s)"
    then consider "p (c # s)" | "any_suffix p s" by auto
    then show "\<exists>a b. c # s = a @ b \<and> p b"
    proof cases
      case 1
      then have "c # s = [] @ (c # s) \<and> p (c # s)" by simp
      then show ?thesis by blast
    next
      case 2
      then obtain a b where "s = a @ b" "p b" using Cons.IH by blast
      then have "c # s = (c # a) @ b \<and> p b" by simp
      then show ?thesis by blast
    qed
  next
    assume "\<exists>a b. c # s = a @ b \<and> p b"
    then obtain a b where ab: "c # s = a @ b" "p b" by blast
    then show "any_suffix p (c # s)" using Cons.IH by (cases a) auto
  qed
qed simp

lemma match_word_iff: "match_word w s \<longleftrightarrow> js_lower (take (length w) s) = w"
  by (induction w s rule: match_word.induct) (auto simp: js_lower_def)

lemma join_member: "x \<in> set xs \<Longrightarrow> \<exists>a b. join sep xs = a @ x @ b"
proof (induction sep xs rule: join.induct)
  case (3 sep x' y zs)
  show ?case
  proof (cases "x = x'")
    case True
    then have "join sep (x' # y # zs) = [] @ x @ (sep @ join sep (y # zs))" by simp
    then show ?thesis by blast
  next
    case False
    with 3 obtain a b where "join sep (y # zs) = a @ x @ b" by auto
    then have "join sep (x' # y # zs) = (x' @ sep @ a) @ x @ b" by simp
    then show ?thesis by blast
  qed
qed (auto intro: exI [of _ "[]"])

lemma escape_letter:
  assumes "js_lower_char c \<in> set ''script''" shows "json_escape_char c = [c]"
proof -
  have n: "code (js_lower_char c) \<in> {99, 105, 112, 114, 115, 116}"
    using assms by (auto simp: code_def)
  have low: "code (js_lower_char c) = (if (65 \<le> code c \<and> code c \<le> 90) \<or> (192 \<le> code c \<and> code c \<le> 222 \<and> code c \<noteq> 215)
      then code c + 32 else code c)"
    by (simp add: js_lower_char_def Let_def)
  have "code c \<ge> 65 \<and> code c \<noteq> 92" using n unfolding low by (auto split: if_splits)
  then show ?thesis by (simp add: json_escape_char_def Let_def)
qed

lemma quote_script:
  assumes "js_lower k = ''script''" shows "json_quote k = [CHR 0x22] @ k @ [CHR 0x22]"
proof -
  have "concat (map json_escape_char k) = k" if "set (js_lower k) \<subseteq> set ''script''" for k
    using that
  proof (induction k)
    case (Cons c k)
    then have "js_lower_char c \<in> set ''script''" "set (js_lower k) \<subseteq> set ''script''"
      unfolding js_lower_def by (simp_all only: list.map list.set insert_subset)
    with Cons.IH escape_letter show ?case by simp
  qed simp
  with assms show ?thesis by (simp only: json_quote_def subset_refl)
qed

definition script_member_text :: "string \<Rightarrow> bool" where
  "script_member_text t = (\<exists>a k b. t = a @ [CHR 0x22] @ k @ [CHR 0x22] @ '':'' @ b \<and> js_lower k = ''script'')"

lemma script_member_text_in: "script_member_text t \<Longrightarrow> s = a @ t @ b \<Longrightarrow> script_member_text s"
proof -
  assume "script_member_text t" and s: "s = a @ t @ b"
  then obtain a' k b' where "t = a' @ [CHR 0x22] @ k @ [CHR 0x22] @ '':'' @ b'" and k: "js_lower k = ''script''"
    by (auto simp: script_member_text_def)
  then have "s = (a @ a') @ [CHR 0x22] @ k @ [CHR 0x22] @ '':'' @ (b' @ b)" using s by simp
  with k show ?thesis unfolding script_member_text_def by blast
qed

lemma script_member_text_join:
  "t \<in> set ts \<Longrightarrow> script_member_text t \<Longrightarrow> script_member_text ([c] @ join sep ts @ [d])"
proof -
  assume "t \<in> set ts" and t: "script_member_text t"
  then obtain a b where "join sep ts = a @ t @ b" using join_member by blast
  then have "[c] @ join sep ts @ [d] = ([c] @ a) @ t @ (b @ [d])" by simp
  then show ?thesis by (rule script_member_text_in [OF t])
qed

lemma names_script_text: "names_script v \<Longrightarrow> script_member_text (stringify v)"
proof (induction v rule: names_script.induct)
  case (1 vs)
  then obtain v where v: "v \<in> set vs" "names_script v" by (auto simp: list_ex_iff)
  with 1 have "script_member_text (stringify v)" by blast
  with v(1) show ?case
    using script_member_text_join [of "stringify v" "map stringify vs" "CHR ''[''" "'',''" "CHR '']''"] by simp
next
  case (2 ms)
  then obtain k v where kv: "(k, v) \<in> set ms" "js_lower k = ''script'' \<or> names_script v"
    by (auto simp: list_ex_iff)
  let ?t = "json_quote k @ '':'' @ stringify v"
  have "script_member_text ?t"
  proof (cases "js_lower k = ''script''")
    case True
    then have "?t = [] @ [CHR 0x22] @ k @ [CHR 0x22] @ '':'' @ stringify v" by (simp add: quote_script)
    with True show ?thesis unfolding script_member_text_def by blast
  next
    case False
    with kv 2 have "script_member_text (stringify v)" by blast
    then show ?thesis by (rule script_member_text_in [where a = "json_quote k @ '':''" and b = "[]"]) simp
  qed
  with kv(1) show ?case
    using script_member_text_join [of ?t "map (\<lambda>(k, v). json_quote k @ '':'' @ stringify v) ms" "CHR ''{''" "'',''" "CHR ''}''"]
    by force
qed simp_all

lemma script_member_flagged:
  assumes "names_script (JObj patch)" shows "patchIntroducesScript patch"
proof -
  obtain a k b where t: "stringify (JObj patch) = a @ [CHR 0x22] @ k @ [CHR 0x22] @ '':'' @ b"
    and k: "js_lower k = ''script''"
    using names_script_text [OF assms] by (auto simp: script_member_text_def)
  have len: "length k = 6" using arg_cong [OF k, of length] by (simp add: js_lower_def)
  have q: "js_lower_char (CHR 0x22) = CHR 0x22" by (simp add: js_lower_char_def code_def)
  have "word_then quoted_script (CHR '':'') ([CHR 0x22] @ k @ [CHR 0x22] @ '':'' @ b)"
    using k len q by (simp add: word_then_def match_word_iff quoted_script_def js_lower_def is_space_def code_def)
  then have "any_suffix (word_then quoted_script (CHR '':'')) (stringify (JObj patch))"
    unfolding any_suffix_iff t by blast
  then show ?thesis by (simp add: patchIntroducesScript_def Let_def)
qed

text \<open>
  C29 (safety). A merge request of a role below admin whose patch has, in an object at any depth, a
  member named script in any case is refused and changes nothing; when its path is acceptable it is
  refused with status 403 and code E019.
\<close>

theorem script_override_needs_admin:
  assumes "names_script (JObj (mr_patch req))" "role \<noteq> admin"
  shows "(\<exists>e. applyMerge x req userId role rootDir s = (Throw e, s)) \<and>
    (isSafeLogicalAssetPath (mr_path req) \<and> \<not> throws (assertWithinBase (mx_cwd x) rootDir (mr_path req)) \<longrightarrow>
       applyMerge x req userId role rootDir s =
         (Throw (JsError (Some 403) (Some ''E019'')
            ''Override introduces executable script; admin scope required''), s))"
  using script_member_flagged [OF assms(1)] assms(2)
  by (auto simp: applyMerge_def Let_def throws_def split: outcome.splits)

section \<open>Concrete runs\<close>

definition merge_env_example :: merge_env where
  "merge_env_example =
     \<lparr>mx_env = env_example, mx_ext = ext_example\<lparr>x_uuid := (\<lambda>n. CHR ''u'' # show_nat n)\<rparr>, mx_cwd = ''/'',
      mx_readable = (\<lambda>d. False), mx_ioError = (\<lambda>p. None), mx_putError = (\<lambda>k. None),
      mx_dispatchError = (\<lambda>i. None), PGOS_STRUCTURAL_MERGE = None, PGOS_MERGE_MODE = None,
      PGOS_MERGE_OUTBOX_REDISPATCH = None, PGOS_SERVICE_TOKEN = Some ''service-token'',
      SANDBOX_INTERNAL_TOKEN = None, PUBLIC_BASE_URL = ''http://o''\<rparr>"

definition merge_world_example :: merge_state where
  "merge_world_example =
     \<lparr>mg_world = empty_lock_fields\<lparr>projects := [(project_example ''p'')\<lparr>pr_projectRoot := Some ''/g''\<rparr>]\<rparr>,
      mg_metadata = [], overrides = [], merge_outbox = [], files = (\<lambda>f. None), s3_objects = [],
      merge_calls = [], mg_beats = []\<rparr>"

definition merge_request_example :: MergeOverrideRequest where
  "merge_request_example = \<lparr>mr_projectId = ''p'', mr_path = ''a.tscn'', mr_patch = []\<rparr>"


definition script_request :: MergeOverrideRequest where
  "script_request = merge_request_example\<lparr>mr_patch :=
     [(''nodes'', JArr [JObj [(''path'', JStr ''Root/P''), (''properties'', JObj [(''Script'', JStr ''x'')])]])]\<rparr>"

theorem script_override_needs_admin_witness:
  "fst (applyMerge merge_env_example script_request ''u'' operator ''/g'' merge_world_example) =
     Throw (JsError (Some 403) (Some ''E019'') ''Override introduces executable script; admin scope required'')"
proof -
  have "names_script (JObj (mr_patch script_request))" by code_simp
  moreover have "operator \<noteq> admin" by simp
  moreover have "isSafeLogicalAssetPath (mr_path script_request) \<and>
      \<not> throws (assertWithinBase (mx_cwd merge_env_example) ''/g'' (mr_path script_request))" by code_simp
  ultimately show ?thesis using script_override_needs_admin by simp
qed

subsection \<open>What the gate lets pass\<close>

text \<open>
  Two patches that an operator may apply. The first sets the script property by a key with a blank at
  its end: the text of the patch has no member named script, but the line it writes assigns script. The
  second redirects the path of a script resource of the scene by its id.
\<close>

definition blank_key_patch :: metadata where
  "blank_key_patch = [(''nodes'', JArr [JObj [(''path'', JStr ''Root/P''),
     (''properties'', JObj [(''script '', JStr ''SubResource(1)'')])]])]"

definition redirect_patch :: metadata where
  "redirect_patch = [(''ext_resources'', JArr [JObj [(''id'', JStr ''1_p''), (''path'', JStr ''res://x.gd'')]])]"

theorem script_gate_bypass:
  "\<not> patchIntroducesScript blank_key_patch \<and>
   map_of (section_props (s_lines (t_sections (parseTscn
     (applyTscnPatch demo_scene (the (tscn_patch blank_key_patch)))) ! 2))) ''script'' = Some ''SubResource(1)'' \<and>
   \<not> patchIntroducesScript redirect_patch \<and>
   merge_ext [\<lparr>s_header = ''[ext_resource '' @ join '' '' (map attr_text
       [(''type'', ''Script''), (''path'', ''res://p.gd''), (''id'', ''1_p'')]) @ '']'', s_lines = []\<rparr>]
     (hd (the (tp_ext_resources (the (tscn_patch redirect_patch))))) =
   [\<lparr>s_header = ''[ext_resource '' @ join '' '' (map attr_text
       [(''type'', ''Script''), (''path'', ''res://x.gd''), (''id'', ''1_p'')]) @ '']'', s_lines = []\<rparr>]"
  by (intro conjI) code_simp+

end
