(* ===== verification/Js_Number.thy ===== *)
theory Js_Number
  imports World
begin

text \<open>
  Texts of JavaScript numbers and dates: \<open>toISOString\<close> of a time in milliseconds from 1970 on, and
  \<open>toFixed(1)\<close> of a quotient of two integers, which JavaScript first rounds to a double.
\<close>

section \<open>Dates\<close>

definition pad :: "nat \<Rightarrow> nat \<Rightarrow> string" where
  "pad n k = (let t = show_nat k in replicate (n - length t) CHR ''0'' @ t)"

text \<open>Year, month and day of a day number.\<close>

definition civil :: "nat \<Rightarrow> nat \<times> nat \<times> nat" where
  "civil d =
     (let z = d + 719468; era = z div 146097; doe = z mod 146097;
          yoe = (doe - doe div 1460 + doe div 36524 - doe div 146096) div 365;
          doy = doe - (365 * yoe + yoe div 4 - yoe div 100);
          mp = (5 * doy + 2) div 153;
          day = doy - (153 * mp + 2) div 5 + 1;
          month = (if mp < 10 then mp + 3 else mp - 9)
      in (yoe + era * 400 + (if month \<le> 2 then 1 else 0), month, day))"

definition toISOString :: "nat \<Rightarrow> string" where
  "toISOString t =
     (let (y, m, d) = civil (t div 86400000); s = (t div 1000) mod 86400 in
      pad 4 y @ ''-'' @ pad 2 m @ ''-'' @ pad 2 d @ ''T'' @ pad 2 (s div 3600) @ '':'' @
      pad 2 ((s div 60) mod 60) @ '':'' @ pad 2 (s mod 60) @ ''.'' @ pad 3 (t mod 1000) @ ''Z'')"

section \<open>One decimal\<close>

text \<open>The quotient scaled to the 53 bits of a double's significand.\<close>

function scale53 :: "nat \<Rightarrow> nat \<Rightarrow> nat" where
  "scale53 p d = (if p = 0 \<or> d * 2 ^ 52 \<le> p then p else scale53 (2 * p) d)"
  by auto
termination by (relation "measure (\<lambda>(p, d). d * 2 ^ 52 - p)") auto

declare scale53.simps [simp del]

text \<open>The double next to \<open>p / d\<close> lies below it.\<close>

definition double_below :: "nat \<Rightarrow> nat \<Rightarrow> bool" where
  "double_below p d = (let P = scale53 p d; r = P mod d in 0 < r \<and> (2 * r < d \<or> 2 * r = d \<and> even (P div d)))"

definition toFixed1 :: "nat \<Rightarrow> nat \<Rightarrow> string" where
  "toFixed1 a b =
     (let n = (10 * a) div b; r = (10 * a) mod b;
          k = (if 2 * r < b then n else if b < 2 * r then n + 1
               else if double_below a b then n else n + 1)
      in show_nat (k div 10) @ ''.'' @ show_nat (k mod 10))"

end
