(* ===== verification/Tier_Probe.thy ===== *)
theory Tier_Probe
  imports Scheduler Js_Number Complex_Main
begin

text \<open>
  The signals of tier health: \<open>services/tier-probe.ts\<close> (runs of the health workflow and ingested
  reports), the probe of \<open>services/github-service.ts\<close> that feeds it, and the evaluation of tier parity
  reports in \<open>services/parity-service.ts\<close>. Times are milliseconds; a cold start that a report gives is a
  rational number.
\<close>

section \<open>Probes\<close>

datatype TierBProbeSource = github_api | workflow_ingest | mock_source

record TierBProbeResult =
  tier_b_runner_online :: bool
  godot_cache_warm :: "bool option"
  coldStartMs :: int
  degraded :: bool
  probe_source :: TierBProbeSource
  probe_detail :: string
  checkedAt :: nat
  lastHealthRunId :: "nat option"
  lastHealthRunConclusion :: "string option"
  lastHealthRunAgeMs :: "nat option"
  actionsApiOk :: "bool option"

definition TIER_B_HEALTH_RUN_MAX_AGE_MS :: nat where
  "TIER_B_HEALTH_RUN_MAX_AGE_MS = 90 * 60 * 1000"

definition TIER_B_COLD_START_DEGRADED_MS :: nat where
  "TIER_B_COLD_START_DEGRADED_MS = 120000"

record WorkflowRunSummary =
  wr_id :: nat
  wr_status :: "string option"
  wr_conclusion :: "string option"
  wr_createdAt :: nat
  wr_updatedAt :: "nat option"
  wr_runStartedAt :: "nat option"
  wr_name :: "string option"
  wr_displayTitle :: "string option"

definition estimateColdStartMs :: "WorkflowRunSummary \<Rightarrow> nat \<Rightarrow> nat" where
  "estimateColdStartMs run nowMs =
     (case wr_runStartedAt run of
        Some started \<Rightarrow>
          if wr_createdAt run \<le> started then started - wr_createdAt run
          else (case wr_updatedAt run of
                  Some updated \<Rightarrow>
                    if wr_status run = Some ''completed'' \<and> wr_createdAt run \<le> updated
                    then min (updated - wr_createdAt run) 600000
                    else if wr_status run = Some ''queued'' \<or> wr_status run = Some ''in_progress''
                    then nowMs - wr_createdAt run else 60000
                | None \<Rightarrow> if wr_status run = Some ''queued'' \<or> wr_status run = Some ''in_progress''
                    then nowMs - wr_createdAt run else 60000)
      | None \<Rightarrow>
          (case wr_updatedAt run of
             Some updated \<Rightarrow>
               if wr_status run = Some ''completed'' \<and> wr_createdAt run \<le> updated
               then min (updated - wr_createdAt run) 600000
               else if wr_status run = Some ''queued'' \<or> wr_status run = Some ''in_progress''
               then nowMs - wr_createdAt run else 60000
           | None \<Rightarrow> if wr_status run = Some ''queued'' \<or> wr_status run = Some ''in_progress''
               then nowMs - wr_createdAt run else 60000))"

datatype run_kind = health_run | other_run

fun kind_name :: "run_kind \<Rightarrow> string" where
  "kind_name health_run = ''health''"
| "kind_name other_run = ''other''"

text \<open>The newest first; runs of the same time stay in order, health runs before others.\<close>

definition probe_candidates :: "WorkflowRunSummary list \<Rightarrow> WorkflowRunSummary list
    \<Rightarrow> (WorkflowRunSummary \<times> run_kind) list" where
  "probe_candidates healthRuns otherRuns =
     sort_key (\<lambda>c. - int (wr_createdAt (fst c)))
       (map (\<lambda>r. (r, health_run)) healthRuns @ map (\<lambda>r. (r, other_run)) otherRuns)"

definition run_success :: "WorkflowRunSummary \<Rightarrow> bool" where
  "run_success r = (wr_status r = Some ''completed'' \<and> wr_conclusion r = Some ''success'')"

definition run_in_progress :: "WorkflowRunSummary \<Rightarrow> bool" where
  "run_in_progress r = (wr_status r = Some ''in_progress'' \<or> wr_status r = Some ''queued'')"

definition probe_of_run :: "nat \<Rightarrow> nat \<Rightarrow> WorkflowRunSummary \<times> run_kind \<Rightarrow> TierBProbeResult" where
  "probe_of_run nowMs maxAge c =
     (let latest = fst c;
          ageMs = nowMs - wr_createdAt latest;
          success = run_success latest; inProgress = run_in_progress latest;
          fresh = (ageMs \<le> maxAge);
          cold = estimateColdStartMs latest nowMs;
          runnerOnline = (success \<and> fresh) \<or> (inProgress \<and> fresh);
          deg0 = \<not> runnerOnline;
          deg1 = (if TIER_B_COLD_START_DEGRADED_MS < cold then True else deg0);
          deg2 = (if \<not> fresh \<and> success then True else deg1)
      in \<lparr>tier_b_runner_online = runnerOnline, godot_cache_warm = None, coldStartMs = int cold,
          degraded = deg2, probe_source = github_api,
          probe_detail = join '' ''
            [''latest_run='' @ show_nat (wr_id latest), ''status='' @ or_default (wr_status latest) ''?'',
             ''conclusion='' @ or_default (wr_conclusion latest) ''null'', ''age_ms='' @ show_nat ageMs,
             ''kind='' @ kind_name (snd c), ''cold_start_ms='' @ show_nat cold],
          checkedAt = nowMs, lastHealthRunId = Some (wr_id latest),
          lastHealthRunConclusion = wr_conclusion latest, lastHealthRunAgeMs = Some ageMs,
          actionsApiOk = Some True\<rparr>)"

definition evaluateTierBFromWorkflowRuns :: "nat \<Rightarrow> bool \<Rightarrow> WorkflowRunSummary list \<Rightarrow> WorkflowRunSummary list option
    \<Rightarrow> nat option \<Rightarrow> TierBProbeResult" where
  "evaluateTierBFromWorkflowRuns nowMs apiOk healthRuns otherRuns maxAgeMs =
     (if \<not> apiOk
      then \<lparr>tier_b_runner_online = False, godot_cache_warm = None,
            coldStartMs = int TIER_B_COLD_START_DEGRADED_MS, degraded = True, probe_source = github_api,
            probe_detail = ''GitHub Actions API unreachable or unauthenticated'', checkedAt = nowMs,
            lastHealthRunId = None, lastHealthRunConclusion = None, lastHealthRunAgeMs = None,
            actionsApiOk = Some False\<rparr>
      else case probe_candidates healthRuns (or_default otherRuns []) of
        [] \<Rightarrow>
          \<lparr>tier_b_runner_online = True, godot_cache_warm = None, coldStartMs = 90000, degraded = True,
           probe_source = github_api,
           probe_detail = ''Actions API OK but no godot_health / worker runs found yet - Tier B unproven'',
           checkedAt = nowMs, lastHealthRunId = None, lastHealthRunConclusion = None,
           lastHealthRunAgeMs = None, actionsApiOk = Some True\<rparr>
      | c # _ \<Rightarrow> probe_of_run nowMs (or_default maxAgeMs TIER_B_HEALTH_RUN_MAX_AGE_MS) c)"

definition js_round :: "rat \<Rightarrow> int" where
  "js_round x = \<lfloor>x + 1 / 2\<rfloor>"

definition show_int :: "int \<Rightarrow> string" where
  "show_int i = (if i < 0 then ''-'' @ show_nat (nat (- i)) else show_nat (nat i))"

definition bool_text :: "bool \<Rightarrow> string" where
  "bool_text b = (if b then ''true'' else ''false'')"

text \<open>
  An ingested report. The cache flag is \<open>None\<close> when the report leaves it out or says null, which the
  source treats alike.
\<close>

definition evaluateTierBFromWorkflowIngest :: "bool option \<Rightarrow> bool option \<Rightarrow> rat option \<Rightarrow> rat option
    \<Rightarrow> string option \<Rightarrow> nat \<Rightarrow> TierBProbeResult" where
  "evaluateTierBFromWorkflowIngest runnerOnlineOpt cache coldOpt wallMs detailOpt nowMs =
     (let cold = (case coldOpt of Some c \<Rightarrow> c | None \<Rightarrow> (case wallMs of Some v \<Rightarrow> v | None \<Rightarrow> 30000));
          runnerOnline = (runnerOnlineOpt \<noteq> Some False);
          deg = (\<not> runnerOnline \<or> of_nat TIER_B_COLD_START_DEGRADED_MS < cold)
      in \<lparr>tier_b_runner_online = runnerOnline, godot_cache_warm = cache, coldStartMs = js_round cold,
          degraded = deg, probe_source = workflow_ingest,
          probe_detail = (case detailOpt of Some d \<Rightarrow> d | None \<Rightarrow>
            ''workflow_ingest runner_online='' @ bool_text runnerOnline @ '' godot_cache_warm='' @
            (case cache of None \<Rightarrow> ''null'' | Some b \<Rightarrow> bool_text b) @ '' cold_ms='' @ show_int (js_round cold)),
          checkedAt = nowMs, lastHealthRunId = None, lastHealthRunConclusion = None,
          lastHealthRunAgeMs = None, actionsApiOk = Some True\<rparr>)"

definition mockTierBProbeHealthy :: "nat \<Rightarrow> TierBProbeResult" where
  "mockTierBProbeHealthy nowMs =
     \<lparr>tier_b_runner_online = True, godot_cache_warm = None, coldStartMs = 8000, degraded = False,
      probe_source = mock_source,
      probe_detail = ''GITHUB_MOCK: synthetic healthy Tier B (ubuntu-latest assumed online)'',
      checkedAt = nowMs, lastHealthRunId = None, lastHealthRunConclusion = None,
      lastHealthRunAgeMs = None, actionsApiOk = Some True\<rparr>"

fun source_name :: "TierBProbeSource \<Rightarrow> string" where
  "source_name github_api = ''github_api''"
| "source_name workflow_ingest = ''workflow_ingest''"
| "source_name mock_source = ''mock''"

definition json_opt :: "('a \<Rightarrow> json) \<Rightarrow> 'a option \<Rightarrow> json" where
  "json_opt f v = (case v of None \<Rightarrow> JNull | Some a \<Rightarrow> f a)"

definition tierProbeMetadata :: "TierBProbeResult \<Rightarrow> metadata" where
  "tierProbeMetadata r =
     [(''tier_b_runner_online'', JBool (tier_b_runner_online r)),
      (''godot_cache_warm'', json_opt JBool (godot_cache_warm r)),
      (''probe_source'', JStr (source_name (probe_source r))),
      (''probe_detail'', JStr (probe_detail r)),
      (''probe_checked_at'', JStr (toISOString (checkedAt r))),
      (''last_health_run_id'', json_opt (\<lambda>n. JNum (show_nat n)) (lastHealthRunId r)),
      (''last_health_run_conclusion'', json_opt JStr (lastHealthRunConclusion r)),
      (''last_health_run_age_ms'', json_opt (\<lambda>n. JNum (show_nat n)) (lastHealthRunAgeMs r)),
      (''actions_api_ok'', json_opt JBool (actionsApiOk r))]"

section \<open>GitHub\<close>

text \<open>
  What the Actions API answers: the client is the mock, or the credentials are missing, or a list of runs
  or an error for a workflow file.
\<close>

datatype github_client = MockClient | NoCredentials string | LiveClient

record github =
  gh_client :: github_client
  gh_owner :: string
  gh_repo :: string
  gh_workflowFile :: string
  gh_healthFile :: "string option"
  gh_runs :: "string \<Rightarrow> WorkflowRunSummary list option"

definition healthWorkflowFile :: "github \<Rightarrow> string" where
  "healthWorkflowFile g =
     (let f = js_trim (or_default (gh_healthFile g) []) in if f \<noteq> [] then f else ''godot_health.yml'')"

definition probeTierBAvailability :: "github \<Rightarrow> nat \<Rightarrow> TierBProbeResult outcome" where
  "probeTierBAvailability g nowMs =
     (case gh_client g of
        NoCredentials msg \<Rightarrow> Throw (JsError None None msg)
      | MockClient \<Rightarrow> Ret (mockTierBProbeHealthy nowMs)
      | LiveClient \<Rightarrow>
          if gh_owner g = [] \<or> gh_repo g = []
          then Ret (evaluateTierBFromWorkflowRuns nowMs False [] None None)
          else (case gh_runs g (healthWorkflowFile g) of
                  None \<Rightarrow> Ret (evaluateTierBFromWorkflowRuns nowMs False [] None None)
                | Some healthRuns \<Rightarrow>
                    Ret (evaluateTierBFromWorkflowRuns nowMs True healthRuns
                      (Some (or_default (gh_runs g (gh_workflowFile g)) [])) None)))"

text \<open>
  The run of a job: a stored id for the mock, otherwise a poll of the dispatched runs. The list holds
  the times at which polls begin with the runs each of them sees; the loop ends at the deadline.
\<close>

definition run_matches :: "string \<Rightarrow> WorkflowRunSummary \<Rightarrow> bool" where
  "run_matches jobId run =
     (let runName = or_default (wr_name run) []; displayTitle = or_default (wr_displayTitle run) [] in
      runName = ''PGOS job '' @ jobId \<or> str_includes runName jobId \<or> str_includes displayTitle jobId)"

fun poll_runs :: "nat \<Rightarrow> string \<Rightarrow> (nat \<times> WorkflowRunSummary list) list \<Rightarrow> nat option" where
  "poll_runs deadline jobId [] = None"
| "poll_runs deadline jobId ((t, runs) # rest) =
     (if deadline \<le> t then None
      else case find (run_matches jobId) runs of
        Some run \<Rightarrow> Some (wr_id run)
      | None \<Rightarrow> poll_runs deadline jobId rest)"

definition resolveRunId :: "github \<Rightarrow> string \<Rightarrow> nat \<Rightarrow> (nat \<times> WorkflowRunSummary list) list \<Rightarrow> world
    \<Rightarrow> nat option outcome" where
  "resolveRunId g jobId timeout polls w =
     (case gh_client g of
        NoCredentials msg \<Rightarrow> Throw (JsError None None msg)
      | MockClient \<Rightarrow> Ret (case get_job w jobId of None \<Rightarrow> None | Some j \<Rightarrow> j_githubRunId j)
      | LiveClient \<Rightarrow> Ret (poll_runs (now w + timeout) jobId polls))"

section \<open>Parity reports\<close>

record ParityReportInput =
  pi_tierAChecksum :: string
  pi_tierBChecksum :: string
  pi_skipped :: bool
  pi_reason :: "string option"

record ParityEvaluation =
  pe_passed :: bool
  pe_skipped :: bool
  pe_reason :: "string option"
  pe_emitE010 :: bool

definition REIMPORT_REASONS :: "string list" where
  "REIMPORT_REASONS = [''reimport_failed_a'', ''reimport_failed_b'', ''reimport_failed_both'']"

definition evaluateParityReport :: "ParityReportInput \<Rightarrow> ParityEvaluation" where
  "evaluateParityReport input =
     (let trimmed = js_trim (or_default (pi_reason input) []) in
      if pi_skipped input
      then \<lparr>pe_passed = False, pe_skipped = True,
            pe_reason = Some (if trimmed \<noteq> [] then trimmed else ''skipped''), pe_emitE010 = False\<rparr>
      else let explicit = (if trimmed \<noteq> [] then Some trimmed else None) in
        if explicit \<noteq> None \<and> trimmed \<in> set REIMPORT_REASONS
        then \<lparr>pe_passed = False, pe_skipped = False, pe_reason = explicit, pe_emitE010 = True\<rparr>
        else if explicit = Some ''tier_b_unavailable''
        then \<lparr>pe_passed = False, pe_skipped = False, pe_reason = explicit, pe_emitE010 = True\<rparr>
        else if pi_tierAChecksum input = ''missing-a'' \<or> pi_tierAChecksum input = [] \<or>
                pi_tierAChecksum input = ''unavailable''
        then \<lparr>pe_passed = False, pe_skipped = True,
              pe_reason = Some (or_default explicit ''tier_a_unavailable''), pe_emitE010 = False\<rparr>
        else if pi_tierAChecksum input = pi_tierBChecksum input
        then \<lparr>pe_passed = True, pe_skipped = False, pe_reason = None, pe_emitE010 = False\<rparr>
        else \<lparr>pe_passed = False, pe_skipped = False,
              pe_reason = Some (or_default explicit ''checksum_mismatch''), pe_emitE010 = True\<rparr>)"

section \<open>What the evaluations mean\<close>

lemma newest_candidate:
  assumes "probe_candidates hs os = c # cs"
  shows "c \<in> set (map (\<lambda>r. (r, health_run)) hs @ map (\<lambda>r. (r, other_run)) os) \<and>
    (\<forall>r \<in> set hs \<union> set os. wr_createdAt r \<le> wr_createdAt (fst c))"
proof -
  let ?key = "\<lambda>c. - int (wr_createdAt (fst c))"
  have sorted: "sorted (map ?key (c # cs))"
    using assms sorted_sort_key [of ?key] by (metis probe_candidates_def)
  have set: "set (c # cs) = set (map (\<lambda>r. (r, health_run)) hs @ map (\<lambda>r. (r, other_run)) os)"
    using assms by (metis probe_candidates_def set_sort)
  have le: "wr_createdAt (fst d) \<le> wr_createdAt (fst c)" if "d \<in> set (c # cs)" for d
  proof -
    have "?key c \<le> ?key d" using sorted that by auto
    then show ?thesis by simp
  qed
  have "wr_createdAt r \<le> wr_createdAt (fst c)" if "r \<in> set hs \<union> set os" for r
  proof -
    have "(r, health_run) \<in> set (c # cs) \<or> (r, other_run) \<in> set (c # cs)" unfolding set using that by auto
    then show ?thesis using le by fastforce
  qed
  moreover have "c \<in> set (c # cs)" by simp
  ultimately show ?thesis unfolding set by blast
qed

text \<open>
  Tier B is reported healthy exactly when the Actions API answers and the newest of all
  known runs is at most 90 minutes old, has succeeded or is under way, and started within two minutes;
  an older run is never consulted.
\<close>

theorem tier_b_healthy_iff:
  "\<not> degraded (evaluateTierBFromWorkflowRuns nowMs apiOk hs os None) \<longleftrightarrow>
     apiOk \<and> (\<exists>r k cs. probe_candidates hs (or_default os []) = (r, k) # cs \<and>
       (\<forall>r' \<in> set hs \<union> set (or_default os []). wr_createdAt r' \<le> wr_createdAt r) \<and>
       nowMs - wr_createdAt r \<le> TIER_B_HEALTH_RUN_MAX_AGE_MS \<and> (run_success r \<or> run_in_progress r) \<and>
       estimateColdStartMs r nowMs \<le> TIER_B_COLD_START_DEGRADED_MS)"
proof (cases "probe_candidates hs (or_default os [])")
  case Nil
  then show ?thesis by (simp add: evaluateTierBFromWorkflowRuns_def)
next
  case (Cons c cs)
  obtain r k where c: "c = (r, k)" by force
  have "\<forall>r' \<in> set hs \<union> set (or_default os []). wr_createdAt r' \<le> wr_createdAt r"
    using newest_candidate [OF Cons] by (simp add: c)
  then show ?thesis
    using Cons by (auto simp: evaluateTierBFromWorkflowRuns_def probe_of_run_def Let_def or_default_def c)
qed

definition run_example :: "nat \<Rightarrow> nat \<Rightarrow> string \<Rightarrow> WorkflowRunSummary" where
  "run_example i t c =
     \<lparr>wr_id = i, wr_status = Some ''completed'', wr_conclusion = Some c, wr_createdAt = t,
      wr_updatedAt = Some (t + 1000), wr_runStartedAt = Some (t + 100), wr_name = None, wr_displayTitle = None\<rparr>"

theorem tier_b_healthy_iff_witness:
  "degraded (evaluateTierBFromWorkflowRuns 5000000 True [run_example 1 100 ''success'', run_example 2 200 ''failure''] None None)
   \<and> \<not> degraded (evaluateTierBFromWorkflowRuns 5000000 True [run_example 2 50 ''failure''] (Some [run_example 1 100 ''success'']) None)"
proof
  let ?c = "probe_candidates [run_example 1 100 ''success'', run_example 2 200 ''failure''] []"
  have "?c = [(run_example 2 200 ''failure'', health_run), (run_example 1 100 ''success'', health_run)]" by code_simp
  moreover have "\<not> run_success (run_example 2 200 ''failure'')" "\<not> run_in_progress (run_example 2 200 ''failure'')"
    by code_simp+
  ultimately show "degraded (evaluateTierBFromWorkflowRuns 5000000 True
      [run_example 1 100 ''success'', run_example 2 200 ''failure''] None None)"
    using tier_b_healthy_iff [of 5000000 True "[run_example 1 100 ''success'', run_example 2 200 ''failure'']" None]
    by (simp add: or_default_def)
  show "\<not> degraded (evaluateTierBFromWorkflowRuns 5000000 True [run_example 2 50 ''failure'']
      (Some [run_example 1 100 ''success'']) None)" by code_simp
qed

text \<open>
  A parity report raises E010 exactly when it is not skipped and names a failed reimport
  or an unavailable tier B, or gives two different checksums with tier A's present; it passes exactly
  when none of that holds, nothing is skipped and the checksums agree.
\<close>

theorem parity_alarm_iff:
  defines "reason \<equiv> \<lambda>i. js_trim (or_default (pi_reason i) [])"
  defines "fatal \<equiv> \<lambda>i. reason i \<in> set REIMPORT_REASONS \<or> reason i = ''tier_b_unavailable''"
  defines "absent \<equiv> \<lambda>i. pi_tierAChecksum i \<in> {''missing-a'', [], ''unavailable''}"
  shows "(pe_emitE010 (evaluateParityReport i) \<longleftrightarrow>
       \<not> pi_skipped i \<and> (fatal i \<or> \<not> absent i \<and> pi_tierAChecksum i \<noteq> pi_tierBChecksum i)) \<and>
     (pe_passed (evaluateParityReport i) \<longleftrightarrow>
       \<not> pi_skipped i \<and> \<not> fatal i \<and> \<not> absent i \<and> pi_tierAChecksum i = pi_tierBChecksum i)"
  by (auto simp: evaluateParityReport_def reason_def fatal_def absent_def REIMPORT_REASONS_def Let_def)

end
