(* ===== verification/Dead_Letter.thy ===== *)
theory Dead_Letter
  imports Alerts Js_Number
begin

text \<open>
  \<open>services/dead-letter-service.ts\<close> and \<open>buildDeadLetterEnteredBody\<close> of \<open>services/alert-service.ts\<close>: the mail
  about a job that entered the dead-letter queue, and the hourly escalation after one and three days.
  Long dashes in texts are written as hyphens.
\<close>

definition LF :: string where
  "LF = [CHR 0x0A]"

fun tier_name :: "WorkerTier \<Rightarrow> string" where
  "tier_name TierA = ''A''"
| "tier_name TierB = ''B''"

definition project_line :: "Project \<Rightarrow> string" where
  "project_line p = ''Project: '' @ pr_name p @ (if pr_slug p \<noteq> [] then '' ('' @ pr_slug p @ '')'' else [])"

definition error_line :: "Job \<Rightarrow> string" where
  "error_line j =
     ''Error: '' @ or_default (map_option code_name (j_errorCode j)) ''E020'' @
     (if truthy (j_errorDetail j) then '' - '' @ the (j_errorDetail j) else [])"

definition buildDeadLetterEnteredBody :: "DeadLetterRow \<Rightarrow> Job \<Rightarrow> Project \<Rightarrow> string list \<Rightarrow> string" where
  "buildDeadLetterEnteredBody d j p contacts =
     join LF
       [''Job '' @ dl_jobId d @ '' entered the dead-letter queue (E020).'',
        project_line p,
        ''Status: '' @ status_name (j_status j),
        error_line j,
        ''DLQ reason: '' @ dl_reason d,
        ''Attempts: '' @ show_nat (dl_attempts d) @ ''/'' @ show_nat (j_maxAttempts j),
        ''Tier: '' @ or_default (map_option tier_name (j_tier j)) ''n/a'',
        ''Godot: '' @ j_godotVersion j,
        ''Entered at: '' @ toISOString (dl_createdAt d),
        ''admin_contacts: '' @ (if contacts \<noteq> [] then join '', '' contacts else ''(none - ADMIN_EMAIL fallback)''),
        [],
        ''Operator actions: inspect GET /api/v1/dead-letter, retry via POST /api/v1/dead-letter/:jobId/retry, or archive after remediation.'']"

text \<open>The joined rows of the queries: the dead letter, its job and the job's project.\<close>

definition dead_letter_join :: "world \<Rightarrow> DeadLetterRow \<Rightarrow> (DeadLetterRow \<times> Job \<times> Project) option" where
  "dead_letter_join w d =
     (case get_job w (dl_jobId d) of None \<Rightarrow> None
      | Some j \<Rightarrow> (case get_project w (j_projectId j) of None \<Rightarrow> None | Some p \<Rightarrow> Some (d, j, p)))"

record DeadLetterNotice =
  dn_notified :: bool
  dn_contacts :: "string list"
  dn_jobId :: string

definition processDeadLetterEvent :: "env \<Rightarrow> string \<Rightarrow> nat \<Rightarrow> world \<Rightarrow> DeadLetterNotice \<times> world" where
  "processDeadLetterEvent e jobId createdAt w =
     (case (case row_by dl_jobId jobId (dead_letters w) of None \<Rightarrow> None | Some d \<Rightarrow> dead_letter_join w d) of
        None \<Rightarrow>
          (\<lparr>dn_notified = True, dn_contacts = [], dn_jobId = jobId\<rparr>,
           sendAlert e
             \<lparr>ao_title = ''Dead-letter event (job row missing)'', ao_severity = high,
              ao_body = ''BullMQ dead-letter event for job '' @ jobId @ '' at '' @ toISOString createdAt
                @ '', but no dead_letter_jobs/project row was found.'',
              ao_code = Some ''E020'', ao_projectId = None, ao_jobId = Some jobId, ao_to = None,
              ao_notifyEmail = None\<rparr> w)
      | Some (d, j, p) \<Rightarrow>
          let contacts = normalizeEmailList (Some (pr_adminContacts p)) in
          (\<lparr>dn_notified = True, dn_contacts = contacts, dn_jobId = dl_jobId d\<rparr>,
           sendAlert e
             \<lparr>ao_title = ''Job moved to dead-letter queue'', ao_severity = high,
              ao_body = buildDeadLetterEnteredBody d j p contacts, ao_code = Some ''E020'',
              ao_projectId = Some (j_projectId j), ao_jobId = Some (dl_jobId d), ao_to = Some contacts,
              ao_notifyEmail = None\<rparr> w))"

definition HOUR :: nat where
  "HOUR = 3600000"

definition escalation_detail :: "DeadLetterRow \<Rightarrow> Job \<Rightarrow> Project \<Rightarrow> nat \<Rightarrow> string" where
  "escalation_detail d j p nowMs =
     join LF
       [''Job '' @ dl_jobId d @ '' remains in dead-letter queue.'',
        project_line p,
        ''Age: '' @ toFixed1 (nowMs - dl_createdAt d) HOUR @ ''h'',
        ''Reason: '' @ dl_reason d,
        error_line j,
        ''Attempts recorded: '' @ show_nat (dl_attempts d),
        ''Tier: '' @ or_default (map_option tier_name (j_tier j)) ''n/a'']"

definition set_dead_letter :: "string \<Rightarrow> (DeadLetterRow \<Rightarrow> DeadLetterRow) \<Rightarrow> world \<Rightarrow> world" where
  "set_dead_letter i f w = w\<lparr>dead_letters := set_row dl_jobId i f (dead_letters w)\<rparr>"

text \<open>The escalation that is due for a row: 72 hours, 24 hours, or none.\<close>

definition due_escalation :: "nat \<Rightarrow> DeadLetterRow \<Rightarrow> nat option" where
  "due_escalation nowMs d =
     (if dl_createdAt d + 72 * HOUR \<le> nowMs \<and> \<not> dl_escalated72 d then Some 72
      else if dl_createdAt d + 24 * HOUR \<le> nowMs \<and> \<not> dl_escalated24 d then Some 24
      else None)"

definition mark_escalated :: "nat \<Rightarrow> DeadLetterRow \<Rightarrow> DeadLetterRow" where
  "mark_escalated hours d = (if hours = 72 then d\<lparr>dl_escalated72 := True\<rparr> else d\<lparr>dl_escalated24 := True\<rparr>)"

fun escalate_rows :: "env \<Rightarrow> nat \<Rightarrow> (DeadLetterRow \<times> Job \<times> Project) list \<Rightarrow> world \<Rightarrow> nat list \<times> world" where
  "escalate_rows e nowMs [] w = ([], w)"
| "escalate_rows e nowMs ((d, j, p) # rows) w =
     (let contacts = normalizeEmailList (Some (pr_adminContacts p)) in
      case due_escalation nowMs d of
        None \<Rightarrow> escalate_rows e nowMs rows w
      | Some hours \<Rightarrow>
          let w1 = escalateDeadLetter e (dl_jobId d) hours contacts (Some (j_projectId j))
                     (Some (escalation_detail d j p nowMs)) w;
              w2 = set_dead_letter (dl_jobId d) (mark_escalated hours) w1;
              (sent, w3) = escalate_rows e nowMs rows w2
          in (hours # sent, w3))"

definition open_dead_letters :: "world \<Rightarrow> (DeadLetterRow \<times> Job \<times> Project) list" where
  "open_dead_letters w =
     List.map_filter (dead_letter_join w) (filter (\<lambda>d. dl_archivedAt d = None) (dead_letters w))"

definition escalateUnresolvedDeadLetters :: "env \<Rightarrow> world \<Rightarrow> (nat \<times> nat) \<times> world" where
  "escalateUnresolvedDeadLetters e w =
     (let (sent, w1) = escalate_rows e (now w) (open_dead_letters w) w
      in ((count_list sent 24, count_list sent 72), w1))"

end
