(* ===== verification/Health_Worker.thy ===== *)
theory Health_Worker
  imports Job_Service Dead_Letter Tier_Probe
begin

text \<open>
  \<open>workers/health-worker.ts\<close>: the scan for stale locks and silent jobs, the check for a Redis failover,
  the tier B probe, the resolution of dispatched runs, the dead-letter consumers and the parity watch.
  A worker function returns \<open>None\<close> when the bound on nested job calls is too small.
\<close>

record health_env =
  hx_env :: env
  hx_ext :: ext
  hx_github :: github
  hx_polls :: "(nat \<times> WorkflowRunSummary list) list"
  hx_dateText :: "nat \<Rightarrow> string"

record health_state =
  hs_world :: world
  hs_beats :: "(string \<times> nat) list"
  hs_parity :: "nat list"

type_synonym scan_result = "(unit outcome \<times> world) option"

definition alert :: "string \<Rightarrow> AlertSeverity \<Rightarrow> string \<Rightarrow> string \<Rightarrow> string option \<Rightarrow> SendAlertOpts" where
  "alert title sev body errcode jobId =
     \<lparr>ao_title = title, ao_severity = sev, ao_body = body, ao_code = Some errcode, ao_projectId = None,
      ao_jobId = jobId, ao_to = None, ao_notifyEmail = None\<rparr>"

section \<open>Stale locks\<close>

definition scan_requeue :: "string \<Rightarrow> world \<Rightarrow> world" where
  "scan_requeue jobId = set_job jobId (\<lambda>j. j\<lparr>j_status := QUEUED, j_attempt := j_attempt j + 1\<rparr>)"

definition LOCK_STALE_DETAIL :: string where
  "LOCK_STALE_DETAIL = ''Lock considered stale after missed heartbeats''"

text \<open>What happens to the job of a stale lock: requeued and dispatched while attempts are left.\<close>

definition recover_locked_job :: "env \<Rightarrow> ext \<Rightarrow> nat \<Rightarrow> string \<Rightarrow> world \<Rightarrow> result" where
  "recover_locked_job e x n jobId w =
     (let w1 = stale_row jobId LOCK_STALE_DETAIL w in
      case getById jobId w1 of
        None \<Rightarrow> Some (Ret None, w1)
      | Some job \<Rightarrow>
          if j_attempt job < j_maxAttempts job
          then run e x n (DispatchJob jobId None) (scan_requeue jobId w1)
          else run e x n (UpdateStatus jobId
                 (error_update DEAD_LETTER E020 ''Exhausted attempts after lock stale'') False) w1)"

fun scan_locks :: "env \<Rightarrow> ext \<Rightarrow> nat \<Rightarrow> pg_lock list \<Rightarrow> world \<Rightarrow> scan_result" where
  "scan_locks e x n [] w = Some (Ret (), w)"
| "scan_locks e x n (lock # locks) w =
     (case reclaim (x_uuid x (nonce w)) (pl_lockKey lock) STALE_RECOVERED None w of
        (Throw err, w1) \<Rightarrow> Some (Throw err, w1)
      | (Ret _, w1) \<Rightarrow>
          (case (if truthy (pl_jobId lock) then recover_locked_job e x n (the (pl_jobId lock)) w1
                 else Some (Ret None, w1)) of
             None \<Rightarrow> None
           | Some (Throw err, w2) \<Rightarrow> Some (Throw err, w2)
           | Some (Ret _, w2) \<Rightarrow>
               scan_locks e x n locks
                 (sendAlert e (alert ''Stale lock recovered'' low
                    (''Lock '' @ pl_lockKey lock @ '' reclaimed'') ''E005'' (pl_jobId lock)) w2)))"

definition SCANNED_STATUSES :: "JobStatus list" where
  "SCANNED_STATUSES = [STAGING, VALIDATING, COMMITTING, POST_COMMIT_VERIFY, DISPATCHING]"

definition silent_job :: "nat \<Rightarrow> Job \<Rightarrow> bool" where
  "silent_job staleBefore j =
     (j_status j \<in> set SCANNED_STATUSES \<and>
      (case j_lastHeartbeatAt j of None \<Rightarrow> False | Some t \<Rightarrow> t < staleBefore))"

text \<open>The second loop works on the rows as the query returned them.\<close>

fun scan_jobs :: "env \<Rightarrow> ext \<Rightarrow> nat \<Rightarrow> string list \<Rightarrow> Job list \<Rightarrow> world \<Rightarrow> scan_result" where
  "scan_jobs e x n handled [] w = Some (Ret (), w)"
| "scan_jobs e x n handled (j # js) w =
     (if j_id j \<in> set handled then scan_jobs e x n handled js w
      else case (if truthy (j_lockKey j)
                 then reclaim (x_uuid x (nonce w)) (the (j_lockKey j)) STALE_RECOVERED None w
                 else (Ret [], w)) of
        (Throw err, w1) \<Rightarrow> Some (Throw err, w1)
      | (Ret _, w1) \<Rightarrow>
          let w2 = stale_row (j_id j) ''Job heartbeat stale'' w1 in
          if j_attempt j < j_maxAttempts j
          then (case run e x n (DispatchJob (j_id j) None) (scan_requeue (j_id j) w2) of
                  None \<Rightarrow> None
                | Some (Throw err, w3) \<Rightarrow> Some (Throw err, w3)
                | Some (Ret _, w3) \<Rightarrow> scan_jobs e x n handled js w3)
          else scan_jobs e x n handled js w2)"

definition stale_locks :: "env \<Rightarrow> world \<Rightarrow> pg_lock list" where
  "stale_locks e w = filter (\<lambda>l. pl_lastHeartbeatAt l < now w - env_HEARTBEAT_STALE_AFTER_MS e) (pg_locks w)"

definition handled_jobs :: "pg_lock list \<Rightarrow> string list" where
  "handled_jobs locks = map (\<lambda>l. the (pl_jobId l)) (filter (\<lambda>l. truthy (pl_jobId l)) locks)"

definition scanStaleLocks :: "env \<Rightarrow> ext \<Rightarrow> nat \<Rightarrow> world \<Rightarrow> scan_result" where
  "scanStaleLocks e x n w =
     (let staleBefore = now w - env_HEARTBEAT_STALE_AFTER_MS e; locks = stale_locks e w in
      case scan_locks e x n locks w of
        None \<Rightarrow> None
      | Some (Throw err, w1) \<Rightarrow> Some (Throw err, w1)
      | Some (Ret _, w1) \<Rightarrow>
          scan_jobs e x n (handled_jobs locks) (filter (silent_job staleBefore) (jobs w1)) w1)"

section \<open>Redis failover\<close>

definition checkRedisFailover :: "ext \<Rightarrow> world \<Rightarrow> unit outcome \<times> world" where
  "checkRedisFailover x w =
     (let redisId = r_instance w; pgId = pg_instance w; fresh = x_uuid x (nonce w) in
      if \<not> truthy redisId \<and> truthy pgId then (Ret (), w\<lparr>r_instance := pgId\<rparr>)
      else if truthy redisId \<and> truthy pgId \<and> js_lower (the redisId) \<noteq> js_lower (the pgId)
      then (case rotateInstanceIdOnFailover fresh w of
              (Throw err, w1) \<Rightarrow> (Throw err, w1) | (Ret _, w1) \<Rightarrow> (Ret (), w1))
      else (Ret (), snd (ensureInstanceId fresh w)))"

section \<open>Probes and dispatched runs\<close>

definition probe_alert :: "TierBProbeResult \<Rightarrow> SendAlertOpts" where
  "probe_alert r =
     alert ''Tier B probe degraded'' high
       (join '' '' [''source='' @ source_name (probe_source r),
          ''runner_online='' @ bool_text (tier_b_runner_online r),
          ''godot_cache_warm='' @ (case godot_cache_warm r of None \<Rightarrow> ''null'' | Some b \<Rightarrow> bool_text b),
          ''cold_start_ms='' @ show_int (coldStartMs r), probe_detail r]) ''E001'' None"

definition beat :: "string \<Rightarrow> health_state \<Rightarrow> health_state" where
  "beat name s = s\<lparr>hs_beats := (name, now (hs_world s)) # filter (\<lambda>b. fst b \<noteq> name) (hs_beats s)\<rparr>"

definition probeTierB :: "health_env \<Rightarrow> health_state \<Rightarrow> unit outcome \<times> health_state" where
  "probeTierB h s =
     (let w = hs_world s in
      case probeTierBAvailability (hx_github h) (now w) of
        Throw err \<Rightarrow> (Throw err, s)
      | Ret r \<Rightarrow>
          let s1 = beat ''tier-b-probe''
                (s\<lparr>hs_world := recordProbe TierB (nat (coldStartMs r)) (degraded r) (Some (tierProbeMetadata r)) w\<rparr>)
          in (Ret (), if degraded r then s1\<lparr>hs_world := sendAlert (hx_env h) (probe_alert r) (hs_world s1)\<rparr> else s1))"

definition staging_update :: "nat \<Rightarrow> JobStatusUpdate" where
  "staging_update runId = (empty_update STAGING)
     \<lparr>u_githubRunId := Some runId, u_metadata := Some [(''dispatchResolved'', JBool True)]\<rparr>"

definition timeout_update :: "env \<Rightarrow> WorkerTier \<Rightarrow> JobStatusUpdate" where
  "timeout_update e tier = error_update DISPATCH_TIMEOUT E001
     (''No runner picked up dispatch within '' @ show_nat (env_DISPATCH_TIMEOUT_MS e) @ ''ms on tier '' @ tier_name tier)"

definition resolveDispatch :: "health_env \<Rightarrow> nat \<Rightarrow> string \<Rightarrow> WorkerTier \<Rightarrow> world \<Rightarrow> scan_result" where
  "resolveDispatch h n jobId tier w =
     (let e = hx_env h; x = hx_ext h in
      case getById jobId w of
        None \<Rightarrow> Some (Ret (), w)
      | Some job \<Rightarrow>
          if j_status job \<noteq> DISPATCHING then Some (Ret (), w)
          else case resolveRunId (hx_github h) jobId (env_DISPATCH_TIMEOUT_MS e) (hx_polls h) w of
            Throw err \<Rightarrow> Some (Throw err, w)
          | Ret (Some runId) \<Rightarrow>
              (case run e x n (UpdateStatus jobId (staging_update runId) False) w of
                 None \<Rightarrow> None
               | Some (Throw err, w1) \<Rightarrow> Some (Throw err, w1)
               | Some (Ret _, w1) \<Rightarrow> Some (Ret (), w1))
          | Ret None \<Rightarrow>
              (case run e x n (UpdateStatus jobId (timeout_update e tier) False) w of
                 None \<Rightarrow> None
               | Some (Throw err, w1) \<Rightarrow> Some (Throw err, w1)
               | Some (Ret _, w1) \<Rightarrow>
                   Some (Ret (),
                     (case getById jobId w1 of
                        None \<Rightarrow> w1
                      | Some after \<Rightarrow>
                          if env_DISPATCH_MAX_CONSECUTIVE_FAILURES e \<le> j_attempt after \<and> j_status after = DEAD_LETTER
                          then sendAlert e (alert ''Dispatch failed max consecutive times'' high
                                 (''Job '' @ jobId @ '' - check runner availability'') ''E001'' (Some jobId)) w1
                          else w1))))"

section \<open>Parity watch\<close>

definition scanParityStale :: "health_env \<Rightarrow> health_state \<Rightarrow> health_state" where
  "scanParityStale h s =
     (let w = hs_world s; newest = (if hs_parity s = [] then None else Some (Max (set (hs_parity s))));
          lastAt = or_default newest 0
      in beat ''parity-stale-scan''
           (if 48 * 60 * 60 * 1000 < now w - lastAt
            then s\<lparr>hs_world := sendAlert (hx_env h) (alert ''Tier parity checks stale'' medium
                   (case newest of None \<Rightarrow> ''No parity checks recorded yet''
                    | Some t \<Rightarrow> ''Last parity check '' @ hx_dateText h t @ '' (>48h ago)'') ''E010'' None) w\<rparr>
            else s))"

section \<open>The workers\<close>

text \<open>The repeatable jobs of the queues, with what the workers run for them.\<close>

datatype health_job =
    StaleLockScan | DeadLetterEscalate | RedisFailoverCheck | TierBProbeJob | ResolveRunJob string WorkerTier
  | DeadLetterJob string nat | ParityStaleScan

definition lift_scan :: "string option \<Rightarrow> health_state \<Rightarrow> scan_result \<Rightarrow> (unit outcome \<times> health_state) option" where
  "lift_scan name s r =
     (case r of None \<Rightarrow> None
      | Some (Throw err, w) \<Rightarrow> Some (Throw err, s\<lparr>hs_world := w\<rparr>)
      | Some (Ret _, w) \<Rightarrow> Some (Ret (), (case name of None \<Rightarrow> s\<lparr>hs_world := w\<rparr> | Some b \<Rightarrow> beat b (s\<lparr>hs_world := w\<rparr>))))"

fun process_job :: "health_env \<Rightarrow> nat \<Rightarrow> health_job \<Rightarrow> health_state \<Rightarrow> (unit outcome \<times> health_state) option" where
  "process_job h n StaleLockScan s =
     lift_scan (Some ''railway-stale-lock-scan'') s (scanStaleLocks (hx_env h) (hx_ext h) n (hs_world s))"
| "process_job h n DeadLetterEscalate s =
     lift_scan (Some ''dead-letter-escalate'') s
       (Some (Ret (), snd (escalateUnresolvedDeadLetters (hx_env h) (hs_world s))))"
| "process_job h n RedisFailoverCheck s = lift_scan None s (Some (checkRedisFailover (hx_ext h) (hs_world s)))"
| "process_job h n TierBProbeJob s = Some (probeTierB h s)"
| "process_job h n (ResolveRunJob jobId tier) s = lift_scan None s (resolveDispatch h n jobId tier (hs_world s))"
| "process_job h n (DeadLetterJob jobId createdAt) s =
     lift_scan (Some ''dead-letter-consumer'') s
       (Some (Ret (), snd (processDeadLetterEvent (hx_env h) jobId createdAt (hs_world s))))"
| "process_job h n ParityStaleScan s = Some (Ret (), scanParityStale h s)"

end
