(* ===== verification/Health_Claims.thy ===== *)
theory Health_Claims
  imports Health_Worker Job_Slots
begin

text \<open>
  The scan for stale locks ends with a bound that the jobs' attempts give, and loses no job; the hourly
  escalation sends each notice of a dead letter once.
\<close>

section \<open>The scan ends\<close>

text \<open>
  The scan overwrites the status of a job whatever it is, so its bound counts the attempts of every job,
  final ones included.
\<close>

definition ceiling_of :: "world \<Rightarrow> nat" where
  "ceiling_of w = sum_list (map (\<lambda>j. Suc (j_maxAttempts j - j_attempt j)) (jobs w))"

definition scan_bound :: "world \<Rightarrow> nat" where
  "scan_bound w = depth (ceiling_of w) (length (jobs w)) + length (jobs w) + 2"

text \<open>What the scan does to the job table: the rows stay, and no attempt is given back.\<close>

definition later_row :: "Job \<Rightarrow> Job \<Rightarrow> bool" where
  "later_row j j' = (j_id j' = j_id j \<and> j_projectId j' = j_projectId j \<and> j_maxAttempts j' = j_maxAttempts j \<and>
     j_attempt j \<le> j_attempt j')"

definition later_jobs :: "world \<Rightarrow> world \<Rightarrow> bool" where
  "later_jobs w w' = list_all2 later_row (jobs w) (jobs w')"

lemma later_refl: "jobs w' = jobs w \<Longrightarrow> later_jobs w w'"
  by (simp add: later_jobs_def later_row_def list_all2_refl)

lemma later_trans: "later_jobs u v \<Longrightarrow> later_jobs v w \<Longrightarrow> later_jobs u w"
  unfolding later_jobs_def
  by (rule list_all2_trans [of later_row later_row later_row]) (auto simp: later_row_def)

lemma later_ids: "later_jobs w w' \<Longrightarrow> map j_id (jobs w') = map j_id (jobs w)"
  unfolding later_jobs_def by (induction rule: list_all2_induct) (simp_all add: later_row_def)

lemma later_bound: "later_jobs w w' \<Longrightarrow> scan_bound w' \<le> scan_bound w \<and> (ids_distinct w \<longrightarrow> ids_distinct w')"
proof -
  assume l: "later_jobs w w'"
  have "ceiling_of w' \<le> ceiling_of w"
    using l unfolding later_jobs_def ceiling_of_def
    by (induction rule: list_all2_induct) (auto simp: later_row_def)
  moreover have "length (jobs w') = length (jobs w)"
    using l by (simp add: later_jobs_def list_all2_lengthD)
  ultimately show ?thesis
    using later_ids [OF l] depth_mono by (simp add: scan_bound_def ids_distinct_def)
qed

lemma later_set:
  "jobs w' = set_row j_id i f (jobs w) \<Longrightarrow> (\<And>j. later_row j (f j)) \<Longrightarrow> later_jobs w w'"
proof -
  assume a: "jobs w' = set_row j_id i f (jobs w)" "\<And>j. later_row j (f j)"
  have "list_all2 later_row js (set_row j_id i f js)" for js
    using a(2) by (induction js) (simp_all add: later_row_def list_all2_refl)
  then show ?thesis by (simp add: later_jobs_def a(1))
qed

lemma later_kept:
  assumes kept: "kept_jobs w w'" and ids: "ids_distinct w" shows "later_jobs w w'"
  unfolding later_jobs_def
proof (rule list_all2_all_nthI)
  have same: "map j_id (jobs w') = map j_id (jobs w)" using kept by (simp add: kept_jobs_def)
  then show len: "length (jobs w) = length (jobs w')" using map_eq_imp_length_eq by metis
  fix k assume k: "k < length (jobs w)"
  have ids': "ids_distinct w'" using same ids by (simp add: ids_distinct_def)
  have id: "j_id (jobs w' ! k) = j_id (jobs w ! k)" using same k len by (metis nth_map)
  have "getById (j_id (jobs w ! k)) w = Some (jobs w ! k)" using getById_distinct [OF ids] k by simp
  moreover have "getById (j_id (jobs w ! k)) w' = Some (jobs w' ! k)"
    using getById_distinct [OF ids', of "jobs w' ! k"] k len id by simp
  ultimately have "job_kept (jobs w ! k) (jobs w' ! k)" using keptD [OF kept] by fastforce
  with id show "later_row (jobs w ! k) (jobs w' ! k)" by (simp add: later_row_def job_kept_def)
qed

lemma potential_ceiling: "potential w \<le> ceiling_of w"
  unfolding potential_def ceiling_of_def by (rule sum_list_mono) (simp add: attempts_left_def)

lemma run_later:
  assumes ids: "ids_distinct w" and n: "scan_bound w \<le> n"
    and c: "(\<exists>i pref. c = DispatchJob i pref) \<or> (\<exists>i u. c = UpdateStatus i u False)"
  obtains r w' where "run e x n c w = Some (r, w')" "later_jobs w w'"
proof -
  have ok: "call_ok c w" "permitted (\<lambda>u. True) c" using c by auto
  have d: "depth (potential w) (length (jobs w)) \<le> depth (ceiling_of w) (length (jobs w))"
    by (rule depth_mono [OF potential_ceiling])
  have "need x c w \<le> n"
    using c n d by (auto simp: scan_bound_def update_bound_def)
  then obtain r w' where r: "run e x n c w = Some (r, w')" using enoughD [OF enough_all _ ids ok(1)] by blast
  with later_kept [OF kept.run_respects [OF r ids ok] ids] that show ?thesis by blast
qed

lemma stale_row_jobs:
  "jobs (stale_row i d w) = set_row j_id i (\<lambda>j. j\<lparr>j_status := LOCK_STALE, j_lockKey := None, j_fencingToken := None,
     j_errorCode := Some E005, j_errorDetail := Some d, j_updatedAt := now w\<rparr>) (jobs w)"
  by (simp add: stale_row_def frames set_job_def)

lemma later_stale: "later_jobs w (stale_row i d w)"
  by (rule later_set [OF stale_row_jobs]) (simp add: later_row_def)

lemma later_requeue: "later_jobs w (scan_requeue i w)"
  by (rule later_set [where f = "\<lambda>j. j\<lparr>j_status := QUEUED, j_attempt := j_attempt j + 1\<rparr>"])
    (simp_all add: scan_requeue_def set_job_def later_row_def)

lemma reclaim_jobs: "reclaim f k rs adm w = (r, w1) \<Longrightarrow> later_jobs w w1"
  using reclaim_frame(2) [of f k rs adm w] by (intro later_refl) simp

lemma later_alert: "later_jobs w (sendAlert e a w)"
  by (rule later_refl) (simp add: frames)

lemma recover_returns:
  assumes ids: "ids_distinct w" and n: "scan_bound w \<le> n"
  obtains r w' where "recover_locked_job e x n i w = Some (r, w')" "later_jobs w w'"
proof -
  let ?w1 = "stale_row i LOCK_STALE_DETAIL w"
  note l1 = later_stale [of w i LOCK_STALE_DETAIL]
  have w1: "ids_distinct ?w1" "scan_bound ?w1 \<le> n" using later_bound [OF l1] ids n by auto
  have l2: "later_jobs w (scan_requeue i ?w1)" by (rule later_trans [OF l1 later_requeue])
  have w2: "ids_distinct (scan_requeue i ?w1)" "scan_bound (scan_requeue i ?w1) \<le> n"
    using later_bound [OF l2] ids n by auto
  obtain r w' where a: "run e x n (DispatchJob i None) (scan_requeue i ?w1) = Some (r, w')"
    "later_jobs (scan_requeue i ?w1) w'"
    by (rule run_later [OF w2, of "DispatchJob i None"]) auto
  obtain r' w'' where b: "run e x n (UpdateStatus i (error_update DEAD_LETTER E020
      ''Exhausted attempts after lock stale'') False) ?w1 = Some (r', w'')" "later_jobs ?w1 w''"
    by (rule run_later [OF w1, of "UpdateStatus i _ False"]) auto
  show ?thesis
  proof (cases "getById i ?w1")
    case None
    then show ?thesis using that l1 by (auto simp: recover_locked_job_def Let_def)
  next
    case (Some job)
    show ?thesis
    proof (cases "j_attempt job < j_maxAttempts job")
      case True
      with Some a that [of r w'] later_trans [OF l2 a(2)] show ?thesis by (simp add: recover_locked_job_def Let_def)
    next
      case False
      with Some b that [of r' w''] later_trans [OF l1 b(2)] show ?thesis by (simp add: recover_locked_job_def Let_def)
    qed
  qed
qed

lemma scan_locks_returns:
  "ids_distinct w \<Longrightarrow> scan_bound w \<le> n \<Longrightarrow> \<exists>r w'. scan_locks e x n locks w = Some (r, w') \<and> later_jobs w w'"
proof (induction locks arbitrary: w)
  case Nil
  then show ?case by (auto intro: later_refl)
next
  case (Cons lock locks)
  obtain r1 w1 where r1: "reclaim (x_uuid x (nonce w)) (pl_lockKey lock) STALE_RECOVERED None w = (r1, w1)" by force
  note l1 = reclaim_jobs [OF r1]
  have w1: "ids_distinct w1" "scan_bound w1 \<le> n" using later_bound [OF l1] Cons.prems by auto
  show ?case
  proof (cases r1)
    case (Throw err)
    with r1 l1 show ?thesis by auto
  next
    case (Ret tok)
    obtain r2 w2 where r2: "(if truthy (pl_jobId lock) then recover_locked_job e x n (the (pl_jobId lock)) w1
        else Some (Ret None, w1)) = Some (r2, w2)" and l2: "later_jobs w1 w2"
      using recover_returns [OF w1, of e x "the (pl_jobId lock)"] later_refl [of w1 w1] by (metis (full_types))
    note l3 = later_trans [OF l1 l2]
    show ?thesis
    proof (cases r2)
      case Throw
      with Ret r1 r2 l3 show ?thesis by auto
    next
      case (Ret _)
      let ?w3 = "sendAlert e (alert ''Stale lock recovered'' low
        (''Lock '' @ pl_lockKey lock @ '' reclaimed'') ''E005'' (pl_jobId lock)) w2"
      have l4: "later_jobs w ?w3" by (rule later_trans [OF l3 later_alert])
      have "ids_distinct ?w3" "scan_bound ?w3 \<le> n" using later_bound [OF l4] Cons.prems by auto
      from Cons.IH [OF this] obtain r w' where rw: "scan_locks e x n locks ?w3 = Some (r, w')" "later_jobs ?w3 w'"
        by blast
      with Ret \<open>r1 = outcome.Ret tok\<close> r1 r2 have "scan_locks e x n (lock # locks) w = Some (r, w')" by simp
      then show ?thesis using later_trans [OF l4 rw(2)] by blast
    qed
  qed
qed

lemma scan_jobs_returns:
  "ids_distinct w \<Longrightarrow> scan_bound w \<le> n \<Longrightarrow> \<exists>r w'. scan_jobs e x n handled js w = Some (r, w') \<and> later_jobs w w'"
proof (induction js arbitrary: w)
  case Nil
  then show ?case by (auto intro: later_refl)
next
  case (Cons j js)
  show ?case
  proof (cases "j_id j \<in> set handled")
    case True
    then show ?thesis using Cons by simp
  next
    case fresh: False
    obtain r1 w1 where r1: "(if truthy (j_lockKey j)
         then reclaim (x_uuid x (nonce w)) (the (j_lockKey j)) STALE_RECOVERED None w else (Ret [], w)) = (r1, w1)"
      by force
    have l1: "later_jobs w w1"
      using r1 reclaim_jobs by (metis (full_types) later_refl prod.inject)
    show ?thesis
    proof (cases r1)
      case (Throw err)
      with fresh r1 l1 show ?thesis by auto
    next
      case (Ret tok)
      let ?w2 = "stale_row (j_id j) ''Job heartbeat stale'' w1"
      have l2: "later_jobs w ?w2" by (rule later_trans [OF l1 later_stale])
      have w2: "ids_distinct ?w2" "scan_bound ?w2 \<le> n" using later_bound [OF l2] Cons.prems by auto
      show ?thesis
      proof (cases "j_attempt j < j_maxAttempts j")
        case False
        from Cons.IH [OF w2] obtain r w' where "scan_jobs e x n handled js ?w2 = Some (r, w')" "later_jobs ?w2 w'"
          by blast
        with fresh False Ret r1 later_trans [OF l2] show ?thesis by (auto simp: Let_def)
      next
        case True
        have l3: "later_jobs w (scan_requeue (j_id j) ?w2)" by (rule later_trans [OF l2 later_requeue])
        have w3: "ids_distinct (scan_requeue (j_id j) ?w2)" "scan_bound (scan_requeue (j_id j) ?w2) \<le> n"
          using later_bound [OF l3] Cons.prems by auto
        obtain r3 w4 where a: "run e x n (DispatchJob (j_id j) None) (scan_requeue (j_id j) ?w2) = Some (r3, w4)"
          "later_jobs (scan_requeue (j_id j) ?w2) w4"
          by (rule run_later [OF w3, of "DispatchJob (j_id j) None"]) auto
        note l4 = later_trans [OF l3 a(2)]
        have w4: "ids_distinct w4" "scan_bound w4 \<le> n" using later_bound [OF l4] Cons.prems by auto
        from Cons.IH [OF w4] obtain r w' where "scan_jobs e x n handled js w4 = Some (r, w')" "later_jobs w4 w'"
          by blast
        with fresh True Ret r1 a(1) l4 later_trans [OF l4] show ?thesis by (cases r3) (auto simp: Let_def)
      qed
    qed
  qed
qed

text \<open>
  The scan for stale locks and silent jobs ends, with a bound on nested job calls that
  the number of jobs and their attempts give, whatever locks and outside calls answer; it loses no job
  and gives back no attempt.
\<close>

theorem stale_scan_returns:
  assumes ids: "ids_distinct w" and n: "scan_bound w \<le> n"
  shows "\<exists>r w'. scanStaleLocks e x n w = Some (r, w') \<and> list_all2 later_row (jobs w) (jobs w')"
proof -
  obtain r w1 where s: "scan_locks e x n (stale_locks e w) w = Some (r, w1)" "later_jobs w w1"
    using scan_locks_returns [OF ids n] by blast
  have w1: "ids_distinct w1" "scan_bound w1 \<le> n" using later_bound [OF s(2)] ids n by auto
  obtain r' w' where "scan_jobs e x n (handled_jobs (stale_locks e w))
      (filter (silent_job (now w - env_HEARTBEAT_STALE_AFTER_MS e)) (jobs w1)) w1 = Some (r', w')" "later_jobs w1 w'"
    using scan_jobs_returns [OF w1] by blast
  with s later_trans [OF s(2)] show ?thesis
    by (cases r) (auto simp: scanStaleLocks_def Let_def simp flip: later_jobs_def)
qed

text \<open>
  A silent job without a stale lock row whose attempts are used up is left in \<open>LOCK_STALE\<close>: no dead
  letter is written and nothing else happens to it.
\<close>

theorem exhausted_silent_job_stays_stale:
  assumes "stale_locks e w = []" "filter (silent_job (now w - env_HEARTBEAT_STALE_AFTER_MS e)) (jobs w) = [j]"
    and "j_maxAttempts j \<le> j_attempt j" "\<not> truthy (j_lockKey j)"
  shows "scanStaleLocks e x n w = Some (Ret (), stale_row (j_id j) ''Job heartbeat stale'' w)"
  using assms by (simp add: scanStaleLocks_def handled_jobs_def Let_def)

definition stale_world :: world where
  "stale_world = empty_lock_fields\<lparr>now := 1000000, projects := [project_example ''p''],
     jobs := [(job_example ''a'' ''p'' STAGING)\<lparr>j_lockKey := Some ''k''\<rparr>, (job_example ''b'' ''p'' STAGING)
       \<lparr>j_attempt := 3, j_lastHeartbeatAt := Some 5\<rparr>],
     pg_locks := [\<lparr>pl_lockKey = ''k'', pl_ownerId = ''job:a'', pl_fencingToken = ''t'', pl_jobId = Some ''a'',
       pl_lastHeartbeatAt = 5, pl_acquiredAt = 5, pl_ttlSeconds = 120\<rparr>]\<rparr>"

theorem stale_scan_returns_witness:
  "length (stale_locks env_example stale_world) = 1 \<and>
   (\<exists>r w'. scanStaleLocks env_example ext_example (scan_bound stale_world) stale_world = Some (r, w') \<and>
      list_all2 later_row (jobs stale_world) (jobs w'))"
proof
  show "length (stale_locks env_example stale_world) = 1" by code_simp
  have "ids_distinct stale_world" by (simp add: ids_distinct_def stale_world_def job_example_def)
  then show "\<exists>r w'. scanStaleLocks env_example ext_example (scan_bound stale_world) stale_world = Some (r, w') \<and>
      list_all2 later_row (jobs stale_world) (jobs w')"
    by (rule stale_scan_returns) simp
qed

section \<open>Escalations\<close>

definition level :: "DeadLetterRow \<Rightarrow> nat" where
  "level d = (if dl_escalated24 d then 1 else 0) + (if dl_escalated72 d then 1 else 0)"

definition escalatable :: "world \<Rightarrow> DeadLetterRow \<Rightarrow> bool" where
  "escalatable w d = (dl_archivedAt d = None \<and> dead_letter_join w d \<noteq> None)"

definition escalate_one :: "nat \<Rightarrow> DeadLetterRow \<Rightarrow> DeadLetterRow" where
  "escalate_one t d = (case due_escalation t d of None \<Rightarrow> d | Some h \<Rightarrow> mark_escalated h d)"

lemma escalate_one_simps [simp]:
  "dl_jobId (mark_escalated h d) = dl_jobId d" "dl_jobId (escalate_one t d) = dl_jobId d"
  by (simp_all add: mark_escalated_def escalate_one_def split: option.splits)

lemma level_escalate_one: "level (escalate_one t d) = level d + (if due_escalation t d = None then 0 else 1)"
  by (simp add: level_def escalate_one_def due_escalation_def mark_escalated_def)

lemma alert_dead_letters: "dead_letters (sendAlert e a w) = dead_letters w"
  by (simp add: sendAlert_def audit_def Let_def split: option.splits)

lemma escalate_dead_letters [simp]: "dead_letters (escalateDeadLetter e i h c p b w) = dead_letters w"
  unfolding escalateDeadLetter_def Let_def by (rule alert_dead_letters)

lemma set_row_map:
  "distinct (map key rs) \<Longrightarrow> set_row key k f rs = map (\<lambda>r. if key r = k then f r else r) rs"
proof (induction rs)
  case (Cons r rs)
  show ?case
  proof (cases "key r = k")
    case True
    then have "map (\<lambda>r. if key r = k then f r else r) rs = rs"
      using Cons.prems by (intro map_idI) (auto simp: rev_image_eqI)
    with True show ?thesis by simp
  next
    case False
    with Cons show ?thesis by simp
  qed
qed simp

lemma escalate_rows_result:
  "distinct (map dl_jobId (dead_letters w)) \<Longrightarrow> distinct (map (dl_jobId \<circ> fst) rows) \<Longrightarrow>
   (\<And>r. r \<in> set rows \<Longrightarrow> fst r \<in> set (dead_letters w)) \<Longrightarrow>
   escalate_rows e t rows w = (sent, w') \<Longrightarrow>
     dead_letters w' = map (\<lambda>d. if dl_jobId d \<in> dl_jobId ` fst ` set rows then escalate_one t d else d) (dead_letters w) \<and>
     sent = List.map_filter (due_escalation t \<circ> fst) rows"
proof (induction rows arbitrary: w sent)
  case Nil
  then show ?case by (simp add: List.map_filter_simps)
next
  case (Cons r rows)
  obtain d j p where r: "r = (d, j, p)" by (cases r)
  have d: "d \<in> set (dead_letters w)" using Cons.prems(3) [of r] by (simp add: r)
  have same: "d' = d" if "d' \<in> set (dead_letters w)" "dl_jobId d' = dl_jobId d" for d'
    using Cons.prems(1) d that by (metis distinct_map inj_onD)
  have new: "dl_jobId d \<notin> dl_jobId ` fst ` set rows" using Cons.prems(2) by (force simp: r)
  show ?case
  proof (cases "due_escalation t d")
    case None
    then have rest: "escalate_rows e t rows w = (sent, w')" using Cons.prems(4) by (simp add: r Let_def)
    have "escalate_one t d = d" using None by (simp add: escalate_one_def)
    with Cons.IH [OF Cons.prems(1) _ _ rest] Cons.prems(2,3) None show ?thesis
      by (auto simp: r List.map_filter_simps dest!: same)
  next
    case (Some h)
    define w1 where "w1 = set_dead_letter (dl_jobId d) (mark_escalated h) (escalateDeadLetter e (dl_jobId d) h
      (normalizeEmailList (Some (pr_adminContacts p))) (Some (j_projectId j)) (Some (escalation_detail d j p t)) w)"
    obtain sent' where rest: "escalate_rows e t rows w1 = (sent', w')" and sent: "sent = h # sent'"
      using Cons.prems(4) Some by (auto simp: r w1_def Let_def split: prod.splits)
    have w1: "dead_letters w1 = map (\<lambda>d'. if dl_jobId d' = dl_jobId d then escalate_one t d' else d') (dead_letters w)"
    proof -
      have "dead_letters w1 = map (\<lambda>d'. if dl_jobId d' = dl_jobId d then mark_escalated h d' else d') (dead_letters w)"
        using Cons.prems(1) by (simp add: w1_def set_dead_letter_def set_row_map)
      also have "\<dots> = map (\<lambda>d'. if dl_jobId d' = dl_jobId d then escalate_one t d' else d') (dead_letters w)"
        using Some by (intro map_cong refl) (auto simp: escalate_one_def dest!: same)
      finally show ?thesis .
    qed
    have ids: "map dl_jobId (dead_letters w1) = map dl_jobId (dead_letters w)"
      by (simp add: w1 cong: if_cong)
    have members: "fst r' \<in> set (dead_letters w1)" if r': "r' \<in> set rows" for r'
    proof -
      have "fst r' \<in> set (dead_letters w)" using Cons.prems(3) [of r'] r' by simp
      moreover have "dl_jobId (fst r') \<noteq> dl_jobId d" using new r' by (metis imageI)
      ultimately show ?thesis unfolding w1 by force
    qed
    have IH: "dead_letters w' = map (\<lambda>d. if dl_jobId d \<in> dl_jobId ` fst ` set rows then escalate_one t d else d) (dead_letters w1)
        \<and> sent' = List.map_filter (due_escalation t \<circ> fst) rows"
      by (rule Cons.IH [OF _ _ members rest]) (use Cons.prems(1,2) ids in auto)
    then show ?thesis
      using new Some sent by (auto simp: w1 r List.map_filter_simps comp_def)
  qed
qed

lemma map_filter_join:
  "map fst (List.map_filter (dead_letter_join w) ds) = filter (\<lambda>d. dead_letter_join w d \<noteq> None) ds"
  by (induction ds) (auto simp: List.map_filter_simps dead_letter_join_def split: option.splits)

lemma open_rows: "map fst (open_dead_letters w) = filter (escalatable w) (dead_letters w)"
  unfolding open_dead_letters_def map_filter_join escalatable_def filter_filter by (rule arg_cong) (auto simp: conj_commute)

lemma level_sum:
  "sum_list (map level (map (\<lambda>d. if p d then escalate_one t d else d) ds)) =
     sum_list (map level ds) + length (List.map_filter (due_escalation t) (filter p ds))"
  by (induction ds) (auto simp: List.map_filter_simps level_escalate_one split: option.splits)

lemma due_values: "set (List.map_filter (due_escalation t) ds) \<subseteq> {24, 72}"
  by (induction ds) (auto simp: List.map_filter_simps due_escalation_def split: option.splits if_splits)

lemma count_due: "set ns \<subseteq> {24, 72 :: nat} \<Longrightarrow> count_list ns 24 + count_list ns 72 = length ns"
  by (induction ns) auto

text \<open>
  The hourly scan changes exactly the open dead letters that are due and sends one notice
  for each flag it sets, so no flag's notice is ever sent twice; after the scan every open letter of
  three days has its last escalation.
\<close>

theorem escalation_once:
  assumes ids: "distinct (map dl_jobId (dead_letters w))"
    and scan: "escalateUnresolvedDeadLetters e w = ((n24, n72), w')"
  shows "dead_letters w' = map (\<lambda>d. if escalatable w d then escalate_one (now w) d else d) (dead_letters w) \<and>
    sum_list (map level (dead_letters w')) = sum_list (map level (dead_letters w)) + n24 + n72 \<and>
    (\<forall>d \<in> set (dead_letters w). escalatable w d \<and> dl_createdAt d + 72 * HOUR \<le> now w \<longrightarrow>
           (\<exists>d' \<in> set (dead_letters w'). dl_jobId d' = dl_jobId d \<and> dl_escalated72 d'))"
proof (intro conjI)
  let ?rows = "open_dead_letters w"
  obtain sent where er: "escalate_rows e (now w) ?rows w = (sent, w')"
    and n: "n24 = count_list sent 24" "n72 = count_list sent 72"
    using scan by (auto simp: escalateUnresolvedDeadLetters_def split: prod.splits)
  have "distinct (map dl_jobId (map fst ?rows))" unfolding open_rows by (rule distinct_map_filter [OF ids])
  then have dist: "distinct (map (dl_jobId \<circ> fst) ?rows)" by simp
  have sub: "fst r \<in> set (dead_letters w)" if "r \<in> set ?rows" for r
  proof -
    from that have "fst r \<in> set (map fst ?rows)" by simp
    then show ?thesis unfolding open_rows by simp
  qed
  note res = escalate_rows_result [OF ids dist sub er]
  have "fst ` set ?rows = {d \<in> set (dead_letters w). escalatable w d}"
    using arg_cong [OF open_rows [of w], of set] by simp
  then have hit: "dl_jobId d \<in> dl_jobId ` fst ` set ?rows \<longleftrightarrow> escalatable w d" if "d \<in> set (dead_letters w)" for d
    using ids that by (auto simp: distinct_map inj_on_def)
  show rows: "dead_letters w' = map (\<lambda>d. if escalatable w d then escalate_one (now w) d else d) (dead_letters w)"
    using res hit by (auto intro: map_cong)
  have "List.map_filter (due_escalation (now w) \<circ> fst) ?rows = List.map_filter (due_escalation (now w)) (map fst ?rows)"
    by (simp add: List.map_filter_def filter_map comp_def)
  then have sent: "sent = List.map_filter (due_escalation (now w)) (filter (escalatable w) (dead_letters w))"
    using res by (simp add: open_rows)
  show "sum_list (map level (dead_letters w')) = sum_list (map level (dead_letters w)) + n24 + n72"
    using count_due [OF due_values, of "now w" "filter (escalatable w) (dead_letters w)"]
    by (simp add: rows level_sum sent n del: map_map)
  show "\<forall>d \<in> set (dead_letters w). escalatable w d \<and> dl_createdAt d + 72 * HOUR \<le> now w \<longrightarrow>
           (\<exists>d' \<in> set (dead_letters w'). dl_jobId d' = dl_jobId d \<and> dl_escalated72 d')"
  proof (intro ballI impI)
    fix d assume d: "d \<in> set (dead_letters w)" and due: "escalatable w d \<and> dl_createdAt d + 72 * HOUR \<le> now w"
    have "escalate_one (now w) d \<in> set (dead_letters w')" unfolding rows using d due by force
    moreover have "dl_escalated72 (escalate_one (now w) d)"
      using due by (simp add: escalate_one_def due_escalation_def mark_escalated_def)
    ultimately show "\<exists>d' \<in> set (dead_letters w'). dl_jobId d' = dl_jobId d \<and> dl_escalated72 d'"
      by (intro bexI [of _ "escalate_one (now w) d"]) simp_all
  qed
qed

definition letters_world :: world where
  "letters_world = empty_lock_fields\<lparr>now := 300000000, projects := [project_example ''p''],
     jobs := [job_example ''a'' ''p'' DEAD_LETTER, job_example ''b'' ''p'' DEAD_LETTER],
     dead_letters := map (\<lambda>(i, t). \<lparr>dl_jobId = i, dl_reason = ''r'', dl_attempts = 3, dl_escalated24 = False,
       dl_escalated72 = False, dl_archivedAt = None, dl_createdAt = t\<rparr>) [(''a'', 0), (''b'', 200000000)]\<rparr>"

theorem escalation_once_witness:
  "sum_list (map level (dead_letters (snd (escalateUnresolvedDeadLetters env_example letters_world)))) = 2"
proof -
  have ids: "distinct (map dl_jobId (dead_letters letters_world))" by code_simp
  have n: "fst (escalateUnresolvedDeadLetters env_example letters_world) = (1, 1)"
    and l: "sum_list (map level (dead_letters letters_world)) = 0"
    by code_simp+
  have "escalateUnresolvedDeadLetters env_example letters_world =
      ((1, 1), snd (escalateUnresolvedDeadLetters env_example letters_world))"
    using n by (simp add: prod_eq_iff)
  from escalation_once [OF ids this, THEN conjunct2, THEN conjunct1] show ?thesis unfolding l by simp
qed

end
