(* ===== verification/Rate_Limit.thy ===== *)
theory Rate_Limit
  imports Prelude "HOL-Library.Multiset"
begin

text \<open>
  The sliding-window rate limit: \<open>lua/rate_limit.lua\<close> on a Redis sorted set with an expiry, and the hooks
  of \<open>middleware/rate-limit.ts\<close> that run it for requests and logins. A sorted set is a list of members
  with their scores, each member once; a key whose expiry has passed is absent. The time that the hook
  passes and the clock of Redis are one clock.
\<close>

section \<open>The script\<close>

type_synonym zset = "(string \<times> nat) list"

type_synonym rate_keys = "string \<Rightarrow> (zset \<times> nat) option"

definition zset_at :: "nat \<Rightarrow> rate_keys \<Rightarrow> string \<Rightarrow> zset" where
  "zset_at t r k = (case r k of None \<Rightarrow> [] | Some (z, expires) \<Rightarrow> if expires \<le> t then [] else z)"

definition zremrangebyscore :: "nat \<Rightarrow> zset \<Rightarrow> zset" where
  "zremrangebyscore hi z = filter (\<lambda>e. hi < snd e) z"

definition zadd :: "string \<Rightarrow> nat \<Rightarrow> zset \<Rightarrow> zset" where
  "zadd m score z = (m, score) # filter (\<lambda>e. fst e \<noteq> m) z"

text \<open>
  \<open>ZREMRANGEBYSCORE key 0 (now - window)\<close> removes nothing while the clock is below the window. The
  expiry of an existing key is only set by an admission.
\<close>

definition rate_limit :: "string \<Rightarrow> nat \<Rightarrow> nat \<Rightarrow> nat \<Rightarrow> string \<Rightarrow> rate_keys \<Rightarrow> (bool \<times> nat) \<times> rate_keys" where
  "rate_limit key window lim t member r =
     (let z = zset_at t r key;
          kept = (if window \<le> t then zremrangebyscore (t - window) z else z);
          count = length kept;
          expires = (case r key of None \<Rightarrow> 0 | Some (_, ex) \<Rightarrow> ex)
      in if lim \<le> count
         then ((False, count), r(key := (if kept = [] then None else Some (kept, expires))))
         else ((True, count + 1), r(key := Some (zadd member t kept, t + window))))"

section \<open>The hooks\<close>

record rate_env =
  RATE_LIMIT_PER_MINUTE :: nat
  RATE_LIMIT_BURST :: nat
  rate_production :: bool

datatype rate_reply = Proceed | Reject nat string string

record rate_request =
  rq_url :: string
  rq_jti :: "string option"
  rq_ip :: "string option"

definition exempt :: "string \<Rightarrow> bool" where
  "exempt url = (starts_with url ''/health'' \<or> starts_with url ''/ready'' \<or> starts_with url ''/assets'')"

definition rate_key :: "rate_request \<Rightarrow> string" where
  "rate_key q = ''pgos:ratelimit:'' @
     (case rq_jti q of Some j \<Rightarrow> j | None \<Rightarrow> or_default (rq_ip q) ''anon'')"

text \<open>\<open>up\<close> tells whether Redis answers; the hook is not called for a reply that was sent.\<close>

definition rateLimitHook :: "rate_env \<Rightarrow> bool \<Rightarrow> rate_request \<Rightarrow> nat \<Rightarrow> string \<Rightarrow> rate_keys \<Rightarrow> rate_reply \<times> rate_keys" where
  "rateLimitHook e up q t member r =
     (if exempt (rq_url q) then (Proceed, r)
      else if \<not> up
      then (if rate_production e then Reject 503 ''E018'' ''Rate limiting unavailable - request rejected'' else Proceed, r)
      else
        let key = rate_key q;
            ((ok, _), r1) = rate_limit key 60000 (RATE_LIMIT_PER_MINUTE e) t member r;
            ((burst, _), r2) = rate_limit (key @ '':burst'') 10000 (RATE_LIMIT_BURST e) t member r1
        in (if \<not> ok \<or> \<not> burst then Reject 429 ''E018'' ''Rate limit exceeded'' else Proceed, r2))"

definition LOGIN_LIMIT :: nat where
  "LOGIN_LIMIT = 5"

definition LOGIN_WINDOW_MS :: nat where
  "LOGIN_WINDOW_MS = 60000"

definition loginRateLimitHook :: "rate_env \<Rightarrow> bool \<Rightarrow> rate_request \<Rightarrow> nat \<Rightarrow> string \<Rightarrow> rate_keys
    \<Rightarrow> rate_reply \<times> rate_keys" where
  "loginRateLimitHook e up q t member r =
     (if \<not> up
      then (if rate_production e then Reject 503 ''E018'' ''Login temporarily unavailable'' else Proceed, r)
      else
        let key = ''pgos:ratelimit:login:'' @ or_default (rq_ip q) ''anon'';
            ((ok, _), r1) = rate_limit key LOGIN_WINDOW_MS LOGIN_LIMIT t member r
        in (if \<not> ok then Reject 429 ''E018'' ''Too many login attempts - try again later'' else Proceed, r1))"

section \<open>The specification\<close>

text \<open>
  A window log: the times of all admissions so far. A request at \<open>t\<close> is admitted when fewer than \<open>lim\<close> of
  them lie in the last \<open>window\<close> milliseconds.
\<close>

definition recent :: "nat \<Rightarrow> nat \<Rightarrow> nat list \<Rightarrow> nat list" where
  "recent window t log = filter (\<lambda>a. t < a + window) log"

definition spec_admit :: "nat \<Rightarrow> nat \<Rightarrow> nat \<Rightarrow> nat list \<Rightarrow> bool \<times> nat list" where
  "spec_admit window lim t log =
     (if lim \<le> length (recent window t log) then (False, log) else (True, t # log))"

text \<open>
  The sorted set holds the recent part of the log: it may hold older entries that the next call removes,
  and it may be gone when its expiry has passed, which is when the newest entry leaves the window.
\<close>

definition rate_sim :: "nat \<Rightarrow> string \<Rightarrow> nat \<Rightarrow> rate_keys \<Rightarrow> nat list \<Rightarrow> bool" where
  "rate_sim window key t r log =
     ((\<forall>a \<in> set log. a \<le> t) \<and>
      (case r key of
         None \<Rightarrow> recent window t log = []
       | Some (z, expires) \<Rightarrow>
           mset (recent window t (map snd z)) = mset (recent window t log) \<and>
           (\<forall>e \<in> set z. snd e \<le> t \<and> snd e + window \<le> expires)))"

lemma recent_recent: "t \<le> t' \<Longrightarrow> recent window t' (recent window t log) = recent window t' log"
  by (auto simp: recent_def intro!: filter_cong)

lemma recent_mset: "mset (recent w t xs) = mset (recent w t ys) \<Longrightarrow> t \<le> t' \<Longrightarrow> mset (recent w t' xs) = mset (recent w t' ys)"
  using recent_recent [of t t' w xs] recent_recent [of t t' w ys] by (metis mset_filter recent_def)

lemma rate_sim_later:
  assumes sim: "rate_sim window key t r log" and t: "t \<le> t'" shows "rate_sim window key t' r log"
proof -
  have log: "\<forall>a \<in> set log. a \<le> t'" using sim t by (auto simp: rate_sim_def)
  show ?thesis
  proof (cases "r key")
    case None
    then have "recent window t log = []" using sim by (simp add: rate_sim_def)
    then have "recent window t' log = []" using recent_recent [OF t, of window log] by (simp add: recent_def)
    with None log show ?thesis by (simp add: rate_sim_def)
  next
    case (Some p)
    obtain z ex where p: "p = (z, ex)" by force
    have "mset (recent window t' (map snd z)) = mset (recent window t' log)"
      by (rule recent_mset [OF _ t]) (use sim Some p in \<open>simp add: rate_sim_def\<close>)
    moreover have "\<forall>e \<in> set z. snd e \<le> t' \<and> snd e + window \<le> ex"
      using sim Some p t by (auto simp: rate_sim_def)
    ultimately show ?thesis using Some p log by (simp add: rate_sim_def)
  qed
qed

lemma kept_recent:
  "(if window \<le> t then zremrangebyscore (t - window) z else z) = filter (\<lambda>e. t < snd e + window) z"
proof (cases "window \<le> t")
  case True
  then have "(t - window < snd e) = (t < snd e + window)" for e :: "string \<times> nat" by auto
  with True show ?thesis by (simp add: zremrangebyscore_def)
next
  case False
  then show ?thesis by (simp add: filter_id_conv [THEN iffD2])
qed

lemma zset_recent:
  assumes "rate_sim window key t r log"
  shows "mset (map snd (filter (\<lambda>e. t < snd e + window) (zset_at t r key))) = mset (recent window t log)"
proof (cases "r key")
  case None
  then show ?thesis using assms by (simp add: rate_sim_def zset_at_def)
next
  case (Some p)
  obtain z ex where p: "p = (z, ex)" by force
  have eq: "map snd (filter (\<lambda>e. t < snd e + window) z) = recent window t (map snd z)"
    by (simp add: recent_def filter_map comp_def)
  show ?thesis
  proof (cases "ex \<le> t")
    case True
    then have "recent window t (map snd z) = []"
      using assms Some p by (force simp: rate_sim_def recent_def filter_empty_conv)
    with True assms Some p show ?thesis by (simp add: rate_sim_def zset_at_def)
  next
    case False
    with assms Some p eq show ?thesis by (simp add: rate_sim_def zset_at_def)
  qed
qed

lemma zset_bounds:
  "rate_sim window key t r log \<Longrightarrow> e \<in> set (zset_at t r key) \<Longrightarrow> snd e \<le> t \<and> (\<exists>z ex. r key = Some (z, ex) \<and> snd e + window \<le> ex)"
  by (auto simp: rate_sim_def zset_at_def split: option.splits if_splits)

lemma rate_limit_step:
  assumes sim: "rate_sim window key t0 r log" and t: "t0 \<le> t" and w: "0 < window"
    and fresh: "member \<notin> fst ` set (zset_at t r key)"
    and call: "rate_limit key window lim t member r = ((ok, n), r')"
  shows "spec_admit window lim t log = (ok, if ok then t # log else log) \<and>
    rate_sim window key t r' (if ok then t # log else log) \<and> (\<forall>k. k \<noteq> key \<longrightarrow> r' k = r k)"
proof -
  have now: "rate_sim window key t r log" by (rule rate_sim_later [OF sim t])
  define kept where "kept = filter (\<lambda>e. t < snd e + window) (zset_at t r key)"
  have ms: "mset (map snd kept) = mset (recent window t log)"
    unfolding kept_def by (rule zset_recent [OF now])
  then have len: "length kept = length (recent window t log)" by (metis length_map size_mset)
  have mem: "member \<notin> fst ` set kept" using fresh by (auto simp: kept_def)
  then have filt: "filter (\<lambda>e. fst e \<noteq> member) kept = kept" by (auto simp: filter_id_conv)
  have rk: "recent window t (map snd kept) = map snd kept" by (auto simp: recent_def kept_def filter_id_conv)
  have log: "\<forall>a \<in> set log. a \<le> t" using now by (simp add: rate_sim_def)
  have old: "recent window t (recent window t log) = recent window t log" by (simp add: recent_def)
  show ?thesis
  proof (cases "lim \<le> length kept")
    case True
    then have ok: "\<not> ok" and r': "r' = r(key := (if kept = [] then None
        else Some (kept, case r key of None \<Rightarrow> 0 | Some (_, ex) \<Rightarrow> ex)))"
      using call unfolding rate_limit_def Let_def kept_recent kept_def [symmetric] by auto
    have "rate_sim window key t r' log"
    proof (cases "kept = []")
      case True
      then have "recent window t log = []" using len by simp
      with True log show ?thesis by (simp add: rate_sim_def r')
    next
      case False
      have "snd e \<le> t \<and> snd e + window \<le> (case r key of None \<Rightarrow> 0 | Some (_, ex) \<Rightarrow> ex)" if "e \<in> set kept" for e
        using zset_bounds [OF now, of e] that by (auto simp: kept_def)
      with False log ms show ?thesis by (simp add: rate_sim_def r' rk)
    qed
    with ok True len show ?thesis by (simp add: spec_admit_def r')
  next
    case False
    then have ok: "ok" and r': "r' = r(key := Some (zadd member t kept, t + window))"
      using call unfolding rate_limit_def Let_def kept_recent kept_def [symmetric] by auto
    have "recent window t (map snd (zadd member t kept)) = t # map snd kept"
      using w by (simp add: zadd_def filt recent_def rk [unfolded recent_def])
    moreover have "recent window t (t # log) = t # recent window t log" using w by (simp add: recent_def)
    moreover have "snd e \<le> t" if "e \<in> set kept" for e using zset_bounds [OF now, of e] that by (auto simp: kept_def)
    ultimately have "rate_sim window key t r' (t # log)"
      using log ms by (auto simp: rate_sim_def r' zadd_def filt)
    with ok False len show ?thesis by (simp add: spec_admit_def r')
  qed
qed

text \<open>
  C26 (refinement). The script implements the window log. For a call at a time that is not before the
  previous ones, with a member that is not in the set, it admits exactly when fewer than the limit of the
  admissions so far lie in the window, and the set goes on representing the log, other keys untouched.
\<close>

theorem rate_limit_refines:
  assumes "rate_sim window key t0 r log" "t0 \<le> t" "0 < window" "member \<notin> fst ` set (zset_at t r key)"
    and "rate_limit key window lim t member r = ((ok, n), r')"
  shows "spec_admit window lim t log = (ok, if ok then t # log else log) \<and>
    rate_sim window key t r' (if ok then t # log else log) \<and> (\<forall>k. k \<noteq> key \<longrightarrow> r' k = r k)"
  using rate_limit_step [OF assms] .

section \<open>Runs\<close>

text \<open>The admission times of a sequence of calls, the latest first.\<close>

fun rate_run :: "string \<Rightarrow> nat \<Rightarrow> nat \<Rightarrow> (nat \<times> string) list \<Rightarrow> nat list \<Rightarrow> rate_keys \<Rightarrow> nat list \<times> rate_keys" where
  "rate_run key window lim [] log r = (log, r)"
| "rate_run key window lim ((t, m) # calls) log r =
     (let ((ok, _), r1) = rate_limit key window lim t m r
      in rate_run key window lim calls (if ok then t # log else log) r1)"

fun spaced :: "nat \<Rightarrow> nat \<Rightarrow> nat list \<Rightarrow> bool" where
  "spaced window lim [] = True"
| "spaced window lim (t # log) = (length (recent window t log) < lim \<and> spaced window lim log)"

lemma spaced_bound:
  "spaced window lim log \<Longrightarrow> length (filter (\<lambda>a. s \<le> a \<and> a < s + window) log) \<le> lim"
proof (induction log)
  case (Cons t log)
  show ?case
  proof (cases "s \<le> t \<and> t < s + window")
    case True
    then have "length (filter (\<lambda>a. s \<le> a \<and> a < s + window) log) \<le> length (recent window t log)"
      unfolding recent_def by (induction log) auto
    with True Cons.prems show ?thesis by simp
  next
    case False
    with Cons show ?thesis by auto
  qed
qed simp

lemma spec_spaced: "spec_admit window lim t log = (ok, log') \<Longrightarrow> spaced window lim log \<Longrightarrow> spaced window lim log'"
  by (auto simp: spec_admit_def split: if_splits)

definition members_of :: "rate_keys \<Rightarrow> string \<Rightarrow> string set" where
  "members_of r k = (case r k of None \<Rightarrow> {} | Some (z, _) \<Rightarrow> fst ` set z)"

lemma zset_members: "fst ` set (zset_at t r k) \<subseteq> members_of r k"
  by (auto simp: zset_at_def members_of_def split: option.splits)

lemma rate_members:
  assumes "rate_limit key window lim t m r = (res, r')" shows "members_of r' key \<subseteq> insert m (members_of r key)"
proof -
  let ?kept = "filter (\<lambda>e. t < snd e + window) (zset_at t r key)"
  have kept: "fst ` set ?kept \<subseteq> members_of r key" using zset_members [of t r key] by auto
  have "members_of r' key \<subseteq> insert m (fst ` set ?kept)"
    using assms unfolding rate_limit_def Let_def kept_recent
    by (auto simp: members_of_def zadd_def split: if_splits)
  with kept show ?thesis by blast
qed

lemma rate_run_spaced:
  "rate_run key window lim calls log r = (log', r') \<Longrightarrow> rate_sim window key t0 r log \<Longrightarrow> 0 < window \<Longrightarrow>
   sorted (t0 # map fst calls) \<Longrightarrow> distinct (map snd calls) \<Longrightarrow> members_of r key \<inter> snd ` set calls = {} \<Longrightarrow>
   spaced window lim log \<Longrightarrow> spaced window lim log'"
proof (induction calls arbitrary: log r t0)
  case (Cons c calls)
  obtain t m where c: "c = (t, m)" by force
  obtain ok n r1 where call: "rate_limit key window lim t m r = ((ok, n), r1)" by (metis prod.exhaust)
  have fresh: "m \<notin> fst ` set (zset_at t r key)" using Cons.prems(6) zset_members [of t r key] by (auto simp: c)
  note step = rate_limit_step [OF Cons.prems(2) _ Cons.prems(3) fresh call]
  have t: "t0 \<le> t" using Cons.prems(4) by (simp add: c)
  have sp: "spaced window lim (if ok then t # log else log)" using step [OF t] spec_spaced Cons.prems(7) by blast
  have "members_of r1 key \<inter> snd ` set calls = {}"
  proof -
    have "m \<notin> snd ` set calls" using Cons.prems(5) by (simp add: c)
    moreover have "members_of r key \<inter> snd ` set calls = {}" using Cons.prems(6) by auto
    ultimately show ?thesis using rate_members [OF call] by blast
  qed
  with Cons.IH [of "if ok then t # log else log" r1 t] step [OF t] sp Cons.prems call show ?case
    by (simp add: c)
qed simp

text \<open>
  From an absent key, over calls in the order of time with unique members, no stretch of
  the window's length ever sees more admissions than the limit.
\<close>

theorem rate_window_bound:
  assumes "rate_run key window lim calls [] r = (admitted, r')" "r key = None" "0 < window"
    and "sorted (map fst calls)" "distinct (map snd calls)"
  shows "length (filter (\<lambda>a. s \<le> a \<and> a < s + window) admitted) \<le> lim"
proof (rule spaced_bound, rule rate_run_spaced [OF assms(1) _ assms(3) _ assms(5)])
  show "rate_sim window key 0 r []" by (simp add: rate_sim_def assms(2) recent_def)
  show "sorted (0 # map fst calls)" using assms(4) by simp
  show "members_of r key \<inter> snd ` set calls = {}" by (simp add: members_of_def assms(2))
qed simp

definition calls_example :: "(nat \<times> string) list" where
  "calls_example = [(1000, ''a''), (1001, ''b''), (1002, ''c''), (61001, ''d'')]"

theorem rate_window_bound_witness:
  "fst (rate_run ''k'' 60000 2 calls_example [] Map.empty) = [61001, 1001, 1000] \<and>
   length (filter (\<lambda>a. 1001 \<le> a \<and> a < 1001 + 60000) [61001, 1001, 1000 :: nat]) \<le> 2"
proof -
  have run: "fst (rate_run ''k'' 60000 2 calls_example [] Map.empty) = [61001, 1001, 1000]" by code_simp
  then obtain r' where "rate_run ''k'' 60000 2 calls_example [] Map.empty = ([61001, 1001, 1000], r')"
    by (metis prod.collapse)
  from rate_window_bound [OF this, of 1001] run show ?thesis by (simp add: calls_example_def)
qed

theorem rate_limit_refines_witness:
  "spec_admit 60000 2 1001 [1000] = (True, [1001, 1000]) \<and>
   rate_sim 60000 ''k'' 1001 (snd (rate_limit ''k'' 60000 2 1001 ''b'' [''k'' \<mapsto> ([(''a'', 1000)], 61000)])) [1001, 1000]"
proof -
  let ?r = "[''k'' \<mapsto> ([(''a'', 1000 :: nat)], 61000 :: nat)]"
  have sim: "rate_sim 60000 ''k'' 1000 ?r [1000]" by (simp add: rate_sim_def)
  have fresh: "''b'' \<notin> fst ` set (zset_at 1001 ?r ''k'')" by (simp add: zset_at_def)
  obtain n r' where call: "rate_limit ''k'' 60000 2 1001 ''b'' ?r = ((True, n), r')"
    by (simp add: rate_limit_def zset_at_def zremrangebyscore_def)
  from rate_limit_refines [OF sim _ _ fresh call] call show ?thesis by simp
qed

end
