(* ===== verification/Ws_Hub.thy ===== *)
theory Ws_Hub
  imports World
begin

text \<open>
  \<open>lib/ws-hub.ts\<close>: which WebSocket clients get an event. A connected client has an open flag and the
  context that the upgrade handler gave it; a client may replace its project filter by a message. The
  hub's output is the list of the clients that an event is sent to.
\<close>

record WsClientContext =
  cx_role :: string
  cx_projectIds :: "string list"

record TrackedSocket =
  so_id :: nat
  so_open :: bool
  so_pgos :: "WsClientContext option"

definition mayReceiveJobEvent :: "WsClientContext \<Rightarrow> string option \<Rightarrow> bool" where
  "mayReceiveJobEvent ctx projectId =
     (if cx_role ctx = ''admin'' \<or> cx_role ctx = ''operator'' then True
      else if \<not> truthy projectId then True
      else if cx_projectIds ctx = [] then False
      else the projectId \<in> set (cx_projectIds ctx))"

text \<open>
  A message is the JSON value it parses to, if it does; members of the set that are no strings never
  equal a project id and are left out.
\<close>

definition handleWsClientMessage :: "json option \<Rightarrow> WsClientContext \<Rightarrow> WsClientContext" where
  "handleWsClientMessage msg ctx =
     (case msg of
        Some (JObj m) \<Rightarrow>
          (case (map_of m ''type'', map_of m ''projectIds'') of
             (Some (JStr ty), Some (JArr ids)) \<Rightarrow>
               if ty = ''subscribe''
               then ctx\<lparr>cx_projectIds := List.map_filter (\<lambda>v. case v of JStr s \<Rightarrow> Some s | _ \<Rightarrow> None) ids\<rparr>
               else ctx
           | _ \<Rightarrow> ctx)
      | _ \<Rightarrow> ctx)"

definition payload_project :: "metadata \<Rightarrow> string option" where
  "payload_project m =
     (case meta_str m ''projectId'' of
        Some p \<Rightarrow> Some p
      | None \<Rightarrow> (case map_of m ''job'' of Some (JObj j) \<Rightarrow> meta_str j ''projectId'' | _ \<Rightarrow> None))"

fun extractProjectId :: "ws_event \<Rightarrow> string option" where
  "extractProjectId (JobUpdated j t) = map_option j_projectId j"
| "extractProjectId (JobErrorEvent p t) = None"
| "extractProjectId (LockUpdated m t) = payload_project m"
| "extractProjectId (ParityResult m t) = payload_project m"
| "extractProjectId (AlertEvent m t) = payload_project m"

definition mayReceive :: "TrackedSocket \<Rightarrow> string option \<Rightarrow> bool" where
  "mayReceive ws projectId = (case so_pgos ws of None \<Rightarrow> True | Some ctx \<Rightarrow> mayReceiveJobEvent ctx projectId)"

definition hub_broadcast :: "ws_event \<Rightarrow> TrackedSocket list \<Rightarrow> nat list" where
  "hub_broadcast ev clients =
     map so_id (filter (\<lambda>ws. so_open ws \<and> mayReceive ws (extractProjectId ev)) clients)"

definition hub_add :: "nat \<Rightarrow> WsClientContext \<Rightarrow> TrackedSocket list \<Rightarrow> TrackedSocket list" where
  "hub_add i ctx clients =
     filter (\<lambda>ws. so_id ws \<noteq> i) clients @ [\<lparr>so_id = i, so_open = True, so_pgos = Some ctx\<rparr>]"

definition hub_close :: "nat \<Rightarrow> TrackedSocket list \<Rightarrow> TrackedSocket list" where
  "hub_close i clients = filter (\<lambda>ws. so_id ws \<noteq> i) clients"

definition hub_message :: "nat \<Rightarrow> json option \<Rightarrow> TrackedSocket list \<Rightarrow> TrackedSocket list" where
  "hub_message i msg clients =
     map (\<lambda>ws. if so_id ws = i then ws\<lparr>so_pgos := map_option (handleWsClientMessage msg) (so_pgos ws)\<rparr> else ws) clients"

definition hub_size :: "TrackedSocket list \<Rightarrow> nat" where
  "hub_size clients = length clients"

lemma some_that: "(\<exists>c. Some x = Some c \<and> P c) \<longleftrightarrow> P x"
  by auto

lemma pair_or: "x \<in> {a, b} \<longleftrightarrow> x = a \<or> x = b"
  by auto

lemma if_disj: "(if a \<or> b then True else if ps = [] then False else p \<in> set ps) \<longleftrightarrow> a \<or> b \<or> p \<in> set ps"
  by auto

lemma mayReceive_job:
  assumes "so_pgos ws = Some ctx" "p \<noteq> []"
  shows "mayReceive ws (Some p) \<longleftrightarrow> cx_role ctx = ''admin'' \<or> cx_role ctx = ''operator'' \<or> p \<in> set (cx_projectIds ctx)"
proof -
  have "truthy (Some p)" using assms(2) unfolding truthy_def option.case .
  then have *: "mayReceiveJobEvent ctx (Some p) =
      (if cx_role ctx = ''admin'' \<or> cx_role ctx = ''operator'' then True
       else if cx_projectIds ctx = [] then False else p \<in> set (cx_projectIds ctx))"
    unfolding mayReceiveJobEvent_def by (simp only: not_True_eq_False if_False option.sel)
  have "mayReceive ws (Some p) = mayReceiveJobEvent ctx (Some p)"
    unfolding mayReceive_def assms(1) option.case ..
  then show ?thesis unfolding * if_disj .
qed

section \<open>Runs\<close>

text \<open>Connections come with a role; the list of a client's project ids is set by its own messages.\<close>

inductive hub_reach :: "TrackedSocket list \<Rightarrow> bool" where
  empty: "hub_reach []"
| add: "hub_reach cs \<Longrightarrow> hub_reach (hub_add i \<lparr>cx_role = r, cx_projectIds = ps\<rparr> cs)"
| close: "hub_reach cs \<Longrightarrow> hub_reach (hub_close i cs)"
| message: "hub_reach cs \<Longrightarrow> hub_reach (hub_message i msg cs)"

lemma hub_tracked: "hub_reach cs \<Longrightarrow> distinct (map so_id cs) \<and> list_all (\<lambda>ws. so_pgos ws \<noteq> None) cs"
proof (induction rule: hub_reach.induct)
  case (add cs i r ps)
  then show ?case by (auto simp: hub_add_def list_all_iff intro: distinct_map_filter)
next
  case (close cs i)
  then show ?case by (auto simp: hub_close_def list_all_iff intro: distinct_map_filter)
next
  case (message cs i msg)
  have ids: "map so_id (hub_message i msg cs) = map so_id cs" by (simp add: hub_message_def)
  have "list_all (\<lambda>ws. so_pgos ws \<noteq> None) (hub_message i msg cs)"
    using message by (auto simp: hub_message_def list_all_iff)
  with message show ?case unfolding ids by blast
qed simp

text \<open>
  C27 (safety). In every reachable hub an update of a job is sent exactly to the open clients that are
  admin or operator or have subscribed to the job's project, each of them once; a viewer that has not
  subscribed gets none.
\<close>

theorem job_updates_scoped:
  assumes reach: "hub_reach cs" and job: "j_projectId j \<noteq> []"
  shows "distinct (hub_broadcast (JobUpdated (Some j) t) cs) \<and>
    set (hub_broadcast (JobUpdated (Some j) t) cs) =
      {so_id ws | ws. ws \<in> set cs \<and> so_open ws \<and>
         (\<exists>ctx. so_pgos ws = Some ctx \<and>
            (cx_role ctx \<in> {''admin'', ''operator''} \<or> j_projectId j \<in> set (cx_projectIds ctx)))}"
proof -
  have tr: "distinct (map so_id cs)" "\<forall>ws \<in> set cs. \<exists>ctx. so_pgos ws = Some ctx"
    using hub_tracked [OF reach] by (auto simp: list_all_iff)
  have may: "mayReceive ws (extractProjectId (JobUpdated (Some j) t)) \<longleftrightarrow>
      (\<exists>ctx. so_pgos ws = Some ctx \<and>
         (cx_role ctx \<in> {''admin'', ''operator''} \<or> j_projectId j \<in> set (cx_projectIds ctx)))"
    if ws: "ws \<in> set cs" for ws
  proof -
    obtain ctx where ctx: "so_pgos ws = Some ctx" using bspec [OF tr(2) ws] by blast
    have p: "extractProjectId (JobUpdated (Some j) t) = Some (j_projectId j)"
      by (simp only: extractProjectId.simps option.map)
    have "mayReceive ws (extractProjectId (JobUpdated (Some j) t)) =
        (cx_role ctx = ''admin'' \<or> cx_role ctx = ''operator'' \<or> j_projectId j \<in> set (cx_projectIds ctx))"
      unfolding p by (rule mayReceive_job [OF ctx job])
    then show ?thesis unfolding ctx some_that pair_or disj_assoc .
  qed
  have "set (hub_broadcast (JobUpdated (Some j) t) cs) =
      so_id ` {ws \<in> set cs. so_open ws \<and> mayReceive ws (extractProjectId (JobUpdated (Some j) t))}"
    unfolding hub_broadcast_def set_map set_filter ..
  also have "\<dots> = so_id ` {ws \<in> set cs. so_open ws \<and> (\<exists>ctx. so_pgos ws = Some ctx \<and>
         (cx_role ctx \<in> {''admin'', ''operator''} \<or> j_projectId j \<in> set (cx_projectIds ctx)))}"
  proof (intro arg_cong [where f = "image so_id"] Collect_cong)
    fix ws
    show "(ws \<in> set cs \<and> so_open ws \<and> mayReceive ws (extractProjectId (JobUpdated (Some j) t))) =
      (ws \<in> set cs \<and> so_open ws \<and> (\<exists>ctx. so_pgos ws = Some ctx \<and>
         (cx_role ctx \<in> {''admin'', ''operator''} \<or> j_projectId j \<in> set (cx_projectIds ctx))))"
    proof (cases "ws \<in> set cs")
      case True
      show ?thesis unfolding may [OF True] by (rule refl)
    qed simp
  qed
  finally have "set (hub_broadcast (JobUpdated (Some j) t) cs) = \<dots>" .
  moreover have "distinct (hub_broadcast (JobUpdated (Some j) t) cs)"
    unfolding hub_broadcast_def by (rule distinct_map_filter [OF tr(1)])
  ultimately show ?thesis by blast
qed

theorem job_updates_scoped_witness:
  "hub_broadcast (JobUpdated (Some (job_example ''a'' ''p'' STAGING)) 0)
     (hub_message 2 (Some (JObj [(''type'', JStr ''subscribe''), (''projectIds'', JArr [JStr ''q''])]))
       (hub_add 2 \<lparr>cx_role = ''viewer'', cx_projectIds = [''p'']\<rparr> (hub_add 1 \<lparr>cx_role = ''operator'', cx_projectIds = []\<rparr> [])))
     = [1] \<and>
   2 \<notin> set (hub_broadcast (JobUpdated (Some (job_example ''a'' ''p'' STAGING)) 0)
     (hub_message 2 (Some (JObj [(''type'', JStr ''subscribe''), (''projectIds'', JArr [JStr ''q''])]))
       (hub_add 2 \<lparr>cx_role = ''viewer'', cx_projectIds = [''p'']\<rparr> (hub_add 1 \<lparr>cx_role = ''operator'', cx_projectIds = []\<rparr> []))))"
proof -
  let ?cs = "hub_message 2 (Some (JObj [(''type'', JStr ''subscribe''), (''projectIds'', JArr [JStr ''q''])]))
       (hub_add 2 \<lparr>cx_role = ''viewer'', cx_projectIds = [''p'']\<rparr> (hub_add 1 \<lparr>cx_role = ''operator'', cx_projectIds = []\<rparr> []))"
  let ?j = "job_example ''a'' ''p'' STAGING"
  have reach: "hub_reach ?cs" by (intro hub_reach.intros)
  have eq: "hub_broadcast (JobUpdated (Some ?j) 0) ?cs = [1]" by code_simp
  have cs: "?cs = [\<lparr>so_id = 1, so_open = True, so_pgos = Some \<lparr>cx_role = ''operator'', cx_projectIds = []\<rparr>\<rparr>,
      \<lparr>so_id = 2, so_open = True, so_pgos = Some \<lparr>cx_role = ''viewer'', cx_projectIds = [''q'']\<rparr>\<rparr>]"
    by code_simp
  have p: "j_projectId ?j = ''p''" by (simp add: job_example_def)
  then have "j_projectId ?j \<noteq> []" by simp
  note scoped = job_updates_scoped [OF reach this, of 0, THEN conjunct2]
  have "2 \<notin> set (hub_broadcast (JobUpdated (Some ?j) 0) ?cs)"
    unfolding scoped unfolding cs p by auto
  with eq show ?thesis by blast
qed

end
