(* ===== verification/Auth.thy ===== *)
theory Auth
  imports Secrets Rate_Limit
begin

text \<open>
  Who a request comes from: \<open>services/auth-service.ts\<close>, \<open>middleware/auth.ts\<close> and \<open>routes/auth.ts\<close>. API
  tokens are JWTs with a revocation list in Postgres that is cached in Redis, sessions are rows in
  Postgres cached in Redis, callback tokens belong to a job. The state keeps the orchestrator's \<open>world\<close>
  beside the tables of users, tokens, revocations and sessions, and the Redis keys with their expiry.

  JWT signing and verification (\<open>jose\<close>), hashing and key derivation are parameters. Redis and Postgres
  answer; an expiry of zero seconds is the error Redis gives for it, and an insert whose user does not
  exist is the error of the foreign key.
\<close>

section \<open>State and environment\<close>

datatype AuthKind = api_token | session | callback_kind | service

record AuthPrincipal =
  ap_userId :: string
  ap_role :: Role
  ap_jti :: string
  ap_email :: "string option"
  ap_kind :: AuthKind
  ap_jobId :: "string option"

record jwt_claims =
  jc_sub :: "string option"
  jc_jti :: "string option"
  jc_role :: "Role option"
  jc_kind :: "AuthKind option"
  jc_jobId :: "string option"

datatype jwt_keys = RS256 string string | HS256 string

record UserRow =
  us_id :: string
  us_email :: string
  us_displayName :: string
  us_role :: Role
  us_passwordHash :: "string option"

record ApiTokenRow =
  at_id :: string
  at_jti :: string
  at_name :: string
  at_role :: Role
  at_userId :: string
  at_expiresAt :: nat
  at_revokedAt :: "nat option"

record RevocationRow =
  rv_jti :: string
  rv_reason :: "string option"
  rv_revokedAt :: nat

record SessionRow =
  ss_id :: string
  ss_userId :: string
  ss_expiresAt :: nat

record auth_env =
  ae_production :: bool
  ae_JWT_PRIVATE_KEY :: "string option"
  ae_JWT_PUBLIC_KEY :: "string option"
  ae_JWT_PRIVATE_KEY_PATH :: "string option"
  ae_JWT_PUBLIC_KEY_PATH :: "string option"
  ae_JWT_ISSUER :: string
  ae_JWT_AUDIENCE :: string
  ae_JWE_SECRET :: string
  ae_SESSION_TTL_SECONDS :: nat
  ae_BOOTSTRAP_ADMIN_EMAIL :: string
  ae_BOOTSTRAP_ADMIN_PASSWORD :: string

text \<open>
  \<open>ax_sign\<close> signs claims with issuer, audience, time of issue and lifetime in seconds; \<open>ax_verify\<close> is
  \<open>jwtVerify\<close> at a time; \<open>ax_scrypt\<close> gets the password, the salt, the length and the three cost parameters
  as texts and gives \<open>None\<close> when Node throws; bytes are strings, \<open>ax_salt\<close> gives sixteen random ones, and
  \<open>ax_b64\<close>, \<open>ax_unb64\<close> are base64url.
\<close>

record auth_ext =
  ax_ext :: ext
  ax_file :: "string \<Rightarrow> string option"
  ax_importable :: "jwt_keys \<Rightarrow> bool"
  ax_sign :: "jwt_keys \<Rightarrow> jwt_claims \<Rightarrow> string \<Rightarrow> string \<Rightarrow> nat \<Rightarrow> nat \<Rightarrow> string"
  ax_verify :: "jwt_keys \<Rightarrow> string \<Rightarrow> string \<Rightarrow> nat \<Rightarrow> string \<Rightarrow> jwt_claims option"
  ax_scrypt :: "string \<Rightarrow> string \<Rightarrow> nat \<Rightarrow> string \<Rightarrow> string \<Rightarrow> string \<Rightarrow> string option"
  ax_salt :: "nat \<Rightarrow> string"
  ax_sha256_hex :: "string \<Rightarrow> string"
  ax_b64 :: "string \<Rightarrow> string"
  ax_unb64 :: "string \<Rightarrow> string"

record auth_state =
  a_world :: world
  a_users :: "UserRow list"
  a_tokens :: "ApiTokenRow list"
  a_revocations :: "RevocationRow list"
  a_sessions :: "SessionRow list"
  a_redis :: "string \<Rightarrow> (string \<times> nat) option"

definition a_now :: "auth_state \<Rightarrow> nat" where
  "a_now s = now (a_world s)"

definition a_draw :: "(nat \<Rightarrow> 'b) \<Rightarrow> auth_state \<Rightarrow> 'b \<times> auth_state" where
  "a_draw f s = (let (r, w) = draw f (a_world s) in (r, s\<lparr>a_world := w\<rparr>))"

definition a_audit :: "AuditLogEntry \<Rightarrow> auth_state \<Rightarrow> auth_state" where
  "a_audit e s = s\<lparr>a_world := audit e (a_world s)\<rparr>"

definition redis_get :: "string \<Rightarrow> auth_state \<Rightarrow> string option" where
  "redis_get k s = (case a_redis s k of None \<Rightarrow> None | Some (v, ex) \<Rightarrow> if ex \<le> a_now s then None else Some v)"

definition redis_set :: "string \<Rightarrow> string \<Rightarrow> nat \<Rightarrow> auth_state \<Rightarrow> auth_state" where
  "redis_set k v secs s = s\<lparr>a_redis := (a_redis s)(k \<mapsto> (v, a_now s + secs * 1000))\<rparr>"

definition redis_del :: "string \<Rightarrow> auth_state \<Rightarrow> auth_state" where
  "redis_del k s = s\<lparr>a_redis := (a_redis s)(k := None)\<rparr>"

definition REVOCATION_REDIS_PREFIX :: string where
  "REVOCATION_REDIS_PREFIX = ''pgos:revoked:''"

definition SESSION_REDIS_PREFIX :: string where
  "SESSION_REDIS_PREFIX = ''pgos:session:''"

definition foreign_key_violation :: js_error where
  "foreign_key_violation = JsError None (Some ''23503'') ''insert violates foreign key constraint''"

definition invalid_expire_error :: js_error where
  "invalid_expire_error = JsError None None ''ERR invalid expire time in set command''"

section \<open>Keys\<close>

text \<open>\<open>padEnd(32, '!')\<close> and \<open>replace(/\\n/g, '\n')\<close>\<close>

definition pad_end32 :: "string \<Rightarrow> string" where
  "pad_end32 s = s @ replicate (32 - length s) (CHR ''!'')"

fun unescape_newlines :: "string \<Rightarrow> string" where
  "unescape_newlines (a # b # cs) =
     (if a = CHR 0x5C \<and> b = CHR ''n'' then CHR 0x0A # unescape_newlines cs else a # unescape_newlines (b # cs))"
| "unescape_newlines cs = cs"

definition key_text :: "auth_ext \<Rightarrow> string option \<Rightarrow> string option \<Rightarrow> string option" where
  "key_text x pem path =
     (if \<not> truthy pem \<and> truthy path \<and> ax_file x (the path) \<noteq> None then ax_file x (the path) else pem)"

definition getKeys :: "auth_ext \<Rightarrow> auth_env \<Rightarrow> jwt_keys outcome" where
  "getKeys x e =
     (let privPem = key_text x (ae_JWT_PRIVATE_KEY e) (ae_JWT_PRIVATE_KEY_PATH e);
          pubPem = key_text x (ae_JWT_PUBLIC_KEY e) (ae_JWT_PUBLIC_KEY_PATH e)
      in if truthy privPem \<and> truthy pubPem
         then (let ks = RS256 (unescape_newlines (the privPem)) (unescape_newlines (the pubPem))
               in if ax_importable x ks then Ret ks else Throw (system_error ''Invalid key''))
         else if ae_production e
         then Throw (system_error ''RS256 JWT keys are required in production (JWT_PRIVATE_KEY / JWT_PUBLIC_KEY)'')
         else Ret (HS256 (pad_end32 (ae_JWE_SECRET e))))"

section \<open>API tokens\<close>

record IssuedToken =
  it_token :: string
  it_jti :: string
  it_id :: string

definition issueApiToken :: "auth_ext \<Rightarrow> auth_env \<Rightarrow> string \<Rightarrow> Role \<Rightarrow> string \<Rightarrow> nat option \<Rightarrow> auth_state
    \<Rightarrow> IssuedToken outcome \<times> auth_state" where
  "issueApiToken x e userId role name expiresInSeconds s =
     (case getKeys x e of
        Throw er \<Rightarrow> (Throw er, s)
      | Ret key \<Rightarrow>
          let (jti, s1) = a_draw (x_uuid (ax_ext x)) s;
              expiresIn = or_default expiresInSeconds (90 * 24 * 3600);
              token = ax_sign x key
                \<lparr>jc_sub = Some userId, jc_jti = Some jti, jc_role = Some role, jc_kind = Some api_token, jc_jobId = None\<rparr>
                (ae_JWT_ISSUER e) (ae_JWT_AUDIENCE e) (a_now s1) expiresIn
          in if row_by us_id userId (a_users s1) = None then (Throw foreign_key_violation, s1)
             else
               let (i, s2) = a_draw (x_uuid (ax_ext x)) s1;
                   row = \<lparr>at_id = i, at_jti = jti, at_name = name, at_role = role, at_userId = userId,
                          at_expiresAt = a_now s2 + expiresIn * 1000, at_revokedAt = None\<rparr>
               in (Ret \<lparr>it_token = token, it_jti = jti, it_id = i\<rparr>, s2\<lparr>a_tokens := a_tokens s2 @ [row]\<rparr>))"

definition upsert_revocation :: "RevocationRow \<Rightarrow> RevocationRow list \<Rightarrow> RevocationRow list" where
  "upsert_revocation r rs =
     (if row_by rv_jti (rv_jti r) rs = None then rs @ [r] else set_row rv_jti (rv_jti r) (\<lambda>_. r) rs)"

definition revokeToken :: "string \<Rightarrow> string option \<Rightarrow> auth_state \<Rightarrow> auth_state" where
  "revokeToken jti rsn s =
     (let s1 = s\<lparr>a_revocations := upsert_revocation \<lparr>rv_jti = jti, rv_reason = rsn, rv_revokedAt = a_now s\<rparr> (a_revocations s)\<rparr>;
          s2 = s1\<lparr>a_tokens := set_row at_jti jti (\<lambda>r. r\<lparr>at_revokedAt := Some (a_now s)\<rparr>) (a_tokens s1)\<rparr>;
          s3 = redis_set (REVOCATION_REDIS_PREFIX @ jti) ''1'' 3600 s2
      in a_audit (audit_entry None ''token.revoked'' ''api_token'' (Some jti)
           (case rsn of None \<Rightarrow> [] | Some t \<Rightarrow> [(''reason'', JStr t)])) s3)"

text \<open>
  \<open>isRevoked\<close> in its three steps, which requests of other clients can come between: the cache, the query,
  the write of the answer to the cache.
\<close>

definition revoked_cached :: "string \<Rightarrow> auth_state \<Rightarrow> bool option" where
  "revoked_cached jti s =
     (let c = redis_get (REVOCATION_REDIS_PREFIX @ jti) s in
      if c = Some ''1'' then Some True else if c = Some ''0'' then Some False else None)"

definition revoked_query :: "string \<Rightarrow> auth_state \<Rightarrow> bool" where
  "revoked_query jti s =
     (row_by rv_jti jti (a_revocations s) \<noteq> None
      \<or> list_ex (\<lambda>r. at_jti r = jti \<and> at_revokedAt r \<noteq> None) (a_tokens s))"

definition revoked_store :: "string \<Rightarrow> bool \<Rightarrow> auth_state \<Rightarrow> auth_state" where
  "revoked_store jti revoked s =
     redis_set (REVOCATION_REDIS_PREFIX @ jti) (if revoked then ''1'' else ''0'') 3600 s"

definition isRevoked :: "string \<Rightarrow> auth_state \<Rightarrow> bool \<times> auth_state" where
  "isRevoked jti s =
     (case revoked_cached jti s of
        Some b \<Rightarrow> (b, s)
      | None \<Rightarrow> let revoked = revoked_query jti s in (revoked, revoked_store jti revoked s))"

definition bearer_claims :: "auth_ext \<Rightarrow> auth_env \<Rightarrow> string \<Rightarrow> auth_state \<Rightarrow> jwt_claims option" where
  "bearer_claims x e token s =
     (case getKeys x e of
        Throw _ \<Rightarrow> None
      | Ret key \<Rightarrow> ax_verify x key (ae_JWT_ISSUER e) (ae_JWT_AUDIENCE e) (a_now s) token)"

definition verifyBearer :: "auth_ext \<Rightarrow> auth_env \<Rightarrow> string \<Rightarrow> auth_state \<Rightarrow> AuthPrincipal option \<times> auth_state" where
  "verifyBearer x e token s =
     (case bearer_claims x e token s of
        None \<Rightarrow> (None, s)
      | Some c \<Rightarrow>
          if \<not> truthy (jc_jti c) \<or> \<not> truthy (jc_sub c) then (None, s)
          else
            let jti = the (jc_jti c);
                (revoked, s1) = isRevoked jti s
            in if revoked then (None, s1)
               else (Some \<lparr>ap_userId = the (jc_sub c), ap_role = or_default (jc_role c) viewer, ap_jti = jti,
                           ap_email = None, ap_kind = or_default (jc_kind c) api_token,
                           ap_jobId = jc_jobId c\<rparr>, s1))"

section \<open>Sessions\<close>

definition createSession :: "auth_ext \<Rightarrow> auth_env \<Rightarrow> string \<Rightarrow> auth_state \<Rightarrow> string outcome \<times> auth_state" where
  "createSession x e userId s =
     (let (i, s1) = a_draw (x_uuid (ax_ext x)) s;
          expiresAt = a_now s1 + ae_SESSION_TTL_SECONDS e * 1000
      in if row_by us_id userId (a_users s1) = None then (Throw foreign_key_violation, s1)
         else
           let s2 = s1\<lparr>a_sessions := a_sessions s1 @ [\<lparr>ss_id = i, ss_userId = userId, ss_expiresAt = expiresAt\<rparr>]\<rparr>
           in if ae_SESSION_TTL_SECONDS e = 0 then (Throw invalid_expire_error, s2)
              else (Ret i, redis_set (SESSION_REDIS_PREFIX @ i) userId (ae_SESSION_TTL_SECONDS e) s2))"

definition destroySession :: "string \<Rightarrow> auth_state \<Rightarrow> auth_state" where
  "destroySession sessionId s =
     redis_del (SESSION_REDIS_PREFIX @ sessionId)
       (s\<lparr>a_sessions := filter (\<lambda>r. ss_id r \<noteq> sessionId) (a_sessions s)\<rparr>)"

text \<open>The user of a session: the cache if it holds a user, or else the row, which is cached again.\<close>

definition session_user :: "auth_env \<Rightarrow> string \<Rightarrow> auth_state \<Rightarrow> string option outcome \<times> auth_state" where
  "session_user e sessionId s =
     (let cached = redis_get (SESSION_REDIS_PREFIX @ sessionId) s in
      if truthy cached then (Ret cached, s)
      else case find (\<lambda>r. ss_id r = sessionId \<and> a_now s < ss_expiresAt r) (a_sessions s) of
             None \<Rightarrow> (Ret None, s)
           | Some r \<Rightarrow>
               if ae_SESSION_TTL_SECONDS e = 0 then (Throw invalid_expire_error, s)
               else (Ret (Some (ss_userId r)),
                     redis_set (SESSION_REDIS_PREFIX @ sessionId) (ss_userId r) (ae_SESSION_TTL_SECONDS e) s))"

definition resolveSession :: "auth_env \<Rightarrow> string \<Rightarrow> auth_state \<Rightarrow> AuthPrincipal option outcome \<times> auth_state" where
  "resolveSession e sessionId s =
     (case session_user e sessionId s of
        (Throw er, s1) \<Rightarrow> (Throw er, s1)
      | (Ret None, s1) \<Rightarrow> (Ret None, s1)
      | (Ret (Some userId), s1) \<Rightarrow>
          (case row_by us_id userId (a_users s1) of
             None \<Rightarrow> (Ret None, s1)
           | Some u \<Rightarrow>
               (Ret (Some \<lparr>ap_userId = us_id u, ap_role = us_role u, ap_jti = ''session:'' @ sessionId,
                           ap_email = Some (us_email u), ap_kind = session, ap_jobId = None\<rparr>), s1)))"

end
