(* ===== verification/Auth_Routes.thy ===== *)
theory Auth_Routes
  imports Auth
begin

text \<open>
  Passwords, the middleware that authenticates a request and checks its role, and the routes of
  \<open>routes/auth.ts\<close>. A parsed body is given as an option, \<open>None\<close> when the schema rejects it.
\<close>

section \<open>Passwords\<close>

definition hashPassword :: "auth_ext \<Rightarrow> string \<Rightarrow> auth_state \<Rightarrow> string outcome \<times> auth_state" where
  "hashPassword x password s =
     (let (salt, s1) = a_draw (ax_salt x) s in
      case ax_scrypt x password salt 32 ''16384'' ''8'' ''1'' of
        None \<Rightarrow> (Throw (system_error ''scrypt''), s1)
      | Some h \<Rightarrow> (Ret (''scrypt$16384$8$1$'' @ ax_b64 x salt @ ''$'' @ ax_b64 x h), s1))"

definition verifyPassword :: "auth_ext \<Rightarrow> string \<Rightarrow> string \<Rightarrow> bool outcome" where
  "verifyPassword x password stored =
     (if starts_with stored ''scrypt$''
      then (case split_on (CHR ''$'') stored of
              [_, N, r, p, salt, hash] \<Rightarrow>
                let expected = ax_unb64 x hash in
                (case ax_scrypt x password (ax_unb64 x salt) (length expected) N r p of
                   None \<Rightarrow> Throw (system_error ''scrypt'')
                 | Some actual \<Rightarrow> Ret (actual = expected))
            | _ \<Rightarrow> Ret False)
      else Ret (ax_sha256_hex x password = stored))"

definition ensureBootstrapAdmin :: "auth_ext \<Rightarrow> auth_env \<Rightarrow> auth_state \<Rightarrow> unit outcome \<times> auth_state" where
  "ensureBootstrapAdmin x e s =
     (if list_ex (\<lambda>u. us_role u = admin) (a_users s) then (Ret (), s)
      else
        let password = (if ae_BOOTSTRAP_ADMIN_PASSWORD e \<noteq> [] then ae_BOOTSTRAP_ADMIN_PASSWORD e
                        else if ae_production e then [] else ''admin-change-me'')
        in if password = []
           then (if ae_production e
                 then (Throw (system_error ''No admin user exists and BOOTSTRAP_ADMIN_PASSWORD is not set''), s)
                 else (Ret (), s))
           else
             case hashPassword x password s of
               (Throw er, s1) \<Rightarrow> (Throw er, s1)
             | (Ret h, s1) \<Rightarrow>
                 let (i, s2) = a_draw (x_uuid (ax_ext x)) s1 in
                 (Ret (),
                  if row_by us_email (ae_BOOTSTRAP_ADMIN_EMAIL e) (a_users s2) \<noteq> None then s2
                  else s2\<lparr>a_users := a_users s2 @
                     [\<lparr>us_id = i, us_email = ae_BOOTSTRAP_ADMIN_EMAIL e, us_displayName = ''Bootstrap Admin'',
                       us_role = admin, us_passwordHash = Some h\<rparr>]\<rparr>))"

definition authenticatePassword :: "auth_ext \<Rightarrow> string \<Rightarrow> string \<Rightarrow> auth_state \<Rightarrow> UserRow option outcome" where
  "authenticatePassword x email password s =
     (case row_by us_email email (a_users s) of
        None \<Rightarrow> Ret None
      | Some u \<Rightarrow>
          if \<not> truthy (us_passwordHash u) then Ret None
          else case verifyPassword x password (the (us_passwordHash u)) of
                 Throw er \<Rightarrow> Throw er
               | Ret ok \<Rightarrow> Ret (if ok then Some u else None))"

section \<open>The middleware\<close>

record auth_request =
  rq_authorization :: "string option"
  rq_pgos_session :: "string option"

datatype guard = Granted AuthPrincipal | Denied nat string string | Crashed js_error

definition callback_principal :: "string \<Rightarrow> AuthPrincipal" where
  "callback_principal jobId =
     \<lparr>ap_userId = ''callback:'' @ jobId, ap_role = callback, ap_jti = ''callback:'' @ jobId,
      ap_email = None, ap_kind = callback_kind, ap_jobId = Some jobId\<rparr>"

definition callback_login :: "auth_ext \<Rightarrow> string \<Rightarrow> auth_state \<Rightarrow> AuthPrincipal option" where
  "callback_login x token s =
     (if CHR ''.'' \<in> set token \<and> \<not> starts_with token ''eyJ''
      then (case parseCallbackToken token of
              None \<Rightarrow> None
            | Some (jobId, _) \<Rightarrow>
                if verifyCallbackToken (ax_ext x) jobId token (a_world s)
                then Some (callback_principal jobId) else None)
      else None)"

definition bearer_login :: "auth_ext \<Rightarrow> auth_env \<Rightarrow> string option \<Rightarrow> auth_state \<Rightarrow> AuthPrincipal option \<times> auth_state" where
  "bearer_login x e auth s =
     (case auth of
        None \<Rightarrow> (None, s)
      | Some a \<Rightarrow>
          if \<not> starts_with a ''Bearer '' then (None, s)
          else let token = drop 7 a in
               case callback_login x token s of
                 Some p \<Rightarrow> (Some p, s)
               | None \<Rightarrow> verifyBearer x e token s)"

definition authenticate :: "auth_ext \<Rightarrow> auth_env \<Rightarrow> auth_request \<Rightarrow> auth_state \<Rightarrow> guard \<times> auth_state" where
  "authenticate x e q s =
     (case bearer_login x e (rq_authorization q) s of
        (Some p, s1) \<Rightarrow> (Granted p, s1)
      | (None, s1) \<Rightarrow>
          if truthy (rq_pgos_session q)
          then (case resolveSession e (the (rq_pgos_session q)) s1 of
                  (Throw er, s2) \<Rightarrow> (Crashed er, s2)
                | (Ret (Some p), s2) \<Rightarrow> (Granted p, s2)
                | (Ret None, s2) \<Rightarrow> (Denied 401 ''E015'' ''Unauthorized'', s2))
          else (Denied 401 ''E015'' ''Unauthorized'', s1))"

definition role_text :: "Role \<Rightarrow> string" where
  "role_text r = (case r of callback \<Rightarrow> ''callback'' | viewer \<Rightarrow> ''viewer'' | operator \<Rightarrow> ''operator'' | admin \<Rightarrow> ''admin'')"

text \<open>The reply that the hook sends, if any; \<open>sent\<close> tells that an earlier hook has replied.\<close>

definition requireRole :: "Role \<Rightarrow> bool \<Rightarrow> AuthPrincipal option \<Rightarrow> guard option" where
  "requireRole minRole sent prin =
     (if sent then None
      else case prin of
             None \<Rightarrow> Some (Denied 401 ''E015'' ''Unauthorized'')
           | Some p \<Rightarrow> if \<not> hasMinRole (ap_role p) minRole
                       then Some (Denied 403 ''E015'' (''Requires role '' @ role_text minRole)) else None)"

definition requireExactRole :: "Role \<Rightarrow> bool \<Rightarrow> AuthPrincipal option \<Rightarrow> guard option" where
  "requireExactRole role sent prin =
     (if sent then None
      else case prin of
             None \<Rightarrow> Some (Denied 401 ''E015'' ''Unauthorized'')
           | Some p \<Rightarrow> if ap_role p \<noteq> role
                       then Some (Denied 403 ''E015'' (''Requires exact role '' @ role_text role)) else None)"

section \<open>Routes\<close>

datatype 'b reply = Sent 'b | Refused nat string string | Failure js_error

fun refused :: "guard \<Rightarrow> 'b reply" where
  "refused (Granted p) = Failure (system_error ''unreachable'')"
| "refused (Denied c k m) = Refused c k m"
| "refused (Crashed er) = Failure er"

text \<open>\<open>preHandler: [authenticate, requireRole(minRole)]\<close>, or \<open>[authenticate]\<close> alone.\<close>

definition guarded :: "auth_ext \<Rightarrow> auth_env \<Rightarrow> Role option \<Rightarrow> auth_request \<Rightarrow> auth_state
    \<Rightarrow> (AuthPrincipal \<Rightarrow> auth_state \<Rightarrow> 'b reply \<times> auth_state) \<Rightarrow> 'b reply \<times> auth_state" where
  "guarded x e minRole q s handler =
     (case authenticate x e q s of
        (Granted p, s1) \<Rightarrow>
          (case (case minRole of None \<Rightarrow> None | Some r \<Rightarrow> requireRole r False (Some p)) of
             Some g \<Rightarrow> (refused g, s1)
           | None \<Rightarrow> handler p s1)
      | (g, s1) \<Rightarrow> (refused g, s1))"

text \<open>
  The hooks alone, for the routes whose handlers work on more than the state of the authentication: the
  principal that may go on, or the reply.
\<close>

definition admit :: "auth_ext \<Rightarrow> auth_env \<Rightarrow> Role option \<Rightarrow> auth_request \<Rightarrow> auth_state
    \<Rightarrow> AuthPrincipal reply \<times> auth_state" where
  "admit x e minRole q s = guarded x e minRole q s (\<lambda>p s1. (Sent p, s1))"

record SessionCookie =
  ck_value :: string
  ck_secure :: bool
  ck_maxAge :: nat

definition zod_error :: js_error where
  "zod_error = system_error ''ZodError''"

definition route_login :: "auth_ext \<Rightarrow> auth_env \<Rightarrow> rate_reply \<Rightarrow> (string \<times> string) option \<Rightarrow> auth_state
    \<Rightarrow> (UserRow \<times> SessionCookie) reply \<times> auth_state" where
  "route_login x e hook body s =
     (case hook of
        Reject c k m \<Rightarrow> (Refused c k m, s)
      | Proceed \<Rightarrow>
          (case ensureBootstrapAdmin x e s of
             (Throw er, s1) \<Rightarrow> (Failure er, s1)
           | (Ret _, s1) \<Rightarrow>
               (case body of
                  None \<Rightarrow> (Failure zod_error, s1)
                | Some (email, password) \<Rightarrow>
                    (case authenticatePassword x email password s1 of
                       Throw er \<Rightarrow> (Failure er, s1)
                     | Ret None \<Rightarrow> (Refused 401 ''E015'' ''Invalid credentials'', s1)
                     | Ret (Some user) \<Rightarrow>
                         (case createSession x e (us_id user) s1 of
                            (Throw er, s2) \<Rightarrow> (Failure er, s2)
                          | (Ret sessionId, s2) \<Rightarrow>
                              (Sent (user, \<lparr>ck_value = sessionId, ck_secure = ae_production e,
                                            ck_maxAge = ae_SESSION_TTL_SECONDS e\<rparr>), s2))))))"

definition route_logout :: "auth_ext \<Rightarrow> auth_env \<Rightarrow> auth_request \<Rightarrow> auth_state \<Rightarrow> bool reply \<times> auth_state" where
  "route_logout x e q s =
     guarded x e None q s (\<lambda>p s1.
       (Sent True, if truthy (rq_pgos_session q) then destroySession (the (rq_pgos_session q)) s1 else s1))"

definition route_me :: "auth_ext \<Rightarrow> auth_env \<Rightarrow> auth_request \<Rightarrow> auth_state
    \<Rightarrow> (AuthPrincipal \<times> UserRow option) reply \<times> auth_state" where
  "route_me x e q s =
     guarded x e None q s (\<lambda>p s1. (Sent (p, row_by us_id (ap_userId p) (a_users s1)), s1))"

record TokenRequest =
  tr_name :: string
  tr_role :: Role
  tr_userId :: "string option"
  tr_expiresInSeconds :: "nat option"

definition route_issue :: "auth_ext \<Rightarrow> auth_env \<Rightarrow> auth_request \<Rightarrow> TokenRequest option \<Rightarrow> auth_state
    \<Rightarrow> IssuedToken reply \<times> auth_state" where
  "route_issue x e q body s =
     guarded x e (Some admin) q s (\<lambda>p s1.
       case body of
         None \<Rightarrow> (Failure zod_error, s1)
       | Some b \<Rightarrow>
           if tr_name b = [] \<or> tr_role b = callback then (Failure zod_error, s1)
           else case issueApiToken x e (or_default (tr_userId b) (ap_userId p)) (tr_role b) (tr_name b)
                       (tr_expiresInSeconds b) s1 of
                  (Throw er, s2) \<Rightarrow> (Failure er, s2)
                | (Ret r, s2) \<Rightarrow> (Sent r, s2))"

definition route_revoke :: "auth_ext \<Rightarrow> auth_env \<Rightarrow> auth_request \<Rightarrow> string \<Rightarrow> string option \<Rightarrow> auth_state
    \<Rightarrow> bool reply \<times> auth_state" where
  "route_revoke x e q jti rsn s =
     guarded x e (Some admin) q s (\<lambda>p s1. (Sent True, revokeToken jti rsn s1))"

text \<open>The newest first; rows are kept in the order of their creation.\<close>

definition route_tokens :: "auth_ext \<Rightarrow> auth_env \<Rightarrow> auth_request \<Rightarrow> auth_state
    \<Rightarrow> ApiTokenRow list reply \<times> auth_state" where
  "route_tokens x e q s =
     guarded x e (Some admin) q s (\<lambda>p s1. (Sent (take 100 (rev (a_tokens s1))), s1))"

end
