(* ===== verification/Auth_Claims.thy ===== *)
theory Auth_Claims
  imports Auth_Routes
begin

text \<open>
  What the authentication promises over any sequence of requests: a revoked token and a destroyed session
  are never accepted again, as long as each request is one step. The promise rests on an interface, an
  invariant that the basic operations keep; the routes keep it then too. Between the steps of two requests
  the promise fails, which is shown as well.
\<close>

section \<open>Basic effects\<close>

lemma a_draw_eq: "a_draw f s = (f (nonce (a_world s)), s\<lparr>a_world := (a_world s)\<lparr>nonce := Suc (nonce (a_world s))\<rparr>\<rparr>)"
  by (simp add: a_draw_def draw_def)

lemma a_now_simps [simp]:
  "a_now (s\<lparr>a_world := (a_world s)\<lparr>nonce := n\<rparr>\<rparr>) = a_now s" "a_now (s\<lparr>a_tokens := ts\<rparr>) = a_now s"
  "a_now (s\<lparr>a_users := us\<rparr>) = a_now s" "a_now (s\<lparr>a_sessions := ss\<rparr>) = a_now s"
  "a_now (s\<lparr>a_revocations := rs\<rparr>) = a_now s" "a_now (s\<lparr>a_redis := m\<rparr>) = a_now s"
  "a_now (a_audit a s) = a_now s" "a_now (redis_set k v n s) = a_now s" "a_now (redis_del k s) = a_now s"
  "a_now (s\<lparr>a_world := w\<rparr>) = now w"
  by (simp_all add: a_now_def a_audit_def audit_def redis_set_def redis_del_def)

lemma prefixes_differ [simp]:
  "REVOCATION_REDIS_PREFIX @ a \<noteq> SESSION_REDIS_PREFIX @ b" "SESSION_REDIS_PREFIX @ b \<noteq> REVOCATION_REDIS_PREFIX @ a"
  by (simp_all add: REVOCATION_REDIS_PREFIX_def SESSION_REDIS_PREFIX_def)

section \<open>The interface\<close>

locale auth_invariant =
  fixes x :: auth_ext and e :: auth_env and P :: "auth_state \<Rightarrow> bool"
  assumes elsewhere: "P s \<Longrightarrow> a_now s \<le> now w \<Longrightarrow> nonce (a_world s) \<le> nonce w \<Longrightarrow> P (s\<lparr>a_world := w\<rparr>)"
    and tokens: "P s \<Longrightarrow> P (s\<lparr>a_tokens := a_tokens s @ [row]\<rparr>)"
    and users: "P s \<Longrightarrow> P (s\<lparr>a_users := us\<rparr>)"
    and check: "P s \<Longrightarrow> P (snd (isRevoked jti s))"
    and revoke: "P s \<Longrightarrow> P (revokeToken jti rsn s)"
    and create: "P s \<Longrightarrow> P (snd (createSession x e userId s))"
    and destroy: "P s \<Longrightarrow> P (destroySession sessionId s)"
    and find_user: "P s \<Longrightarrow> P (snd (session_user e sessionId s))"
begin

lemma draw: "P s \<Longrightarrow> P (snd (a_draw f s))"
  using elsewhere [of s "(a_world s)\<lparr>nonce := Suc (nonce (a_world s))\<rparr>"] by (simp add: a_draw_eq a_now_def)

lemma draw_state: "P s \<Longrightarrow> a_draw f s = (r, s1) \<Longrightarrow> P s1"
  using draw [of s f] by simp

lemma issue: assumes "P s" shows "P (snd (issueApiToken x e userId role name secs s))"
proof (cases "getKeys x e")
  case (Ret key)
  obtain jti s1 where s1: "a_draw (x_uuid (ax_ext x)) s = (jti, s1)" by force
  obtain i s2 where s2: "a_draw (x_uuid (ax_ext x)) s1 = (i, s2)" by force
  have "P s1" by (rule draw_state [OF assms s1])
  moreover from this have "P s2" by (rule draw_state [OF _ s2])
  ultimately show ?thesis using Ret tokens [of s2] by (simp add: issueApiToken_def s1 s2 Let_def)
qed (simp add: issueApiToken_def assms)

lemma bearer: assumes "P s" shows "P (snd (verifyBearer x e token s))"
proof -
  have "P (snd (isRevoked j s))" for j by (rule check [OF assms])
  then show ?thesis using assms
    by (auto simp: verifyBearer_def Let_def split: option.split prod.split) (metis snd_conv)+
qed

lemma resolve: assumes "P s" shows "P (snd (resolveSession e sessionId s))"
  using find_user [OF assms, of sessionId]
  by (cases "session_user e sessionId s")
     (simp add: resolveSession_def split: outcome.split option.split)

lemma bearer_login: "P s \<Longrightarrow> P (snd (bearer_login x e auth s))"
  using bearer by (simp add: bearer_login_def Let_def split: option.split)

lemma authenticated: assumes "P s" shows "P (snd (authenticate x e q s))"
proof -
  obtain p s1 where s1: "bearer_login x e (rq_authorization q) s = (p, s1)" by force
  then have "P s1" using bearer_login [OF assms, of "rq_authorization q"] by simp
  moreover from this have "P (snd (resolveSession e (the (rq_pgos_session q)) s1))" by (rule resolve)
  ultimately show ?thesis
    by (cases "resolveSession e (the (rq_pgos_session q)) s1")
       (simp add: authenticate_def s1 split: option.split outcome.split)
qed

lemma guarded:
  assumes "P s" and handler: "\<And>p s1. P s1 \<Longrightarrow> P (snd (handler p s1))"
  shows "P (snd (guarded x e minRole q s handler))"
proof -
  obtain g s1 where g: "authenticate x e q s = (g, s1)" by force
  then have "P s1" using authenticated [OF assms(1), of q] by simp
  then show ?thesis using handler by (simp add: guarded_def g split: guard.split option.split)
qed

lemma bootstrap: assumes "P s" shows "P (snd (ensureBootstrapAdmin x e s))"
proof -
  have "P (snd (hashPassword x pw s))" for pw
    using draw [OF assms, of "ax_salt x"]
    by (cases "a_draw (ax_salt x) s") (simp add: hashPassword_def split: option.split)
  then have h: "P s1" if "hashPassword x pw s = (r, s1)" for pw r s1 by (metis snd_conv that)
  have "P (snd (let (i, s2) = a_draw (x_uuid (ax_ext x)) s1 in
      (Ret (), if row_by us_email m (a_users s2) \<noteq> None then s2 else s2\<lparr>a_users := a_users s2 @ [f i]\<rparr>)))"
    if "P s1" for s1 m f
    using draw [OF that, of "x_uuid (ax_ext x)"] users
    by (cases "a_draw (x_uuid (ax_ext x)) s1") simp
  with h assms show ?thesis
    by (simp add: ensureBootstrapAdmin_def Let_def split: prod.split outcome.split)
qed

lemma login: assumes "P s" shows "P (snd (route_login x e hook body s))"
proof -
  obtain r s1 where b: "ensureBootstrapAdmin x e s = (r, s1)" by force
  then have s1: "P s1" using bootstrap [OF assms] by simp
  have c: "P s2" if "createSession x e u s1 = (v, s2)" for u v s2 using create [OF s1, of u] that by simp
  show ?thesis using assms s1 c
    by (simp add: route_login_def b split: rate_reply.split outcome.split option.split prod.split)
qed

lemma logout: "P s \<Longrightarrow> P (snd (route_logout x e q s))"
  unfolding route_logout_def by (rule guarded) (simp_all add: destroy)

lemma issue_route: assumes "P s" shows "P (snd (route_issue x e q body s))"
  unfolding route_issue_def
proof (rule guarded [OF assms])
  fix p s1 assume "P s1"
  then have "P (snd (issueApiToken x e u r n t s1))" for u r n t by (rule issue)
  then have "P s2" if "issueApiToken x e u r n t s1 = (v, s2)" for u r n t v s2 by (metis snd_conv that)
  then show "P (snd (case body of None \<Rightarrow> (Failure zod_error, s1)
       | Some b \<Rightarrow>
           if tr_name b = [] \<or> tr_role b = callback then (Failure zod_error, s1)
           else case issueApiToken x e (or_default (tr_userId b) (ap_userId p)) (tr_role b) (tr_name b)
                       (tr_expiresInSeconds b) s1 of
                  (Throw er, s2) \<Rightarrow> (Failure er, s2)
                | (Ret r, s2) \<Rightarrow> (Sent r, s2)))"
    using \<open>P s1\<close> by (auto split: option.split prod.split outcome.split)
qed

lemma revoke_route: "P s \<Longrightarrow> P (snd (route_revoke x e q jti rsn s))"
  unfolding route_revoke_def by (rule guarded) (simp_all add: revoke)

lemma read_routes: "P s \<Longrightarrow> P (snd (route_me x e q s))" "P s \<Longrightarrow> P (snd (route_tokens x e q s))"
  unfolding route_me_def route_tokens_def by (rule guarded; simp)+

end

section \<open>Revoked tokens\<close>

definition revoked_out :: "string \<Rightarrow> auth_state \<Rightarrow> bool" where
  "revoked_out jti s =
     (row_by rv_jti jti (a_revocations s) \<noteq> None \<and>
      (\<forall>v ex. a_redis s (REVOCATION_REDIS_PREFIX @ jti) = Some (v, ex) \<longrightarrow> v = ''1''))"

lemma upsert_revocation_row:
  "row_by rv_jti k (upsert_revocation r rs) \<noteq> None \<longleftrightarrow> k = rv_jti r \<or> row_by rv_jti k rs \<noteq> None"
proof -
  have "row_by rv_jti k (set_row rv_jti (rv_jti r) (\<lambda>_. r) rs) \<noteq> None \<longleftrightarrow> row_by rv_jti k rs \<noteq> None"
    by (induction rs) auto
  then show ?thesis
    by (auto simp: upsert_revocation_def row_by_append split: option.split if_splits)
qed

lemma revoked_out_iff: "revoked_out jti s \<Longrightarrow> fst (isRevoked jti s)"
  by (auto simp: revoked_out_def isRevoked_def revoked_cached_def revoked_query_def redis_get_def Let_def
      split: option.splits prod.splits if_splits)

lemma revokeToken_fields:
  "a_redis (revokeToken jti rsn s) = (a_redis s)(REVOCATION_REDIS_PREFIX @ jti \<mapsto> (''1'', a_now s + 3600 * 1000))"
  "a_revocations (revokeToken jti rsn s) =
     upsert_revocation \<lparr>rv_jti = jti, rv_reason = rsn, rv_revokedAt = a_now s\<rparr> (a_revocations s)"
  "a_sessions (revokeToken jti rsn s) = a_sessions s"
  "nonce (a_world (revokeToken jti rsn s)) = nonce (a_world s)"
  "a_now (revokeToken jti rsn s) = a_now s"
  by (simp_all add: revokeToken_def Let_def redis_set_def a_audit_def audit_def a_now_def)

lemma revoked_out_check: assumes "revoked_out jti s" shows "revoked_out jti (snd (isRevoked j s))"
proof (cases "revoked_cached j s")
  case None
  have "revoked_out jti (revoked_store j (revoked_query j s) s)"
    using assms by (auto simp: revoked_out_def revoked_store_def redis_set_def revoked_query_def)
  with None show ?thesis by (simp add: isRevoked_def Let_def)
qed (simp add: isRevoked_def assms)

lemma revoked_out_revoke: "revoked_out jti s \<or> j = jti \<Longrightarrow> revoked_out jti (revokeToken j rsn s)"
  by (auto simp: revoked_out_def revokeToken_fields upsert_revocation_row simp del: not_None_eq)

interpretation revoked: auth_invariant x e "revoked_out jti"
proof unfold_locales
  fix s
  assume s: "revoked_out jti s"
  show "revoked_out jti (s\<lparr>a_world := w\<rparr>)" for w using s by (simp add: revoked_out_def)
  show "revoked_out jti (s\<lparr>a_tokens := a_tokens s @ [row]\<rparr>)" for row using s by (simp add: revoked_out_def)
  show "revoked_out jti (s\<lparr>a_users := us\<rparr>)" for us using s by (simp add: revoked_out_def)
  show "revoked_out jti (snd (isRevoked j s))" for j by (rule revoked_out_check [OF s])
  show "revoked_out jti (revokeToken j rsn s)" for j rsn by (rule revoked_out_revoke) (simp add: s)
  show "revoked_out jti (snd (createSession x e u s))" for u
    using s by (simp add: revoked_out_def createSession_def a_draw_eq Let_def redis_set_def)
  show "revoked_out jti (destroySession i s)" for i
    using s by (simp add: revoked_out_def destroySession_def redis_del_def)
  show "revoked_out jti (snd (session_user e i s))" for i
    using s by (simp add: revoked_out_def session_user_def Let_def redis_set_def split: option.split)
qed

section \<open>Destroyed sessions\<close>

text \<open>The ids still to be drawn differ from the session's, as random UUIDs do.\<close>

definition session_out :: "auth_ext \<Rightarrow> string \<Rightarrow> auth_state \<Rightarrow> bool" where
  "session_out x i s =
     (a_redis s (SESSION_REDIS_PREFIX @ i) = None \<and> (\<forall>r \<in> set (a_sessions s). ss_id r \<noteq> i) \<and>
      (\<forall>n \<ge> nonce (a_world s). x_uuid (ax_ext x) n \<noteq> i))"

lemma session_out_user: assumes s: "session_out x i s" shows "session_user e i s = (Ret None, s)"
proof -
  have "find (\<lambda>r. ss_id r = i \<and> a_now s < ss_expiresAt r) (a_sessions s) = None"
    using s by (auto simp: session_out_def find_None_iff)
  then show ?thesis using s by (simp add: session_out_def session_user_def redis_get_def truthy_def Let_def)
qed

lemma session_out_create: assumes s: "session_out x i s" shows "session_out x i (snd (createSession x e u s))"
proof -
  have "x_uuid (ax_ext x) (nonce (a_world s)) \<noteq> i" using s by (simp add: session_out_def)
  with s show ?thesis
    by (auto simp: session_out_def createSession_def a_draw_eq Let_def redis_set_def)
qed

lemma session_out_find: assumes s: "session_out x i s" shows "session_out x i (snd (session_user e j s))"
proof (cases "j = i")
  case True
  then show ?thesis using s by (simp add: session_out_user)
next
  case False
  with s show ?thesis
    by (simp add: session_out_def session_user_def Let_def redis_set_def split: option.split)
qed

lemma isRevoked_other: 
  "a_sessions (snd (isRevoked j s)) = a_sessions s" "a_world (snd (isRevoked j s)) = a_world s"
  "a_redis (snd (isRevoked j s)) (SESSION_REDIS_PREFIX @ i) = a_redis s (SESSION_REDIS_PREFIX @ i)"
  by (simp_all add: isRevoked_def Let_def revoked_store_def redis_set_def split: option.split)

interpretation logged_out: auth_invariant x e "session_out x i"
proof unfold_locales
  fix s
  assume s: "session_out x i s"
  show "session_out x i (s\<lparr>a_world := w\<rparr>)" if "nonce (a_world s) \<le> nonce w" for w
    using s that by (simp add: session_out_def)
  show "session_out x i (s\<lparr>a_tokens := a_tokens s @ [row]\<rparr>)" for row using s by (simp add: session_out_def)
  show "session_out x i (s\<lparr>a_users := us\<rparr>)" for us using s by (simp add: session_out_def)
  show "session_out x i (snd (isRevoked j s))" for j using s by (simp add: session_out_def isRevoked_other)
  show "session_out x i (revokeToken j rsn s)" for j rsn
    using s by (simp add: session_out_def revokeToken_fields)
  show "session_out x i (snd (createSession x e u s))" for u by (rule session_out_create [OF s])
  show "session_out x i (destroySession j s)" for j
    using s by (simp add: session_out_def destroySession_def redis_del_def)
  show "session_out x i (snd (session_user e j s))" for j by (rule session_out_find [OF s])
qed

section \<open>Runs of requests\<close>

text \<open>
  Requests to the routes of \<open>routes/auth.ts\<close> and to any other authenticated route, in any order, with the
  rest of the orchestrator and the clock going on in between.
\<close>

inductive auth_step :: "auth_ext \<Rightarrow> auth_env \<Rightarrow> auth_state \<Rightarrow> auth_state \<Rightarrow> bool" for x e where
  elsewhere: "a_now s \<le> now w \<Longrightarrow> nonce (a_world s) \<le> nonce w \<Longrightarrow> auth_step x e s (s\<lparr>a_world := w\<rparr>)"
| request: "auth_step x e s (snd (authenticate x e q s))"
| login: "auth_step x e s (snd (route_login x e hook body s))"
| logout: "auth_step x e s (snd (route_logout x e q s))"
| me: "auth_step x e s (snd (route_me x e q s))"
| issue: "auth_step x e s (snd (route_issue x e q tr s))"
| revoke: "auth_step x e s (snd (route_revoke x e q jti rsn s))"
| listing: "auth_step x e s (snd (route_tokens x e q s))"

abbreviation auth_run :: "auth_ext \<Rightarrow> auth_env \<Rightarrow> auth_state \<Rightarrow> auth_state \<Rightarrow> bool" where
  "auth_run x e \<equiv> (auth_step x e)\<^sup>*\<^sup>*"

context auth_invariant begin

lemma step: "auth_step x e s t \<Longrightarrow> P s \<Longrightarrow> P t"
  by (induction rule: auth_step.induct)
     (simp_all add: elsewhere authenticated login logout read_routes issue_route revoke_route)

lemma run: "auth_run x e s t \<Longrightarrow> P s \<Longrightarrow> P t"
  by (induction rule: rtranclp_induct) (auto intro: step)

end

lemma bearer_jti:
  assumes "verifyBearer x e token s = (Some p, s')"
  shows "\<not> fst (isRevoked (ap_jti p) s)"
  using assms by (auto simp: verifyBearer_def Let_def split: option.splits prod.splits if_splits)

lemma authenticate_jti:
  assumes "authenticate x e q s = (Granted p, s')"
  shows "(\<exists>j. ap_jti p = ''callback:'' @ j) \<or>
    (\<exists>s1. bearer_login x e (rq_authorization q) s = (Some p, s1) \<and> \<not> fst (isRevoked (ap_jti p) s)) \<or>
    (\<exists>i s1 s2. ap_jti p = ''session:'' @ i \<and> bearer_login x e (rq_authorization q) s = (None, s1)
       \<and> resolveSession e i s1 = (Ret (Some p), s2))"
proof (cases "bearer_login x e (rq_authorization q) s")
  case (Pair r s1)
  show ?thesis
  proof (cases r)
    case None
    with assms Pair obtain s2 where r: "resolveSession e (the (rq_pgos_session q)) s1 = (Ret (Some p), s2)"
      by (auto simp: authenticate_def split: if_splits prod.splits outcome.splits option.splits)
    then have "ap_jti p = ''session:'' @ the (rq_pgos_session q)"
      by (auto simp: resolveSession_def split: prod.splits outcome.splits option.splits)
    with r None Pair show ?thesis by blast
  next
    case (Some p')
    with assms Pair have p: "p' = p" by (simp add: authenticate_def)
    obtain a where a: "rq_authorization q = Some a" using Pair Some by (auto simp: bearer_login_def split: option.splits)
    show ?thesis
    proof (cases "callback_login x (drop 7 a) s")
      case (Some c)
      then have "\<exists>j. ap_jti c = ''callback:'' @ j"
        by (auto simp: callback_login_def callback_principal_def split: if_splits option.splits prod.splits)
      moreover have "c = p" using Pair \<open>r = Some p'\<close> p a Some by (auto simp: bearer_login_def Let_def split: if_splits)
      ultimately show ?thesis by blast
    next
      case None
      then have "verifyBearer x e (drop 7 a) s = (Some p, s1)"
        using Pair Some p a by (auto simp: bearer_login_def Let_def split: if_splits)
      from bearer_jti [OF this] Pair Some p show ?thesis by blast
    qed
  qed
qed

section \<open>Properties\<close>

text \<open>
  C6 (safety). After a token is revoked no request is ever authenticated with it again, whatever requests
  come later, however long they wait and whichever entries of the cache expire, as long as no two requests
  overlap; ids of the form that callbacks and sessions have are no token ids.
\<close>

theorem revoked_token_stays_out:
  assumes run: "auth_run x e (revokeToken jti rsn s) t"
    and granted: "authenticate x e q t = (Granted p, t')"
    and id: "\<not> starts_with jti ''callback:''" "\<not> starts_with jti ''session:''"
  shows "ap_jti p \<noteq> jti"
proof
  assume p: "ap_jti p = jti"
  have "revoked_out jti (revokeToken jti rsn s)" by (rule revoked_out_revoke) simp
  then have "revoked_out jti t" by (rule revoked.run [OF run])
  then have "fst (isRevoked (ap_jti p) t)" unfolding p by (rule revoked_out_iff)
  moreover have "ap_jti p \<noteq> ''callback:'' @ j" "ap_jti p \<noteq> ''session:'' @ j" for j
    using id unfolding p starts_with_iff by blast+
  ultimately show False using authenticate_jti [OF granted] by blast
qed

text \<open>
  C7 (safety). After a logout the session never resolves to a user again, in the same sense; the ids drawn
  for later sessions are new.
\<close>

theorem destroyed_session_stays_out:
  assumes run: "auth_run x e (destroySession i s) t"
    and fresh: "\<forall>n \<ge> nonce (a_world s). x_uuid (ax_ext x) n \<noteq> i"
  shows "resolveSession e i t = (Ret None, t)"
proof -
  have "session_out x i (destroySession i s)"
    using fresh by (simp add: session_out_def destroySession_def redis_del_def)
  then have "session_out x i t" by (rule logged_out.run [OF run])
  from session_out_user [OF this] show ?thesis by (simp add: resolveSession_def)
qed

text \<open>
  The promise does not hold for overlapping requests: when a check has read the tables before a
  revocation and writes its answer to the cache after it, the revoked token passes every check of the next
  hour.
\<close>

theorem revocation_lost_in_race:
  assumes "revoked_cached jti s = None" and "\<not> revoked_query jti s"
    and "s2 = revoked_store jti (revoked_query jti s) (revokeToken jti rsn s)"
    and "t < a_now s + 3600 * 1000"
  shows "row_by rv_jti jti (a_revocations s2) \<noteq> None \<and>
    \<not> fst (isRevoked jti (s2\<lparr>a_world := (a_world s2)\<lparr>now := t\<rparr>\<rparr>))"
proof -
  have "row_by rv_jti jti (a_revocations s2) \<noteq> None"
    unfolding assms(3) revoked_store_def redis_set_def
    using upsert_revocation_row [of jti "\<lparr>rv_jti = jti, rv_reason = rsn, rv_revokedAt = a_now s\<rparr>" "a_revocations s"]
    by (simp add: revokeToken_fields)
  moreover have "\<not> fst (isRevoked jti (s2\<lparr>a_world := (a_world s2)\<lparr>now := t\<rparr>\<rparr>))"
    using assms(2,4) by (simp add: assms(3) isRevoked_def revoked_cached_def redis_get_def revoked_store_def
        redis_set_def revokeToken_fields Let_def)
  ultimately show ?thesis ..
qed

lemma guarded_sent:
  assumes "guarded x e (Some r) q s h = (Sent b, s')"
  shows "\<exists>p s1. authenticate x e q s = (Granted p, s1) \<and> hasMinRole (ap_role p) r"
  using assms by (auto simp: guarded_def requireRole_def split: prod.splits guard.splits option.splits if_splits)

lemma admin_min_role [simp]: "hasMinRole r admin \<longleftrightarrow> r = admin"
  by (cases r) (simp_all add: hasMinRole_def)

lemma admin_principal:
  assumes "authenticate x e q s = (Granted p, s1)" "ap_role p = admin"
  shows "(\<exists>token c. bearer_claims x e token s = Some c \<and> jc_role c = Some admin \<and> jc_jti c = Some (ap_jti p)
            \<and> \<not> fst (isRevoked (ap_jti p) s))
    \<or> (\<exists>u \<in> set (a_users s). us_id u = ap_userId p \<and> us_role u = admin)"
proof -
  obtain r t where b: "bearer_login x e (rq_authorization q) s = (r, t)" by force
  have users: "a_users (snd (verifyBearer x e token s)) = a_users s" for token
    by (simp add: verifyBearer_def Let_def isRevoked_def revoked_store_def redis_set_def split: option.split prod.split)
  then have t: "a_users t = a_users s" using b
    by (auto simp: bearer_login_def Let_def split: option.splits if_splits)
       (metis snd_conv)+
  show ?thesis
  proof (cases r)
    case None
    with assms b obtain i where "resolveSession e i t = (Ret (Some p), s1)"
      by (auto simp: authenticate_def split: if_splits prod.splits outcome.splits option.splits)
    then obtain uid t2 u where u: "session_user e i t = (Ret (Some uid), t2)" "row_by us_id uid (a_users t2) = Some u"
      "ap_userId p = us_id u" "ap_role p = us_role u"
      by (auto simp: resolveSession_def split: prod.splits outcome.splits option.splits)
    have "a_users t2 = a_users t"
      using u(1) by (auto simp: session_user_def Let_def redis_set_def split: if_splits option.splits)
    with u t assms(2) show ?thesis using row_by_Some [OF u(2)] by auto
  next
    case (Some p')
    with assms b have p: "p' = p" by (simp add: authenticate_def)
    obtain a where a: "rq_authorization q = Some a" using b Some by (auto simp: bearer_login_def split: option.splits)
    have "callback_login x (drop 7 a) s \<noteq> Some p"
      using assms(2) by (auto simp: callback_login_def callback_principal_def split: option.splits)
    then have v: "verifyBearer x e (drop 7 a) s = (Some p, t)"
      using b Some p a by (auto simp: bearer_login_def Let_def split: if_splits option.splits)
    then obtain c where "bearer_claims x e (drop 7 a) s = Some c" "ap_role p = or_default (jc_role c) viewer"
      "jc_jti c = Some (ap_jti p)"
      by (auto simp: verifyBearer_def Let_def truthy_def split: option.splits prod.splits if_splits)
    with assms(2) bearer_jti [OF v] show ?thesis by (auto simp: or_default_def split: option.splits)
  qed
qed

text \<open>
  C8 (safety). Tokens are issued, revoked and listed only for an admin: a request that succeeds comes with
  an unrevoked token whose verified claims say admin, or with a session of a user whose row says admin; a
  job's callback token never does.
\<close>

theorem admin_routes_need_admin:
  assumes "fst (route_issue x e q b s) = Sent r1 \<or> fst (route_revoke x e q jti rsn s) = Sent r2
    \<or> fst (route_tokens x e q s) = Sent r3"
  shows "\<exists>p s1. authenticate x e q s = (Granted p, s1) \<and> ap_role p = admin \<and>
    ((\<exists>token c. bearer_claims x e token s = Some c \<and> jc_role c = Some admin \<and> jc_jti c = Some (ap_jti p)
            \<and> \<not> fst (isRevoked (ap_jti p) s))
     \<or> (\<exists>u \<in> set (a_users s). us_id u = ap_userId p \<and> us_role u = admin))"
proof -
  have sent: "\<exists>p s1. authenticate x e q s = (Granted p, s1) \<and> hasMinRole (ap_role p) admin"
    if "fst (guarded x e (Some admin) q s h) = Sent v" for h :: "AuthPrincipal \<Rightarrow> auth_state \<Rightarrow> 'b reply \<times> auth_state" and v
    using guarded_sent [of x e admin q s h v "snd (guarded x e (Some admin) q s h)"] that
    by (metis prod.collapse)
  from assms have "\<exists>p s1. authenticate x e q s = (Granted p, s1) \<and> hasMinRole (ap_role p) admin"
    unfolding route_issue_def route_revoke_def route_tokens_def by (elim disjE) (rule sent, assumption)+
  then obtain p s1 where "authenticate x e q s = (Granted p, s1)" "ap_role p = admin" by auto
  from this admin_principal [OF this] show ?thesis by blast
qed


text \<open>
  A session may outlive its row: when its cache entry is gone, resolving it caches it for a full lifetime,
  whatever is left of the row's.
\<close>

theorem session_outlives_row:
  assumes "redis_get (SESSION_REDIS_PREFIX @ i) s = None" "ae_SESSION_TTL_SECONDS e \<noteq> 0"
    and "find (\<lambda>r. ss_id r = i \<and> a_now s < ss_expiresAt r) (a_sessions s) = Some r"
    and "row_by us_id (ss_userId r) (a_users s) = Some u" "ss_userId r \<noteq> []"
    and "t < a_now s + ae_SESSION_TTL_SECONDS e * 1000"
  shows "\<exists>p s2. resolveSession e i
    ((snd (resolveSession e i s))\<lparr>a_world := (a_world (snd (resolveSession e i s)))\<lparr>now := t\<rparr>\<rparr>) = (Ret (Some p), s2)"
proof -
  have "session_user e i s = (Ret (Some (ss_userId r)), redis_set (SESSION_REDIS_PREFIX @ i) (ss_userId r) (ae_SESSION_TTL_SECONDS e) s)"
    using assms by (simp add: session_user_def truthy_def Let_def)
  then have s1: "snd (resolveSession e i s) = redis_set (SESSION_REDIS_PREFIX @ i) (ss_userId r) (ae_SESSION_TTL_SECONDS e) s"
    using assms(4) by (simp add: resolveSession_def redis_set_def)
  show ?thesis unfolding s1
    using assms by (simp add: resolveSession_def session_user_def redis_set_def redis_get_def truthy_def Let_def)
qed

section \<open>Instances\<close>

definition auth_ext_example :: auth_ext where
  "auth_ext_example =
     \<lparr>ax_ext = ext_example\<lparr>x_uuid := (\<lambda>n. ''id-'' @ show_nat n)\<rparr>, ax_file = (\<lambda>_. None), ax_importable = (\<lambda>_. True),
      ax_sign = (\<lambda>k c iss aud t0 life. ''eyJ'' @ show_nat (t0 + life * 1000)),
      ax_verify = (\<lambda>k iss aud t token. if t < parse_nat (drop 3 token)
         then Some \<lparr>jc_sub = Some ''ann'', jc_jti = Some ''id-0'', jc_role = Some admin, jc_kind = Some api_token, jc_jobId = None\<rparr>
         else None),
      ax_scrypt = (\<lambda>pw salt n N r p. Some pw), ax_salt = (\<lambda>_. ''salt''), ax_sha256_hex = id, ax_b64 = id, ax_unb64 = id\<rparr>"

definition auth_env_example :: auth_env where
  "auth_env_example =
     \<lparr>ae_production = False, ae_JWT_PRIVATE_KEY = None, ae_JWT_PUBLIC_KEY = None, ae_JWT_PRIVATE_KEY_PATH = None,
      ae_JWT_PUBLIC_KEY_PATH = None, ae_JWT_ISSUER = ''pgos'', ae_JWT_AUDIENCE = ''pgos-api'', ae_JWE_SECRET = ''dev'',
      ae_SESSION_TTL_SECONDS = 86400, ae_BOOTSTRAP_ADMIN_EMAIL = ''admin@localhost'', ae_BOOTSTRAP_ADMIN_PASSWORD = []\<rparr>"

text \<open>One admin with a session, beside an API token of hers that was issued as \<open>id-0\<close>.\<close>

definition auth_example :: auth_state where
  "auth_example =
     \<lparr>a_world = empty_lock_fields\<lparr>nonce := 5\<rparr>,
      a_users = [\<lparr>us_id = ''ann'', us_email = ''ann@example.org'', us_displayName = ''Ann'', us_role = admin, us_passwordHash = None\<rparr>],
      a_tokens = [], a_revocations = [],
      a_sessions = [\<lparr>ss_id = ''s1'', ss_userId = ''ann'', ss_expiresAt = 5000\<rparr>], a_redis = Map.empty\<rparr>"

definition by_session :: auth_request where
  "by_session = \<lparr>rq_authorization = Some ''Bearer eyJ9000'', rq_pgos_session = Some ''s1''\<rparr>"

lemmas auth_example_defs = auth_ext_example_def auth_env_example_def auth_example_def by_session_def
  empty_lock_fields_def ext_example_def

definition granted_jti :: "guard \<times> auth_state \<Rightarrow> string option" where
  "granted_jti r = (case fst r of Granted p \<Rightarrow> Some (ap_jti p) | _ \<Rightarrow> None)"

lemma granted_jtiD: "granted_jti r = Some j \<Longrightarrow> \<exists>p t. r = (Granted p, t) \<and> ap_jti p = j"
  by (cases r) (auto simp: granted_jti_def split: guard.splits)

theorem revoked_token_stays_out_witness:
  "\<exists>p t. authenticate auth_ext_example auth_env_example by_session (revokeToken ''id-0'' None auth_example) = (Granted p, t)
     \<and> ap_jti p = ''session:s1'' \<and> ap_jti p \<noteq> ''id-0''"
proof -
  have "granted_jti (authenticate auth_ext_example auth_env_example by_session (revokeToken ''id-0'' None auth_example))
      = Some ''session:s1''"
    by code_simp
  then obtain p t where p: "authenticate auth_ext_example auth_env_example by_session (revokeToken ''id-0'' None auth_example) = (Granted p, t)"
      "ap_jti p = ''session:s1''"
    by (blast dest: granted_jtiD)
  have "\<not> starts_with ''id-0'' ''callback:''" "\<not> starts_with ''id-0'' ''session:''" by (simp_all add: starts_with_def)
  from revoked_token_stays_out [OF rtranclp.rtrancl_refl p(1) this] p show ?thesis by blast
qed

theorem destroyed_session_stays_out_witness:
  "resolveSession auth_env_example ''s1'' (destroySession ''s1'' auth_example) = (Ret None, destroySession ''s1'' auth_example)"
proof -
  have fresh: "x_uuid (ax_ext auth_ext_example) n \<noteq> ''s1''" for n by (simp add: auth_ext_example_def)
  show ?thesis by (rule destroyed_session_stays_out [OF rtranclp.rtrancl_refl]) (use fresh in blast)
qed

theorem revocation_lost_in_race_witness:
  "\<not> fst (isRevoked ''id-0'' ((revoked_store ''id-0'' False (revokeToken ''id-0'' None auth_example))
     \<lparr>a_world := (a_world (revoked_store ''id-0'' False (revokeToken ''id-0'' None auth_example)))\<lparr>now := 3600000\<rparr>\<rparr>))"
proof -
  have q: "revoked_query ''id-0'' auth_example = False" by code_simp
  have c: "revoked_cached ''id-0'' auth_example = None" by code_simp
  have t: "3600000 < a_now auth_example + 3600 * 1000" by code_simp
  show ?thesis
    using revocation_lost_in_race [OF c _ refl t, of None] unfolding q by blast
qed

theorem admin_routes_need_admin_witness:
  "\<exists>p s1. authenticate auth_ext_example auth_env_example by_session auth_example = (Granted p, s1) \<and> ap_role p = admin"
proof -
  have "fst (route_revoke auth_ext_example auth_env_example by_session ''id-7'' None auth_example) = Sent True"
    by code_simp
  then show ?thesis using admin_routes_need_admin by blast
qed


end
