(* ===== verification/Uid.thy ===== *)
theory Uid
  imports Merge_Outbox "HOL-Library.Word"
begin

text \<open>
  \<open>services/uid-service.ts\<close>: the mapping of asset paths to UIDs, its reservations, and the resolution of
  duplicate UIDs in the tables. The files are in \<open>Uid_Files\<close>.

  The advisory lock of Postgres is a parameter, the times at which it is free; a poll takes no time beside
  the pause. Rows are in the order of their creation. Queries without an order give that order, and texts
  are ordered by code units.
\<close>

section \<open>State\<close>

datatype UidNamespace = GEN | OVRD | TMP | USER

record UidRow =
  um_id :: string
  um_projectId :: string
  um_path :: string
  um_uid :: string
  um_namespace :: UidNamespace
  um_reservedBy :: "string option"
  um_updatedAt :: nat

text \<open>The entries of a directory as \<open>readdir\<close> lists them; \<open>None\<close> for a directory it cannot read.\<close>

datatype dirent = Directory string "dirent list option" | Plain string | Special string

datatype godot_exit = GodotTimeout | GodotError string | GodotClosed "nat option" string

record uid_env =
  ux_env :: env
  ux_ext :: ext
  ux_hex :: "nat \<Rightarrow> string"
  ux_lock_free :: "int \<Rightarrow> nat \<Rightarrow> bool"
  ux_tree :: "string \<Rightarrow> dirent list option"
  ux_writable :: "string \<Rightarrow> bool"
  ux_godot :: "nat \<Rightarrow> string \<Rightarrow> godot_exit"
  ux_put_error :: "nat \<Rightarrow> string option"
  ux_dispatch :: "nat \<Rightarrow> (nat option \<times> bool) + string"

record uid_state =
  u_world :: world
  u_rows :: "UidRow list"
  u_meta :: "string \<Rightarrow> metadata option"
  u_files :: "string \<Rightarrow> string option"
  u_objects :: "(string \<times> string) list"
  u_calls :: "(string \<times> attrs) list"

definition u_upd :: "(world \<Rightarrow> world) \<Rightarrow> uid_state \<Rightarrow> uid_state" where
  "u_upd f s = s\<lparr>u_world := f (u_world s)\<rparr>"

definition u_draw :: "(nat \<Rightarrow> 'b) \<Rightarrow> uid_state \<Rightarrow> 'b \<times> uid_state" where
  "u_draw f s = (let (r, w) = draw f (u_world s) in (r, s\<lparr>u_world := w\<rparr>))"

definition u_now :: "uid_state \<Rightarrow> nat" where
  "u_now s = now (u_world s)"

definition u_set_row :: "string \<Rightarrow> (UidRow \<Rightarrow> UidRow) \<Rightarrow> uid_state \<Rightarrow> uid_state" where
  "u_set_row i f s = s\<lparr>u_rows := set_row um_id i f (u_rows s)\<rparr>"

section \<open>Reservations\<close>

text \<open>\<open>(Math.imul(31, h) + charCode) | 0\<close> is arithmetic modulo \<open>2 ^ 32\<close>, read as a signed number.\<close>

definition hashToInt :: "string \<Rightarrow> int" where
  "hashToInt s = sint (foldl (\<lambda>h c. 31 * h + word_of_nat (code c)) (0 :: 32 word) s)"

text \<open>The answer and the time it comes.\<close>

function waitForAdvisoryLock :: "(nat \<Rightarrow> bool) \<Rightarrow> nat \<Rightarrow> nat \<Rightarrow> bool \<times> nat" where
  "waitForAdvisoryLock free deadline t =
     (if t < deadline then if free t then (True, t) else waitForAdvisoryLock free deadline (t + 50) else (False, t))"
  by pat_completeness auto
termination by (relation "measure (\<lambda>(_, deadline, t). deadline - t)") auto

declare waitForAdvisoryLock.simps [simp del]

record ReserveOpts =
  rs_projectId :: string
  rs_logicalAssetPath :: string
  rs_jobId :: "string option"
  rs_lockTimeoutMs :: "nat option"

record Reservation =
  re_id :: string
  re_uid :: string
  re_path :: string

definition path_row :: "string \<Rightarrow> string \<Rightarrow> uid_state \<Rightarrow> UidRow option" where
  "path_row projectId path s = find (\<lambda>r. um_projectId r = projectId \<and> um_path r = path) (u_rows s)"

definition uid_foreign_key :: js_error where
  "uid_foreign_key = JsError None (Some ''23503'') ''violates foreign key constraint''"

definition known_job :: "string option \<Rightarrow> uid_state \<Rightarrow> bool" where
  "known_job j s = (case j of None \<Rightarrow> True | Some i \<Rightarrow> get_job (u_world s) i \<noteq> None)"

definition opt_json :: "string option \<Rightarrow> metadata" where
  "opt_json j = (case j of None \<Rightarrow> [] | Some i \<Rightarrow> [(''jobId'', JStr i)])"

text \<open>The transaction, under the lock.\<close>

definition reserve_locked :: "uid_env \<Rightarrow> ReserveOpts \<Rightarrow> string \<Rightarrow> string \<Rightarrow> uid_state
    \<Rightarrow> Reservation outcome \<times> uid_state" where
  "reserve_locked x o' logical tmpUid s =
     (case path_row (rs_projectId o') logical s of
        Some row \<Rightarrow>
          if um_namespace row = TMP \<and> truthy (um_reservedBy row) \<and> um_reservedBy row \<noteq> rs_jobId o'
          then (Throw (system_error (''UID path reserved by job '' @ the (um_reservedBy row) @ ''; retry after that job completes'')), s)
          else if um_namespace row \<noteq> TMP
          then (Ret \<lparr>re_id = um_id row, re_uid = um_uid row, re_path = logical\<rparr>, s)
          else if \<not> known_job (rs_jobId o') s then (Throw uid_foreign_key, s)
          else (Ret \<lparr>re_id = um_id row, re_uid = tmpUid, re_path = logical\<rparr>,
                u_set_row (um_id row) (\<lambda>r. r\<lparr>um_uid := tmpUid, um_namespace := TMP, um_reservedBy := rs_jobId o',
                                           um_updatedAt := u_now s\<rparr>) s)
      | None \<Rightarrow>
          let (i, s1) = u_draw (x_uuid (ux_ext x)) s in
          if get_project (u_world s1) (rs_projectId o') = None \<or> \<not> known_job (rs_jobId o') s1
          then (Throw uid_foreign_key, s1)
          else (Ret \<lparr>re_id = i, re_uid = tmpUid, re_path = logical\<rparr>,
                u_upd (audit (audit_entry None ''uid.reserved'' ''uid_mapping'' (Some i)
                        ([(''projectId'', JStr (rs_projectId o')), (''logical'', JStr logical), (''tmpUid'', JStr tmpUid)]
                         @ opt_json (rs_jobId o'))))
                  (s1\<lparr>u_rows := u_rows s1 @
                     [\<lparr>um_id = i, um_projectId = rs_projectId o', um_path = logical, um_uid = tmpUid, um_namespace = TMP,
                       um_reservedBy = rs_jobId o', um_updatedAt = u_now s1\<rparr>]\<rparr>)))"

definition reserve :: "uid_env \<Rightarrow> ReserveOpts \<Rightarrow> uid_state \<Rightarrow> Reservation outcome \<times> uid_state" where
  "reserve x o' s =
     (let logical = normalizeLogicalPath (rs_logicalAssetPath o') in
      if \<not> isSafeLogicalAssetPath logical
      then (Throw (PathTraversalError (''Unsafe logical asset path: '' @ rs_logicalAssetPath o')), s)
      else
        let (hex, s1) = u_draw (ux_hex x) s;
            tmpUid = ''uid://TMP-'' @ hex;
            lockId = hashToInt (rs_projectId o' @ '':'' @ logical);
            timeoutMs = or_default (rs_lockTimeoutMs o') 30000;
            (acquired, t) = waitForAdvisoryLock (ux_lock_free x lockId) (u_now s1 + timeoutMs) (u_now s1);
            s2 = u_upd (\<lambda>w. w\<lparr>now := t\<rparr>) s1
        in if \<not> acquired
           then (Throw (JsError (Some 409) (Some ''E008'')
                   (''UID reservation lock timeout after '' @ show_nat timeoutMs @ ''ms for '' @ logical)), s2)
           else reserve_locked x o' logical tmpUid s2)"

definition commitReservation :: "string \<Rightarrow> string \<Rightarrow> string \<Rightarrow> UidNamespace option \<Rightarrow> uid_state
    \<Rightarrow> unit outcome \<times> uid_state" where
  "commitReservation projectId reservationId finalUid ns s =
     (case row_by um_id reservationId (u_rows s) of
        Some r \<Rightarrow>
          if um_projectId r \<noteq> projectId
          then (Throw (JsError (Some 404) None ''Reservation not found for this project''), s)
          else
            let n = or_default ns GEN in
            (Ret (),
             u_upd (audit (audit_entry None ''uid.committed'' ''uid_mapping'' (Some reservationId)
                      [(''finalUid'', JStr finalUid),
                       (''namespace'', JStr (case n of GEN \<Rightarrow> ''GEN-'' | OVRD \<Rightarrow> ''OVRD-'' | TMP \<Rightarrow> ''TMP-'' | USER \<Rightarrow> ''USER-''))]))
               (u_set_row reservationId (\<lambda>r. r\<lparr>um_uid := finalUid, um_namespace := n, um_reservedBy := None,
                                               um_updatedAt := u_now s\<rparr>) s))
      | None \<Rightarrow> (Throw (JsError (Some 404) None ''Reservation not found for this project''), s))"

definition listForProject :: "string \<Rightarrow> uid_state \<Rightarrow> UidRow list" where
  "listForProject projectId s = sort_key um_path (filter (\<lambda>r. um_projectId r = projectId) (u_rows s))"

section \<open>Duplicates in the tables\<close>

definition project_uids :: "string \<Rightarrow> uid_state \<Rightarrow> UidRow list" where
  "project_uids projectId s = filter (\<lambda>r. um_projectId r = projectId \<and> um_namespace r \<noteq> TMP) (u_rows s)"

definition findDuplicates :: "string \<Rightarrow> uid_state \<Rightarrow> (string \<times> string list) list" where
  "findDuplicates projectId s =
     (let rows = project_uids projectId s in
      map (\<lambda>u. (u, map um_path (filter (\<lambda>r. um_uid r = u) rows)))
        (filter (\<lambda>u. 1 < length (filter (\<lambda>r. um_uid r = u) rows)) (remdups (map um_uid rows))))"

text \<open>\<open>ORDER BY CASE WHEN namespace = 'OVRD-' THEN 0 ELSE 1 END, updated_at DESC\<close>\<close>

definition canonical_order :: "UidRow list \<Rightarrow> UidRow list" where
  "canonical_order rows =
     sort_key (\<lambda>r. - int (um_updatedAt r)) (filter (\<lambda>r. um_namespace r = OVRD) rows) @
     sort_key (\<lambda>r. - int (um_updatedAt r)) (filter (\<lambda>r. um_namespace r \<noteq> OVRD) rows)"

record UidFix =
  fx_oldUid :: string
  fx_newUid :: string
  fx_path :: string

record uid_resolution =
  ur_fixed :: "UidFix list"
  ur_manual :: "(string \<times> string list) list"
  ur_replacements :: attrs

fun resolve_rows :: "uid_env \<Rightarrow> string \<Rightarrow> string list \<Rightarrow> UidRow list \<Rightarrow> uid_resolution \<Rightarrow> uid_state
    \<Rightarrow> uid_resolution \<times> uid_state" where
  "resolve_rows x u paths [] res s = (res, s)"
| "resolve_rows x u paths (row # rows) res s =
     (if um_namespace row = OVRD
      then resolve_rows x u paths rows (res\<lparr>ur_manual := ur_manual res @ [(u, paths)]\<rparr>) s
      else
        let (hex, s1) = u_draw (ux_hex x) s;
            newUid = ''uid://GEN-'' @ hex;
            s2 = u_set_row (um_id row) (\<lambda>r. r\<lparr>um_uid := newUid, um_updatedAt := u_now s1\<rparr>) s1
        in resolve_rows x u paths rows
             (res\<lparr>ur_fixed := ur_fixed res @ [\<lparr>fx_oldUid = u, fx_newUid = newUid, fx_path = um_path row\<rparr>],
                  ur_replacements := attr_put u newUid (ur_replacements res)\<rparr>) s2)"

definition resolve_group :: "uid_env \<Rightarrow> string \<Rightarrow> string \<times> string list \<Rightarrow> uid_resolution \<Rightarrow> uid_state
    \<Rightarrow> uid_resolution \<times> uid_state" where
  "resolve_group x projectId g res s =
     (let rows = canonical_order (filter (\<lambda>r. um_projectId r = projectId \<and> um_uid r = fst g) (u_rows s)) in
      if length rows < 2 then (res, s) else resolve_rows x (fst g) (snd g) (tl rows) res s)"

fun resolve_groups :: "uid_env \<Rightarrow> string \<Rightarrow> (string \<times> string list) list \<Rightarrow> uid_resolution \<Rightarrow> uid_state
    \<Rightarrow> uid_resolution \<times> uid_state" where
  "resolve_groups x p [] res s = (res, s)"
| "resolve_groups x p (g # gs) res s =
     (let (res1, s1) = resolve_group x p g res s in resolve_groups x p gs res1 s1)"

definition fix_json :: "UidFix \<Rightarrow> json" where
  "fix_json f = JObj [(''oldUid'', JStr (fx_oldUid f)), (''newUid'', JStr (fx_newUid f)), (''path'', JStr (fx_path f))]"

text \<open>The part of \<open>autoResolveDuplicates\<close> before the files.\<close>

definition resolve_tables :: "uid_env \<Rightarrow> string \<Rightarrow> uid_state \<Rightarrow> uid_resolution \<times> uid_state" where
  "resolve_tables x p s =
     (let (res, s1) = resolve_groups x p (findDuplicates p s) \<lparr>ur_fixed = [], ur_manual = [], ur_replacements = []\<rparr> s in
      (res, if ur_fixed res = [] then s1
            else u_upd (audit (audit_entry None ''uid.auto_resolved'' ''project'' (Some p)
                   [(''fixed'', JArr (map fix_json (ur_fixed res)))])) s1))"

end
