(* ===== verification/Uid_Tables.thy ===== *)
theory Uid_Tables
  imports Uid
begin

text \<open>
  The resolution of duplicate UIDs in the tables: what is left of them. The invariant of its loops says of
  every two rows with one UID which part of the work still separates them.
\<close>

section \<open>Rows\<close>

lemma set_update_row:
  "distinct (map key rs) \<Longrightarrow> set (set_row key i f rs) = (\<lambda>r. if key r = i then f r else r) ` set rs"
proof (induction rs)
  case (Cons r rs)
  show ?case
  proof (cases "key r = i")
    case True
    have "key r \<notin> key ` set rs" using Cons.prems by simp
    then have "key y \<noteq> i" if "y \<in> set rs" for y using that True by blast
    then have "(\<lambda>r. if key r = i then f r else r) ` set rs = id ` set rs"
      by (intro image_cong) simp_all
    with True show ?thesis by simp
  qed (use Cons in auto)
qed simp

lemma filter_update_row:
  "(\<And>r. P (f r) = P r) \<Longrightarrow> (\<And>r. r \<in> set rs \<Longrightarrow> key r = i \<Longrightarrow> \<not> P r) \<Longrightarrow> filter P (set_row key i f rs) = filter P rs"
  by (induction rs) auto

lemma two_members: "r \<in> set xs \<Longrightarrow> r' \<in> set xs \<Longrightarrow> r \<noteq> r' \<Longrightarrow> 2 \<le> length xs"
  by (cases xs; cases "tl xs") auto

lemma distinct_key_inj: "distinct (map key rs) \<Longrightarrow> r \<in> set rs \<Longrightarrow> r' \<in> set rs \<Longrightarrow> key r = key r' \<Longrightarrow> r = r'"
  by (auto simp: distinct_map dest: inj_onD)

section \<open>Fresh UIDs\<close>

definition gen_uid :: "uid_env \<Rightarrow> nat \<Rightarrow> string" where
  "gen_uid x n = ''uid://GEN-'' @ ux_hex x n"

definition fresh_uids :: "uid_env \<Rightarrow> uid_state \<Rightarrow> bool" where
  "fresh_uids x s =
     (inj_on (gen_uid x) {nonce (u_world s)..} \<and>
      (\<forall>n \<ge> nonce (u_world s). \<forall>r \<in> set (u_rows s). um_uid r \<noteq> gen_uid x n))"

definition regenerate :: "uid_env \<Rightarrow> string \<Rightarrow> uid_state \<Rightarrow> uid_state" where
  "regenerate x i s =
     u_set_row i (\<lambda>r. r\<lparr>um_uid := gen_uid x (nonce (u_world s)), um_updatedAt := u_now s\<rparr>)
       (snd (u_draw (ux_hex x) s))"

lemma resolve_rows_Cons:
  "resolve_rows x u paths (row # rows) res s =
     (if um_namespace row = OVRD then resolve_rows x u paths rows (res\<lparr>ur_manual := ur_manual res @ [(u, paths)]\<rparr>) s
      else resolve_rows x u paths rows
        (res\<lparr>ur_fixed := ur_fixed res @
               [\<lparr>fx_oldUid = u, fx_newUid = gen_uid x (nonce (u_world s)), fx_path = um_path row\<rparr>],
             ur_replacements := attr_put u (gen_uid x (nonce (u_world s))) (ur_replacements res)\<rparr>)
        (regenerate x (um_id row) s))"
  by (simp add: regenerate_def u_draw_def draw_def gen_uid_def u_now_def Let_def)

lemma regenerate_fields:
  "u_rows (regenerate x i s) =
     set_row um_id i (\<lambda>r. r\<lparr>um_uid := gen_uid x (nonce (u_world s)), um_updatedAt := u_now s\<rparr>) (u_rows s)"
  "nonce (u_world (regenerate x i s)) = Suc (nonce (u_world s))"
  by (simp_all add: regenerate_def u_draw_def draw_def u_set_row_def)

lemma regenerate_ids [simp]: "map um_id (u_rows (regenerate x i s)) = map um_id (u_rows s)"
  by (simp add: regenerate_fields map_set_row)

lemma regenerate_members:
  assumes "distinct (map um_id (u_rows s))" "r \<in> set (u_rows (regenerate x i s))"
  shows "r \<in> set (u_rows s) \<and> um_id r \<noteq> i \<or> um_id r = i \<and> um_uid r = gen_uid x (nonce (u_world s))"
  using assms by (auto simp: regenerate_fields set_update_row)

lemma regenerate_fresh:
  assumes "distinct (map um_id (u_rows s))" "fresh_uids x s"
  shows "fresh_uids x (regenerate x i s)"
proof -
  let ?n = "nonce (u_world s)"
  have inj: "inj_on (gen_uid x) {?n..}" and old: "\<forall>n \<ge> ?n. \<forall>r \<in> set (u_rows s). um_uid r \<noteq> gen_uid x n"
    using assms(2) by (simp_all add: fresh_uids_def)
  have "um_uid r \<noteq> gen_uid x n" if r: "r \<in> set (u_rows (regenerate x i s))" and n: "Suc ?n \<le> n" for r n
    using regenerate_members [OF assms(1) r]
  proof
    assume "r \<in> set (u_rows s) \<and> um_id r \<noteq> i"
    with old n show ?thesis by simp
  next
    assume "um_id r = i \<and> um_uid r = gen_uid x ?n"
    with inj_onD [OF inj, of n ?n] n show ?thesis by auto
  qed
  moreover have "inj_on (gen_uid x) {Suc ?n..}" by (rule inj_on_subset [OF inj]) auto
  ultimately show ?thesis by (simp add: fresh_uids_def regenerate_fields)
qed

section \<open>The loops\<close>

text \<open>
  Two rows with one UID: \<open>D\<close> are the UIDs of the groups to come, \<open>u\<close> is the UID of the present group and
  \<open>rest\<close> its rows to come.
\<close>

definition separated :: "string set \<Rightarrow> string \<Rightarrow> UidRow list \<Rightarrow> uid_resolution \<Rightarrow> UidRow \<Rightarrow> UidRow \<Rightarrow> bool" where
  "separated D u rest res r r' =
     (um_uid r \<in> D \<or>
      um_uid r = u \<and> (\<exists>q \<in> set rest. um_namespace q \<noteq> OVRD \<and> um_id q \<in> {um_id r, um_id r'}) \<or>
      um_namespace r = OVRD \<and> um_namespace r' = OVRD \<and>
        (um_uid r \<in> fst ` set (ur_manual res) \<or> um_uid r = u \<and> (\<exists>q \<in> set rest. um_namespace q = OVRD)))"

definition uid_inv :: "uid_env \<Rightarrow> string \<Rightarrow> string set \<Rightarrow> string \<Rightarrow> UidRow list \<Rightarrow> uid_resolution \<Rightarrow> uid_state \<Rightarrow> bool" where
  "uid_inv x p D u rest res s =
     (distinct (map um_id (u_rows s)) \<and> fresh_uids x s \<and>
      (\<forall>r \<in> set (project_uids p s). \<forall>r' \<in> set (project_uids p s).
         um_id r \<noteq> um_id r' \<longrightarrow> um_uid r = um_uid r' \<longrightarrow> separated D u rest res r r'))"

lemma uid_invD:
  assumes "uid_inv x p D u rest res s"
  shows "distinct (map um_id (u_rows s))" "fresh_uids x s"
    and "r \<in> set (project_uids p s) \<Longrightarrow> r' \<in> set (project_uids p s) \<Longrightarrow> um_id r \<noteq> um_id r' \<Longrightarrow>
      um_uid r = um_uid r' \<Longrightarrow> separated D u rest res r r'"
  using assms by (auto simp: uid_inv_def)

lemma inv_override:
  assumes "uid_inv x p D u (row # rest) res s" "um_namespace row = OVRD"
  shows "uid_inv x p D u rest (res\<lparr>ur_manual := ur_manual res @ [(u, paths)]\<rparr>) s"
  using assms by (auto simp: uid_inv_def separated_def)

lemma separated_step:
  assumes "separated D u (row # rest) res r r'" "um_namespace row \<noteq> OVRD" "um_id r \<noteq> um_id row" "um_id r' \<noteq> um_id row"
    and "set (ur_manual res) \<subseteq> set (ur_manual res')"
  shows "separated D u rest res' r r'"
proof -
  have sub: "fst ` set (ur_manual res) \<subseteq> fst ` set (ur_manual res')" by (rule image_mono) (rule assms(5))
  from assms(1) consider (future) "um_uid r \<in> D"
    | (here) q where "q \<in> set (row # rest)" "um_namespace q \<noteq> OVRD" "um_id q \<in> {um_id r, um_id r'}" "um_uid r = u"
    | (overrides) "um_namespace r = OVRD" "um_namespace r' = OVRD"
        "um_uid r \<in> fst ` set (ur_manual res) \<or> um_uid r = u \<and> (\<exists>q \<in> set (row # rest). um_namespace q = OVRD)"
    unfolding separated_def by blast
  then show ?thesis
  proof cases
    case here
    then have "q \<noteq> row" using assms(3,4) by auto
    with here show ?thesis by (auto simp: separated_def)
  next
    case overrides
    then have "um_uid r \<in> fst ` set (ur_manual res') \<or> um_uid r = u \<and> (\<exists>q \<in> set rest. um_namespace q = OVRD)"
      using sub assms(2) by auto
    with overrides(1,2) show ?thesis by (simp add: separated_def)
  qed (simp add: separated_def)
qed

text \<open>The first row of a group is its canonical one, an override if there is one.\<close>

lemma tail_separates:
  assumes "\<forall>q \<in> set Os. um_namespace q = OVRD" "\<forall>q \<in> set Ns. um_namespace q \<noteq> OVRD"
    and r: "r \<in> set (Os @ Ns)" "r' \<in> set (Os @ Ns)" "r \<noteq> r'" and u: "um_uid r = u"
  shows "separated D u (tl (Os @ Ns)) res r r'"
proof (cases "um_namespace r = OVRD \<and> um_namespace r' = OVRD")
  case True
  then have "r \<in> set Os" "r' \<in> set Os" using r assms(2) by auto
  from two_members [OF this r(3)] obtain a b os where "Os = a # b # os" by (cases Os; cases "tl Os") auto
  with assms(1) True u show ?thesis by (simp add: separated_def)
next
  case False
  have "\<exists>q \<in> set (tl (Os @ Ns)). um_namespace q \<noteq> OVRD \<and> q \<in> {r, r'}"
  proof (cases Os)
    case Nil
    with assms(2) r show ?thesis by (cases Ns) auto
  next
    case (Cons a os)
    with assms(1) r False show ?thesis by auto
  qed
  then show ?thesis using u by (auto simp: separated_def)
qed

lemma inv_regenerate:
  assumes inv: "uid_inv x p D u (row # rest) res s" and ns: "um_namespace row \<noteq> OVRD"
    and res: "set (ur_manual res) \<subseteq> set (ur_manual res')"
  shows "uid_inv x p D u rest res' (regenerate x (um_id row) s)"
proof -
  let ?s = "regenerate x (um_id row) s"
  note d = uid_invD(1) [OF inv] and f = uid_invD(2) [OF inv]
  have "separated D u rest res' r r'"
    if r: "r \<in> set (project_uids p ?s)" "r' \<in> set (project_uids p ?s)" and ids: "um_id r \<noteq> um_id r'"
      and uids: "um_uid r = um_uid r'" for r r'
  proof -
    have old: "q \<in> set (project_uids p s) \<and> um_id q \<noteq> um_id row"
      if "q \<in> set (project_uids p ?s)" "um_uid q \<noteq> gen_uid x (nonce (u_world s))" for q
      using regenerate_members [OF d, of q x "um_id row"] that by (auto simp: project_uids_def)
    have new: "um_uid q \<noteq> gen_uid x (nonce (u_world s)) \<or> um_id q = um_id row" if "q \<in> set (project_uids p ?s)" for q
      using regenerate_members [OF d, of q x "um_id row"] that f by (auto simp: project_uids_def fresh_uids_def)
    have "um_uid r \<noteq> gen_uid x (nonce (u_world s))" "um_uid r' \<noteq> gen_uid x (nonce (u_world s))"
      using new [OF r(1)] new [OF r(2)] ids uids by auto
    then have o': "r \<in> set (project_uids p s)" "r' \<in> set (project_uids p s)" "um_id r \<noteq> um_id row" "um_id r' \<noteq> um_id row"
      using old r by auto
    show ?thesis by (rule separated_step [OF uid_invD(3) [OF inv o'(1,2) ids uids] ns o'(3,4) res])
  qed
  then show ?thesis using d f regenerate_fresh [OF d f] by (simp add: uid_inv_def)
qed

lemma inv_rows:
  "uid_inv x p D u rows res s \<Longrightarrow> resolve_rows x u paths rows res s = (res', s') \<Longrightarrow> uid_inv x p D u [] res' s'"
proof (induction rows arbitrary: res s)
  case (Cons row rows)
  show ?case
  proof (cases "um_namespace row = OVRD")
    case True
    then show ?thesis using Cons.IH [OF inv_override [OF Cons.prems(1) True]] Cons.prems(2)
      by (simp add: resolve_rows_Cons del: resolve_rows.simps(2))
  next
    case False
    let ?res = "res\<lparr>ur_fixed := ur_fixed res @
               [\<lparr>fx_oldUid = u, fx_newUid = gen_uid x (nonce (u_world s)), fx_path = um_path row\<rparr>],
             ur_replacements := attr_put u (gen_uid x (nonce (u_world s))) (ur_replacements res)\<rparr>"
    have "uid_inv x p D u rows ?res (regenerate x (um_id row) s)"
      by (rule inv_regenerate [OF Cons.prems(1) False]) simp
    from Cons.IH [OF this] Cons.prems(2) False show ?thesis
      by (simp add: resolve_rows_Cons del: resolve_rows.simps(2))
  qed
qed simp

lemma inv_group_start:
  assumes inv: "uid_inv x p (insert u D) v [] res s"
  shows "uid_inv x p D u (tl (canonical_order (filter (\<lambda>r. um_projectId r = p \<and> um_uid r = u) (u_rows s)))) res s"
proof -
  let ?G = "filter (\<lambda>r. um_projectId r = p \<and> um_uid r = u) (u_rows s)"
  let ?key = "\<lambda>r. - int (um_updatedAt r)"
  let ?O = "sort_key ?key (filter (\<lambda>r. um_namespace r = OVRD) ?G)"
  let ?N = "sort_key ?key (filter (\<lambda>r. um_namespace r \<noteq> OVRD) ?G)"
  have G: "canonical_order ?G = ?O @ ?N" by (simp add: canonical_order_def)
  have "separated D u (tl (?O @ ?N)) res r r'"
    if r: "r \<in> set (project_uids p s)" "r' \<in> set (project_uids p s)" and ids: "um_id r \<noteq> um_id r'"
      and uids: "um_uid r = um_uid r'" for r r'
  proof (cases "um_uid r = u")
    case False
    then show ?thesis using uid_invD(3) [OF inv r ids uids] by (auto simp: separated_def)
  next
    case True
    have mem: "r \<in> set (?O @ ?N)" "r' \<in> set (?O @ ?N)" "r \<noteq> r'"
      using r ids uids True by (auto simp: project_uids_def)
    show ?thesis by (rule tail_separates [OF _ _ mem True]) simp_all
  qed
  then show ?thesis using uid_invD(1,2) [OF inv] unfolding G by (simp add: uid_inv_def)
qed

lemma inv_group:
  assumes inv: "uid_inv x p (insert (fst g) D) v [] res s" and eq: "resolve_group x p g res s = (res', s')"
  shows "uid_inv x p D (fst g) [] res' s'"
proof -
  let ?rows = "canonical_order (filter (\<lambda>r. um_projectId r = p \<and> um_uid r = fst g) (u_rows s))"
  have start: "uid_inv x p D (fst g) (tl ?rows) res s" by (rule inv_group_start [OF inv])
  show ?thesis
  proof (cases "length ?rows < 2")
    case True
    then have "tl ?rows = []" by (cases ?rows) auto
    with start eq True show ?thesis by (simp add: resolve_group_def)
  next
    case False
    then show ?thesis using inv_rows [OF start] eq by (simp add: resolve_group_def)
  qed
qed

lemma inv_groups:
  "uid_inv x p (fst ` set gs) v [] res s \<Longrightarrow> resolve_groups x p gs res s = (res', s') \<Longrightarrow> \<exists>v. uid_inv x p {} v [] res' s'"
proof (induction gs arbitrary: v res s)
  case (Cons g gs)
  obtain res1 s1 where g: "resolve_group x p g res s = (res1, s1)" by force
  have "uid_inv x p (fst ` set gs) (fst g) [] res1 s1"
    by (rule inv_group [OF _ g]) (use Cons.prems(1) in simp)
  with Cons.IH Cons.prems(2) g show ?case by simp
qed auto

end
