(* ===== verification/Uid_Files.thy ===== *)
theory Uid_Files
  imports Uid Health_Worker Auth_Routes
begin

text \<open>
  The files of a project: \<open>services/uid-file-reconcile.ts\<close> and \<open>services/uid-remote-dispatch.ts\<close>, the
  second half of \<open>autoResolveDuplicates\<close>, the nightly run of \<open>workers/health-worker.ts\<close> and the UID routes
  of \<open>routes/projects.ts\<close>. A project tree is given with the order in which its directories list their
  entries; its files are named by the root, a slash and the path below the root. The root has no trailing
  slash, and names have no slash, so that \<open>path.join\<close> and \<open>path.relative\<close> only glue and cut. Long dashes in
  messages are written as hyphens.
\<close>

section \<open>UID tokens\<close>

text \<open>\<open>/uid:\/\/[A-Za-z0-9_-]+/g\<close>: the text in pieces, each a token or a character outside all tokens.\<close>

definition uid_char :: "char \<Rightarrow> bool" where
  "uid_char c = (is_word c \<or> c = CHR ''-'')"

definition UID_PREFIX :: string where
  "UID_PREFIX = ''uid://''"

definition token_at :: "string \<Rightarrow> string option" where
  "token_at s =
     (if prefix UID_PREFIX s
      then let body = takeWhile uid_char (drop 6 s) in if body = [] then None else Some (UID_PREFIX @ body)
      else None)"

datatype piece = Tok string | Chr char

lemma token_at_length: "token_at s = Some t \<Longrightarrow> 0 < length t"
  by (auto simp: token_at_def UID_PREFIX_def Let_def split: if_splits)

function uid_pieces :: "string \<Rightarrow> piece list" where
  "uid_pieces [] = []"
| "uid_pieces (c # cs) =
     (case token_at (c # cs) of
        Some t \<Rightarrow> Tok t # uid_pieces (drop (length t) (c # cs))
      | None \<Rightarrow> Chr c # uid_pieces cs)"
  by pat_completeness auto
termination
  by (relation "measure length") (auto dest: token_at_length)

fun piece_tokens :: "piece list \<Rightarrow> string list" where
  "piece_tokens [] = []"
| "piece_tokens (Tok t # ps) = t # piece_tokens ps"
| "piece_tokens (Chr c # ps) = piece_tokens ps"

text \<open>\<open>text.match(UID_TOKEN_RE) ?? []\<close>\<close>

definition match_uids :: "string \<Rightarrow> string list" where
  "match_uids text = piece_tokens (uid_pieces text)"

definition replacement :: "attrs \<Rightarrow> string \<Rightarrow> string" where
  "replacement m tok = (case map_of m tok of Some n \<Rightarrow> if n \<noteq> [] \<and> n \<noteq> tok then n else tok | None \<Rightarrow> tok)"

fun rewrite_piece :: "(string \<Rightarrow> string) \<Rightarrow> piece \<Rightarrow> piece" where
  "rewrite_piece f (Tok t) = Tok (f t)"
| "rewrite_piece f (Chr c) = Chr c"

fun piece_text :: "piece \<Rightarrow> string" where
  "piece_text (Tok t) = t"
| "piece_text (Chr c) = [c]"

definition render :: "piece list \<Rightarrow> string" where
  "render ps = concat (map piece_text ps)"

definition rewriteUidsInText :: "string \<Rightarrow> attrs \<Rightarrow> string \<times> nat" where
  "rewriteUidsInText content m =
     (let ps = uid_pieces content in
      (render (map (rewrite_piece (replacement m)) ps),
       length (filter (\<lambda>t. replacement m t \<noteq> t) (piece_tokens ps))))"

section \<open>The tree\<close>

definition SCAN_EXTS :: "string list" where
  "SCAN_EXTS = [''.tscn'', ''.tres'', ''.import'', ''.gd'', ''.cfg'']"

text \<open>\<open>path.extname\<close> of a name that is neither empty nor \<open>..\<close>: the part from the last dot, unless that is the first character.\<close>

definition extname :: "string \<Rightarrow> string" where
  "extname name =
     (let ext = takeWhile (\<lambda>c. c \<noteq> CHR ''.'') (rev name) in
      if length ext + 1 < length name then CHR ''.'' # rev ext else [])"

definition scanned :: "string \<Rightarrow> bool" where
  "scanned name = (js_lower (extname name) \<in> set SCAN_EXTS \<or> ends_with name ''.uid'')"

definition skipped_dir :: "string \<Rightarrow> bool" where
  "skipped_dir name = (name = ''.git'' \<or> name = ''node_modules'')"

text \<open>The paths below the root; \<open>dir\<close> is empty or ends with a slash.\<close>

fun walk_entry :: "string \<Rightarrow> dirent \<Rightarrow> string list" where
  "walk_entry dir (Directory name entries) =
     (if skipped_dir name \<or> name = ''.godot'' then []
      else case entries of None \<Rightarrow> [] | Some es \<Rightarrow> concat (map (walk_entry (dir @ name @ ''/'')) es))"
| "walk_entry dir (Plain name) =
     (if skipped_dir name then [] else if scanned name then [dir @ name] else [])"
| "walk_entry dir (Special name) = []"

definition walkProjectFiles :: "uid_env \<Rightarrow> string \<Rightarrow> string list" where
  "walkProjectFiles x projectRoot =
     (case ux_tree x projectRoot of None \<Rightarrow> [] | Some es \<Rightarrow> concat (map (walk_entry []) es))"

definition full_path :: "string \<Rightarrow> string \<Rightarrow> string" where
  "full_path rt rel = rt @ ''/'' @ rel"

definition shown_path :: "string \<Rightarrow> string" where
  "shown_path rel = replace_char BACKSLASH CHR ''/'' rel"

fun scan_put :: "string \<Rightarrow> string \<Rightarrow> (string \<times> string list) list \<Rightarrow> (string \<times> string list) list" where
  "scan_put uid rel [] = [(uid, [rel])]"
| "scan_put uid rel ((u, rels) # m) =
     (if u = uid then (u, if rel \<in> set rels then rels else rels @ [rel]) # m else (u, rels) # scan_put uid rel m)"

definition scan_file :: "string \<Rightarrow> uid_state \<Rightarrow> (string \<times> string list) list \<Rightarrow> string \<Rightarrow> (string \<times> string list) list" where
  "scan_file rt s m rel =
     (case u_files s (full_path rt rel) of
        None \<Rightarrow> m
      | Some text \<Rightarrow> foldl (\<lambda>m uid. scan_put uid (shown_path rel) m) m (match_uids text))"

definition scanProjectForUids :: "uid_env \<Rightarrow> string \<Rightarrow> uid_state \<Rightarrow> (string \<times> string list) list" where
  "scanProjectForUids x rt s = foldl (scan_file rt s) [] (walkProjectFiles x rt)"

record apply_result =
  ar_filesTouched :: "string list"
  ar_replacements :: nat

fun apply_files :: "uid_env \<Rightarrow> string \<Rightarrow> attrs \<Rightarrow> string list \<Rightarrow> apply_result \<Rightarrow> uid_state
    \<Rightarrow> apply_result outcome \<times> uid_state" where
  "apply_files x rt m [] acc s = (Ret acc, s)"
| "apply_files x rt m (rel # rels) acc s =
     (let file = full_path rt rel in
      case u_files s file of
        None \<Rightarrow> apply_files x rt m rels acc s
      | Some text \<Rightarrow>
          let (next', count) = rewriteUidsInText text m in
          if 0 < count
          then (if \<not> ux_writable x file then (Throw (JsError None (Some ''EACCES'') ''permission denied''), s)
                else apply_files x rt m rels
                       \<lparr>ar_filesTouched = ar_filesTouched acc @ [shown_path rel], ar_replacements = ar_replacements acc + count\<rparr>
                       (s\<lparr>u_files := (u_files s)(file \<mapsto> next')\<rparr>))
          else apply_files x rt m rels acc s)"

definition applyUidReplacements :: "uid_env \<Rightarrow> string \<Rightarrow> attrs \<Rightarrow> uid_state \<Rightarrow> apply_result outcome \<times> uid_state" where
  "applyUidReplacements x rt m s =
     (if m = [] then (Ret \<lparr>ar_filesTouched = [], ar_replacements = 0\<rparr>, s)
      else apply_files x rt m (walkProjectFiles x rt) \<lparr>ar_filesTouched = [], ar_replacements = 0\<rparr> s)"

section \<open>Godot\<close>

fun error_after_uid :: "bool \<Rightarrow> string \<Rightarrow> bool" where
  "error_after_uid seen [] = False"
| "error_after_uid seen (c # cs) =
     (if c = CHR 0x0A \<or> c = CHR 0x0D then error_after_uid False cs
      else if seen \<and> prefix ''error'' (c # cs) then True
      else error_after_uid (seen \<or> prefix UID_PREFIX (c # cs)) cs)"

text \<open>\<open>/uid:\/\/.*error|Failed to load resource/i\<close>\<close>

definition godot_complains :: "string \<Rightarrow> bool" where
  "godot_complains out =
     (error_after_uid False (js_lower out) \<or> str_includes (js_lower out) ''failed to load resource'')"

definition runGodotReimport :: "uid_env \<Rightarrow> string \<Rightarrow> uid_state \<Rightarrow> (bool \<times> string option) \<times> uid_state" where
  "runGodotReimport x rt s =
     (let (r, s1) = u_draw (\<lambda>n. ux_godot x n rt) s in
      (case r of
         GodotTimeout \<Rightarrow> (False, Some ''godot reimport timeout'')
       | GodotError m \<Rightarrow> (False, Some m)
       | GodotClosed c out \<Rightarrow>
           if c = Some 0 \<and> \<not> godot_complains out then (True, None)
           else (False, Some (''godot exit '' @ (case c of None \<Rightarrow> ''null'' | Some n \<Rightarrow> show_nat n) @ '': '' @ take 500 out)),
       s1))"

section \<open>Remote projects\<close>

datatype file_mode = mode_local | mode_remote_script | mode_remote_dispatched

definition UID_RECONCILE_WORKFLOW :: string where
  "UID_RECONCILE_WORKFLOW = ''uid_reconcile.yml''"

definition canAutoDispatchUidReconcile :: "metadata \<Rightarrow> bool" where
  "canAutoDispatchUidReconcile m =
     (let host = nullish (map_of m ''targetHost'') (map_of m ''target_host'');
          provision = nullish (map_of m ''targetProvisionUrl'') (nullish (map_of m ''target_provision_url'')
            (nullish (map_of m ''uidReconcileUrl'') (map_of m ''uid_reconcile_url'')))
      in json_truthy host \<or> json_truthy provision)"

definition reconcile_audit :: "string \<Rightarrow> metadata \<Rightarrow> uid_state \<Rightarrow> uid_state" where
  "reconcile_audit projectId detail =
     u_upd (audit (audit_entry None ''uid.nightly_reconcile'' ''project'' (Some projectId) detail))"

definition project_alert :: "string \<Rightarrow> AlertSeverity \<Rightarrow> string \<Rightarrow> string \<Rightarrow> string \<Rightarrow> SendAlertOpts" where
  "project_alert title sev body errcode projectId = (alert title sev body errcode None)\<lparr>ao_projectId := Some projectId\<rparr>"

record RemoteResult =
  rr_mode :: file_mode
  rr_detail :: "string option"
  rr_s3Key :: "string option"
  rr_workflowRunId :: "nat option"

definition dispatchUidReconcile :: "uid_env \<Rightarrow> string \<Rightarrow> string \<Rightarrow> attrs \<Rightarrow> metadata \<Rightarrow> uid_state
    \<Rightarrow> RemoteResult outcome \<times> uid_state" where
  "dispatchUidReconcile x projectId projectRoot m meta s =
     (if \<not> canAutoDispatchUidReconcile meta
      then (Ret \<lparr>rr_mode = mode_remote_script,
                 rr_detail = Some ''project_root not readable; set metadata.targetHost (+ targetProvisionUrl) for auto-dispatch'',
                 rr_s3Key = None, rr_workflowRunId = None\<rparr>,
            reconcile_audit projectId
              [(''mode'', JStr ''remote_script''),
               (''note'', JStr ''project_root not local; missing targetHost/targetProvisionUrl for auto-dispatch - run workers/scripts/uid-reconcile.sh on host''),
               (''replacementCount'', JNum (show_nat (length m)))] s)
      else
        let s3Key = ''projects/'' @ projectId @ ''/uid-reconcile/'' @ show_nat (u_now s) @ ''-replacements.json'';
            (put_error, s1) = u_draw (ux_put_error x) s
        in case put_error of
             Some msg \<Rightarrow> (Throw (system_error msg), s1)
           | None \<Rightarrow>
               let s2 = s1\<lparr>u_objects := (s3Key, stringify (JObj (map (\<lambda>(k, v). (k, JStr v)) (object_entries m)))) # u_objects s1\<rparr>;
                   inputs = [(''projectId'', projectId), (''projectRoot'', projectRoot), (''replacementsS3Key'', s3Key),
                             (''replacementsGetUrl'', x_presignGet (ux_ext x) s3Key)];
                   s3 = s2\<lparr>u_calls := (UID_RECONCILE_WORKFLOW, inputs) # u_calls s2\<rparr>;
                   (r, s4) = u_draw (ux_dispatch x) s3
               in case r of
                    Inl (runId, mock) \<Rightarrow>
                      (Ret \<lparr>rr_mode = mode_remote_dispatched, rr_detail = None, rr_s3Key = Some s3Key, rr_workflowRunId = runId\<rparr>,
                       reconcile_audit projectId
                         [(''mode'', JStr ''remote_dispatched''), (''workflow'', JStr UID_RECONCILE_WORKFLOW), (''s3Key'', JStr s3Key),
                          (''workflowRunId'', (case runId of None \<Rightarrow> JNull | Some n \<Rightarrow> JNum (show_nat n))),
                          (''mock'', JBool mock), (''replacementCount'', JNum (show_nat (length m)))] s4)
                  | Inr detail \<Rightarrow>
                      (Ret \<lparr>rr_mode = mode_remote_script, rr_detail = Some (''dispatch failed: '' @ detail), rr_s3Key = None,
                            rr_workflowRunId = None\<rparr>,
                       u_upd (sendAlert (ux_env x)
                           (project_alert ''UID remote reconcile dispatch failed'' high (''project='' @ projectId @ '': '' @ detail) ''E008'' projectId))
                         (reconcile_audit projectId
                           [(''mode'', JStr ''remote_script''), (''dispatchFailed'', JBool True), (''detail'', JStr detail),
                            (''s3Key'', JStr s3Key)] s4)))"

section \<open>One project\<close>

record FileResult =
  fr_filesTouched :: "string list"
  fr_replacements :: nat
  fr_godotOk :: "bool option"
  fr_mode :: file_mode
  fr_detail :: "string option"
  fr_s3Key :: "string option"
  fr_workflowRunId :: "nat option"

definition reconcile_detail :: "apply_result \<Rightarrow> json \<Rightarrow> metadata" where
  "reconcile_detail r ok =
     [(''mode'', JStr ''local''), (''fixed'', JNum (show_nat (ar_replacements r))),
      (''filesTouched'', JArr (map JStr (ar_filesTouched r))), (''godotOk'', ok)]"

definition reconcileProjectFiles :: "uid_env \<Rightarrow> string \<Rightarrow> string \<Rightarrow> attrs \<Rightarrow> bool option \<Rightarrow> metadata \<Rightarrow> uid_state
    \<Rightarrow> FileResult outcome \<times> uid_state" where
  "reconcileProjectFiles x projectId rt m runGodot meta s =
     (if ux_tree x rt = None
      then (case dispatchUidReconcile x projectId rt m meta s of
              (Throw er, s1) \<Rightarrow> (Throw er, s1)
            | (Ret r, s1) \<Rightarrow>
                (Ret \<lparr>fr_filesTouched = [], fr_replacements = 0, fr_godotOk = None, fr_mode = rr_mode r,
                      fr_detail = Some (if rr_mode r = mode_remote_dispatched then ''uid_reconcile.yml dispatched''
                                        else or_default (rr_detail r) ''project_root not readable on orchestrator''),
                      fr_s3Key = rr_s3Key r, fr_workflowRunId = rr_workflowRunId r\<rparr>, s1))
      else
        case applyUidReplacements x rt m s of
          (Throw er, s1) \<Rightarrow> (Throw er, s1)
        | (Ret r, s1) \<Rightarrow>
            if runGodot \<noteq> Some False \<and> 0 < ar_replacements r
            then (let ((ok, detail), s2) = runGodotReimport x rt s1 in
                  (Ret \<lparr>fr_filesTouched = ar_filesTouched r, fr_replacements = ar_replacements r, fr_godotOk = Some ok,
                        fr_mode = mode_local, fr_detail = detail, fr_s3Key = None, fr_workflowRunId = None\<rparr>,
                   reconcile_audit projectId
                     (if ok then reconcile_detail r (JBool True)
                      else reconcile_detail r (JBool False) @
                        (case detail of None \<Rightarrow> [] | Some d \<Rightarrow> [(''detail'', JStr d)]) @ [(''manual'', JBool True)]) s2))
            else (Ret \<lparr>fr_filesTouched = ar_filesTouched r, fr_replacements = ar_replacements r, fr_godotOk = None,
                        fr_mode = mode_local, fr_detail = None, fr_s3Key = None, fr_workflowRunId = None\<rparr>,
                  reconcile_audit projectId (reconcile_detail r JNull) s1))"

text \<open>\<open>metadata\<close> is \<open>None\<close> when the caller leaves it out; it is read from the project's row then.\<close>

record AfterFix =
  af_filesTouched :: "string list"
  af_godotOk :: "bool option"
  af_fileMode :: file_mode
  af_manual :: "(string \<times> string list) list"

definition reconcileProjectFilesAfterFix :: "uid_env \<Rightarrow> string \<Rightarrow> string \<Rightarrow> attrs \<Rightarrow> bool option \<Rightarrow> metadata option
    \<Rightarrow> uid_state \<Rightarrow> AfterFix outcome \<times> uid_state" where
  "reconcileProjectFilesAfterFix x projectId rt m runGodot metadata s =
     (let meta = (case metadata of Some d \<Rightarrow> d | None \<Rightarrow> or_default (u_meta s projectId) []) in
      case reconcileProjectFiles x projectId rt m runGodot meta s of
        (Throw er, s1) \<Rightarrow> (Throw er, s1)
      | (Ret r, s1) \<Rightarrow>
          (Ret \<lparr>af_filesTouched = fr_filesTouched r, af_godotOk = fr_godotOk r, af_fileMode = fr_mode r,
                af_manual =
                  (if fr_godotOk r = Some False then [(''godot-reimport-failed'', fr_filesTouched r)] else []) @
                  (if fr_mode r = mode_remote_script \<and> (case fr_detail r of None \<Rightarrow> False | Some d \<Rightarrow> str_includes d ''dispatch failed'')
                   then [(''remote-uid-dispatch-failed'', [rt])] else [])\<rparr>, s1))"

record AutoResolveResult =
  ao_fixed :: "UidFix list"
  ao_manual :: "(string \<times> string list) list"
  ao_filesTouched :: "string list option"
  ao_godotOk :: "bool option"
  ao_fileMode :: "file_mode option"

definition autoResolveDuplicates :: "uid_env \<Rightarrow> string \<Rightarrow> string option \<Rightarrow> bool option \<Rightarrow> metadata option \<Rightarrow> uid_state
    \<Rightarrow> AutoResolveResult outcome \<times> uid_state" where
  "autoResolveDuplicates x projectId projectRoot runGodot metadata s =
     (let (res, s1) = resolve_tables x projectId s in
      if truthy projectRoot \<and> ur_replacements res \<noteq> []
      then (case reconcileProjectFilesAfterFix x projectId (the projectRoot) (ur_replacements res) runGodot metadata s1 of
              (Throw er, s2) \<Rightarrow> (Throw er, s2)
            | (Ret a, s2) \<Rightarrow>
                (Ret \<lparr>ao_fixed = ur_fixed res, ao_manual = ur_manual res @ af_manual a,
                      ao_filesTouched = Some (af_filesTouched a), ao_godotOk = af_godotOk a,
                      ao_fileMode = Some (af_fileMode a)\<rparr>, s2))
      else (Ret \<lparr>ao_fixed = ur_fixed res, ao_manual = ur_manual res, ao_filesTouched = None, ao_godotOk = None,
                 ao_fileMode = None\<rparr>, s1))"

section \<open>The nightly run\<close>

fun mode_text :: "file_mode \<Rightarrow> string" where
  "mode_text mode_local = ''local''"
| "mode_text mode_remote_script = ''remote_script''"
| "mode_text mode_remote_dispatched = ''remote_dispatched''"

definition manual_body :: "AutoResolveResult \<Rightarrow> string" where
  "manual_body r =
     stringify (JObj
       ([(''manual'', JArr (map (\<lambda>(u, ps). JObj [(''uid'', JStr u), (''paths'', JArr (map JStr ps))]) (ao_manual r)))]
        @ (case ao_filesTouched r of None \<Rightarrow> [] | Some fs \<Rightarrow> [(''filesTouched'', JArr (map JStr fs))])
        @ (case ao_fileMode r of None \<Rightarrow> [] | Some m \<Rightarrow> [(''fileMode'', JStr (mode_text m))])
        @ (case ao_godotOk r of None \<Rightarrow> [] | Some b \<Rightarrow> [(''godotOk'', JBool b)])))"

definition fixed_body :: "AutoResolveResult \<Rightarrow> string" where
  "fixed_body r =
     ''Fixed '' @ show_nat (length (ao_fixed r)) @ '' mappings; filesTouched='' @
     show_nat (case ao_filesTouched r of None \<Rightarrow> 0 | Some fs \<Rightarrow> length fs) @ ''; mode='' @
     (case ao_fileMode r of None \<Rightarrow> ''db-only'' | Some m \<Rightarrow> mode_text m)"

definition nightly_alerts :: "uid_env \<Rightarrow> string \<Rightarrow> AutoResolveResult \<Rightarrow> uid_state \<Rightarrow> uid_state" where
  "nightly_alerts x p r s =
     (let s1 = (if ao_manual r = [] then s
                else u_upd (sendAlert (ux_env x)
                  (project_alert ''UID duplicates require manual review'' medium (manual_body r) ''E008'' p)) s)
      in if ao_fixed r = [] then s1
         else u_upd (sendAlert (ux_env x) (project_alert ''UID duplicates auto-fixed'' low (fixed_body r) ''E007'' p)) s1)"

fun nightly_projects :: "uid_env \<Rightarrow> Project list \<Rightarrow> uid_state \<Rightarrow> unit outcome \<times> uid_state" where
  "nightly_projects x [] s = (Ret (), s)"
| "nightly_projects x (p # ps) s =
     (case autoResolveDuplicates x (pr_id p) (if truthy (pr_projectRoot p) then pr_projectRoot p else None) (Some True)
             (Some (or_default (u_meta s (pr_id p)) [])) s of
        (Throw er, s1) \<Rightarrow> (Throw er, s1)
      | (Ret r, s1) \<Rightarrow> nightly_projects x ps (nightly_alerts x (pr_id p) r s1))"

definition nightlyUidReconcile :: "uid_env \<Rightarrow> uid_state \<Rightarrow> unit outcome \<times> uid_state" where
  "nightlyUidReconcile x s = nightly_projects x (projects (u_world s)) s"

section \<open>Routes\<close>

text \<open>The handlers behind the role checks; a reply without an error code has the empty one.\<close>

definition route_reserve :: "uid_env \<Rightarrow> string \<Rightarrow> (string \<times> string option) option \<Rightarrow> uid_state
    \<Rightarrow> Reservation reply \<times> uid_state" where
  "route_reserve x projectId body s =
     (case body of
        None \<Rightarrow> (Failure zod_error, s)
      | Some (path, jobId) \<Rightarrow>
          (case reserve x \<lparr>rs_projectId = projectId, rs_logicalAssetPath = path, rs_jobId = jobId, rs_lockTimeoutMs = None\<rparr> s of
             (Ret r, s1) \<Rightarrow> (Sent r, s1)
           | (Throw er, s1) \<Rightarrow>
               (if er = PathTraversalError (err_msg er) then Refused 400 ''E014'' (err_msg er)
                else Refused 409 [] (err_msg er), s1)))"

definition route_commit :: "string \<Rightarrow> (string \<times> string \<times> UidNamespace option) option \<Rightarrow> uid_state
    \<Rightarrow> unit reply \<times> uid_state" where
  "route_commit projectId body s =
     (case body of
        None \<Rightarrow> (Failure zod_error, s)
      | Some (reservationId, finalUid, ns) \<Rightarrow>
          (case commitReservation projectId reservationId finalUid ns s of
             (Ret r, s1) \<Rightarrow> (Sent r, s1)
           | (Throw er, s1) \<Rightarrow> (Refused (or_default (err_status er) 500) [] (err_msg er), s1)))"

definition route_reconcile :: "uid_env \<Rightarrow> string \<Rightarrow> uid_state \<Rightarrow> AutoResolveResult reply \<times> uid_state" where
  "route_reconcile x projectId s =
     (let rt = (case get_project (u_world s) projectId of None \<Rightarrow> None | Some p \<Rightarrow> pr_projectRoot p) in
      case autoResolveDuplicates x projectId (if truthy rt then rt else None) (Some True) None s of
        (Ret r, s1) \<Rightarrow> (Sent r, s1)
      | (Throw er, s1) \<Rightarrow> (Failure er, s1))"

end
