(* ===== verification/Uid_Claims.thy ===== *)
theory Uid_Claims
  imports Uid_Tables Uid_Files
begin

text \<open>
  What the resolution of duplicate UIDs leaves: in the tables, in the text of a file, and in both together.
\<close>

section \<open>Scanning and rewriting\<close>

definition wf_token :: "string \<Rightarrow> bool" where
  "wf_token t = (\<exists>b. t = UID_PREFIX @ b \<and> b \<noteq> [] \<and> list_all uid_char b)"

lemma length_prefix [simp]: "length UID_PREFIX = 6"
  by (simp add: UID_PREFIX_def)

lemma token_at_SomeD:
  assumes "token_at s = Some t"
  shows "wf_token t \<and> s = t @ drop (length t) s \<and> (\<forall>c cs. drop (length t) s = c # cs \<longrightarrow> \<not> uid_char c)"
proof -
  from assms obtain z where s: "s = UID_PREFIX @ z"
    by (auto simp: token_at_def prefix_def split: if_splits)
  with assms have t: "t = UID_PREFIX @ takeWhile uid_char z" "takeWhile uid_char z \<noteq> []"
    by (auto simp: token_at_def Let_def split: if_splits)
  have "drop (length t) s = dropWhile uid_char z"
    by (simp add: s t(1) dropWhile_eq_drop)
  moreover have "\<not> uid_char c" if "dropWhile uid_char z = c # cs" for c cs
    using hd_dropWhile [of uid_char z] that by simp
  moreover have "wf_token t" using t by (auto simp: wf_token_def list_all_iff dest: set_takeWhileD)
  ultimately show ?thesis by (simp add: s t(1))
qed

lemma token_at_wf:
  assumes "wf_token t" "\<forall>c cs. z = c # cs \<longrightarrow> \<not> uid_char c"
  shows "token_at (t @ z) = Some t"
proof -
  obtain b where t: "t = UID_PREFIX @ b" "b \<noteq> []" "list_all uid_char b" using assms(1) by (auto simp: wf_token_def)
  have "takeWhile uid_char z = []" using assms(2) by (cases z) auto
  then have "takeWhile uid_char (b @ z) = b" using t(3) by (simp add: takeWhile_append2 list_all_iff)
  with t show ?thesis by (simp add: token_at_def)
qed

lemma token_at_take: "token_at s \<noteq> None \<longleftrightarrow> (\<exists>d. uid_char d \<and> take 7 s = UID_PREFIX @ [d])"
proof
  assume "token_at s \<noteq> None"
  then obtain z where z: "s = UID_PREFIX @ z" "takeWhile uid_char z \<noteq> []"
    by (auto simp: token_at_def prefix_def Let_def split: if_splits)
  then obtain d ds where "z = d # ds" "uid_char d" by (cases z) (auto split: if_splits)
  with z show "\<exists>d. uid_char d \<and> take 7 s = UID_PREFIX @ [d]" by simp
next
  assume "\<exists>d. uid_char d \<and> take 7 s = UID_PREFIX @ [d]"
  then obtain d where d: "uid_char d" "take 7 s = UID_PREFIX @ [d]" by blast
  then have "s = UID_PREFIX @ d # drop 7 s" using append_take_drop_id [of 7 s] by simp
  then have "prefix UID_PREFIX s" "drop 6 s = d # drop 7 s" by (metis prefixI, metis append_eq_conv_conj length_prefix)
  with d show "token_at s \<noteq> None" by (simp add: token_at_def)
qed

lemma pieces_token: "token_at z = Some t \<Longrightarrow> uid_pieces z = Tok t # uid_pieces (drop (length t) z)"
  by (cases z) (simp_all add: token_at_def UID_PREFIX_def)

lemma render_simps [simp]: "render [] = []" "render (p # ps) = piece_text p @ render ps"
  by (simp_all add: render_def)

lemma render_pieces: "render (uid_pieces s) = s"
proof (induction s rule: uid_pieces.induct)
  case (2 c cs)
  show ?case
  proof (cases "token_at (c # cs)")
    case (Some t)
    have "c # cs = t @ drop (length t) (c # cs)" using token_at_SomeD [OF Some] by blast
    with 2(2) [OF Some] Some show ?thesis by simp
  qed (use 2 in simp)
qed simp

lemma wf_take: "wf_token t \<Longrightarrow> k \<le> 6 \<Longrightarrow> take k (t @ z) = take k UID_PREFIX"
  by (auto simp: wf_token_def)

lemma take_rewritten:
  assumes f: "\<And>t. wf_token t \<Longrightarrow> wf_token (f t)" and k: "k \<le> 6"
  shows "take k (render (map (rewrite_piece f) (uid_pieces s))) = take k s"
  using k
proof (induction s arbitrary: k rule: uid_pieces.induct)
  case (2 c cs)
  show ?case
  proof (cases "token_at (c # cs)")
    case (Some t)
    note t = token_at_SomeD [OF Some]
    then have "take k (c # cs) = take k UID_PREFIX" using wf_take [of t k "drop (length t) (c # cs)"] 2(3) by metis
    moreover have "take k (f t @ z) = take k UID_PREFIX" for z by (rule wf_take [OF f 2(3)]) (use t in blast)
    ultimately show ?thesis using Some by (simp del: take_append)
  next
    case None
    with 2 show ?thesis by (cases k) simp_all
  qed
qed simp

lemma pieces_rewritten:
  assumes f: "\<And>t. wf_token t \<Longrightarrow> wf_token (f t)"
  shows "uid_pieces (render (map (rewrite_piece f) (uid_pieces s))) = map (rewrite_piece f) (uid_pieces s)"
proof (induction s rule: uid_pieces.induct)
  case (2 c cs)
  let ?X = "\<lambda>s. render (map (rewrite_piece f) (uid_pieces s))"
  show ?case
  proof (cases "token_at (c # cs)")
    case (Some t)
    note t = token_at_SomeD [OF Some]
    let ?r = "drop (length t) (c # cs)"
    have "take 1 (?X ?r) = take 1 ?r" by (rule take_rewritten [OF f]) simp_all
    then have "\<forall>d ds. ?X ?r = d # ds \<longrightarrow> \<not> uid_char d" using t by (cases ?r) auto
    then have tok: "token_at (f t @ ?X ?r) = Some (f t)" using f t by (intro token_at_wf) auto
    from pieces_token [OF tok] have "uid_pieces (f t @ ?X ?r) = Tok (f t) # uid_pieces (?X ?r)"
      by (simp only: append_eq_conv_conj drop_append) simp
    with 2(2) [OF Some] Some show ?thesis by simp
  next
    case None
    have "take 6 (?X cs) = take 6 cs" by (rule take_rewritten [OF f]) simp_all
    then have "take 7 (c # ?X cs) = take 7 (c # cs)" by simp
    then have "token_at (c # ?X cs) = None" using None token_at_take by metis
    with 2(1) [OF None] None show ?thesis by simp
  qed
qed simp

lemma piece_tokens_map: "piece_tokens (map (rewrite_piece f) ps) = map f (piece_tokens ps)"
  by (induction ps rule: piece_tokens.induct) simp_all

lemma match_wf: "t \<in> set (match_uids s) \<Longrightarrow> wf_token t"
  unfolding match_uids_def
proof (induction s rule: uid_pieces.induct)
  case (2 c cs)
  show ?case
  proof (cases "token_at (c # cs)")
    case (Some u)
    with 2(2) [OF Some] 2(3) token_at_SomeD [OF Some] show ?thesis by auto
  qed (use 2 in auto)
qed simp

definition wf_replacements :: "attrs \<Rightarrow> bool" where
  "wf_replacements m = list_all (\<lambda>e. wf_token (snd e)) m"

lemma replacement_wf: "wf_replacements m \<Longrightarrow> wf_token t \<Longrightarrow> wf_token (replacement m t)"
  by (auto simp: replacement_def wf_replacements_def list_all_iff split: option.split dest!: map_of_SomeD)

lemma rewrite_tokens:
  assumes "wf_replacements m"
  shows "match_uids (fst (rewriteUidsInText s m)) = map (replacement m) (match_uids s)"
  using pieces_rewritten [of "replacement m" s] replacement_wf [OF assms]
  by (simp add: rewriteUidsInText_def match_uids_def Let_def piece_tokens_map)

lemma rewrite_none: "snd (rewriteUidsInText s m) = 0 \<Longrightarrow> t \<in> set (match_uids s) \<Longrightarrow> replacement m t = t"
  by (auto simp: rewriteUidsInText_def match_uids_def Let_def filter_empty_conv)

text \<open>
  Rewriting a text replaces exactly its UID tokens: the tokens of the result are the old ones
  with the replacements applied, in order, the count is the number of tokens that changed, and a text
  without such a token stays as it is; replacements are tokens.
\<close>

theorem rewrite_replaces_tokens:
  assumes "wf_replacements m"
  shows "match_uids (fst (rewriteUidsInText s m)) = map (replacement m) (match_uids s) \<and>
    snd (rewriteUidsInText s m) = length (filter (\<lambda>t. replacement m t \<noteq> t) (match_uids s)) \<and>
    (snd (rewriteUidsInText s m) = 0 \<longrightarrow> fst (rewriteUidsInText s m) = s)"
proof -
  have "map (rewrite_piece f) ps = ps" if "\<forall>t \<in> set (piece_tokens ps). f t = t" for f ps
    using that by (induction ps rule: piece_tokens.induct) simp_all
  then have "fst (rewriteUidsInText s m) = s" if "snd (rewriteUidsInText s m) = 0"
    using rewrite_none [OF that] by (simp add: rewriteUidsInText_def match_uids_def Let_def render_pieces)
  then show ?thesis using rewrite_tokens [OF assms, of s] by (simp add: rewriteUidsInText_def match_uids_def Let_def)
qed

section \<open>Files\<close>

definition without :: "string \<Rightarrow> uid_state \<Rightarrow> string \<Rightarrow> bool" where
  "without u s file = (\<forall>text. u_files s file = Some text \<longrightarrow> u \<notin> set (match_uids text))"

lemma rewritten_without:
  assumes "wf_replacements m" "u \<notin> snd ` set m" "replacement m u \<noteq> u"
  shows "u \<notin> set (match_uids (fst (rewriteUidsInText text m)))"
proof
  assume "u \<in> set (match_uids (fst (rewriteUidsInText text m)))"
  then obtain t where t: "t \<in> set (match_uids text)" "replacement m t = u"
    unfolding rewrite_tokens [OF assms(1)] by auto
  with assms(3) have "t \<noteq> u" by auto
  with t(2) have "map_of m t = Some u" by (auto simp: replacement_def split: option.splits if_splits)
  then show False using assms(2) by (force dest: map_of_SomeD)
qed

lemma apply_files_without:
  assumes m: "wf_replacements m" "u \<notin> snd ` set m" "replacement m u \<noteq> u"
    and "apply_files x rt m rels acc s = (Ret r, s')"
  shows "(\<forall>rel \<in> set rels. without u s' (full_path rt rel)) \<and> (\<forall>file. without u s file \<longrightarrow> without u s' file)"
  using assms(4)
proof (induction rels arbitrary: acc s)
  case (Cons rel rels)
  let ?f = "full_path rt rel"
  show ?case
  proof (cases "u_files s ?f")
    case None
    then have "without u s ?f" by (simp add: without_def)
    with Cons None show ?thesis by (auto simp: Let_def)
  next
    case (Some body)
    obtain nxt count where rw: "rewriteUidsInText body m = (nxt, count)" by force
    show ?thesis
    proof (cases "0 < count")
      case False
      then have "u \<notin> set (match_uids body)" using rewrite_none [of body m u] rw m(3) by auto
      then have "without u s ?f" using Some by (simp add: without_def)
      with Cons False Some rw show ?thesis by (auto simp: Let_def)
    next
      case True
      let ?s = "s\<lparr>u_files := (u_files s)(?f \<mapsto> nxt)\<rparr>"
      have "u \<notin> set (match_uids nxt)" using rewritten_without [OF m, of body] rw by simp
      then have "without u ?s ?f" and "without u s p \<Longrightarrow> without u ?s p" for p
        by (auto simp: without_def)
      with Cons True Some rw show ?thesis by (auto simp: Let_def split: if_splits)
    qed
  qed
qed simp

lemma reconcile_files:
  assumes "reconcileProjectFiles x p rt m rg meta s = (Ret r, s')" "ux_tree x rt \<noteq> None"
  shows "\<exists>a s1. applyUidReplacements x rt m s = (Ret a, s1) \<and> u_files s' = u_files s1 \<and> u_rows s' = u_rows s"
proof -
  have rows: "u_rows s1 = u_rows s" if "apply_files x rt m rels acc s = (a, s1)" for rels acc a s s1
    using that by (induction rels arbitrary: acc s) (auto simp: Let_def split: option.splits prod.splits if_splits)
  have g: "u_files (snd (runGodotReimport x rt s1)) = u_files s1" "u_rows (snd (runGodotReimport x rt s1)) = u_rows s1" for s1
    by (simp_all add: runGodotReimport_def u_draw_def draw_def)
  obtain a s1 where a: "applyUidReplacements x rt m s = (Ret a, s1)"
    using assms by (auto simp: reconcileProjectFiles_def split: prod.splits outcome.splits)
  have "u_rows s1 = u_rows s" using a rows by (auto simp: applyUidReplacements_def split: if_splits)
  moreover have "u_files s' = u_files s1 \<and> u_rows s' = u_rows s1"
    using assms a g [of s1]
    by (auto simp: reconcileProjectFiles_def reconcile_audit_def u_upd_def split: prod.splits if_splits)
  ultimately show ?thesis using a by auto
qed

section \<open>Canonical rows\<close>

lemma regenerate_keeps:
  assumes "r \<in> set (u_rows s)" "um_id r \<noteq> i" shows "r \<in> set (u_rows (regenerate x i s))"
proof -
  have "r \<in> set rs \<Longrightarrow> um_id r \<noteq> i \<Longrightarrow> r \<in> set (set_row um_id i f rs)" for rs f by (induction rs) auto
  with assms show ?thesis by (simp add: regenerate_fields)
qed

text \<open>What the loop over a group adds: its fixes and replacements, the new UIDs drawn from there on.\<close>

definition grown :: "uid_env \<Rightarrow> string \<Rightarrow> nat \<Rightarrow> uid_resolution \<Rightarrow> uid_resolution \<Rightarrow> bool" where
  "grown x u n res res' =
     ((\<forall>f \<in> set (ur_fixed res'). f \<in> set (ur_fixed res) \<or> fx_oldUid f = u) \<and>
      (\<forall>e \<in> set (ur_replacements res'). e \<in> set (ur_replacements res) \<or> snd e \<in> gen_uid x ` {n..}) \<and>
      fst ` set (ur_replacements res) \<subseteq> fst ` set (ur_replacements res') \<and>
      (\<forall>f \<in> set (ur_fixed res'). f \<in> set (ur_fixed res) \<or> u \<in> fst ` set (ur_replacements res')))"

lemma set_attr_put: "set (attr_put k v m) \<subseteq> insert (k, v) (set m)" "fst ` set (attr_put k v m) = insert k (fst ` set m)"
proof -
  show "set (attr_put k v m) \<subseteq> insert (k, v) (set m)" by (induction m) (auto split: if_splits)
  show "fst ` set (attr_put k v m) = insert k (fst ` set m)"
    by (simp add: dom_map_of_conv_image_fst [symmetric] map_of_attr_put)
qed

lemma rows_grown:
  assumes "resolve_rows x u paths rows res s = (res', s')" "distinct (map um_id (u_rows s))"
  shows "grown x u (nonce (u_world s)) res res' \<and> nonce (u_world s) \<le> nonce (u_world s') \<and>
    map um_id (u_rows s') = map um_id (u_rows s) \<and>
    (\<forall>r \<in> set (u_rows s). um_id r \<notin> um_id ` set rows \<longrightarrow> r \<in> set (u_rows s'))"
  using assms
proof (induction rows arbitrary: res s)
  case Nil
  then show ?case by (simp add: grown_def)
next
  case (Cons row rows)
  show ?case
  proof (cases "um_namespace row = OVRD")
    case True
    with Cons.prems Cons.IH [of "res\<lparr>ur_manual := ur_manual res @ [(u, paths)]\<rparr>" s] show ?thesis
      by (simp add: resolve_rows_Cons grown_def del: resolve_rows.simps(2))
  next
    case False
    let ?n = "nonce (u_world s)"
    let ?res = "res\<lparr>ur_fixed := ur_fixed res @ [\<lparr>fx_oldUid = u, fx_newUid = gen_uid x ?n, fx_path = um_path row\<rparr>],
             ur_replacements := attr_put u (gen_uid x ?n) (ur_replacements res)\<rparr>"
    let ?s = "regenerate x (um_id row) s"
    have ih: "grown x u (Suc ?n) ?res res'" "Suc ?n \<le> nonce (u_world s')" "map um_id (u_rows s') = map um_id (u_rows s)"
      "\<And>r. r \<in> set (u_rows ?s) \<Longrightarrow> um_id r \<notin> um_id ` set rows \<Longrightarrow> r \<in> set (u_rows s')"
      using Cons.IH [of ?res ?s] Cons.prems False
      by (simp_all add: resolve_rows_Cons regenerate_fields(2) del: resolve_rows.simps(2))
    have "grown x u ?n res res'"
      unfolding grown_def
    proof (intro conjI ballI)
      show "f \<in> set (ur_fixed res) \<or> fx_oldUid f = u" if "f \<in> set (ur_fixed res')" for f
        using ih(1) that by (auto simp: grown_def)
      show "e \<in> set (ur_replacements res) \<or> snd e \<in> gen_uid x ` {?n..}" if "e \<in> set (ur_replacements res')" for e
        using ih(1) that set_attr_put(1) [of u "gen_uid x ?n" "ur_replacements res"] by (fastforce simp: grown_def)
      show "fst ` set (ur_replacements res) \<subseteq> fst ` set (ur_replacements res')"
        using ih(1) by (simp add: grown_def set_attr_put(2))
      show "f \<in> set (ur_fixed res) \<or> u \<in> fst ` set (ur_replacements res')" for f
        using ih(1) by (simp add: grown_def set_attr_put(2))
    qed
    with ih regenerate_keeps show ?thesis by auto
  qed
qed

lemma canonical_order_set: "set (canonical_order rows) = set rows"
  by (auto simp: canonical_order_def)

lemma distinct_canonical: "distinct (map um_id rows) \<Longrightarrow> distinct (map um_id (canonical_order rows))"
proof -
  assume d: "distinct (map um_id rows)"
  have s: "distinct (map um_id (sort_key k (filter P rows)))" for k :: "UidRow \<Rightarrow> int" and P
  proof -
    have "distinct (sort_key k (filter P rows))" using d by (simp add: distinct_map)
    moreover have "inj_on um_id (set (sort_key k (filter P rows)))"
      using d by (auto simp: distinct_map intro: inj_on_subset)
    ultimately show ?thesis by (simp add: distinct_map)
  qed
  have "um_id ` {r \<in> set rows. um_namespace r = OVRD} \<inter> um_id ` {r \<in> set rows. um_namespace r \<noteq> OVRD} = {}"
    using distinct_key_inj [OF d] by auto
  then show ?thesis using s by (simp add: canonical_order_def)
qed

lemma group_grown:
  assumes eq: "resolve_group x p g res s = (res', s')" and d: "distinct (map um_id (u_rows s))"
  shows "grown x (fst g) (nonce (u_world s)) res res' \<and> nonce (u_world s) \<le> nonce (u_world s') \<and>
    map um_id (u_rows s') = map um_id (u_rows s) \<and>
    (\<forall>r \<in> set (u_rows s). um_projectId r \<noteq> p \<or> um_uid r \<noteq> fst g \<longrightarrow> r \<in> set (u_rows s')) \<and>
    ((\<exists>r \<in> set (u_rows s). um_projectId r = p \<and> um_uid r = fst g) \<longrightarrow>
     (\<exists>r \<in> set (u_rows s'). um_projectId r = p \<and> um_uid r = fst g))"
proof -
  let ?G = "filter (\<lambda>r. um_projectId r = p \<and> um_uid r = fst g) (u_rows s)"
  let ?C = "canonical_order ?G"
  show ?thesis
  proof (cases "length ?C < 2")
    case True
    with eq show ?thesis by (auto simp: resolve_group_def grown_def)
  next
    case False
    then obtain c cs where c: "?C = c # cs" by (cases ?C) auto
    have mem: "set (c # cs) = {r \<in> set (u_rows s). um_projectId r = p \<and> um_uid r = fst g}"
      using canonical_order_set [of ?G] unfolding c by auto
    have "distinct (map um_id ?G)" using d by (rule distinct_map_filter)
    then have dc: "um_id c \<notin> um_id ` set cs" using distinct_canonical [of ?G] unfolding c by simp
    have rest: "resolve_rows x (fst g) (snd g) cs res s = (res', s')" using eq False c by (simp add: resolve_group_def)
    note r = rows_grown [OF rest d]
    have "r \<in> set (u_rows s')" if r1: "r \<in> set (u_rows s)" "um_projectId r \<noteq> p \<or> um_uid r \<noteq> fst g" for r
    proof -
      have "um_id r \<notin> um_id ` set cs"
      proof
        assume "um_id r \<in> um_id ` set cs"
        then obtain q where q: "q \<in> set cs" "um_id r = um_id q" by auto
        then have qs: "q \<in> set (u_rows s)" "um_projectId q = p" "um_uid q = fst g" using mem by auto
        from distinct_key_inj [OF d r1(1) qs(1) q(2)] qs(2,3) r1(2) show False by simp
      qed
      with r r1(1) show ?thesis by blast
    qed
    moreover have "c \<in> set (u_rows s')" "um_projectId c = p" "um_uid c = fst g" using mem dc r by auto
    ultimately show ?thesis using r by blast
  qed
qed

lemma groups_grown:
  assumes "resolve_groups x p gs res s = (res', s')" "distinct (map um_id (u_rows s))"
  shows "nonce (u_world s) \<le> nonce (u_world s') \<and>
    (\<forall>f \<in> set (ur_fixed res'). f \<in> set (ur_fixed res) \<or> fx_oldUid f \<in> fst ` set gs \<inter> fst ` set (ur_replacements res')) \<and>
    (\<forall>e \<in> set (ur_replacements res'). e \<in> set (ur_replacements res) \<or> snd e \<in> gen_uid x ` {nonce (u_world s)..}) \<and>
    fst ` set (ur_replacements res) \<subseteq> fst ` set (ur_replacements res') \<and>
    (\<forall>u. (\<exists>r \<in> set (u_rows s). um_projectId r = p \<and> um_uid r = u) \<longrightarrow>
         (\<exists>r \<in> set (u_rows s'). um_projectId r = p \<and> um_uid r = u))"
  using assms
proof (induction gs arbitrary: res s)
  case (Cons g gs)
  obtain res1 s1 where g: "resolve_group x p g res s = (res1, s1)" by force
  note grp = group_grown [OF g Cons.prems(2)]
  have "resolve_groups x p gs res1 s1 = (res', s')" "distinct (map um_id (u_rows s1))"
    using Cons.prems g grp by auto
  note ih = Cons.IH [OF this]
  show ?case
  proof (intro conjI)
    show "nonce (u_world s) \<le> nonce (u_world s')" using grp ih by linarith
    show "\<forall>f \<in> set (ur_fixed res'). f \<in> set (ur_fixed res) \<or> fx_oldUid f \<in> fst ` set (g # gs) \<inter> fst ` set (ur_replacements res')"
    proof
      fix f assume "f \<in> set (ur_fixed res')"
      then consider "f \<in> set (ur_fixed res1)" | "fx_oldUid f \<in> fst ` set gs \<inter> fst ` set (ur_replacements res')"
        using ih by blast
      then show "f \<in> set (ur_fixed res) \<or> fx_oldUid f \<in> fst ` set (g # gs) \<inter> fst ` set (ur_replacements res')"
      proof cases
        case 1
        then consider "f \<in> set (ur_fixed res)" | "fx_oldUid f = fst g" "fst g \<in> fst ` set (ur_replacements res1)"
          using grp unfolding grown_def by blast
        then show ?thesis
        proof cases
          case 2
          have "fst g \<in> fst ` set (ur_replacements res')" by (rule subsetD [OF _ 2(2)]) (use ih in blast)
          with 2(1) show ?thesis by simp
        qed simp
      qed auto
    qed
    have sub: "gen_uid x ` {nonce (u_world s1)..} \<subseteq> gen_uid x ` {nonce (u_world s)..}" using grp by (intro image_mono) simp
    have r1: "\<forall>e \<in> set (ur_replacements res1). e \<in> set (ur_replacements res) \<or> snd e \<in> gen_uid x ` {nonce (u_world s)..}"
      "fst ` set (ur_replacements res) \<subseteq> fst ` set (ur_replacements res1)"
      using grp unfolding grown_def by argo+
    have r2: "\<forall>e \<in> set (ur_replacements res'). e \<in> set (ur_replacements res1) \<or> snd e \<in> gen_uid x ` {nonce (u_world s1)..}"
      "fst ` set (ur_replacements res1) \<subseteq> fst ` set (ur_replacements res')"
      using ih by argo+
    show "\<forall>e \<in> set (ur_replacements res'). e \<in> set (ur_replacements res) \<or> snd e \<in> gen_uid x ` {nonce (u_world s)..}"
    proof
      fix e assume "e \<in> set (ur_replacements res')"
      with r2(1) consider "e \<in> set (ur_replacements res1)" | "snd e \<in> gen_uid x ` {nonce (u_world s1)..}" by blast
      then show "e \<in> set (ur_replacements res) \<or> snd e \<in> gen_uid x ` {nonce (u_world s)..}"
        by cases (use r1(1) in blast, use subsetD [OF sub] in blast)
    qed
    show "fst ` set (ur_replacements res) \<subseteq> fst ` set (ur_replacements res')" by (rule subset_trans [OF r1(2) r2(2)])
    show "\<forall>u. (\<exists>r \<in> set (u_rows s). um_projectId r = p \<and> um_uid r = u) \<longrightarrow>
         (\<exists>r \<in> set (u_rows s'). um_projectId r = p \<and> um_uid r = u)"
      using grp ih by metis
  qed
qed simp

lemma tables_groups:
  assumes "resolve_tables x p s = (res, s')"
  shows "\<exists>s1. resolve_groups x p (findDuplicates p s) \<lparr>ur_fixed = [], ur_manual = [], ur_replacements = []\<rparr> s = (res, s1)
    \<and> u_rows s' = u_rows s1"
  using assms by (auto simp: resolve_tables_def u_upd_def split: prod.splits if_splits)

lemma duplicate_uids: "u \<in> fst ` set (findDuplicates p s) \<Longrightarrow> \<exists>r \<in> set (u_rows s). um_projectId r = p \<and> um_uid r = u"
  by (auto simp: findDuplicates_def project_uids_def Let_def)

text \<open>
  C24 (invariant). After the resolution of the tables the rows of a project that are no reservations share a
  UID only when they are overrides, and such a UID is reported for manual review; ids are unique and the
  random UIDs are new.
\<close>

theorem duplicates_resolved:
  assumes "distinct (map um_id (u_rows s))" "fresh_uids x s" "resolve_tables x p s = (res, s')"
  shows "\<forall>r \<in> set (project_uids p s'). \<forall>r' \<in> set (project_uids p s').
    um_id r \<noteq> um_id r' \<and> um_uid r = um_uid r' \<longrightarrow>
      um_namespace r = OVRD \<and> um_namespace r' = OVRD \<and> um_uid r \<in> fst ` set (ur_manual res)"
proof -
  let ?res = "\<lparr>ur_fixed = [], ur_manual = [], ur_replacements = []\<rparr>"
  have "um_uid r \<in> fst ` set (findDuplicates p s)"
    if r: "r \<in> set (project_uids p s)" "r' \<in> set (project_uids p s)" "um_id r \<noteq> um_id r'" "um_uid r = um_uid r'" for r r'
  proof -
    have "2 \<le> length (filter (\<lambda>q. um_uid q = um_uid r) (project_uids p s))"
      by (rule two_members [of r _ r']) (use r in auto)
    with r(1) show ?thesis by (force simp: findDuplicates_def Let_def)
  qed
  then have start: "uid_inv x p (fst ` set (findDuplicates p s)) v [] ?res s" for v
    using assms(1,2) by (auto simp: uid_inv_def separated_def)
  obtain s1 where "resolve_groups x p (findDuplicates p s) ?res s = (res, s1)" "u_rows s' = u_rows s1"
    using tables_groups [OF assms(3)] by blast
  moreover from inv_groups [OF start this(1)] obtain v where "uid_inv x p {} v [] res s1" by blast
  ultimately show ?thesis by (auto simp: uid_inv_def separated_def project_uids_def)
qed

text \<open>
  The canonical row of a duplicate UID loses its UID in the files: when a row of a project with a
  local tree was given a new UID, the old one still stands in the tables, for the row that kept it, but no
  scanned file contains it any more, the canonical file included.
\<close>

theorem canonical_uid_lost_in_files:
  assumes d: "distinct (map um_id (u_rows s))" and fresh: "fresh_uids x s" and hex: "\<forall>n. list_all uid_char (ux_hex x n)"
    and auto: "autoResolveDuplicates x p (Some rt) rg meta s = (Ret r, s')"
    and rt: "rt \<noteq> []" "ux_tree x rt \<noteq> None" and f: "f \<in> set (ao_fixed r)"
  shows "(\<exists>row \<in> set (u_rows s'). um_projectId row = p \<and> um_uid row = fx_oldUid f) \<and>
    (\<forall>rel \<in> set (walkProjectFiles x rt). without (fx_oldUid f) s' (full_path rt rel))"
proof -
  let ?u = "fx_oldUid f"
  obtain res s1 where tables: "resolve_tables x p s = (res, s1)" by force
  obtain s2 where groups: "resolve_groups x p (findDuplicates p s) \<lparr>ur_fixed = [], ur_manual = [], ur_replacements = []\<rparr> s = (res, s2)"
    and rows: "u_rows s1 = u_rows s2" using tables_groups [OF tables] by blast
  note g = groups_grown [OF groups d]
  have "ao_fixed r = ur_fixed res" using auto tables
    by (auto simp: autoResolveDuplicates_def split: if_splits prod.splits outcome.splits)
  with f g have u: "?u \<in> fst ` set (findDuplicates p s)" "?u \<in> fst ` set (ur_replacements res)" by auto
  let ?m = "ur_replacements res"
  have m: "snd e \<in> gen_uid x ` {nonce (u_world s)..}" if "e \<in> set ?m" for e using g that by auto
  obtain row where row: "row \<in> set (u_rows s)" "um_projectId row = p" "um_uid row = ?u"
    using duplicate_uids [OF u(1)] by blast
  then have new: "?u \<noteq> gen_uid x n" if "nonce (u_world s) \<le> n" for n using fresh that by (auto simp: fresh_uids_def)
  have "wf_token (gen_uid x n)" for n
    using hex by (auto simp: wf_token_def gen_uid_def UID_PREFIX_def uid_char_def is_word_def is_alpha_def code_def)
  then have wf: "wf_replacements ?m" using m by (fastforce simp: wf_replacements_def list_all_iff)
  have fresh_u: "?u \<notin> snd ` set ?m" using m new by force
  obtain v where v: "map_of ?m ?u = Some v" using u(2) by (metis map_of_eq_None_iff not_None_eq)
  then have "v \<noteq> ?u" using fresh_u by (force dest: map_of_SomeD)
  moreover have "v \<noteq> []" using m [of "(?u, v)"] map_of_SomeD [OF v] by (auto simp: gen_uid_def)
  ultimately have rep: "replacement ?m ?u \<noteq> ?u" using v by (simp add: replacement_def)
  obtain a where after: "reconcileProjectFilesAfterFix x p rt ?m rg meta s1 = (Ret a, s')"
    using auto tables rt(1) u(2)
    by (auto simp: autoResolveDuplicates_def truthy_def split: if_splits prod.splits outcome.splits)
  then obtain md fr where "reconcileProjectFiles x p rt ?m rg md s1 = (Ret fr, s')"
    by (auto simp: reconcileProjectFilesAfterFix_def Let_def split: prod.splits outcome.splits)
  from reconcile_files [OF this rt(2)] obtain ar s3 where ap: "applyUidReplacements x rt ?m s1 = (Ret ar, s3)"
    "u_files s' = u_files s3" "u_rows s' = u_rows s1" by blast
  have "?m \<noteq> []" using u(2) by auto
  with ap(1) have "apply_files x rt ?m (walkProjectFiles x rt) \<lparr>ar_filesTouched = [], ar_replacements = 0\<rparr> s1 = (Ret ar, s3)"
    by (simp add: applyUidReplacements_def)
  from apply_files_without [OF wf fresh_u rep this] ap(2)
  have "\<forall>rel \<in> set (walkProjectFiles x rt). without ?u s' (full_path rt rel)" by (simp add: without_def)
  moreover have "\<exists>row \<in> set (u_rows s'). um_projectId row = p \<and> um_uid row = ?u"
    using g row ap(3) rows by metis
  ultimately show ?thesis by blast
qed

section \<open>Instances\<close>

definition uid_env_example :: uid_env where
  "uid_env_example =
     \<lparr>ux_env = env_example, ux_ext = ext_example, ux_hex = show_nat, ux_lock_free = (\<lambda>_ _. True),
      ux_tree = (\<lambda>p. if p = ''/p'' then Some [Plain ''a.tscn'', Plain ''b.tscn''] else None), ux_writable = (\<lambda>_. True),
      ux_godot = (\<lambda>_ _. GodotClosed (Some 0) []), ux_put_error = (\<lambda>_. None), ux_dispatch = (\<lambda>_. Inl (None, False))\<rparr>"

definition uid_row_example :: "string \<Rightarrow> string \<Rightarrow> UidNamespace \<Rightarrow> nat \<Rightarrow> UidRow" where
  "uid_row_example i path ns t =
     \<lparr>um_id = i, um_projectId = ''p'', um_path = path, um_uid = ''uid://abc'', um_namespace = ns, um_reservedBy = None,
      um_updatedAt = t\<rparr>"

definition uid_example :: uid_state where
  "uid_example =
     \<lparr>u_world = empty_lock_fields, u_rows = [uid_row_example ''1'' ''a.tscn'' GEN 20, uid_row_example ''2'' ''b.tscn'' USER 10],
      u_meta = (\<lambda>_. None),
      u_files = (\<lambda>f. if f = ''/p/a.tscn'' then Some ''uid=uid://abc;'' else if f = ''/p/b.tscn'' then Some ''uid=uid://abc'' else None),
      u_objects = [], u_calls = []\<rparr>"

lemma uid_example_fresh: "fresh_uids uid_env_example uid_example"
proof -
  have "inj show_nat" by (rule injI) (metis parse_show_nat)
  then have "inj (gen_uid uid_env_example)"
    by (auto simp: inj_def gen_uid_def uid_env_example_def)
  then show ?thesis
    by (auto simp: fresh_uids_def uid_example_def uid_row_example_def gen_uid_def intro: inj_on_subset)
qed

lemma uid_example_ids: "distinct (map um_id (u_rows uid_example))"
  by (simp add: uid_example_def uid_row_example_def)

lemma show_nat_uid_chars: "list_all uid_char (show_nat n)"
proof -
  have "uid_char c" if "is_digit c" for c using that by (simp add: uid_char_def is_word_def)
  then show ?thesis using show_nat_digits [of n] by (auto simp: list_all_iff)
qed

theorem duplicates_resolved_witness:
  "map um_uid (project_uids ''p'' (snd (resolve_tables uid_env_example ''p'' uid_example))) = [''uid://abc'', ''uid://GEN-0''] \<and>
   \<not> (\<exists>r r'. r \<in> set (project_uids ''p'' (snd (resolve_tables uid_env_example ''p'' uid_example))) \<and>
      r' \<in> set (project_uids ''p'' (snd (resolve_tables uid_env_example ''p'' uid_example))) \<and>
      um_id r \<noteq> um_id r' \<and> um_uid r = um_uid r' \<and> um_namespace r \<noteq> OVRD)"
proof -
  have "map um_uid (project_uids ''p'' (snd (resolve_tables uid_env_example ''p'' uid_example))) = [''uid://abc'', ''uid://GEN-0'']"
    by code_simp
  moreover obtain res s' where t: "resolve_tables uid_env_example ''p'' uid_example = (res, s')" by force
  then have s': "snd (resolve_tables uid_env_example ''p'' uid_example) = s'" by simp
  ultimately show ?thesis unfolding s' using duplicates_resolved [OF uid_example_ids uid_example_fresh t] by blast
qed

theorem rewrite_replaces_tokens_witness:
  "match_uids (fst (rewriteUidsInText ''x uid://a uid://ab!'' [(''uid://a'', ''uid://c'')])) = [''uid://c'', ''uid://ab'']"
proof -
  have "wf_replacements [(''uid://a'', ''uid://c'')]"
    by (auto simp: wf_replacements_def wf_token_def UID_PREFIX_def uid_char_def is_word_def is_alpha_def code_def)
  from rewrite_replaces_tokens [OF this, of "''x uid://a uid://ab!''"]
  have "match_uids (fst (rewriteUidsInText ''x uid://a uid://ab!'' [(''uid://a'', ''uid://c'')]))
      = map (replacement [(''uid://a'', ''uid://c'')]) (match_uids ''x uid://a uid://ab!'')" by blast
  also have "\<dots> = [''uid://c'', ''uid://ab'']" by code_simp
  finally show ?thesis .
qed

theorem canonical_uid_lost_in_files_witness:
  "\<exists>r s'. autoResolveDuplicates uid_env_example ''p'' (Some ''/p'') (Some True) None uid_example = (Ret r, s') \<and>
     u_files s' ''/p/a.tscn'' = Some ''uid=uid://GEN-0;'' \<and>
     (\<exists>row \<in> set (u_rows s'). um_uid row = ''uid://abc'') \<and> without ''uid://abc'' s' ''/p/a.tscn''"
proof -
  let ?c = "autoResolveDuplicates uid_env_example ''p'' (Some ''/p'') (Some True) None uid_example"
  have ok: "(case ?c of (Ret r, s') \<Rightarrow> map fx_oldUid (ao_fixed r) = [''uid://abc''] \<and> u_files s' ''/p/a.tscn'' = Some ''uid=uid://GEN-0;''
      | _ \<Rightarrow> False)" by code_simp
  then obtain r s' where c: "?c = (Ret r, s')" "map fx_oldUid (ao_fixed r) = [''uid://abc'']"
      "u_files s' ''/p/a.tscn'' = Some ''uid=uid://GEN-0;''"
    by (cases ?c) (auto split: outcome.splits)
  then obtain f where f: "f \<in> set (ao_fixed r)" "fx_oldUid f = ''uid://abc''" by (cases "ao_fixed r") auto
  have hex: "\<forall>n. list_all uid_char (ux_hex uid_env_example n)" by (simp add: uid_env_example_def show_nat_uid_chars)
  have tree: "''/p'' \<noteq> []" "ux_tree uid_env_example ''/p'' \<noteq> None" by (simp_all add: uid_env_example_def)
  have "full_path ''/p'' ''a.tscn'' = ''/p/a.tscn''" "''a.tscn'' \<in> set (walkProjectFiles uid_env_example ''/p'')" by code_simp+
  with canonical_uid_lost_in_files [OF uid_example_ids uid_example_fresh hex c(1) tree f(1)] c f(2) show ?thesis
    by metis
qed

end
