(* ===== verification/Uid_Rows.thy ===== *)
theory Uid_Rows
  imports Uid_Claims
begin

text \<open>
  The table of UIDs stays well formed, a reserved path is closed to other jobs, and the wait for the advisory
  lock ends.
\<close>

section \<open>Well-formed tables\<close>

definition uid_shape :: "UidRow \<Rightarrow> string \<times> (string \<times> string) \<times> UidNamespace \<times> string option" where
  "uid_shape r = (um_id r, (um_projectId r, um_path r), um_namespace r, um_reservedBy r)"

text \<open>Ids are unique, a project has a path once, and only placeholders are reserved.\<close>

definition wf_rows :: "UidRow list \<Rightarrow> bool" where
  "wf_rows rs =
     (distinct (map um_id rs) \<and> distinct (map (\<lambda>r. (um_projectId r, um_path r)) rs) \<and>
      list_all (\<lambda>r. um_namespace r \<noteq> TMP \<longrightarrow> um_reservedBy r = None) rs)"

lemma wf_rows_shape: "map uid_shape rs = map uid_shape rs' \<Longrightarrow> wf_rows rs = wf_rows rs'"
proof -
  assume eq: "map uid_shape rs = map uid_shape rs'"
  have k: "map um_id rs = map fst (map uid_shape rs)" "map (\<lambda>r. (um_projectId r, um_path r)) rs = map (fst \<circ> snd) (map uid_shape rs)"
    "list_all (\<lambda>r. um_namespace r \<noteq> TMP \<longrightarrow> um_reservedBy r = None) rs =
      list_all (\<lambda>(_, _, n, b). n \<noteq> TMP \<longrightarrow> b = None) (map uid_shape rs)" for rs
    by (simp_all add: uid_shape_def list_all_length comp_def)
  show ?thesis unfolding wf_rows_def k eq ..
qed

lemma map_set_row_same: "(\<And>r. g (f r) = g r) \<Longrightarrow> map g (set_row key i f rs) = map g rs"
  by (induction rs) auto

lemma regenerate_shape: "map uid_shape (u_rows (regenerate x i s)) = map uid_shape (u_rows s)"
  unfolding regenerate_fields by (rule map_set_row_same) (simp add: uid_shape_def)

lemma rows_shape: "resolve_rows x u paths rows res s = (res', s') \<Longrightarrow> map uid_shape (u_rows s') = map uid_shape (u_rows s)"
proof (induction rows arbitrary: res s)
  case (Cons row rows)
  then show ?case
    by (simp add: resolve_rows_Cons regenerate_shape split: if_splits del: resolve_rows.simps(2))
qed simp

lemma groups_shape: "resolve_groups x p gs res s = (res', s') \<Longrightarrow> map uid_shape (u_rows s') = map uid_shape (u_rows s)"
proof (induction gs arbitrary: res s)
  case (Cons g gs)
  obtain res1 s1 where g: "resolve_group x p g res s = (res1, s1)" by force
  then have "map uid_shape (u_rows s1) = map uid_shape (u_rows s)"
    using rows_shape by (auto simp: resolve_group_def Let_def split: if_splits)
  with Cons g show ?case by simp
qed simp

lemma files_rows:
  "u_rows (snd (reconcileProjectFiles x p rt m rg meta s)) = u_rows s"
proof -
  have a: "u_rows (snd (apply_files x rt m rels acc s)) = u_rows s" for rels acc s
    by (induction rels arbitrary: acc s) (simp_all add: Let_def split: option.split prod.split)
  then have "u_rows (snd (applyUidReplacements x rt m s)) = u_rows s" for s by (simp add: applyUidReplacements_def)
  then have ap: "u_rows s1 = u_rows s" if "applyUidReplacements x rt m s = (r, s1)" for r s s1 by (metis snd_conv that)
  have d: "u_rows (snd (dispatchUidReconcile x p rt m meta s)) = u_rows s"
    by (simp add: dispatchUidReconcile_def reconcile_audit_def u_upd_def u_draw_def draw_def Let_def split: option.split sum.split prod.split)
  then have di: "u_rows s1 = u_rows s" if "dispatchUidReconcile x p rt m meta s = (r, s1)" for r s1 by (metis snd_conv that)
  have g: "u_rows s2 = u_rows s1" if "runGodotReimport x rt s1 = (r, s2)" for r s1 s2
    using that by (auto simp: runGodotReimport_def u_draw_def draw_def)
  show ?thesis
    by (auto simp: reconcileProjectFiles_def reconcile_audit_def u_upd_def Let_def split: prod.split outcome.split
        dest: ap di) (metis ap g)+
qed

lemma auto_shape: "map uid_shape (u_rows (snd (autoResolveDuplicates x p rt rg meta s))) = map uid_shape (u_rows s)"
proof -
  obtain res s1 where t: "resolve_tables x p s = (res, s1)" by force
  have s1: "map uid_shape (u_rows s1) = map uid_shape (u_rows s)" using tables_groups [OF t] groups_shape by force
  have "u_rows (snd (reconcileProjectFilesAfterFix x p r m rg meta s1)) = u_rows s1" for r m
    using files_rows by (auto simp: reconcileProjectFilesAfterFix_def Let_def split: prod.split outcome.split) (metis snd_conv)+
  then have "u_rows s2 = u_rows s1" if "reconcileProjectFilesAfterFix x p r m rg meta s1 = (v, s2)" for r m v s2
    by (metis snd_conv that)
  then show ?thesis using s1
    by (simp add: autoResolveDuplicates_def t Let_def split: prod.split outcome.split)
qed

lemma wf_set_row:
  assumes "wf_rows rs" "\<And>r. um_id (f r) = um_id r" "\<And>r. (um_projectId (f r), um_path (f r)) = (um_projectId r, um_path r)"
    and "\<And>r. um_namespace (f r) \<noteq> TMP \<Longrightarrow> um_reservedBy (f r) = None"
  shows "wf_rows (set_row um_id i f rs)"
proof -
  have "list_all P (set_row um_id i f rs)" if "list_all P rs" "\<And>r. P (f r)" for P
    using that by (induction rs) auto
  with assms show ?thesis by (simp add: wf_rows_def map_set_row map_set_row_same)
qed

lemma reserve_locked_wf:
  assumes wf: "wf_rows (u_rows s)" and fresh: "\<forall>r \<in> set (u_rows s). um_id r \<noteq> x_uuid (ux_ext x) (nonce (u_world s))"
  shows "wf_rows (u_rows (snd (reserve_locked x o' logical tmp s)))"
proof (cases "path_row (rs_projectId o') logical s")
  case (Some row)
  have "wf_rows (set_row um_id i (\<lambda>r. r\<lparr>um_uid := tmp, um_namespace := TMP, um_reservedBy := j, um_updatedAt := t\<rparr>) (u_rows s))" for i j t
    by (rule wf_set_row [OF wf]) simp_all
  with Some wf show ?thesis by (auto simp: reserve_locked_def u_set_row_def split: if_splits)
next
  case None
  then have "\<forall>r \<in> set (u_rows s). (um_projectId r, um_path r) \<noteq> (rs_projectId o', logical)"
    by (auto simp: path_row_def find_None_iff)
  then show ?thesis using None wf fresh
    by (auto simp: reserve_locked_def u_draw_def draw_def u_upd_def wf_rows_def Let_def split: if_splits)
qed

text \<open>
  C25 (type). Every operation on the table of UIDs keeps it well formed: ids are unique, a project has a path
  once, and only placeholders are reserved; ids drawn are new.
\<close>

theorem uid_table_well_formed:
  assumes wf: "wf_rows (u_rows s)" and fresh: "\<forall>n \<ge> nonce (u_world s). \<forall>r \<in> set (u_rows s). um_id r \<noteq> x_uuid (ux_ext x) n"
  shows "wf_rows (u_rows (snd (reserve x o' s))) \<and> wf_rows (u_rows (snd (commitReservation p i uid ns s))) \<and>
    wf_rows (u_rows (snd (autoResolveDuplicates x p rt rg meta s)))"
proof (intro conjI)
  show "wf_rows (u_rows (snd (autoResolveDuplicates x p rt rg meta s)))"
    using wf wf_rows_shape [OF auto_shape] by blast
  have "wf_rows (set_row um_id i (\<lambda>r. r\<lparr>um_uid := uid, um_namespace := n, um_reservedBy := None, um_updatedAt := t\<rparr>) (u_rows s))" for n t
    by (rule wf_set_row [OF wf]) simp_all
  with wf show "wf_rows (u_rows (snd (commitReservation p i uid ns s)))"
    by (simp add: commitReservation_def u_set_row_def u_upd_def Let_def split: option.split)
  let ?s = "\<lambda>t. s\<lparr>u_world := (u_world s)\<lparr>nonce := Suc (nonce (u_world s)), now := t\<rparr>\<rparr>"
  have "wf_rows (u_rows (snd (reserve_locked x o' logical tmp (?s t))))" for logical tmp t
    by (rule reserve_locked_wf [of "?s t"]) (use wf fresh in auto)
  with wf show "wf_rows (u_rows (snd (reserve x o' s)))"
    by (simp add: reserve_def u_draw_def draw_def u_upd_def u_now_def Let_def split: prod.split)
qed

section \<open>Reservations\<close>

text \<open>
  A path that one job has reserved is closed to every other request until it is committed: the
  request fails and the table stays as it is.
\<close>

theorem reservation_exclusive:
  assumes "path_row (rs_projectId o') (normalizeLogicalPath (rs_logicalAssetPath o')) s = Some row"
    and "um_namespace row = TMP" "um_reservedBy row = Some j" "j \<noteq> []" "rs_jobId o' \<noteq> Some j"
  shows "throws (fst (reserve x o' s)) \<and> u_rows (snd (reserve x o' s)) = u_rows s"
proof -
  have "reserve_locked x o' (normalizeLogicalPath (rs_logicalAssetPath o')) tmp t = (Throw e, t) \<or> u_rows t \<noteq> u_rows s"
    if "e = system_error (''UID path reserved by job '' @ j @ ''; retry after that job completes'')" for tmp t e
    using assms that by (auto simp: reserve_locked_def path_row_def truthy_def)
  then have "throws (fst (reserve_locked x o' (normalizeLogicalPath (rs_logicalAssetPath o')) tmp t)) \<and>
      u_rows (snd (reserve_locked x o' (normalizeLogicalPath (rs_logicalAssetPath o')) tmp t)) = u_rows s"
    if "u_rows t = u_rows s" for tmp t
    using that by (metis fst_conv snd_conv throws_simps(2))
  then show ?thesis
    by (simp add: reserve_def u_draw_def draw_def u_upd_def Let_def split: prod.split)
qed

text \<open>
  The wait for the advisory lock returns less than one pause after its deadline, and it
  returns the lock exactly when one of its polls before the deadline finds it free.
\<close>

theorem advisory_wait_ends:
  "snd (waitForAdvisoryLock free deadline t) \<le> max t (deadline + 49) \<and>
   (fst (waitForAdvisoryLock free deadline t) \<longleftrightarrow> (\<exists>k. t + 50 * k < deadline \<and> free (t + 50 * k)))"
proof (induction free deadline t rule: waitForAdvisoryLock.induct)
  case (1 free deadline t)
  show ?case
  proof (cases "t < deadline \<and> \<not> free t")
    case True
    have "(\<exists>k. t + 50 * k < deadline \<and> free (t + 50 * k)) \<longleftrightarrow> (\<exists>k. t + 50 + 50 * k < deadline \<and> free (t + 50 + 50 * k))"
    proof
      assume "\<exists>k. t + 50 * k < deadline \<and> free (t + 50 * k)"
      then obtain k where k: "t + 50 * k < deadline" "free (t + 50 * k)" by blast
      with True obtain l where "k = Suc l" by (cases k) auto
      with k show "\<exists>k. t + 50 + 50 * k < deadline \<and> free (t + 50 + 50 * k)" by (auto simp: algebra_simps)
    next
      assume "\<exists>k. t + 50 + 50 * k < deadline \<and> free (t + 50 + 50 * k)"
      then obtain k where "t + 50 + 50 * k < deadline" "free (t + 50 + 50 * k)" by blast
      then show "\<exists>k. t + 50 * k < deadline \<and> free (t + 50 * k)" by (intro exI [of _ "Suc k"]) (simp add: algebra_simps)
    qed
    with 1 True show ?thesis by (simp add: waitForAdvisoryLock.simps [of free deadline t])
  next
    case False
    then have "\<not> t < deadline \<or> free t" by blast
    then show ?thesis
    proof
      assume "\<not> t < deadline"
      then show ?thesis by (auto simp: waitForAdvisoryLock.simps [of free deadline t])
    next
      assume "free t"
      show ?thesis
      proof (cases "t < deadline")
        case True
        with \<open>free t\<close> have "\<exists>k. t + 50 * k < deadline \<and> free (t + 50 * k)" by (intro exI [of _ 0]) simp
        with True \<open>free t\<close> show ?thesis by (simp add: waitForAdvisoryLock.simps [of free deadline t])
      qed (auto simp: waitForAdvisoryLock.simps [of free deadline t])
    qed
  qed
qed

theorem uid_table_well_formed_witness:
  "wf_rows (u_rows (snd (autoResolveDuplicates uid_env_example ''p'' (Some ''/p'') None None uid_example)))"
proof -
  have wf: "wf_rows (u_rows uid_example)" by code_simp
  have "\<forall>n \<ge> nonce (u_world uid_example). \<forall>r \<in> set (u_rows uid_example). um_id r \<noteq> x_uuid (ux_ext uid_env_example) n"
    by (simp add: uid_example_def uid_row_example_def uid_env_example_def ext_example_def)
  from uid_table_well_formed [OF wf this] show ?thesis by blast
qed

definition reserved_example :: uid_state where
  "reserved_example = uid_example\<lparr>u_rows := [(uid_row_example ''1'' ''a.tscn'' TMP 20)\<lparr>um_reservedBy := Some ''j1''\<rparr>]\<rparr>"

theorem reservation_exclusive_witness:
  "throws (fst (reserve uid_env_example
     \<lparr>rs_projectId = ''p'', rs_logicalAssetPath = ''./a.tscn'', rs_jobId = Some ''j2'', rs_lockTimeoutMs = None\<rparr> reserved_example))"
proof -
  let ?o = "\<lparr>rs_projectId = ''p'', rs_logicalAssetPath = ''./a.tscn'', rs_jobId = Some ''j2'', rs_lockTimeoutMs = None\<rparr>"
  have "path_row (rs_projectId ?o) (normalizeLogicalPath (rs_logicalAssetPath ?o)) reserved_example
      = Some ((uid_row_example ''1'' ''a.tscn'' TMP 20)\<lparr>um_reservedBy := Some ''j1''\<rparr>)"
    by code_simp
  from reservation_exclusive [OF this, of "''j1''" uid_env_example] show ?thesis
    by (simp add: uid_row_example_def)
qed

end
