(* ===== verification/Sandbox.thy ===== *)
theory Sandbox
  imports Semver Tier_Probe Merge_Outbox
begin

text \<open>
  The sandbox service, \<open>packages/sandbox-service/src\<close>: the gate on its production environment and what its
  health route claims, the worker thread and the Firecracker launcher that run an extension under a time
  limit, and the HTTP surface that the orchestrator calls. The Firecracker launcher, the URL parser and the
  memory behaviour of V8 are parameters. Limits are whole numbers.
\<close>

section \<open>Production environment\<close>

type_synonym process_env = "string \<Rightarrow> string option"

datatype FirecrackerLauncherMode = FcStub | FcReal

definition INSECURE_SANDBOX_DEFAULT :: string where
  "INSECURE_SANDBOX_DEFAULT = ''dev-sandbox-token''"

definition getFirecrackerLauncherMode :: "process_env \<Rightarrow> FirecrackerLauncherMode" where
  "getFirecrackerLauncherMode v =
     (if js_lower (or_default (v ''FIRECRACKER_LAUNCHER_MODE'') ''stub'') = ''real'' then FcReal else FcStub)"

definition isWorkerThreadBackend :: "string option \<Rightarrow> bool" where
  "isWorkerThreadBackend backend =
     (if \<not> truthy backend then True
      else let b = js_lower (the backend) in
           b = ''worker_thread'' \<or> b = ''worker_thread_policy_enforcer'' \<or> starts_with b ''worker_thread'')"

definition resolveSandboxBackendName :: "process_env \<Rightarrow> string" where
  "resolveSandboxBackendName v =
     (case v ''SANDBOX_BACKEND'' of
        None \<Rightarrow> ''worker_thread''
      | Some b \<Rightarrow> if js_trim b \<noteq> [] then js_trim b else ''worker_thread'')"

definition sandbox_env_errors :: "process_env \<Rightarrow> string list" where
  "sandbox_env_errors v =
     (let token = or_default (v ''SANDBOX_INTERNAL_TOKEN'') INSECURE_SANDBOX_DEFAULT;
          mode = getFirecrackerLauncherMode v;
          socket = v ''FIRECRACKER_SOCKET'';
          launcher = v ''FIRECRACKER_LAUNCHER'';
          backend = resolveSandboxBackendName v;
          workerThreadPolicy = isWorkerThreadBackend (Some backend)
      in (if token = INSECURE_SANDBOX_DEFAULT
          then [''SANDBOX_INTERNAL_TOKEN must be changed from the dev default''] else []) @
         (if truthy socket \<and> mode = FcStub
          then [''FIRECRACKER_LAUNCHER_MODE=stub is not allowed when FIRECRACKER_SOCKET is set (fail-closed; use real or unset socket)'']
          else []) @
         (if mode = FcReal
          then (if \<not> truthy socket
                then [''FIRECRACKER_SOCKET must be set when FIRECRACKER_LAUNCHER_MODE=real''] else []) @
               (if \<not> truthy launcher
                then [''FIRECRACKER_LAUNCHER must point to an executable microVM launcher when mode=real''] else [])
          else if \<not> workerThreadPolicy \<and> (str_includes (js_lower backend) ''firecracker'' \<or> truthy socket)
          then [''Production Firecracker path requires FIRECRACKER_LAUNCHER_MODE=real and a non-stub launcher (or set SANDBOX_BACKEND=worker_thread for Path B policy)'']
          else []))"

definition validateSandboxProductionEnv :: "process_env \<Rightarrow> unit outcome" where
  "validateSandboxProductionEnv v =
     (if v ''NODE_ENV'' \<noteq> Some ''production'' then Ret ()
      else let errors = sandbox_env_errors v in
           if errors \<noteq> []
           then Throw (system_error (''Sandbox production validation failed:'' @ [CHR 0x0A] @
                  join [CHR 0x0A] (map (\<lambda>m. ''  - '' @ m) errors)))
           else Ret ())"

datatype SandboxPolicy = worker_thread_only | firecracker_real | firecracker_stub

record SandboxHealth =
  sh_firecrackerReady :: bool
  sh_backend :: string
  sh_launcherMode :: FirecrackerLauncherMode
  sh_policy :: SandboxPolicy

definition firecrackerHealth :: "process_env \<Rightarrow> SandboxHealth" where
  "firecrackerHealth v =
     (let mode = getFirecrackerLauncherMode v;
          socket = v ''FIRECRACKER_SOCKET'';
          backendName = resolveSandboxBackendName v;
          workerThread = isWorkerThreadBackend (Some backendName)
      in if mode = FcStub
         then (if workerThread \<and> \<not> truthy socket
               then \<lparr>sh_firecrackerReady = False,
                     sh_backend = (if backendName = ''worker_thread_policy_enforcer''
                                   then ''worker_thread_policy_enforcer'' else ''worker_thread''),
                     sh_launcherMode = FcStub, sh_policy = worker_thread_only\<rparr>
               else \<lparr>sh_firecrackerReady = False, sh_backend = ''firecracker-stub'',
                     sh_launcherMode = FcStub, sh_policy = firecracker_stub\<rparr>)
         else \<lparr>sh_firecrackerReady = truthy socket, sh_backend = or_default (v ''SANDBOX_BACKEND'') ''firecracker'',
               sh_launcherMode = FcReal, sh_policy = firecracker_real\<rparr>)"

section \<open>Running an extension\<close>

record RunIsolatedOpts =
  ro_extensionId :: string
  ro_inputs :: metadata
  ro_network :: bool
  ro_approvedDomains :: "string list"
  ro_timeoutMs :: int
  ro_memoryLimit :: int

text \<open>\<open>setTimeout\<close> waits one millisecond when its delay is below one or does not fit in 31 bits.\<close>

definition timer_ms :: "int \<Rightarrow> nat" where
  "timer_ms ms = (if 1 \<le> ms \<and> ms \<le> 2147483647 then nat ms else 1)"

definition memoryLimitToMb :: "int \<Rightarrow> int" where
  "memoryLimitToMb memoryLimitBytes = max 64 (- ((- memoryLimitBytes) div (1024 * 1024)))"

datatype worker_event =
    Posted metadata
  | WorkerError "string option" string
  | WorkerExit int

definition memory_failure :: "string option \<Rightarrow> string \<Rightarrow> bool" where
  "memory_failure ecode msg =
     (let m = js_lower msg in
      ecode = Some ''ERR_WORKER_OUT_OF_MEMORY'' \<or> str_includes m ''heap'' \<or> str_includes m ''memory''
      \<or> str_includes m ''err_worker_out_of_memory'' \<or> str_includes m ''resourcelimit''
      \<or> list_ex (\<lambda>i. starts_with (drop i m) ''resource'' \<and> starts_with (drop (i + 9) m) ''limit''
                     \<and> \<not> is_newline (m ! (i + 8))) [0..<length m])"

text \<open>
  The first message, error or failing exit of the worker before its time is over decides; the events come
  with their times in milliseconds. The result comes with the time it is there.
\<close>

fun settle :: "nat \<Rightarrow> (nat \<times> worker_event) list \<Rightarrow> metadata outcome \<times> nat" where
  "settle limit [] = (Throw (system_error ''TIMEOUT: extension killed after limit''), limit)"
| "settle limit ((t, ev) # evs) =
     (if limit \<le> t then (Throw (system_error ''TIMEOUT: extension killed after limit''), limit)
      else case ev of
             Posted m \<Rightarrow>
               (if json_truthy (map_of m ''error'')
                then Throw (system_error (js_String (the (map_of m ''error'')))) else Ret m, t)
           | WorkerError c msg \<Rightarrow>
               (if memory_failure c msg then Throw (system_error (''MEMORY_LIMIT: '' @ msg))
                else Throw (JsError None c msg), t)
           | WorkerExit n \<Rightarrow>
               if n \<noteq> 0
               then (Throw (system_error (''MEMORY_LIMIT: worker exited with code '' @ show_int n)), t)
               else settle limit evs)"

text \<open>
  \<open>sx_hostname\<close> is \<open>new URL(v).hostname\<close>, \<open>None\<close> when the constructor throws; \<open>sx_Number\<close> is \<open>Number\<close>, \<open>None\<close>
  when the result is not finite; \<open>sx_allocate\<close> tells how a worker with a limit in megabytes fails that
  allocates as many as asked for, if it fails; \<open>sx_workerFile\<close> tells that \<open>extension-worker.js\<close> is there.
\<close>

datatype launch_end = SpawnError string | Closed int string string

record sandbox_ext =
  sx_workerFile :: bool
  sx_hostname :: "json \<Rightarrow> string option"
  sx_Number :: "json \<Rightarrow> int option"
  sx_allocate :: "int \<Rightarrow> int \<Rightarrow> worker_event option"
  sx_exists :: "string \<Rightarrow> bool"
  sx_launch :: "string \<Rightarrow> string list \<Rightarrow> string \<Rightarrow> nat \<times> launch_end"
  sx_parse :: "string \<Rightarrow> json option"
  sx_zodMessage :: string

text \<open>\<open>extension-worker.js\<close>\<close>

definition network_gate :: "sandbox_ext \<Rightarrow> RunIsolatedOpts \<Rightarrow> string option" where
  "network_gate x opts =
     (let url = map_of (ro_inputs opts) ''fetchUrl'' in
      if \<not> json_truthy url then None
      else if \<not> ro_network opts then Some ''NETWORK_DENIED: network disabled for this invocation''
      else case sx_hostname x (the url) of
             None \<Rightarrow> Some ''TypeError: Invalid URL''
           | Some host \<Rightarrow>
               if host \<in> set (ro_approvedDomains opts) then None
               else Some (''NETWORK_DENIED: domain '' @ host @ '' not in approved list''))"

definition input_number :: "sandbox_ext \<Rightarrow> string \<Rightarrow> RunIsolatedOpts \<Rightarrow> int option" where
  "input_number x key opts = sx_Number x (the (nullish (map_of (ro_inputs opts) key) (Some (JNum ''0''))))"

definition worker_success :: "sandbox_ext \<Rightarrow> RunIsolatedOpts \<Rightarrow> metadata" where
  "worker_success x opts =
     [(''ok'', JBool True), (''extensionId'', JStr (ro_extensionId opts)), (''echo'', JObj (ro_inputs opts)),
      (''sandbox'', JStr ''worker_thread'')] @
     (case input_number x ''allocateMiB'' opts of
        Some n \<Rightarrow> if n = 0 then [] else [(''allocatedMiB'', JNum (show_int n))]
      | None \<Rightarrow> [])"

definition worker_work :: "sandbox_ext \<Rightarrow> RunIsolatedOpts \<Rightarrow> worker_event" where
  "worker_work x opts =
     (case input_number x ''allocateMiB'' opts of
        Some n \<Rightarrow>
          (if n \<le> 0 then Posted (worker_success x opts)
           else case sx_allocate x (memoryLimitToMb (ro_memoryLimit opts)) n of
                  Some ev \<Rightarrow> ev
                | None \<Rightarrow> Posted (worker_success x opts))
      | None \<Rightarrow> Posted (worker_success x opts))"

definition extension_worker :: "sandbox_ext \<Rightarrow> RunIsolatedOpts \<Rightarrow> (nat \<times> worker_event) list" where
  "extension_worker x opts =
     (case network_gate x opts of
        Some er \<Rightarrow> [(0, Posted [(''error'', JStr er)])]
      | None \<Rightarrow>
          (case input_number x ''sleepMs'' opts of
             Some n \<Rightarrow> [(if 0 < n then timer_ms n else 0, worker_work x opts)]
           | None \<Rightarrow> [(0, worker_work x opts)]))"

definition inlineWorkerSource :: "RunIsolatedOpts \<Rightarrow> (nat \<times> worker_event) list" where
  "inlineWorkerSource opts =
     [(0, Posted (if \<not> ro_network opts \<and> json_truthy (map_of (ro_inputs opts) ''fetchUrl'')
                  then [(''error'', JStr ''NETWORK_DENIED: network disabled'')]
                  else [(''ok'', JBool True), (''extensionId'', JStr (ro_extensionId opts)),
                        (''echo'', JObj (ro_inputs opts)), (''sandbox'', JStr ''worker_thread'')]))]"

definition runWorkerThread :: "sandbox_ext \<Rightarrow> RunIsolatedOpts \<Rightarrow> json outcome \<times> nat" where
  "runWorkerThread x opts =
     (case settle (timer_ms (ro_timeoutMs opts))
             (if sx_workerFile x then extension_worker x opts else inlineWorkerSource opts) of
        (Ret m, t) \<Rightarrow> (Ret (JObj m), t)
      | (Throw er, t) \<Rightarrow> (Throw er, t))"

definition launcher_args :: "string \<Rightarrow> RunIsolatedOpts \<Rightarrow> string list" where
  "launcher_args socket opts =
     [''--socket'', socket, ''--extension-id'', ro_extensionId opts,
      ''--timeout-ms'', show_int (ro_timeoutMs opts), ''--memory-bytes'', show_int (ro_memoryLimit opts),
      ''--network'', if ro_network opts then ''1'' else ''0'']"

definition launcher_input :: "RunIsolatedOpts \<Rightarrow> string" where
  "launcher_input opts =
     stringify (JObj [(''extensionId'', JStr (ro_extensionId opts)), (''inputs'', JObj (ro_inputs opts)),
                      (''approvedDomains'', JArr (map JStr (ro_approvedDomains opts)))])"

definition runFirecracker :: "sandbox_ext \<Rightarrow> process_env \<Rightarrow> RunIsolatedOpts \<Rightarrow> json outcome \<times> nat" where
  "runFirecracker x v opts =
     (let socket = v ''FIRECRACKER_SOCKET''; launcher = v ''FIRECRACKER_LAUNCHER'' in
      if \<not> truthy socket \<or> \<not> truthy launcher
      then (Throw (system_error ''FIRECRACKER_SOCKET and FIRECRACKER_LAUNCHER must be configured''), 0)
      else if \<not> sx_exists x (the launcher)
      then (Throw (system_error (''FIRECRACKER_LAUNCHER not found: '' @ the launcher)), 0)
      else
        let (t, r) = sx_launch x (the launcher) (launcher_args (the socket) opts) (launcher_input opts);
            limit = timer_ms (ro_timeoutMs opts + 5000)
        in if limit \<le> t then (Throw (system_error ''TIMEOUT: firecracker launcher exceeded limit''), limit)
           else (case r of
                   SpawnError msg \<Rightarrow> Throw (system_error msg)
                 | Closed n out err \<Rightarrow>
                     if n \<noteq> 0
                     then Throw (system_error (if err \<noteq> [] then err else ''Firecracker launcher exited '' @ show_int n))
                     else Ret (case sx_parse x (if out \<noteq> [] then out else ''{}'') of
                                 Some j \<Rightarrow> j
                               | None \<Rightarrow> JObj [(''ok'', JBool True), (''backend'', JStr ''firecracker''),
                                               (''stdout'', JStr (js_trim out))]), t))"

definition runIsolated :: "sandbox_ext \<Rightarrow> process_env \<Rightarrow> RunIsolatedOpts \<Rightarrow> json outcome \<times> nat" where
  "runIsolated x v opts =
     (if truthy (v ''FIRECRACKER_SOCKET'') then runFirecracker x v opts else runWorkerThread x opts)"

section \<open>HTTP surface\<close>

record SandboxLimits =
  sl_cpu :: string
  sl_memoryMiB :: int
  sl_diskMiB :: int
  sl_timeoutSeconds :: int

record ExecuteBody =
  eb_extensionId :: string
  eb_inputs :: metadata
  eb_network :: bool
  eb_approvedDomains :: "string list"
  eb_limits :: SandboxLimits

text \<open>A reply is a status, a JSON body and the milliseconds until it is there.\<close>

record http_reply =
  hr_status :: nat
  hr_body :: json
  hr_after :: nat

definition limits_json :: "SandboxLimits \<Rightarrow> json" where
  "limits_json l =
     JObj [(''cpu'', JNum (sl_cpu l)), (''memoryMiB'', JNum (show_int (sl_memoryMiB l))),
           (''diskMiB'', JNum (show_int (sl_diskMiB l))), (''timeoutSeconds'', JNum (show_int (sl_timeoutSeconds l)))]"

definition sandbox_failure :: "string \<Rightarrow> nat \<times> json" where
  "sandbox_failure message =
     (if str_includes message ''timeout'' \<or> str_includes message ''TIMEOUT''
      then (504, JObj [(''ok'', JBool False), (''error'', JStr ''EXTENSION_EXEC_TIMEOUT''), (''code'', JStr ''E009''),
                       (''message'', JStr message)])
      else if str_includes message ''NETWORK_DENIED''
      then (403, JObj [(''ok'', JBool False), (''error'', JStr ''EXTENSION_NETWORK_DENIED''), (''code'', JStr ''E016''),
                       (''message'', JStr message)])
      else if str_includes message ''MEMORY_LIMIT'' \<or> str_includes (js_lower message) ''heap''
              \<or> str_includes (js_lower message) ''err_worker_out_of_memory''
      then (500, JObj [(''ok'', JBool False), (''error'', JStr ''EXTENSION_MEMORY_LIMIT''), (''code'', JStr ''E009''),
                       (''message'', JStr message)])
      else (500, JObj [(''ok'', JBool False), (''error'', JStr message)]))"

definition run_opts :: "ExecuteBody \<Rightarrow> RunIsolatedOpts" where
  "run_opts b =
     \<lparr>ro_extensionId = eb_extensionId b, ro_inputs = eb_inputs b, ro_network = eb_network b,
      ro_approvedDomains = eb_approvedDomains b, ro_timeoutMs = sl_timeoutSeconds (eb_limits b) * 1000,
      ro_memoryLimit = sl_memoryMiB (eb_limits b) * 1024 * 1024\<rparr>"

text \<open>A body that the schema rejects is Fastify's error 500.\<close>

definition post_execute :: "sandbox_ext \<Rightarrow> process_env \<Rightarrow> ExecuteBody option \<Rightarrow> http_reply" where
  "post_execute x v body =
     (case body of
        None \<Rightarrow> \<lparr>hr_status = 500,
                 hr_body = JObj [(''statusCode'', JNum ''500''), (''error'', JStr ''Internal Server Error''),
                                 (''message'', JStr (sx_zodMessage x))], hr_after = 0\<rparr>
      | Some b \<Rightarrow>
          (case runIsolated x v (run_opts b) of
             (Ret r, t) \<Rightarrow>
               \<lparr>hr_status = 200, hr_body = JObj [(''ok'', JBool True), (''result'', r), (''limits'', limits_json (eb_limits b))],
                hr_after = t\<rparr>
           | (Throw er, t) \<Rightarrow>
               \<lparr>hr_status = fst (sandbox_failure (err_msg er)), hr_body = snd (sandbox_failure (err_msg er)),
                hr_after = t\<rparr>))"

definition mode_text :: "FirecrackerLauncherMode \<Rightarrow> string" where
  "mode_text m = (case m of FcStub \<Rightarrow> ''stub'' | FcReal \<Rightarrow> ''real'')"

definition policy_text :: "SandboxPolicy \<Rightarrow> string" where
  "policy_text p = (case p of worker_thread_only \<Rightarrow> ''worker_thread_only'' | firecracker_real \<Rightarrow> ''firecracker_real''
                    | firecracker_stub \<Rightarrow> ''firecracker_stub'')"

definition get_health :: "process_env \<Rightarrow> http_reply" where
  "get_health v =
     (let fc = firecrackerHealth v in
      \<lparr>hr_status = 200,
       hr_body = JObj [(''ok'', JBool True), (''service'', JStr ''pgos-sandbox''), (''backend'', JStr (sh_backend fc)),
                       (''firecrackerReady'', JBool (sh_firecrackerReady fc)),
                       (''firecrackerLauncherMode'', JStr (mode_text (sh_launcherMode fc))),
                       (''sandboxPolicy'', JStr (policy_text (sh_policy fc)))], hr_after = 0\<rparr>)"

definition get_ready :: "process_env \<Rightarrow> http_reply" where
  "get_ready v =
     (let fc = firecrackerHealth v in
      \<lparr>hr_status = 200,
       hr_body = JObj [(''ok'', JBool True), (''service'', JStr ''pgos-sandbox''),
                       (''firecrackerReady'', JBool (sh_firecrackerReady fc)), (''backend'', JStr (sh_backend fc)),
                       (''sandboxPolicy'', JStr (policy_text (sh_policy fc)))], hr_after = 0\<rparr>)"

datatype sandbox_route = SbHealth | SbReady | SbExecute "ExecuteBody option"

definition internal_token :: "string option \<Rightarrow> process_env \<Rightarrow> string" where
  "internal_token configured v =
     or_default configured (or_default (v ''SANDBOX_INTERNAL_TOKEN'') INSECURE_SANDBOX_DEFAULT)"

text \<open>\<open>buildSandboxApp\<close>: the hook and the three routes; \<open>configured\<close> is the token among its options.\<close>

definition sandbox_app :: "sandbox_ext \<Rightarrow> process_env \<Rightarrow> string option \<Rightarrow> string option \<Rightarrow> sandbox_route \<Rightarrow> http_reply" where
  "sandbox_app x v configured auth route =
     (case route of
        SbHealth \<Rightarrow> get_health v
      | SbReady \<Rightarrow> get_ready v
      | SbExecute body \<Rightarrow>
          if auth \<noteq> Some (''Bearer '' @ internal_token configured v)
          then \<lparr>hr_status = 401, hr_body = JObj [(''error'', JStr ''unauthorized'')], hr_after = 0\<rparr>
          else post_execute x v body)"

end
