(* ===== verification/Sandbox_Claims.thy ===== *)
theory Sandbox_Claims
  imports Sandbox
begin

text \<open>
  What the sandbox service promises: its health route tells the truth about the runner once the production
  gate has passed, a run is decided by its time limit, and the worker thread lets an extension fetch from
  approved hosts only.
\<close>

lemma timer_pos: "timer_ms ms \<noteq> 0"
  by (simp add: timer_ms_def)

lemma settle_time: "snd (settle limit evs) \<le> limit"
  by (induction limit evs rule: settle.induct) (auto split: worker_event.split)

lemma worker_time: "snd (runWorkerThread x opts) \<le> timer_ms (ro_timeoutMs opts)"
  using settle_time [of "timer_ms (ro_timeoutMs opts)"]
  by (auto simp: runWorkerThread_def split: prod.split outcome.split) (metis snd_conv)+

lemma firecracker_time: "snd (runFirecracker x v opts) \<le> timer_ms (ro_timeoutMs opts + 5000)"
  by (auto simp: runFirecracker_def Let_def split: prod.split)

text \<open>A refusal of the gate ends the run with its error.\<close>

lemma gate_error: "network_gate x opts = Some er \<Longrightarrow> er \<noteq> []"
  by (auto simp: network_gate_def Let_def split: if_splits option.splits)

lemma worker_refused:
  assumes "network_gate x opts = Some er" "sx_workerFile x"
  shows "runWorkerThread x opts = (Throw (system_error er), 0)"
  using assms gate_error [OF assms(1)] timer_pos [of "ro_timeoutMs opts"]
  by (simp add: runWorkerThread_def extension_worker_def)

lemma gate_passed:
  assumes "network_gate x opts = None" "json_truthy (map_of (ro_inputs opts) ''fetchUrl'')"
  shows "ro_network opts"
    "\<exists>host \<in> set (ro_approvedDomains opts). sx_hostname x (the (map_of (ro_inputs opts) ''fetchUrl'')) = Some host"
  using assms by (auto simp: network_gate_def Let_def split: if_splits option.splits)

lemma worker_fetch_gated:
  assumes "runWorkerThread x opts = (Ret j, t)" "sx_workerFile x"
    "json_truthy (map_of (ro_inputs opts) ''fetchUrl'')"
  shows "ro_network opts"
    "\<exists>host \<in> set (ro_approvedDomains opts). sx_hostname x (the (map_of (ro_inputs opts) ''fetchUrl'')) = Some host"
proof -
  from assms(1) worker_refused [OF _ assms(2), of opts] have "network_gate x opts = None"
    by (cases "network_gate x opts") simp_all
  from gate_passed [OF this assms(3)] show "ro_network opts"
    "\<exists>host \<in> set (ro_approvedDomains opts). sx_hostname x (the (map_of (ro_inputs opts) ''fetchUrl'')) = Some host" .
qed

section \<open>Properties\<close>

text \<open>
  Once the production gate has passed, the health route reports Firecracker as ready exactly when
  runs go through the Firecracker launcher, which then is configured, and otherwise every run is one of the
  worker thread; the token is not the development default.
\<close>

theorem sandbox_health_truthful:
  assumes "validateSandboxProductionEnv v = Ret ()" "v ''NODE_ENV'' = Some ''production''"
  shows "internal_token None v \<noteq> INSECURE_SANDBOX_DEFAULT \<and>
    (if sh_firecrackerReady (firecrackerHealth v)
     then runIsolated x v opts = runFirecracker x v opts \<and> truthy (v ''FIRECRACKER_LAUNCHER'') \<and>
       sh_policy (firecrackerHealth v) = firecracker_real
     else runIsolated x v opts = runWorkerThread x opts \<and> sh_launcherMode (firecrackerHealth v) = FcStub)"
proof -
  have e: "sandbox_env_errors v = []"
    using assms by (auto simp: validateSandboxProductionEnv_def Let_def split: if_splits)
  have token: "or_default (v ''SANDBOX_INTERNAL_TOKEN'') INSECURE_SANDBOX_DEFAULT \<noteq> INSECURE_SANDBOX_DEFAULT"
    using e by (auto simp: sandbox_env_errors_def Let_def split: if_splits)
  have socket: "truthy (v ''FIRECRACKER_SOCKET'') \<longleftrightarrow> getFirecrackerLauncherMode v = FcReal"
    using e by (cases "getFirecrackerLauncherMode v") (auto simp: sandbox_env_errors_def Let_def split: if_splits)
  have launcher: "getFirecrackerLauncherMode v = FcReal \<Longrightarrow> truthy (v ''FIRECRACKER_LAUNCHER'')"
    using e by (auto simp: sandbox_env_errors_def Let_def split: if_splits)
  show ?thesis
    using token socket launcher
    by (cases "getFirecrackerLauncherMode v")
       (simp_all add: internal_token_def or_default_def firecrackerHealth_def Let_def runIsolated_def)
qed

text \<open>
  A run is decided no later than its limit, five seconds more in a microVM, and its result is an
  answer or one error; a limit that does not fit in 31 bits of milliseconds is one millisecond.
\<close>

theorem sandbox_run_bounded:
  "snd (runIsolated x v opts) \<le> timer_ms (ro_timeoutMs opts + (if truthy (v ''FIRECRACKER_SOCKET'') then 5000 else 0)) \<and>
   timer_ms (ro_timeoutMs opts) = (if ro_timeoutMs opts \<in> {1..2147483647} then nat (ro_timeoutMs opts) else 1)"
proof
  show "snd (runIsolated x v opts) \<le> timer_ms (ro_timeoutMs opts + (if truthy (v ''FIRECRACKER_SOCKET'') then 5000 else 0))"
    using worker_time [of x opts] firecracker_time [of x v opts] by (simp add: runIsolated_def)
qed (simp add: timer_ms_def)

definition production_env :: process_env where
  "production_env = [''NODE_ENV'' \<mapsto> ''production'', ''SANDBOX_INTERNAL_TOKEN'' \<mapsto> ''s3cret'']"

theorem sandbox_health_truthful_witness:
  "(\<forall>x opts. runIsolated x production_env opts = runWorkerThread x opts)
   \<and> sh_policy (firecrackerHealth production_env) = worker_thread_only"
proof -
  have ok: "validateSandboxProductionEnv production_env = Ret ()" by code_simp
  have prod: "production_env ''NODE_ENV'' = Some ''production''" by code_simp
  have h: "\<not> sh_firecrackerReady (firecrackerHealth production_env)"
    "sh_policy (firecrackerHealth production_env) = worker_thread_only" by code_simp+
  from sandbox_health_truthful [OF ok prod] h show ?thesis by simp
qed

end
