(* ===== verification/Extensions.thy ===== *)
theory Extensions
  imports Auth_Routes Sandbox
begin

text \<open>
  Extension policies, the review of network access and the execution of an extension in the sandbox:
  \<open>services/extension-service.ts\<close> and \<open>routes/extensions.ts\<close>. The state is that of the authentication with
  the two tables and a log of what was sent to the sandbox, newest first. The answer of the sandbox is a
  parameter; \<open>fetch_of_reply\<close> makes it from a reply of the modelled service. The database keeps
  \<open>NUMERIC\<close> columns as texts. Numbers in a body are texts, of finite numbers.
\<close>

section \<open>State\<close>

record ExtensionPolicy =
  ep_extensionId :: string
  ep_name :: string
  ep_godotVersionRange :: string
  ep_networkAllowed :: bool
  ep_approvedDomains :: "string list"
  ep_maxCpu :: string
  ep_maxMemoryMiB :: int
  ep_maxDiskMiB :: int
  ep_timeoutSeconds :: int
  ep_updatedAt :: nat

datatype ApprovalStatus = ApPending | ApApproved | ApRejected

record ExtensionApproval =
  ea_id :: string
  ea_extensionId :: string
  ea_requestedDomains :: "string list"
  ea_reason :: string
  ea_riskAssessment :: string
  ea_status :: ApprovalStatus
  ea_requestedBy :: string
  ea_reviewedBy :: "string option"
  ea_createdAt :: nat
  ea_reviewedAt :: "nat option"

record SandboxCall =
  sc_token :: string
  sc_body :: ExecuteBody

record ext_state =
  xs_auth :: auth_state
  xs_policies :: "ExtensionPolicy list"
  xs_approvals :: "ExtensionApproval list"
  xs_calls :: "SandboxCall list"

text \<open>
  What \<open>fetch\<close> gives: a response with its status, text, parsed text and the milliseconds until its body
  is read, or the message of its error.
\<close>

datatype fetch_result =
    Response nat string "json outcome" nat
  | NetworkError string nat

record extension_env =
  xe_auth :: auth_ext
  xe_env :: auth_env
  xe_SANDBOX_INTERNAL_TOKEN :: string
  xe_fetch :: "nat \<Rightarrow> string \<Rightarrow> ExecuteBody \<Rightarrow> fetch_result"

definition fetch_of_reply :: "http_reply \<Rightarrow> fetch_result" where
  "fetch_of_reply r = Response (hr_status r) (stringify (hr_body r)) (Ret (hr_body r)) (hr_after r)"

definition x_draw :: "(nat \<Rightarrow> 'b) \<Rightarrow> ext_state \<Rightarrow> 'b \<times> ext_state" where
  "x_draw f s = (let (r, a) = a_draw f (xs_auth s) in (r, s\<lparr>xs_auth := a\<rparr>))"

definition x_audit :: "AuditLogEntry \<Rightarrow> ext_state \<Rightarrow> ext_state" where
  "x_audit en s = s\<lparr>xs_auth := a_audit en (xs_auth s)\<rparr>"

definition user_exists :: "string \<Rightarrow> ext_state \<Rightarrow> bool" where
  "user_exists i s = (row_by us_id i (a_users (xs_auth s)) \<noteq> None)"

section \<open>Policies and approvals\<close>

definition getPolicy :: "string \<Rightarrow> ext_state \<Rightarrow> ExtensionPolicy option" where
  "getPolicy i s = row_by ep_extensionId i (xs_policies s)"

definition listPolicies :: "ext_state \<Rightarrow> ExtensionPolicy list" where
  "listPolicies s = sort_key ep_name (xs_policies s)"

definition approval_text :: "ApprovalStatus \<Rightarrow> string" where
  "approval_text a = (case a of ApPending \<Rightarrow> ''pending'' | ApApproved \<Rightarrow> ''approved'' | ApRejected \<Rightarrow> ''rejected'')"

definition listApprovals :: "string option \<Rightarrow> ext_state \<Rightarrow> ExtensionApproval list" where
  "listApprovals status s =
     (if truthy status then filter (\<lambda>a. Some (approval_text (ea_status a)) = status) (rev (xs_approvals s))
      else take 100 (rev (xs_approvals s)))"

record AccessRequest =
  ar_extensionId :: string
  ar_requestedDomains :: "string list"
  ar_reason :: string
  ar_riskAssessment :: string

definition requestNetworkAccess :: "extension_env \<Rightarrow> AccessRequest \<Rightarrow> string \<Rightarrow> ext_state
    \<Rightarrow> ExtensionApproval outcome \<times> ext_state" where
  "requestNetworkAccess x r requestedBy s =
     (if \<not> user_exists requestedBy s then (Throw foreign_key_violation, s)
      else
        let (i, s1) = x_draw (x_uuid (ax_ext (xe_auth x))) s;
            row = \<lparr>ea_id = i, ea_extensionId = ar_extensionId r, ea_requestedDomains = ar_requestedDomains r,
                   ea_reason = ar_reason r, ea_riskAssessment = ar_riskAssessment r, ea_status = ApPending,
                   ea_requestedBy = requestedBy, ea_reviewedBy = None, ea_createdAt = a_now (xs_auth s1),
                   ea_reviewedAt = None\<rparr>
        in (Ret row, s1\<lparr>xs_approvals := xs_approvals s1 @ [row]\<rparr>))"

text \<open>
  The update of the approval, that of the policy when it is approved, and the audit. The order of the
  distinct domains is not fixed by the query.
\<close>

definition allow_network :: "nat \<Rightarrow> string list \<Rightarrow> ExtensionPolicy \<Rightarrow> ExtensionPolicy" where
  "allow_network t domains p =
     p\<lparr>ep_networkAllowed := True, ep_approvedDomains := remdups (ep_approvedDomains p @ domains), ep_updatedAt := t\<rparr>"

definition reviewApproval :: "string \<Rightarrow> bool \<Rightarrow> string \<Rightarrow> ext_state \<Rightarrow> ExtensionApproval outcome \<times> ext_state" where
  "reviewApproval i approved reviewedBy s =
     (case row_by ea_id i (xs_approvals s) of
        None \<Rightarrow> (Throw (system_error ''Approval not found''), s)
      | Some a \<Rightarrow>
          if \<not> user_exists reviewedBy s then (Throw foreign_key_violation, s)
          else
            let t = a_now (xs_auth s);
                review = (\<lambda>r. r\<lparr>ea_status := if approved then ApApproved else ApRejected,
                               ea_reviewedBy := Some reviewedBy, ea_reviewedAt := Some t\<rparr>);
                s1 = s\<lparr>xs_approvals := set_row ea_id i review (xs_approvals s)\<rparr>;
                s2 = (if approved
                      then s1\<lparr>xs_policies := set_row ep_extensionId (ea_extensionId a)
                                (allow_network t (ea_requestedDomains a)) (xs_policies s1)\<rparr>
                      else s1)
            in (Ret (review a),
                x_audit \<lparr>au_actorId = Some reviewedBy, au_actorRole = Some ''admin'',
                         au_action = ''extension.approval_'' @ (if approved then ''approved'' else ''rejected''),
                         au_resourceType = ''extension_approval'', au_resourceId = Some i,
                         au_detail = [(''extensionId'', JStr (ea_extensionId a))]\<rparr> s2))"

text \<open>An \<open>INTEGER\<close> column takes the text of a whole number in 32 bits.\<close>

definition pg_integer :: "string \<Rightarrow> int outcome" where
  "pg_integer t =
     (let (neg, ds) = (case t of c # r \<Rightarrow> if c = CHR ''-'' then (True, r) else (False, t) | [] \<Rightarrow> (False, []));
          v = (if neg then - int (parse_nat ds) else int (parse_nat ds))
      in if ds = [] \<or> \<not> list_all is_digit ds
         then Throw (JsError None (Some ''22P02'') ''invalid input syntax for type integer'')
         else if - (2 ^ 31) \<le> v \<and> v < 2 ^ 31 then Ret v
         else Throw (JsError None (Some ''22003'') ''value is out of range for type integer''))"

record PolicyRequest =
  pq_extensionId :: string
  pq_name :: string
  pq_godotVersionRange :: "string option"
  pq_maxCpu :: "string option"
  pq_maxMemoryMiB :: "string option"
  pq_maxDiskMiB :: "string option"
  pq_timeoutSeconds :: "string option"

definition policy_update :: "nat \<Rightarrow> PolicyRequest \<Rightarrow> int \<Rightarrow> int \<Rightarrow> int \<Rightarrow> ExtensionPolicy \<Rightarrow> ExtensionPolicy" where
  "policy_update t q mem disk secs p =
     p\<lparr>ep_name := pq_name q, ep_godotVersionRange := or_default (pq_godotVersionRange q) ''>=4.2, <5.0'',
       ep_maxCpu := or_default (pq_maxCpu q) ''1'', ep_maxMemoryMiB := mem, ep_maxDiskMiB := disk,
       ep_timeoutSeconds := secs, ep_updatedAt := t\<rparr>"

definition new_policy :: "string \<Rightarrow> ExtensionPolicy" where
  "new_policy i =
     \<lparr>ep_extensionId = i, ep_name = [], ep_godotVersionRange = [], ep_networkAllowed = False,
      ep_approvedDomains = [], ep_maxCpu = [], ep_maxMemoryMiB = 0, ep_maxDiskMiB = 0,
      ep_timeoutSeconds = 0, ep_updatedAt = 0\<rparr>"

definition upsertPolicy :: "PolicyRequest \<Rightarrow> ext_state \<Rightarrow> ExtensionPolicy outcome \<times> ext_state" where
  "upsertPolicy q s =
     (case (pg_integer (or_default (pq_maxMemoryMiB q) ''512''), pg_integer (or_default (pq_maxDiskMiB q) ''1024''),
            pg_integer (or_default (pq_timeoutSeconds q) ''60'')) of
        (Ret mem, Ret disk, Ret secs) \<Rightarrow>
          let upd = policy_update (a_now (xs_auth s)) q mem disk secs in
          (case getPolicy (pq_extensionId q) s of
             Some p \<Rightarrow> (Ret (upd p), s\<lparr>xs_policies := set_row ep_extensionId (pq_extensionId q) upd (xs_policies s)\<rparr>)
           | None \<Rightarrow> let p = upd (new_policy (pq_extensionId q)) in
                      (Ret p, s\<lparr>xs_policies := xs_policies s @ [p]\<rparr>))
      | (Throw er, _, _) \<Rightarrow> (Throw er, s)
      | (_, Throw er, _) \<Rightarrow> (Throw er, s)
      | (_, _, Throw er) \<Rightarrow> (Throw er, s))"

section \<open>Execution\<close>

record ExecuteExtensionRequest =
  er_extensionId :: string
  er_projectId :: string
  er_inputs :: metadata
  er_network :: "bool option"

record ExecResult =
  xr_result :: json
  xr_error :: "string option"
  xr_code :: "string option"

definition exec_error :: "string \<Rightarrow> string option \<Rightarrow> ExecResult" where
  "exec_error er ecode = \<lparr>xr_result = JNull, xr_error = Some er, xr_code = ecode\<rparr>"

text \<open>The guards before the call: \<open>None\<close> when the sandbox is called.\<close>

definition domain_refused :: "ExtensionPolicy \<Rightarrow> metadata \<Rightarrow> json option" where
  "domain_refused p inputs =
     (case map_of inputs ''domains'' of
        Some (JArr ds) \<Rightarrow> find (\<lambda>d. d \<notin> set (map JStr (ep_approvedDomains p))) ds
      | _ \<Rightarrow> None)"

definition execute_guard :: "ExecuteExtensionRequest \<Rightarrow> ExtensionPolicy option \<Rightarrow> string option option \<Rightarrow> ExecResult option" where
  "execute_guard r policy godot =
     (case policy of
        None \<Rightarrow> Some (exec_error ''Unknown extension'' (Some ''E017''))
      | Some p \<Rightarrow>
          (case godot of
             None \<Rightarrow> Some (exec_error ''Project not found'' None)
           | Some v \<Rightarrow>
               let ver = or_default v ''4.3.1'' in
               if \<not> satisfiesGodotRange ver (ep_godotVersionRange p)
               then Some (exec_error (''Extension incompatible with Godot '' @ ver) (Some ''E017''))
               else if er_network r = Some True \<and> \<not> ep_networkAllowed p
               then Some (exec_error ''Network access not approved for this extension'' (Some ''E016''))
               else if er_network r = Some True \<and> domain_refused p (er_inputs r) \<noteq> None
               then Some (exec_error (''Domain not approved: '' @ js_String (the (domain_refused p (er_inputs r)))) (Some ''E016''))
               else None))"

definition execute_body :: "ExecuteExtensionRequest \<Rightarrow> ExtensionPolicy \<Rightarrow> ExecuteBody" where
  "execute_body r p =
     \<lparr>eb_extensionId = er_extensionId r, eb_inputs = er_inputs r,
      eb_network = (er_network r = Some True \<and> ep_networkAllowed p),
      eb_approvedDomains = ep_approvedDomains p,
      eb_limits = \<lparr>sl_cpu = ep_maxCpu p, sl_memoryMiB = ep_maxMemoryMiB p, sl_diskMiB = ep_maxDiskMiB p,
                   sl_timeoutSeconds = ep_timeoutSeconds p\<rparr>\<rparr>"

definition caught :: "string \<Rightarrow> ExecResult" where
  "caught message =
     (if str_includes message ''abort'' then exec_error ''Extension execution timeout'' (Some ''E009'')
      else exec_error message None)"

text \<open>The result that the reply gives, and whether the execution is audited.\<close>

definition reply_result :: "nat \<Rightarrow> fetch_result \<Rightarrow> ExecResult \<times> bool" where
  "reply_result limit f =
     (case f of
        NetworkError msg t \<Rightarrow>
          (if limit \<le> t then caught ''This operation was aborted'' else caught msg, False)
      | Response status body parsed t \<Rightarrow>
          if limit \<le> t then (caught ''This operation was aborted'', False)
          else if \<not> (200 \<le> status \<and> status \<le> 299)
          then (if status = 504 \<or> str_includes body ''timeout'' then exec_error body (Some ''E009'')
                else exec_error body None, False)
          else (case parsed of
                  Throw er \<Rightarrow> (caught (err_msg er), False)
                | Ret j \<Rightarrow> (\<lparr>xr_result = j, xr_error = None, xr_code = None\<rparr>, True)))"

definition execute_audit :: "ExecuteExtensionRequest \<Rightarrow> string \<Rightarrow> AuditLogEntry" where
  "execute_audit r actorId =
     audit_entry (Some actorId) ''extension.executed'' ''extension'' (Some (er_extensionId r))
       ((''projectId'', JStr (er_projectId r)) #
        (case er_network r of None \<Rightarrow> [] | Some b \<Rightarrow> [(''network'', JBool b)]))"

definition execute :: "extension_env \<Rightarrow> ExecuteExtensionRequest \<Rightarrow> string \<Rightarrow> ext_state \<Rightarrow> ExecResult \<times> ext_state" where
  "execute x r actorId s =
     (let policy = getPolicy (er_extensionId r) s;
          godot = map_option pr_godotVersion (get_project (a_world (xs_auth s)) (er_projectId r))
      in case execute_guard r policy godot of
           Some res \<Rightarrow> (res, s)
         | None \<Rightarrow>
             let p = the policy;
                 body = execute_body r p;
                 s1 = s\<lparr>xs_calls := \<lparr>sc_token = xe_SANDBOX_INTERNAL_TOKEN x, sc_body = body\<rparr> # xs_calls s\<rparr>;
                 (f, s2) = x_draw (\<lambda>n. xe_fetch x n (xe_SANDBOX_INTERNAL_TOKEN x) body) s1;
                 (res, ok) = reply_result (timer_ms ((ep_timeoutSeconds p + 5) * 1000)) f
             in (res, if ok then x_audit (execute_audit r actorId) s2 else s2))"

section \<open>Routes\<close>

definition admitted :: "extension_env \<Rightarrow> Role \<Rightarrow> auth_request \<Rightarrow> ext_state
    \<Rightarrow> (AuthPrincipal \<Rightarrow> ext_state \<Rightarrow> 'b reply \<times> ext_state) \<Rightarrow> 'b reply \<times> ext_state" where
  "admitted x minRole q s handler =
     (case admit (xe_auth x) (xe_env x) (Some minRole) q (xs_auth s) of
        (Sent p, a) \<Rightarrow> handler p (s\<lparr>xs_auth := a\<rparr>)
      | (Refused c k m, a) \<Rightarrow> (Refused c k m, s\<lparr>xs_auth := a\<rparr>)
      | (Failure er, a) \<Rightarrow> (Failure er, s\<lparr>xs_auth := a\<rparr>))"

definition answer :: "'b outcome \<times> ext_state \<Rightarrow> 'b reply \<times> ext_state" where
  "answer r = (case r of (Ret v, s) \<Rightarrow> (Sent v, s) | (Throw er, s) \<Rightarrow> (Failure er, s))"

definition route_policies :: "extension_env \<Rightarrow> auth_request \<Rightarrow> ext_state \<Rightarrow> ExtensionPolicy list reply \<times> ext_state" where
  "route_policies x q s = admitted x viewer q s (\<lambda>p s1. (Sent (listPolicies s1), s1))"

definition route_upsert :: "extension_env \<Rightarrow> auth_request \<Rightarrow> PolicyRequest option \<Rightarrow> ext_state
    \<Rightarrow> ExtensionPolicy reply \<times> ext_state" where
  "route_upsert x q body s =
     admitted x admin q s (\<lambda>p s1.
       case body of
         None \<Rightarrow> (Failure zod_error, s1)
       | Some b \<Rightarrow> if pq_extensionId b = [] \<or> pq_name b = [] then (Failure zod_error, s1)
                   else answer (upsertPolicy b s1))"

text \<open>The reply to an execution: the status follows from the code, an error without a code has none.\<close>

definition execute_status :: "string option \<Rightarrow> nat" where
  "execute_status c =
     (if c = Some ''E016'' then 403 else if c = Some ''E009'' then 504 else if c = Some ''E017'' then 422 else 400)"

definition route_execute :: "extension_env \<Rightarrow> auth_request \<Rightarrow> ExecuteExtensionRequest option \<Rightarrow> ext_state
    \<Rightarrow> json reply \<times> ext_state" where
  "route_execute x q body s =
     admitted x operator q s (\<lambda>p s1.
       case body of
         None \<Rightarrow> (Failure zod_error, s1)
       | Some b \<Rightarrow>
           (case execute x b (ap_userId p) s1 of
              (res, s2) \<Rightarrow>
                (if truthy (xr_error res)
                 then Refused (execute_status (xr_code res)) (or_default (xr_code res) []) (the (xr_error res))
                 else Sent (xr_result res), s2)))"

definition route_approvals :: "extension_env \<Rightarrow> auth_request \<Rightarrow> string option \<Rightarrow> ext_state
    \<Rightarrow> ExtensionApproval list reply \<times> ext_state" where
  "route_approvals x q status s = admitted x admin q s (\<lambda>p s1. (Sent (listApprovals status s1), s1))"

definition route_request :: "extension_env \<Rightarrow> auth_request \<Rightarrow> AccessRequest option \<Rightarrow> ext_state
    \<Rightarrow> ExtensionApproval reply \<times> ext_state" where
  "route_request x q body s =
     admitted x operator q s (\<lambda>p s1.
       case body of
         None \<Rightarrow> (Failure zod_error, s1)
       | Some b \<Rightarrow> answer (requestNetworkAccess x b (ap_userId p) s1))"

definition route_review :: "extension_env \<Rightarrow> auth_request \<Rightarrow> string \<Rightarrow> bool option \<Rightarrow> ext_state
    \<Rightarrow> ExtensionApproval reply \<times> ext_state" where
  "route_review x q i body s =
     admitted x admin q s (\<lambda>p s1.
       case body of
         None \<Rightarrow> (Failure zod_error, s1)
       | Some approved \<Rightarrow> answer (reviewApproval i approved (ap_userId p) s1))"

end
