(* ===== verification/Admission.thy ===== *)
theory Admission
  imports Auth_Routes
begin

text \<open>
  What the hooks in front of a route leave alone, and what they tell of the caller they let through.
\<close>

lemma authenticate_frame:
  "a_world (snd (authenticate x e q s)) = a_world s" "a_users (snd (authenticate x e q s)) = a_users s"
proof -
  have b: "a_world t = a_world s \<and> a_users t = a_users s" if "verifyBearer x e token s = (r, t)" for token r t
    using that by (auto simp: verifyBearer_def Let_def isRevoked_def revoked_store_def redis_set_def
        split: option.splits prod.splits if_splits)
  then have l: "a_world t = a_world s \<and> a_users t = a_users s" if "bearer_login x e au s = (r, t)" for au r t
    using that by (auto simp: bearer_login_def Let_def split: option.splits if_splits)
  have u: "a_world w = a_world t \<and> a_users w = a_users t" if "resolveSession e i t = (r, w)" for i r t w
    using that by (auto simp: resolveSession_def session_user_def Let_def redis_set_def
        split: option.splits prod.splits outcome.splits if_splits)
  have "a_world (snd (authenticate x e q s)) = a_world s \<and> a_users (snd (authenticate x e q s)) = a_users s"
    by (auto simp: authenticate_def dest!: l u split: prod.split option.split outcome.split)
  then show "a_world (snd (authenticate x e q s)) = a_world s" "a_users (snd (authenticate x e q s)) = a_users s"
    by simp_all
qed

lemma admit_frame:
  assumes "admit x e r q s = (rep, a)" shows "a_world a = a_world s" "a_users a = a_users s"
  using assms authenticate_frame [of x e q s]
  by (auto simp: admit_def guarded_def split: prod.splits guard.splits option.splits)

lemma admit_Sent:
  assumes "admit x e (Some r) q s = (Sent p, a)"
  shows "authenticate x e q s = (Granted p, a)" "hasMinRole (ap_role p) r"
  using assms
  by (auto simp: admit_def guarded_def requireRole_def split: prod.splits guard.splits option.splits if_splits)

end
