(* ===== verification/Extension_Claims.thy ===== *)
theory Extension_Claims
  imports Extensions Auth_Claims Sandbox_Claims Admission
begin

text \<open>
  What the review of extensions promises over any sequence of requests: policies change only on request of
  an admin, the sandbox gets the network only for an extension whose access was approved, and an extension
  that ran in the worker thread fetched from approved hosts only. The invariants share an interface, which
  the routes keep once the operations of the service do.
\<close>

section \<open>Admission\<close>

text \<open>A route either answers without its handler, or runs it for an admitted principal.\<close>

lemma admitted_cases:
  assumes "admitted x r q s h = (rep, s')"
  obtains (refused) a where "s' = s\<lparr>xs_auth := a\<rparr>" "a_world a = a_world (xs_auth s)" "\<And>b. rep \<noteq> Sent b"
  | (handled) p a where "authenticate (xe_auth x) (xe_env x) q (xs_auth s) = (Granted p, a)"
      "hasMinRole (ap_role p) r" "a_world a = a_world (xs_auth s)" "h p (s\<lparr>xs_auth := a\<rparr>) = (rep, s')"
proof -
  obtain g a where g: "admit (xe_auth x) (xe_env x) (Some r) q (xs_auth s) = (g, a)" by force
  note w = admit_frame(1) [OF g]
  show ?thesis
  proof (cases g)
    case (Sent p)
    with g assms w admit_Sent [of "xe_auth x" "xe_env x" r q "xs_auth s" p a] show ?thesis
      by (intro handled [of p a]) (simp_all add: admitted_def)
  next
    case Refused
    with g assms w show ?thesis by (intro refused [of a]) (auto simp: admitted_def)
  next
    case Failure
    with g assms w show ?thesis by (intro refused [of a]) (auto simp: admitted_def)
  qed
qed

section \<open>Runs of requests\<close>

definition ext_log :: "ext_state \<Rightarrow> AuditLogEntry list" where
  "ext_log s = audit_log (a_world (xs_auth s))"

text \<open>The rest of the orchestrator goes on in between; it only adds to the audit log.\<close>

inductive ext_step :: "extension_env \<Rightarrow> ext_state \<Rightarrow> ext_state \<Rightarrow> bool" for x where
  elsewhere: "suffix (ext_log s) (audit_log (a_world a)) \<Longrightarrow> ext_step x s (s\<lparr>xs_auth := a\<rparr>)"
| policies: "ext_step x s (snd (route_policies x q s))"
| upsert: "ext_step x s (snd (route_upsert x q pq s))"
| executed: "ext_step x s (snd (route_execute x q er s))"
| approvals: "ext_step x s (snd (route_approvals x q st s))"
| requested: "ext_step x s (snd (route_request x q ar s))"
| reviewed: "ext_step x s (snd (route_review x q i ok s))"

abbreviation ext_run :: "extension_env \<Rightarrow> ext_state \<Rightarrow> ext_state \<Rightarrow> bool" where
  "ext_run x \<equiv> (ext_step x)\<^sup>*\<^sup>*"

lemma answer_simps [simp]: "snd (answer r) = snd r"
  by (cases r) (simp add: answer_def split: outcome.split)

locale extension_invariant =
  fixes x :: extension_env and P :: "ext_state \<Rightarrow> bool"
  assumes elsewhere: "P s \<Longrightarrow> suffix (ext_log s) (audit_log (a_world a)) \<Longrightarrow> P (s\<lparr>xs_auth := a\<rparr>)"
    and upsert: "P s \<Longrightarrow> P (snd (upsertPolicy pq s))"
    and request: "P s \<Longrightarrow> P (snd (requestNetworkAccess x ar u s))"
    and review: "P s \<Longrightarrow> P (snd (reviewApproval i ok u s))"
    and exec: "P s \<Longrightarrow> P (snd (execute x er u s))"
begin

lemma admitted:
  assumes "P s" and handler: "\<And>p t. P t \<Longrightarrow> P (snd (h p t))"
  shows "P (snd (admitted x r q s h))"
proof -
  obtain rep s' where r: "admitted x r q s h = (rep, s')" by force
  have other: "P (s\<lparr>xs_auth := a\<rparr>)" if "a_world a = a_world (xs_auth s)" for a
    by (rule elsewhere [OF assms(1)]) (simp add: that ext_log_def)
  from r have "P s'"
  proof (cases rule: admitted_cases)
    case (refused a)
    with other show ?thesis by simp
  next
    case (handled p a)
    from handler [OF other [OF handled(3)], of p] handled(4) show ?thesis by simp
  qed
  with r show ?thesis by simp
qed

lemma step: "ext_step x s t \<Longrightarrow> P s \<Longrightarrow> P t"
proof (induction rule: ext_step.induct)
  case (executed s q er)
  have "P (snd (case execute x b u t of (res, s2) \<Rightarrow> (f res, s2)))" if "P t" for b u t and f :: "ExecResult \<Rightarrow> json reply"
    using exec [OF that, of b u] by (simp add: case_prod_beta)
  with executed show ?case by (auto simp: route_execute_def intro!: admitted split: option.split)
qed (auto simp: route_policies_def route_upsert_def route_approvals_def route_request_def
       route_review_def elsewhere upsert request review intro!: admitted split: option.split)

lemma run: "ext_run x s t \<Longrightarrow> P s \<Longrightarrow> P t"
  by (induction rule: rtranclp_induct) (auto intro: step)

end

section \<open>What the operations leave alone\<close>

lemma ext_log_simps [simp]:
  "ext_log (s\<lparr>xs_calls := cs\<rparr>) = ext_log s" "ext_log (s\<lparr>xs_policies := ps\<rparr>) = ext_log s"
  "ext_log (s\<lparr>xs_approvals := as\<rparr>) = ext_log s"
  by (simp_all add: ext_log_def)

lemma x_draw_frame:
  "x_draw f s = (r, t) \<Longrightarrow> ext_log t = ext_log s \<and> xs_policies t = xs_policies s \<and>
     xs_approvals t = xs_approvals s \<and> xs_calls t = xs_calls s"
  by (auto simp: x_draw_def a_draw_eq ext_log_def Let_def)

lemma x_audit_frame [simp]:
  "ext_log (x_audit en s) = en # ext_log s" "xs_policies (x_audit en s) = xs_policies s"
  "xs_approvals (x_audit en s) = xs_approvals s" "xs_calls (x_audit en s) = xs_calls s"
  by (simp_all add: x_audit_def ext_log_def a_audit_def audit_def)

text \<open>An execution is refused, or calls the sandbox once and may be audited.\<close>

lemma execute_cases:
  assumes "execute x r u s = (res, t)"
  obtains (refused) "t = s" "execute_guard r (getPolicy (er_extensionId r) s)
      (map_option pr_godotVersion (get_project (a_world (xs_auth s)) (er_projectId r))) = Some res"
  | (called) p f where "getPolicy (er_extensionId r) s = Some p"
      "execute_guard r (Some p) (map_option pr_godotVersion (get_project (a_world (xs_auth s)) (er_projectId r))) = None"
      "f = xe_fetch x (nonce (a_world (xs_auth s))) (xe_SANDBOX_INTERNAL_TOKEN x) (execute_body r p)"
      "res = fst (reply_result (timer_ms ((ep_timeoutSeconds p + 5) * 1000)) f)"
      "xs_calls t = \<lparr>sc_token = xe_SANDBOX_INTERNAL_TOKEN x, sc_body = execute_body r p\<rparr> # xs_calls s"
      "xs_policies t = xs_policies s" "xs_approvals t = xs_approvals s" "suffix (ext_log s) (ext_log t)"
proof (cases "execute_guard r (getPolicy (er_extensionId r) s)
    (map_option pr_godotVersion (get_project (a_world (xs_auth s)) (er_projectId r)))")
  case (Some res')
  with assms show ?thesis by (intro refused) (simp_all add: execute_def Let_def)
next
  case None
  then obtain p where p: "getPolicy (er_extensionId r) s = Some p"
    by (cases "getPolicy (er_extensionId r) s") (simp_all add: execute_guard_def)
  with None have g: "execute_guard r (Some p)
      (map_option pr_godotVersion (get_project (a_world (xs_auth s)) (er_projectId r))) = None" by simp
  let ?s1 = "s\<lparr>xs_calls := \<lparr>sc_token = xe_SANDBOX_INTERNAL_TOKEN x, sc_body = execute_body r p\<rparr> # xs_calls s\<rparr>"
  obtain f s2 where d: "x_draw (\<lambda>n. xe_fetch x n (xe_SANDBOX_INTERNAL_TOKEN x) (execute_body r p)) ?s1 = (f, s2)" by force
  obtain res' ok where rr: "reply_result (timer_ms ((ep_timeoutSeconds p + 5) * 1000)) f = (res', ok)" by force
  have "execute x r u s = (res', if ok then x_audit (execute_audit r u) s2 else s2)"
    by (simp only: execute_def Let_def g option.case p option.sel d rr prod.case)
  with assms have t: "t = (if ok then x_audit (execute_audit r u) s2 else s2)" "res = res'" by simp_all
  have "f = xe_fetch x (nonce (a_world (xs_auth s))) (xe_SANDBOX_INTERNAL_TOKEN x) (execute_body r p)"
    using d by (simp add: x_draw_def a_draw_eq)
  with p g t rr x_draw_frame [OF d] show ?thesis by (intro called [of p f]) (simp_all add: suffix_Cons)
qed

lemma execute_frame:
  assumes "execute x r u s = (res, t)"
  shows "xs_policies t = xs_policies s" "xs_approvals t = xs_approvals s" "suffix (ext_log s) (ext_log t)"
  using assms by (cases rule: execute_cases; simp)+

lemma request_frame:
  assumes "requestNetworkAccess x r u s = (res, t)"
  shows "xs_policies t = xs_policies s" "ext_log t = ext_log s" "\<exists>new. xs_approvals t = xs_approvals s @ new"
  using assms by (auto simp: requestNetworkAccess_def Let_def dest!: x_draw_frame split: prod.splits if_splits)

lemma upsert_frame:
  "ext_log (snd (upsertPolicy q s)) = ext_log s" "xs_approvals (snd (upsertPolicy q s)) = xs_approvals s"
  by (simp_all add: upsertPolicy_def Let_def split: outcome.split option.split)

section \<open>Network access\<close>

text \<open>
  The extensions and domains of the requests that an approval in the audit log names.
\<close>

definition approved_in :: "AuditLogEntry list \<Rightarrow> string \<Rightarrow> bool" where
  "approved_in entries i \<longleftrightarrow>
     (\<exists>en \<in> set entries. au_action en = ''extension.approval_approved'' \<and> au_resourceId en = Some i)"

definition grants :: "ext_state \<Rightarrow> (string \<times> string list) set" where
  "grants s = {(ea_extensionId a, ea_requestedDomains a) | a. a \<in> set (xs_approvals s) \<and> approved_in (ext_log s) (ea_id a)}"

definition backed :: "(string \<times> string list) set \<Rightarrow> ExtensionPolicy \<Rightarrow> bool" where
  "backed G p \<longleftrightarrow>
     (ep_networkAllowed p \<longrightarrow> (\<exists>ds. (ep_extensionId p, ds) \<in> G)) \<and>
     (\<forall>d \<in> set (ep_approvedDomains p). \<exists>ds. (ep_extensionId p, ds) \<in> G \<and> d \<in> set ds)"

definition policies_backed :: "ext_state \<Rightarrow> bool" where
  "policies_backed s \<longleftrightarrow> (\<forall>p \<in> set (xs_policies s). backed (grants s) p)"

lemma backed_mono: "backed G p \<Longrightarrow> G \<subseteq> H \<Longrightarrow> backed H p"
  unfolding backed_def by blast

lemma backed_update: "backed G (policy_update t q mem disk secs p) = backed G p"
  by (simp add: backed_def policy_update_def)

lemma backed_new: "backed G (new_policy i)"
  by (simp add: backed_def new_policy_def)

lemma grants_mono:
  assumes "set (xs_approvals s) \<subseteq> set (xs_approvals t)" "suffix (ext_log s) (ext_log t)"
  shows "grants s \<subseteq> grants t"
proof -
  have "approved_in (ext_log t) i" if "approved_in (ext_log s) i" for i
    using that assms(2) by (auto simp: approved_in_def suffix_def)
  with assms(1) show ?thesis unfolding grants_def by blast
qed

lemma policies_backed_mono:
  assumes "policies_backed s" "xs_policies t = xs_policies s" "set (xs_approvals s) \<subseteq> set (xs_approvals t)"
    "suffix (ext_log s) (ext_log t)"
  shows "policies_backed t"
  using assms grants_mono [of s t] backed_mono by (auto simp: policies_backed_def)

lemma set_row_member: "r \<in> set (set_row key k f rs) \<Longrightarrow> r \<in> set rs \<or> (\<exists>q \<in> set rs. key q = k \<and> r = f q)"
  by (induction rs) (auto split: if_splits)

lemma set_row_found: "row_by key k rs = Some r \<Longrightarrow> f r \<in> set (set_row key k f rs)"
  by (induction rs) (auto split: if_splits)

lemma set_row_image: "r \<in> set rs \<Longrightarrow> r \<in> set (set_row key k f rs) \<or> key r = k \<and> f r \<in> set (set_row key k f rs)"
  by (induction rs) auto

lemma review_cases:
  assumes "reviewApproval i ok u s = (res, t)"
  obtains (same) "t = s"
  | (reviewed) a f where "row_by ea_id i (xs_approvals s) = Some a" "xs_approvals t = set_row ea_id i f (xs_approvals s)"
      "\<And>r. ea_id (f r) = ea_id r \<and> ea_extensionId (f r) = ea_extensionId r \<and> ea_requestedDomains (f r) = ea_requestedDomains r"
      "suffix (ext_log s) (ext_log t)" "ok \<Longrightarrow> approved_in (ext_log t) i"
      "xs_policies t = (if ok then set_row ep_extensionId (ea_extensionId a)
          (allow_network (a_now (xs_auth s)) (ea_requestedDomains a)) (xs_policies s) else xs_policies s)"
proof (cases "row_by ea_id i (xs_approvals s)")
  case None
  with assms show ?thesis by (intro same) (simp add: reviewApproval_def)
next
  case (Some a)
  show ?thesis
  proof (cases "user_exists u s")
    case False
    with Some assms show ?thesis by (intro same) (simp add: reviewApproval_def)
  next
    case True
    let ?f = "\<lambda>r. r\<lparr>ea_status := if ok then ApApproved else ApRejected, ea_reviewedBy := Some u,
                  ea_reviewedAt := Some (a_now (xs_auth s))\<rparr>"
    from Some True assms show ?thesis
      by (intro reviewed [of a ?f])
         (auto simp: reviewApproval_def Let_def approved_in_def ext_log_def suffix_Cons x_audit_def a_audit_def audit_def)
  qed
qed

lemma review_grants:
  assumes "xs_approvals t = set_row ea_id i f (xs_approvals s)" "suffix (ext_log s) (ext_log t)"
    "\<And>r. ea_id (f r) = ea_id r \<and> ea_extensionId (f r) = ea_extensionId r \<and> ea_requestedDomains (f r) = ea_requestedDomains r"
  shows "grants s \<subseteq> grants t"
proof
  fix g assume "g \<in> grants s"
  then obtain r where r: "r \<in> set (xs_approvals s)" "approved_in (ext_log s) (ea_id r)"
    "g = (ea_extensionId r, ea_requestedDomains r)" by (auto simp: grants_def)
  from r(2) assms(2) have in_log: "approved_in (ext_log t) (ea_id r)" by (auto simp: approved_in_def suffix_def)
  show "g \<in> grants t"
    using set_row_image [OF r(1), of ea_id i f] in_log assms(1,3) r(3)
    by (auto simp: grants_def) metis+
qed

lemma review_backed:
  assumes "policies_backed s" shows "policies_backed (snd (reviewApproval i ok u s))"
proof -
  obtain res t where r: "reviewApproval i ok u s = (res, t)" by force
  from r have "policies_backed t"
  proof (cases rule: review_cases)
    case same
    with assms show ?thesis by simp
  next
    case (reviewed a f)
    note sub = review_grants [OF reviewed(2,4,3)]
    have old: "backed (grants t) p" if "p \<in> set (xs_policies s)" for p
      using assms sub backed_mono that by (auto simp: policies_backed_def)
    show ?thesis unfolding policies_backed_def
    proof
      fix p assume p: "p \<in> set (xs_policies t)"
      show "backed (grants t) p"
      proof (cases "p \<in> set (xs_policies s)")
        case False
        with p reviewed(6) obtain q where q: "ok" "q \<in> set (xs_policies s)" "ep_extensionId q = ea_extensionId a"
            "p = allow_network (a_now (xs_auth s)) (ea_requestedDomains a) q"
          by (auto split: if_splits dest!: set_row_member)
        have a: "a \<in> set (xs_approvals s)" "ea_id a = i" using row_by_Some [OF reviewed(1)] by simp_all
        have "f a \<in> set (xs_approvals t)"
          unfolding reviewed(2) by (rule set_row_found [OF reviewed(1)])
        then have "(ea_extensionId a, ea_requestedDomains a) \<in> grants t"
          using reviewed(3,5) q(1) a by (auto simp: grants_def intro!: exI [of _ "f a"])
        with old [OF q(2)] q(3,4) show ?thesis by (auto simp: backed_def allow_network_def)
      qed (rule old)
    qed
  qed
  with r show ?thesis by simp
qed

interpretation network: extension_invariant x policies_backed
proof unfold_locales
  fix s assume s: "policies_backed s"
  show "policies_backed (s\<lparr>xs_auth := a\<rparr>)" if "suffix (ext_log s) (audit_log (a_world a))" for a
    by (rule policies_backed_mono [OF s]) (use that in \<open>simp_all add: ext_log_def\<close>)
  show "policies_backed (snd (upsertPolicy pq s))" for pq
  proof -
    have "backed (grants s) p" if "p \<in> set (xs_policies (snd (upsertPolicy pq s)))" for p
      using that s
      by (auto simp: upsertPolicy_def Let_def policies_backed_def backed_update backed_new
          split: outcome.splits option.splits dest!: set_row_member)
    then show ?thesis by (simp add: policies_backed_def grants_def upsert_frame)
  qed
  show "policies_backed (snd (requestNetworkAccess x ar u s))" for ar u
  proof -
    obtain res t where r: "requestNetworkAccess x ar u s = (res, t)" by force
    show ?thesis using policies_backed_mono [OF s, of t] request_frame [OF r] r by auto
  qed
  show "policies_backed (snd (reviewApproval i ok u s))" for i ok u by (rule review_backed [OF s])
  show "policies_backed (snd (execute x er u s))" for er u
  proof -
    obtain res t where r: "execute x er u s = (res, t)" by force
    show ?thesis using policies_backed_mono [OF s, of t] execute_frame [OF r] r by auto
  qed
qed

section \<open>Policies are for admins\<close>

definition admin_request :: "extension_env \<Rightarrow> ext_state \<Rightarrow> bool" where
  "admin_request x s \<longleftrightarrow>
     (\<exists>q p a. authenticate (xe_auth x) (xe_env x) q (xs_auth s) = (Granted p, a) \<and> ap_role p = admin)"

lemma admitted_admin:
  assumes "xs_policies (snd (admitted x admin q s h)) \<noteq> xs_policies s"
  shows "admin_request x s"
proof -
  obtain rep s' where r: "admitted x admin q s h = (rep, s')" by force
  from r show ?thesis
  proof (cases rule: admitted_cases)
    case (refused a)
    with assms r show ?thesis by simp
  next
    case (handled p a)
    then show ?thesis unfolding admin_request_def by fastforce
  qed
qed

lemma admitted_keeps:
  assumes "\<And>p t. xs_policies t = xs_policies s \<Longrightarrow> xs_policies (snd (h p t)) = xs_policies s"
  shows "xs_policies (snd (admitted x r q s h)) = xs_policies s"
proof -
  obtain rep s' where r: "admitted x r q s h = (rep, s')" by force
  from r have "xs_policies s' = xs_policies s"
  proof (cases rule: admitted_cases)
    case (refused a)
    then show ?thesis by simp
  next
    case (handled p a)
    then show ?thesis using assms [of "s\<lparr>xs_auth := a\<rparr>" p] by simp
  qed
  with r show ?thesis by simp
qed

lemma open_routes_keep:
  "xs_policies (snd (route_execute x q er s)) = xs_policies s"
  "xs_policies (snd (route_request x q ar s)) = xs_policies s"
  "xs_policies (snd (route_policies x q s)) = xs_policies s"
  "xs_policies (snd (route_approvals x q st s)) = xs_policies s"
proof -
  have e: "xs_policies (snd (execute x r u t)) = xs_policies t" for r u t
    using execute_frame(1) [of x r u t] by (cases "execute x r u t") simp
  have n: "xs_policies (snd (requestNetworkAccess x r u t)) = xs_policies t" for r u t
    using request_frame(1) [of x r u t] by (cases "requestNetworkAccess x r u t") simp
  show "xs_policies (snd (route_execute x q er s)) = xs_policies s"
    "xs_policies (snd (route_request x q ar s)) = xs_policies s"
    "xs_policies (snd (route_policies x q s)) = xs_policies s"
    "xs_policies (snd (route_approvals x q st s)) = xs_policies s"
    unfolding route_execute_def route_request_def route_policies_def route_approvals_def
    by (rule admitted_keeps; simp add: e n case_prod_beta split: option.split)+
qed

lemma policy_change_needs_admin:
  assumes "ext_step x s t" "xs_policies t \<noteq> xs_policies s"
  shows "admin_request x s"
  using assms
proof (induction rule: ext_step.induct)
  case upsert
  then show ?case unfolding route_upsert_def by (rule admitted_admin)
next
  case reviewed
  then show ?case unfolding route_review_def by (rule admitted_admin)
qed (simp_all add: open_routes_keep)

section \<open>Properties\<close>

definition no_network :: "ext_state \<Rightarrow> bool" where
  "no_network s = list_all (\<lambda>p. \<not> ep_networkAllowed p \<and> ep_approvedDomains p = []) (xs_policies s)"

lemma no_network_backed: "no_network s \<Longrightarrow> policies_backed s"
  by (auto simp: no_network_def policies_backed_def backed_def list_all_iff)

lemma policy_row: "getPolicy i s = Some p \<Longrightarrow> p \<in> set (xs_policies s) \<and> ep_extensionId p = i"
  unfolding getPolicy_def by (rule row_by_Some)


text \<open>The fetch of an orchestrator whose sandbox is the modelled service with the worker thread.\<close>

definition worker_sandbox :: "sandbox_ext \<Rightarrow> process_env \<Rightarrow> extension_env \<Rightarrow> bool" where
  "worker_sandbox sx v x \<longleftrightarrow>
     sx_workerFile sx \<and> \<not> truthy (v ''FIRECRACKER_SOCKET'') \<and>
     (\<forall>n tok b. xe_fetch x n tok b =
        fetch_of_reply (sandbox_app sx v None (Some (''Bearer '' @ tok)) (SbExecute (Some b))))"

lemma stringify_obj [simp]: "stringify (JObj ms) \<noteq> []"
  by simp

lemma guard_message: "execute_guard r p g = Some res \<Longrightarrow> truthy (xr_error res)"
  by (auto simp: execute_guard_def exec_error_def truthy_def Let_def split: option.splits if_splits)

lemma failure_obj: "\<exists>ms. snd (sandbox_failure msg) = JObj ms" "fst (sandbox_failure msg) \<notin> {200..299}"
  by (simp_all add: sandbox_failure_def)

lemma post_execute_answer:
  assumes "\<not> truthy (xr_error (fst (reply_result limit (fetch_of_reply (post_execute sx v (Some b))))))"
  shows "\<exists>j t. runIsolated sx v (run_opts b) = (Ret j, t)"
proof (cases "runIsolated sx v (run_opts b)")
  case (Pair r t)
  show ?thesis
  proof (cases r)
    case (Throw er)
    obtain ms where "snd (sandbox_failure (err_msg er)) = JObj ms" using failure_obj(1) by blast
    with Pair Throw assms failure_obj(2) [of "err_msg er"] show ?thesis
      by (auto simp: post_execute_def fetch_of_reply_def reply_result_def caught_def exec_error_def truthy_def
          simp del: stringify.simps split: if_splits)
  qed (simp add: Pair)
qed

lemma answered_in_worker:
  assumes "worker_sandbox sx v x" "\<not> truthy (xr_error (fst (reply_result limit (xe_fetch x n tok b))))"
  shows "\<exists>j t. runWorkerThread sx (run_opts b) = (Ret j, t)"
proof -
  have "tok = internal_token None v"
    using assms by (auto simp: worker_sandbox_def sandbox_app_def fetch_of_reply_def reply_result_def caught_def
        exec_error_def truthy_def simp del: stringify.simps split: if_splits)
  with assms have "\<not> truthy (xr_error (fst (reply_result limit (fetch_of_reply (post_execute sx v (Some b))))))"
    by (simp add: worker_sandbox_def sandbox_app_def)
  from post_execute_answer [OF this] assms(1) show ?thesis by (simp add: runIsolated_def worker_sandbox_def)
qed

text \<open>
  C11 (safety). From the request to the worker thread: when an execution that carries a URL to fetch succeeds,
  the request asked for the network and the host of the URL is a domain that an approved access request of
  this extension named.
\<close>

theorem fetched_host_was_approved:
  assumes start: "no_network s0" and run: "ext_run x s0 s" and sandbox: "worker_sandbox sx v x"
    and exec: "execute x r u s = (res, t)" "\<not> truthy (xr_error res)"
    and url: "json_truthy (map_of (er_inputs r) ''fetchUrl'')"
  shows "er_network r = Some True \<and>
    (\<exists>host ds. sx_hostname sx (the (map_of (er_inputs r) ''fetchUrl'')) = Some host \<and>
       (er_extensionId r, ds) \<in> grants s \<and> host \<in> set ds)"
proof -
  have inv: "policies_backed s" by (rule network.run [OF run no_network_backed [OF start]])
  from exec(1) show ?thesis
  proof (cases rule: execute_cases)
    case refused
    with exec(2) guard_message show ?thesis by blast
  next
    case (called p f)
    then obtain j t' where w: "runWorkerThread sx (run_opts (execute_body r p)) = (Ret j, t')"
      using answered_in_worker [OF sandbox] exec(2) by blast
    have "sx_workerFile sx" using sandbox by (simp add: worker_sandbox_def)
    moreover have "json_truthy (map_of (ro_inputs (run_opts (execute_body r p))) ''fetchUrl'')"
      using url by (simp add: run_opts_def execute_body_def)
    ultimately have "er_network r = Some True \<and> (\<exists>host \<in> set (ep_approvedDomains p).
        sx_hostname sx (the (map_of (er_inputs r) ''fetchUrl'')) = Some host)"
      using worker_fetch_gated [OF w] by (simp add: run_opts_def execute_body_def)
    moreover have "backed (grants s) p" "ep_extensionId p = er_extensionId r"
      using policy_row [OF called(1)] inv by (auto simp: policies_backed_def)
    ultimately show ?thesis unfolding backed_def by metis
  qed
qed

section \<open>Instances\<close>

text \<open>A sandbox that reads the host after \<open>https://\<close> and runs without a Firecracker socket.\<close>

definition sandbox_ext_example :: sandbox_ext where
  "sandbox_ext_example =
     \<lparr>sx_workerFile = True,
      sx_hostname = (\<lambda>v. case v of JStr t \<Rightarrow> Some (takeWhile (\<lambda>c. c \<noteq> CHR ''/'') (drop 8 t)) | _ \<Rightarrow> None),
      sx_Number = (\<lambda>v. case v of JNum t \<Rightarrow> Some (int (parse_nat t)) | _ \<Rightarrow> None), sx_allocate = (\<lambda>_ _. None),
      sx_exists = (\<lambda>_. False), sx_launch = (\<lambda>_ _ _. (0, SpawnError ''ENOENT'')), sx_parse = (\<lambda>_. None), sx_zodMessage = []\<rparr>"

definition extension_env_example :: extension_env where
  "extension_env_example =
     \<lparr>xe_auth = auth_ext_example, xe_env = auth_env_example, xe_SANDBOX_INTERNAL_TOKEN = INSECURE_SANDBOX_DEFAULT,
      xe_fetch = (\<lambda>n tok b. fetch_of_reply
        (sandbox_app sandbox_ext_example (\<lambda>_. None) None (Some (''Bearer '' @ tok)) (SbExecute (Some b))))\<rparr>"

definition no_policies :: ext_state where
  "no_policies =
     \<lparr>xs_auth = auth_example\<lparr>a_world := (a_world auth_example)\<lparr>projects :=
        [(project_example ''p'')\<lparr>pr_godotVersion := Some ''4.3.1''\<rparr>]\<rparr>\<rparr>,
      xs_policies = [], xs_approvals = [], xs_calls = []\<rparr>"

definition policy_request_example :: PolicyRequest where
  "policy_request_example =
     \<lparr>pq_extensionId = ''lint'', pq_name = ''Linter'', pq_godotVersionRange = None, pq_maxCpu = None,
      pq_maxMemoryMiB = None, pq_maxDiskMiB = None, pq_timeoutSeconds = None\<rparr>"

text \<open>A policy is made, its network access asked for and approved.\<close>

definition with_policy :: ext_state where
  "with_policy = snd (route_upsert extension_env_example by_session (Some policy_request_example) no_policies)"

definition with_request :: ext_state where
  "with_request = snd (route_request extension_env_example by_session
     (Some \<lparr>ar_extensionId = ''lint'', ar_requestedDomains = [''a.example''], ar_reason = ''rules'', ar_riskAssessment = []\<rparr>)
     with_policy)"

definition with_approval :: ext_state where
  "with_approval = snd (route_review extension_env_example by_session ''id-5'' (Some True) with_request)"

definition lint_request :: ExecuteExtensionRequest where
  "lint_request =
     \<lparr>er_extensionId = ''lint'', er_projectId = ''p'',
      er_inputs = [(''fetchUrl'', JStr ''https://a.example/rules'')], er_network = Some True\<rparr>"

lemma example_run: "ext_run extension_env_example no_policies with_approval"
proof -
  have "ext_step extension_env_example no_policies with_policy" unfolding with_policy_def by (rule ext_step.upsert)
  moreover have "ext_step extension_env_example with_policy with_request"
    unfolding with_request_def by (rule ext_step.requested)
  moreover have "ext_step extension_env_example with_request with_approval"
    unfolding with_approval_def by (rule ext_step.reviewed)
  ultimately show ?thesis by auto
qed

lemma example_start: "no_network no_policies"
  by code_simp

lemma example_executed:
  obtains res t c where "execute extension_env_example lint_request ''ann'' with_approval = (res, t)"
    "xs_calls t = c # xs_calls with_approval" "eb_network (sc_body c)" "eb_approvedDomains (sc_body c) = [''a.example'']"
    "\<not> truthy (xr_error res)"
proof -
  have "(case execute extension_env_example lint_request ''ann'' with_approval of (res, t) \<Rightarrow>
      \<not> truthy (xr_error res) \<and> (case xs_calls t of [] \<Rightarrow> False | c # cs \<Rightarrow> cs = xs_calls with_approval \<and>
        eb_network (sc_body c) \<and> eb_approvedDomains (sc_body c) = [''a.example'']))"
    by code_simp
  then show ?thesis by (auto split: prod.splits list.splits intro: that)
qed


theorem fetched_host_was_approved_witness:
  "\<exists>ds. (''lint'', ds) \<in> grants with_approval \<and> ''a.example'' \<in> set ds \<and> er_network lint_request = Some True"
proof -
  have s: "worker_sandbox sandbox_ext_example (\<lambda>_. None) extension_env_example"
    by (simp add: worker_sandbox_def extension_env_example_def sandbox_ext_example_def truthy_def)
  have u: "json_truthy (map_of (er_inputs lint_request) ''fetchUrl'')" by (simp add: lint_request_def)
  obtain res t where e: "execute extension_env_example lint_request ''ann'' with_approval = (res, t)"
    "\<not> truthy (xr_error res)"
    using example_executed by blast
  have h: "sx_hostname sandbox_ext_example (the (map_of (er_inputs lint_request) ''fetchUrl'')) = Some ''a.example''"
    by code_simp
  from fetched_host_was_approved [OF example_start example_run s e u] show ?thesis
    unfolding h by (auto simp: lint_request_def)
qed

section \<open>Where the service differs from what it is meant to do\<close>

text \<open>
  A later rejection of an approved request leaves the network access. The sandbox's own codes do not reach
  the client: a denied host is a \<open>400\<close> without a code, not the \<open>403\<close> with \<open>E016\<close> that the sandbox sends. A time
  limit above 24 days makes the orchestrator give up after a millisecond.
\<close>

theorem rejection_keeps_network:
  "map ep_networkAllowed (xs_policies (snd (route_review extension_env_example by_session ''id-5'' (Some False) with_approval)))
     = [True]"
  by code_simp

theorem sandbox_code_lost:
  "fst (route_execute extension_env_example by_session
     (Some (lint_request\<lparr>er_inputs := [(''fetchUrl'', JStr ''https://b.example/x'')]\<rparr>)) with_approval)
   = Refused 400 [] (stringify (snd (sandbox_failure ''NETWORK_DENIED: domain b.example not in approved list'')))"
  by code_simp

theorem long_limit_times_out:
  assumes "2147478 < secs" "0 < t"
  shows "reply_result (timer_ms ((secs + 5) * 1000)) (Response status body parsed t)
    = (exec_error ''Extension execution timeout'' (Some ''E009''), False)"
proof -
  have "timer_ms ((secs + 5) * 1000) = 1" using assms(1) by (simp add: timer_ms_def)
  with assms(2) show ?thesis by (simp add: reply_result_def caught_def starts_with_def)
qed

end
