(* ===== verification/Base64.thy ===== *)
theory Base64
  imports Prelude
begin

text \<open>
  Bytes as characters, \<open>Buffer.toString('base64')\<close> and its inverse, and big-endian 32-bit integers
  (\<open>writeUInt32BE\<close>, \<open>readUInt32BE\<close>).
\<close>

section \<open>Base64\<close>

definition b64_char :: "nat \<Rightarrow> char" where
  "b64_char n =
     (if n < 26 then char_of (65 + n) else if n < 52 then char_of (71 + n)
      else if n < 62 then char_of (n - 4) else if n = 62 then CHR ''+'' else CHR ''/'')"

definition b64_value :: "char \<Rightarrow> nat option" where
  "b64_value c =
     (let n = code c in
      if 65 \<le> n \<and> n \<le> 90 then Some (n - 65) else if 97 \<le> n \<and> n \<le> 122 then Some (n - 71)
      else if 48 \<le> n \<and> n \<le> 57 then Some (n + 4) else if n = 43 then Some 62 else if n = 47 then Some 63 else None)"

fun base64 :: "string \<Rightarrow> string" where
  "base64 [] = []"
| "base64 [a] = (let n = code a in [b64_char (n div 4), b64_char (n mod 4 * 16), CHR ''='', CHR ''=''])"
| "base64 [a, b] =
     (let n = code a * 256 + code b in
      [b64_char (n div 1024), b64_char (n div 16 mod 64), b64_char (n mod 16 * 4), CHR ''=''])"
| "base64 (a # b # c # cs) =
     (let n = code a * 65536 + code b * 256 + code c in
      b64_char (n div 262144) # b64_char (n div 4096 mod 64) # b64_char (n div 64 mod 64) # b64_char (n mod 64) # base64 cs)"

text \<open>Groups of four digits, the last one padded.\<close>

fun unbase64 :: "string \<Rightarrow> string option" where
  "unbase64 [] = Some []"
| "unbase64 (p # q # r # s # cs) =
     (case (b64_value p, b64_value q) of
        (Some w, Some x) \<Rightarrow>
          if r = CHR ''='' \<and> s = CHR ''='' then (if cs = [] then Some [char_of (w * 4 + x div 16)] else None)
          else (case b64_value r of
                  None \<Rightarrow> None
                | Some y \<Rightarrow>
                    if s = CHR ''=''
                    then (if cs = [] then Some [char_of (w * 4 + x div 16), char_of (x mod 16 * 16 + y div 4)] else None)
                    else (case (b64_value s, unbase64 cs) of
                            (Some z, Some rest) \<Rightarrow>
                              Some (char_of (w * 4 + x div 16) # char_of (x mod 16 * 16 + y div 4) # char_of (y mod 4 * 64 + z) # rest)
                          | _ \<Rightarrow> None))
      | _ \<Rightarrow> None)"
| "unbase64 _ = None"

lemma code_less [simp]: "code c < 256"
  by (simp add: code_def)

lemma char_code [simp]: "char_of (code c) = c"
  by (simp add: code_def)

lemma code_char: "n < 256 \<Longrightarrow> code (char_of n) = n"
  by (simp add: code_def)

lemma code_char_mod: "code (char_of n) = n mod 256"
  by (simp add: code_def)

lemma b64_value_char: "n < 64 \<Longrightarrow> b64_value (b64_char n) = Some n"
  by (auto simp: b64_char_def b64_value_def code_char code_def Let_def)

lemma b64_char_pad: "n < 64 \<Longrightarrow> b64_char n \<noteq> CHR ''=''"
  using b64_value_char [of n] by (auto simp: b64_value_def code_def)

text \<open>Quotient and remainder read off a decomposition.\<close>

lemma quotient: "n = q * d + r \<Longrightarrow> r < d \<Longrightarrow> n div d = (q::nat)"
  by simp

lemma remainder: "n = q * d + r \<Longrightarrow> r < d \<Longrightarrow> n mod d = (r::nat)"
  by simp

lemma split_at: assumes "0 < d" obtains q r where "(n::nat) = q * d + r" "r < d"
  using assms that [of "n div d" "n mod d"] div_mult_mod_eq [of n d, symmetric] mod_less_divisor by blast

lemma split_bytes:
  assumes "b < (256::nat)" "c < 256"
  shows "(a * 65536 + b * 256 + c) div 262144 = a div 4"
    "(a * 65536 + b * 256 + c) div 4096 mod 64 = a mod 4 * 16 + b div 16"
    "(a * 65536 + b * 256 + c) div 64 mod 64 = b mod 16 * 4 + c div 64"
    "(a * 65536 + b * 256 + c) mod 64 = c mod 64"
proof -
  obtain a1 a0 where a: "a = a1 * 4 + a0" "a0 < 4" by (rule split_at [of 4 a, OF zero_less_numeral])
  obtain b1 b0 where b: "b = b1 * 16 + b0" "b0 < 16" by (rule split_at [of 16 b, OF zero_less_numeral])
  obtain c1 c0 where c: "c = c1 * 64 + c0" "c0 < 64" by (rule split_at [of 64 c, OF zero_less_numeral])
  have q: "a div 4 = a1" "a mod 4 = a0" "b div 16 = b1" "b mod 16 = b0" "c div 64 = c1" "c mod 64 = c0"
    using a b c by (auto intro: quotient remainder)
  have "b1 < 16" "c1 < 4" using assms b c by linarith+
  show "(a * 65536 + b * 256 + c) div 262144 = a div 4" unfolding q
    by (rule quotient [of _ _ _ "a0 * 65536 + b * 256 + c"]) (use a assms in \<open>simp_all add: algebra_simps\<close>)
  have "(a * 65536 + b * 256 + c) div 4096 = a * 16 + b1"
    by (rule quotient [of _ _ _ "b0 * 256 + c"]) (use b assms in \<open>simp_all add: algebra_simps\<close>)
  also have "\<dots> mod 64 = a0 * 16 + b1"
    by (rule remainder [of _ a1]) (use a \<open>b1 < 16\<close> in \<open>simp_all add: algebra_simps\<close>)
  finally show "(a * 65536 + b * 256 + c) div 4096 mod 64 = a mod 4 * 16 + b div 16" unfolding q .
  have "(a * 65536 + b * 256 + c) div 64 = a * 1024 + b * 4 + c1"
    by (rule quotient [of _ _ _ c0]) (use c in \<open>simp_all add: algebra_simps\<close>)
  also have "\<dots> mod 64 = b0 * 4 + c1"
    by (rule remainder [of _ "a * 16 + b1"]) (use b \<open>c1 < 4\<close> in \<open>simp_all add: algebra_simps\<close>)
  finally show "(a * 65536 + b * 256 + c) div 64 mod 64 = b mod 16 * 4 + c div 64" unfolding q .
  show "(a * 65536 + b * 256 + c) mod 64 = c mod 64" unfolding q
    by (rule remainder [of _ "a * 1024 + b * 4 + c1"]) (use c in \<open>simp_all add: algebra_simps\<close>)
qed

lemma split_two:
  assumes "b < (256::nat)"
  shows "(a * 256 + b) div 1024 = a div 4" "(a * 256 + b) div 16 mod 64 = a mod 4 * 16 + b div 16"
    "(a * 256 + b) mod 16 = b mod 16"
proof -
  obtain a1 a0 where a: "a = a1 * 4 + a0" "a0 < 4" by (rule split_at [of 4 a, OF zero_less_numeral])
  obtain b1 b0 where b: "b = b1 * 16 + b0" "b0 < 16" by (rule split_at [of 16 b, OF zero_less_numeral])
  have q: "a div 4 = a1" "a mod 4 = a0" "b div 16 = b1" "b mod 16 = b0"
    using a b by (auto intro: quotient remainder)
  have "b1 < 16" using assms b by linarith
  show "(a * 256 + b) div 1024 = a div 4" unfolding q
    by (rule quotient [of _ _ _ "a0 * 256 + b"]) (use a assms in \<open>simp_all add: algebra_simps\<close>)
  have "(a * 256 + b) div 16 = a * 16 + b1" by (rule quotient [of _ _ _ b0]) (use b in \<open>simp_all add: algebra_simps\<close>)
  also have "\<dots> mod 64 = a0 * 16 + b1"
    by (rule remainder [of _ a1]) (use a \<open>b1 < 16\<close> in \<open>simp_all add: algebra_simps\<close>)
  finally show "(a * 256 + b) div 16 mod 64 = a mod 4 * 16 + b div 16" unfolding q .
  show "(a * 256 + b) mod 16 = b mod 16" unfolding q
    by (rule remainder [of _ "a * 16 + b1"]) (use b in \<open>simp_all add: algebra_simps\<close>)
qed

lemma join_bytes:
  assumes "a < (256::nat)" "b < 256" "c < 256"
  shows "a div 4 * 4 + (a mod 4 * 16 + b div 16) div 16 = a"
    "(a mod 4 * 16 + b div 16) mod 16 * 16 + (b mod 16 * 4 + c div 64) div 4 = b"
    "(b mod 16 * 4 + c div 64) mod 4 * 64 + c mod 64 = c"
proof -
  have s: "b div 16 < 16" "c div 64 < 4" using assms by (simp_all add: less_mult_imp_div_less)
  have "(a mod 4 * 16 + b div 16) div 16 = a mod 4" by (rule quotient) (use s in simp_all)
  then show "a div 4 * 4 + (a mod 4 * 16 + b div 16) div 16 = a" by simp
  have "(a mod 4 * 16 + b div 16) mod 16 = b div 16" by (rule remainder) (use s in simp_all)
  moreover have "(b mod 16 * 4 + c div 64) div 4 = b mod 16" by (rule quotient) (use s in simp_all)
  ultimately show "(a mod 4 * 16 + b div 16) mod 16 * 16 + (b mod 16 * 4 + c div 64) div 4 = b" by simp
  have "(b mod 16 * 4 + c div 64) mod 4 = c div 64" by (rule remainder) (use s in simp_all)
  then show "(b mod 16 * 4 + c div 64) mod 4 * 64 + c mod 64 = c" by simp
qed

text \<open>The digits of three bytes are below 64.\<close>

lemma digit_bounds:
  assumes "a < (256::nat)" "b < 256" "c < 256"
  shows "a div 4 < 64" "a mod 4 * 16 + b div 16 < 64" "b mod 16 * 4 + c div 64 < 64" "c mod 64 < 64"
proof -
  have "b div 16 < 16" "c div 64 < 4" "a div 4 < 64" using assms by (simp_all add: less_mult_imp_div_less)
  moreover have "a mod 4 < 4" "b mod 16 < 16" by simp_all
  ultimately show "a div 4 < 64" "a mod 4 * 16 + b div 16 < 64" "b mod 16 * 4 + c div 64 < 64" "c mod 64 < 64"
    by linarith+
qed

lemma unbase64_base64: "unbase64 (base64 s) = Some s"
proof (induction s rule: base64.induct)
  case (2 a)
  from join_bytes(1) [of "code a" 0 0] digit_bounds [of "code a" 0 0] show ?case
    by (simp add: b64_value_char Let_def)
next
  case (3 a b)
  have "code b div 16 mod 16 = code b div 16" "code b div 16 div 16 = 0" by (simp_all add: less_mult_imp_div_less)
  with join_bytes(1,2) [of "code a" "code b" 0] digit_bounds [of "code a" "code b" 0] show ?case
    by (simp add: split_two b64_value_char b64_char_pad Let_def)
next
  case (4 a b c cs)
  have "code b div 16 mod 16 = code b div 16" "code c div 64 mod 4 = code c div 64"
    "code b div 16 div 16 = 0" "code c div 64 div 4 = 0"
    by (simp_all add: less_mult_imp_div_less)
  with 4 join_bytes [of "code a" "code b" "code c"] digit_bounds [of "code a" "code b" "code c"] show ?case
    by (simp add: split_bytes b64_value_char b64_char_pad Let_def)
qed simp

section \<open>Length-prefixed strings\<close>

definition uint32_be :: "nat \<Rightarrow> string" where
  "uint32_be n = [char_of (n div 16777216 mod 256), char_of (n div 65536 mod 256), char_of (n div 256 mod 256), char_of (n mod 256)]"

definition read_uint32 :: "string \<Rightarrow> nat" where
  "read_uint32 s = foldl (\<lambda>n c. n * 256 + code c) 0 s"

text \<open>A string with its length before it, and the reading of one.\<close>

definition wire_string :: "string \<Rightarrow> string" where
  "wire_string s = uint32_be (length s) @ s"

definition read_string :: "string \<Rightarrow> (string \<times> string) option" where
  "read_string s =
     (let n = read_uint32 (take 4 s); r = drop 4 s in
      if length s < 4 \<or> length r < n then None else Some (take n r, drop n r))"

lemma read_uint32_be: assumes "n < 2 ^ 32" shows "read_uint32 (uint32_be n) = n"
proof -
  have top: "n div 16777216 mod 256 = n div 16777216" using assms by (simp add: less_mult_imp_div_less)
  moreover have "n div 16777216 = n div 65536 div 256" "n div 65536 = n div 256 div 256" by (simp_all add: div_mult2_eq)
  ultimately have "((n div 16777216 mod 256 * 256 + n div 65536 mod 256) * 256 + n div 256 mod 256) * 256 + n mod 256 = n"
    by simp
  then show ?thesis by (simp add: read_uint32_def uint32_be_def code_char_mod top)
qed

lemma read_wire_string: "length s < 2 ^ 32 \<Longrightarrow> read_string (wire_string s @ r) = Some (s, r)"
  using read_uint32_be [of "length s"] by (simp add: read_string_def wire_string_def uint32_be_def)

end
