(* ===== verification/Provision.thy ===== *)
theory Provision
  imports Config Base64 Json_Text Job_Service
begin

text \<open>
  Ephemeral SSH keys and the target's provisioner: \<open>services/ssh-provision.ts\<close>. The network, the files, the
  key generator and \<open>JSON.parse\<close> are parameters. The plan of a cross-machine dispatch is in \<open>Job_Service\<close>;
  the warnings on the console are left out.
\<close>

section \<open>Credentials\<close>

record BearerToken =
  bt_token :: string
  bt_usedFallback :: bool

definition resolveProvisionBearerToken :: "env_values \<Rightarrow> BearerToken" where
  "resolveProvisionBearerToken p =
     (let dedicated = js_trim (env_text p ''PGOS_PROVISION_TOKEN'') in
      if dedicated \<noteq> [] then \<lparr>bt_token = dedicated, bt_usedFallback = False\<rparr>
      else \<lparr>bt_token = env_text p ''SANDBOX_INTERNAL_TOKEN'', bt_usedFallback = True\<rparr>)"

record ProvisionMtlsMaterial =
  pm_cert :: string
  pm_key :: string
  pm_ca :: "string option"
  pm_certPath :: string
  pm_keyPath :: string
  pm_caPath :: "string option"

record MtlsPaths =
  mp_certPath :: string
  mp_keyPath :: string
  mp_caPath :: string

definition loadProvisionMtlsMaterial :: "(string \<Rightarrow> string option) \<Rightarrow> MtlsPaths \<Rightarrow> ProvisionMtlsMaterial option outcome" where
  "loadProvisionMtlsMaterial file paths =
     (let cert = js_trim (mp_certPath paths); key = js_trim (mp_keyPath paths); ca = js_trim (mp_caPath paths) in
      if cert = [] \<and> key = [] then Ret None
      else if cert = [] \<or> key = []
      then Throw (system_error ''PGOS_PROVISION_MTLS_CERT and PGOS_PROVISION_MTLS_KEY must both be set (SEC-01)'')
      else if file cert = None then Throw (system_error (''PGOS_PROVISION_MTLS_CERT not found: '' @ cert))
      else if file key = None then Throw (system_error (''PGOS_PROVISION_MTLS_KEY not found: '' @ key))
      else if ca \<noteq> [] \<and> file ca = None then Throw (system_error (''PGOS_PROVISION_MTLS_CA not found: '' @ ca))
      else Ret (Some
        \<lparr>pm_cert = the (file cert), pm_key = the (file key), pm_ca = (if ca \<noteq> [] then file ca else None),
         pm_certPath = cert, pm_keyPath = key, pm_caPath = (if ca \<noteq> [] then Some ca else None)\<rparr>))"

record MtlsOverrides =
  mo_mtlsCert :: "string option"
  mo_mtlsKey :: "string option"
  mo_mtlsCa :: "string option"

definition resolveProvisionMtlsPaths :: "env_values \<Rightarrow> MtlsOverrides \<Rightarrow> MtlsPaths" where
  "resolveProvisionMtlsPaths p ov =
     \<lparr>mp_certPath = js_trim (or_default (mo_mtlsCert ov) (env_text p ''PGOS_PROVISION_MTLS_CERT'')),
      mp_keyPath = js_trim (or_default (mo_mtlsKey ov) (env_text p ''PGOS_PROVISION_MTLS_KEY'')),
      mp_caPath = js_trim (or_default (mo_mtlsCa ov) (env_text p ''PGOS_PROVISION_MTLS_CA''))\<rparr>"

section \<open>The request\<close>

text \<open>
  A request as it leaves: with a client certificate only over \<open>https:\<close>. \<open>pe_post\<close> gives the status and the text
  of the answer, or the error; \<open>pe_protocol\<close> is the protocol of a URL, \<open>None\<close> for a text that is none.
\<close>

record HttpPost =
  hp_url :: string
  hp_body :: string
  hp_headers :: "(string \<times> string) list"
  hp_clientCert :: "(string \<times> string \<times> string option) option"

record provision_ext =
  pe_file :: "string \<Rightarrow> string option"
  pe_protocol :: "string \<Rightarrow> string option"
  pe_post :: "nat \<Rightarrow> HttpPost \<Rightarrow> (nat \<times> string) outcome"
  pe_parse :: "string \<Rightarrow> json option"

record provision_state =
  ps_world :: world
  ps_posts :: "HttpPost list"

definition ps_audit :: "AuditLogEntry \<Rightarrow> provision_state \<Rightarrow> provision_state" where
  "ps_audit en s = s\<lparr>ps_world := audit en (ps_world s)\<rparr>"

definition http_send :: "provision_ext \<Rightarrow> HttpPost \<Rightarrow> provision_state \<Rightarrow> (nat \<times> string) outcome \<times> provision_state" where
  "http_send x r s =
     (let (res, w) = draw (\<lambda>n. pe_post x n r) (ps_world s) in (res, \<lparr>ps_world = w, ps_posts = r # ps_posts s\<rparr>))"

definition provisionHttpPost :: "provision_ext \<Rightarrow> string \<Rightarrow> string \<Rightarrow> (string \<times> string) list \<Rightarrow> ProvisionMtlsMaterial option
    \<Rightarrow> provision_state \<Rightarrow> (nat \<times> string) outcome \<times> provision_state" where
  "provisionHttpPost x url body headers mtls s =
     (case mtls of
        None \<Rightarrow> http_send x \<lparr>hp_url = url, hp_body = body, hp_headers = headers, hp_clientCert = None\<rparr> s
      | Some m \<Rightarrow>
          (case pe_protocol x url of
             None \<Rightarrow> (Throw (system_error ''Invalid URL''), s)
           | Some pr \<Rightarrow>
               http_send x \<lparr>hp_url = url, hp_body = body,
                            hp_headers = headers @ [(''Content-Length'', show_nat (length body))],
                            hp_clientCert = (if pr = ''https:'' then Some (pm_cert m, pm_key m, pm_ca m) else None)\<rparr> s))"

record ProvisionOpts =
  po_targetProvisionUrl :: string
  po_publicKeyOpenSsh :: string
  po_forcedCommand :: string
  po_jobId :: string
  po_environment :: "(string \<times> string) list option"
  po_maxSessions :: "nat option"
  po_ttlSeconds :: "nat option"
  po_mtls :: MtlsOverrides

record ProvisionResult =
  pr_ok :: bool
  pr_detail :: "string option"
  pr_keyId :: "json option"
  pr_expiresAt :: "json option"

definition provision_failed :: "string \<Rightarrow> ProvisionResult" where
  "provision_failed d = \<lparr>pr_ok = False, pr_detail = Some d, pr_keyId = None, pr_expiresAt = None\<rparr>"

definition provision_payload :: "ProvisionOpts \<Rightarrow> string" where
  "provision_payload r =
     stringify (JObj [(''publicKey'', JStr (po_publicKeyOpenSsh r)), (''forcedCommand'', JStr (po_forcedCommand r)),
       (''jobId'', JStr (po_jobId r)), (''singleUse'', JBool False),
       (''maxSessions'', JNum (show_nat (or_default (po_maxSessions r) 8))),
       (''ttlSeconds'', JNum (show_nat (or_default (po_ttlSeconds r) 300))),
       (''environment'', JObj (map (\<lambda>(k, v). (k, JStr v)) (or_default (po_environment r) [])))])"

text \<open>A member of the parsed answer; the answer \<open>null\<close> has no members and throws.\<close>

definition answer_member :: "json \<Rightarrow> string \<Rightarrow> json option" where
  "answer_member j k = (case j of JObj m \<Rightarrow> map_of m k | _ \<Rightarrow> None)"

definition provision_audit :: "ProvisionOpts \<Rightarrow> metadata \<Rightarrow> AuditLogEntry" where
  "provision_audit r detail = audit_entry None ''ssh.jit_provisioned'' ''job'' (Some (po_jobId r)) detail"

definition provision_detail :: "ProvisionOpts \<Rightarrow> nat \<Rightarrow> bool \<Rightarrow> bool \<Rightarrow> json option \<Rightarrow> metadata" where
  "provision_detail r status fallback mtls keyId =
     [(''target'', JStr (po_targetProvisionUrl r)), (''status'', JNum (show_nat status)), (''singleUse'', JBool False),
      (''maxSessions'', JNum (show_nat (or_default (po_maxSessions r) 8))),
      (''ttlSeconds'', JNum (show_nat (or_default (po_ttlSeconds r) 300))),
      (''environmentKeys'', JArr (map (JStr \<circ> fst) (or_default (po_environment r) []))),
      (''provisionAuth'', JStr (if fallback then ''sandbox_token_fallback'' else ''pgos_provision_token'')),
      (''mtls'', JBool mtls)] @
     (case keyId of None \<Rightarrow> [] | Some k \<Rightarrow> [(''keyId'', k)])"

definition provision_error :: "ProvisionOpts \<Rightarrow> bool \<Rightarrow> string \<Rightarrow> provision_state \<Rightarrow> ProvisionResult \<times> provision_state" where
  "provision_error r mtls msg s =
     (provision_failed msg,
      ps_audit (provision_audit r [(''target'', JStr (po_targetProvisionUrl r)), (''status'', JNum ''0''),
                                   (''error'', JStr msg), (''mtls'', JBool mtls)]) s)"

definition provisionPublicKey :: "provision_ext \<Rightarrow> env_values \<Rightarrow> ProvisionOpts \<Rightarrow> provision_state
    \<Rightarrow> ProvisionResult \<times> provision_state" where
  "provisionPublicKey x p r s =
     (let bearer = resolveProvisionBearerToken p in
      case loadProvisionMtlsMaterial (pe_file x) (resolveProvisionMtlsPaths p (po_mtls r)) of
        Throw er \<Rightarrow> (provision_failed (err_msg er), s)
      | Ret mtls \<Rightarrow>
          (case provisionHttpPost x (po_targetProvisionUrl r) (provision_payload r)
                  [(''Content-Type'', ''application/json''), (''Authorization'', ''Bearer '' @ bt_token bearer)] mtls s of
             (Throw er, s1) \<Rightarrow> provision_error r (mtls \<noteq> None) (err_msg er) s1
           | (Ret (status, bodyText), s1) \<Rightarrow>
               let parsed = (if bodyText = [] then JObj [] else or_default (pe_parse x bodyText) (JObj [])) in
               if parsed = JNull
               then provision_error r (mtls \<noteq> None) ''Cannot read properties of null (reading 'keyId')'' s1
               else
                 let keyId = answer_member parsed ''keyId'';
                     s2 = ps_audit (provision_audit r
                            (provision_detail r status (bt_usedFallback bearer) (mtls \<noteq> None) keyId)) s1
                 in (if status < 200 \<or> 300 \<le> status
                     then provision_failed (if bodyText \<noteq> [] then bodyText else ''HTTP '' @ show_nat status)
                     else \<lparr>pr_ok = True, pr_detail = None, pr_keyId = keyId,
                           pr_expiresAt = answer_member parsed ''expiresAt''\<rparr>, s2)))"

text \<open>The rotation goes on without a client certificate when the certificate cannot be loaded.\<close>

definition rotate_mtls :: "provision_ext \<Rightarrow> env_values \<Rightarrow> ProvisionMtlsMaterial option" where
  "rotate_mtls x p =
     (case loadProvisionMtlsMaterial (pe_file x)
             (resolveProvisionMtlsPaths p \<lparr>mo_mtlsCert = None, mo_mtlsKey = None, mo_mtlsCa = None\<rparr>) of
        Ret m \<Rightarrow> m | Throw _ \<Rightarrow> None)"

definition rotateAgentSecrets :: "provision_ext \<Rightarrow> env_values \<Rightarrow> string \<Rightarrow> provision_state \<Rightarrow> unit outcome \<times> provision_state" where
  "rotateAgentSecrets x p targetRotateUrl s =
     (let mtls = rotate_mtls x p in
      case provisionHttpPost x targetRotateUrl
             (stringify (JObj [(''action'', JStr ''rotate-mtls''), (''periodDays'', JNum ''90'')]))
             [(''Authorization'', ''Bearer '' @ bt_token (resolveProvisionBearerToken p)), (''Content-Type'', ''application/json'')]
             mtls s of
        (Throw er, s1) \<Rightarrow> (Throw er, s1)
      | (Ret _, s1) \<Rightarrow>
          (Ret (), ps_audit (audit_entry None ''agent.secrets_rotated'' ''commit-agent'' (Some targetRotateUrl)
             [(''periodDays'', JNum ''90''), (''mtls'', JBool (mtls \<noteq> None))]) s1))"

section \<open>Keys\<close>

record EphemeralSshKey =
  ek_publicKeyOpenSsh :: string
  ek_privateKeyPem :: string
  ek_keyId :: string
  ek_expiresAt :: nat

definition encodeOpenSSHEd25519 :: "string \<Rightarrow> string" where
  "encodeOpenSSHEd25519 rawPubKey =
     ''ssh-ed25519 '' @ base64 (wire_string ''ssh-ed25519'' @ wire_string rawPubKey) @ '' pgos-ephemeral''"

text \<open>The key pair as the generator gives it: the DER text of the public key and the PEM of the private one.\<close>

definition generateEphemeralEd25519 :: "(nat \<Rightarrow> string \<times> string) \<Rightarrow> (nat \<Rightarrow> string) \<Rightarrow> world \<Rightarrow> EphemeralSshKey \<times> world" where
  "generateEphemeralEd25519 keygen uuid w =
     (let ((der, pem), w1) = draw keygen w;
          (i, w2) = draw uuid w1
      in (\<lparr>ek_publicKeyOpenSsh = encodeOpenSSHEd25519 (drop (length der - 32) der), ek_privateKeyPem = pem,
           ek_keyId = i, ek_expiresAt = now w2 + 5 * 60000\<rparr>, w2))"

text \<open>What an OpenSSH server reads from a line of \<open>authorized_keys\<close>.\<close>

definition read_authorized_key :: "string \<Rightarrow> string option" where
  "read_authorized_key line =
     (case split_on (CHR '' '') line of
        kind # blob # _ \<Rightarrow>
          (case unbase64 blob of
             None \<Rightarrow> None
           | Some b \<Rightarrow>
               (case read_string b of
                  None \<Rightarrow> None
                | Some (t, r) \<Rightarrow>
                    if kind \<noteq> ''ssh-ed25519'' \<or> t \<noteq> kind then None
                    else (case read_string r of Some (key, []) \<Rightarrow> Some key | _ \<Rightarrow> None)))
      | _ \<Rightarrow> None)"

end
