(* ===== verification/Config_Claims.thy ===== *)
theory Config_Claims
  imports Provision
begin

text \<open>
  What a configuration that passed the production gate guarantees to the components, how the cache breaks
  that guarantee, and the reading of the ephemeral keys by the target.
\<close>

section \<open>The gate\<close>

lemma getEnv_Ret:
  assumes "getEnv email v None = (Ret p, c)"
  shows "parse_env email v = Some p" "validateProductionEnv v False p = Ret ()"
  using assms by (auto simp: getEnv_def split: option.splits outcome.splits)

lemma gate_passed_errors:
  assumes "validateProductionEnv v b p = Ret ()" "env_text p ''NODE_ENV'' = ''production''"
  shows "production_errors v b p = []"
  using assms by (auto simp: validateProductionEnv_def Let_def split: if_splits)

lemma no_errors:
  assumes "production_errors v b p = []"
  shows "hasRs256Keys p" "32 \<le> length (env_text p ''JWE_SECRET'')" "env_text p ''JWE_SECRET'' \<noteq> INSECURE_JWE_DEFAULT"
    "env_text p ''SANDBOX_INTERNAL_TOKEN'' \<noteq> DEV_SANDBOX_TOKEN" "\<not> env_bool p ''GITHUB_MOCK''"
    "validateProvisionTokenProduction (Some (env_text p ''PGOS_PROVISION_TOKEN'')) (env_text p ''SANDBOX_INTERNAL_TOKEN'') = []"
    "validateProvisionMtlsProduction (Some (env_text p ''PGOS_PROVISION_MTLS_CERT'')) (Some (env_text p ''PGOS_PROVISION_MTLS_KEY'')) = []"
  using assms unfolding production_errors_def append_is_Nil_conv by (simp_all split: if_splits)

lemma provision_token_ok:
  assumes "validateProvisionTokenProduction (Some t) sandbox = []"
  shows "16 \<le> length (js_trim t)" "js_trim t \<noteq> js_trim sandbox" "js_trim t \<noteq> DEV_SANDBOX_TOKEN"
    "js_trim t \<noteq> INSECURE_PROVISION_DEFAULT"
  using assms by (auto simp: validateProvisionTokenProduction_def or_default_def Let_def split: if_splits)

lemma bearer_dedicated:
  assumes "js_trim (env_text p ''PGOS_PROVISION_TOKEN'') \<noteq> []"
  shows "resolveProvisionBearerToken p = \<lparr>bt_token = js_trim (env_text p ''PGOS_PROVISION_TOKEN''), bt_usedFallback = False\<rparr>"
  using assms by (simp add: resolveProvisionBearerToken_def Let_def)

lemma production_keys:
  "ae_production e \<Longrightarrow> getKeys x e \<noteq> Ret (HS256 k)"
  by (simp add: getKeys_def Let_def)


text \<open>
  The cache undoes the gate: when the first call refuses a configuration for production, every
  later call returns just that configuration.
\<close>

theorem refused_config_cached:
  assumes "getEnv email v None = (Throw er, Some p)"
  shows "production_errors v False p \<noteq> [] \<and> getEnv email v (Some p) = (Ret p, Some p)"
  using assms by (auto simp: getEnv_def validateProductionEnv_def Let_def split: option.splits outcome.splits if_splits)

text \<open>
  The default of the bootstrap address, which \<open>.env.example\<close> repeats, is no address for the schema when its
  check wants a dot in the domain: then nothing can be configured without setting another one.
\<close>

theorem default_address_rejected:
  assumes "\<not> email ''admin@localhost''" "v ''BOOTSTRAP_ADMIN_EMAIL'' = None \<or> v ''BOOTSTRAP_ADMIN_EMAIL'' = Some ''admin@localhost''"
  shows "getEnv email v None = (Throw (system_error ''Invalid environment configuration''), None)"
proof -
  have "(''BOOTSTRAP_ADMIN_EMAIL'', Email ''admin@localhost'') \<in> set envSchema" by (simp add: envSchema_def)
  moreover have "parse_field email v (Email ''admin@localhost'') (v ''BOOTSTRAP_ADMIN_EMAIL'') = None"
    using assms by (auto simp: or_default_def)
  ultimately have "\<not> list_all (\<lambda>(k, r). r \<noteq> None) (map (\<lambda>(k, kind). (k, parse_field email v kind (v k))) envSchema)"
    unfolding list_all_iff by (force simp: image_iff)
  then have "parse_env email v = None" by (simp add: parse_env_def Let_def del: not_None_eq)
  then show ?thesis by (simp add: getEnv_def)
qed

section \<open>Instances\<close>

definition production_os_env :: os_env where
  "production_os_env =
     [''NODE_ENV'' \<mapsto> ''production'', ''JWT_PRIVATE_KEY'' \<mapsto> ''pem'', ''JWT_PUBLIC_KEY'' \<mapsto> ''pem'',
      ''JWE_SECRET'' \<mapsto> ''0123456789abcdef0123456789abcdef'', ''SANDBOX_INTERNAL_TOKEN'' \<mapsto> ''sandbox-1'',
      ''PGOS_PROVISION_TOKEN'' \<mapsto> ''provision-0123456789'', ''PGOS_SERVICE_TOKEN'' \<mapsto> ''service-0123456789'',
      ''GITHUB_APP_ID'' \<mapsto> ''1'', ''GITHUB_APP_PRIVATE_KEY'' \<mapsto> ''pem'', ''GITHUB_APP_INSTALLATION_ID'' \<mapsto> ''2'',
      ''GITHUB_OWNER'' \<mapsto> ''o'', ''GITHUB_REPO'' \<mapsto> ''r'', ''S3_ACCESS_KEY_ID'' \<mapsto> ''id'',
      ''S3_SECRET_ACCESS_KEY'' \<mapsto> ''key'', ''BOOTSTRAP_ADMIN_EMAIL'' \<mapsto> ''admin@example.org'']"

lemma production_env_parsed:
  obtains p where "getEnv (\<lambda>m. CHR ''.'' \<in> set m) production_os_env None = (Ret p, Some p)"
    "env_text p ''NODE_ENV'' = ''production''"
proof -
  have "(case getEnv (\<lambda>m. CHR ''.'' \<in> set m) production_os_env None of
      (Ret p, c) \<Rightarrow> env_text p ''NODE_ENV'' = ''production'' | _ \<Rightarrow> False)" by code_simp
  then obtain p c where g: "getEnv (\<lambda>m. CHR ''.'' \<in> set m) production_os_env None = (Ret p, c)"
    "env_text p ''NODE_ENV'' = ''production''"
    by (auto split: prod.splits outcome.splits)
  then have "c = Some p" by (auto simp: getEnv_def split: option.splits outcome.splits)
  with g that show ?thesis by blast
qed


definition weak_os_env :: os_env where
  "weak_os_env = production_os_env(''JWE_SECRET'' := None)"

theorem refused_config_cached_witness:
  "\<exists>er p. getEnv (\<lambda>m. CHR ''.'' \<in> set m) weak_os_env None = (Throw er, Some p)
     \<and> getEnv (\<lambda>m. CHR ''.'' \<in> set m) weak_os_env (Some p) = (Ret p, Some p)"
proof -
  have "(case getEnv (\<lambda>m. CHR ''.'' \<in> set m) weak_os_env None of (Throw er, Some p) \<Rightarrow> True | _ \<Rightarrow> False)" by code_simp
  then obtain er p where g: "getEnv (\<lambda>m. CHR ''.'' \<in> set m) weak_os_env None = (Throw er, Some p)"
    by (auto split: prod.splits outcome.splits option.splits)
  from refused_config_cached [OF g] g show ?thesis by blast
qed

section \<open>Keys for the target\<close>

lemma b64_char_no_space: "b64_char n \<noteq> CHR '' ''" if "n < 64"
  using that b64_value_char [of n] by (auto simp: b64_value_def code_def)

lemma base64_no_space: "CHR '' '' \<notin> set (base64 s)"
proof (induction s rule: base64.induct)
  case (2 a)
  from digit_bounds [of "code a" 0 0] show ?case by (simp add: Let_def b64_char_no_space [symmetric])
next
  case (3 a b)
  from digit_bounds [of "code a" "code b" 0] show ?case by (simp add: Let_def split_two b64_char_no_space [symmetric])
next
  case (4 a b c cs)
  with digit_bounds [of "code a" "code b" "code c"] show ?case
    by (simp add: Let_def split_bytes b64_char_no_space [symmetric])
qed simp

text \<open>
  The line that the orchestrator sends for \<open>authorized_keys\<close> is read back by an SSH server as
  the public key it was made from.
\<close>

theorem openssh_key_read_back:
  assumes "length key32 < 2 ^ 32"
  shows "read_authorized_key (encodeOpenSSHEd25519 key32) = Some key32"
proof -
  let ?b = "base64 (wire_string ''ssh-ed25519'' @ wire_string key32)"
  have "split_on (CHR '' '') (encodeOpenSSHEd25519 key32) = [''ssh-ed25519'', ?b, ''pgos-ephemeral'']"
    using split_on_join [of "[''ssh-ed25519'', ?b, ''pgos-ephemeral'']" "CHR '' ''"] base64_no_space
    by (simp add: encodeOpenSSHEd25519_def)
  moreover have "read_string (wire_string ''ssh-ed25519'' @ wire_string key32) = Some (''ssh-ed25519'', wire_string key32)"
    by (rule read_wire_string) simp
  moreover have "read_string (wire_string key32) = Some (key32, [])" using read_wire_string [OF assms, of "[]"] by simp
  ultimately show ?thesis by (simp add: read_authorized_key_def unbase64_base64)
qed

theorem openssh_key_read_back_witness:
  "read_authorized_key (encodeOpenSSHEd25519 (replicate 32 (CHR ''k''))) = Some (replicate 32 (CHR ''k''))"
  by (rule openssh_key_read_back) simp

section \<open>Where the provisioner's client differs from what it is meant to do\<close>

text \<open>
  Over \<open>http:\<close> no client certificate is used, while the audit says that mTLS was; a rotation whose certificate
  cannot be loaded is sent without one, and is audited as done whatever the target answers.
\<close>

theorem plain_http_drops_certificate:
  assumes "loadProvisionMtlsMaterial (pe_file x) (resolveProvisionMtlsPaths p (po_mtls r)) = Ret (Some m)"
    "pe_protocol x (po_targetProvisionUrl r) = Some ''http:''"
    "pe_post x (nonce (ps_world s)) \<lparr>hp_url = po_targetProvisionUrl r, hp_body = provision_payload r,
       hp_headers = [(''Content-Type'', ''application/json''), (''Authorization'', ''Bearer '' @ bt_token (resolveProvisionBearerToken p)),
                     (''Content-Length'', show_nat (length (provision_payload r)))], hp_clientCert = None\<rparr> = Ret (200, [])"
  shows "\<exists>q en. ps_posts (snd (provisionPublicKey x p r s)) = q # ps_posts s \<and> hp_clientCert q = None
    \<and> audit_log (ps_world (snd (provisionPublicKey x p r s))) = en # audit_log (ps_world s)
    \<and> (''mtls'', JBool True) \<in> set (au_detail en)"
  using assms
  by (simp add: provisionPublicKey_def provisionHttpPost_def http_send_def draw_def Let_def ps_audit_def audit_def
      provision_audit_def provision_detail_def audit_entry_def answer_member_def)

theorem rotation_without_certificate:
  assumes "loadProvisionMtlsMaterial (pe_file x) (resolveProvisionMtlsPaths p \<lparr>mo_mtlsCert = None, mo_mtlsKey = None, mo_mtlsCa = None\<rparr>) = Throw er"
    "\<forall>n q. pe_post x n q = Ret (500, [])"
  shows "fst (rotateAgentSecrets x p url s) = Ret ()"
    "map hp_clientCert (ps_posts (snd (rotateAgentSecrets x p url s))) = None # map hp_clientCert (ps_posts s)"
  using assms
  by (simp_all add: rotateAgentSecrets_def rotate_mtls_def provisionHttpPost_def http_send_def draw_def Let_def ps_audit_def)

end
