(* ===== verification/Uri.thy ===== *)
theory Uri
  imports Base64
begin

text \<open>
  \<open>encodeURIComponent\<close> and \<open>decodeURIComponent\<close>. A character is a code unit below 256 and is encoded as one or
  two bytes of UTF-8; \<open>None\<close> is the \<open>URIError\<close> of a malformed text, and stands also for a text that decodes
  to a character above 255.
\<close>

definition hex_upper :: "nat \<Rightarrow> char" where
  "hex_upper n = (if n < 10 then char_of (48 + n) else char_of (55 + n))"

definition hex_value :: "char \<Rightarrow> nat option" where
  "hex_value c =
     (let n = code c in
      if 48 \<le> n \<and> n \<le> 57 then Some (n - 48) else if 65 \<le> n \<and> n \<le> 70 then Some (n - 55)
      else if 97 \<le> n \<and> n \<le> 102 then Some (n - 87) else None)"

definition percent_byte :: "nat \<Rightarrow> string" where
  "percent_byte n = [CHR ''%'', hex_upper (n div 16), hex_upper (n mod 16)]"

definition unreserved :: "char \<Rightarrow> bool" where
  "unreserved c = (is_alpha c \<or> is_digit c \<or> c \<in> set ''-_.!~*'()'')"

definition encode_char :: "char \<Rightarrow> string" where
  "encode_char c =
     (let n = code c in
      if unreserved c then [c]
      else if n < 128 then percent_byte n
      else percent_byte (192 + n div 64) @ percent_byte (128 + n mod 64))"

definition encodeURIComponent :: "string \<Rightarrow> string" where
  "encodeURIComponent s = concat (map encode_char s)"

definition byte_at :: "string \<Rightarrow> nat option" where
  "byte_at s =
     (case s of a # b # _ \<Rightarrow>
        (case (hex_value a, hex_value b) of (Some x, Some y) \<Rightarrow> Some (16 * x + y) | _ \<Rightarrow> None)
      | _ \<Rightarrow> None)"

function decodeURIComponent :: "string \<Rightarrow> string option" where
  "decodeURIComponent [] = Some []"
| "decodeURIComponent (c # r) =
     (if c \<noteq> CHR ''%'' then map_option (Cons c) (decodeURIComponent r)
      else case byte_at r of
             None \<Rightarrow> None
           | Some n \<Rightarrow>
               if n < 128 then map_option (Cons (char_of n)) (decodeURIComponent (drop 2 r))
               else if n \<noteq> 194 \<and> n \<noteq> 195 \<or> take 1 (drop 2 r) \<noteq> ''%'' then None
               else (case byte_at (drop 3 r) of
                       None \<Rightarrow> None
                     | Some m \<Rightarrow>
                         if m < 128 \<or> 192 \<le> m then None
                         else map_option (Cons (char_of ((n - 192) * 64 + (m - 128)))) (decodeURIComponent (drop 5 r))))"
  by pat_completeness auto
termination by (relation "measure length") auto

lemma hex_value_upper: "n < 16 \<Longrightarrow> hex_value (hex_upper n) = Some n"
  by (auto simp: hex_value_def hex_upper_def code_char_mod Let_def)

lemma byte_at_percent: "n < 256 \<Longrightarrow> byte_at (hex_upper (n div 16) # hex_upper (n mod 16) # s) = Some n"
  by (simp add: byte_at_def hex_value_upper less_mult_imp_div_less)

lemma decode_plain: "c \<noteq> CHR ''%'' \<Longrightarrow> decodeURIComponent (c # r) = map_option (Cons c) (decodeURIComponent r)"
  by simp

lemma unreserved_not_percent: "unreserved c \<Longrightarrow> c \<noteq> CHR ''%''"
  by (auto simp: unreserved_def is_alpha_def is_digit_def code_def)

lemma decode_two_bytes:
  assumes "byte_at t = Some n" "n = 194 \<or> n = 195" "take 1 (drop 2 t) = ''%''" "byte_at (drop 3 t) = Some m"
    "128 \<le> m" "m < 192"
  shows "decodeURIComponent (CHR ''%'' # t)
    = map_option (Cons (char_of ((n - 192) * 64 + (m - 128)))) (decodeURIComponent (drop 5 t))"
  using assms by (subst decodeURIComponent.simps) auto

declare decodeURIComponent.simps [simp del]

lemma decode_encode_char: "decodeURIComponent (encode_char c @ r) = map_option (Cons c) (decodeURIComponent r)"
proof (cases "unreserved c")
  case True
  then show ?thesis using unreserved_not_percent by (simp add: encode_char_def decode_plain)
next
  case False
  note b = byte_at_percent [simplified]
  show ?thesis
  proof (cases "code c < 128")
    case True
    with False b [of "code c"] show ?thesis by (simp add: encode_char_def percent_byte_def Let_def decodeURIComponent.simps)
  next
    case high: False
    have q: "code c div 64 = 2 \<or> code c div 64 = 3"
    proof -
      have "2 \<le> code c div 64" using high by (simp add: less_eq_div_iff_mult_less_eq)
      moreover have "code c div 64 < 4" using code_less [of c] by (simp add: less_mult_imp_div_less)
      ultimately show ?thesis by linarith
    qed
    have m: "128 + code c mod 64 < 192" by simp
    have e: "encode_char c = percent_byte (192 + code c div 64) @ percent_byte (128 + code c mod 64)"
      using False high by (simp add: encode_char_def Let_def)
    have v: "(192 + code c div 64 - 192) * 64 + (128 + code c mod 64 - 128) = code c" by simp
    have n: "192 + code c div 64 < 256" "\<not> 192 + code c div 64 < 128"
      "192 + code c div 64 = 194 \<or> 192 + code c div 64 = 195" using q by auto
    have b1: "byte_at (tl (percent_byte (192 + code c div 64)) @ s) = Some (192 + code c div 64)" for s
      using byte_at_percent [OF n(1)] by (simp add: percent_byte_def)
    have b2: "byte_at (tl (percent_byte (128 + code c mod 64)) @ s) = Some (128 + code c mod 64)" for s
      using byte_at_percent [of "128 + code c mod 64"] m by (simp add: percent_byte_def)
    let ?t = "tl (percent_byte (192 + code c div 64)) @ percent_byte (128 + code c mod 64) @ r"
    have e2: "encode_char c @ r = CHR ''%'' # ?t" unfolding e by (simp add: percent_byte_def)
    have d: "drop 2 ?t = CHR ''%'' # tl (percent_byte (128 + code c mod 64)) @ r"
      "drop 3 ?t = tl (percent_byte (128 + code c mod 64)) @ r" "drop 5 ?t = r"
      by (simp_all add: percent_byte_def)
    have "decodeURIComponent (CHR ''%'' # ?t)
        = map_option (Cons (char_of ((192 + code c div 64 - 192) * 64 + (128 + code c mod 64 - 128)))) (decodeURIComponent (drop 5 ?t))"
    proof (rule decode_two_bytes)
      show "byte_at ?t = Some (192 + code c div 64)" by (rule b1)
      show "192 + code c div 64 = 194 \<or> 192 + code c div 64 = 195" by (rule n(3))
      show "take 1 (drop 2 ?t) = ''%''" unfolding d(1) by simp
      show "byte_at (drop 3 ?t) = Some (128 + code c mod 64)" unfolding d(2) by (rule b2)
    qed (use m in simp_all)
    then show ?thesis unfolding e2 v d(3) char_code .
  qed
qed

lemma decode_encode: "decodeURIComponent (encodeURIComponent s) = Some s"
proof (induction s)
  case (Cons c s)
  then show ?case by (simp add: encodeURIComponent_def decode_encode_char)
qed (simp add: encodeURIComponent_def decodeURIComponent.simps)

end
