(* ===== verification/Smtp.thy ===== *)
theory Smtp
  imports Uri Config
begin

text \<open>
  The mail client of the alerts, \<open>services/smtp-client.ts\<close>. A server answers what was written so far with
  events of the socket, chunks of text or an error, which wait until the client listens. A line is looked for
  only when a chunk arrives, so the lines that a chunk leaves behind are found with a later one; a client that
  waits for an event that never comes is stuck, as there is no time limit. \<open>new URL\<close> is a parameter.
\<close>

section \<open>The session\<close>

datatype smtp_event = Chunk string | SocketError string

datatype 'a smtp = Done 'a | Failed string | Stuck

record smtp_state =
  sm_buffer :: string
  sm_queue :: "smtp_event list"
  sm_written :: "string list"
  sm_tls :: bool

type_synonym smtp_server = "bool \<Rightarrow> string list \<Rightarrow> smtp_event list"

definition CRLF :: string where
  "CRLF = [CHR 0x0D, CHR 0x0A]"

definition smtp_write :: "smtp_server \<Rightarrow> string \<Rightarrow> smtp_state \<Rightarrow> smtp_state" where
  "smtp_write sv d s =
     (let w = d # sm_written s in s\<lparr>sm_written := w, sm_queue := sm_queue s @ sv (sm_tls s) w\<rparr>)"

text \<open>The text before the first line end and the text after it.\<close>

fun cut_line :: "string \<Rightarrow> (string \<times> string) option" where
  "cut_line [] = None"
| "cut_line (c # cs) =
     (if prefix CRLF (c # cs) then Some ([], drop 2 (c # cs))
      else map_option (\<lambda>(l, r). (c # l, r)) (cut_line cs))"

fun read_events :: "string \<Rightarrow> smtp_event list \<Rightarrow> (string \<times> string \<times> smtp_event list) smtp" where
  "read_events b [] = Stuck"
| "read_events b (SocketError m # q) = Failed m"
| "read_events b (Chunk t # q) =
     (case cut_line (b @ t) of Some (l, r) \<Rightarrow> Done (l, r, q) | None \<Rightarrow> read_events (b @ t) q)"

definition readLine :: "smtp_state \<Rightarrow> string smtp \<times> smtp_state" where
  "readLine s =
     (case read_events (sm_buffer s) (sm_queue s) of
        Done (l, b, q) \<Rightarrow> (Done l, s\<lparr>sm_buffer := b, sm_queue := q\<rparr>)
      | Failed m \<Rightarrow> (Failed m, s)
      | Stuck \<Rightarrow> (Stuck, s))"

definition expect :: "nat \<Rightarrow> smtp_state \<Rightarrow> unit smtp \<times> smtp_state" where
  "expect expectCode s =
     (case readLine s of
        (Done line, s1) \<Rightarrow>
          (if js_Number_text (take 3 line) \<noteq> Num (of_nat expectCode)
           then Failed (''SMTP expected '' @ show_nat expectCode @ '', got '' @ line) else Done (), s1)
      | (Failed m, s1) \<Rightarrow> (Failed m, s1)
      | (Stuck, s1) \<Rightarrow> (Stuck, s1))"

definition smtp_cmd :: "smtp_server \<Rightarrow> string \<Rightarrow> nat \<Rightarrow> smtp_state \<Rightarrow> unit smtp \<times> smtp_state" where
  "smtp_cmd sv line expectCode s = expect expectCode (smtp_write sv (line @ CRLF) s)"

text \<open>Steps one after the other, up to the first that does not get through.\<close>

definition andthen :: "unit smtp \<times> smtp_state \<Rightarrow> (smtp_state \<Rightarrow> unit smtp \<times> smtp_state) \<Rightarrow> unit smtp \<times> smtp_state" where
  "andthen r k = (case r of (Done _, s) \<Rightarrow> k s | (e, s) \<Rightarrow> (e, s))"

fun smtp_cmds :: "smtp_server \<Rightarrow> (string \<times> nat) list \<Rightarrow> smtp_state \<Rightarrow> unit smtp \<times> smtp_state" where
  "smtp_cmds sv [] s = (Done (), s)"
| "smtp_cmds sv ((l, n) # cs) s = andthen (smtp_cmd sv l n s) (smtp_cmds sv cs)"

section \<open>Sending a mail\<close>

text \<open>The parts of a parsed URL, as \<open>new URL\<close> gives them: user and password are percent-encoded.\<close>

record SmtpUrl =
  ur_protocol :: string
  ur_hostname :: string
  ur_port :: string
  ur_username :: string
  ur_password :: string

record SmtpMail =
  sd_from :: string
  sd_to :: "string list"
  sd_cc :: "string list"
  sd_subject :: string
  sd_text :: string

definition asList :: "string list \<Rightarrow> string list" where
  "asList v = filter (\<lambda>t. t \<noteq> []) (map js_trim v)"

definition smtp_port :: "SmtpUrl \<Rightarrow> js_num" where
  "smtp_port u =
     (if ur_port u \<noteq> [] then js_Number_text (ur_port u) else if ur_protocol u = ''smtps:'' then Num 465 else Num 587)"

definition use_tls :: "SmtpUrl \<Rightarrow> bool" where
  "use_tls u = (ur_protocol u = ''smtps:'' \<or> smtp_port u = Num 465)"

definition envelope_to :: "SmtpMail \<Rightarrow> string list" where
  "envelope_to m = (if asList (sd_to m) \<noteq> [] then asList (sd_to m) else asList (sd_cc m))"

definition envelope_cc :: "SmtpMail \<Rightarrow> string list" where
  "envelope_cc m = (if asList (sd_to m) \<noteq> [] then asList (sd_cc m) else [])"

definition mail_payload :: "SmtpMail \<Rightarrow> string" where
  "mail_payload m =
     join CRLF ([''From: '' @ sd_from m, ''To: '' @ join '', '' (envelope_to m)] @
       (if envelope_cc m \<noteq> [] then [''Cc: '' @ join '', '' (envelope_cc m)] else []) @
       [''Subject: '' @ sd_subject m, ''Content-Type: text/plain; charset=utf-8'', [], sd_text m])"

definition start_tls :: "smtp_server \<Rightarrow> SmtpUrl \<Rightarrow> smtp_state \<Rightarrow> unit smtp \<times> smtp_state" where
  "start_tls sv u s =
     (if \<not> use_tls u \<and> smtp_port u = Num 587
      then andthen (smtp_cmd sv ''STARTTLS'' 220 s)
             (\<lambda>t. smtp_cmd sv (''EHLO '' @ ur_hostname u) 250 (t\<lparr>sm_tls := True\<rparr>))
      else (Done (), s))"

definition smtp_login :: "smtp_server \<Rightarrow> string \<Rightarrow> string \<Rightarrow> smtp_state \<Rightarrow> unit smtp \<times> smtp_state" where
  "smtp_login sv user pass s =
     (if user \<noteq> [] \<and> pass \<noteq> []
      then smtp_cmds sv [(''AUTH LOGIN'', 334), (base64 user, 334), (base64 pass, 235)] s
      else (Done (), s))"

definition smtp_message :: "smtp_server \<Rightarrow> SmtpMail \<Rightarrow> smtp_state \<Rightarrow> unit smtp \<times> smtp_state" where
  "smtp_message sv m s =
     andthen (smtp_cmds sv ((''MAIL FROM:<'' @ sd_from m @ ''>'', 250) #
                map (\<lambda>r. (''RCPT TO:<'' @ r @ ''>'', 250)) (envelope_to m @ envelope_cc m) @ [(''DATA'', 354)]) s)
       (\<lambda>t. andthen (expect 250 (smtp_write sv (mail_payload m @ CRLF @ ''.'' @ CRLF) t))
              (smtp_cmd sv ''QUIT'' 221))"

definition smtp_dialog :: "smtp_server \<Rightarrow> SmtpUrl \<Rightarrow> string \<Rightarrow> string \<Rightarrow> SmtpMail \<Rightarrow> smtp_state \<Rightarrow> unit smtp \<times> smtp_state" where
  "smtp_dialog sv u user pass m s =
     andthen (andthen (andthen (andthen (expect 220 s)
       (smtp_cmd sv (''EHLO '' @ ur_hostname u) 250))
       (start_tls sv u))
       (smtp_login sv user pass))
       (smtp_message sv m)"

text \<open>The credentials are in UTF-8, one byte a character, which holds for credentials in ASCII.\<close>

definition sendSmtpMail :: "smtp_server \<Rightarrow> (string \<Rightarrow> SmtpUrl option) \<Rightarrow> string \<Rightarrow> SmtpMail \<Rightarrow> unit smtp \<times> string list" where
  "sendSmtpMail sv parse smtpUrl m =
     (case parse smtpUrl of
        None \<Rightarrow> (Failed ''Invalid URL'', [])
      | Some u \<Rightarrow>
          (case (decodeURIComponent (ur_username u), decodeURIComponent (ur_password u)) of
             (Some user, Some pass) \<Rightarrow>
               if asList (sd_to m) = [] \<and> asList (sd_cc m) = []
               then (Failed ''sendSmtpMail: at least one recipient required'', [])
               else (case smtp_dialog sv u user pass m
                            \<lparr>sm_buffer = [], sm_queue = sv (use_tls u) [], sm_written = [], sm_tls = use_tls u\<rparr> of
                       (r, s) \<Rightarrow> (r, rev (sm_written s)))
           | _ \<Rightarrow> (Failed ''URI malformed'', [])))"

end
