(* ===== verification/Smtp_Claims.thy ===== *)
theory Smtp_Claims
  imports Smtp
begin

text \<open>
  The mail client against servers: one that answers every command with a single line gets the whole dialog
  and every recipient, one that answers the greeting of the client with several lines, as servers do, makes
  the authentication fail.
\<close>

section \<open>Reading lines\<close>

lemma cut_line_at: "CHR 0x0D \<notin> set l \<Longrightarrow> cut_line (l @ CRLF @ r) = Some (l, r)"
proof (induction l)
  case Nil
  then show ?case by (simp add: CRLF_def)
next
  case (Cons c l)
  then have "\<not> prefix CRLF (c # l @ CRLF @ r)" by (simp add: CRLF_def)
  with Cons show ?case by simp
qed

definition fresh_line :: "string list \<Rightarrow> smtp_state \<Rightarrow> bool" where
  "fresh_line w s \<longleftrightarrow> sm_buffer s = [] \<and> sm_queue s = [] \<and> sm_written s = w"

definition line_of :: "nat \<Rightarrow> string \<Rightarrow> bool" where
  "line_of n l \<longleftrightarrow> CHR 0x0D \<notin> set l \<and> js_Number_text (take 3 l) = Num (of_nat n)"

lemma expect_line:
  assumes "line_of n l" "sm_buffer s = []" "sm_queue s = [Chunk (l @ CRLF)]"
  shows "expect n s = (Done (), s\<lparr>sm_queue := []\<rparr>)"
proof -
  have "cut_line (l @ CRLF) = Some (l, [])" using cut_line_at [of l "[]"] assms(1) by (simp add: line_of_def)
  with assms show ?thesis by (simp add: expect_def readLine_def line_of_def)
qed

text \<open>The server answers each write with one line of the expected code.\<close>

fun answered :: "smtp_server \<Rightarrow> string list \<Rightarrow> (string \<times> nat) list \<Rightarrow> bool" where
  "answered sv w [] = True"
| "answered sv w ((d, n) # ds) =
     ((\<exists>l. line_of n l \<and> (\<forall>tls. sv tls (d # w) = [Chunk (l @ CRLF)])) \<and> answered sv (d # w) ds)"

lemma answered_append: "answered sv w (a @ b) \<longleftrightarrow> answered sv w a \<and> answered sv (rev (map fst a) @ w) b"
  by (induction sv w a rule: answered.induct) auto

lemma answered_tail: "answered sv w ((d, n) # ds) \<Longrightarrow> answered sv (d # w) ds"
  by simp

lemma write_answered:
  assumes "answered sv w ((d, n) # ds)" "fresh_line w s"
  shows "\<exists>t. expect n (smtp_write sv d s) = (Done (), t) \<and> fresh_line (d # w) t"
proof -
  obtain l where l: "line_of n l" "\<And>tls. sv tls (d # w) = [Chunk (l @ CRLF)]" using assms(1) by auto
  from assms(2) l(2) have "sm_buffer (smtp_write sv d s) = []" "sm_queue (smtp_write sv d s) = [Chunk (l @ CRLF)]"
    by (simp_all add: fresh_line_def smtp_write_def Let_def)
  from expect_line [OF l(1) this] assms(2) show ?thesis by (simp add: fresh_line_def smtp_write_def Let_def)
qed

lemma cmd_answered:
  assumes "answered sv w ((l @ CRLF, n) # ds)" "fresh_line w s"
  obtains t where "smtp_cmd sv l n s = (Done (), t)" "fresh_line ((l @ CRLF) # w) t" "answered sv ((l @ CRLF) # w) ds"
  using write_answered [OF assms] assms(1) unfolding smtp_cmd_def by (blast dest: answered_tail)

definition sent_lines :: "(string \<times> nat) list \<Rightarrow> (string \<times> nat) list" where
  "sent_lines cs = map (\<lambda>(l, n). (l @ CRLF, n)) cs"

lemma sent_lines_Cons [simp]: "sent_lines ((l, n) # cs) = (l @ CRLF, n) # sent_lines cs" "sent_lines [] = []"
  by (simp_all add: sent_lines_def)

lemma cmds_answered:
  assumes "answered sv w (sent_lines cs)" "fresh_line w s"
  shows "\<exists>t. smtp_cmds sv cs s = (Done (), t) \<and> fresh_line (rev (map fst (sent_lines cs)) @ w) t"
  using assms
proof (induction cs arbitrary: w s)
  case (Cons c cs)
  obtain l n where c: "c = (l, n)" by force
  from Cons.prems(1) have a: "answered sv w ((l @ CRLF, n) # sent_lines cs)" by (simp only: c sent_lines_Cons)
  obtain t where t: "smtp_cmd sv l n s = (Done (), t)" "fresh_line ((l @ CRLF) # w) t"
    "answered sv ((l @ CRLF) # w) (sent_lines cs)" by (rule cmd_answered [OF a Cons.prems(2)])
  from Cons.IH [OF t(3,2)] show ?case by (simp add: c t(1) andthen_def)
qed simp

section \<open>A whole mail\<close>

definition mail_steps :: "SmtpUrl \<Rightarrow> string \<Rightarrow> string \<Rightarrow> SmtpMail \<Rightarrow> (string \<times> nat) list" where
  "mail_steps u user pass m =
     sent_lines ((''EHLO '' @ ur_hostname u, 250) #
       (if \<not> use_tls u \<and> smtp_port u = Num 587 then [(''STARTTLS'', 220), (''EHLO '' @ ur_hostname u, 250)] else []) @
       (if user \<noteq> [] \<and> pass \<noteq> [] then [(''AUTH LOGIN'', 334), (base64 user, 334), (base64 pass, 235)] else []) @
       (''MAIL FROM:<'' @ sd_from m @ ''>'', 250) #
       map (\<lambda>r. (''RCPT TO:<'' @ r @ ''>'', 250)) (envelope_to m @ envelope_cc m) @ [(''DATA'', 354)]) @
     [(mail_payload m @ CRLF @ ''.'' @ CRLF, 250), (''QUIT'' @ CRLF, 221)]"

lemma andthen_done: "r = (Done (), t) \<Longrightarrow> andthen r k = k t"
  by (simp add: andthen_def)

lemma sent_lines_append: "sent_lines (a @ b) = sent_lines a @ sent_lines b"
  by (simp add: sent_lines_def)

lemma start_tls_answered:
  assumes "answered sv w (sent_lines (if \<not> use_tls u \<and> smtp_port u = Num 587
      then [(''STARTTLS'', 220), (''EHLO '' @ ur_hostname u, 250)] else []))" (is "answered sv w (sent_lines ?cs)")
    "fresh_line w s"
  shows "\<exists>t. start_tls sv u s = (Done (), t) \<and> fresh_line (rev (map fst (sent_lines ?cs)) @ w) t"
proof (cases "\<not> use_tls u \<and> smtp_port u = Num 587")
  case True
  with assms have a: "answered sv w [(''STARTTLS'' @ CRLF, 220), ((''EHLO '' @ ur_hostname u) @ CRLF, 250)]" by simp
  obtain t where t: "smtp_cmd sv ''STARTTLS'' 220 s = (Done (), t)" "fresh_line ((''STARTTLS'' @ CRLF) # w) t"
    "answered sv ((''STARTTLS'' @ CRLF) # w) [((''EHLO '' @ ur_hostname u) @ CRLF, 250)]"
    by (rule cmd_answered [OF a assms(2)])
  from t(2) have f: "fresh_line ((''STARTTLS'' @ CRLF) # w) (t\<lparr>sm_tls := True\<rparr>)" by (simp add: fresh_line_def)
  obtain v where v: "smtp_cmd sv (''EHLO '' @ ur_hostname u) 250 (t\<lparr>sm_tls := True\<rparr>) = (Done (), v)"
      "fresh_line (((''EHLO '' @ ur_hostname u) @ CRLF) # (''STARTTLS'' @ CRLF) # w) v"
    by (rule cmd_answered [OF t(3) f])
  have "start_tls sv u s = (Done (), v)" using True v(1) by (simp add: start_tls_def andthen_done [OF t(1)])
  with True v(2) show ?thesis by simp
next
  case False
  with assms(2) show ?thesis by (auto simp: start_tls_def)
qed

lemma login_answered:
  assumes "answered sv w (sent_lines (if user \<noteq> [] \<and> pass \<noteq> []
      then [(''AUTH LOGIN'', 334), (base64 user, 334), (base64 pass, 235)] else []))" (is "answered sv w (sent_lines ?cs)")
    "fresh_line w s"
  shows "\<exists>t. smtp_login sv user pass s = (Done (), t) \<and> fresh_line (rev (map fst (sent_lines ?cs)) @ w) t"
proof (cases "user \<noteq> [] \<and> pass \<noteq> []")
  case True
  with cmds_answered [OF assms] show ?thesis by (simp only: smtp_login_def if_True simp_thms)
next
  case False
  with assms(2) show ?thesis by (auto simp: smtp_login_def)
qed

lemma message_answered:
  assumes "answered sv w (sent_lines ((''MAIL FROM:<'' @ sd_from m @ ''>'', 250) #
       map (\<lambda>r. (''RCPT TO:<'' @ r @ ''>'', 250)) (envelope_to m @ envelope_cc m) @ [(''DATA'', 354)]) @
     [(mail_payload m @ CRLF @ ''.'' @ CRLF, 250), (''QUIT'' @ CRLF, 221)])" (is "answered sv w (sent_lines ?cs @ ?ds)")
    "fresh_line w s"
  shows "\<exists>t. smtp_message sv m s = (Done (), t) \<and> fresh_line (rev (map fst (sent_lines ?cs @ ?ds)) @ w) t"
proof -
  from assms(1) have a: "answered sv w (sent_lines ?cs)" "answered sv (rev (map fst (sent_lines ?cs)) @ w) ?ds"
    by (simp_all only: answered_append)
  obtain t where t: "smtp_cmds sv ?cs s = (Done (), t)" "fresh_line (rev (map fst (sent_lines ?cs)) @ w) t"
    using cmds_answered [OF a(1) assms(2)] by blast
  obtain v where v: "expect 250 (smtp_write sv (mail_payload m @ CRLF @ ''.'' @ CRLF) t) = (Done (), v)"
    "fresh_line ((mail_payload m @ CRLF @ ''.'' @ CRLF) # rev (map fst (sent_lines ?cs)) @ w) v"
    using write_answered [OF a(2) t(2)] by blast
  note last = answered_tail [OF a(2)]
  obtain q where q: "smtp_cmd sv ''QUIT'' 221 v = (Done (), q)"
    "fresh_line ((''QUIT'' @ CRLF) # (mail_payload m @ CRLF @ ''.'' @ CRLF) # rev (map fst (sent_lines ?cs)) @ w) q"
    by (rule cmd_answered [OF last v(2)])
  have "smtp_message sv m s = (Done (), q)"
    unfolding smtp_message_def andthen_done [OF t(1)] andthen_done [OF v(1)] q(1) ..
  moreover have "rev (map fst (sent_lines ?cs @ ?ds)) @ w
      = (''QUIT'' @ CRLF) # (mail_payload m @ CRLF @ ''.'' @ CRLF) # rev (map fst (sent_lines ?cs)) @ w" by simp
  ultimately show ?thesis using q(2) by (simp only:) blast
qed

text \<open>
  C39 (functional). Against a server that answers every command with one line of the expected code, a mail
  with a recipient gets through the whole dialog: the server is told the sender and every recipient of the
  mail, then its text, and the connection ends with \<open>QUIT\<close>.
\<close>

theorem mail_delivered:
  assumes url: "parse smtpUrl = Some u" "decodeURIComponent (ur_username u) = Some user"
      "decodeURIComponent (ur_password u) = Some pass"
    and rcpt: "asList (sd_to m) \<noteq> [] \<or> asList (sd_cc m) \<noteq> []"
    and greeting: "line_of 220 g" "sv (use_tls u) [] = [Chunk (g @ CRLF)]"
    and answers: "answered sv [] (mail_steps u user pass m)"
  shows "sendSmtpMail sv parse smtpUrl m = (Done (), map fst (mail_steps u user pass m))"
proof -
  let ?s = "\<lparr>sm_buffer = [], sm_queue = sv (use_tls u) [], sm_written = [], sm_tls = use_tls u\<rparr>"
  let ?ehlo = "[(''EHLO '' @ ur_hostname u, 250)]"
  let ?tls = "if \<not> use_tls u \<and> smtp_port u = Num 587 then [(''STARTTLS'', 220), (''EHLO '' @ ur_hostname u, 250)] else []"
  let ?login = "if user \<noteq> [] \<and> pass \<noteq> [] then [(''AUTH LOGIN'', 334), (base64 user, 334), (base64 pass, 235)] else []"
  let ?msg = "sent_lines ((''MAIL FROM:<'' @ sd_from m @ ''>'', 250) #
       map (\<lambda>r. (''RCPT TO:<'' @ r @ ''>'', 250)) (envelope_to m @ envelope_cc m) @ [(''DATA'', 354)]) @
     [(mail_payload m @ CRLF @ ''.'' @ CRLF, 250), (''QUIT'' @ CRLF, 221)]"
  have steps: "mail_steps u user pass m = sent_lines ?ehlo @ sent_lines ?tls @ sent_lines ?login @ ?msg"
    by (simp only: mail_steps_def sent_lines_append sent_lines_Cons append_Cons append_Nil append_assoc)
  have a: "answered sv [] (sent_lines ?ehlo)" "answered sv (rev (map fst (sent_lines ?ehlo)) @ []) (sent_lines ?tls)"
    "answered sv (rev (map fst (sent_lines ?tls)) @ rev (map fst (sent_lines ?ehlo)) @ []) (sent_lines ?login)"
    "answered sv (rev (map fst (sent_lines ?login)) @ rev (map fst (sent_lines ?tls)) @ rev (map fst (sent_lines ?ehlo)) @ []) ?msg"
    using answers unfolding steps by (simp_all only: answered_append)
  have f: "fresh_line [] (?s\<lparr>sm_queue := []\<rparr>)" by (simp add: fresh_line_def)
  have g: "expect 220 ?s = (Done (), ?s\<lparr>sm_queue := []\<rparr>)" by (rule expect_line [OF greeting(1)]) (simp_all add: greeting)
  have e: "answered sv [] [((''EHLO '' @ ur_hostname u) @ CRLF, 250)]" using a(1) by (simp only: sent_lines_Cons)
  obtain t1 where t1: "smtp_cmd sv (''EHLO '' @ ur_hostname u) 250 (?s\<lparr>sm_queue := []\<rparr>) = (Done (), t1)"
    "fresh_line [(''EHLO '' @ ur_hostname u) @ CRLF] t1"
    by (rule cmd_answered [OF e f])
  then have f1: "fresh_line (rev (map fst (sent_lines ?ehlo)) @ []) t1" by simp
  obtain t2 where t2: "start_tls sv u t1 = (Done (), t2)" "fresh_line (rev (map fst (sent_lines ?tls)) @ rev (map fst (sent_lines ?ehlo)) @ []) t2"
    using start_tls_answered [OF a(2) f1] by blast
  obtain t3 where t3: "smtp_login sv user pass t2 = (Done (), t3)"
    "fresh_line (rev (map fst (sent_lines ?login)) @ rev (map fst (sent_lines ?tls)) @ rev (map fst (sent_lines ?ehlo)) @ []) t3"
    using login_answered [OF a(3) t2(2)] by blast
  obtain t4 where t4: "smtp_message sv m t3 = (Done (), t4)" "fresh_line (rev (map fst ?msg) @ rev (map fst (sent_lines ?login)) @
      rev (map fst (sent_lines ?tls)) @ rev (map fst (sent_lines ?ehlo)) @ []) t4"
    using message_answered [OF a(4) t3(2)] by blast
  have "smtp_dialog sv u user pass m ?s = (Done (), t4)"
    unfolding smtp_dialog_def andthen_done [OF g] andthen_done [OF t1(1)] andthen_done [OF t2(1)] andthen_done [OF t3(1)]
    by (rule t4(1))
  moreover have "rev (sm_written t4) = map fst (mail_steps u user pass m)"
    using t4(2) by (simp only: steps fresh_line_def rev_append rev_rev_ident map_append append_Nil append_assoc rev.simps)
  ultimately show ?thesis using url rcpt by (auto simp: sendSmtpMail_def)
qed

lemma show_334: "show_nat 334 = ''334''"
  by code_simp

section \<open>Servers that answer with several lines\<close>

text \<open>
  A server lists its abilities in several lines after \<open>EHLO\<close>. When they come in one chunk, the
  client takes the first line as the answer and finds the second one where the answer to \<open>AUTH LOGIN\<close> should
  be: with credentials, no mail is ever sent over such a server.
\<close>

theorem several_lines_break_login:
  assumes url: "parse smtpUrl = Some u" "decodeURIComponent (ur_username u) = Some user"
      "decodeURIComponent (ur_password u) = Some pass" "user \<noteq> []" "pass \<noteq> []" "use_tls u"
    and rcpt: "asList (sd_to m) \<noteq> [] \<or> asList (sd_cc m) \<noteq> []"
    and greeting: "line_of 220 g" "sv True [] = [Chunk (g @ CRLF)]"
    and ehlo: "sv True [''EHLO '' @ ur_hostname u @ CRLF] = [Chunk (l1 @ CRLF @ l2 @ CRLF)]" "line_of 250 l1" "line_of 250 l2"
    and auth: "sv True [''AUTH LOGIN'' @ CRLF, ''EHLO '' @ ur_hostname u @ CRLF] = [Chunk (l3 @ CRLF)]"
  shows "sendSmtpMail sv parse smtpUrl m
    = (Failed (''SMTP expected 334, got '' @ l2), [''EHLO '' @ ur_hostname u @ CRLF, ''AUTH LOGIN'' @ CRLF])"
proof -
  let ?s = "\<lparr>sm_buffer = [], sm_queue = sv (use_tls u) [], sm_written = [], sm_tls = use_tls u\<rparr>"
  let ?e = "''EHLO '' @ ur_hostname u @ CRLF"
  let ?t = "\<lparr>sm_buffer = l2 @ CRLF, sm_queue = [], sm_written = [?e], sm_tls = True\<rparr>"
  let ?v = "\<lparr>sm_buffer = l3 @ CRLF, sm_queue = [], sm_written = [''AUTH LOGIN'' @ CRLF, ?e], sm_tls = True\<rparr>"
  have g: "expect 220 ?s = (Done (), \<lparr>sm_buffer = [], sm_queue = [], sm_written = [], sm_tls = True\<rparr>)"
    using expect_line [OF greeting(1), of ?s] greeting(2) url(6) by simp
  have c: "cut_line (l1 @ CRLF @ l2 @ CRLF) = Some (l1, l2 @ CRLF)" "cut_line (l2 @ CRLF @ l3 @ CRLF) = Some (l2, l3 @ CRLF)"
    using ehlo(2,3) by (simp_all add: line_of_def cut_line_at)
  have e: "smtp_cmd sv (''EHLO '' @ ur_hostname u) 250 \<lparr>sm_buffer = [], sm_queue = [], sm_written = [], sm_tls = True\<rparr> = (Done (), ?t)"
    using ehlo c(1) by (simp add: smtp_cmd_def smtp_write_def expect_def readLine_def line_of_def Let_def)
  have a: "smtp_cmd sv ''AUTH LOGIN'' 334 ?t = (Failed (''SMTP expected 334, got '' @ l2), ?v)"
    using auth c(2) ehlo(3) by (simp add: smtp_cmd_def smtp_write_def expect_def readLine_def line_of_def Let_def show_334)
  have "start_tls sv u ?t = (Done (), ?t)" using url(6) by (simp add: start_tls_def)
  then have "smtp_dialog sv u user pass m ?s = (Failed (''SMTP expected 334, got '' @ l2), ?v)"
    using url(4,5) a unfolding smtp_dialog_def andthen_done [OF g] andthen_done [OF e]
    by (simp add: andthen_def smtp_login_def)
  with url rcpt show ?thesis by (auto simp: sendSmtpMail_def)
qed

section \<open>Lines with a dot\<close>

lemma join_last: "xs \<noteq> [] \<Longrightarrow> join sep (xs @ [t]) = join sep (xs @ [[]]) @ t"
  by (induction xs rule: list_nonempty_induct) (simp_all add: join_Cons)

text \<open>
  A line with a single dot in the text of a mail ends the mail there: the server reads the rest as commands.
\<close>

theorem dot_line_ends_mail:
  assumes "sd_text m = a @ CRLF @ ''.'' @ CRLF @ b"
  shows "mail_payload m @ CRLF @ ''.'' @ CRLF
    = (mail_payload (m\<lparr>sd_text := a\<rparr>) @ CRLF @ ''.'' @ CRLF) @ b @ CRLF @ ''.'' @ CRLF"
proof -
  let ?h = "[''From: '' @ sd_from m, ''To: '' @ join '', '' (envelope_to m)] @
       (if envelope_cc m \<noteq> [] then [''Cc: '' @ join '', '' (envelope_cc m)] else []) @
       [''Subject: '' @ sd_subject m, ''Content-Type: text/plain; charset=utf-8'', []]"
  have p: "mail_payload (m\<lparr>sd_text := t\<rparr>) = join CRLF (?h @ [[]]) @ t" for t
    using join_last [of ?h CRLF t] by (simp add: mail_payload_def envelope_to_def envelope_cc_def)
  have "mail_payload m = join CRLF (?h @ [[]]) @ sd_text m" using p [of "sd_text m"] by simp
  with p [of a] assms show ?thesis by simp
qed

section \<open>Instances\<close>

definition smtp_url_example :: SmtpUrl where
  "smtp_url_example =
     \<lparr>ur_protocol = ''smtps:'', ur_hostname = ''mail'', ur_port = [], ur_username = ''pgos'', ur_password = ''s%40fe''\<rparr>"

definition mail_example :: SmtpMail where
  "mail_example =
     \<lparr>sd_from = ''pgos@a.example'', sd_to = [''ops@a.example''], sd_cc = [''lead@a.example''], sd_subject = ''Alert'', sd_text = ''E001''\<rparr>"

text \<open>A server that gives the answers one line each, and one that lists two lines after \<open>EHLO\<close>.\<close>

definition reply_example :: "string list \<Rightarrow> string" where
  "reply_example w =
     (case w of [] \<Rightarrow> ''220 mail''
      | d # _ \<Rightarrow>
          if starts_with d ''AUTH'' then ''334 user'' else if d = base64 ''pgos'' @ CRLF then ''334 pass''
          else if d = base64 ''s@fe'' @ CRLF then ''235 ok'' else if starts_with d ''DATA'' then ''354 go''
          else if starts_with d ''QUIT'' then ''221 bye'' else ''250 ok'')"

definition single_lines :: smtp_server where
  "single_lines tls w = [Chunk (reply_example w @ CRLF)]"

definition two_lines :: smtp_server where
  "two_lines tls w =
     (case w of d # _ \<Rightarrow> if starts_with d ''EHLO'' then [Chunk (''250-mail'' @ CRLF @ ''250 AUTH LOGIN'' @ CRLF)] else single_lines tls w
      | [] \<Rightarrow> single_lines tls w)"

lemma line_of_code: "line_of 220 ''220 mail''" "line_of 250 ''250-mail''" "line_of 250 ''250 AUTH LOGIN''"
  by code_simp+

lemma decoded_example: "decodeURIComponent (ur_username smtp_url_example) = Some ''pgos''"
  "decodeURIComponent (ur_password smtp_url_example) = Some ''s@fe''" "use_tls smtp_url_example"
  by code_simp+

fun all_lines :: "(string list \<Rightarrow> string) \<Rightarrow> string list \<Rightarrow> (string \<times> nat) list \<Rightarrow> bool" where
  "all_lines f w [] = True"
| "all_lines f w ((d, n) # ds) = (line_of n (f (d # w)) \<and> all_lines f (d # w) ds)"

lemma all_lines_answered: "all_lines reply_example w ds \<Longrightarrow> answered single_lines w ds"
  by (induction reply_example w ds rule: all_lines.induct) (auto simp: single_lines_def)

lemma single_lines_answer: "answered single_lines [] (mail_steps smtp_url_example ''pgos'' ''s@fe'' mail_example)"
  by (rule all_lines_answered) code_simp

theorem mail_delivered_witness:
  "sendSmtpMail single_lines (\<lambda>_. Some smtp_url_example) ''smtps://mail'' mail_example
   = (Done (), map fst (mail_steps smtp_url_example ''pgos'' ''s@fe'' mail_example))"
proof (rule mail_delivered)
  show "asList (sd_to mail_example) \<noteq> [] \<or> asList (sd_cc mail_example) \<noteq> []" by code_simp
  show "single_lines (use_tls smtp_url_example) [] = [Chunk (''220 mail'' @ CRLF)]"
    by (simp add: single_lines_def reply_example_def)
qed (simp_all add: decoded_example line_of_code single_lines_answer)

theorem several_lines_break_login_witness:
  "fst (sendSmtpMail two_lines (\<lambda>_. Some smtp_url_example) ''smtps://mail'' mail_example)
   = Failed ''SMTP expected 334, got 250 AUTH LOGIN''"
proof -
  have r: "asList (sd_to mail_example) \<noteq> [] \<or> asList (sd_cc mail_example) \<noteq> []" by code_simp
  have "two_lines True [] = [Chunk (''220 mail'' @ CRLF)]"
    "two_lines True [''EHLO '' @ ur_hostname smtp_url_example @ CRLF] = [Chunk (''250-mail'' @ CRLF @ ''250 AUTH LOGIN'' @ CRLF)]"
    "two_lines True [''AUTH LOGIN'' @ CRLF, ''EHLO '' @ ur_hostname smtp_url_example @ CRLF] = [Chunk (''334 user'' @ CRLF)]"
    by code_simp+
  with several_lines_break_login [of "\<lambda>_. Some smtp_url_example" "''smtps://mail''" smtp_url_example "''pgos''" "''s@fe''"
      mail_example "''220 mail''" two_lines "''250-mail''" "''250 AUTH LOGIN''" "''334 user''"] r decoded_example line_of_code
  show ?thesis by simp
qed

end
