(* ===== verification/Job_Routes.thy ===== *)
theory Job_Routes
  imports Auth_Routes Job_Service Uri Config
begin

text \<open>
  \<open>routes/jobs.ts\<close>, \<open>routes/locks.ts\<close> and \<open>routes/secrets.ts\<close>: the job service and the lock service behind
  the hooks of the authentication, on the state of the authentication, which holds the orchestrator's
  \<open>world\<close>. A body is \<open>None\<close> when its schema rejects it; the error code of a status report is one of the
  catalogue. \<open>n\<close> bounds the depth of the calls of the job service, as in \<open>Job_Service\<close>; the result
  \<open>None\<close> is a bound that was too small.
\<close>

section \<open>Answers\<close>

type_synonym 'b route = "('b reply \<times> auth_state) option"

definition in_world :: "auth_state \<Rightarrow> world \<Rightarrow> auth_state" where
  "in_world s w = s\<lparr>a_world := w\<rparr>"

definition admit_exact :: "auth_ext \<Rightarrow> auth_env \<Rightarrow> Role \<Rightarrow> auth_request \<Rightarrow> auth_state
    \<Rightarrow> AuthPrincipal reply \<times> auth_state" where
  "admit_exact x ae role q s =
     (case authenticate x ae q s of
        (Granted p, s1) \<Rightarrow>
          (case requireExactRole role False (Some p) of
             Some g \<Rightarrow> (refused g, s1)
           | None \<Rightarrow> (Sent p, s1))
      | (g, s1) \<Rightarrow> (refused g, s1))"

definition handle :: "AuthPrincipal reply \<times> auth_state \<Rightarrow> (AuthPrincipal \<Rightarrow> auth_state \<Rightarrow> 'b route) \<Rightarrow> 'b route" where
  "handle a h =
     (case a of
        (Sent p, s) \<Rightarrow> h p s
      | (Refused c k m, s) \<Rightarrow> Some (Refused c k m, s)
      | (Failure er, s) \<Rightarrow> Some (Failure er, s))"

text \<open>
  The \<open>catch\<close> of a handler answers with the message of the error; the answer of the status route has its
  code too. A body that the schema rejected is answered with 400.
\<close>

definition caught_reply :: "bool \<Rightarrow> js_error \<Rightarrow> 'b reply" where
  "caught_reply with_code er =
     Refused (or_default (err_status er) 500) (if with_code then or_default (err_code er) [] else []) (err_msg er)"

definition invalid_body :: "'b reply" where
  "invalid_body = Refused 400 [] ''Invalid body''"

definition answer_with :: "(js_error \<Rightarrow> 'b reply) \<Rightarrow> (Job option \<Rightarrow> 'b) \<Rightarrow> auth_state \<Rightarrow> result \<Rightarrow> 'b route" where
  "answer_with fail f s r =
     (case r of
        None \<Rightarrow> None
      | Some (Throw er, w) \<Rightarrow> Some (fail er, in_world s w)
      | Some (Ret job, w) \<Rightarrow> Some (Sent (f job), in_world s w))"

text \<open>
  A limit in a query: \<open>Number\<close> of the text, then what Postgres takes for \<open>LIMIT\<close>, a non-negative 64-bit
  integer.
\<close>

definition bad_limit :: "string \<Rightarrow> string \<Rightarrow> 'a outcome" where
  "bad_limit c m = Throw (JsError None (Some c) m)"

definition query_limit :: "nat \<Rightarrow> string option \<Rightarrow> nat outcome" where
  "query_limit fallback q =
     (if \<not> truthy q then Ret fallback
      else case js_Number_text (the q) of
             Num v \<Rightarrow>
               if of_int \<lfloor>v\<rfloor> \<noteq> v then bad_limit ''22P02'' ''invalid input syntax for type bigint''
               else if 2 ^ 63 \<le> \<bar>v\<bar> then bad_limit ''22003'' ''value is out of range for type bigint''
               else if v < 0 then bad_limit ''2201W'' ''LIMIT must not be negative''
               else Ret (nat \<lfloor>v\<rfloor>)
           | _ \<Rightarrow> bad_limit ''22P02'' ''invalid input syntax for type bigint'')"

section \<open>Jobs\<close>

definition route_create_job :: "auth_ext \<Rightarrow> auth_env \<Rightarrow> env \<Rightarrow> nat \<Rightarrow> auth_request \<Rightarrow> CreateJobRequest option
    \<Rightarrow> auth_state \<Rightarrow> Job option route" where
  "route_create_job x ae e n q body s =
     handle (admit x ae (Some operator) q s) (\<lambda>p s1.
       case body of
         None \<Rightarrow> Some (invalid_body, s1)
       | Some b \<Rightarrow> answer_with (caught_reply False) id s1 (create e (ax_ext x) n b (Some (ap_userId p)) (a_world s1)))"

definition route_jobs :: "auth_ext \<Rightarrow> auth_env \<Rightarrow> auth_request \<Rightarrow> string option \<Rightarrow> string option \<Rightarrow> string option
    \<Rightarrow> auth_state \<Rightarrow> Job list route" where
  "route_jobs x ae q projectId status limit s =
     handle (admit x ae (Some viewer) q s) (\<lambda>p s1.
       case query_limit 50 limit of
         Throw er \<Rightarrow> Some (Failure er, s1)
       | Ret l \<Rightarrow> Some (Sent (list_jobs projectId status (Some l) (a_world s1)), s1))"

text \<open>The full text search of Postgres is the parameter \<open>matches\<close>.\<close>

definition searchErrors :: "(string \<Rightarrow> JobError \<Rightarrow> bool) \<Rightarrow> string \<Rightarrow> nat \<Rightarrow> world \<Rightarrow> JobError list" where
  "searchErrors matches query limit w =
     (if js_trim query = [] then take limit (job_errors w)
      else take limit (filter (matches query) (job_errors w)))"

definition route_search_errors :: "auth_ext \<Rightarrow> auth_env \<Rightarrow> (string \<Rightarrow> JobError \<Rightarrow> bool) \<Rightarrow> auth_request
    \<Rightarrow> string option \<Rightarrow> auth_state \<Rightarrow> JobError list route" where
  "route_search_errors x ae matches q query s =
     handle (admit x ae (Some viewer) q s) (\<lambda>p s1.
       Some (Sent (searchErrors matches (or_default query []) 50 (a_world s1)), s1))"

definition route_job :: "auth_ext \<Rightarrow> auth_env \<Rightarrow> auth_request \<Rightarrow> string \<Rightarrow> auth_state \<Rightarrow> Job route" where
  "route_job x ae q jobId s =
     handle (admit x ae (Some viewer) q s) (\<lambda>p s1.
       if \<not> uuid_versioned jobId then Some (Refused 400 [] ''Invalid job id'', s1)
       else case getById jobId (a_world s1) of
              None \<Rightarrow> Some (Refused 404 [] ''Not found'', s1)
            | Some job \<Rightarrow> Some (Sent job, s1))"

definition not_scoped :: "'b reply" where
  "not_scoped = Refused 403 ''E015'' ''Token not scoped to this job''"

definition route_status :: "auth_ext \<Rightarrow> auth_env \<Rightarrow> env \<Rightarrow> nat \<Rightarrow> auth_request \<Rightarrow> string
    \<Rightarrow> JobStatusUpdate option \<Rightarrow> auth_state \<Rightarrow> Job option route" where
  "route_status x ae e n q jobId body s =
     handle (admit_exact x ae callback q s) (\<lambda>p s1.
       if ap_jobId p \<noteq> Some jobId then Some (not_scoped, s1)
       else case body of
              None \<Rightarrow> Some (invalid_body, s1)
            | Some u \<Rightarrow> answer_with (caught_reply True) id s1 (updateStatus e (ax_ext x) n jobId u False (a_world s1)))"

definition route_heartbeat :: "auth_ext \<Rightarrow> auth_env \<Rightarrow> auth_request \<Rightarrow> string \<Rightarrow> string option \<Rightarrow> auth_state
    \<Rightarrow> bool route" where
  "route_heartbeat x ae q jobId fencing s =
     handle (admit_exact x ae callback q s) (\<lambda>p s1.
       if ap_jobId p \<noteq> Some jobId then Some (not_scoped, s1)
       else let (ok, w) = heartbeat (ax_ext x) jobId fencing (a_world s1)
            in if \<not> ok
               then Some (Refused 403 ''E013'' ''Heartbeat rejected (fencing token invalid, stale, or job missing)'',
                          in_world s1 w)
               else Some (Sent True, in_world s1 w))"

definition route_dead_letters :: "auth_ext \<Rightarrow> auth_env \<Rightarrow> auth_request \<Rightarrow> auth_state
    \<Rightarrow> (DeadLetterRow \<times> Job) list route" where
  "route_dead_letters x ae q s =
     handle (admit x ae (Some operator) q s) (\<lambda>p s1. Some (Sent (listDeadLetter (a_world s1)), s1))"

definition route_retry :: "auth_ext \<Rightarrow> auth_env \<Rightarrow> env \<Rightarrow> nat \<Rightarrow> auth_request \<Rightarrow> string \<Rightarrow> auth_state
    \<Rightarrow> Job option route" where
  "route_retry x ae e n q jobId s =
     handle (admit x ae (Some admin) q s) (\<lambda>p s1.
       answer_with Failure id s1 (retryDeadLetter e (ax_ext x) n jobId (a_world s1)))"

section \<open>Locks\<close>

definition route_locks :: "auth_ext \<Rightarrow> auth_env \<Rightarrow> auth_request \<Rightarrow> auth_state \<Rightarrow> ActiveLock list route" where
  "route_locks x ae q s =
     handle (admit x ae (Some viewer) q s) (\<lambda>p s1. Some (Sent (listActiveLocks (a_world s1)), s1))"

text \<open>The path parameter is given as the router decoded it; the handler decodes it once more.\<close>

definition uri_error :: js_error where
  "uri_error = system_error ''URI malformed''"

definition route_history :: "auth_ext \<Rightarrow> auth_env \<Rightarrow> auth_request \<Rightarrow> string \<Rightarrow> auth_state
    \<Rightarrow> LockFencingEntry list route" where
  "route_history x ae q param s =
     handle (admit x ae (Some viewer) q s) (\<lambda>p s1.
       case decodeURIComponent param of
         None \<Rightarrow> Some (Failure uri_error, s1)
       | Some k \<Rightarrow> Some (Sent (getHistory k 50 (a_world s1)), s1))"

definition route_reclaim :: "auth_ext \<Rightarrow> auth_env \<Rightarrow> env \<Rightarrow> nat \<Rightarrow> auth_request \<Rightarrow> (string \<times> string) option
    \<Rightarrow> auth_state \<Rightarrow> string route" where
  "route_reclaim x ae e n q body s =
     handle (admit x ae (Some admin) q s) (\<lambda>p s1.
       case body of
         None \<Rightarrow> Some (Failure zod_error, s1)
       | Some (lockKey, rsn) \<Rightarrow>
           if lockKey = [] \<or> rsn = [] then Some (Failure zod_error, s1)
           else case reclaim (x_uuid (ax_ext x) (nonce (a_world s1))) lockKey ADMIN_RECLAIM (Some (ap_userId p))
                       (a_world s1) of
                  (Throw er, w) \<Rightarrow> Some (Failure er, in_world s1 w)
                | (Ret token, w) \<Rightarrow>
                    answer_with Failure (\<lambda>_. token) s1 (handleAdminReclaim e (ax_ext x) n lockKey rsn w))"

definition route_validate_token :: "auth_ext \<Rightarrow> auth_env \<Rightarrow> auth_request \<Rightarrow> (string \<times> string \<times> string) option
    \<Rightarrow> auth_state \<Rightarrow> bool route" where
  "route_validate_token x ae q body s =
     handle (admit x ae (Some operator) q s) (\<lambda>p s1.
       case body of
         None \<Rightarrow> Some (Failure zod_error, s1)
       | Some (lockKey, own, token) \<Rightarrow>
           let (ok, w) = validateFencingToken (x_uuid (ax_ext x) (nonce (a_world s1))) lockKey own token (a_world s1)
           in Some (Sent ok, in_world s1 w))"

section \<open>Secrets\<close>

text \<open>No authentication: the JWE is the proof. The hook counts the attempts.\<close>

definition route_resolve_secret :: "auth_ext \<Rightarrow> rate_reply \<Rightarrow> string option \<Rightarrow> auth_state
    \<Rightarrow> SecretEnvelope reply \<times> auth_state" where
  "route_resolve_secret x hook body s =
     (case hook of
        Reject c k m \<Rightarrow> (Refused c k m, s)
      | Proceed \<Rightarrow>
          (case body of
             None \<Rightarrow> (Failure zod_error, s)
           | Some jwe \<Rightarrow>
               if jwe = [] then (Failure zod_error, s)
               else case resolveDispatchJwe (ax_ext x) jwe (a_world s) of
                      (None, w) \<Rightarrow>
                        (Refused 404 ''SECRET_NOT_FOUND''
                           ''Secret not found, expired, already consumed, or invalid dispatch JWE'', in_world s w)
                    | (Some secrets, w) \<Rightarrow> (Sent secrets, in_world s w)))"

end
