(* ===== verification/Job_Route_Claims.thy ===== *)
theory Job_Route_Claims
  imports Job_Routes Admission Auth_Claims Job_Outcomes
begin

text \<open>
  What the HTTP interface of jobs and locks promises: only the holder of a job's credential changes that
  job, and the requests of anybody but an admin are requests to the service, so what holds of every
  sequence of those holds of every sequence of these.
\<close>

section \<open>Routes\<close>

lemma handle_cases:
  assumes "handle a h = Some (rep, s')"
  obtains (refused) "s' = snd a" "\<And>p. fst a \<noteq> Sent p"
  | (handled) p where "fst a = Sent p" "h p (snd a) = Some (rep, s')"
proof (cases "fst a")
  case (Sent p)
  with assms show ?thesis by (intro handled [of p]) (auto simp: handle_def split: prod.splits)
qed (use assms refused in \<open>auto simp: handle_def split: prod.splits reply.splits\<close>)

lemma in_world_simps [simp]: "a_world (in_world s w) = w" "in_world s (a_world s) = s"
  by (simp_all add: in_world_def)

lemma admit_exact_frame: "a_world (snd (admit_exact x ae r q s)) = a_world s"
  using authenticate_frame(1) [of x ae q s]
  by (auto simp: admit_exact_def split: prod.splits guard.splits option.splits)

lemma admit_exact_Sent:
  assumes "fst (admit_exact x ae r q s) = Sent p"
  shows "\<exists>t. authenticate x ae q s = (Granted p, t)" "ap_role p = r"
  using assms
  by (auto simp: admit_exact_def requireExactRole_def split: prod.splits guard.splits option.splits if_splits)

lemma admit_world: "a_world (snd (admit x ae r q s)) = a_world s"
  using admit_frame(1) [of x ae r q s] by (metis surj_pair snd_conv)

lemma answer_with_cases:
  assumes "answer_with fail f s r = Some (rep, s')"
  obtains res w where "r = Some (res, w)" "a_world s' = w"
  using assms by (auto simp: answer_with_def split: option.splits prod.splits outcome.splits)

section \<open>Workers\<close>

text \<open>A bearer token that speaks for a job: its callback token, or a signed token of the callback role.\<close>

definition worker_credential :: "auth_ext \<Rightarrow> auth_env \<Rightarrow> string \<Rightarrow> auth_request \<Rightarrow> auth_state \<Rightarrow> bool" where
  "worker_credential x ae jobId q s =
     (\<exists>token. rq_authorization q = Some (''Bearer '' @ token)
        \<and> (verifyCallbackToken (ax_ext x) jobId token (a_world s)
           \<or> (\<exists>c. bearer_claims x ae token s = Some c \<and> jc_role c = Some callback \<and> jc_jobId c = Some jobId)))"

lemma bearer_text: "starts_with a ''Bearer '' \<Longrightarrow> a = ''Bearer '' @ drop 7 a"
  by (auto simp: starts_with_iff)

lemma job_principal:
  assumes "authenticate x ae q s = (Granted p, t)" "ap_role p = callback" "ap_jobId p = Some jobId"
  shows "worker_credential x ae jobId q s"
proof -
  have "fst (bearer_login x ae (rq_authorization q) s) = Some p"
    using assms by (auto simp: authenticate_def resolveSession_def split: prod.splits option.splits outcome.splits if_splits)
  then obtain a where a: "rq_authorization q = Some a" "starts_with a ''Bearer ''"
    and login: "callback_login x (drop 7 a) s = Some p
      \<or> callback_login x (drop 7 a) s = None \<and> fst (verifyBearer x ae (drop 7 a) s) = Some p"
    by (auto simp: bearer_login_def Let_def split: option.splits if_splits)
  from login have "verifyCallbackToken (ax_ext x) jobId (drop 7 a) (a_world s)
      \<or> (\<exists>c. bearer_claims x ae (drop 7 a) s = Some c \<and> jc_role c = Some callback \<and> jc_jobId c = Some jobId)"
  proof
    assume "callback_login x (drop 7 a) s = Some p"
    then show ?thesis using assms(3)
      by (auto simp: callback_login_def callback_principal_def split: if_splits option.splits)
  next
    assume "callback_login x (drop 7 a) s = None \<and> fst (verifyBearer x ae (drop 7 a) s) = Some p"
    then show ?thesis using assms(2,3)
      by (auto simp: verifyBearer_def Let_def or_default_def split: option.splits prod.splits if_splits)
  qed
  then show ?thesis using a bearer_text [OF a(2)] unfolding worker_credential_def by metis
qed

text \<open>
  C3 (safety). Only the worker of a job reports on it. When a status report or a heartbeat for a job
  changes anything in the orchestrator's world, the request carried the unexpired callback token that was
  minted for this job, or a token signed for the callback role and this job.
\<close>

theorem worker_routes_scoped:
  assumes "route_status x ae e n q jobId body s = Some (rep, s') \<or> route_heartbeat x ae q jobId fencing s = Some (rep', s')"
    and "a_world s' \<noteq> a_world s"
  shows "worker_credential x ae jobId q s"
proof -
  have same: "a_world (snd (admit_exact x ae callback q s)) = a_world s" by (rule admit_exact_frame)
  obtain p where "fst (admit_exact x ae callback q s) = Sent p" "ap_jobId p = Some jobId"
    using assms unfolding route_status_def route_heartbeat_def
    by (elim disjE handle_cases) (auto simp: same split: if_splits)
  with admit_exact_Sent [of x ae callback q s p] job_principal show ?thesis by blast
qed

text \<open>A worker with the callback token of another job is told so, and nothing changes.\<close>

lemma other_worker_refused:
  assumes "rq_authorization q = Some (''Bearer '' @ token)" "callback_login x token s = Some p" "ap_jobId p \<noteq> Some jobId"
  shows "route_status x ae e n q jobId body s = Some (not_scoped, s)"
    and "route_heartbeat x ae q jobId fencing s = Some (not_scoped, s)"
proof -
  have "ap_role p = callback"
    using assms(2) by (auto simp: callback_login_def callback_principal_def split: if_splits option.splits)
  then have "admit_exact x ae callback q s = (Sent p, s)"
    using assms(1,2) by (simp add: admit_exact_def authenticate_def bearer_login_def requireExactRole_def starts_with_iff)
  then show "route_status x ae e n q jobId body s = Some (not_scoped, s)"
    and "route_heartbeat x ae q jobId fencing s = Some (not_scoped, s)"
    using assms(3) by (simp_all add: route_status_def route_heartbeat_def handle_def)
qed

section \<open>Requests without admin\<close>

inductive api_step :: "auth_ext \<Rightarrow> auth_env \<Rightarrow> env \<Rightarrow> auth_state \<Rightarrow> auth_state \<Rightarrow> bool" for x ae e where
  create_job: "route_create_job x ae e n q body s = Some (r, s')
    \<Longrightarrow> getById (x_uuid (ax_ext x) (nonce (a_world s))) (a_world s) = None \<Longrightarrow> api_step x ae e s s'"
| list_jobs: "route_jobs x ae q i status limit s = Some (r, s') \<Longrightarrow> api_step x ae e s s'"
| search: "route_search_errors x ae matches q query s = Some (r, s') \<Longrightarrow> api_step x ae e s s'"
| one_job: "route_job x ae q i s = Some (r, s') \<Longrightarrow> api_step x ae e s s'"
| status: "route_status x ae e n q i body s = Some (r, s')
    \<Longrightarrow> (\<And>u. body = Some u \<Longrightarrow> u_status u \<notin> {QUEUED, LOCK_STALE, PAUSED_EDITOR_LOCK}) \<Longrightarrow> api_step x ae e s s'"
| beat: "route_heartbeat x ae q i fencing s = Some (r, s') \<Longrightarrow> api_step x ae e s s'"
| letters: "route_dead_letters x ae q s = Some (r, s') \<Longrightarrow> api_step x ae e s s'"
| locks: "route_locks x ae q s = Some (r, s') \<Longrightarrow> api_step x ae e s s'"
| history: "route_history x ae q k s = Some (r, s') \<Longrightarrow> api_step x ae e s s'"
| validate: "route_validate_token x ae q claim s = Some (r, s') \<Longrightarrow> api_step x ae e s s'"
| secret: "route_resolve_secret x hook jwe s = (r, s') \<Longrightarrow> api_step x ae e s s'"

lemma reads_keep:
  assumes "handle (admit x ae (Some r) q s) h = Some (rep, s')" "\<And>p t s2 rep. h p t = Some (rep, s2) \<Longrightarrow> s2 = t"
  shows "a_world s' = a_world s"
  using assms(1) by (cases rule: handle_cases) (auto simp: admit_world dest: assms(2))

lemma validate_jobs: "validateFencingToken f k p t w = (ok, w') \<Longrightarrow> jobs w' = jobs w"
  for w :: world
  using validate_frame [of f k p t w] by simp

lemma resolve_jobs: "jobs (snd (resolveDispatchJwe x jwe w)) = jobs w"
  by (auto simp: resolveDispatchJwe_def resolveByReference_def Let_def split: option.splits sealed.splits if_splits prod.splits)

lemma api_step_service:
  assumes "api_step x ae e s s'"
  shows "service_step e (ax_ext x) (a_world s) (a_world s')"
  using assms
proof (cases rule: api_step.cases)
  case (create_job n q body r)
  from create_job(1) [unfolded route_create_job_def] show ?thesis
  proof (cases rule: handle_cases)
    case (handled p)
    then show ?thesis
      by (auto simp: admit_world split: option.splits elim!: answer_with_cases
          intro: service_step.created [OF _ create_job(2)] service_step.elsewhere)
  qed (simp add: admit_world service_step.elsewhere)
next
  case (status n q i body r)
  from status(1) [unfolded route_status_def] show ?thesis
  proof (cases rule: handle_cases)
    case (handled p)
    then show ?thesis
      by (auto simp: admit_exact_frame split: option.splits if_splits elim!: answer_with_cases
          intro: service_step.updated [OF _ status(2)] service_step.elsewhere)
  qed (simp add: admit_exact_frame service_step.elsewhere)
next
  case (beat q i fencing r)
  from beat [unfolded route_heartbeat_def] show ?thesis
  proof (cases rule: handle_cases)
    case (handled p)
    then show ?thesis
      by (auto simp: admit_exact_frame Let_def split: if_splits prod.splits
          intro: service_step.heartbeat service_step.elsewhere)
  qed (simp add: admit_exact_frame service_step.elsewhere)
next
  case (validate q claim r)
  from validate [unfolded route_validate_token_def] show ?thesis
  proof (cases rule: handle_cases)
    case (handled p)
    then show ?thesis
      by (intro service_step.elsewhere)
        (auto simp: admit_world Let_def split: option.splits prod.splits dest: validate_jobs)
  qed (simp add: admit_world service_step.elsewhere)
next
  case (secret hook jwe r)
  then show ?thesis
    using resolve_jobs [of "ax_ext x" "the jwe" "a_world s"]
    by (intro service_step.elsewhere)
      (auto simp: route_resolve_secret_def split: rate_reply.splits option.splits if_splits prod.splits)
qed (auto simp: route_jobs_def route_search_errors_def route_job_def route_dead_letters_def route_locks_def
    route_history_def split: outcome.splits option.splits if_splits
    dest!: reads_keep intro: service_step.elsewhere)


section \<open>Instances\<close>

definition worker_example :: auth_state where
  "worker_example = auth_example\<lparr>a_world := fresh_world\<lparr>jobs :=
     [(job_example ''a'' ''p'' STAGING)\<lparr>j_callbackTokenHash := Some ''ha.t'', j_callbackTokenExpiresAt := Some 5000\<rparr>]\<rparr>\<rparr>"

definition by_worker :: auth_request where
  "by_worker = \<lparr>rq_authorization = Some ''Bearer a.t'', rq_pgos_session = None\<rparr>"

lemma beat_example:
  "\<exists>rep s'. route_heartbeat auth_ext_example auth_env_example by_worker ''a'' None worker_example = Some (rep, s')
     \<and> map j_lastHeartbeatAt (jobs (a_world s')) = [Some 1000]"
proof -
  have "map_option (\<lambda>(rep, s'). map j_lastHeartbeatAt (jobs (a_world s')))
      (route_heartbeat auth_ext_example auth_env_example by_worker ''a'' None worker_example) = Some [Some 1000]"
    by code_simp
  then show ?thesis by auto
qed

lemma worker_example_beat: "map j_lastHeartbeatAt (jobs (a_world worker_example)) = [None]"
  by (simp add: worker_example_def job_example_def)

theorem worker_routes_scoped_witness:
  "\<exists>rep s'. route_heartbeat auth_ext_example auth_env_example by_worker ''a'' None worker_example = Some (rep, s')
     \<and> a_world s' \<noteq> a_world worker_example
     \<and> worker_credential auth_ext_example auth_env_example ''a'' by_worker worker_example"
proof -
  obtain rep s' where beat: "route_heartbeat auth_ext_example auth_env_example by_worker ''a'' None worker_example = Some (rep, s')"
    and t: "map j_lastHeartbeatAt (jobs (a_world s')) = [Some 1000]"
    using beat_example by (elim exE conjE)
  have "a_world s' \<noteq> a_world worker_example" using t worker_example_beat by auto
  with worker_routes_scoped [OF disjI2 [OF beat]] beat show ?thesis by blast
qed


text \<open>
  Reclaiming the lock of a job without attempts left clears its lock key, and a heartbeat compares the
  fencing token only when there is a key: the old worker's token, which the reclaim revoked, is accepted.
\<close>

definition last_attempt_world :: world where
  "last_attempt_world = snd (acquire id_1 ''k'' (owner_id ''a'') 120 None None
     (fresh_world\<lparr>jobs := [(job_example ''a'' ''p'' STAGING)\<lparr>j_lockKey := Some ''k'', j_attempt := 3\<rparr>]\<rparr>))"

theorem reclaimed_worker_still_heartbeats:
  "case reclaim id_1 ''k'' ADMIN_RECLAIM (Some ''ann'') last_attempt_world of
     (Ret t, w1) \<Rightarrow>
       \<not> fst (validateFencingToken id_1 ''k'' (owner_id ''a'') (formatFencingToken id_1 1) w1)
       \<and> (case handleAdminReclaim env_example ext_example 3 ''k'' ''stuck'' w1 of
            Some (Ret _, w2) \<Rightarrow>
              map j_status (jobs w2) = [DEAD_LETTER]
              \<and> fst (heartbeat ext_example ''a'' (Some (formatFencingToken id_1 1)) w2)
          | _ \<Rightarrow> False)
   | _ \<Rightarrow> False"
  by code_simp

end
