(* ===== verification/Object_Store.thy ===== *)
theory Object_Store
  imports Auth_Routes Uri Path_Security Json_Text "HOL-Library.AList"
begin

text \<open>
  \<open>services/s3-service.ts\<close> and \<open>routes/artifacts.ts\<close>: objects in S3, or in a map in memory when no access
  key is configured outside production, and the routes that sign URLs for artifacts and serve the memory.
  The S3 client and the signer of URLs are parameters, on a state \<open>'r\<close> of the bucket. A buffer is the
  string of its bytes.
\<close>

section \<open>The service\<close>

record 'r s3_client =
  c_put :: "string \<Rightarrow> string \<Rightarrow> string \<Rightarrow> string \<Rightarrow> 'r \<Rightarrow> unit outcome \<times> 'r"
  c_get :: "string \<Rightarrow> string \<Rightarrow> 'r \<Rightarrow> string option outcome"
  c_head :: "string \<Rightarrow> string \<Rightarrow> 'r \<Rightarrow> unit outcome"
  c_list :: "string \<Rightarrow> string \<Rightarrow> 'r \<Rightarrow> string list outcome"
  c_sign_get :: "string \<Rightarrow> string \<Rightarrow> nat \<Rightarrow> string outcome"
  c_sign_put :: "string \<Rightarrow> string \<Rightarrow> nat \<Rightarrow> string outcome"

record 'r store_env =
  so_production :: bool
  so_S3_ACCESS_KEY_ID :: string
  so_S3_BUCKET :: string
  so_PUBLIC_BASE_URL :: string
  so_client :: "'r s3_client"

record 'r store =
  os_memory :: "(string \<times> string) list"
  os_remote :: 'r

text \<open>\<open>Buffer.from(text, 'utf8')\<close>\<close>

definition utf8 :: "string \<Rightarrow> string" where
  "utf8 s = concat (map (\<lambda>c. if code c < 128 then [c]
     else [char_of (192 + code c div 64), char_of (128 + code c mod 64)]) s)"

definition getClient :: "'r store_env \<Rightarrow> 'r s3_client option outcome" where
  "getClient e =
     (if so_S3_ACCESS_KEY_ID e = []
      then (if so_production e then Throw (system_error ''S3_ACCESS_KEY_ID is required in production'') else Ret None)
      else Ret (Some (so_client e)))"

definition putObject :: "'r store_env \<Rightarrow> string \<Rightarrow> string \<Rightarrow> string \<Rightarrow> 'r store
    \<Rightarrow> (string \<times> string) outcome \<times> 'r store" where
  "putObject e key buf contentType st =
     (case getClient e of
        Throw er \<Rightarrow> (Throw er, st)
      | Ret None \<Rightarrow> (Ret (key, so_S3_BUCKET e), st\<lparr>os_memory := AList.update key buf (os_memory st)\<rparr>)
      | Ret (Some c) \<Rightarrow>
          (case c_put c (so_S3_BUCKET e) key buf contentType (os_remote st) of
             (Throw er, r) \<Rightarrow> (Throw er, st\<lparr>os_remote := r\<rparr>)
           | (Ret _, r) \<Rightarrow> (Ret (key, so_S3_BUCKET e), st\<lparr>os_remote := r\<rparr>)))"

definition getObject :: "'r store_env \<Rightarrow> string \<Rightarrow> 'r store \<Rightarrow> string option outcome" where
  "getObject e key st =
     (case getClient e of
        Throw er \<Rightarrow> Throw er
      | Ret None \<Rightarrow> Ret (map_of (os_memory st) key)
      | Ret (Some c) \<Rightarrow>
          (case c_get c (so_S3_BUCKET e) key (os_remote st) of Throw _ \<Rightarrow> Ret None | Ret bytes \<Rightarrow> Ret bytes))"

definition object_exists :: "'r store_env \<Rightarrow> string \<Rightarrow> 'r store \<Rightarrow> bool outcome" where
  "object_exists e key st =
     (case getClient e of
        Throw er \<Rightarrow> Throw er
      | Ret None \<Rightarrow> Ret (map_of (os_memory st) key \<noteq> None)
      | Ret (Some c) \<Rightarrow> Ret (case c_head c (so_S3_BUCKET e) key (os_remote st) of Throw _ \<Rightarrow> False | Ret _ \<Rightarrow> True))"

definition presignGet :: "'r store_env \<Rightarrow> string \<Rightarrow> nat \<Rightarrow> string outcome" where
  "presignGet e key expiresIn =
     (case getClient e of
        Throw er \<Rightarrow> Throw er
      | Ret None \<Rightarrow> Ret (so_PUBLIC_BASE_URL e @ ''/api/v1/artifacts/local/'' @ encodeURIComponent key)
      | Ret (Some c) \<Rightarrow> c_sign_get c (so_S3_BUCKET e) key expiresIn)"

definition presignPut :: "'r store_env \<Rightarrow> string \<Rightarrow> nat \<Rightarrow> string outcome" where
  "presignPut e key expiresIn =
     (case getClient e of
        Throw er \<Rightarrow> Throw er
      | Ret None \<Rightarrow> Ret (so_PUBLIC_BASE_URL e @ ''/api/v1/artifacts/local-upload/'' @ encodeURIComponent key)
      | Ret (Some c) \<Rightarrow> c_sign_put c (so_S3_BUCKET e) key expiresIn)"

definition listPrefix :: "'r store_env \<Rightarrow> string \<Rightarrow> 'r store \<Rightarrow> string list outcome" where
  "listPrefix e pre st =
     (case getClient e of
        Throw er \<Rightarrow> Throw er
      | Ret None \<Rightarrow> Ret (filter (\<lambda>k. starts_with k pre) (map fst (os_memory st)))
      | Ret (Some c) \<Rightarrow>
          (case c_list c (so_S3_BUCKET e) pre (os_remote st) of
             Throw er \<Rightarrow> Throw er
           | Ret ks \<Rightarrow> Ret (filter (\<lambda>k. k \<noteq> []) ks)))"

section \<open>Routes\<close>

record 'r artifact_state =
  as_auth :: auth_state
  as_store :: "'r store"

definition admitted_artifact :: "auth_ext \<Rightarrow> auth_env \<Rightarrow> Role \<Rightarrow> auth_request \<Rightarrow> 'r artifact_state
    \<Rightarrow> (AuthPrincipal \<Rightarrow> 'r artifact_state \<Rightarrow> 'b reply \<times> 'r artifact_state) \<Rightarrow> 'b reply \<times> 'r artifact_state" where
  "admitted_artifact x ae role q s h =
     (case admit x ae (Some role) q (as_auth s) of
        (Sent p, a) \<Rightarrow> h p (s\<lparr>as_auth := a\<rparr>)
      | (Refused c k m, a) \<Rightarrow> (Refused c k m, s\<lparr>as_auth := a\<rparr>)
      | (Failure er, a) \<Rightarrow> (Failure er, s\<lparr>as_auth := a\<rparr>))"

text \<open>A \<open>PathTraversalError\<close> is answered with its code; the checks of keys throw no other error.\<close>

definition bad_key :: "js_error \<Rightarrow> 'b reply" where
  "bad_key er = Refused 400 (or_default (err_code er) []) (err_msg er)"

definition presign_key :: "AuthPrincipal \<Rightarrow> string \<Rightarrow> world \<Rightarrow> string reply" where
  "presign_key p key w =
     (case assertArtifactKey key of
        Throw er \<Rightarrow> bad_key er
      | Ret k \<Rightarrow>
          if ap_kind p = callback_kind \<and> truthy (ap_jobId p)
          then (case get_job w (the (ap_jobId p)) of
                  None \<Rightarrow> Refused 404 [] ''Job not found''
                | Some job \<Rightarrow>
                    (case assertArtifactKeyForJob k (j_projectId job) (the (ap_jobId p)) of
                       Throw er \<Rightarrow> bad_key er
                     | Ret k' \<Rightarrow> Sent k'))
          else Sent k)"

definition route_presign :: "auth_ext \<Rightarrow> auth_env \<Rightarrow> 'r store_env \<Rightarrow> auth_request \<Rightarrow> string option \<Rightarrow> string option
    \<Rightarrow> 'r artifact_state \<Rightarrow> string reply \<times> 'r artifact_state" where
  "route_presign x ae e q key verb s =
     admitted_artifact x ae operator q s (\<lambda>p s1.
       (if \<not> truthy key then Refused 400 ''E014'' ''key query param required''
        else case presign_key p (the key) (a_world (as_auth s1)) of
               Sent k \<Rightarrow>
                 (case (if verb = Some ''put'' then presignPut e k 3600 else presignGet e k 3600) of
                    Throw er \<Rightarrow> Failure er
                  | Ret url \<Rightarrow> Sent url)
             | r \<Rightarrow> r, s1))"

text \<open>
  The body of an upload: a buffer, or what the parsers for JSON and text give, \<open>None\<close> when it is missing.
  The path parameter is given as the router decoded it.
\<close>

datatype upload = Bytes string | Parsed "json option"

definition upload_bytes :: "upload \<Rightarrow> string" where
  "upload_bytes b =
     (case b of Bytes s \<Rightarrow> s
      | Parsed v \<Rightarrow> utf8 (stringify (if v = None \<or> v = Some JNull then JObj [] else the v)))"

definition local_key :: "string \<Rightarrow> string reply" where
  "local_key param =
     (case decodeURIComponent param of
        None \<Rightarrow> Failure (system_error ''URI malformed'')
      | Some key \<Rightarrow> (case assertArtifactKey key of Throw er \<Rightarrow> bad_key er | Ret _ \<Rightarrow> Sent key))"

definition route_local_upload :: "auth_ext \<Rightarrow> auth_env \<Rightarrow> 'r store_env \<Rightarrow> auth_request \<Rightarrow> string \<Rightarrow> upload
    \<Rightarrow> 'r artifact_state \<Rightarrow> string reply \<times> 'r artifact_state" where
  "route_local_upload x ae e q param body s =
     admitted_artifact x ae operator q s (\<lambda>p s1.
       case local_key param of
         Sent key \<Rightarrow>
           (case putObject e key (upload_bytes body) ''application/octet-stream'' (as_store s1) of
              (Throw er, st) \<Rightarrow> (Failure er, s1\<lparr>as_store := st\<rparr>)
            | (Ret _, st) \<Rightarrow> (Sent key, s1\<lparr>as_store := st\<rparr>))
       | r \<Rightarrow> (r, s1))"

definition route_local :: "auth_ext \<Rightarrow> auth_env \<Rightarrow> 'r store_env \<Rightarrow> auth_request \<Rightarrow> string
    \<Rightarrow> 'r artifact_state \<Rightarrow> string reply \<times> 'r artifact_state" where
  "route_local x ae e q param s =
     admitted_artifact x ae viewer q s (\<lambda>p s1.
       (case local_key param of
          Sent key \<Rightarrow>
            (case getObject e key (as_store s1) of
               Throw er \<Rightarrow> Failure er
             | Ret None \<Rightarrow> Refused 404 [] ''Not found''
             | Ret (Some bytes) \<Rightarrow> Sent bytes)
        | r \<Rightarrow> r, s1))"

end
