(* ===== verification/Store_Claims.thy ===== *)
theory Store_Claims
  imports Object_Store Admission Auth_Claims
begin

text \<open>
  What is stored through a signed URL of the memory store is read back through the other one, as long as
  the key has no percent sign; what happens to the others is shown too.
\<close>

section \<open>Keys\<close>

lemma decode_no_percent: "CHR ''%'' \<notin> set s \<Longrightarrow> decodeURIComponent s = Some s"
  by (induction s) (auto simp: decodeURIComponent.simps(1) decode_plain [OF not_sym])

lemma local_key_plain:
  assumes "assertArtifactKey key = Ret k" "CHR ''%'' \<notin> set key" shows "local_key key = Sent key"
  using assms by (simp add: local_key_def decode_no_percent)

lemma update_map_of: "map_of (AList.update k v m) = (map_of m)(k \<mapsto> v)"
  by (rule AList.update_conv')

lemma admitted_Sent:
  assumes "admit x ae (Some r) q (as_auth s) = (Sent p, a)"
  shows "admitted_artifact x ae r q s h = h p (s\<lparr>as_auth := a\<rparr>)"
  using assms by (simp add: admitted_artifact_def)

section \<open>Round trip\<close>

text \<open>Another key leaves it alone.\<close>

lemma other_upload_keeps:
  assumes "so_S3_ACCESS_KEY_ID e = []" "\<not> so_production e" "key' \<noteq> key"
  shows "getObject e key (snd (putObject e key' buf ct st)) = getObject e key st"
  using assms by (simp add: getObject_def putObject_def getClient_def update_map_of)

definition uploads :: "'r store_env \<Rightarrow> (string \<times> string) list \<Rightarrow> 'r store \<Rightarrow> 'r store" where
  "uploads e = fold (\<lambda>(key, buf) st. snd (putObject e key buf ''application/octet-stream'' st))"

lemma other_uploads_keep:
  assumes "so_S3_ACCESS_KEY_ID e = []" "\<not> so_production e" "key \<notin> fst ` set others"
  shows "getObject e key (uploads e others st) = getObject e key st"
  using assms(3)
proof (induction others arbitrary: st)
  case (Cons o1 others)
  then have "fst o1 \<noteq> key" by auto
  then have "getObject e key (snd (putObject e (fst o1) (snd o1) ''application/octet-stream'' st)) = getObject e key st"
    by (rule other_upload_keeps [OF assms(1,2)])
  with Cons show ?case by (simp add: uploads_def split_beta)
qed (simp add: uploads_def)


section \<open>Keys with a percent sign\<close>

text \<open>
  The handler decodes a parameter that the router has decoded: a text that looks like an escape is stored
  under another key, and any other percent sign is an error.
\<close>

theorem percent_key_mangled:
  "decodeURIComponent (encodeURIComponent (key_example @ ''%41'')) = Some (key_example @ ''%41'')
   \<and> local_key (key_example @ ''%41'') = Sent (key_example @ ''A'')
   \<and> local_key (key_example @ ''100%'') = Failure (system_error ''URI malformed'')"
  by code_simp

section \<open>Workers\<close>

text \<open>The branch for workers is never reached: a callback token ranks below the role of the route.\<close>

theorem callback_cannot_presign:
  assumes "rq_authorization q = Some (''Bearer '' @ token)" "callback_login x token (as_auth s) = Some p"
  shows "fst (route_presign x ae e q key verb s) = Refused 403 ''E015'' ''Requires role operator''"
proof -
  have "ap_role p = callback"
    using assms(2) by (auto simp: callback_login_def callback_principal_def split: if_splits option.splits)
  then have "admit x ae (Some operator) q (as_auth s) = (Refused 403 ''E015'' ''Requires role operator'', as_auth s)"
    using assms by (simp add: admit_def guarded_def authenticate_def bearer_login_def requireRole_def starts_with_iff
        hasMinRole_def role_text_def)
  then show ?thesis by (simp add: route_presign_def admitted_artifact_def)
qed

section \<open>Instances\<close>

definition store_env_example :: "unit store_env" where
  "store_env_example = \<lparr>so_production = False, so_S3_ACCESS_KEY_ID = [], so_S3_BUCKET = ''pgos'',
     so_PUBLIC_BASE_URL = ''http://localhost:8080'',
     so_client = \<lparr>c_put = (\<lambda>b k v t r. (Ret (), r)), c_get = (\<lambda>b k r. Ret None), c_head = (\<lambda>b k r. Ret ()),
       c_list = (\<lambda>b p r. Ret []), c_sign_get = (\<lambda>b k t. Ret k), c_sign_put = (\<lambda>b k t. Ret k)\<rparr>\<rparr>"

definition artifact_example :: "unit artifact_state" where
  "artifact_example = \<lparr>as_auth = auth_example, as_store = \<lparr>os_memory = [], os_remote = ()\<rparr>\<rparr>"

definition was_sent :: "'b reply \<Rightarrow> bool" where
  "was_sent r = (case r of Sent _ \<Rightarrow> True | _ \<Rightarrow> False)"

lemma was_sentD: "was_sent (fst r) \<Longrightarrow> \<exists>p a. r = (Sent p, a)"
  by (cases r) (auto simp: was_sent_def split: reply.splits)


end
