(* ===== verification/Admin_Routes.thy ===== *)
theory Admin_Routes
  imports Job_Routes
begin

text \<open>
  \<open>routes/admin.ts\<close>, the project and baseline routes of \<open>routes/projects.ts\<close> and \<open>services/baseline-service.ts\<close>.
  The state adds the tables of parity checks and baselines to that of the authentication. Bodies are
  records of the fields a schema declares, the schema's checks are made here. What Postgres takes for a
  UUID, zod's e-mail check and the files of the process are parameters; times and durations are within the
  32 bits of their columns.
\<close>

section \<open>State\<close>

record ParityRow =
  pc_id :: string
  pc_tierAChecksum :: string
  pc_tierBChecksum :: string
  pc_tierADurationMs :: int
  pc_tierBDurationMs :: int
  pc_passed :: bool
  pc_diffS3Key :: "string option"
  pc_skipped :: bool
  pc_reason :: "string option"

record BaselineRow =
  bl_id :: string
  bl_projectId :: string
  bl_s3Key :: string
  bl_checksum :: string
  bl_createdAt :: nat

record admin_state =
  ad_auth :: auth_state
  ad_parity :: "ParityRow list"
  ad_baselines :: "BaselineRow list"
  ad_heartbeats :: "(string \<times> nat) list"

record admin_env =
  am_auth :: auth_ext
  am_auth_env :: auth_env
  am_env :: env
  am_pg_uuid :: "string \<Rightarrow> bool"
  am_email :: "string \<Rightarrow> bool"
  am_cwd :: string
  am_file :: "string \<Rightarrow> string option"

definition ad_world :: "admin_state \<Rightarrow> world" where
  "ad_world s = a_world (ad_auth s)"

definition with_world :: "world \<Rightarrow> admin_state \<Rightarrow> admin_state" where
  "with_world w s = s\<lparr>ad_auth := in_world (ad_auth s) w\<rparr>"

definition ad_uuid :: "admin_env \<Rightarrow> admin_state \<Rightarrow> string \<times> admin_state" where
  "ad_uuid x s = (let (i, w) = draw (x_uuid (ax_ext (am_auth x))) (ad_world s) in (i, with_world w s))"

definition allowed :: "admin_env \<Rightarrow> Role \<Rightarrow> auth_request \<Rightarrow> admin_state
    \<Rightarrow> (AuthPrincipal \<Rightarrow> admin_state \<Rightarrow> 'b reply \<times> admin_state) \<Rightarrow> 'b reply \<times> admin_state" where
  "allowed x role q s h =
     (case admit (am_auth x) (am_auth_env x) (Some role) q (ad_auth s) of
        (Sent p, a) \<Rightarrow> h p (s\<lparr>ad_auth := a\<rparr>)
      | (Refused c k m, a) \<Rightarrow> (Refused c k m, s\<lparr>ad_auth := a\<rparr>)
      | (Failure er, a) \<Rightarrow> (Failure er, s\<lparr>ad_auth := a\<rparr>))"

definition bad_uuid :: js_error where
  "bad_uuid = JsError None (Some ''22P02'') ''invalid input syntax for type uuid''"

section \<open>Audit and tiers\<close>

definition route_audit_logs :: "admin_env \<Rightarrow> auth_request \<Rightarrow> string option \<Rightarrow> string option \<Rightarrow> string option
    \<Rightarrow> admin_state \<Rightarrow> AuditLogEntry list reply \<times> admin_state" where
  "route_audit_logs x q limit rtype rid s =
     allowed x admin q s (\<lambda>p s1.
       (case query_limit 100 limit of
          Throw er \<Rightarrow> Failure er
        | Ret l \<Rightarrow> Sent (listAuditLogs (Some l) rtype rid (ad_world s1)), s1))"

definition route_tiers :: "admin_env \<Rightarrow> auth_request \<Rightarrow> admin_state
    \<Rightarrow> (TierHealth \<times> metadata) list reply \<times> admin_state" where
  "route_tiers x q s = allowed x viewer q s (\<lambda>p s1. (Sent (getTierHealth (ad_world s1)), s1))"

definition tier_of :: "string \<Rightarrow> WorkerTier option" where
  "tier_of t = (if t = ''A'' then Some TierA else if t = ''B'' then Some TierB else None)"

text \<open>The parameter is cast, not checked: another text updates no row.\<close>

definition route_enable_tier :: "admin_env \<Rightarrow> auth_request \<Rightarrow> string \<Rightarrow> bool option \<Rightarrow> admin_state
    \<Rightarrow> bool reply \<times> admin_state" where
  "route_enable_tier x q tier body s =
     allowed x admin q s (\<lambda>p s1.
       case body of
         None \<Rightarrow> (Failure zod_error, s1)
       | Some enabled \<Rightarrow>
           (Sent True, case tier_of tier of
              None \<Rightarrow> s1
            | Some t \<Rightarrow> with_world (setTierEnabled t enabled (ad_world s1)) s1))"

text \<open>The cache flag is \<open>None\<close> when the report leaves it out or says null.\<close>

record ProbeBody =
  pb_runnerOnline :: "bool option"
  pb_godotCacheWarm :: "bool option"
  pb_coldStartMs :: "rat option"
  pb_wallMs :: "rat option"
  pb_detail :: "string option"
  pb_degraded :: "bool option"

definition probe_body_ok :: "ProbeBody \<Rightarrow> bool" where
  "probe_body_ok b = (0 \<le> or_default (pb_coldStartMs b) 0 \<and> 0 \<le> or_default (pb_wallMs b) 0)"

definition evaluate_tier_a :: "ProbeBody \<Rightarrow> nat \<Rightarrow> TierBProbeResult" where
  "evaluate_tier_a b nowMs =
     \<lparr>tier_b_runner_online = False, godot_cache_warm = pb_godotCacheWarm b,
      coldStartMs = js_round (or_default (pb_coldStartMs b) (or_default (pb_wallMs b) 0)),
      degraded = (pb_runnerOnline b = Some False \<or> 120000 < or_default (pb_coldStartMs b) 0),
      probe_source = workflow_ingest, probe_detail = or_default (pb_detail b) ''tier A probe ingest'',
      checkedAt = nowMs, lastHealthRunId = None, lastHealthRunConclusion = None,
      lastHealthRunAgeMs = None, actionsApiOk = None\<rparr>"

definition probe_result :: "WorkerTier \<Rightarrow> ProbeBody \<Rightarrow> nat \<Rightarrow> TierBProbeResult" where
  "probe_result t b nowMs =
     (let result = (if t = TierB
                    then evaluateTierBFromWorkflowIngest (pb_runnerOnline b) (pb_godotCacheWarm b)
                           (pb_coldStartMs b) (pb_wallMs b) (pb_detail b) nowMs
                    else evaluate_tier_a b nowMs)
      in result\<lparr>degraded := or_default (pb_degraded b) (degraded result)\<rparr>)"

definition probe_metadata :: "WorkerTier \<Rightarrow> ProbeBody \<Rightarrow> TierBProbeResult \<Rightarrow> metadata" where
  "probe_metadata t b r =
     (if t = TierB then tierProbeMetadata r
      else [(''godot_cache_warm'', json_opt JBool (godot_cache_warm r)),
            (''probe_source'', JStr (source_name (probe_source r))),
            (''probe_detail'', JStr (probe_detail r)),
            (''probe_checked_at'', JStr (toISOString (checkedAt r))),
            (''tier_a_runner_online'', json_opt JBool (pb_runnerOnline b))])"

definition route_probe :: "admin_env \<Rightarrow> auth_request \<Rightarrow> string \<Rightarrow> ProbeBody option \<Rightarrow> admin_state
    \<Rightarrow> ((TierHealth \<times> metadata) option \<times> TierBProbeResult) reply \<times> admin_state" where
  "route_probe x q tier body s =
     allowed x operator q s (\<lambda>p s1.
       case tier_of tier of
         None \<Rightarrow> (Refused 400 [] ''tier must be A or B'', s1)
       | Some t \<Rightarrow>
           (case body of
              None \<Rightarrow> (Failure zod_error, s1)
            | Some b \<Rightarrow>
                if \<not> probe_body_ok b then (Failure zod_error, s1)
                else
                  let result = probe_result t b (now (ad_world s1));
                      w = recordProbe t (nat (coldStartMs result)) (degraded result)
                            (Some (probe_metadata t b result)) (ad_world s1)
                  in (Sent (find (\<lambda>r. th_tier (fst r) = t) (getTierHealth w), result), with_world w s1)))"

section \<open>Parity\<close>

definition route_parity_checks :: "admin_env \<Rightarrow> auth_request \<Rightarrow> admin_state \<Rightarrow> ParityRow list reply \<times> admin_state" where
  "route_parity_checks x q s = allowed x viewer q s (\<lambda>p s1. (Sent (take 50 (rev (ad_parity s1))), s1))"

record ParityBody =
  py_tierAChecksum :: "string option"
  py_tierBChecksum :: "string option"
  py_tierADurationMs :: "int option"
  py_tierBDurationMs :: "int option"
  py_diffS3Key :: "string option"
  py_skipped :: "bool option"
  py_reason :: "string option"

definition parity_input :: "ParityBody \<Rightarrow> ParityReportInput" where
  "parity_input b =
     \<lparr>pi_tierAChecksum = or_default (py_tierAChecksum b) [], pi_tierBChecksum = or_default (py_tierBChecksum b) [],
      pi_skipped = or_default (py_skipped b) False, pi_reason = py_reason b\<rparr>"

definition parity_alert :: "ParityBody \<Rightarrow> ParityEvaluation \<Rightarrow> SendAlertOpts" where
  "parity_alert b ev =
     \<lparr>ao_title = ''Tier parity failure'', ao_severity = high,
      ao_body = ''reason='' @ or_default (pe_reason ev) ''checksum_mismatch'' @ '' A='' @
        or_default (py_tierAChecksum b) [] @ '' B='' @ or_default (py_tierBChecksum b) [],
      ao_code = Some ''E010'', ao_projectId = None, ao_jobId = None, ao_to = None, ao_notifyEmail = None\<rparr>"

definition route_parity :: "admin_env \<Rightarrow> auth_request \<Rightarrow> ParityBody option \<Rightarrow> admin_state
    \<Rightarrow> (ParityRow \<times> ParityEvaluation) reply \<times> admin_state" where
  "route_parity x q body s =
     allowed x operator q s (\<lambda>p s1.
       case body of
         None \<Rightarrow> (Failure zod_error, s1)
       | Some b \<Rightarrow>
           let ev = evaluateParityReport (parity_input b);
               (i, s2) = ad_uuid x s1;
               a = or_default (py_tierAChecksum b) [];
               row = \<lparr>pc_id = i,
                      pc_tierAChecksum = (if a \<noteq> [] then a else if pe_skipped ev then ''missing-a'' else []),
                      pc_tierBChecksum = or_default (py_tierBChecksum b) [],
                      pc_tierADurationMs = or_default (py_tierADurationMs b) 0,
                      pc_tierBDurationMs = or_default (py_tierBDurationMs b) 0,
                      pc_passed = pe_passed ev, pc_diffS3Key = py_diffS3Key b, pc_skipped = pe_skipped ev,
                      pc_reason = pe_reason ev\<rparr>;
               s3 = s2\<lparr>ad_parity := ad_parity s2 @ [row]\<rparr>
           in (Sent (row, ev),
               if pe_emitE010 ev then with_world (sendAlert (am_env x) (parity_alert b ev) (ad_world s3)) s3
               else s3))"

section \<open>Errors, heartbeats, failover and documents\<close>

definition route_catalog :: "admin_env \<Rightarrow> auth_request \<Rightarrow> admin_state
    \<Rightarrow> (ErrorCode \<Rightarrow> ErrorDefinition) reply \<times> admin_state" where
  "route_catalog x q s = allowed x viewer q s (\<lambda>p s1. (Sent ERROR_CATALOG, s1))"

definition route_cron_heartbeats :: "admin_env \<Rightarrow> auth_request \<Rightarrow> admin_state \<Rightarrow> (string \<times> nat) list reply \<times> admin_state" where
  "route_cron_heartbeats x q s = allowed x admin q s (\<lambda>p s1. (Sent (ad_heartbeats s1), s1))"

definition route_failover :: "admin_env \<Rightarrow> auth_request \<Rightarrow> admin_state \<Rightarrow> string reply \<times> admin_state" where
  "route_failover x q s =
     allowed x admin q s (\<lambda>p s1.
       case rotateInstanceIdOnFailover (x_uuid (ax_ext (am_auth x)) (nonce (ad_world s1))) (ad_world s1) of
         (Throw er, w) \<Rightarrow> (Failure er, with_world w s1)
       | (Ret newId, w) \<Rightarrow> (Sent newId, with_world w s1))"

definition doc_candidates :: "string \<Rightarrow> string \<Rightarrow> string list" where
  "doc_candidates cwd rel =
     [path_resolve cwd [cwd, rel], path_resolve cwd [cwd, ''../../'', rel],
      path_resolve cwd [cwd, ''../../../'', rel], path_resolve cwd [cwd, ''dist'', rel]]"

definition readRepoDoc :: "admin_env \<Rightarrow> string \<Rightarrow> string option" where
  "readRepoDoc x rel =
     (case find (\<lambda>c. am_file x c \<noteq> None) (doc_candidates (am_cwd x) rel) of
        None \<Rightarrow> None
      | Some c \<Rightarrow> am_file x c)"

definition route_agents_doc :: "admin_env \<Rightarrow> auth_request \<Rightarrow> admin_state \<Rightarrow> string reply \<times> admin_state" where
  "route_agents_doc x q s =
     allowed x viewer q s (\<lambda>p s1.
       (if truthy (readRepoDoc x ''AGENTS.md'') then Sent (the (readRepoDoc x ''AGENTS.md''))
        else Refused 404 [] ''AGENTS.md not found'', s1))"

definition error_code_text :: "string \<Rightarrow> bool" where
  "error_code_text c = (length c = 4 \<and> hd c = CHR ''E'' \<and> list_all is_digit (tl c))"

definition route_error_doc :: "admin_env \<Rightarrow> auth_request \<Rightarrow> string \<Rightarrow> admin_state \<Rightarrow> string reply \<times> admin_state" where
  "route_error_doc x q c s =
     allowed x viewer q s (\<lambda>p s1.
       (if \<not> error_code_text c then Refused 400 [] ''Invalid error code''
        else let content = readRepoDoc x (''docs/errors/'' @ c @ ''.md'') in
             if truthy content then Sent (the content)
             else Refused 404 [] (c @ '' documentation not found''), s1))"

section \<open>Projects\<close>

definition route_projects :: "admin_env \<Rightarrow> auth_request \<Rightarrow> admin_state \<Rightarrow> Project list reply \<times> admin_state" where
  "route_projects x q s = allowed x viewer q s (\<lambda>p s1. (Sent (rev (projects (ad_world s1))), s1))"

record ProjectBody =
  pj_name :: string
  pj_slug :: string
  pj_godotVersion :: "string option"
  pj_projectRoot :: string
  pj_highVolume :: "bool option"
  pj_adminContacts :: "string list option"

definition slug_char :: "char \<Rightarrow> bool" where
  "slug_char c = (is_digit c \<or> 97 \<le> code c \<and> code c \<le> 122 \<or> c = CHR ''-'')"

definition project_body_ok :: "(string \<Rightarrow> bool) \<Rightarrow> ProjectBody \<Rightarrow> bool" where
  "project_body_ok email b =
     (pj_name b \<noteq> [] \<and> pj_slug b \<noteq> [] \<and> list_all slug_char (pj_slug b) \<and> pj_projectRoot b \<noteq> []
      \<and> list_all email (or_default (pj_adminContacts b) []))"

definition unique_violation :: js_error where
  "unique_violation = JsError None (Some ''23505'') ''duplicate key value violates unique constraint''"

definition route_create_project :: "admin_env \<Rightarrow> auth_request \<Rightarrow> ProjectBody option \<Rightarrow> admin_state
    \<Rightarrow> Project reply \<times> admin_state" where
  "route_create_project x q body s =
     allowed x admin q s (\<lambda>p s1.
       case body of
         None \<Rightarrow> (Failure zod_error, s1)
       | Some b \<Rightarrow>
           if \<not> project_body_ok (am_email x) b then (Failure zod_error, s1)
           else
             let (i, s2) = ad_uuid x s1;
                 row = \<lparr>pr_id = i, pr_name = pj_name b, pr_slug = pj_slug b,
                        pr_godotVersion = Some (or_default (pj_godotVersion b) ''4.3.1''),
                        pr_projectRoot = Some (pj_projectRoot b),
                        pr_highVolume = or_default (pj_highVolume b) False,
                        pr_adminContacts = or_default (pj_adminContacts b) []\<rparr>
             in if row_by pr_slug (pj_slug b) (projects (ad_world s2)) \<noteq> None then (Failure unique_violation, s2)
                else (Sent row, with_world ((ad_world s2)\<lparr>projects := projects (ad_world s2) @ [row]\<rparr>) s2))"

definition route_project :: "admin_env \<Rightarrow> auth_request \<Rightarrow> string \<Rightarrow> admin_state \<Rightarrow> Project reply \<times> admin_state" where
  "route_project x q i s =
     allowed x viewer q s (\<lambda>p s1.
       (if \<not> am_pg_uuid x i then Failure bad_uuid
        else case get_project (ad_world s1) i of
               None \<Rightarrow> Refused 404 [] ''Not found''
             | Some pr \<Rightarrow> Sent pr, s1))"

section \<open>Baselines\<close>

definition baselines_of :: "string \<Rightarrow> nat \<Rightarrow> admin_state \<Rightarrow> BaselineRow list" where
  "baselines_of projectId limit s = take limit (filter (\<lambda>r. bl_projectId r = projectId) (rev (ad_baselines s)))"

definition getLatest :: "string \<Rightarrow> admin_state \<Rightarrow> BaselineRow option" where
  "getLatest projectId s = find (\<lambda>r. bl_projectId r = projectId) (rev (ad_baselines s))"

definition create_baseline :: "admin_env \<Rightarrow> string \<Rightarrow> string \<Rightarrow> string \<Rightarrow> string option \<Rightarrow> admin_state
    \<Rightarrow> BaselineRow outcome \<times> admin_state" where
  "create_baseline x projectId s3Key checksum actorId s =
     (let (i, s1) = ad_uuid x s;
          row = \<lparr>bl_id = i, bl_projectId = projectId, bl_s3Key = s3Key, bl_checksum = checksum,
                 bl_createdAt = now (ad_world s1)\<rparr>;
          s2 = s1\<lparr>ad_baselines := ad_baselines s1 @ [row]\<rparr>
      in if get_project (ad_world s1) projectId = None then (Throw foreign_key_violation, s1)
         else (Ret row,
               with_world (audit (audit_entry actorId ''baseline.created'' ''baseline'' (Some i)
                 [(''projectId'', JStr projectId), (''s3Key'', JStr s3Key), (''checksum'', JStr checksum)])
                 (ad_world s2)) s2))"

definition route_baselines :: "admin_env \<Rightarrow> auth_request \<Rightarrow> string \<Rightarrow> admin_state
    \<Rightarrow> BaselineRow list reply \<times> admin_state" where
  "route_baselines x q i s =
     allowed x viewer q s (\<lambda>p s1.
       (if \<not> am_pg_uuid x i then Failure bad_uuid else Sent (baselines_of i 50 s1), s1))"

definition route_latest_baseline :: "admin_env \<Rightarrow> auth_request \<Rightarrow> string \<Rightarrow> admin_state
    \<Rightarrow> BaselineRow reply \<times> admin_state" where
  "route_latest_baseline x q i s =
     allowed x viewer q s (\<lambda>p s1.
       (if \<not> am_pg_uuid x i then Failure bad_uuid
        else case getLatest i s1 of
               None \<Rightarrow> Refused 404 [] ''No baseline recorded''
             | Some r \<Rightarrow> Sent r, s1))"

definition route_create_baseline :: "admin_env \<Rightarrow> auth_request \<Rightarrow> string \<Rightarrow> (string \<times> string) option \<Rightarrow> admin_state
    \<Rightarrow> BaselineRow reply \<times> admin_state" where
  "route_create_baseline x q i body s =
     allowed x operator q s (\<lambda>p s1.
       case body of
         None \<Rightarrow> (Failure zod_error, s1)
       | Some (s3Key, checksum) \<Rightarrow>
           if s3Key = [] \<or> checksum = [] then (Failure zod_error, s1)
           else if \<not> am_pg_uuid x i then (Failure bad_uuid, s1)
           else case create_baseline x i s3Key checksum (Some (ap_userId p)) s1 of
                  (Throw er, s2) \<Rightarrow> (Failure er, s2)
                | (Ret row, s2) \<Rightarrow> (Sent row, s2))"

end
