(* ===== verification/Admin_Claims.thy ===== *)
theory Admin_Claims
  imports Admin_Routes Admission Auth_Claims
begin

text \<open>
  What an ingested probe does to the scheduler, and how the administration routes answer what they do not
  check.
\<close>

section \<open>Tiers\<close>

lemma tier_row_set:
  assumes "\<And>r. th_tier (f r) = th_tier r"
  shows "tier_row (set_tier t f w) t = map_option f (tier_row w t)"
proof -
  have "find (\<lambda>r. th_tier r = t) (map (\<lambda>r. if th_tier r = t then f r else r) rs)
      = map_option f (find (\<lambda>r. th_tier r = t) rs)" for rs
    by (induction rs) (auto simp: assms)
  then show ?thesis by (simp add: tier_row_def set_tier_def)
qed

lemma tier_row_other:
  assumes "t' \<noteq> t" shows "tier_row (recordProbe t cold deg meta w) t' = tier_row w t'"
proof -
  have "find (\<lambda>r. th_tier r = t') (map (\<lambda>r. if th_tier r = t then g r else r) rs) = find (\<lambda>r. th_tier r = t') rs"
    if "\<And>r. th_tier (g r) = th_tier r" for g and rs :: "TierHealth list"
    using that assms by (induction rs) auto
  then show ?thesis by (simp add: tier_row_def recordProbe_def set_tier_def)
qed

lemma probed_row:
  "tier_row (recordProbe t cold deg meta w) t = map_option (\<lambda>r. r\<lparr>
     th_avgColdStartMs := Some (blend (th_avgColdStartMs r) cold), th_lastProbeAt := Some (now w), th_degraded := deg,
     th_metadata := (case meta of None \<Rightarrow> th_metadata r | Some m \<Rightarrow> jsonb_concat (th_metadata r) m)\<rparr>) (tier_row w t)"
  unfolding recordProbe_def by (rule tier_row_set) simp

lemma degraded_not_usable: "\<not> usable e (recordProbe t cold True meta w) t"
  by (auto simp: usable_def probed_row tier_ok_def split: option.splits)

lemma ad_world_simps [simp]: "ad_world (with_world w s) = w"
  by (simp add: ad_world_def with_world_def in_world_def)

lemma allowed_cases:
  assumes "allowed x role q s h = (rep, s')"
  obtains (refused) "ad_world s' = ad_world s" "\<And>b. rep \<noteq> Sent b"
  | (handled) p a where "admit (am_auth x) (am_auth_env x) (Some role) q (ad_auth s) = (Sent p, a)"
      "h p (s\<lparr>ad_auth := a\<rparr>) = (rep, s')" "ad_world (s\<lparr>ad_auth := a\<rparr>) = ad_world s"
proof -
  obtain g a where g: "admit (am_auth x) (am_auth_env x) (Some role) q (ad_auth s) = (g, a)" by fastforce
  note same = admit_frame(1) [OF g]
  show ?thesis
  proof (cases g)
    case (Sent p)
    with assms g same show ?thesis by (intro handled [of p a]) (simp_all add: allowed_def ad_world_def)
  qed (use assms g same refused in \<open>auto simp: allowed_def ad_world_def\<close>)
qed

lemma probe_sent:
  assumes "route_probe x q tier body s = (Sent (row, r), s')"
  obtains t b where "tier_of tier = Some t" "body = Some b" "r = probe_result t b (now (ad_world s))"
    "ad_world s' = recordProbe t (nat (coldStartMs r)) (degraded r) (Some (probe_metadata t b r)) (ad_world s)"
  using assms unfolding route_probe_def
  by (cases rule: allowed_cases) (auto simp: Let_def split: option.splits if_splits)


text \<open>
  The flag of the body is taken in both directions: a report of an offline runner with \<open>degraded: false\<close>
  leaves the tier in service.
\<close>

theorem override_keeps_offline_tier:
  assumes "route_probe x q tier (Some b) s = (Sent (row, r), s')"
    and "pb_degraded b = Some False" "pb_runnerOnline b = Some False" "tier_of tier = Some TierB"
    and "tier_row (ad_world s) TierB = Some h" "th_enabled h" "env_TIER_B_ENABLED e"
  shows "\<not> tier_b_runner_online r \<and> usable e (ad_world s') TierB"
proof -
  have w: "r = probe_result TierB b (now (ad_world s))"
    "ad_world s' = recordProbe TierB (nat (coldStartMs r)) (degraded r) (Some (probe_metadata TierB b r)) (ad_world s)"
    using probe_sent [OF assms(1)] assms(4) by auto
  have "\<not> tier_b_runner_online r" "\<not> degraded r"
    using assms(2,3) w(1) by (simp_all add: probe_result_def Let_def evaluateTierBFromWorkflowIngest_def or_default_def)
  with w(2) assms(5-) show ?thesis by (simp add: usable_def probed_row tier_ok_def)
qed

text \<open>Enabling a tier that does not exist succeeds and does nothing.\<close>

theorem unknown_tier_accepted:
  assumes "tier_of tier = None" "admit (am_auth x) (am_auth_env x) (Some admin) q (ad_auth s) = (Sent p, a)"
  shows "route_enable_tier x q tier (Some b) s = (Sent True, s\<lparr>ad_auth := a\<rparr>)"
  using assms by (simp add: route_enable_tier_def allowed_def)

section \<open>Instances\<close>

definition admin_env_example :: admin_env where
  "admin_env_example = \<lparr>am_auth = auth_ext_example, am_auth_env = auth_env_example, am_env = env_example,
     am_pg_uuid = (\<lambda>_. True), am_email = (\<lambda>_. True), am_cwd = ''/app'', am_file = (\<lambda>_. None)\<rparr>"

definition admin_example :: admin_state where
  "admin_example = \<lparr>ad_auth = auth_example\<lparr>a_world := tier_example 0\<rparr>, ad_parity = [], ad_baselines = [], ad_heartbeats = []\<rparr>"

definition offline_probe :: ProbeBody where
  "offline_probe = \<lparr>pb_runnerOnline = Some False, pb_godotCacheWarm = None, pb_coldStartMs = Some 9000, pb_wallMs = None,
     pb_detail = Some ''no runner'', pb_degraded = None\<rparr>"

definition probed_example :: "((TierHealth \<times> metadata) option \<times> TierBProbeResult) reply \<times> admin_state" where
  "probed_example = route_probe admin_env_example by_session ''B'' (Some offline_probe) admin_example"


end
