(* ===== verification/App.thy ===== *)
theory App
  imports Admin_Routes Ws_Hub
begin

text \<open>
  \<open>app.ts\<close>, \<open>services/readiness.ts\<close> and \<open>index.ts\<close>: what a client sees of an error, the routes outside the
  API, the WebSocket upgrade, the dashboard files, and the start of the process. Postgres, Redis, the file
  system, the workers and the listening socket are parameters that answer or throw.
\<close>

section \<open>Errors\<close>

text \<open>
  \<open>setErrorHandler\<close>: status, code and message of the answer; an error of a schema has \<open>issues\<close>. A status
  of 500 or more is logged.
\<close>

definition error_status :: "js_error \<Rightarrow> nat" where
  "error_status er = (case err_status er of Some n \<Rightarrow> if 400 \<le> n then n else 500 | None \<Rightarrow> 500)"

definition error_answer :: "bool \<Rightarrow> js_error \<Rightarrow> nat \<times> string option \<times> string" where
  "error_answer production er =
     (if er = zod_error then (400, None, ''Validation failed'')
      else
        let status = error_status er;
            clientMessage = (if 500 \<le> status \<and> production then ''Internal Server Error''
                             else if err_msg er \<noteq> [] then err_msg er else ''Internal Server Error'')
        in (status, err_code er, clientMessage))"

text \<open>The error that a client sees of a reply, if any.\<close>

definition client_error :: "bool \<Rightarrow> 'b reply \<Rightarrow> (nat \<times> string option \<times> string) option" where
  "client_error production r =
     (case r of
        Sent _ \<Rightarrow> None
      | Refused c k m \<Rightarrow> Some (c, if k = [] then None else Some k, m)
      | Failure er \<Rightarrow> Some (error_answer production er))"

text \<open>The limit of all routes of the API runs before their own hooks.\<close>

definition behind_limit :: "rate_reply \<Rightarrow> ('s \<Rightarrow> 'b reply \<times> 's) \<Rightarrow> 's \<Rightarrow> 'b reply \<times> 's" where
  "behind_limit hook route s =
     (case hook of Reject c k m \<Rightarrow> (Refused c k m, s) | Proceed \<Rightarrow> route s)"

section \<open>Routes outside the API\<close>

definition checkOrchestratorReadiness :: "'q outcome \<Rightarrow> 'p outcome \<Rightarrow> unit reply" where
  "checkOrchestratorReadiness query ping =
     (case query of
        Throw er \<Rightarrow> Refused 503 [] (err_msg er)
      | Ret _ \<Rightarrow> (case ping of Throw er \<Rightarrow> Refused 503 [] (err_msg er) | Ret _ \<Rightarrow> Sent ()))"

definition ws_context :: "AuthPrincipal \<Rightarrow> WsClientContext" where
  "ws_context p = \<lparr>cx_role = role_text (ap_role p), cx_projectIds = []\<rparr>"

definition route_ws :: "auth_ext \<Rightarrow> auth_env \<Rightarrow> auth_request \<Rightarrow> nat \<Rightarrow> TrackedSocket list \<Rightarrow> auth_state
    \<Rightarrow> ws_event reply \<times> TrackedSocket list \<times> auth_state" where
  "route_ws x ae q i hub s =
     (case authenticate x ae q s of
        (Granted p, s1) \<Rightarrow>
          (Sent (AlertEvent [(''message'', JStr ''connected''),
                   (''hint'', JStr ''Send {\"type\":\"subscribe\",\"projectIds\":[\"<uuid>\"]} to filter events'')] (a_now s1)),
           hub_add i (ws_context p) hub, s1)
      | (g, s1) \<Rightarrow> (refused g, hub, s1))"

text \<open>The directory of the dashboard and the answer to an unknown URL.\<close>

definition resolveDashboardDist :: "string \<Rightarrow> string \<Rightarrow> (string \<Rightarrow> bool) \<Rightarrow> string option" where
  "resolveDashboardDist here cwd exists =
     find (\<lambda>c. exists (path_resolve cwd [c, ''index.html'']))
       [path_resolve cwd [here, ''../../dashboard/dist''], path_resolve cwd [cwd, ''packages/dashboard/dist''],
        path_resolve cwd [cwd, ''../dashboard/dist'']]"

definition not_found :: "string option \<Rightarrow> (string \<Rightarrow> string option) \<Rightarrow> string \<Rightarrow> string reply" where
  "not_found index content url =
     (if starts_with url ''/api'' \<or> starts_with url ''/ws'' then Refused 404 [] ''Not found''
      else case index of
             None \<Rightarrow> Refused 404 [] ''Not found''
           | Some f \<Rightarrow> (case content f of None \<Rightarrow> Refused 404 [] ''Not found'' | Some html \<Rightarrow> Sent html))"

section \<open>The start of the process\<close>

record boot_env =
  bo_os :: os_env
  bo_email :: "string \<Rightarrow> bool"
  bo_auth :: auth_ext
  bo_mkdir :: "string \<Rightarrow> string outcome"
  bo_query :: "unit outcome"
  bo_ping :: "string outcome"
  bo_workers :: "unit outcome"
  bo_schedule :: "unit outcome"
  bo_listen :: "unit outcome"

datatype boot = Listening env_values | Exited nat

definition verifyStartupConnectivity :: "boot_env \<Rightarrow> unit outcome" where
  "verifyStartupConnectivity b =
     (case bo_query b of
        Throw er \<Rightarrow> Throw er
      | Ret _ \<Rightarrow>
          (case bo_ping b of
             Throw er \<Rightarrow> Throw er
           | Ret pong \<Rightarrow> if pong \<noteq> ''PONG'' then Throw (system_error (''Redis ping failed: '' @ pong)) else Ret ()))"

definition start_workers :: "boot_env \<Rightarrow> unit outcome" where
  "start_workers b = (case bo_workers b of Throw er \<Rightarrow> Throw er | Ret _ \<Rightarrow> bo_schedule b)"

definition startup :: "boot_env \<Rightarrow> env_values \<Rightarrow> auth_state \<Rightarrow> unit outcome \<times> auth_state" where
  "startup b p s =
     (case bo_query b of
        Throw er \<Rightarrow> (Throw er, s)
      | Ret _ \<Rightarrow>
          (case ensureBootstrapAdmin (bo_auth b) (auth_env_of p) s of
             (Throw er, s1) \<Rightarrow> (Throw er, s1)
           | (Ret _, s1) \<Rightarrow>
               (case validateProductionEnv (bo_os b) (\<not> list_ex (\<lambda>u. us_role u = admin) (a_users s1)) p of
                  Throw er \<Rightarrow> (Throw er, s1)
                | Ret _ \<Rightarrow>
                    (case verifyStartupConnectivity b of
                       Throw er \<Rightarrow> (Throw er, s1)
                     | Ret _ \<Rightarrow>
                         let (i, w) = ensureInstanceId (x_uuid (ax_ext (bo_auth b)) (nonce (a_world s1))) (a_world s1)
                         in (start_workers b, in_world s1 w)))))"

definition is_production :: "env_values \<Rightarrow> bool" where
  "is_production p = (env_text p ''NODE_ENV'' = ''production'')"

definition listen :: "boot_env \<Rightarrow> env_values \<Rightarrow> boot" where
  "listen b p = (case bo_listen b of Throw _ \<Rightarrow> Exited 1 | Ret _ \<Rightarrow> Listening p)"

definition main :: "boot_env \<Rightarrow> auth_state \<Rightarrow> boot \<times> auth_state" where
  "main b s =
     (case fst (getEnv (bo_email b) (bo_os b) None) of
        Throw _ \<Rightarrow> (Exited 1, s)
      | Ret p \<Rightarrow>
          if throws (bo_mkdir b (env_text p ''ORCHESTRATOR_CACHE_DIR'')) \<and> is_production p then (Exited 1, s)
          else (case startup b p s of
                  (Throw _, s1) \<Rightarrow> (if is_production p then Exited 1 else listen b p, s1)
                | (Ret _, s1) \<Rightarrow> (listen b p, s1)))"

text \<open>The steps of \<open>shutdown\<close>, in their order, and the exit code.\<close>

datatype shutdown_step = CloseWorkers | CloseApp | ClosePool | CloseRedis | Exit nat

definition shutdown :: "nat \<Rightarrow> shutdown_step list" where
  "shutdown exitCode = [CloseWorkers, CloseApp, ClosePool, CloseRedis, Exit exitCode]"

end
