(* ===== verification/App_Claims.thy ===== *)
theory App_Claims
  imports App Admission Auth_Claims Config_Claims
begin

text \<open>
  What a production server that listens has checked, what it has not, and which errors reach a client.
\<close>

section \<open>The start\<close>

lemma bootstrap_admin:
  assumes "ensureBootstrapAdmin x e s = (Ret (), s1)" "ae_production e"
  shows "list_ex (\<lambda>u. us_role u = admin) (a_users s1)
    \<or> row_by us_email (ae_BOOTSTRAP_ADMIN_EMAIL e) (a_users s1) \<noteq> None"
  using assms
  by (auto simp: ensureBootstrapAdmin_def Let_def split: if_splits prod.splits outcome.splits)

lemma instance_ensured: "svc_instance (snd (ensureInstanceId f w)) \<noteq> None"
  by (auto simp: ensureInstanceId_def truthy_id_def truthy_def Let_def split: option.splits if_splits)

lemma startup_checked:
  assumes "startup b p s = (Ret (), s')"
  obtains s1 where "bo_query b = Ret ()" "ensureBootstrapAdmin (bo_auth b) (auth_env_of p) s = (Ret (), s1)"
    "validateProductionEnv (bo_os b) (\<not> list_ex (\<lambda>u. us_role u = admin) (a_users s1)) p = Ret ()"
    "bo_ping b = Ret ''PONG''" "start_workers b = Ret ()"
    "s' = in_world s1 (snd (ensureInstanceId (x_uuid (ax_ext (bo_auth b)) (nonce (a_world s1))) (a_world s1)))"
  using assms
  by (auto simp: startup_def verifyStartupConnectivity_def split: outcome.splits prod.splits if_splits)

text \<open>
  C18 (safety). A production server listens only after its checks. When the process ends up listening in
  production, the configuration passed every test of the gate, Postgres and Redis answered, the workers
  run, the instance id of the lock service is set, and there is an admin, or else a user has the address
  that the first admin was to get.
\<close>

theorem production_start_checked:
  assumes "main b s = (Listening p, s')" "is_production p"
  shows "production_errors (bo_os b) False p = [] \<and> bo_query b = Ret () \<and> bo_ping b = Ret ''PONG''
    \<and> bo_workers b = Ret () \<and> bo_schedule b = Ret () \<and> svc_instance (a_world s') \<noteq> None
    \<and> (list_ex (\<lambda>u. us_role u = admin) (a_users s')
       \<or> row_by us_email (ae_BOOTSTRAP_ADMIN_EMAIL (auth_env_of p)) (a_users s') \<noteq> None)"
proof -
  obtain c where g: "getEnv (bo_email b) (bo_os b) None = (Ret p, c)" and st: "startup b p s = (Ret (), s')"
    using assms by (cases "getEnv (bo_email b) (bo_os b) None")
      (auto simp: main_def listen_def split: outcome.splits prod.splits if_splits)
  have gate: "production_errors (bo_os b) False p = []"
    by (rule gate_passed_errors [OF getEnv_Ret(2) [OF g]]) (use assms(2) in \<open>simp add: is_production_def\<close>)
  from st obtain s1 where s1: "bo_query b = Ret ()" "ensureBootstrapAdmin (bo_auth b) (auth_env_of p) s = (Ret (), s1)"
    "bo_ping b = Ret ''PONG''" "start_workers b = Ret ()"
    "s' = in_world s1 (snd (ensureInstanceId (x_uuid (ax_ext (bo_auth b)) (nonce (a_world s1))) (a_world s1)))"
    by (rule startup_checked)
  have "bo_workers b = Ret ()" "bo_schedule b = Ret ()"
    using s1(4) by (auto simp: start_workers_def split: outcome.splits)
  moreover have "ae_production (auth_env_of p)" using assms(2) by (simp add: auth_env_of_def is_production_def)
  moreover note bootstrap_admin [OF s1(2) this]
  ultimately show ?thesis
    using gate s1(1,3) instance_ensured by (simp add: s1(5) in_world_def)
qed

text \<open>
  The last alternative happens: when a user without the role has the bootstrap address, the admin is not
  inserted, and the second check, told that none exists, only asks for the password.
\<close>

theorem starts_without_admin:
  assumes "\<not> list_ex (\<lambda>u. us_role u = admin) (a_users s)"
    and "row_by us_email (env_text p ''BOOTSTRAP_ADMIN_EMAIL'') (a_users s) \<noteq> None"
    and "env_text p ''BOOTSTRAP_ADMIN_PASSWORD'' \<noteq> []" "production_errors (bo_os b) False p = []"
    and "hashPassword (bo_auth b) (env_text p ''BOOTSTRAP_ADMIN_PASSWORD'') s = (Ret h, s\<lparr>a_world := w\<rparr>)"
    and "bo_query b = Ret ()" "bo_ping b = Ret ''PONG''" "bo_workers b = Ret ()" "bo_schedule b = Ret ()"
  shows "fst (startup b p s) = Ret () \<and> \<not> list_ex (\<lambda>u. us_role u = admin) (a_users (snd (startup b p s)))"
proof -
  have "production_errors (bo_os b) True p = []"
    using assms(3,4) by (simp add: production_errors_def)
  then have v: "validateProductionEnv (bo_os b) True p = Ret ()" by (simp add: validateProductionEnv_def)
  obtain s1 where "ensureBootstrapAdmin (bo_auth b) (auth_env_of p) s = (Ret (), s1)" "a_users s1 = a_users s"
    using assms(1-3,5) by (auto simp: ensureBootstrapAdmin_def auth_env_of_def Let_def a_draw_eq)
  with assms v show ?thesis
    by (simp add: startup_def verifyStartupConnectivity_def start_workers_def in_world_def split_beta)
qed

text \<open>Outside production the checks only warn.\<close>

lemma development_listens:
  assumes "getEnv (bo_email b) (bo_os b) None = (Ret p, c)" "\<not> is_production p" "bo_listen b = Ret ()"
  shows "fst (main b s) = Listening p"
  using assms by (cases "startup b p s") (auto simp: main_def listen_def split: outcome.split)

section \<open>Errors\<close>

text \<open>
  In production the error handler replaces the message of an internal error, but the routes of the jobs
  answer such an error themselves, with its message.
\<close>

theorem internal_message_hidden:
  assumes "client_error True (Failure er) = Some (c, k, m)" "500 \<le> c"
  shows "m = ''Internal Server Error''"
  using assms by (auto simp: client_error_def error_answer_def Let_def split: if_splits)

theorem creation_shows_internal_message:
  assumes "admit x ae (Some operator) q s = (Sent p, a)"
    and "create e (ax_ext x) n b (Some (ap_userId p)) (a_world a) = Some (Throw (JsError None k m), w)"
  shows "map_option (client_error True \<circ> fst) (route_create_job x ae e n q (Some b) s) = Some (Some (500, None, m))"
  using assms by (simp add: route_create_job_def handle_def answer_with_def caught_reply_def client_error_def or_default_def)

section \<open>WebSockets\<close>

lemma fresh_viewer_sees_no_jobs:
  assumes "authenticate x ae q s = (Granted p, s1)" "ap_role p = viewer" "i \<notin> so_id ` set hub"
    and "route_ws x ae q i hub s = (r, hub', s')" "truthy (extractProjectId ev)"
  shows "i \<notin> set (hub_broadcast ev hub')"
proof -
  have hub': "hub' = hub_add i (ws_context p) hub" using assms(1,4) by (simp add: route_ws_def)
  have "\<not> mayReceiveJobEvent (ws_context p) (extractProjectId ev)"
    using assms(2,5) by (simp add: mayReceiveJobEvent_def ws_context_def role_text_def)
  then show ?thesis
    unfolding hub' using assms(3) by (auto simp: hub_broadcast_def hub_add_def mayReceive_def split: option.splits)
qed

section \<open>Instances\<close>

definition boot_example :: boot_env where
  "boot_example = \<lparr>bo_os = production_os_env, bo_email = (\<lambda>m. CHR ''.'' \<in> set m), bo_auth = auth_ext_example,
     bo_mkdir = (\<lambda>d. Ret d), bo_query = Ret (), bo_ping = Ret ''PONG'', bo_workers = Ret (), bo_schedule = Ret (),
     bo_listen = Ret ()\<rparr>"

theorem production_start_checked_witness:
  "\<exists>p s'. main boot_example auth_example = (Listening p, s') \<and> is_production p
     \<and> production_errors production_os_env False p = [] \<and> svc_instance (a_world s') \<noteq> None"
proof -
  obtain p where p: "getEnv (\<lambda>m. CHR ''.'' \<in> set m) production_os_env None = (Ret p, Some p)"
    "env_text p ''NODE_ENV'' = ''production''" by (rule production_env_parsed)
  note gate = getEnv_Ret(2) [OF p(1)]
  have users: "list_ex (\<lambda>u. us_role u = admin) (a_users auth_example)" by (simp add: auth_example_def)
  then have boot: "ensureBootstrapAdmin auth_ext_example (auth_env_of p) auth_example = (Ret (), auth_example)"
    by (simp add: ensureBootstrapAdmin_def)
  have "fst (main boot_example auth_example) = Listening p"
    using p gate boot users
    by (simp add: main_def boot_example_def startup_def verifyStartupConnectivity_def start_workers_def listen_def
        throws_def split_beta)
  then obtain s' where m: "main boot_example auth_example = (Listening p, s')" by (metis prod.collapse)
  have "is_production p" using p(2) by (simp add: is_production_def)
  with production_start_checked [OF m this] m show ?thesis by (auto simp: boot_example_def)
qed

end
