(* ===== verification/Github.thy ===== *)
theory Github
  imports Tier_Probe Json_Text World
begin

text \<open>
  \<open>services/github-service.ts\<close>: the dispatch of workflows, the mock of development and its simulated
  failures, and the status of runs. The Octokit client and the authentication of the GitHub App are
  parameters. Probes and the resolution of run ids are in \<open>Tier_Probe\<close>.
\<close>

section \<open>Environment and state\<close>

record github_env =
  ge_MOCK :: bool
  ge_MOCK_DISPATCH_FAIL :: bool
  ge_MOCK_RUN_CONCLUSION :: string
  ge_APP_ID :: string
  ge_APP_PRIVATE_KEY :: string
  ge_APP_INSTALLATION_ID :: string
  ge_OWNER :: string
  ge_REPO :: string
  ge_WORKFLOW_FILE :: string
  ge_DEFAULT_REF :: string

text \<open>A call of \<open>createWorkflowDispatch\<close>.\<close>

record DispatchCall =
  dc_owner :: string
  dc_repo :: string
  dc_workflow :: string
  dc_ref :: string
  dc_inputs :: attrs

text \<open>\<open>ok_auth\<close> gets app id, key and installation id; the others get its token. Errors are messages.\<close>

record octokit =
  ok_auth :: "string \<Rightarrow> string \<Rightarrow> string \<Rightarrow> string outcome"
  ok_dispatch :: "string \<Rightarrow> DispatchCall \<Rightarrow> string option"
  ok_cancel :: "string \<Rightarrow> nat \<Rightarrow> unit outcome"
  ok_run :: "string \<Rightarrow> nat \<Rightarrow> (string option \<times> string option) outcome"

record github_state =
  gs_mockRunCounter :: nat
  gs_world :: world

section \<open>Helpers\<close>

definition GitHubDispatchError :: "string \<Rightarrow> js_error" where
  "GitHubDispatchError m = JsError None (Some ''GITHUB_DISPATCH_FAILED'') m"

definition shouldSimulateMockDispatchFailure :: "github_env \<Rightarrow> bool" where
  "shouldSimulateMockDispatchFailure e = (ge_MOCK e \<and> ge_MOCK_DISPATCH_FAIL e)"

definition mockGetRunStatusResult :: "github_env \<Rightarrow> (string option \<times> string option) outcome" where
  "mockGetRunStatusResult e =
     (if \<not> ge_MOCK e
      then Throw (system_error ''mockGetRunStatusResult only applies when GITHUB_MOCK=true'')
      else Ret (Some ''completed'',
                Some (if ge_MOCK_RUN_CONCLUSION e \<noteq> [] then ge_MOCK_RUN_CONCLUSION e else ''success'')))"

fun unescape_key :: "string \<Rightarrow> string" where
  "unescape_key (a # b # s) = (if a = CHR 0x5C \<and> b = CHR ''n'' then CHR 0x0A # unescape_key s else a # unescape_key (b # s))"
| "unescape_key s = s"

text \<open>\<open>None\<close> for the mock, or the token of the installation.\<close>

definition client :: "github_env \<Rightarrow> octokit \<Rightarrow> string option outcome" where
  "client e ok =
     (if ge_MOCK e then Ret None
      else if ge_APP_ID e = [] \<or> ge_APP_PRIVATE_KEY e = [] \<or> ge_APP_INSTALLATION_ID e = []
      then Throw (system_error (''GitHub App credentials missing (GITHUB_APP_ID / GITHUB_APP_PRIVATE_KEY / '' @
             ''GITHUB_APP_INSTALLATION_ID). Set GITHUB_MOCK=true for local development.''))
      else (case ok_auth ok (ge_APP_ID e) (unescape_key (ge_APP_PRIVATE_KEY e)) (ge_APP_INSTALLATION_ID e) of
              Throw er \<Rightarrow> Throw er
            | Ret token \<Rightarrow> Ret (Some token)))"

section \<open>Dispatch\<close>

definition simulated_failure :: js_error where
  "simulated_failure = GitHubDispatchError ''GITHUB_MOCK_DISPATCH_FAIL: simulated workflow_dispatch failure''"

fun strategy_text :: "CommitStrategy \<Rightarrow> string" where
  "strategy_text same_machine = ''same-machine''"
| "strategy_text cross_machine = ''cross-machine''"

fun tier_text :: "WorkerTier \<Rightarrow> string" where
  "tier_text TierA = ''A''"
| "tier_text TierB = ''B''"

definition input_fields :: "DispatchInputs \<Rightarrow> attrs" where
  "input_fields i =
     [(''jobId'', di_jobId i), (''projectId'', di_projectId i), (''godotVersion'', di_godotVersion i),
      (''commitStrategy'', strategy_text (di_commitStrategy i)), (''tier'', tier_text (di_tier i)),
      (''secretJwe'', di_secretJwe i)]"

definition runner_label :: "WorkerTier \<Rightarrow> string" where
  "runner_label t = (if t = TierA then ''godot-worker'' else ''ubuntu-latest'')"

definition mock_run :: "DispatchInputs \<Rightarrow> nat \<Rightarrow> world \<Rightarrow> world" where
  "mock_run i run w =
     set_job (di_jobId i) (\<lambda>j. j\<lparr>j_githubRunId := Some run,
       j_metadata := jsonb_concat (j_metadata j)
         [(''mockDispatch'', JBool True), (''inputs'', JObj (map (\<lambda>(k, v). (k, JStr v)) (input_fields i)))],
       j_updatedAt := now w\<rparr>) w"

text \<open>The result is whether the dispatch was mocked.\<close>

definition dispatchWorkflow :: "github_env \<Rightarrow> octokit \<Rightarrow> DispatchInputs \<Rightarrow> github_state
    \<Rightarrow> bool outcome \<times> github_state" where
  "dispatchWorkflow e ok i s =
     (case client e ok of
        Throw er \<Rightarrow> (Throw er, s)
      | Ret None \<Rightarrow>
          if shouldSimulateMockDispatchFailure e then (Throw simulated_failure, s)
          else let run = Suc (gs_mockRunCounter s)
               in (Ret True, \<lparr>gs_mockRunCounter = run, gs_world = mock_run i run (gs_world s)\<rparr>)
      | Ret (Some token) \<Rightarrow>
          (case ok_dispatch ok token
                  \<lparr>dc_owner = ge_OWNER e, dc_repo = ge_REPO e, dc_workflow = ge_WORKFLOW_FILE e,
                   dc_ref = ge_DEFAULT_REF e,
                   dc_inputs = input_fields i @ [(''runner_label'', runner_label (di_tier i))]\<rparr> of
             Some m \<Rightarrow> (Throw (GitHubDispatchError (''workflow_dispatch failed: '' @ m)), s)
           | None \<Rightarrow> (Ret False, s)))"

text \<open>The result is the run id of the mock, if it was mocked.\<close>

definition dispatchWorkflowFile :: "github_env \<Rightarrow> octokit \<Rightarrow> string \<Rightarrow> attrs \<Rightarrow> github_state
    \<Rightarrow> nat option outcome \<times> github_state" where
  "dispatchWorkflowFile e ok workflow inputs s =
     (case client e ok of
        Throw er \<Rightarrow> (Throw er, s)
      | Ret None \<Rightarrow>
          if shouldSimulateMockDispatchFailure e then (Throw simulated_failure, s)
          else let run = Suc (gs_mockRunCounter s) in (Ret (Some run), s\<lparr>gs_mockRunCounter := run\<rparr>)
      | Ret (Some token) \<Rightarrow>
          if ge_OWNER e = [] \<or> ge_REPO e = []
          then (Throw (GitHubDispatchError ''GITHUB_OWNER/GITHUB_REPO required for named workflow dispatch''), s)
          else (case ok_dispatch ok token
                       \<lparr>dc_owner = ge_OWNER e, dc_repo = ge_REPO e, dc_workflow = workflow,
                        dc_ref = ge_DEFAULT_REF e, dc_inputs = inputs\<rparr> of
                  Some m \<Rightarrow> (Throw (GitHubDispatchError (''workflow_dispatch '' @ workflow @ '' failed: '' @ m)), s)
                | None \<Rightarrow> (Ret None, s)))"

section \<open>Runs\<close>

definition cancelRun :: "github_env \<Rightarrow> octokit \<Rightarrow> nat \<Rightarrow> unit outcome" where
  "cancelRun e ok run =
     (case client e ok of Throw er \<Rightarrow> Throw er | Ret None \<Rightarrow> Ret () | Ret (Some token) \<Rightarrow> ok_cancel ok token run)"

definition getRunStatus :: "github_env \<Rightarrow> octokit \<Rightarrow> nat \<Rightarrow> (string option \<times> string option) outcome" where
  "getRunStatus e ok run =
     (case client e ok of
        Throw er \<Rightarrow> Throw er
      | Ret None \<Rightarrow> mockGetRunStatusResult (e\<lparr>ge_MOCK := True\<rparr>)
      | Ret (Some token) \<Rightarrow> ok_run ok token run)"

definition runnerLabelsForTier :: "WorkerTier \<Rightarrow> string list" where
  "runnerLabelsForTier t = (if t = TierA then [''self-hosted'', ''godot-worker''] else [''ubuntu-latest''])"

section \<open>The mock\<close>

text \<open>
  A dispatch of the mock gives the job a run that \<open>resolveRunId\<close> finds and that no row of the table had,
  as long as the counter is ahead of the rows; it stays ahead.
\<close>

definition runs_below :: "github_state \<Rightarrow> bool" where
  "runs_below s = (\<forall>j \<in> set (jobs (gs_world s)). \<forall>r. j_githubRunId j = Some r \<longrightarrow> r \<le> gs_mockRunCounter s)"

lemma set_row_elem: "r \<in> set (set_row key k f rs) \<Longrightarrow> r \<in> set rs \<or> (\<exists>r0 \<in> set rs. r = f r0)"
  by (induction rs) (auto split: if_splits)

theorem mock_dispatch_resolves:
  assumes "ge_MOCK e" "runs_below s" "get_job (gs_world s) (di_jobId i) \<noteq> None"
    and "dispatchWorkflow e ok i s = (Ret m, s')" "gh_client g = MockClient"
  shows "m \<and> runs_below s'
    \<and> (\<exists>run. resolveRunId g (di_jobId i) t polls (gs_world s') = Ret (Some run)
         \<and> (\<forall>j \<in> set (jobs (gs_world s)). j_githubRunId j \<noteq> Some run))"
proof -
  have s': "m" "s' = \<lparr>gs_mockRunCounter = Suc (gs_mockRunCounter s),
      gs_world = mock_run i (Suc (gs_mockRunCounter s)) (gs_world s)\<rparr>"
    using assms(1,4) by (auto simp: dispatchWorkflow_def client_def Let_def split: if_splits)
  have "runs_below s'"
    using assms(2) by (auto simp: runs_below_def s'(2) mock_run_def set_job_def dest!: set_row_elem)
  moreover have "resolveRunId g (di_jobId i) t polls (gs_world s') = Ret (Some (Suc (gs_mockRunCounter s)))"
    using assms(3,5) by (auto simp: resolveRunId_def s'(2) mock_run_def get_job_def set_job_def set_row_same)
  moreover have "\<forall>j \<in> set (jobs (gs_world s)). j_githubRunId j \<noteq> Some (Suc (gs_mockRunCounter s))"
    using assms(2) by (fastforce simp: runs_below_def)
  ultimately show ?thesis using s'(1) by blast
qed

end
