(* ===== verification/Dashboard.thy ===== *)
theory Dashboard
  imports Merge_Outbox Uri
begin

text \<open>
  The dashboard: the typed client of \<open>api/client.ts\<close>, the roles of \<open>lib/rbac.ts\<close> and the reconnecting WebSocket
  of \<open>hooks/usePgosWebSocket.ts\<close>. React is not modelled, the pages are in \<open>Pages\<close>. \<open>fetch\<close> is a parameter; optional
  members of an input that are missing do not appear in its JSON.
\<close>

section \<open>Requests\<close>

record http_request =
  hq_method :: string
  hq_path :: string
  hq_body :: "json option"

text \<open>A response with its status and the value of its text, if that is JSON, or the message of a failed \<open>fetch\<close>.\<close>

datatype fetched = Response nat "json option" | NetworkFailure string

datatype api_result =
    Value "json option"
  | ApiError string nat "string option"
  | OtherError string

definition member :: "json \<Rightarrow> string \<Rightarrow> json option" where
  "member v k = (case v of JObj m \<Rightarrow> map_of m k | _ \<Rightarrow> None)"

definition error_member :: "json option \<Rightarrow> string \<Rightarrow> json option" where
  "error_member body k = (case body of None \<Rightarrow> None | Some b \<Rightarrow> (case member b ''error'' of None \<Rightarrow> None | Some e \<Rightarrow> member e k))"

definition res_ok :: "nat \<Rightarrow> bool" where
  "res_ok status = (200 \<le> status \<and> status \<le> 299)"

definition api_message :: "nat \<Rightarrow> json option \<Rightarrow> string" where
  "api_message status body =
     (case nullish (error_member body ''message'') None of
        Some v \<Rightarrow> js_String v
      | None \<Rightarrow>
          if json_truthy (error_member body ''code'')
          then js_String (the (error_member body ''code'')) @ '': HTTP '' @ show_nat status
          else ''HTTP '' @ show_nat status)"

definition request :: "(http_request \<Rightarrow> fetched) \<Rightarrow> http_request \<Rightarrow> api_result" where
  "request fetch q =
     (case fetch (q\<lparr>hq_path := ''/api/v1'' @ hq_path q\<rparr>) of
        NetworkFailure m \<Rightarrow> OtherError m
      | Response status body \<Rightarrow>
          if \<not> res_ok status
          then ApiError (api_message status body) status (map_option js_String (error_member body ''code''))
          else if status = 204 then Value None
          else (case body of None \<Rightarrow> OtherError ''SyntaxError'' | Some v \<Rightarrow> Value (Some v)))"

definition GET :: "string \<Rightarrow> http_request" where
  "GET p = \<lparr>hq_method = ''GET'', hq_path = p, hq_body = None\<rparr>"

definition POST :: "string \<Rightarrow> json option \<Rightarrow> http_request" where
  "POST p b = \<lparr>hq_method = ''POST'', hq_path = p, hq_body = b\<rparr>"

definition opt_member :: "string \<Rightarrow> ('a \<Rightarrow> json) \<Rightarrow> 'a option \<Rightarrow> metadata" where
  "opt_member k f v = (case v of None \<Rightarrow> [] | Some a \<Rightarrow> [(k, f a)])"

definition strings :: "string list \<Rightarrow> json" where
  "strings ss = JArr (map JStr ss)"

section \<open>The client\<close>

definition api_login :: "string \<Rightarrow> string \<Rightarrow> http_request" where
  "api_login email password = POST ''/auth/login'' (Some (JObj [(''email'', JStr email), (''password'', JStr password)]))"

definition api_me :: http_request where
  "api_me = GET ''/auth/me''"

definition api_logout :: http_request where
  "api_logout = POST ''/auth/logout'' None"

definition api_jobs :: "string option \<Rightarrow> http_request" where
  "api_jobs projectId =
     GET (''/jobs'' @ (if truthy projectId then ''?projectId='' @ encodeURIComponent (the projectId) else []))"

definition api_getJob :: "string \<Rightarrow> http_request" where
  "api_getJob jobId = GET (''/jobs/'' @ encodeURIComponent jobId)"

record CreateJobInput =
  ci_projectId :: string
  ci_godotVersion :: "string option"
  ci_preferredTier :: "string option"
  ci_commitStrategy :: "string option"
  ci_dependsOnJobId :: "string option"
  ci_metadata :: "metadata option"

text \<open>The input may be a project id alone.\<close>

definition api_createJob :: "CreateJobInput + string \<Rightarrow> http_request" where
  "api_createJob input =
     POST ''/jobs'' (Some (JObj (case input of
        Inr projectId \<Rightarrow> [(''projectId'', JStr projectId)]
      | Inl i \<Rightarrow>
          (''projectId'', JStr (ci_projectId i)) # opt_member ''godotVersion'' JStr (ci_godotVersion i) @
          opt_member ''preferredTier'' JStr (ci_preferredTier i) @
          opt_member ''commitStrategy'' JStr (ci_commitStrategy i) @
          opt_member ''dependsOnJobId'' JStr (ci_dependsOnJobId i) @ opt_member ''metadata'' JObj (ci_metadata i))))"

definition api_searchErrors :: "string \<Rightarrow> http_request" where
  "api_searchErrors q = GET (''/jobs/errors/search?q='' @ encodeURIComponent q)"

definition api_deadLetter :: http_request where
  "api_deadLetter = GET ''/dead-letter''"

definition api_retryDeadLetter :: "string \<Rightarrow> http_request" where
  "api_retryDeadLetter jobId = POST (''/dead-letter/'' @ encodeURIComponent jobId @ ''/retry'') None"

definition api_projects :: http_request where
  "api_projects = GET ''/projects''"

record CreateProjectInput =
  cp_name :: string
  cp_slug :: string
  cp_godotVersion :: "string option"
  cp_projectRoot :: string
  cp_highVolume :: "bool option"
  cp_adminContacts :: "string list option"

definition api_createProject :: "CreateProjectInput \<Rightarrow> http_request" where
  "api_createProject i =
     POST ''/projects'' (Some (JObj ([(''name'', JStr (cp_name i)), (''slug'', JStr (cp_slug i))] @
       opt_member ''godotVersion'' JStr (cp_godotVersion i) @ [(''projectRoot'', JStr (cp_projectRoot i))] @
       opt_member ''highVolume'' JBool (cp_highVolume i) @ opt_member ''adminContacts'' strings (cp_adminContacts i))))"

definition api_getProject :: "string \<Rightarrow> http_request" where
  "api_getProject projectId = GET (''/projects/'' @ encodeURIComponent projectId)"

record UidReserveInput =
  ur_logicalAssetPath :: string
  ur_namespace :: "string option"
  ur_jobId :: "string option"

definition api_uidReserve :: "string \<Rightarrow> UidReserveInput \<Rightarrow> http_request" where
  "api_uidReserve projectId i =
     POST (''/projects/'' @ encodeURIComponent projectId @ ''/uid-reservations'')
       (Some (JObj ((''logicalAssetPath'', JStr (ur_logicalAssetPath i)) #
         opt_member ''namespace'' JStr (ur_namespace i) @ opt_member ''jobId'' JStr (ur_jobId i))))"

record UidCommitInput =
  uc_reservationId :: string
  uc_finalUid :: string
  uc_namespace :: "string option"

definition api_uidCommit :: "string \<Rightarrow> UidCommitInput \<Rightarrow> http_request" where
  "api_uidCommit projectId i =
     POST (''/projects/'' @ encodeURIComponent projectId @ ''/uid-reservations/commit'')
       (Some (JObj ([(''reservationId'', JStr (uc_reservationId i)), (''finalUid'', JStr (uc_finalUid i))] @
         opt_member ''namespace'' JStr (uc_namespace i))))"

definition api_listProjectUids :: "string \<Rightarrow> http_request" where
  "api_listProjectUids projectId = GET (''/projects/'' @ encodeURIComponent projectId @ ''/uids'')"

definition api_reconcileProjectUids :: "string \<Rightarrow> http_request" where
  "api_reconcileProjectUids projectId = POST (''/projects/'' @ encodeURIComponent projectId @ ''/uids/reconcile'') None"

definition api_locks :: http_request where
  "api_locks = GET ''/locks''"

definition api_lockHistory :: "string \<Rightarrow> http_request" where
  "api_lockHistory lockKey = GET (''/locks/'' @ encodeURIComponent lockKey @ ''/history'')"

definition api_reclaimLock :: "string \<Rightarrow> string \<Rightarrow> http_request" where
  "api_reclaimLock lockKey rsn = POST ''/locks/reclaim'' (Some (JObj [(''lockKey'', JStr lockKey), (''reason'', JStr rsn)]))"

definition api_tiers :: http_request where
  "api_tiers = GET ''/tiers''"

definition api_enableTier :: "string \<Rightarrow> bool \<Rightarrow> http_request" where
  "api_enableTier tier enabled =
     POST (''/tiers/'' @ encodeURIComponent tier @ ''/enable'') (Some (JObj [(''enabled'', JBool enabled)]))"

definition api_parity :: http_request where
  "api_parity = GET ''/parity''"

text \<open>\<open>URLSearchParams\<close>: the encoding of forms.\<close>

definition form_char :: "char \<Rightarrow> string" where
  "form_char c =
     (if is_alpha c \<or> is_digit c \<or> c \<in> set ''*-._'' then [c]
      else if c = CHR '' '' then ''+''
      else if code c < 128 then percent_byte (code c)
      else percent_byte (192 + code c div 64) @ percent_byte (128 + code c mod 64))"

definition form_pair :: "string \<times> string \<Rightarrow> string" where
  "form_pair p = concat (map form_char (fst p)) @ ''='' @ concat (map form_char (snd p))"

record ListAuditLogsQuery =
  lq_limit :: "nat option"
  lq_resourceType :: "string option"
  lq_resourceId :: "string option"

definition audit_params :: "ListAuditLogsQuery \<Rightarrow> (string \<times> string) list" where
  "audit_params q =
     (case lq_limit q of None \<Rightarrow> [] | Some n \<Rightarrow> [(''limit'', show_nat n)]) @
     (if truthy (lq_resourceType q) then [(''resourceType'', the (lq_resourceType q))] else []) @
     (if truthy (lq_resourceId q) then [(''resourceId'', the (lq_resourceId q))] else [])"

definition api_auditLogs :: "ListAuditLogsQuery \<Rightarrow> http_request" where
  "api_auditLogs q =
     (let qs = join ''&'' (map form_pair (audit_params q))
      in GET (''/audit-logs'' @ (if qs \<noteq> [] then ''?'' @ qs else [])))"

definition api_errorCatalog :: http_request where
  "api_errorCatalog = GET ''/errors/catalog''"

definition api_listExtensions :: http_request where
  "api_listExtensions = GET ''/extensions''"

definition api_approvals :: "string option \<Rightarrow> http_request" where
  "api_approvals status = GET (''/extension-approvals?status='' @ encodeURIComponent (or_default status ''pending''))"

definition api_reviewApproval :: "string \<Rightarrow> string \<Rightarrow> http_request" where
  "api_reviewApproval i status =
     POST (''/extension-approvals/'' @ encodeURIComponent i @ ''/review'') (Some (JObj [(''status'', JStr status)]))"

definition api_executeExtension :: "string \<Rightarrow> string \<Rightarrow> metadata option \<Rightarrow> bool option \<Rightarrow> http_request" where
  "api_executeExtension extensionId projectId inputs network =
     POST ''/execute-extension'' (Some (JObj ([(''extensionId'', JStr extensionId), (''projectId'', JStr projectId)] @
       opt_member ''inputs'' JObj inputs @ opt_member ''network'' JBool network)))"

section \<open>Roles\<close>

definition ROUTE_MIN_ROLE :: "(string \<times> string) list" where
  "ROUTE_MIN_ROLE =
     [(''/'', ''viewer''), (''/jobs'', ''viewer''), (''/projects'', ''viewer''), (''/locks'', ''viewer''),
      (''/dead-letter'', ''operator''), (''/tiers'', ''viewer''), (''/extensions'', ''admin''),
      (''/audit'', ''admin''), (''/errors'', ''viewer''), (''/docs'', ''viewer'')]"

definition roleRank :: "string \<Rightarrow> nat" where
  "roleRank role =
     or_default (map_of [(''callback'', 0), (''viewer'', 1), (''operator'', 2), (''admin'', 3)] role) 0"

definition canAccess :: "string \<Rightarrow> string \<Rightarrow> bool" where
  "canAccess role route =
     (case map_of ROUTE_MIN_ROLE route of None \<Rightarrow> True | Some least \<Rightarrow> roleRank least \<le> roleRank role)"

definition canCreateProject :: "string \<Rightarrow> bool" where
  "canCreateProject role = (role = ''admin'')"

definition canEnqueueJob :: "string \<Rightarrow> bool" where
  "canEnqueueJob role = (role = ''operator'' \<or> role = ''admin'')"

definition canReclaimLock :: "string \<Rightarrow> bool" where
  "canReclaimLock role = (role = ''operator'' \<or> role = ''admin'')"

text \<open>The pages that \<open>App.tsx\<close> shows to a role in place of the denial.\<close>

definition page_shown :: "string \<Rightarrow> string \<Rightarrow> bool" where
  "page_shown role route =
     (if route \<in> {''/dead-letter'', ''/extensions'', ''/audit''} then canAccess role route else True)"

section \<open>The WebSocket\<close>

datatype socket = NoSocket | Connecting | Open | Closing

record hook =
  hk_socket :: socket
  hk_closed :: bool
  hk_attempt :: nat
  hk_timer :: "nat option"

datatype hook_event = Opened | Message "json option" | SocketClosed | SocketError | TimerFired | Cleanup

datatype hook_effect = Connect string | Subscribe "string list" | Deliver json | ClosedByUs

definition ws_url :: "string \<Rightarrow> string \<Rightarrow> string" where
  "ws_url protocol host = (if protocol = ''https:'' then ''wss:'' else ''ws:'') @ ''//'' @ host @ ''/ws''"

definition backoff :: "nat \<Rightarrow> nat" where
  "backoff attempt = min (1000 * 2 ^ attempt) 30000"

definition connect :: "string \<Rightarrow> hook \<Rightarrow> hook_effect list \<times> hook" where
  "connect url h = (if hk_closed h then ([], h) else ([Connect url], h\<lparr>hk_socket := Connecting, hk_timer := None\<rparr>))"

definition hook_start :: "string \<Rightarrow> hook_effect list \<times> hook" where
  "hook_start url = connect url \<lparr>hk_socket = NoSocket, hk_closed = False, hk_attempt = 0, hk_timer = None\<rparr>"

text \<open>
  An event that the browser cannot raise in a state has no effect. A socket that is closing may still
  deliver; a failed one is closed and raises its close event later.
\<close>

definition hook_step :: "string \<Rightarrow> string list \<Rightarrow> hook_event \<Rightarrow> hook \<Rightarrow> hook_effect list \<times> hook" where
  "hook_step url projectIds ev h =
     (case ev of
        Opened \<Rightarrow>
          if hk_socket h \<noteq> Connecting then ([], h)
          else (if projectIds \<noteq> [] then [Subscribe projectIds] else [], h\<lparr>hk_socket := Open, hk_attempt := 0\<rparr>)
      | Message data \<Rightarrow>
          (case data of
             None \<Rightarrow> ([], h)
           | Some v \<Rightarrow> if hk_socket h \<in> {Open, Closing} then ([Deliver v], h) else ([], h))
      | SocketClosed \<Rightarrow>
          if hk_socket h = NoSocket then ([], h)
          else if hk_closed h then ([], h\<lparr>hk_socket := NoSocket\<rparr>)
          else ([], h\<lparr>hk_socket := NoSocket, hk_timer := Some (backoff (hk_attempt h)), hk_attempt := hk_attempt h + 1\<rparr>)
      | SocketError \<Rightarrow>
          if hk_socket h = NoSocket then ([], h) else ([ClosedByUs], h\<lparr>hk_socket := Closing\<rparr>)
      | TimerFired \<Rightarrow>
          if hk_timer h = None then ([], h) else connect url (h\<lparr>hk_timer := None\<rparr>)
      | Cleanup \<Rightarrow>
          (if hk_socket h = NoSocket then [] else [ClosedByUs],
           h\<lparr>hk_closed := True, hk_timer := None,
             hk_socket := (if hk_socket h = NoSocket then NoSocket else Closing)\<rparr>))"

fun hook_run :: "string \<Rightarrow> string list \<Rightarrow> hook_event list \<Rightarrow> hook \<Rightarrow> hook_effect list \<times> hook" where
  "hook_run url projectIds [] h = ([], h)"
| "hook_run url projectIds (ev # evs) h =
     (let (out, h1) = hook_step url projectIds ev h; (outs, h2) = hook_run url projectIds evs h1
      in (out @ outs, h2))"

end
