(* ===== verification/Mcp.thy ===== *)
theory Mcp
  imports Dashboard
begin

text \<open>
  The MCP server, which offers six tools over the API: \<open>pgos-client.ts\<close>, \<open>tool-schemas.ts\<close> and the tools of
  \<open>server.ts\<close>. The SDK, \<open>fetch\<close> and the UUID check of the schemas are parameters. A tool's text is kept as
  the value that is printed.
\<close>

section \<open>The HTTP client\<close>

definition resolvePgosBaseUrl :: "string option \<Rightarrow> string option \<Rightarrow> string" where
  "resolvePgosBaseUrl given env =
     (let u = or_default given (or_default env ''http://localhost:8080'')
      in if ends_with u ''/'' then butlast u else u)"

definition resolvePgosApiToken :: "string option \<Rightarrow> string option \<Rightarrow> string" where
  "resolvePgosApiToken given env = or_default given (or_default env [])"

record PgosRequest =
  pq_url :: string
  pq_method :: string
  pq_headers :: attrs
  pq_body :: "json option"

definition pgos_request :: "string \<Rightarrow> string \<Rightarrow> http_request \<Rightarrow> PgosRequest" where
  "pgos_request baseUrl apiToken q =
     \<lparr>pq_url = baseUrl @ ''/api/v1'' @ (if starts_with (hq_path q) ''/'' then hq_path q else CHR ''/'' # hq_path q),
      pq_method = hq_method q,
      pq_headers = (''Content-Type'', ''application/json'') #
        (if apiToken \<noteq> [] then [(''Authorization'', ''Bearer '' @ apiToken)] else []),
      pq_body = hq_body q\<rparr>"

text \<open>A body that is no JSON counts as an empty object, also in a successful response.\<close>

definition pgosFetch :: "(PgosRequest \<Rightarrow> fetched) \<Rightarrow> string \<Rightarrow> string \<Rightarrow> http_request \<Rightarrow> json outcome" where
  "pgosFetch fetch baseUrl apiToken q =
     (case fetch (pgos_request baseUrl apiToken q) of
        NetworkFailure m \<Rightarrow> Throw (system_error m)
      | Response status text \<Rightarrow>
          let body = or_default text (JObj []) in
          if \<not> res_ok status
          then Throw (JsError (Some status)
                 (if json_truthy (error_member (Some body) ''code'')
                  then Some (js_String (the (error_member (Some body) ''code''))) else None)
                 (case nullish (error_member (Some body) ''message'') None of
                    None \<Rightarrow> ''HTTP '' @ show_nat status
                  | Some v \<Rightarrow> js_String v))
          else Ret body)"

section \<open>Tools\<close>

datatype tool_call =
    list_projects
  | list_jobs_tool "string option"
  | get_job_tool string
  | create_job_tool CreateJobInput
  | list_locks
  | get_job_status string

definition VIBRATO_TOOL_NAMES :: "string list" where
  "VIBRATO_TOOL_NAMES =
     [''list_projects'', ''list_jobs'', ''get_job'', ''create_job'', ''list_locks'', ''get_job_status'']"

text \<open>The schemas of the tools; a tool drops the members that its schema does not name.\<close>

definition tool_accepts :: "(string \<Rightarrow> bool) \<Rightarrow> tool_call \<Rightarrow> bool" where
  "tool_accepts uuid c =
     (case c of
        list_jobs_tool p \<Rightarrow> (case p of None \<Rightarrow> True | Some i \<Rightarrow> uuid i)
      | get_job_tool i \<Rightarrow> uuid i
      | get_job_status i \<Rightarrow> uuid i
      | create_job_tool i \<Rightarrow>
          uuid (ci_projectId i) \<and> ci_commitStrategy i \<in> {None, Some ''same-machine'', Some ''cross-machine''}
          \<and> ci_preferredTier i \<in> {None, Some ''A'', Some ''B''}
      | _ \<Rightarrow> True)"

definition tool_request :: "tool_call \<Rightarrow> http_request" where
  "tool_request c =
     (case c of
        list_projects \<Rightarrow> GET ''/projects''
      | list_jobs_tool p \<Rightarrow> GET (''/jobs'' @ (if truthy p then ''?projectId='' @ the p else []))
      | get_job_tool i \<Rightarrow> GET (''/jobs/'' @ i)
      | get_job_status i \<Rightarrow> GET (''/jobs/'' @ i)
      | list_locks \<Rightarrow> GET ''/locks''
      | create_job_tool i \<Rightarrow>
          POST ''/jobs'' (Some (JObj ((''projectId'', JStr (ci_projectId i)) #
            opt_member ''commitStrategy'' JStr (ci_commitStrategy i) @
            opt_member ''godotVersion'' JStr (ci_godotVersion i) @
            opt_member ''preferredTier'' JStr (ci_preferredTier i)))))"

text \<open>What the tool prints of the answer; \<open>None\<close> is the value \<open>undefined\<close>, which \<open>JSON.stringify\<close> does not print.\<close>

definition tool_output :: "tool_call \<Rightarrow> json \<Rightarrow> json option" where
  "tool_output c data =
     (case c of
        list_projects \<Rightarrow> member data ''projects''
      | get_job_status i \<Rightarrow>
          Some (JObj ((''jobId'', JStr i) #
            opt_member ''status'' id (case member data ''job'' of None \<Rightarrow> None | Some j \<Rightarrow> member j ''status'') @
            opt_member ''job'' id (member data ''job'')))
      | _ \<Rightarrow> Some data)"

definition call_tool :: "(string \<Rightarrow> bool) \<Rightarrow> (PgosRequest \<Rightarrow> fetched) \<Rightarrow> string \<Rightarrow> string \<Rightarrow> tool_call
    \<Rightarrow> json option outcome" where
  "call_tool uuid fetch baseUrl apiToken c =
     (if \<not> tool_accepts uuid c then Throw (system_error ''Invalid arguments'')
      else case pgosFetch fetch baseUrl apiToken (tool_request c) of
             Throw er \<Rightarrow> Throw er
           | Ret data \<Rightarrow> Ret (tool_output c data))"

end
