(* ===== verification/Client_Claims.thy ===== *)
theory Client_Claims
  imports Mcp App Job_Route_Claims
begin

text \<open>
  How the clients and the API fit together: paths and the router, errors, roles, bodies, and the
  reconnecting WebSocket.
\<close>

section \<open>Paths\<close>

text \<open>The router cuts a path at its slashes and decodes each segment once.\<close>

definition router :: "string \<Rightarrow> string list option" where
  "router path = those (map decodeURIComponent (split_on CHR ''/'' path))"

lemma hex_upper_no_slash: "n < 16 \<Longrightarrow> hex_upper n \<noteq> CHR ''/''"
proof
  assume "n < 16" "hex_upper n = CHR ''/''"
  then have "hex_value (CHR ''/'') = Some n" using hex_value_upper by metis
  moreover have "hex_value (CHR ''/'') = None" by code_simp
  ultimately show False by simp
qed

lemma percent_byte_clean: "n < 256 \<Longrightarrow> CHR ''/'' \<notin> set (percent_byte n)"
  using hex_upper_no_slash [of "n div 16"] hex_upper_no_slash [of "n mod 16"]
  by (auto simp: percent_byte_def less_mult_imp_div_less)

lemma encode_char_no_slash: "CHR ''/'' \<notin> set (encode_char c)"
proof -
  have n: "code c < 256" by (rule code_less)
  have "CHR ''/'' \<noteq> c" if "unreserved c"
    using that by (auto simp: unreserved_def is_alpha_def is_digit_def code_def)
  moreover have "code c div 64 < 4" "code c mod 64 < 64"
    using n by (simp_all add: less_mult_imp_div_less)
  then have "192 + code c div 64 < 256" "128 + code c mod 64 < 256"
    by linarith+
  ultimately show ?thesis
    using percent_byte_clean n by (auto simp: encode_char_def Let_def)
qed

lemma encode_no_slash: "CHR ''/'' \<notin> set (encodeURIComponent s)"
  using encode_char_no_slash by (auto simp: encodeURIComponent_def)

lemma decode_literal: "list_all (\<lambda>c. c \<noteq> CHR ''%'') s \<Longrightarrow> decodeURIComponent s = Some s"
  by (induction s) (auto simp: decodeURIComponent.simps(1) decode_plain)

text \<open>
  The history of a lock is found under its key. For every lock key without a percent sign,
  slashes and blanks included, the path that the dashboard asks for is routed to the history route with a
  parameter for which the handler, decoding it again, answers the ledger entries of just that key.
\<close>

theorem lock_history_round_trip:
  assumes "CHR ''%'' \<notin> set k" "admit x ae (Some viewer) q s = (Sent p, a)"
  shows "\<exists>param. router (hq_path (api_lockHistory k)) = Some [[], ''locks'', param, ''history'']
    \<and> route_history x ae q param s = Some (Sent (getHistory k 50 (a_world a)), a)"
proof -
  have "split_on CHR ''/'' (hq_path (api_lockHistory k)) = [[], ''locks'', encodeURIComponent k, ''history'']"
    using split_on_slash [of "CHR ''/''" "encodeURIComponent k" "''history''"] split_on_no_sep [OF encode_no_slash [of k]]
    by (simp add: api_lockHistory_def GET_def)
  then have "router (hq_path (api_lockHistory k)) = Some [[], ''locks'', k, ''history'']"
    by (simp add: router_def decode_encode decode_literal)
  moreover have "decodeURIComponent k = Some k"
    using assms(1) by (intro decode_literal) (auto simp: list_all_iff)
  ultimately show ?thesis using assms(2) by (simp add: route_history_def handle_def)
qed

section \<open>Errors\<close>

text \<open>The body of an error answer.\<close>

definition error_json :: "string option \<Rightarrow> string \<Rightarrow> json" where
  "error_json k m = JObj [(''error'', JObj (opt_member ''code'' JStr k @ [(''message'', JStr m)]))]"


section \<open>Roles\<close>

text \<open>
  What the dashboard offers to a role is what the API grants to it, except for the reclaim of a lock, which
  it offers to operators and the API grants to admins only.
\<close>

theorem dashboard_roles:
  "canAccess (role_text r) ''/dead-letter'' = hasMinRole r operator
   \<and> canAccess (role_text r) ''/audit'' = hasMinRole r admin
   \<and> canEnqueueJob (role_text r) = hasMinRole r operator
   \<and> canCreateProject (role_text r) = hasMinRole r admin
   \<and> canReclaimLock (role_text r) = hasMinRole r operator"
  by (cases r) (simp_all add: canAccess_def ROUTE_MIN_ROLE_def roleRank_def or_default_def role_text_def hasMinRole_def
      canEnqueueJob_def canCreateProject_def canReclaimLock_def)

theorem offered_reclaim_refused:
  assumes "authenticate x ae q s = (Granted p, a)" "ap_role p = operator"
  shows "canReclaimLock (role_text (ap_role p))
    \<and> route_reclaim x ae e n q body s = Some (Refused 403 ''E015'' ''Requires role admin'', a)"
  using assms
  by (simp add: canReclaimLock_def role_text_def route_reclaim_def handle_def admit_def guarded_def requireRole_def
      hasMinRole_def)

section \<open>Bodies\<close>

text \<open>
  The server parses a body before the hooks run. Its parser of JSON, a parameter, rejects a request that
  announces JSON and has no body; the client announces JSON always.
\<close>

definition parsed_body :: "(http_request \<Rightarrow> json option outcome) \<Rightarrow> http_request
    \<Rightarrow> (json option \<Rightarrow> 's \<Rightarrow> 'b reply \<times> 's) \<Rightarrow> 's \<Rightarrow> 'b reply \<times> 's" where
  "parsed_body parser q route s = (case parser q of Throw er \<Rightarrow> (Failure er, s) | Ret b \<Rightarrow> route b s)"

definition empty_json_body :: js_error where
  "empty_json_body = JsError (Some 400) (Some ''FST_ERR_CTP_EMPTY_JSON_BODY'')
     (''Body cannot be empty when content-type is set to '' @ [CHR 0x27] @ ''application/json'' @ [CHR 0x27])"

theorem logout_rejected:
  assumes "\<And>q. hq_method q = ''POST'' \<Longrightarrow> hq_body q = None \<Longrightarrow> parser q = Throw empty_json_body"
  shows "parsed_body parser api_logout (\<lambda>_. route_logout x ae q) s = (Failure empty_json_body, s)"
    and "parsed_body parser (api_retryDeadLetter i) route s' = (Failure empty_json_body, s')"
    and "parsed_body parser (api_reconcileProjectUids i) route s' = (Failure empty_json_body, s')"
  using assms by (simp_all add: parsed_body_def api_logout_def api_retryDeadLetter_def api_reconcileProjectUids_def POST_def)

section \<open>The WebSocket of the dashboard\<close>

definition hook_inv :: "hook \<Rightarrow> bool" where
  "hook_inv h =
     ((hk_timer h \<noteq> None \<longrightarrow> hk_socket h = NoSocket) \<and> (hk_closed h \<longrightarrow> hk_timer h = None)
      \<and> (\<not> hk_closed h \<and> hk_socket h = NoSocket \<longrightarrow> hk_timer h \<noteq> None)
      \<and> (\<forall>d. hk_timer h = Some d \<longrightarrow> 1000 \<le> d \<and> d \<le> 30000))"

lemma backoff_range: "1000 \<le> backoff n" "backoff n \<le> 30000"
  by (simp_all add: backoff_def)

lemma hook_step_inv: "hook_inv h \<Longrightarrow> hook_inv (snd (hook_step url ids ev h))"
  using backoff_range
  by (cases ev) (auto simp: hook_inv_def hook_step_def connect_def split: option.splits)

lemma hook_run_inv: "hook_inv h \<Longrightarrow> hook_inv (snd (hook_run url ids evs h))"
proof (induction evs arbitrary: h)
  case (Cons ev evs)
  from Cons.IH [OF hook_step_inv [OF Cons.prems, of url ids ev]] show ?case by (auto simp: Let_def split: prod.splits)
qed simp

lemma closed_step:
  assumes "hk_closed h" "hook_inv h"
  shows "hk_closed (snd (hook_step url ids ev h)) \<and> Connect u \<notin> set (fst (hook_step url ids ev h))"
  using assms by (cases ev) (auto simp: hook_inv_def hook_step_def connect_def split: option.splits)

lemma closed_run:
  assumes "hk_closed h" "hook_inv h" shows "Connect u \<notin> set (fst (hook_run url ids evs h))"
  using assms
proof (induction evs arbitrary: h)
  case (Cons ev evs)
  from Cons.IH [of "snd (hook_step url ids ev h)"] closed_step [OF Cons.prems, of url ids ev u]
    hook_step_inv [OF Cons.prems(2), of url ids ev]
  show ?case by (auto simp: Let_def split: prod.splits)
qed simp

lemma hook_start_inv: "hook_inv (snd (hook_start url))"
  by (simp add: hook_start_def connect_def hook_inv_def)

text \<open>
  C35 (invariant). The dashboard's WebSocket comes back and stays single. Whatever the browser reports, a
  mounted hook without a socket has a timer between one and thirty seconds that will connect again, a timer
  runs only when there is no socket, and once the hook is unmounted no timer runs and none of the events
  that still arrive opens a connection.
\<close>

theorem websocket_reconnects:
  assumes "hook_run url ids evs (snd (hook_start url)) = (out, h)"
  shows "(\<not> hk_closed h \<and> hk_socket h = NoSocket \<longrightarrow> (\<exists>d. hk_timer h = Some d \<and> 1000 \<le> d \<and> d \<le> 30000
      \<and> Connect url \<in> set (fst (hook_step url ids TimerFired h))))
    \<and> (hk_timer h \<noteq> None \<longrightarrow> hk_socket h = NoSocket)
    \<and> hk_timer (snd (hook_step url ids Cleanup h)) = None
    \<and> Connect u \<notin> set (fst (hook_run url ids later (snd (hook_step url ids Cleanup h))))"
proof -
  have inv: "hook_inv h" using hook_run_inv [OF hook_start_inv [of url], of url ids evs] assms by simp
  have "Connect u \<notin> set (fst (hook_run url ids later (snd (hook_step url ids Cleanup h))))"
    by (rule closed_run [OF _ hook_step_inv [OF inv]]) (simp add: hook_step_def)
  with inv show ?thesis by (auto simp: hook_inv_def hook_step_def connect_def)
qed

section \<open>Instances\<close>

theorem lock_history_round_trip_witness:
  "\<exists>param. router (hq_path (api_lockHistory ''project:a/b c:generation''))
      = Some [[], ''locks'', param, ''history''] \<and> param = ''project:a/b c:generation''
    \<and> (\<exists>a. route_history auth_ext_example auth_env_example by_session param auth_example = Some (Sent [], a))"
proof -
  let ?k = "''project:a/b c:generation''"
  have "(case fst (admit auth_ext_example auth_env_example (Some viewer) by_session auth_example) of
      Sent _ \<Rightarrow> True | _ \<Rightarrow> False)" by code_simp
  then obtain p a where adm: "admit auth_ext_example auth_env_example (Some viewer) by_session auth_example = (Sent p, a)"
    by (cases "admit auth_ext_example auth_env_example (Some viewer) by_session auth_example") (auto split: reply.splits)
  have "ledger (a_world a) = []"
    using admit_frame(1) [OF adm] by (simp add: auth_example_def empty_lock_fields_def)
  moreover have "router (hq_path (api_lockHistory ?k)) = Some [[], ''locks'', ?k, ''history'']" by code_simp
  ultimately show ?thesis
    using lock_history_round_trip [OF _ adm, of ?k] by (auto simp: getHistory_def)
qed


theorem websocket_reconnects_witness:
  "\<exists>out h. hook_run ''u'' [] [Opened, SocketClosed] (snd (hook_start ''u'')) = (out, h) \<and> hk_timer h = Some 1000
     \<and> Connect ''u'' \<in> set (fst (hook_step ''u'' [] TimerFired h))"
proof -
  obtain out h where r: "hook_run ''u'' [] [Opened, SocketClosed] (snd (hook_start ''u'')) = (out, h)" by fastforce
  then have h: "hk_timer h = Some 1000" "hk_socket h = NoSocket" "\<not> hk_closed h"
    by (auto simp: hook_start_def connect_def hook_step_def backoff_def)
  with websocket_reconnects [OF r] r show ?thesis by blast
qed

end
