(* ===== verification/Migrations.thy ===== *)
theory Migrations
  imports World
begin

text \<open>
  \<open>db/migrate.ts\<close> and the transactions of \<open>db/pool.ts\<close>. A database is a value of any type. What the server
  answers to the commands of a transaction, the scripts of the migration directory and their execution are
  parameters; a command that throws leaves the transaction open until the rollback, which discards it.
\<close>

section \<open>Transactions\<close>

record tx_env =
  tx_begin :: "unit outcome"
  tx_commit :: "unit outcome"
  tx_rollback :: "unit outcome"

text \<open>What the caller sees of a transaction that ended: an error of the rollback replaces the first one.\<close>

definition end_transaction :: "tx_env \<Rightarrow> ('a \<times> 'd) outcome \<Rightarrow> 'd \<Rightarrow> 'a outcome \<times> 'd" where
  "end_transaction t r db =
     (case r of
        Ret (v, db1) \<Rightarrow> (Ret v, db1)
      | Throw er \<Rightarrow> (case tx_rollback t of Throw er' \<Rightarrow> (Throw er', db) | Ret _ \<Rightarrow> (Throw er, db)))"

definition committed :: "tx_env \<Rightarrow> 'a outcome \<times> 'd \<Rightarrow> ('a \<times> 'd) outcome" where
  "committed t r =
     (case r of
        (Throw er, _) \<Rightarrow> Throw er
      | (Ret v, db1) \<Rightarrow> (case tx_commit t of Throw er \<Rightarrow> Throw er | Ret _ \<Rightarrow> Ret (v, db1)))"

definition withTransaction :: "unit outcome \<Rightarrow> tx_env \<Rightarrow> ('d \<Rightarrow> 'a outcome \<times> 'd) \<Rightarrow> 'd \<Rightarrow> 'a outcome \<times> 'd" where
  "withTransaction conn t fn db =
     (case conn of
        Throw er \<Rightarrow> (Throw er, db)
      | Ret _ \<Rightarrow>
          end_transaction t
            (case tx_begin t of Throw er \<Rightarrow> Throw er | Ret _ \<Rightarrow> committed t (fn db)) db)"

theorem transaction_atomic:
  assumes "withTransaction conn t fn db = (r, db')"
  shows "throws r \<and> db' = db \<or> (\<exists>v. r = Ret v \<and> fn db = (Ret v, db'))"
  using assms
  by (auto simp: withTransaction_def end_transaction_def committed_def split: outcome.splits prod.splits)

section \<open>Migrations\<close>

text \<open>The table \<open>schema_migrations\<close>, if it exists, and everything else.\<close>

record 'd migration_db =
  md_applied :: "string list option"
  md_data :: 'd

record 'd migration_env =
  mv_connect :: "unit outcome"
  mv_create :: "unit outcome"
  mv_names :: "string list outcome"
  mv_read :: "string \<Rightarrow> string outcome"
  mv_exec :: "string \<Rightarrow> 'd \<Rightarrow> 'd outcome"
  mv_tx :: tx_env
  mv_end :: "unit outcome"

definition create_table :: "'d migration_db \<Rightarrow> 'd migration_db" where
  "create_table db = db\<lparr>md_applied := Some (or_default (md_applied db) [])\<rparr>"

definition applied :: "'d migration_db \<Rightarrow> string list" where
  "applied db = or_default (md_applied db) []"

definition migration_files :: "string list \<Rightarrow> string list" where
  "migration_files names = sort (filter (\<lambda>f. ends_with f ''.sql'') names)"

text \<open>The script and the row of \<open>schema_migrations\<close>, in one transaction. \<open>BEGIN\<close> stands before the \<open>try\<close>.\<close>

definition run_script :: "'d migration_env \<Rightarrow> string \<Rightarrow> string \<Rightarrow> 'd migration_db \<Rightarrow> unit outcome \<times> 'd migration_db" where
  "run_script v f sql db =
     (case mv_exec v sql (md_data db) of
        Throw er \<Rightarrow> (Throw er, db)
      | Ret d \<Rightarrow> (Ret (), db\<lparr>md_data := d, md_applied := Some (applied db @ [f])\<rparr>))"

definition apply_migration :: "'d migration_env \<Rightarrow> string \<Rightarrow> 'd migration_db \<Rightarrow> unit outcome \<times> 'd migration_db" where
  "apply_migration v f db =
     (case mv_read v f of
        Throw er \<Rightarrow> (Throw er, db)
      | Ret sql \<Rightarrow>
          (case tx_begin (mv_tx v) of
             Throw er \<Rightarrow> (Throw er, db)
           | Ret _ \<Rightarrow> end_transaction (mv_tx v) (committed (mv_tx v) (run_script v f sql db)) db))"

fun migrate_files :: "'d migration_env \<Rightarrow> string list \<Rightarrow> 'd migration_db \<Rightarrow> unit outcome \<times> 'd migration_db" where
  "migrate_files v [] db = (Ret (), db)"
| "migrate_files v (f # fs) db =
     (if f \<in> set (applied db) then migrate_files v fs db
      else case apply_migration v f db of
             (Throw er, db1) \<Rightarrow> (Throw er, db1)
           | (Ret _, db1) \<Rightarrow> migrate_files v fs db1)"

definition migrate_body :: "'d migration_env \<Rightarrow> 'd migration_db \<Rightarrow> unit outcome \<times> 'd migration_db" where
  "migrate_body v db =
     (case mv_create v of
        Throw er \<Rightarrow> (Throw er, db)
      | Ret _ \<Rightarrow>
          (case mv_names v of
             Throw er \<Rightarrow> (Throw er, create_table db)
           | Ret names \<Rightarrow> migrate_files v (migration_files names) (create_table db)))"

definition migrate :: "'d migration_env \<Rightarrow> 'd migration_db \<Rightarrow> unit outcome \<times> 'd migration_db" where
  "migrate v db =
     (case mv_connect v of
        Throw er \<Rightarrow> (Throw er, db)
      | Ret _ \<Rightarrow>
          let (r, db1) = migrate_body v db
          in (case mv_end v of Throw er \<Rightarrow> (Throw er, db1) | Ret _ \<Rightarrow> (r, db1)))"

definition migrate_exit :: "unit outcome \<Rightarrow> nat" where
  "migrate_exit r = (if throws r then 1 else 0)"

section \<open>Lemmas\<close>

lemma end_cases:
  assumes "end_transaction t (committed t q) db = (r, db1)"
  shows "throws r \<and> db1 = db \<or> (\<exists>v. r = Ret v \<and> q = (Ret v, db1))"
  using assms by (auto simp: end_transaction_def committed_def split: outcome.splits prod.splits)

lemma run_script_cases:
  assumes "run_script v f sql db = (Ret u, db1)"
  shows "\<exists>d. mv_exec v sql (md_data db) = Ret d \<and> db1 = db\<lparr>md_data := d, md_applied := Some (applied db @ [f])\<rparr>"
  using assms by (simp add: run_script_def split: outcome.splits)

lemma apply_cases:
  assumes "apply_migration v f db = (r, db1)"
  obtains (failed) "throws r" "db1 = db"
  | (success) sql d where "r = Ret ()" "mv_read v f = Ret sql" "mv_exec v sql (md_data db) = Ret d"
      "db1 = db\<lparr>md_data := d, md_applied := Some (applied db @ [f])\<rparr>"
proof (cases "mv_read v f")
  case (Throw er)
  then show ?thesis using assms by (intro failed) (auto simp: apply_migration_def)
next
  case (Ret sql)
  show ?thesis
  proof (cases "tx_begin (mv_tx v)")
    case (Throw er)
    with assms Ret have "r = Throw er" "db1 = db" by (simp_all add: apply_migration_def)
    then show ?thesis by (intro failed) simp_all
  next
    case (Ret u)
    then have "end_transaction (mv_tx v) (committed (mv_tx v) (run_script v f sql db)) db = (r, db1)"
      using assms \<open>mv_read v f = Ret sql\<close> by (simp add: apply_migration_def)
    from end_cases [OF this] show ?thesis
    proof (elim disjE exE conjE)
      assume "throws r" "db1 = db"
      then show ?thesis by (rule failed)
    next
      fix u assume r: "r = Ret u" "run_script v f sql db = (Ret u, db1)"
      from run_script_cases [OF this(2)] obtain d where
        "mv_exec v sql (md_data db) = Ret d" "db1 = db\<lparr>md_data := d, md_applied := Some (applied db @ [f])\<rparr>"
        by blast
      then show ?thesis using success [of sql d] r(1) \<open>mv_read v f = Ret sql\<close> by simp
    qed
  qed
qed

lemma applied_simps [simp]:
  "applied (db\<lparr>md_data := d, md_applied := Some fs\<rparr>) = fs"
  "applied (create_table db) = applied db" "create_table (create_table db) = create_table db"
  "md_data (create_table db) = md_data db"
  by (simp_all add: applied_def create_table_def or_default_def)

lemma applied_kept: "migrate_files v fs db = (r, db1) \<Longrightarrow> set (applied db) \<subseteq> set (applied db1)"
proof (induction fs arbitrary: db)
  case Nil
  then show ?case by simp
next
  case (Cons f fs)
  show ?case
  proof (cases "f \<in> set (applied db)")
    case True
    then show ?thesis using Cons by simp
  next
    case False
    obtain q db0 where a: "apply_migration v f db = (q, db0)" by fastforce
    from a show ?thesis
    proof (cases rule: apply_cases)
      case failed
      then show ?thesis using Cons.prems False a by (cases q) auto
    next
      case success
      then have "migrate_files v fs db0 = (r, db1)" using Cons.prems False a by simp
      then have "set (applied db0) \<subseteq> set (applied db1)" by (rule Cons.IH)
      then show ?thesis using success(4) by simp
    qed
  qed
qed

lemma table_kept: "migrate_files v fs db = (r, db1) \<Longrightarrow> create_table db = db \<Longrightarrow> create_table db1 = db1"
proof (induction fs arbitrary: db)
  case Nil
  then show ?case by simp
next
  case (Cons f fs)
  obtain q db0 where a: "apply_migration v f db = (q, db0)" by fastforce
  from a show ?case
  proof (cases rule: apply_cases)
    case failed
    then show ?thesis using Cons a by (cases q) (auto split: if_splits)
  next
    case success
    have "create_table db0 = db0" by (simp add: success(4) create_table_def or_default_def)
    then show ?thesis using Cons success(1) a by (auto split: if_splits)
  qed
qed

text \<open>What a run that ends without an error has recorded: every script once, in the order of the names.\<close>

lemma files_recorded:
  "migrate_files v fs db = (Ret (), db1) \<Longrightarrow> distinct fs \<Longrightarrow>
     applied db1 = applied db @ filter (\<lambda>f. f \<notin> set (applied db)) fs"
proof (induction fs arbitrary: db)
  case Nil
  then show ?case by simp
next
  case (Cons f fs)
  show ?case
  proof (cases "f \<in> set (applied db)")
    case True
    then show ?thesis using Cons by simp
  next
    case False
    obtain q db0 where a: "apply_migration v f db = (q, db0)" by fastforce
    from a show ?thesis
    proof (cases rule: apply_cases)
      case failed
      then show ?thesis using Cons.prems(1) False a by (cases q) auto
    next
      case success
      have "filter (\<lambda>g. g \<noteq> f \<and> g \<notin> set (applied db)) fs = filter (\<lambda>g. g \<notin> set (applied db)) fs"
        using Cons.prems(2) by (intro filter_cong) auto
      moreover have "migrate_files v fs db0 = (Ret (), db1)" using Cons.prems False a success(1) by simp
      ultimately show ?thesis using Cons.IH [of db0] Cons.prems(2) False success(4) by simp
    qed
  qed
qed

theorem migrations_recorded:
  assumes "migrate v db = (Ret (), db1)" and "mv_names v = Ret names" and "distinct names"
  shows "applied db1 = applied db @ filter (\<lambda>f. f \<notin> set (applied db)) (migration_files names)"
proof -
  have "migrate_files v (migration_files names) (create_table db) = (Ret (), db1)"
    using assms by (auto simp: migrate_def migrate_body_def split: outcome.splits prod.splits)
  then show ?thesis using files_recorded assms(3) by (fastforce simp: migration_files_def)
qed

section \<open>Interrupted runs\<close>

text \<open>A second environment in which the commands succeed, and which does what the first one did.\<close>

definition repaired :: "'d migration_env \<Rightarrow> 'd migration_env \<Rightarrow> bool" where
  "repaired v v' =
     (mv_connect v' = Ret () \<and> mv_create v' = Ret () \<and> mv_end v' = Ret ()
      \<and> tx_begin (mv_tx v') = Ret () \<and> tx_commit (mv_tx v') = Ret ()
      \<and> (\<forall>names. mv_names v = Ret names \<longrightarrow> mv_names v' = Ret names)
      \<and> (\<forall>f sql. mv_read v f = Ret sql \<longrightarrow> mv_read v' f = Ret sql)
      \<and> (\<forall>sql d d'. mv_exec v sql d = Ret d' \<longrightarrow> mv_exec v' sql d = Ret d'))"

lemma files_resume:
  assumes "repaired v v'"
  shows "migrate_files v fs db = (r, db1) \<Longrightarrow> migrate_files v' fs db1 = migrate_files v' fs db"
proof (induction fs arbitrary: db)
  case Nil
  then show ?case by simp
next
  case (Cons f fs)
  show ?case
  proof (cases "f \<in> set (applied db)")
    case True
    then have "migrate_files v fs db = (r, db1)" using Cons.prems by simp
    then show ?thesis using Cons.IH applied_kept [of v fs db r db1] True by auto
  next
    case False
    obtain q db0 where a: "apply_migration v f db = (q, db0)" by fastforce
    from a show ?thesis
    proof (cases rule: apply_cases)
      case failed
      then have "db1 = db" using Cons.prems False a by (cases q) auto
      then show ?thesis by simp
    next
      case success
      have rest: "migrate_files v fs db0 = (r, db1)" using Cons.prems False a success(1) by simp
      have "f \<in> set (applied db1)" using applied_kept [OF rest] success(4) by auto
      moreover have "apply_migration v' f db = (Ret (), db0)"
        using assms success
        by (simp add: repaired_def apply_migration_def end_transaction_def committed_def run_script_def)
      ultimately show ?thesis using Cons.IH [OF rest] False by simp
    qed
  qed
qed

text \<open>
  C19 (equivalence). A run of the migrations that was interrupted, by whatever failed (a script, a commit, the
  connection, the end of the process after one), can be repeated: once the commands succeed and the scripts
  that had succeeded still do the same, the repeated run ends with the same answer and the same database as
  if the interrupted run had not taken place.
\<close>

theorem migration_resumes:
  assumes "repaired v v'" and "mv_names v = Ret names" and "migrate v db = (r, db1)"
  shows "migrate v' db1 = migrate v' db"
proof (cases "migrate_body v db")
  case (Pair q db2)
  have db1: "db1 = db \<or> db1 = db2" using assms(3) Pair by (auto simp: migrate_def split: outcome.splits)
  have whole: "migrate v' d = migrate_files v' (migration_files names) (create_table d)" for d
    using assms(1,2) by (simp add: migrate_def migrate_body_def repaired_def split_beta)
  show ?thesis
  proof (cases "mv_create v")
    case (Throw er)
    then have "db2 = db" using Pair by (simp add: migrate_body_def)
    then show ?thesis using db1 by auto
  next
    case (Ret u)
    then have run: "migrate_files v (migration_files names) (create_table db) = (q, db2)"
      using Pair assms(2) by (simp add: migrate_body_def)
    have "create_table db2 = db2" using table_kept [OF run] by simp
    then show ?thesis using db1 files_resume [OF assms(1) run] by (auto simp: whole)
  qed
qed

text \<open>Two scripts, of which the second one fails at first.\<close>

definition migration_example :: "bool \<Rightarrow> nat list migration_env" where
  "migration_example ok =
     \<lparr>mv_connect = Ret (), mv_create = Ret (), mv_names = Ret [''2.sql'', ''README.md'', ''1.sql''],
      mv_read = (\<lambda>f. Ret f),
      mv_exec = (\<lambda>sql d. if sql = ''1.sql'' then Ret (d @ [1])
                          else if ok then Ret (d @ [2]) else Throw (JsError None None ''syntax error'')),
      mv_tx = \<lparr>tx_begin = Ret (), tx_commit = Ret (), tx_rollback = Ret ()\<rparr>, mv_end = Ret ()\<rparr>"

definition empty_db :: "nat list migration_db" where
  "empty_db = \<lparr>md_applied = None, md_data = []\<rparr>"

lemma example_files: "migration_files [''2.sql'', ''README.md'', ''1.sql''] = [''1.sql'', ''2.sql'']"
  by code_simp

theorem migration_resumes_witness:
  "snd (migrate (migration_example False) empty_db) = \<lparr>md_applied = Some [''1.sql''], md_data = [1]\<rparr>
   \<and> migrate (migration_example True) (snd (migrate (migration_example False) empty_db))
       = (Ret (), \<lparr>md_applied = Some [''1.sql'', ''2.sql''], md_data = [1, 2]\<rparr>)"
proof -
  note defs = migrate_def migrate_body_def migration_example_def empty_db_def example_files apply_migration_def
    end_transaction_def committed_def run_script_def create_table_def applied_def or_default_def
  have first: "migrate (migration_example False) empty_db
      = (Throw (JsError None None ''syntax error''), \<lparr>md_applied = Some [''1.sql''], md_data = [1]\<rparr>)"
    by (simp add: defs)
  have full: "migrate (migration_example True) empty_db
      = (Ret (), \<lparr>md_applied = Some [''1.sql'', ''2.sql''], md_data = [1, 2]\<rparr>)"
    by (simp add: defs)
  have "repaired (migration_example False) (migration_example True)"
    by (simp add: repaired_def migration_example_def)
  then have "migrate (migration_example True) \<lparr>md_applied = Some [''1.sql''], md_data = [1]\<rparr>
      = migrate (migration_example True) empty_db"
    by (rule migration_resumes [OF _ _ first]) (simp add: migration_example_def)
  then show ?thesis unfolding first full by simp
qed

end
