(* ===== verification/Worker_Queues.thy ===== *)
theory Worker_Queues
  imports Health_Worker Uid_Files Provision Merge_Outbox Uri Job_Steps
begin

text \<open>
  The BullMQ queues: their connection (\<open>workers/queues.ts\<close>), the jobs that \<open>scheduleRepeatableJobs\<close> and the job
  service put into them, and the workers of \<open>workers/health-worker.ts\<close> and \<open>workers/merge-outbox-worker.ts\<close>
  that take them. BullMQ is a parameter: \<open>add\<close> puts a job into the queues, \<open>known\<close> says whether a queue holds
  a job with that id, in whatever state. A URL is given as \<open>new URL\<close> parses it.
\<close>

section \<open>The connection\<close>

record RedisUrl =
  ru_protocol :: string
  ru_username :: string
  ru_password :: string
  ru_hostname :: string
  ru_port :: string
  ru_pathname :: string

record ConnectionOptions =
  co_host :: string
  co_port :: nat
  co_username :: "string option"
  co_password :: "string option"
  co_tls :: bool
  co_db :: "js_number option"

definition malformed_uri :: js_error where
  "malformed_uri = JsError None None ''URI malformed''"

definition decoded :: "string \<Rightarrow> string outcome" where
  "decoded s = (case decodeURIComponent s of None \<Rightarrow> Throw malformed_uri | Some t \<Rightarrow> Ret t)"

text \<open>\<open>/^\/(\d+)$/\<close>\<close>

definition db_index :: "string \<Rightarrow> js_number option" where
  "db_index p =
     (if starts_with p ''/'' \<and> tl p \<noteq> [] \<and> list_all is_digit (tl p) then Some (js_Number (tl p)) else None)"

text \<open>The members \<open>username\<close> and \<open>password\<close> as the conditions leave them.\<close>

definition credentials :: "RedisUrl \<Rightarrow> (string option \<times> string option) outcome" where
  "credentials url =
     (case (if ru_password url \<noteq> [] then (case decoded (ru_password url) of Throw er \<Rightarrow> Throw er | Ret t \<Rightarrow> Ret (Some t)) else Ret None) of
        Throw er \<Rightarrow> Throw er
      | Ret pw \<Rightarrow>
          if ru_username url \<noteq> [] \<and> ru_username url \<noteq> ''default''
          then (case decoded (ru_username url) of Throw er \<Rightarrow> Throw er | Ret u \<Rightarrow> Ret (Some u, pw))
          else if ru_username url = ''default'' \<and> ru_password url \<noteq> []
          then Ret (Some ''default'', pw)
          else Ret (None, pw))"

definition connection :: "(string \<Rightarrow> RedisUrl option) \<Rightarrow> string \<Rightarrow> ConnectionOptions outcome" where
  "connection parse redisUrl =
     (case parse redisUrl of
        None \<Rightarrow> Throw (JsError None (Some ''ERR_INVALID_URL'') ''Invalid URL'')
      | Some url \<Rightarrow>
          (case credentials url of
             Throw er \<Rightarrow> Throw er
           | Ret (user, pw) \<Rightarrow>
               Ret \<lparr>co_host = (if ru_hostname url \<noteq> [] then ru_hostname url else ''127.0.0.1''),
                    co_port = (if ru_port url \<noteq> [] then parse_nat (ru_port url)
                               else if ru_protocol url = ''rediss:'' then 6380 else 6379),
                    co_username = user, co_password = pw, co_tls = (ru_protocol url = ''rediss:''),
                    co_db = db_index (ru_pathname url)\<rparr>))"

section \<open>Jobs\<close>

datatype job_data =
    NoData
  | RunData string WorkerTier nat
  | DeadData string nat
  | RotateData string

record queue_job =
  qj_queue :: string
  qj_name :: string
  qj_data :: job_data
  qj_id :: string

datatype repeat_rule = Every nat | Cron string

text \<open>\<open>scheduleRepeatableJobs\<close>, with the URL of the configuration for the rotation.\<close>

definition scheduled :: "env_values \<Rightarrow> (queue_job \<times> repeat_rule) list" where
  "scheduled p =
     [(\<lparr>qj_queue = ''pgos-health'', qj_name = ''stale-lock-scan'', qj_data = NoData,
        qj_id = ''repeat-stale-lock-scan''\<rparr>, Every 15000),
      (\<lparr>qj_queue = ''pgos-health'', qj_name = ''dead-letter-escalate'', qj_data = NoData,
        qj_id = ''repeat-dlq-escalate''\<rparr>, Every (60 * 60 * 1000)),
      (\<lparr>qj_queue = ''pgos-health'', qj_name = ''redis-failover-check'', qj_data = NoData,
        qj_id = ''repeat-redis-failover''\<rparr>, Every 30000),
      (\<lparr>qj_queue = ''pgos-health'', qj_name = ''tier-b-probe'', qj_data = NoData,
        qj_id = ''repeat-tier-b-probe''\<rparr>, Every (5 * 60 * 1000)),
      (\<lparr>qj_queue = ''pgos-secret-rotation'', qj_name = ''rotate-agent-secrets'',
        qj_data = RotateData (env_text p ''AGENT_ROTATE_URL''), qj_id = ''repeat-secret-rotation''\<rparr>, Cron ''0 4 1 */3 *''),
      (\<lparr>qj_queue = ''pgos-parity'', qj_name = ''parity-stale-scan'', qj_data = NoData,
        qj_id = ''repeat-parity-stale-scan''\<rparr>, Every (6 * 60 * 60 * 1000)),
      (\<lparr>qj_queue = ''pgos-uid-reconcile'', qj_name = ''nightly-reconcile'', qj_data = NoData,
        qj_id = ''repeat-uid-nightly''\<rparr>, Cron ''0 3 * * *''),
      (\<lparr>qj_queue = ''pgos-merge-outbox'', qj_name = ''drain-pending'', qj_data = NoData,
        qj_id = ''repeat-merge-outbox-drain''\<rparr>, Every (5 * 60 * 1000))]"

text \<open>The jobs that \<open>job-service.ts\<close> adds, with their ids.\<close>

definition resolve_job :: "string \<Rightarrow> WorkerTier \<Rightarrow> nat \<Rightarrow> queue_job" where
  "resolve_job jobId tier attempt =
     \<lparr>qj_queue = ''pgos-dispatch'', qj_name = ''resolve-run'', qj_data = RunData jobId tier attempt,
      qj_id = ''resolve-'' @ jobId @ ''-'' @ show_nat attempt\<rparr>"

definition dead_letter_job :: "string \<Rightarrow> nat \<Rightarrow> queue_job" where
  "dead_letter_job jobId createdAt =
     \<lparr>qj_queue = ''pgos-dead-letter'', qj_name = ''dead-letter'', qj_data = DeadData jobId createdAt,
      qj_id = ''dlq-'' @ jobId\<rparr>"

definition deliver :: "('q \<Rightarrow> queue_job \<Rightarrow> 'q) \<Rightarrow> queue_add \<Rightarrow> 'q \<Rightarrow> 'q" where
  "deliver add a q =
     (case a of
        ResolveRun i tier n \<Rightarrow> add q (resolve_job i tier n)
      | DeadLetterEntry i t \<Rightarrow> add q (dead_letter_job i t)
      | OtherQueueJob _ _ \<Rightarrow> q)"

text \<open>The queues after the adds of the job service, of which the world keeps the newest first.\<close>

definition queues_after :: "('q \<Rightarrow> queue_job \<Rightarrow> 'q) \<Rightarrow> 'q \<Rightarrow> queue_add list \<Rightarrow> 'q" where
  "queues_after add q adds = foldr (deliver add) adds q"

section \<open>Workers\<close>

datatype worker_task = HealthTask health_job | NightlyUid | RotateSecrets string | DrainOutbox

text \<open>The task of a job by the queue it is in; a name that a worker does not know does nothing.\<close>

definition worker_of :: "queue_job \<Rightarrow> worker_task option" where
  "worker_of j =
     (let q = qj_queue j; name = qj_name j in
      if q = ''pgos-health'' then
        (if name = ''stale-lock-scan'' then Some (HealthTask StaleLockScan)
         else if name = ''dead-letter-escalate'' then Some (HealthTask DeadLetterEscalate)
         else if name = ''redis-failover-check'' then Some (HealthTask RedisFailoverCheck)
         else if name = ''tier-b-probe'' then Some (HealthTask TierBProbeJob)
         else None)
      else if q = ''pgos-dispatch'' \<and> name = ''resolve-run'' then
        (case qj_data j of RunData i tier _ \<Rightarrow> Some (HealthTask (ResolveRunJob i tier)) | _ \<Rightarrow> None)
      else if q = ''pgos-uid-reconcile'' \<and> name = ''nightly-reconcile'' then Some NightlyUid
      else if q = ''pgos-dead-letter'' \<and> name = ''dead-letter'' then
        (case qj_data j of DeadData i t \<Rightarrow> Some (HealthTask (DeadLetterJob i t)) | _ \<Rightarrow> None)
      else if q = ''pgos-secret-rotation'' \<and> name = ''rotate-agent-secrets'' then
        (case qj_data j of RotateData url \<Rightarrow> Some (RotateSecrets url) | _ \<Rightarrow> Some (RotateSecrets []))
      else if q = ''pgos-parity'' \<and> name = ''parity-stale-scan'' then Some (HealthTask ParityStaleScan)
      else if q = ''pgos-merge-outbox'' \<and> name = ''drain-pending'' then Some DrainOutbox
      else None)"

text \<open>The components that the workers call keep their own tables and share the world.\<close>

record worker_env =
  wq_health :: health_env
  wq_uid :: uid_env
  wq_provision :: provision_ext
  wq_values :: env_values
  wq_merge :: merge_env

record worker_state =
  wk_health :: health_state
  wk_uid :: uid_state
  wk_posts :: "HttpPost list"
  wk_merge :: merge_state

definition wk_world :: "worker_state \<Rightarrow> world" where
  "wk_world s = hs_world (wk_health s)"

definition set_wk_world :: "world \<Rightarrow> worker_state \<Rightarrow> worker_state" where
  "set_wk_world w s = s\<lparr>wk_health := (wk_health s)\<lparr>hs_world := w\<rparr>\<rparr>"

definition wk_beat :: "string \<Rightarrow> worker_state \<Rightarrow> worker_state" where
  "wk_beat name s = s\<lparr>wk_health := beat name (wk_health s)\<rparr>"

definition run_nightly :: "worker_env \<Rightarrow> worker_state \<Rightarrow> unit outcome \<times> worker_state" where
  "run_nightly x s =
     (let (r, u) = nightlyUidReconcile (wq_uid x) ((wk_uid s)\<lparr>u_world := wk_world s\<rparr>)
      in (r, set_wk_world (u_world u) (s\<lparr>wk_uid := u\<rparr>)))"

definition run_rotation :: "worker_env \<Rightarrow> string \<Rightarrow> worker_state \<Rightarrow> unit outcome \<times> worker_state" where
  "run_rotation x url s =
     (if url = [] then (Ret (), wk_beat ''secret-rotation'' s)
      else case rotateAgentSecrets (wq_provision x) (wq_values x) url
                  \<lparr>ps_world = wk_world s, ps_posts = wk_posts s\<rparr> of
             (Throw er, v) \<Rightarrow> (Throw er, set_wk_world (ps_world v) (s\<lparr>wk_posts := ps_posts v\<rparr>))
           | (Ret _, v) \<Rightarrow>
               (Ret (), wk_beat ''secret-rotation'' (set_wk_world (ps_world v) (s\<lparr>wk_posts := ps_posts v\<rparr>))))"

definition run_drain :: "worker_env \<Rightarrow> worker_state \<Rightarrow> unit outcome \<times> worker_state" where
  "run_drain x s =
     (let (r, m) = drain_pending (wq_merge x) ((wk_merge s)\<lparr>mg_world := wk_world s\<rparr>)
      in (Ret (), set_wk_world (mg_world m) (s\<lparr>wk_merge := m\<rparr>)))"

definition run_health :: "worker_env \<Rightarrow> nat \<Rightarrow> health_job \<Rightarrow> worker_state \<Rightarrow> (unit outcome \<times> worker_state) option" where
  "run_health x n j s =
     (case process_job (wq_health x) n j (wk_health s) of
        None \<Rightarrow> None | Some (r, h) \<Rightarrow> Some (r, s\<lparr>wk_health := h\<rparr>))"

fun run_task :: "worker_env \<Rightarrow> nat \<Rightarrow> worker_task \<Rightarrow> worker_state \<Rightarrow> (unit outcome \<times> worker_state) option" where
  "run_task x n (HealthTask j) s = run_health x n j s"
| "run_task x n NightlyUid s = Some (run_nightly x s)"
| "run_task x n (RotateSecrets url) s = Some (run_rotation x url s)"
| "run_task x n DrainOutbox s = Some (run_drain x s)"

definition work :: "worker_env \<Rightarrow> nat \<Rightarrow> queue_job \<Rightarrow> worker_state \<Rightarrow> (unit outcome \<times> worker_state) option" where
  "work x n j s = (case worker_of j of None \<Rightarrow> Some (Ret (), s) | Some t \<Rightarrow> run_task x n t s)"

end
