(* ===== verification/Worker_Claims.thy ===== *)
theory Worker_Claims
  imports Worker_Queues
begin

text \<open>
  Which jobs of the queues reach a worker: all that are scheduled or added, but not a second job with the id
  of one that is still kept, which is what a retried job gets.
\<close>

section \<open>Workers\<close>

theorem every_job_has_worker:
  "list_all (\<lambda>(j, _). worker_of j \<noteq> None) (scheduled p)"
  "worker_of (resolve_job i tier n) = Some (HealthTask (ResolveRunJob i tier))"
  "worker_of (dead_letter_job i t) = Some (HealthTask (DeadLetterJob i t))"
  by (simp_all add: scheduled_def worker_of_def resolve_job_def dead_letter_job_def Let_def)

theorem rotation_beat_without_rotation:
  assumes "env_text p ''AGENT_ROTATE_URL'' = []" and "(j, r) \<in> set (scheduled p)"
    and "qj_queue j = ''pgos-secret-rotation''"
  shows "work x n j s = Some (Ret (), wk_beat ''secret-rotation'' s)"
proof -
  have "worker_of j = Some (RotateSecrets [])"
    using assms by (auto simp: scheduled_def worker_of_def Let_def)
  then show ?thesis by (simp add: work_def run_rotation_def)
qed

section \<open>The password of Redis\<close>

theorem redis_password_read_back:
  assumes "parse u = Some url" and "ru_password url = encodeURIComponent pw" and "pw \<noteq> []"
    and "ru_username url = [] \<or> ru_username url = ''default''"
  shows "\<exists>c. connection parse u = Ret c \<and> co_password c = Some pw"
proof -
  have "encodeURIComponent pw \<noteq> []"
    using assms(3) by (cases pw) (auto simp: encodeURIComponent_def encode_char_def Let_def percent_byte_def)
  then show ?thesis
    using assms by (auto simp: connection_def credentials_def decoded_def decode_encode)
qed

section \<open>Ids of jobs\<close>

text \<open>What BullMQ documents of a job with an id: it is not added while the queue holds one with that id.\<close>

definition ignores_known :: "('q \<Rightarrow> string \<Rightarrow> string \<Rightarrow> bool) \<Rightarrow> ('q \<Rightarrow> queue_job \<Rightarrow> 'q) \<Rightarrow> bool" where
  "ignores_known known add =
     (\<forall>q j. (known q (qj_queue j) (qj_id j) \<longrightarrow> add q j = q) \<and> known (add q j) (qj_queue j) (qj_id j)
            \<and> (\<forall>k i. known q k i \<longrightarrow> known (add q j) k i))"

lemma known_after:
  assumes "ignores_known known add" and "known q k i"
  shows "known (queues_after add q adds) k i"
  using assms by (induction adds) (auto simp: queues_after_def deliver_def ignores_known_def split: queue_add.splits)

lemma added_known:
  assumes law: "ignores_known known add" and "a \<in> set adds"
    and "a = ResolveRun i tier n \<and> j = resolve_job i tier n \<or> a = DeadLetterEntry i t \<and> j = dead_letter_job i t"
  shows "known (queues_after add q adds) (qj_queue j) (qj_id j)"
  using assms(2)
proof (induction adds)
  case Nil
  then show ?case by simp
next
  case (Cons b adds)
  show ?case
  proof (cases "b = a")
    case True
    then show ?thesis using assms(3) law by (auto simp: queues_after_def deliver_def ignores_known_def)
  next
    case False
    then have "known (queues_after add q adds) (qj_queue j) (qj_id j)" using Cons by simp
    from known_after [OF law this, of "[b]"] show ?thesis by (simp add: queues_after_def)
  qed
qed

text \<open>
  A job that is dead-lettered again after a retry: the entry has the id of the first one, which the queue
  keeps, and no consumer gets it.
\<close>

theorem second_dead_letter_ignored:
  assumes "ignores_known known add" and "DeadLetterEntry i t0 \<in> set adds"
  shows "queues_after add q (DeadLetterEntry i t # adds) = queues_after add q adds"
proof -
  have "known (queues_after add q adds) ''pgos-dead-letter'' (''dlq-'' @ i)"
    using added_known [OF assms(1,2), of i TierA 0 "dead_letter_job i t0" t0 q]
    by (simp add: dead_letter_job_def)
  then show ?thesis
    using assms(1) by (simp add: queues_after_def deliver_def ignores_known_def dead_letter_job_def)
qed

section \<open>Retried dead letters\<close>

lemma draw_queue: "queue_adds (snd (draw f w)) = queue_adds w"
  by (simp add: draw_def)

lemma envelope_queue: "queue_adds (snd (createEnvelope x i en ttl w)) = queue_adds w"
  by (simp add: createEnvelope_eq Let_def draw_queue)

lemma mint_queue: "queue_adds (snd (mintCallbackToken e x i w)) = queue_adds w"
  by (simp add: mintCallbackToken_def draw_eq Let_def)

lemma pre_start_queue: "queue_adds (snd (failDispatchPreStart i lk t d w)) = queue_adds w"
  by (simp add: failDispatchPreStart_def release_target_def frames)

definition queue_step :: "Job \<Rightarrow> world \<Rightarrow> world \<Rightarrow> bool" where
  "queue_step job w w' =
     (queue_adds w' = queue_adds w
      \<or> (\<exists>tier. queue_adds w' = ResolveRun (j_id job) tier (j_attempt job) # queue_adds w))"

lemma start_queue: "queue_step job w (snd (dispatch_start x job tier token lk target cb en w))"
proof -
  obtain jwe ref w1 where env: "createEnvelope x (j_id job) en 300000 w = ((jwe, ref), w1)"
    by (metis prod.exhaust)
  then have "queue_adds w1 = queue_adds w" using envelope_queue [of x "j_id job" en 300000 w] by simp
  then show ?thesis
    by (auto simp: queue_step_def dispatch_start_def env Let_def draw_eq frames enqueuePriority_def split: option.splits)
qed

lemma queue_step_from: "queue_adds w1 = queue_adds w \<Longrightarrow> queue_step job w1 w' \<Longrightarrow> queue_step job w w'"
  by (simp add: queue_step_def)

lemma queue_step_same: "queue_adds w' = queue_adds w \<Longrightarrow> queue_step job w w'"
  by (simp add: queue_step_def)

lemma locked_queue: "queue_step job w (snd (dispatch_locked e x job project tier token lk target w))"
proof -
  obtain cb w1 where mint: "mintCallbackToken e x (j_id job) w = (cb, w1)" by fastforce
  then have w1: "queue_adds w1 = queue_adds w" using mint_queue [of e x "j_id job" w] by simp
  show ?thesis
  proof (cases "resolveCrossMachineProvision (j_commitStrategy job) (j_metadata job)")
    case NotCrossMachine
    then show ?thesis using start_queue w1 by (simp add: dispatch_locked_def mint queue_step_from)
  next
    case (CrossFail d)
    then show ?thesis using w1 by (simp add: dispatch_locked_def mint queue_step_same pre_start_queue)
  next
    case (Provision host url)
    then show ?thesis
      using w1
      by (auto simp: dispatch_locked_def mint draw_eq Let_def pre_start_queue split: prod.splits
          intro!: queue_step_same queue_step_from [OF _ start_queue])
  qed
qed

lemma block_queue: "queue_adds (block_job i m w) = queue_adds w"
  by (simp add: block_job_def frames)

lemma acquire_queue:
  fixes w :: world
  assumes "acquire f k p ttl i m w = (a, w1)"
  shows "queue_adds w1 = queue_adds w"
  using acquire_frame(9) [of f k p ttl i m w] assms by simp

lemma dispatch_queue: "queue_step job w (snd (dispatch_acquire e x job pref w))"
  by (auto simp: dispatch_acquire_def Let_def block_queue frames dest!: acquire_queue
      split: option.splits prod.splits outcome.splits AcquireResult.splits
      intro: queue_step_same queue_step_from [OF _ locked_queue])

lemma attempt_queue:
  assumes "dispatch_attempt e x i pref w = (r, w')"
  shows "queue_adds w' = queue_adds w
    \<or> (\<exists>job tier. getById i w = Some job \<and> queue_adds w' = ResolveRun i tier (j_attempt job) # queue_adds w)"
proof (cases "getById i w")
  case None
  then show ?thesis using assms by (auto simp: dispatch_attempt_def)
next
  case (Some job)
  then have "j_id job = i" by (simp add: getById_Some)
  moreover have "queue_step job w w'"
    using assms Some dispatch_queue [of job w e x pref]
    by (auto simp: dispatch_attempt_def block_queue split: if_splits DependencyGate.splits intro: queue_step_same)
  ultimately show ?thesis using Some by (auto simp: queue_step_def)
qed

text \<open>The world in which \<open>retryDeadLetter\<close> dispatches the job.\<close>

definition retry_world :: "string \<Rightarrow> world \<Rightarrow> world" where
  "retry_world jobId w =
     set_job jobId (\<lambda>j. j\<lparr>j_status := QUEUED, j_attempt := 1, j_errorCode := None,
       j_errorDetail := None, j_completedAt := None, j_updatedAt := now w\<rparr>)
       (w\<lparr>dead_letters := map (\<lambda>d. if dl_jobId d = jobId then d\<lparr>dl_archivedAt := Some (now w)\<rparr>
                                    else d) (dead_letters w)\<rparr>)"

text \<open>
  A job that an admin or operator retries from the dead letters starts with attempt 1 again, so the id of
  the job that resolves its run is the one of its first dispatch; as long as the queue keeps that one (it
  keeps the last hundred), the run of the retried job is resolved by nobody.
\<close>

theorem retried_run_not_resolved:
  assumes law: "ignores_known known add"
    and first: "ResolveRun i tier 1 \<in> set (queue_adds w)"
    and start: "dispatch_attempt e x i None (retry_world i w) = (Returned, w')"
  shows "retryDeadLetter e x (Suc n) i w = Some (Ret (getById i w'), w')
    \<and> queues_after add q (queue_adds w') = queues_after add q (queue_adds w)"
proof -
  have retry: "retryDeadLetter e x (Suc n) i w = Some (Ret (getById i w'), w')"
    using start by (simp add: retryDeadLetter_def retry_world_def Let_def)
  have kept: "queue_adds (retry_world i w) = queue_adds w" by (simp add: retry_world_def frames)
  have one: "j_attempt job = 1" if "getById i (retry_world i w) = Some job" for job
    using that by (auto simp: retry_world_def getById_jobs frames set_row_same dest!: row_by_Some)
  have "known (queues_after add q (queue_adds w)) ''pgos-dispatch'' (qj_id (resolve_job i tier 1))"
    using added_known [OF law first, of i tier 1 "resolve_job i tier 1" 0 q] by (simp add: resolve_job_def)
  then have "queues_after add q (ResolveRun i t 1 # queue_adds w) = queues_after add q (queue_adds w)" for t
    using law by (simp add: queues_after_def deliver_def ignores_known_def resolve_job_def)
  then show ?thesis
    using attempt_queue [OF start] kept one retry by fastforce
qed

end
