(* ===== verification/Worker_Safety.thy ===== *)
theory Worker_Safety
  imports Worker_Queues Health_Claims Merge_Claims Uid_Claims
begin

text \<open>
  Whatever jobs the queues hold, their workers end and lose no row of the job table. The scan for stale
  locks and the resolution of runs move jobs; the other workers leave them alone.
\<close>

section \<open>The nightly run leaves the jobs alone\<close>

lemma u_draw_jobs [simp]: "jobs (u_world (snd (u_draw f s))) = jobs (u_world s)"
  by (simp add: u_draw_def draw_def)

lemma u_upd_jobs [simp]:
  "jobs (u_world (u_upd (audit a) s)) = jobs (u_world s)"
  "jobs (u_world (u_upd (sendAlert e al) s)) = jobs (u_world s)"
  "jobs (u_world (reconcile_audit p d s)) = jobs (u_world s)"
  by (simp_all add: u_upd_def reconcile_audit_def audit_def frames)

lemma resolve_rows_jobs: "jobs (u_world (snd (resolve_rows x u ps rows res s))) = jobs (u_world s)"
proof (induction rows arbitrary: res s)
  case (Cons row rows)
  show ?case
    using u_draw_jobs [of "ux_hex x" s] by (simp add: Cons.IH u_set_row_def split_beta Let_def)
qed simp

lemma resolve_groups_jobs: "jobs (u_world (snd (resolve_groups x p gs res s))) = jobs (u_world s)"
proof (induction gs arbitrary: res s)
  case (Cons g gs)
  then show ?case by (simp add: split_beta resolve_group_def resolve_rows_jobs Let_def)
qed simp

lemma resolve_tables_jobs: "jobs (u_world (snd (resolve_tables x p s))) = jobs (u_world s)"
  by (simp add: resolve_tables_def split_beta Let_def resolve_groups_jobs)

lemma apply_files_world: "u_world (snd (apply_files x rt m rels acc s)) = u_world s"
  by (induction rels arbitrary: acc s) (simp_all add: Let_def split_beta split: option.splits)

lemma replacements_world: "u_world (snd (applyUidReplacements x rt m s)) = u_world s"
  by (simp add: applyUidReplacements_def apply_files_world)

lemma reimport_jobs: "jobs (u_world (snd (runGodotReimport x rt s))) = jobs (u_world s)"
  by (simp add: runGodotReimport_def split_beta)

lemma remote_jobs: "jobs (u_world (snd (dispatchUidReconcile x p rt m meta s))) = jobs (u_world s)"
proof -
  obtain pe s1 where a: "u_draw (ux_put_error x) s = (pe, s1)" by fastforce
  have s1: "jobs (u_world s1) = jobs (u_world s)" using u_draw_jobs [of "ux_put_error x" s] a by simp
  show ?thesis
    by (auto simp: dispatchUidReconcile_def a s1 Let_def split_beta split: option.splits sum.splits)
qed

lemma project_files_jobs: "jobs (u_world (snd (reconcileProjectFiles x p rt m g meta s))) = jobs (u_world s)"
proof (cases "ux_tree x rt")
  case None
  then show ?thesis
    using remote_jobs [of x p rt m meta s]
    by (auto simp: reconcileProjectFiles_def split: prod.splits outcome.splits)
next
  case (Some es)
  obtain r s1 where a: "applyUidReplacements x rt m s = (r, s1)" by fastforce
  have s1: "u_world s1 = u_world s" using replacements_world [of x rt m s] a by simp
  show ?thesis
    using reimport_jobs [of x rt s1] Some
    by (auto simp: reconcileProjectFiles_def a s1 Let_def split: prod.splits outcome.splits)
qed

lemma auto_jobs: "jobs (u_world (snd (autoResolveDuplicates x p rt g md s))) = jobs (u_world s)"
proof -
  obtain res s1 where a: "resolve_tables x p s = (res, s1)" by fastforce
  have s1: "jobs (u_world s1) = jobs (u_world s)" using resolve_tables_jobs [of x p s] a by simp
  have after: "jobs (u_world (snd (reconcileProjectFilesAfterFix x p r m g md s1))) = jobs (u_world s)" for r m
    using project_files_jobs [of x p r m g "case md of Some d \<Rightarrow> d | None \<Rightarrow> or_default (u_meta s1 p) []" s1] s1
    by (auto simp: reconcileProjectFilesAfterFix_def Let_def split: prod.splits outcome.splits)
  show ?thesis
    using after [of "the rt" "ur_replacements res"] s1
    by (auto simp: autoResolveDuplicates_def a Let_def split: prod.splits outcome.splits)
qed

lemma nightly_jobs: "jobs (u_world (snd (nightlyUidReconcile x s))) = jobs (u_world s)"
proof -
  have "jobs (u_world (snd (nightly_projects x ps s))) = jobs (u_world s)" for ps s
  proof (induction ps arbitrary: s)
    case (Cons p ps)
    then show ?case
      using auto_jobs [of x "pr_id p" "if truthy (pr_projectRoot p) then pr_projectRoot p else None" "Some True"
          "Some (or_default (u_meta s (pr_id p)) [])" s]
      by (auto simp: nightly_alerts_def Let_def split: prod.splits outcome.splits)
  qed simp
  then show ?thesis by (simp add: nightlyUidReconcile_def)
qed

section \<open>The drain and the rotation leave the jobs alone\<close>

lemma upd_world_jobs [simp]:
  "jobs (mg_world (outbox_alert x t v b c p s)) = jobs (mg_world s)"
  "jobs (mg_world (outbox_audit a i meta s)) = jobs (mg_world s)"
  "jobs (mg_world (markFailed i d s)) = jobs (mg_world s)"
  "jobs (mg_world (markApplied i ov h s)) = jobs (mg_world s)"
  "jobs (mg_world (markDispatched x i d s)) = jobs (mg_world s)"
  by (simp_all add: outbox_alert_def outbox_audit_def audit_as_def upd_world_def audit_def frames markFailed_def
      markApplied_def markDispatched_def upd_outbox_def)

lemma apply_scene_world: "mg_world (snd (applyTscnToFilesystem x rt p patch s)) = mg_world s"
  by (auto simp: applyTscnToFilesystem_def Let_def split: outcome.splits option.splits)

lemma local_jobs: "jobs (mg_world (snd (process_local x row rt s))) = jobs (mg_world s)"
  using apply_scene_world [of x rt "mp_path row" "mp_patch row" s]
  by (auto simp: process_local_def Let_def split: prod.splits outcome.splits)

lemma ssh_jobs: "jobs (snd (merge_ssh x row u h w)) = jobs w"
  by (simp add: merge_ssh_def draw_def Let_def split_beta split: option.splits)

lemma direct_jobs: "jobs (snd (createDirectDispatchJwe x s p t w)) = jobs w"
  by (simp add: createDirectDispatchJwe_def draw_def Let_def split_beta)

lemma envelope_jobs: "jobs (snd (buildMergeApplyDispatchEnvelope x row rt u k w)) = jobs w"
  using ssh_jobs [of x row] direct_jobs [of "mx_ext x"]
  by (auto simp: buildMergeApplyDispatchEnvelope_def Let_def split_beta split: outcome.splits option.splits)

lemma attempt_jobs: "jobs (mg_world (snd (remote_attempt x row rt s))) = jobs (mg_world s)"
proof (cases "mx_putError x (outbox_s3_key row)")
  case (Some msg)
  then show ?thesis by (simp add: remote_attempt_def Let_def)
next
  case None
  let ?k = "outbox_s3_key row"
  obtain b w where b: "buildMergeApplyDispatchEnvelope x row rt (x_presignGet (mx_ext x) ?k) ?k (mg_world s) = (b, w)"
    by force
  have "jobs w = jobs (mg_world s)"
    using envelope_jobs [of x row rt "x_presignGet (mx_ext x) ?k" ?k "mg_world s"] b by simp
  with None b show ?thesis by (auto simp: remote_attempt_def Let_def split: outcome.splits option.splits)
qed

lemma process_row_jobs: "jobs (mg_world (snd (processMergeOutboxRow x row s))) = jobs (mg_world s)"
proof -
  have "jobs (mg_world (snd (process_remote x row rt s))) = jobs (mg_world s)" for rt
    using attempt_jobs [of x row "remote_root row rt" s]
    by (auto simp: process_remote_def Let_def split: prod.splits outcome.splits)
  then show ?thesis by (simp add: processMergeOutboxRow_def Let_def local_jobs)
qed

lemma drain_jobs: "jobs (mg_world (snd (drain_pending x s))) = jobs (mg_world s)"
proof -
  have "jobs (mg_world (snd (process_rows x rs s))) = jobs (mg_world s)" for rs
    by (induction rs arbitrary: s) (simp_all add: Let_def split_beta process_row_jobs)
  then show ?thesis by (simp add: drain_pending_def processPendingMergeOutbox_def Let_def split_beta)
qed

lemma rotate_jobs: "jobs (ps_world (snd (rotateAgentSecrets x p u v))) = jobs (ps_world v)"
proof -
  have "jobs (ps_world (snd (provisionHttpPost x u b hs m v))) = jobs (ps_world v)" for b hs m
    by (auto simp: provisionHttpPost_def http_send_def draw_def Let_def split: option.splits)
  then show ?thesis
    by (auto simp: rotateAgentSecrets_def ps_audit_def audit_def Let_def dest: sym split: prod.splits outcome.splits)
      (metis snd_conv)+
qed

section \<open>The health worker\<close>

lemma escalated_jobs: "jobs (snd (escalateUnresolvedDeadLetters e w)) = jobs w"
proof -
  have "jobs (snd (escalate_rows e t rows w)) = jobs w" for t rows
    by (induction rows arbitrary: w)
      (auto simp: Let_def split_beta set_dead_letter_def escalateDeadLetter_def frames split: option.splits)
  then show ?thesis by (simp add: escalateUnresolvedDeadLetters_def Let_def split_beta)
qed

lemma event_jobs: "jobs (snd (processDeadLetterEvent e i t w)) = jobs w"
  by (simp add: processDeadLetterEvent_def Let_def frames split: option.splits)

lemma failover_jobs: "jobs (snd (checkRedisFailover x w)) = jobs w"
  using rotate_frame(2) [of "x_uuid x (nonce w)" w]
  by (auto simp: checkRedisFailover_def Let_def ensureInstanceId_def split: prod.splits outcome.splits option.splits)

lemma probe_jobs: "jobs (hs_world (snd (probeTierB h s))) = jobs (hs_world s)"
  by (auto simp: probeTierB_def beat_def recordProbe_def set_tier_def Let_def frames split: outcome.splits)

lemma parity_jobs: "jobs (hs_world (scanParityStale h s)) = jobs (hs_world s)"
  by (simp add: scanParityStale_def beat_def Let_def frames)

lemma resolve_returns:
  assumes ids: "ids_distinct w" and n: "scan_bound w \<le> n"
  shows "\<exists>r w'. resolveDispatch h n i tier w = Some (r, w') \<and> later_jobs w w'"
proof -
  have upd: "\<exists>r w'. run (hx_env h) (hx_ext h) n (UpdateStatus i u False) w = Some (r, w') \<and> later_jobs w w'" for u
    by (rule run_later [OF ids n, of "UpdateStatus i u False"]) auto
  show ?thesis
  proof (cases "getById i w")
    case None
    then show ?thesis by (simp add: resolveDispatch_def Let_def later_refl)
  next
    case (Some job)
    show ?thesis
    proof (cases "resolveRunId (hx_github h) i (env_DISPATCH_TIMEOUT_MS (hx_env h)) (hx_polls h) w")
      case (Throw err)
      then show ?thesis using Some by (simp add: resolveDispatch_def Let_def later_refl)
    next
      case (Ret found)
      define u where "u = (case found of Some k \<Rightarrow> staging_update k | None \<Rightarrow> timeout_update (hx_env h) tier)"
      obtain r w' where r: "run (hx_env h) (hx_ext h) n (UpdateStatus i u False) w = Some (r, w')" "later_jobs w w'"
        using upd by blast
      have "later_jobs w (sendAlert e a w')" for e a by (rule later_trans [OF r(2) later_alert])
      then show ?thesis
        using Some Ret r later_refl [of w w]
        by (cases r; cases found) (auto simp: resolveDispatch_def Let_def u_def split: option.splits)
    qed
  qed
qed

lemma health_returns:
  assumes ids: "ids_distinct (hs_world s)" and n: "scan_bound (hs_world s) \<le> n"
  shows "\<exists>r s'. process_job h n j s = Some (r, s') \<and> later_jobs (hs_world s) (hs_world s')"
proof -
  have lifted: "\<exists>r s'. lift_scan name s res = Some (r, s') \<and> later_jobs (hs_world s) (hs_world s')"
    if "\<exists>q w'. res = Some (q, w') \<and> later_jobs (hs_world s) w'" for name res
    using that by (auto simp: lift_scan_def beat_def split: outcome.splits option.splits)
  have same: "\<exists>q w'. Some (r, w1) = Some (q, w') \<and> later_jobs (hs_world s) w'"
    if "jobs w1 = jobs (hs_world s)" for r and w1 :: world
    using that later_refl by blast
  show ?thesis
  proof (cases j)
    case StaleLockScan
    show ?thesis unfolding StaleLockScan process_job.simps
      using stale_scan_returns [OF ids n] by (intro lifted) (simp add: later_jobs_def)
  next
    case DeadLetterEscalate
    show ?thesis unfolding DeadLetterEscalate process_job.simps by (intro lifted same escalated_jobs)
  next
    case RedisFailoverCheck
    obtain r w1 where a: "checkRedisFailover (hx_ext h) (hs_world s) = (r, w1)" by fastforce
    then have "jobs w1 = jobs (hs_world s)" using failover_jobs [of "hx_ext h" "hs_world s"] by simp
    then show ?thesis unfolding RedisFailoverCheck process_job.simps a by (intro lifted same)
  next
    case TierBProbeJob
    then show ?thesis using later_refl [OF probe_jobs [of h s]] by (cases "probeTierB h s") simp
  next
    case (ResolveRunJob i tier)
    show ?thesis unfolding ResolveRunJob process_job.simps by (intro lifted resolve_returns ids n)
  next
    case (DeadLetterJob i t)
    show ?thesis unfolding DeadLetterJob process_job.simps by (intro lifted same event_jobs)
  next
    case ParityStaleScan
    then show ?thesis using later_refl [OF parity_jobs [of h s]] by simp
  qed
qed

section \<open>Every worker\<close>

lemma work_returns:
  assumes ids: "ids_distinct (wk_world s)" and n: "scan_bound (wk_world s) \<le> n"
  shows "\<exists>r s'. work x n j s = Some (r, s') \<and> later_jobs (wk_world s) (wk_world s')"
proof (cases "worker_of j")
  case None
  then show ?thesis by (simp add: work_def later_refl)
next
  case (Some t)
  show ?thesis
  proof (cases t)
    case (HealthTask k)
    obtain r h' where "process_job (wq_health x) n k (wk_health s) = Some (r, h')"
      "later_jobs (hs_world (wk_health s)) (hs_world h')"
      using health_returns ids n unfolding wk_world_def by blast
    then show ?thesis using Some HealthTask by (simp add: work_def run_health_def wk_world_def)
  next
    case NightlyUid
    obtain r u where a: "nightlyUidReconcile (wq_uid x) ((wk_uid s)\<lparr>u_world := wk_world s\<rparr>) = (r, u)" by fastforce
    then have "jobs (u_world u) = jobs (wk_world s)"
      using nightly_jobs [of "wq_uid x" "(wk_uid s)\<lparr>u_world := wk_world s\<rparr>"] by simp
    then show ?thesis
      using Some NightlyUid a by (simp add: work_def run_nightly_def set_wk_world_def wk_world_def later_refl)
  next
    case (RotateSecrets url)
    obtain r v where a: "rotateAgentSecrets (wq_provision x) (wq_values x) url
        \<lparr>ps_world = wk_world s, ps_posts = wk_posts s\<rparr> = (r, v)" by fastforce
    then have "jobs (ps_world v) = jobs (wk_world s)"
      using rotate_jobs [of "wq_provision x" "wq_values x" url "\<lparr>ps_world = wk_world s, ps_posts = wk_posts s\<rparr>"] by simp
    then show ?thesis
      using Some RotateSecrets a
      by (auto simp: work_def run_rotation_def set_wk_world_def wk_world_def wk_beat_def beat_def
          intro!: later_refl split: outcome.splits)
  next
    case DrainOutbox
    obtain r m where a: "drain_pending (wq_merge x) ((wk_merge s)\<lparr>mg_world := wk_world s\<rparr>) = (r, m)" by fastforce
    then have "jobs (mg_world m) = jobs (wk_world s)"
      using drain_jobs [of "wq_merge x" "(wk_merge s)\<lparr>mg_world := wk_world s\<rparr>"] by simp
    then show ?thesis
      using Some DrainOutbox a by (simp add: work_def run_drain_def set_wk_world_def wk_world_def later_refl)
  qed
qed

text \<open>Jobs one after the other; one that fails is logged and the next one runs.\<close>

fun work_all :: "worker_env \<Rightarrow> nat \<Rightarrow> queue_job list \<Rightarrow> worker_state \<Rightarrow> worker_state option" where
  "work_all x n [] s = Some s"
| "work_all x n (j # js) s = (case work x n j s of None \<Rightarrow> None | Some (_, s1) \<Rightarrow> work_all x n js s1)"

text \<open>
  C34 (termination). The queue workers end and lose no job. For any sequence of jobs from the queues, scans,
  probes, resolutions of runs, nightly runs, rotations and drains in any order, one bound on nested job
  calls, computed from the job table before the first one, is enough for all; afterwards the table has the
  same rows, and no job has got an attempt back.
\<close>

theorem workers_return:
  assumes "ids_distinct (wk_world s)" and "scan_bound (wk_world s) \<le> n"
  shows "\<exists>s'. work_all x n js s = Some s' \<and> list_all2 later_row (jobs (wk_world s)) (jobs (wk_world s'))"
  using assms
proof (induction js arbitrary: s)
  case Nil
  then show ?case by (simp add: later_row_def list_all2_refl)
next
  case (Cons j js)
  obtain r s1 where j: "work x n j s = Some (r, s1)" "later_jobs (wk_world s) (wk_world s1)"
    using work_returns [OF Cons.prems] by blast
  have "ids_distinct (wk_world s1)" "scan_bound (wk_world s1) \<le> n" using later_bound [OF j(2)] Cons.prems by auto
  from Cons.IH [OF this] obtain s' where "work_all x n js s1 = Some s'" "later_jobs (wk_world s1) (wk_world s')"
    unfolding later_jobs_def by blast
  then show ?case using j later_trans [OF j(2)] by (auto simp flip: later_jobs_def)
qed

text \<open>Every scheduled job once, over a table with a stale lock and a silent job.\<close>

definition workers_example :: worker_env where
  "workers_example =
     \<lparr>wq_health = \<lparr>hx_env = env_example, hx_ext = ext_example,
        hx_github = \<lparr>gh_client = MockClient, gh_owner = ''o'', gh_repo = ''r'', gh_workflowFile = ''w.yml'',
          gh_healthFile = None, gh_runs = (\<lambda>f. Some [])\<rparr>, hx_polls = [], hx_dateText = show_nat\<rparr>,
      wq_uid = uid_env_example,
      wq_provision = \<lparr>pe_file = (\<lambda>f. None), pe_protocol = (\<lambda>u. Some ''https:''), pe_post = (\<lambda>n q. Ret (200, [])),
        pe_parse = (\<lambda>t. None)\<rparr>,
      wq_values = [(''AGENT_ROTATE_URL'', VText ''https://agent/rotate'')], wq_merge = merge_env_example\<rparr>"

definition work_example :: worker_state where
  "work_example =
     \<lparr>wk_health = \<lparr>hs_world = stale_world, hs_beats = [], hs_parity = []\<rparr>, wk_uid = uid_example, wk_posts = [],
      wk_merge = merge_world_example\<rparr>"

theorem workers_return_witness:
  "stale_locks env_example (wk_world work_example) \<noteq> [] \<and>
   list_all (\<lambda>(j, r). worker_of j \<noteq> None) (scheduled (wq_values workers_example)) \<and>
   (\<exists>s'. work_all workers_example (scan_bound (wk_world work_example)) (map fst (scheduled (wq_values workers_example)))
        work_example = Some s' \<and>
      list_all2 later_row (jobs (wk_world work_example)) (jobs (wk_world s')))"
proof (intro conjI)
  have w: "wk_world work_example = stale_world" by (simp add: work_example_def wk_world_def)
  show "stale_locks env_example (wk_world work_example) \<noteq> []" unfolding w by code_simp
  show "list_all (\<lambda>(j, r). worker_of j \<noteq> None) (scheduled (wq_values workers_example))" by code_simp
  have "ids_distinct (wk_world work_example)" unfolding w by (simp add: ids_distinct_def stale_world_def job_example_def)
  then show "\<exists>s'. work_all workers_example (scan_bound (wk_world work_example))
        (map fst (scheduled (wq_values workers_example))) work_example = Some s' \<and>
      list_all2 later_row (jobs (wk_world work_example)) (jobs (wk_world s'))"
    by (rule workers_return) simp
qed

end
