(* ===== verification/Worker_Scripts.thy ===== *)
theory Worker_Scripts
  imports Semver Path_Security
begin

text \<open>
  \<open>workers/scripts/lib/godot-semver.mjs\<close>, which a worker runs before a job: is the installed Godot the requested
  one, and are its export templates there. The functions on versions are those of \<open>semver-range.ts\<close>, which
  the script repeats line by line (\<open>Semver\<close>). The file system and the environment of the process are
  parameters. A component of a version is printed digit by digit, as JavaScript does below \<open>2 ^ 53\<close>.
\<close>

section \<open>\<open>path.join\<close>\<close>

fun join_stack :: "bool \<Rightarrow> string list \<Rightarrow> string list \<Rightarrow> string list" where
  "join_stack absolute st [] = st"
| "join_stack absolute st (s # ss) =
     (if s = [] \<or> s = ''.'' then join_stack absolute st ss
      else if s = ''..'' then
        (if st \<noteq> [] \<and> hd st \<noteq> ''..'' then join_stack absolute (tl st) ss
         else if absolute then join_stack absolute st ss
         else join_stack absolute (s # st) ss)
      else join_stack absolute (s # st) ss)"

definition path_normalize :: "string \<Rightarrow> string" where
  "path_normalize p =
     (let path = join ''/'' (rev (join_stack (isAbsolute p) [] (split_on CHR ''/'' p)));
          trailing = ends_with p ''/''
      in if path = [] then (if isAbsolute p then ''/'' else if trailing then ''./'' else ''.'')
         else (if isAbsolute p then ''/'' else []) @ path @ (if trailing then ''/'' else []))"

definition path_join :: "string list \<Rightarrow> string" where
  "path_join ps =
     (let joined = join ''/'' (filter (\<lambda>s. s \<noteq> []) ps) in if joined = [] then ''.'' else path_normalize joined)"

section \<open>Export templates\<close>

record script_env =
  sv_var :: "string \<Rightarrow> string option"
  sv_cwd :: string
  sv_isDirectory :: "string \<Rightarrow> bool"
  sv_text :: "string \<Rightarrow> string outcome option"
  sv_readdir :: "string \<Rightarrow> string list outcome"

definition number_text :: "js_number \<Rightarrow> string" where
  "number_text n = (case n of Fin k \<Rightarrow> show_nat k | Infinity \<Rightarrow> ''Infinity'')"

definition triple_text :: "SemVerTriple \<Rightarrow> string" where
  "triple_text v = (case v of (a, b, c) \<Rightarrow> number_text a @ ''.'' @ number_text b @ ''.'' @ number_text c)"

definition env_or :: "script_env \<Rightarrow> string \<Rightarrow> string \<Rightarrow> string" where
  "env_or x k d = (if truthy (sv_var x k) then the (sv_var x k) else d)"

definition templateDirCandidates :: "script_env \<Rightarrow> string \<Rightarrow> string list" where
  "templateDirCandidates x version =
     (let v = triple_text (parseVersion version) @ ''.stable'';
          home = env_or x ''HOME'' (env_or x ''USERPROFILE'' []);
          workspace = env_or x ''GITHUB_WORKSPACE'' (sv_cwd x)
      in [path_join [home, ''.local'', ''share'', ''godot'', ''export_templates'', v],
          path_join [home, ''Library'', ''Application Support'', ''Godot'', ''export_templates'', v],
          path_join [env_or x ''APPDATA'' (path_join [home, ''AppData'', ''Roaming'']), ''Godot'', ''export_templates'', v],
          path_join [workspace, ''.godot-cache'', ''export_templates'', v],
          path_join [workspace, ''.godot-cache'', ''templates'', v]])"

datatype template_check = Templates string | NoTemplates string

text \<open>\<open>.trim().split(/\r?\n/)[0]\<close>\<close>

definition first_line :: "string \<Rightarrow> string" where
  "first_line t =
     (let s = js_trim t; l = takeWhile (\<lambda>c. code c \<noteq> 10) s
      in if length l < length s \<and> l \<noteq> [] \<and> code (last l) = 13 then butlast l else l)"

definition meaningful :: "string \<Rightarrow> bool" where
  "meaningful f = (f \<noteq> ''version.txt'' \<and> \<not> starts_with f ''.'' \<and> f \<noteq> ''desktop.ini'')"

definition template_entries :: "script_env \<Rightarrow> string \<Rightarrow> template_check" where
  "template_entries x dir =
     (case sv_readdir x dir of
        Throw er \<Rightarrow> NoTemplates (''cannot read template dir '' @ dir @ '': '' @ err_msg er)
      | Ret fs \<Rightarrow>
          if filter meaningful fs = [] then NoTemplates (''export template dir empty: '' @ dir) else Templates dir)"

text \<open>A \<open>version.txt\<close> that exists and cannot be read throws out of the function.\<close>

definition validateExportTemplates :: "script_env \<Rightarrow> string \<Rightarrow> template_check outcome" where
  "validateExportTemplates x version =
     (let want = triple_text (parseVersion version); candidates = templateDirCandidates x version in
      case find (sv_isDirectory x) candidates of
        None \<Rightarrow>
          Ret (NoTemplates (''export templates missing for '' @ want @ ''.stable (searched: '' @ join ''; '' candidates @ '')''))
      | Some dir \<Rightarrow>
          (case sv_text x (path_join [dir, ''version.txt'']) of
             Some (Throw er) \<Rightarrow> Throw er
           | Some (Ret content) \<Rightarrow>
               let line = first_line content in
               if line \<noteq> [] \<and> \<not> versionsEqual line want
               then Ret (NoTemplates (''export template version.txt mismatch: '' @ line @ '' != '' @ want @ '' (dir='' @ dir @ '')''))
               else Ret (template_entries x dir)
           | None \<Rightarrow> Ret (template_entries x dir)))"

section \<open>The commands\<close>

text \<open>Exit code of the process and what it prints; the usage text and an uncaught exception have no JSON.\<close>

definition check_version :: "string list \<Rightarrow> nat \<times> json option" where
  "check_version args =
     (case args of
        requested # installedLine # _ \<Rightarrow>
          if requested = [] then (2, None)
          else
            let wanted = triple_text (parseVersion requested) in
            (case extractSemverFromGodotOutput installedLine of
               None \<Rightarrow>
                 (1, Some (JObj [(''ok'', JBool False), (''kind'', JStr ''version''),
                        (''detail'', JStr (''cannot parse semver from godot --version: '' @ installedLine))]))
             | Some extracted \<Rightarrow>
                 if \<not> versionsEqual extracted requested
                 then (1, Some (JObj [(''ok'', JBool False), (''kind'', JStr ''version''),
                        (''detail'', JStr (''version '' @ extracted @ '' != '' @ wanted @ '' (raw installed: '' @ installedLine @ '')'')),
                        (''installed'', JStr extracted), (''requested'', JStr wanted)]))
                 else (0, Some (JObj [(''ok'', JBool True), (''kind'', JStr ''version''),
                        (''installed'', JStr extracted), (''requested'', JStr wanted)])))
      | _ \<Rightarrow> (2, None))"

definition check_templates :: "script_env \<Rightarrow> string list \<Rightarrow> nat \<times> json option" where
  "check_templates x args =
     (case args of
        requested # _ \<Rightarrow>
          if requested = [] then (2, None)
          else (case validateExportTemplates x requested of
                  Throw er \<Rightarrow> (1, None)
                | Ret (NoTemplates reason) \<Rightarrow>
                    (1, Some (JObj [(''ok'', JBool False), (''kind'', JStr ''templates''), (''detail'', JStr reason)]))
                | Ret (Templates dir) \<Rightarrow>
                    (0, Some (JObj [(''ok'', JBool True), (''kind'', JStr ''templates''), (''dir'', JStr dir),
                           (''requested'', JStr (triple_text (parseVersion requested)))])))
      | [] \<Rightarrow> (2, None))"

definition semver_command :: "script_env \<Rightarrow> string list \<Rightarrow> nat \<times> json option" where
  "semver_command x argv =
     (case argv of
        [] \<Rightarrow> (2, None)
      | cmd # args \<Rightarrow>
          if cmd = ''check-version'' then check_version args
          else if cmd = ''check-templates'' then check_templates x args
          else (2, None))"

section \<open>What a worker may rely on\<close>

lemma triple_text_format: "triple_text (triple t) = formatSemVer t"
  by (cases t) (simp add: triple_text_def triple_def number_text_def formatSemVer.simps)

lemma triple_of_format: "exact t \<Longrightarrow> triple_text (parseVersion (formatSemVer t)) = formatSemVer t"
  by (simp add: parseVersion_format triple_text_format)

text \<open>
  The version check ends with exit code 0 exactly for the requested version, whatever follows the version
  in the line of \<open>godot --version\<close>; a version of which the requested one is a prefix does not pass.
\<close>

theorem version_check_exact:
  assumes "exact t" and "exact u" and "suf = [] \<or> \<not> is_word (hd suf)" and "list_all (\<lambda>c. \<not> is_space c) suf"
  shows "fst (semver_command x [''check-version'', formatSemVer u, formatSemVer t @ suf]) = (if t = u then 0 else 1)"
proof -
  have "formatSemVer u \<noteq> []" using format_head [of u] by auto
  moreover have "extractSemverFromGodotOutput (formatSemVer t @ suf) = Some (formatSemVer t)"
    and "versionsEqual (formatSemVer t) (formatSemVer u) \<longleftrightarrow> t = u"
    using extract_version_line [OF assms(3,4), of t u] assms(1,2) by blast+
  ultimately show ?thesis by (simp add: semver_command_def check_version_def Let_def)
qed

theorem version_check_exact_witness:
  "fst (semver_command x [''check-version'', ''4.3.1'', ''4.3.1.stable.official'']) = 0
   \<and> fst (semver_command x [''check-version'', ''4.3.1'', ''4.3.10.stable.official'']) = 1"
proof -
  have f: "formatSemVer (4, 3, 1) = ''4.3.1''" "formatSemVer (4, 3, 10) = ''4.3.10''" by code_simp+
  have e: "exact (4, 3, 1)" "exact (4, 3, 10)" by (simp_all add: exact_def)
  have s: "''.stable.official'' = [] \<or> \<not> is_word (hd ''.stable.official'')"
    "list_all (\<lambda>c. \<not> is_space c) ''.stable.official''" by code_simp+
  show ?thesis
    using version_check_exact [OF e(1) e(1) s, of x] version_check_exact [OF e(2) e(1) s, of x]
    by (simp only: f) simp
qed

text \<open>
  Accepted templates: a directory of the list for the requested version, with a file in it, whose
  \<open>version.txt\<close>, if there is one, names that version.
\<close>

theorem accepted_templates:
  assumes "validateExportTemplates x version = Ret (Templates dir)"
  shows "dir \<in> set (templateDirCandidates x version)" "sv_isDirectory x dir"
    and "\<exists>fs f. sv_readdir x dir = Ret fs \<and> f \<in> set fs \<and> meaningful f"
    and "sv_text x (path_join [dir, ''version.txt'']) = Some (Ret content) \<Longrightarrow> first_line content \<noteq> []
      \<Longrightarrow> versionsEqual (first_line content) (triple_text (parseVersion version))"
proof -
  obtain d where d: "find (sv_isDirectory x) (templateDirCandidates x version) = Some d"
    using assms by (auto simp: validateExportTemplates_def Let_def split: option.splits)
  have res: "template_entries x d = Templates dir"
    using assms d by (auto simp: validateExportTemplates_def Let_def split: option.splits outcome.splits if_splits)
  then have "d = dir" by (auto simp: template_entries_def split: outcome.splits if_splits)
  with d show "dir \<in> set (templateDirCandidates x version)" "sv_isDirectory x dir"
    by (auto simp: find_Some_iff)
  show "\<exists>fs f. sv_readdir x dir = Ret fs \<and> f \<in> set fs \<and> meaningful f"
    using res \<open>d = dir\<close> by (auto simp: template_entries_def filter_empty_conv split: outcome.splits if_splits)
  show "versionsEqual (first_line content) (triple_text (parseVersion version))"
    if "sv_text x (path_join [dir, ''version.txt'']) = Some (Ret content)" "first_line content \<noteq> []"
    using assms d that \<open>d = dir\<close> by (auto simp: validateExportTemplates_def Let_def split: if_splits)
qed

text \<open>
  The search stops at the first directory that exists: an empty one in the home directory hides good
  templates in the cache of the workspace.
\<close>

theorem empty_directory_hides_templates:
  assumes "dir = hd (templateDirCandidates x version)" and "sv_isDirectory x dir"
    and "sv_text x (path_join [dir, ''version.txt'']) = None" and "sv_readdir x dir = Ret []"
  shows "validateExportTemplates x version = Ret (NoTemplates (''export template dir empty: '' @ dir))"
proof -
  have "find (sv_isDirectory x) (templateDirCandidates x version) = Some dir"
    using assms(1,2) by (simp add: templateDirCandidates_def Let_def)
  then show ?thesis using assms(3,4) by (simp add: validateExportTemplates_def template_entries_def Let_def)
qed

end
