(* ===== verification/Pages.thy ===== *)
theory Pages
  imports Dashboard
begin

text \<open>
  The pages of the dashboard, \<open>packages/dashboard/src/pages\<close> and \<open>App.tsx\<close>: the state of each page, what loading
  it, its buttons and its live events do, and which buttons a role gets. The layout is not modelled. The
  server is a parameter that answers a request and keeps a state of its own; its answers have the members
  that their types declare, and \<open>thrown\<close> is \<open>String(e)\<close> of an error that is no \<open>ApiError\<close>. Of two requests
  sent together the first one's error is reported. A row is the object the server sent. The dash of a message
  is written with a hyphen.
\<close>

type_synonym row = metadata

type_synonym 's server = "http_request \<Rightarrow> 's \<Rightarrow> api_result \<times> 's"

section \<open>Answers\<close>

definition page_error :: "(string \<Rightarrow> string) \<Rightarrow> api_result \<Rightarrow> string" where
  "page_error thrown r =
     (case r of
        Value _ \<Rightarrow> []
      | ApiError m status c \<Rightarrow> (case c of Some k \<Rightarrow> k | None \<Rightarrow> show_nat status) @ '': '' @ m
      | OtherError m \<Rightarrow> thrown m)"

definition rows_of :: "json option \<Rightarrow> row list" where
  "rows_of v = (case v of Some (JArr vs) \<Rightarrow> List.map_filter (\<lambda>j. case j of JObj m \<Rightarrow> Some m | _ \<Rightarrow> None) vs | _ \<Rightarrow> [])"

definition value_member :: "json option \<Rightarrow> string \<Rightarrow> json option" where
  "value_member v k = (case v of None \<Rightarrow> None | Some j \<Rightarrow> member j k)"

definition answer_rows :: "json option \<Rightarrow> string \<Rightarrow> row list" where
  "answer_rows v k = rows_of (value_member v k)"

text \<open>\<open>await\<close> of a request: its value, or the error that the handler catches.\<close>

definition await :: "'s server \<Rightarrow> http_request \<Rightarrow> 's \<Rightarrow> (json option + api_result) \<times> 's" where
  "await sv q s = (let (r, s1) = sv q s in (case r of Value v \<Rightarrow> Inl v | _ \<Rightarrow> Inr r, s1))"

definition await_both :: "'s server \<Rightarrow> http_request \<Rightarrow> http_request \<Rightarrow> 's
    \<Rightarrow> ((json option \<times> json option) + api_result) \<times> 's" where
  "await_both sv q1 q2 s =
     (let (a, s1) = await sv q1 s; (b, s2) = await sv q2 s1 in
      (case a of Inr e \<Rightarrow> Inr e | Inl v \<Rightarrow> (case b of Inr e \<Rightarrow> Inr e | Inl u \<Rightarrow> Inl (v, u)), s2))"

text \<open>The type and the payload of an event; only an object counts as a payload here.\<close>

definition event_type :: "json \<Rightarrow> string" where
  "event_type ev = (case member ev ''type'' of Some (JStr t) \<Rightarrow> t | _ \<Rightarrow> [])"

definition job_payload :: "json \<Rightarrow> row option" where
  "job_payload ev =
     (case member ev ''payload'' of
        Some (JObj m) \<Rightarrow> if event_type ev = ''job.updated'' then Some m else None
      | _ \<Rightarrow> None)"

section \<open>Live rows\<close>

definition row_id :: "row \<Rightarrow> json option" where
  "row_id r = map_of r ''id''"

definition has_row :: "row list \<Rightarrow> row \<Rightarrow> bool" where
  "has_row prev updated = list_ex (\<lambda>j. row_id j = row_id updated) prev"

text \<open>\<open>{ ...next[idx], ...updated }\<close> at the first row with the id.\<close>

fun merge_row :: "row \<Rightarrow> row list \<Rightarrow> row list" where
  "merge_row updated [] = []"
| "merge_row updated (j # js) =
     (if row_id j = row_id updated then jsonb_concat j updated # js else j # merge_row updated js)"

definition jobs_page_update :: "string \<Rightarrow> row list \<Rightarrow> row \<Rightarrow> row list" where
  "jobs_page_update projectId prev updated =
     (if has_row prev updated then merge_row updated prev
      else if projectId = [] \<or> map_of updated ''projectId'' = Some (JStr projectId) then updated # prev
      else prev)"

definition overview_update :: "row list \<Rightarrow> row \<Rightarrow> row list" where
  "overview_update prev updated =
     (if has_row prev updated then merge_row updated prev else take 50 (updated # prev))"

section \<open>Jobs\<close>

record jobs_page =
  jp_jobs :: "row list"
  jp_projects :: "row list"
  jp_projectId :: string
  jp_error :: string
  jp_godotVersion :: string
  jp_preferredTier :: string
  jp_commitStrategy :: string
  jp_dependsOnJobId :: string
  jp_selectedJob :: "json option"

definition first_project :: "row list \<Rightarrow> string" where
  "first_project ps = (case ps of [] \<Rightarrow> [] | p # _ \<Rightarrow> or_default (meta_str p ''id'') [])"

definition jobs_refresh :: "'s server \<Rightarrow> jobs_page \<Rightarrow> 's \<Rightarrow> api_result option \<times> jobs_page \<times> 's" where
  "jobs_refresh sv p s =
     (case await_both sv (api_jobs (if jp_projectId p = [] then None else Some (jp_projectId p))) api_projects s of
        (Inr e, s1) \<Rightarrow> (Some e, p, s1)
      | (Inl (j, pr), s1) \<Rightarrow>
          (None,
           p\<lparr>jp_jobs := answer_rows j ''jobs'', jp_projects := answer_rows pr ''projects'',
             jp_projectId := (if jp_projectId p = [] then first_project (answer_rows pr ''projects'')
                              else jp_projectId p)\<rparr>, s1))"

definition jobs_load :: "(string \<Rightarrow> string) \<Rightarrow> 's server \<Rightarrow> jobs_page \<Rightarrow> 's \<Rightarrow> jobs_page \<times> 's" where
  "jobs_load thrown sv p s =
     (case jobs_refresh sv p s of
        (Some e, p1, s1) \<Rightarrow> (p1\<lparr>jp_error := page_error thrown e\<rparr>, s1) | (None, p1, s1) \<Rightarrow> (p1, s1))"

definition jobs_open :: "(string \<Rightarrow> string) \<Rightarrow> 's server \<Rightarrow> string \<Rightarrow> jobs_page \<Rightarrow> 's \<Rightarrow> jobs_page \<times> 's" where
  "jobs_open thrown sv i p s =
     (case await sv (api_getJob i) s of
        (Inl v, s1) \<Rightarrow> (p\<lparr>jp_error := [], jp_selectedJob := value_member v ''job''\<rparr>, s1)
      | (Inr e, s1) \<Rightarrow> (p\<lparr>jp_error := page_error thrown e\<rparr>, s1))"

definition jobs_event :: "json \<Rightarrow> jobs_page \<Rightarrow> jobs_page" where
  "jobs_event ev p =
     (case job_payload ev of
        None \<Rightarrow> p | Some m \<Rightarrow> p\<lparr>jp_jobs := jobs_page_update (jp_projectId p) (jp_jobs p) m\<rparr>)"

definition enqueue_enabled :: "string \<Rightarrow> jobs_page \<Rightarrow> bool" where
  "enqueue_enabled role p = (jp_projectId p \<noteq> [] \<and> canEnqueueJob role)"

definition if_filled :: "string \<Rightarrow> string option" where
  "if_filled v = (if v = [] then None else Some v)"

definition enqueue_input :: "jobs_page \<Rightarrow> CreateJobInput" where
  "enqueue_input p =
     \<lparr>ci_projectId = jp_projectId p, ci_godotVersion = if_filled (jp_godotVersion p),
      ci_preferredTier = if_filled (jp_preferredTier p), ci_commitStrategy = Some (jp_commitStrategy p),
      ci_dependsOnJobId = if_filled (jp_dependsOnJobId p), ci_metadata = None\<rparr>"

definition jobs_enqueue :: "(string \<Rightarrow> string) \<Rightarrow> 's server \<Rightarrow> string \<Rightarrow> jobs_page \<Rightarrow> 's \<Rightarrow> jobs_page \<times> 's" where
  "jobs_enqueue thrown sv role p s =
     (if \<not> enqueue_enabled role p then (p, s)
      else case await sv (api_createJob (Inl (enqueue_input p))) s of
             (Inr e, s1) \<Rightarrow> (p\<lparr>jp_error := page_error thrown e\<rparr>, s1)
           | (Inl _, s1) \<Rightarrow> jobs_load thrown sv (p\<lparr>jp_error := []\<rparr>) s1)"

section \<open>Overview\<close>

record overview_page =
  op_jobs :: "row list"
  op_locks :: "row list"
  op_tiers :: "row list"
  op_live :: bool

text \<open>A failed load leaves the page as it is; nothing catches its error.\<close>

definition overview_refresh :: "'s server \<Rightarrow> overview_page \<Rightarrow> 's \<Rightarrow> overview_page \<times> 's" where
  "overview_refresh sv p s =
     (let (jl, s1) = await_both sv (api_jobs None) api_locks s; (t, s2) = await sv api_tiers s1 in
      (case (jl, t) of
         (Inl (j, l), Inl v) \<Rightarrow>
           p\<lparr>op_jobs := answer_rows j ''jobs'', op_locks := answer_rows l ''locks'', op_tiers := answer_rows v ''tiers''\<rparr>
       | _ \<Rightarrow> p, s2))"

definition overview_event :: "'s server \<Rightarrow> json \<Rightarrow> overview_page \<Rightarrow> 's \<Rightarrow> overview_page \<times> 's" where
  "overview_event sv ev p s =
     (let p1 = p\<lparr>op_live := True\<rparr>;
          p2 = (case job_payload ev of None \<Rightarrow> p1 | Some m \<Rightarrow> p1\<lparr>op_jobs := overview_update (op_jobs p1) m\<rparr>)
      in if event_type ev \<in> {''lock.updated'', ''tier.updated''} then overview_refresh sv p2 s else (p2, s))"

definition overview_projects :: "overview_page \<Rightarrow> string list" where
  "overview_projects p =
     rev (remdups (rev (filter (\<lambda>i. i \<noteq> []) (List.map_filter (\<lambda>j. meta_str j ''projectId'') (op_jobs p)))))"

definition row_status :: "row \<Rightarrow> string" where
  "row_status j = or_default (meta_str j ''status'') []"

definition overview_active :: "string list" where
  "overview_active = [''QUEUED'', ''DISPATCHING'', ''STAGING'', ''VALIDATING'', ''COMMITTING'', ''BLOCKED'']"

definition overview_failed :: "string list" where
  "overview_failed = [''REIMPORT_FAILED'', ''VALIDATION_FAILED'', ''COMMIT_FAILED'', ''DEAD_LETTER'']"

definition true_member :: "row \<Rightarrow> string \<Rightarrow> bool" where
  "true_member r k = json_truthy (map_of r k)"

text \<open>The numbers on the cards: active jobs, failed jobs, locks, usable tiers and all tiers.\<close>

definition overview_cards :: "overview_page \<Rightarrow> nat \<times> nat \<times> nat \<times> nat \<times> nat" where
  "overview_cards p =
     (length (filter (\<lambda>j. row_status j \<in> set overview_active) (op_jobs p)),
      length (filter (\<lambda>j. row_status j \<in> set overview_failed) (op_jobs p)),
      length (op_locks p),
      length (filter (\<lambda>t. true_member t ''enabled'' \<and> \<not> true_member t ''degraded'') (op_tiers p)),
      if op_tiers p = [] then 2 else length (op_tiers p))"

definition statusClass :: "string \<Rightarrow> string" where
  "statusClass s =
     (if s = ''COMPLETED'' then ''ok''
      else if str_includes s ''FAIL'' \<or> s = ''DEAD_LETTER'' \<or> s = ''ROLLBACK'' then ''danger''
      else if s = ''BLOCKED'' \<or> s = ''DISPATCH_TIMEOUT'' \<or> s = ''LOCK_STALE'' then ''warn''
      else ''info'')"

section \<open>Locks\<close>

record locks_page =
  lp_locks :: "row list"
  lp_msg :: string
  lp_error :: string
  lp_historyKey :: "string option"
  lp_history :: "row list"

definition locks_refresh :: "'s server \<Rightarrow> locks_page \<Rightarrow> 's \<Rightarrow> api_result option \<times> locks_page \<times> 's" where
  "locks_refresh sv p s =
     (case await sv api_locks s of
        (Inr e, s1) \<Rightarrow> (Some e, p, s1) | (Inl v, s1) \<Rightarrow> (None, p\<lparr>lp_locks := answer_rows v ''locks''\<rparr>, s1))"

definition locks_load :: "(string \<Rightarrow> string) \<Rightarrow> 's server \<Rightarrow> locks_page \<Rightarrow> 's \<Rightarrow> locks_page \<times> 's" where
  "locks_load thrown sv p s =
     (case locks_refresh sv p s of
        (Some e, p1, s1) \<Rightarrow> (p1\<lparr>lp_error := page_error thrown e\<rparr>, s1) | (None, p1, s1) \<Rightarrow> (p1, s1))"

text \<open>The error of a refresh that an event starts is caught by nobody.\<close>

definition locks_event :: "'s server \<Rightarrow> json \<Rightarrow> locks_page \<Rightarrow> 's \<Rightarrow> locks_page \<times> 's" where
  "locks_event sv ev p s =
     (if event_type ev \<in> {''job.updated'', ''lock.updated''} then snd (locks_refresh sv p s) else (p, s))"

definition loadHistory :: "(string \<Rightarrow> string) \<Rightarrow> 's server \<Rightarrow> string \<Rightarrow> locks_page \<Rightarrow> 's \<Rightarrow> locks_page \<times> 's" where
  "loadHistory thrown sv lockKey p s =
     (case await sv (api_lockHistory lockKey) s of
        (Inl v, s1) \<Rightarrow> (p\<lparr>lp_error := [], lp_historyKey := Some lockKey, lp_history := answer_rows v ''history''\<rparr>, s1)
      | (Inr e, s1) \<Rightarrow> (p\<lparr>lp_error := page_error thrown e\<rparr>, s1))"

text \<open>The button is there for admins; the reason is what the user entered, \<open>None\<close> when the prompt was closed.\<close>

definition reclaim_click :: "(string \<Rightarrow> string) \<Rightarrow> 's server \<Rightarrow> string \<Rightarrow> string \<Rightarrow> string option \<Rightarrow> locks_page \<Rightarrow> 's
    \<Rightarrow> locks_page \<times> 's" where
  "reclaim_click thrown sv role lockKey entered p s =
     (if role \<noteq> ''admin'' \<or> \<not> truthy entered then (p, s)
      else case await sv (api_reclaimLock lockKey (the entered)) s of
             (Inr e, s1) \<Rightarrow> (p\<lparr>lp_error := page_error thrown e\<rparr>, s1)
           | (Inl _, s1) \<Rightarrow>
               locks_load thrown sv (p\<lparr>lp_msg := ''Reclaimed '' @ lockKey @ '' - workers with old token get 403''\<rparr>) s1)"

section \<open>Tiers\<close>

record tiers_page =
  tp_tiers :: "row list"
  tp_parity :: "row list"
  tp_msg :: string
  tp_error :: string

definition tiers_refresh :: "'s server \<Rightarrow> tiers_page \<Rightarrow> 's \<Rightarrow> api_result option \<times> tiers_page \<times> 's" where
  "tiers_refresh sv p s =
     (case await_both sv api_tiers api_parity s of
        (Inr e, s1) \<Rightarrow> (Some e, p, s1)
      | (Inl (t, c), s1) \<Rightarrow> (None, p\<lparr>tp_tiers := answer_rows t ''tiers'', tp_parity := answer_rows c ''checks''\<rparr>, s1))"

definition tiers_load :: "(string \<Rightarrow> string) \<Rightarrow> 's server \<Rightarrow> tiers_page \<Rightarrow> 's \<Rightarrow> tiers_page \<times> 's" where
  "tiers_load thrown sv p s =
     (case tiers_refresh sv p s of
        (Some e, p1, s1) \<Rightarrow> (p1\<lparr>tp_error := page_error thrown e\<rparr>, s1) | (None, p1, s1) \<Rightarrow> (p1, s1))"

definition tiers_event :: "'s server \<Rightarrow> json \<Rightarrow> tiers_page \<Rightarrow> 's \<Rightarrow> tiers_page \<times> 's" where
  "tiers_event sv ev p s =
     (if event_type ev \<in> {''job.updated'', ''tier.updated'', ''parity.updated''} then snd (tiers_refresh sv p s)
      else (p, s))"

definition toggleTier :: "(string \<Rightarrow> string) \<Rightarrow> 's server \<Rightarrow> string \<Rightarrow> bool \<Rightarrow> tiers_page \<Rightarrow> 's \<Rightarrow> tiers_page \<times> 's" where
  "toggleTier thrown sv tier enabled p s =
     (if tier \<noteq> ''A'' \<and> tier \<noteq> ''B'' then (p, s)
      else case await sv (api_enableTier tier enabled) s of
             (Inr e, s1) \<Rightarrow> (p\<lparr>tp_msg := [], tp_error := page_error thrown e\<rparr>, s1)
           | (Inl _, s1) \<Rightarrow>
               tiers_load thrown sv
                 (p\<lparr>tp_error := [], tp_msg := ''Tier '' @ tier @ (if enabled then '' enabled'' else '' disabled'')\<rparr>) s1)"

definition tier_label :: "row \<Rightarrow> string" where
  "tier_label t =
     (if true_member t ''enabled'' then (if true_member t ''degraded'' then ''DEGRADED'' else ''OK'') else ''OFF'')"

section \<open>Dead letters, approvals, audit logs\<close>

record dead_letter_page =
  dp_items :: "row list"
  dp_error :: string

definition dead_letter_refresh :: "(string \<Rightarrow> string) \<Rightarrow> 's server \<Rightarrow> dead_letter_page \<Rightarrow> 's \<Rightarrow> dead_letter_page \<times> 's" where
  "dead_letter_refresh thrown sv p s =
     (case await sv api_deadLetter s of
        (Inl v, s1) \<Rightarrow> (p\<lparr>dp_error := [], dp_items := answer_rows v ''items''\<rparr>, s1)
      | (Inr e, s1) \<Rightarrow> (p\<lparr>dp_error := page_error thrown e\<rparr>, s1))"

definition retry_click :: "(string \<Rightarrow> string) \<Rightarrow> 's server \<Rightarrow> string \<Rightarrow> string \<Rightarrow> dead_letter_page \<Rightarrow> 's
    \<Rightarrow> dead_letter_page \<times> 's" where
  "retry_click thrown sv role jobId p s =
     (if role \<noteq> ''admin'' \<and> role \<noteq> ''operator'' then (p, s)
      else case await sv (api_retryDeadLetter jobId) s of
             (Inr e, s1) \<Rightarrow> (p\<lparr>dp_error := page_error thrown e\<rparr>, s1)
           | (Inl _, s1) \<Rightarrow> dead_letter_refresh thrown sv p s1)"

record extensions_page =
  xp_approvals :: "row list"
  xp_policies :: "row list"
  xp_error :: string

definition extensions_refresh :: "(string \<Rightarrow> string) \<Rightarrow> 's server \<Rightarrow> extensions_page \<Rightarrow> 's \<Rightarrow> extensions_page \<times> 's" where
  "extensions_refresh thrown sv p s =
     (case await_both sv (api_approvals None) api_listExtensions s of
        (Inl (a, pl), s1) \<Rightarrow>
          (p\<lparr>xp_error := [], xp_approvals := answer_rows a ''approvals'', xp_policies := answer_rows pl ''policies''\<rparr>, s1)
      | (Inr e, s1) \<Rightarrow> (p\<lparr>xp_error := page_error thrown e\<rparr>, s1))"

text \<open>The buttons \<open>Approve\<close> and \<open>Reject\<close>, for admins.\<close>

definition review_click :: "(string \<Rightarrow> string) \<Rightarrow> 's server \<Rightarrow> string \<Rightarrow> string \<Rightarrow> bool \<Rightarrow> extensions_page \<Rightarrow> 's
    \<Rightarrow> extensions_page \<times> 's" where
  "review_click thrown sv role i approve p s =
     (if role \<noteq> ''admin'' then (p, s)
      else case await sv (api_reviewApproval i (if approve then ''approved'' else ''rejected'')) s of
             (Inr e, s1) \<Rightarrow> (p\<lparr>xp_error := page_error thrown e\<rparr>, s1)
           | (Inl _, s1) \<Rightarrow> extensions_refresh thrown sv p s1)"

record audit_page =
  ap_logs :: "row list"
  ap_error :: string
  ap_resourceType :: string

definition audit_refresh :: "(string \<Rightarrow> string) \<Rightarrow> 's server \<Rightarrow> audit_page \<Rightarrow> 's \<Rightarrow> audit_page \<times> 's" where
  "audit_refresh thrown sv p s =
     (case await sv (api_auditLogs \<lparr>lq_limit = Some 100, lq_resourceType = if_filled (ap_resourceType p),
                                  lq_resourceId = None\<rparr>) s of
        (Inl v, s1) \<Rightarrow> (p\<lparr>ap_logs := answer_rows v ''logs'', ap_error := []\<rparr>, s1)
      | (Inr e, s1) \<Rightarrow> (p\<lparr>ap_error := page_error thrown e\<rparr>, s1))"

section \<open>Projects\<close>

record projects_page =
  pp_projects :: "row list"
  pp_error :: string
  pp_name :: string
  pp_slug :: string
  pp_projectRoot :: string
  pp_godotVersion :: string
  pp_highVolume :: bool
  pp_uidProjectId :: string
  pp_logicalPath :: string
  pp_reservation :: "json option"

text \<open>With the effect that chooses the first project for the reservation.\<close>

definition projects_load :: "(string \<Rightarrow> string) \<Rightarrow> 's server \<Rightarrow> projects_page \<Rightarrow> 's \<Rightarrow> projects_page \<times> 's" where
  "projects_load thrown sv p s =
     (case await sv api_projects s of
        (Inr e, s1) \<Rightarrow> (p\<lparr>pp_error := page_error thrown e\<rparr>, s1)
      | (Inl v, s1) \<Rightarrow>
          (p\<lparr>pp_projects := answer_rows v ''projects'',
             pp_uidProjectId := (if pp_uidProjectId p = [] then first_project (answer_rows v ''projects'')
                                 else pp_uidProjectId p)\<rparr>, s1))"

definition create_click :: "(string \<Rightarrow> string) \<Rightarrow> 's server \<Rightarrow> string \<Rightarrow> projects_page \<Rightarrow> 's \<Rightarrow> projects_page \<times> 's" where
  "create_click thrown sv role p s =
     (if \<not> canCreateProject role then (p, s)
      else case await sv (api_createProject
                  \<lparr>cp_name = pp_name p, cp_slug = pp_slug p, cp_godotVersion = Some (pp_godotVersion p),
                   cp_projectRoot = pp_projectRoot p, cp_highVolume = Some (pp_highVolume p), cp_adminContacts = None\<rparr>) s of
             (Inr e, s1) \<Rightarrow> (p\<lparr>pp_error := page_error thrown e\<rparr>, s1)
           | (Inl _, s1) \<Rightarrow> projects_load thrown sv (p\<lparr>pp_error := [], pp_name := [], pp_slug := []\<rparr>) s1)"

definition reserve_click :: "(string \<Rightarrow> string) \<Rightarrow> 's server \<Rightarrow> string \<Rightarrow> projects_page \<Rightarrow> 's \<Rightarrow> projects_page \<times> 's" where
  "reserve_click thrown sv role p s =
     (if \<not> canEnqueueJob role \<or> pp_projects p = [] then (p, s)
      else case await sv (api_uidReserve (pp_uidProjectId p)
                  \<lparr>ur_logicalAssetPath = pp_logicalPath p, ur_namespace = Some ''GEN-'', ur_jobId = None\<rparr>) s of
             (Inr e, s1) \<Rightarrow> (p\<lparr>pp_error := page_error thrown e\<rparr>, s1)
           | (Inl v, s1) \<Rightarrow> (p\<lparr>pp_error := [], pp_reservation := value_member v ''reservation''\<rparr>, s1))"

section \<open>The error catalogue and the documentation\<close>

record errors_page =
  ep_catalog :: "json list"
  ep_hits :: "row list"

text \<open>Both requests leave the page as it is when they fail.\<close>

definition errors_load :: "'s server \<Rightarrow> errors_page \<Rightarrow> 's \<Rightarrow> errors_page \<times> 's" where
  "errors_load sv p s =
     (case await sv api_errorCatalog s of
        (Inl v, s1) \<Rightarrow>
          (p\<lparr>ep_catalog := (case value_member v ''catalog'' of Some (JObj m) \<Rightarrow> map snd m | _ \<Rightarrow> [])\<rparr>, s1)
      | (Inr _, s1) \<Rightarrow> (p, s1))"

definition errors_search :: "'s server \<Rightarrow> string \<Rightarrow> errors_page \<Rightarrow> 's \<Rightarrow> errors_page \<times> 's" where
  "errors_search sv q p s =
     (case await sv (api_searchErrors q) s of
        (Inl v, s1) \<Rightarrow> (p\<lparr>ep_hits := answer_rows v ''errors''\<rparr>, s1)
      | (Inr _, s1) \<Rightarrow> (p, s1))"

text \<open>The text of the documentation page: the status and the text of the answer, if \<open>fetch\<close> gave one.\<close>

definition docs_text :: "(nat \<times> string) option \<Rightarrow> string" where
  "docs_text answer =
     (case answer of
        Some (status, body) \<Rightarrow>
          if res_ok status then body
          else ''# AGENTS.md unavailable'' @ [CHR 0x0A, CHR 0x0A] @ ''Ensure the orchestrator can read the monorepo AGENTS.md.''
      | None \<Rightarrow>
          ''# AGENTS.md unavailable'' @ [CHR 0x0A, CHR 0x0A] @ ''Ensure the orchestrator can read the monorepo AGENTS.md.'')"

section \<open>The application\<close>

text \<open>The user of \<open>App.tsx\<close>: not known yet, nobody, or signed in with the object of the server.\<close>

datatype app_user = Loading | SignedOut | SignedIn json

definition app_load :: "'s server \<Rightarrow> 's \<Rightarrow> app_user \<times> 's" where
  "app_load sv s =
     (case await sv api_me s of
        (Inl v, s1) \<Rightarrow> (case value_member v ''user'' of Some (JObj m) \<Rightarrow> SignedIn (JObj m) | _ \<Rightarrow> SignedOut, s1)
      | (Inr _, s1) \<Rightarrow> (SignedOut, s1))"

definition plain_message :: "api_result \<Rightarrow> string" where
  "plain_message r = (case r of Value _ \<Rightarrow> [] | ApiError m _ _ \<Rightarrow> m | OtherError m \<Rightarrow> m)"

definition login_submit :: "'s server \<Rightarrow> string \<Rightarrow> string \<Rightarrow> 's \<Rightarrow> (app_user + string) \<times> 's" where
  "login_submit sv email password s =
     (case await sv (api_login email password) s of
        (Inl v, s1) \<Rightarrow> (Inl (case value_member v ''user'' of Some u \<Rightarrow> SignedIn u | None \<Rightarrow> SignedOut), s1)
      | (Inr e, s1) \<Rightarrow> (Inr (plain_message e), s1))"

text \<open>The user is signed out of the page only after the server has answered.\<close>

definition logout_click :: "'s server \<Rightarrow> app_user \<Rightarrow> 's \<Rightarrow> app_user \<times> 's" where
  "logout_click sv u s = (case await sv api_logout s of (Inl _, s1) \<Rightarrow> (SignedOut, s1) | (Inr _, s1) \<Rightarrow> (u, s1))"

end
