(* ===== verification/Page_Claims.thy ===== *)
theory Page_Claims
  imports Pages App_Claims Job_Status
begin

text \<open>
  The live rows of the dashboard: they follow the events that arrive, which for some pages are none, and the
  cards of the overview leave out some active jobs.
\<close>

section \<open>Merged rows\<close>

lemma obj_set_lookup: "map_of (obj_set k v m) j = (if j = k then Some v else map_of m j)"
  by (induction m) auto

lemma jsonb_lookup:
  "distinct (map fst n) \<Longrightarrow>
     map_of (jsonb_concat m n) k = (case map_of n k of Some v \<Rightarrow> Some v | None \<Rightarrow> map_of m k)"
proof (induction n arbitrary: m)
  case Nil
  then show ?case by (simp add: jsonb_concat_def)
next
  case (Cons p n)
  obtain a b where p: "p = (a, b)" by (cases p)
  have "jsonb_concat m (p # n) = jsonb_concat (obj_set a b m) n" by (simp add: jsonb_concat_def p)
  moreover have "a \<notin> fst ` set n" using Cons.prems p by auto
  then have "map_of n a = None" by (simp add: map_of_eq_None_iff)
  ultimately show ?case using Cons.IH [of "obj_set a b m"] Cons.prems p
    by (auto simp: obj_set_lookup split: option.splits)
qed

lemma merged_id: "distinct (map fst u) \<Longrightarrow> row_id j = row_id u \<Longrightarrow> row_id (jsonb_concat j u) = row_id u"
  by (simp add: row_id_def jsonb_lookup split: option.splits)

lemma merged_ids: "distinct (map fst u) \<Longrightarrow> map row_id (merge_row u rs) = map row_id rs"
  by (induction rs) (simp_all add: merged_id)

lemma merged_member:
  "distinct (map fst u) \<Longrightarrow> distinct (map row_id rs) \<Longrightarrow> r \<in> set (merge_row u rs) \<Longrightarrow>
     (row_id r = row_id u \<longrightarrow> (\<exists>j \<in> set rs. row_id j = row_id u \<and> r = jsonb_concat j u))
     \<and> (row_id r \<noteq> row_id u \<longrightarrow> r \<in> set rs)"
  by (induction rs) (auto simp: merged_id split: if_splits, metis image_eqI)

lemma updated_rows:
  assumes "distinct (map fst u)" "distinct (map row_id rs)"
  shows "distinct (map row_id (jobs_page_update p rs u))"
    and "r \<in> set (jobs_page_update p rs u) \<Longrightarrow>
      (if row_id r = row_id u then r = u \<or> (\<exists>j. r = jsonb_concat j u) else r \<in> set rs)"
proof -
  show "distinct (map row_id (jobs_page_update p rs u))"
    using assms by (auto simp: jobs_page_update_def merged_ids has_row_def list_ex_iff)
  assume r: "r \<in> set (jobs_page_update p rs u)"
  show "if row_id r = row_id u then r = u \<or> (\<exists>j. r = jsonb_concat j u) else r \<in> set rs"
  proof (cases "has_row rs u")
    case True
    then show ?thesis using merged_member [OF assms, of r] r by (auto simp: jobs_page_update_def)
  next
    case False
    then have "\<forall>j \<in> set rs. row_id j \<noteq> row_id u" by (auto simp: has_row_def list_ex_iff)
    then show ?thesis using r False by (auto simp: jobs_page_update_def split: if_splits)
  qed
qed



section \<open>The cards\<close>

text \<open>The active statuses of the job service that the card \<open>Active jobs\<close> does not count.\<close>

theorem overview_misses_active_jobs:
  "filter (\<lambda>s. isActiveGeneration s \<and> status_name s \<notin> set overview_active) JOB_STATUSES
     = [VALIDATION_REPORT, POST_COMMIT_VERIFY]"
  by code_simp

section \<open>Pages without events\<close>

lemma no_subscription: "Subscribe ps \<notin> set (fst (hook_run url [] evs h))"
proof (induction evs arbitrary: h)
  case Nil
  then show ?case by simp
next
  case (Cons ev evs)
  have "Subscribe ps \<notin> set (fst (hook_step url [] ev h))"
    by (cases ev) (auto simp: hook_step_def connect_def split: option.splits)
  then show ?case using Cons by (simp add: split_beta)
qed

text \<open>
  The pages of locks and tiers open the WebSocket without projects. For a viewer the server then sends no
  job events, so the pages, which call themselves live, do not change.
\<close>

theorem viewer_page_not_live:
  assumes "authenticate x ae q s = (Granted p, s1)" "ap_role p = viewer" "i \<notin> so_id ` set hub"
    and "route_ws x ae q i hub s = (r, hub', s')" "truthy (extractProjectId ev)"
  shows "Subscribe ps \<notin> set (fst (hook_run url [] evs (snd (hook_start url)))) \<and> i \<notin> set (hub_broadcast ev hub')"
  using no_subscription fresh_viewer_sees_no_jobs [OF assms] by blast

end
