(* ===== verification/Spec2Isabelle.thy ===== *)
theory Spec2Isabelle
  imports Prelude Job_Status Error_Catalog Fencing Path_Security Semver Lock_Service Lock_Contract
    Lock_Safety World Dependency_Gate Scheduler Alerts Secrets Job_Service Job_Frames Job_Steps
    Job_Termination Job_Safety Job_Slots Job_Claims Job_Outcomes
    Json_Text Tscn_Merge Merge Merge_Outbox Merge_Claims Js_Number Tier_Probe Dead_Letter Health_Worker
    Health_Claims Rate_Limit Ws_Hub Auth Auth_Routes Auth_Claims Uid Uid_Tables
    Uid_Files Uid_Claims Uid_Rows Sandbox Sandbox_Claims Extensions
    Extension_Claims Base64 Config Provision Config_Claims Uri Smtp Smtp_Claims
    Job_Routes Admission Job_Route_Claims Object_Store Store_Claims Admin_Routes Admin_Claims App App_Claims
    Github Dashboard Mcp Client_Claims Migrations Worker_Queues Worker_Claims Worker_Safety Worker_Scripts Pages
    Page_Claims
begin

text \<open>
  Verification development of Vibrato PGOS, a service that generates Godot assets: an orchestrator takes
  jobs over HTTP, sends them to GitHub workflows on two tiers of workers, guards each project with locks and
  fencing tokens, and applies the results. The TypeScript packages under \<open>packages/\<close> are modelled:
  \<open>shared\<close>, \<open>orchestrator\<close>, \<open>sandbox-service\<close>, \<open>dashboard\<close> and \<open>mcp-server\<close>. Paths below are relative to
  \<open>packages/\<close>, and \<open>o/\<close> stands for \<open>orchestrator/src/\<close>.

  How the parts interact. A request passes the rate limit (\<open>Rate_Limit\<close>), the hooks that authenticate it
  and check its role (\<open>Auth\<close>, \<open>Auth_Routes\<close>, \<open>Admission\<close>) and the handler of its route, which calls a service.
  The job service (\<open>Job_Service\<close>) asks the dependency gate, takes locks from the lock service, chooses a
  tier, seals credentials into an envelope and dispatches a workflow. Workers report back with a callback
  token; queue workers (\<open>Worker_Queues\<close>) scan for silent jobs, drain the outbox of scene patches, resolve
  duplicate UIDs and send alerts. Events go to the WebSocket hub, and the dashboard merges them into its pages.

  Conventions. A class with tables or keys in Redis is a record; a method is a function from the state to an
  outcome (\<open>Ret\<close> or \<open>Throw\<close>) and the new state, since what was written before an exception stays written.
  \<open>world\<close> (\<open>World\<close>) holds what the services share: the locks in Redis and Postgres, projects, jobs, dead
  letters, credentials, tier health, and logs of what was sent out (events, queue jobs, workflow calls,
  webhooks, mails). \<open>auth_state\<close>, \<open>merge_state\<close>, \<open>uid_state\<close>, \<open>health_state\<close> and the states of the routes extend it.
  Time is a field of the state that only the environment moves; random values and the answers of the
  network are functions of a counter (\<open>draw\<close>). Postgres transactions fail on a flag, Redis commands of one
  script are one step. Bodies of requests are given after their schema, \<open>None\<close> when the schema rejects them,
  except for the configuration, whose schema is modelled. Strings are lists of 8-bit code units.

  Foundations
    \<^item> \<open>Prelude\<close>: JavaScript strings, JSON values, outcomes, tables; \<open>Json_Text\<close>, \<open>Js_Number\<close>, \<open>Base64\<close>, \<open>Uri\<close>: the
      library functions of JavaScript and Node that the sources call, with their round trips.
    \<^item> \<open>Job_Status\<close>, \<open>Error_Catalog\<close>, \<open>Fencing\<close>, \<open>Path_Security\<close>, \<open>Semver\<close>: \<open>shared/src/\<close> \<open>job-status.ts\<close>, \<open>errors.ts\<close>,
      \<open>fencing.ts\<close>, \<open>path-security.ts\<close>, \<open>semver-range.ts\<close>. Shown: which statuses are final and what lies on every
      path to a completed job; keys of artifacts stay in the folder of their job; ranges of versions.
    \<^item> \<open>Config\<close>, \<open>Config_Claims\<close>: \<open>o/config\<close>; what a configuration that passed the production gate guarantees.
    \<^item> \<open>Migrations\<close>: \<open>o/db\<close>; atomic transactions, and migrations that can be repeated after any failure.

  Locks
    \<^item> \<open>Lock_Service\<close> (\<open>o/services/lock-service.ts\<close> and the scripts of \<open>o/lua\<close>), \<open>Lock_Contract\<close> (the locale of
      leases over any store), \<open>Lock_Safety\<close> (its interpretation, the invariant between Redis and the ledger).
      Shown: no two holders at one time, over any sequence of requests and clock steps; tokens of a
      reclaimed lease are never accepted again.

  Jobs
    \<^item> \<open>Dependency_Gate\<close>, \<open>Scheduler\<close>, \<open>Alerts\<close>, \<open>Secrets\<close>, \<open>Job_Service\<close>: \<open>o/services/\<close> \<open>dependency-gate.ts\<close>,
      \<open>scheduler-service.ts\<close>, \<open>alert-service.ts\<close>, \<open>secret-service.ts\<close>, \<open>job-service.ts\<close>. The asynchronous methods of the
      job service call each other; each is split at its calls and \<open>run\<close> connects the pieces with a bound on
      the depth. \<open>Job_Termination\<close> computes a bound that is always enough (\<open>call_bound\<close>: from the number of jobs
      and the attempts they have left) and shows that a larger one changes nothing.
    \<^item> \<open>Job_Frames\<close>, \<open>Job_Steps\<close> (what a step changes; the locale \<open>service_relation\<close>, by which a relation that every
      step respects holds of every call), \<open>Job_Safety\<close>, \<open>Job_Slots\<close>, \<open>Job_Claims\<close>, \<open>Job_Outcomes\<close>. Shown over any
      sequence of calls: finished jobs stay finished, a dependency gates every dispatch, one active job per
      project, bounded dispatches; of single calls: released locks, dead letters, refused workers.
    \<^item> \<open>Job_Routes\<close>, \<open>Job_Route_Claims\<close>: \<open>o/routes/\<close> \<open>jobs.ts\<close>, \<open>locks.ts\<close>, \<open>secrets.ts\<close>; the HTTP interface refines the
      service, and a worker's token reaches its own job only.

  Workers of the orchestrator
    \<^item> \<open>Health_Worker\<close>, \<open>Health_Claims\<close>, \<open>Tier_Probe\<close>, \<open>Dead_Letter\<close>: \<open>o/workers/health-worker.ts\<close> and the services it
      runs. The scan for stale locks ends within a bound on nested job calls (\<open>scan_bound\<close>).
    \<^item> \<open>Worker_Queues\<close>, \<open>Worker_Claims\<close>, \<open>Worker_Safety\<close>: the queues, the schedule and the workers over one world; every
      job has a worker, but one whose id the queue still keeps is lost. Any sequence of queue jobs ends within the
      bound \<open>scan_bound\<close> of the first job table and loses none of its rows.
    \<^item> \<open>Github\<close>, \<open>Provision\<close>, \<open>Smtp\<close>, \<open>Smtp_Claims\<close>: \<open>o/services/\<close> \<open>github-service.ts\<close>, \<open>ssh-provision.ts\<close>, \<open>smtp-client.ts\<close>.
    \<^item> \<open>Worker_Scripts\<close>: \<open>workers/scripts/lib/godot-semver.mjs\<close>, the version checks on a worker.

  Contents
    \<^item> \<open>Tscn_Merge\<close>, \<open>Merge\<close>, \<open>Merge_Outbox\<close>, \<open>Merge_Claims\<close>: \<open>o/services/tscn-merge.ts\<close>, \<open>merge-*.ts\<close> and
      \<open>o/workers/merge-outbox-worker.ts\<close>. Shown: parsing and printing, patches applied twice, dispatch at most
      once, scripts for admins only.
    \<^item> \<open>Uid\<close>, \<open>Uid_Tables\<close>, \<open>Uid_Files\<close>, \<open>Uid_Rows\<close>, \<open>Uid_Claims\<close>: \<open>o/services/uid-*.ts\<close>; the resolution of duplicates in
      the tables and in the files, and what the two together lose.
    \<^item> \<open>Object_Store\<close>, \<open>Store_Claims\<close>: \<open>o/services/s3-service.ts\<close> and \<open>o/routes/artifacts.ts\<close>.

  Access
    \<^item> \<open>Auth\<close>, \<open>Auth_Routes\<close>, \<open>Auth_Claims\<close>, \<open>Rate_Limit\<close>, \<open>Ws_Hub\<close>: tokens, sessions, revocation, the sliding window
      as a refinement of a list of times, and who gets which event.
    \<^item> \<open>Extensions\<close>, \<open>Extension_Claims\<close>, \<open>Sandbox\<close>, \<open>Sandbox_Claims\<close>: \<open>o/services/extension-service.ts\<close> with the sandbox
      service of \<open>sandbox-service/src\<close>; the network is open for approved extensions and approved hosts only.
    \<^item> \<open>Admin_Routes\<close>, \<open>Admin_Claims\<close>, \<open>App\<close>, \<open>App_Claims\<close>: the other routes, error answers and the start of the process.

  Clients
    \<^item> \<open>Dashboard\<close>, \<open>Pages\<close>, \<open>Page_Claims\<close>, \<open>Mcp\<close>, \<open>Client_Claims\<close>: \<open>dashboard/src\<close> and \<open>mcp-server/src\<close>: requests and
      errors of both clients, the reconnecting WebSocket, the live rows of the pages.

  Parameters. Code that is not in the repository is an argument of the definitions that use it: encryption,
  hashing, signatures and key derivation; the S3 client and its signer; the Octokit client; BullMQ; Godot; mail
  servers and sockets; the checks of zod for mail addresses and UUIDs; \<open>new URL\<close>; Fastify's parser of bodies;
  the browser. A hypothesis on one of them states what its documentation says, and each property that has
  such a hypothesis is applied to a concrete function by its witness.

  Not modelled. The layout of the pages and React; the wiring of Redis, Postgres and Fastify; logging and
  signal handlers; \<open>shared/src/stats.ts\<close> and \<open>workers/scripts/mad-analyze.mjs\<close>, whose results depend on the rounding
  of doubles; \<open>workers/scripts/lib/tscn-merge.mjs\<close>, a copy of \<open>tscn-merge.ts\<close>; the scripts under \<open>scripts/\<close>, which
  check the text of the repository or drive a live deployment; the Go agents, the shell scripts and the
  GitHub workflows. Two asynchronous requests interleave at the level of whole requests, except where a
  theorem says otherwise; a failure of Postgres or Redis in the middle of a handler is modelled where the
  handler has a branch for it.
\<close>

end
